(* ===== verification/Py_Values.thy ===== *)
theory Py_Values
  imports Complex_Main "HOL-Library.AList" "HOL-Library.List_Lexorder" "HOL-Library.Char_ord"
    "HOL-Library.Product_Lexorder"
begin

text \<open>
  The part of Python the modelled code relies on: dynamically typed JSON-like values, the string
  methods, truth values, and dictionaries that remember insertion order.

  A \<open>str\<close> is an Isabelle \<open>string\<close>, so code points are limited to Latin-1; \<open>py_isspace\<close> and
  \<open>py_lower\<close> are exact on that range.  A finite float is the rational it denotes; a float value
  additionally carries the text that \<open>str\<close> prints for it, because the shortest-digits algorithm
  of \<open>repr\<close> is not modelled.  A \<open>dict\<close> is an association list in insertion order: lookup is
  \<open>map_of\<close>, \<open>d[k] = v\<close> is \<open>AList.update\<close> (an existing key keeps its place, a new one goes
  last) and \<open>del\<close> / \<open>pop\<close> is \<open>AList.delete\<close>.
\<close>

section \<open>Collections of facts\<close>

named_theorems py_simps "unfolding rules of the Python string and value operations"
named_theorems inv_intros "preservation of the component invariants"

section \<open>Strings\<close>

definition py_isspace :: "char \<Rightarrow> bool" where
  "py_isspace c \<longleftrightarrow> (let n = (of_char c :: nat) in
     9 \<le> n \<and> n \<le> 13 \<or> 28 \<le> n \<and> n \<le> 32 \<or> n = 133 \<or> n = 160)"

definition py_lower_char :: "char \<Rightarrow> char" where
  "py_lower_char c = (let n = (of_char c :: nat) in
     if 65 \<le> n \<and> n \<le> 90 \<or> 192 \<le> n \<and> n \<le> 222 \<and> n \<noteq> 215 then char_of (n + 32) else c)"

definition py_lower :: "string \<Rightarrow> string" where
  "py_lower s = map py_lower_char s"

definition py_lstrip :: "string \<Rightarrow> string" where
  "py_lstrip s = dropWhile py_isspace s"

definition py_strip :: "string \<Rightarrow> string" where
  "py_strip s = rev (dropWhile py_isspace (rev (dropWhile py_isspace s)))"

definition starts_with :: "string \<Rightarrow> string \<Rightarrow> bool" where
  "starts_with s p \<longleftrightarrow> take (length p) s = p"

definition ends_with :: "string \<Rightarrow> string \<Rightarrow> bool" where
  "ends_with s p \<longleftrightarrow> length p \<le> length s \<and> drop (length s - length p) s = p"

text \<open>\<open>p in s\<close> on strings.\<close>

fun py_in :: "string \<Rightarrow> string \<Rightarrow> bool" where
  "py_in p [] = (p = [])"
| "py_in p (c # s) = (starts_with (c # s) p \<or> py_in p s)"

text \<open>\<open>str.splitlines()\<close>: the line breaks of Latin-1, with a carriage return and line feed as one.\<close>

definition is_linebreak :: "char \<Rightarrow> bool" where
  "is_linebreak c \<longleftrightarrow> (let n = (of_char c :: nat) in 10 \<le> n \<and> n \<le> 13 \<or> 28 \<le> n \<and> n \<le> 30 \<or> n = 133)"

fun splitlines_from :: "string \<Rightarrow> string \<Rightarrow> string list" where
  "splitlines_from cur [] = (if cur = [] then [] else [rev cur])"
| "splitlines_from cur [c] = (if is_linebreak c then [rev cur] else [rev (c # cur)])"
| "splitlines_from cur (c # d # s) =
     (if is_linebreak c then
        if (of_char c :: nat) = 13 \<and> (of_char d :: nat) = 10 then rev cur # splitlines_from [] s
        else rev cur # splitlines_from [] (d # s)
      else splitlines_from (c # cur) (d # s))"

definition py_splitlines :: "string \<Rightarrow> string list" where
  "py_splitlines s = splitlines_from [] s"

text \<open>\<open>sep.join(xs)\<close>.\<close>

fun py_join :: "string \<Rightarrow> string list \<Rightarrow> string" where
  "py_join sep [] = []"
| "py_join sep [x] = x"
| "py_join sep (x # y # ys) = x @ sep @ py_join sep (y # ys)"

fun nat_digits :: "nat \<Rightarrow> string" where
  "nat_digits n = (if n < 10 then [char_of (48 + n)]
     else nat_digits (n div 10) @ [char_of (48 + n mod 10)])"

declare nat_digits.simps [simp del]

definition int_str :: "int \<Rightarrow> string" where
  "int_str i = (if i < 0 then ''-'' @ nat_digits (nat (- i)) else nat_digits (nat i))"

section \<open>Values\<close>

datatype pyfloat = Fin rat | PosInf | NegInf | NaN

datatype pyval =
    PNone
  | PBool bool
  | PInt int
  | PFloat pyfloat string
  | PStr string
  | PList "pyval list"
  | PDict "(string \<times> pyval) list"

type_synonym pydict = "(string \<times> pyval) list"

text \<open>\<open>bool(v)\<close>.\<close>

fun truthy :: "pyval \<Rightarrow> bool" where
  "truthy PNone = False"
| "truthy (PBool b) = b"
| "truthy (PInt i) = (i \<noteq> 0)"
| "truthy (PFloat f _) = (f \<noteq> Fin 0)"
| "truthy (PStr s) = (s \<noteq> [])"
| "truthy (PList xs) = (xs \<noteq> [])"
| "truthy (PDict d) = (d \<noteq> [])"

text \<open>\<open>a or b\<close>.\<close>

definition py_or :: "pyval \<Rightarrow> pyval \<Rightarrow> pyval" where
  "py_or a b = (if truthy a then a else b)"

text \<open>\<open>d.get(k)\<close> and \<open>d.get(k, default)\<close>; \<open>k in d\<close>.\<close>

definition dget :: "pydict \<Rightarrow> string \<Rightarrow> pyval" where
  "dget d k = (case map_of d k of None \<Rightarrow> PNone | Some v \<Rightarrow> v)"

definition dget_or :: "pydict \<Rightarrow> string \<Rightarrow> pyval \<Rightarrow> pyval" where
  "dget_or d k dflt = (case map_of d k of None \<Rightarrow> dflt | Some v \<Rightarrow> v)"

definition has_key :: "pydict \<Rightarrow> string \<Rightarrow> bool" where
  "has_key d k \<longleftrightarrow> map_of d k \<noteq> None"

text \<open>\<open>isinstance(v, str)\<close> and the rest; \<open>bool\<close> is a subclass of \<open>int\<close>.\<close>

fun is_str :: "pyval \<Rightarrow> bool" where
  "is_str (PStr _) = True"
| "is_str _ = False"

fun is_bool :: "pyval \<Rightarrow> bool" where
  "is_bool (PBool _) = True"
| "is_bool _ = False"

fun is_int :: "pyval \<Rightarrow> bool" where
  "is_int (PInt _) = True"
| "is_int (PBool _) = True"
| "is_int _ = False"

fun is_list :: "pyval \<Rightarrow> bool" where
  "is_list (PList _) = True"
| "is_list _ = False"

fun is_dict :: "pyval \<Rightarrow> bool" where
  "is_dict (PDict _) = True"
| "is_dict _ = False"

text \<open>\<open>v == n\<close> for an integer constant: \<open>True == 1\<close> and \<open>1.0 == 1\<close> hold in Python.\<close>

fun py_eq_int :: "pyval \<Rightarrow> int \<Rightarrow> bool" where
  "py_eq_int (PInt i) n = (i = n)"
| "py_eq_int (PBool b) n = ((if b then 1 else 0) = n)"
| "py_eq_int (PFloat f _) n = (f = Fin (of_int n))"
| "py_eq_int _ _ = False"

text \<open>\<open>int(v)\<close> of a value that passed \<open>isinstance(v, int)\<close>.\<close>

fun int_of_val :: "pyval \<Rightarrow> int" where
  "int_of_val (PInt i) = i"
| "int_of_val (PBool b) = (if b then 1 else 0)"
| "int_of_val _ = 0"

text \<open>The text of a string value, empty for other values.\<close>

fun str_of_val :: "pyval \<Rightarrow> string" where
  "str_of_val (PStr s) = s"
| "str_of_val _ = []"

text \<open>The entries of a dictionary value and the items of a list value, empty for other values.\<close>

fun dict_of_val :: "pyval \<Rightarrow> pydict" where
  "dict_of_val (PDict d) = d"
| "dict_of_val _ = []"

fun list_of_val :: "pyval \<Rightarrow> pyval list" where
  "list_of_val (PList xs) = xs"
| "list_of_val _ = []"

section \<open>Text of a value\<close>

definition hex_digit :: "nat \<Rightarrow> char" where
  "hex_digit n = (if n < 10 then char_of (48 + n) else char_of (87 + n))"

text \<open>One character inside a quoted \<open>repr\<close>.\<close>

definition repr_char :: "char \<Rightarrow> char \<Rightarrow> string" where
  "repr_char q c = (let n = (of_char c :: nat) in
     if c = q \<or> n = 92 then [char_of (92 :: nat), c]
     else if n = 9 then [char_of (92 :: nat), CHR ''t'']
     else if n = 10 then [char_of (92 :: nat), CHR ''n'']
     else if n = 13 then [char_of (92 :: nat), CHR ''r'']
     else if n < 32 \<or> 127 \<le> n \<and> n \<le> 160 \<or> n = 173
       then [char_of (92 :: nat), CHR ''x'', hex_digit (n div 16), hex_digit (n mod 16)]
     else [c])"

definition repr_str :: "string \<Rightarrow> string" where
  "repr_str s = (let sq = char_of (39 :: nat); dq = char_of (34 :: nat);
     q = (if sq \<in> set s \<and> dq \<notin> set s then dq else sq)
     in [q] @ concat (map (repr_char q) s) @ [q])"

lemma size_list_mem: "v \<in> set vs \<Longrightarrow> size v < Suc (size_list size vs)"
  by (induction vs) auto

lemma size_dict_mem:
  "kv \<in> set d \<Longrightarrow> size (snd kv) < Suc (size_list (size_prod (\<lambda>_. 0) size) d)"
  by (induction d) auto

function py_repr :: "pyval \<Rightarrow> string" where
  "py_repr PNone = ''None''"
| "py_repr (PBool b) = (if b then ''True'' else ''False'')"
| "py_repr (PInt i) = int_str i"
| "py_repr (PFloat _ t) = t"
| "py_repr (PStr s) = repr_str s"
| "py_repr (PList xs) = ''['' @ py_join '', '' (map py_repr xs) @ '']''"
| "py_repr (PDict d) = ''{'' @ py_join '', ''
     (map (\<lambda>kv. repr_str (fst kv) @ '': '' @ py_repr (snd kv)) d) @ ''}''"
  by pat_completeness auto
termination
  by (relation "measure size") (auto simp: size_list_mem size_dict_mem)

text \<open>\<open>str(v)\<close>.\<close>

fun py_str :: "pyval \<Rightarrow> string" where
  "py_str (PStr s) = s"
| "py_str v = py_repr v"

section \<open>JSON text\<close>

text \<open>
  \<open>json.dumps(v, sort_keys=srt, separators=(",", ":"))\<close>, with the default \<open>ensure_ascii\<close>: the
  result is ASCII, so its length is its number of UTF-8 bytes.
\<close>

definition json_char :: "char \<Rightarrow> string" where
  "json_char c = (let n = (of_char c :: nat) in
     if n = 34 \<or> n = 92 then [char_of (92 :: nat), c]
     else if n = 8 then [char_of (92 :: nat), CHR ''b'']
     else if n = 9 then [char_of (92 :: nat), CHR ''t'']
     else if n = 10 then [char_of (92 :: nat), CHR ''n'']
     else if n = 12 then [char_of (92 :: nat), CHR ''f'']
     else if n = 13 then [char_of (92 :: nat), CHR ''r'']
     else if n < 32 \<or> 127 \<le> n
       then [char_of (92 :: nat), CHR ''u'', CHR ''0'', CHR ''0'', hex_digit (n div 16), hex_digit (n mod 16)]
     else [c])"

definition json_str :: "string \<Rightarrow> string" where
  "json_str s = [char_of (34 :: nat)] @ concat (map json_char s) @ [char_of (34 :: nat)]"

definition json_float :: "pyfloat \<Rightarrow> string \<Rightarrow> string" where
  "json_float f t = (case f of Fin _ \<Rightarrow> t | PosInf \<Rightarrow> ''Infinity'' | NegInf \<Rightarrow> ''-Infinity'' | NaN \<Rightarrow> ''NaN'')"

text \<open>Python compares strings by code point, which is the lexicographic order of \<open>char\<close> lists.\<close>

definition sort_keys :: "(string \<times> 'v) list \<Rightarrow> (string \<times> 'v) list" where
  "sort_keys d = sort_key fst d"

function json_dumps :: "bool \<Rightarrow> pyval \<Rightarrow> string" where
  "json_dumps srt PNone = ''null''"
| "json_dumps srt (PBool b) = (if b then ''true'' else ''false'')"
| "json_dumps srt (PInt i) = int_str i"
| "json_dumps srt (PFloat f t) = json_float f t"
| "json_dumps srt (PStr s) = json_str s"
| "json_dumps srt (PList xs) = ''['' @ py_join '','' (map (json_dumps srt) xs) @ '']''"
| "json_dumps srt (PDict d) = ''{'' @ py_join '',''
     (map (\<lambda>kv. json_str (fst kv) @ '':'' @ snd kv)
        ((if srt then sort_keys else id) (map (\<lambda>kv. (fst kv, json_dumps srt (snd kv))) d))) @ ''}''"
  by pat_completeness auto
termination
  by (relation "measure (\<lambda>(_, v). size v)") (auto simp: size_list_mem size_dict_mem)

text \<open>Whether \<open>json.dumps(v, allow_nan=False)\<close> raises \<open>ValueError\<close>.\<close>

function json_has_nan :: "pyval \<Rightarrow> bool" where
  "json_has_nan (PFloat f _) = (case f of Fin _ \<Rightarrow> False | _ \<Rightarrow> True)"
| "json_has_nan (PList xs) = list_ex json_has_nan xs"
| "json_has_nan (PDict d) = list_ex (\<lambda>kv. json_has_nan (snd kv)) d"
| "json_has_nan PNone = False"
| "json_has_nan (PBool _) = False"
| "json_has_nan (PInt _) = False"
| "json_has_nan (PStr _) = False"
  by pat_completeness auto
termination
  by (relation "measure size") (auto simp: size_list_mem size_dict_mem)

section \<open>Shared lemmas\<close>

lemma dget_update [simp]: "dget (AList.update k v d) k' = (if k = k' then v else dget d k')"
  by (simp add: dget_def update_conv')

lemma dget_Nil [simp]: "dget [] k = PNone"
  by (simp add: dget_def)

lemma dget_Cons [simp]: "dget ((k, v) # d) k' = (if k = k' then v else dget d k')"
  by (simp add: dget_def)

lemma truthy_py_or [simp]: "truthy (py_or a b) \<longleftrightarrow> truthy a \<or> truthy b"
  by (simp add: py_or_def)

lemma py_strip_Nil [simp]: "py_strip [] = []"
  by (simp add: py_strip_def)

lemma dropWhile_hd_False: "dropWhile P xs = y # ys \<Longrightarrow> \<not> P y"
  by (induction xs) (auto split: if_splits)

lemma dropWhile_idem_append:
  "dropWhile P (xs @ ys) = (if (\<forall>x \<in> set xs. P x) then dropWhile P ys else dropWhile P xs @ ys)"
  by (induction xs) auto

lemma set_py_strip: "set (py_strip s) \<subseteq> set s"
  by (auto simp: py_strip_def dest!: set_dropWhileD)

end
