(* ===== verification/Ordered_Dict.thy ===== *)
theory Ordered_Dict
  imports Py_Values "HOL-Library.While_Combinator"
begin

text \<open>
  \<open>collections.OrderedDict\<close> as the caches use it, and the contract of a loop that evicts until
  a bound holds.  \<open>od_set\<close> keeps the place of an existing key, \<open>od_pop\<close> removes a key,
  \<open>popitem(last=False)\<close> is \<open>tl\<close> and \<open>od_move_to_end\<close> moves a present key to the newest end.
\<close>

section \<open>Ordered dictionaries\<close>

type_synonym ('k, 'v) odict = "('k \<times> 'v) list"

abbreviation od_keys :: "('k, 'v) odict \<Rightarrow> 'k list" where
  "od_keys d \<equiv> map fst d"

abbreviation od_set :: "'k \<Rightarrow> 'v \<Rightarrow> ('k, 'v) odict \<Rightarrow> ('k, 'v) odict" where
  "od_set k v d \<equiv> AList.update k v d"

abbreviation od_pop :: "'k \<Rightarrow> ('k, 'v) odict \<Rightarrow> ('k, 'v) odict" where
  "od_pop k d \<equiv> AList.delete k d"

definition od_move_to_end :: "'k \<Rightarrow> ('k, 'v) odict \<Rightarrow> ('k, 'v) odict" where
  "od_move_to_end k d = (case map_of d k of None \<Rightarrow> d | Some v \<Rightarrow> od_set k v (od_pop k d))"

lemma map_of_None_iff_keys: "map_of d k = None \<longleftrightarrow> k \<notin> set (od_keys d)"
  by (auto simp: map_of_eq_None_iff)

lemma od_pop_keys: "od_keys (od_pop k d) = filter (\<lambda>k'. k' \<noteq> k) (od_keys d)"
  by (induction d) auto

lemma od_set_fresh: "k \<notin> set (od_keys d) \<Longrightarrow> od_set k v d = d @ [(k, v)]"
  by (induction d) auto

lemma od_pop_fresh: "k \<notin> set (od_keys d) \<Longrightarrow> od_pop k d = d"
  by (induction d) auto

lemma od_set_keys_present: "k \<in> set (od_keys d) \<Longrightarrow> od_keys (od_set k v d) = od_keys d"
  by (induction d) auto

lemma od_set_pop: "od_set k v (od_pop k d) = od_pop k d @ [(k, v)]"
  by (rule od_set_fresh) (simp add: od_pop_keys)

lemma distinct_od_pop [simp]: "distinct (od_keys d) \<Longrightarrow> distinct (od_keys (od_pop k d))"
  by (simp add: od_pop_keys)

lemma length_od_pop_le: "length (od_pop k d) \<le> length d"
  by (induction d) auto

lemma length_od_pop_present:
  "distinct (od_keys d) \<Longrightarrow> k \<in> set (od_keys d) \<Longrightarrow> Suc (length (od_pop k d)) = length d"
  by (induction d) (auto simp: od_pop_fresh)

lemma od_move_to_end_keys: "set (od_keys (od_move_to_end k d)) = set (od_keys d)"
proof (cases "map_of d k")
  case None
  then show ?thesis by (simp add: od_move_to_end_def)
next
  case (Some v)
  then have "k \<in> set (od_keys d)" by (metis map_of_None_iff_keys option.distinct(1))
  with Some show ?thesis by (auto simp: od_move_to_end_def od_set_pop od_pop_keys)
qed

lemma distinct_od_move_to_end: "distinct (od_keys d) \<Longrightarrow> distinct (od_keys (od_move_to_end k d))"
  by (auto simp: od_move_to_end_def od_set_pop od_pop_keys split: option.splits)

lemma map_of_od_move_to_end: "map_of (od_move_to_end k d) = map_of d"
  by (auto simp: od_move_to_end_def fun_eq_iff update_conv' delete_conv' split: option.splits)

section \<open>Eviction loops\<close>

text \<open>
  The contract between a cache and its eviction loop \<open>while full: evict\<close>: an eviction keeps the
  invariant and shrinks a size.  The loop then stops, in a state that satisfies the invariant and
  is not full, and whatever each eviction keeps is kept by the whole loop.
\<close>

locale eviction =
  fixes full :: "'s \<Rightarrow> bool"
    and evict :: "'s \<Rightarrow> 's"
    and csize :: "'s \<Rightarrow> nat"
    and cinv :: "'s \<Rightarrow> bool"
  assumes evict_smaller: "cinv s \<Longrightarrow> full s \<Longrightarrow> csize (evict s) < csize s"
    and evict_inv: "cinv s \<Longrightarrow> full s \<Longrightarrow> cinv (evict s)"
begin

lemma evict_loop_total: "cinv s \<Longrightarrow> \<exists>t. while_option full evict s = Some t"
  by (rule measure_while_option_Some [where P = cinv and f = csize, THEN ex_forward])
    (auto intro: evict_inv evict_smaller)

lemma evict_loop_rule:
  assumes "cinv s" and "P s" and "\<And>u. cinv u \<Longrightarrow> P u \<Longrightarrow> full u \<Longrightarrow> P (evict u)"
  shows "cinv (while full evict s) \<and> P (while full evict s) \<and> \<not> full (while full evict s)"
  by (rule while_rule [where P = "\<lambda>u. cinv u \<and> P u" and r = "measure csize"])
    (use assms in \<open>auto intro: evict_inv evict_smaller\<close>)

lemma evict_loop_done: "cinv s \<Longrightarrow> cinv (while full evict s) \<and> \<not> full (while full evict s)"
  using evict_loop_rule [where P = "\<lambda>_. True"] by blast

end

end
