(* ===== verification/Trace_Ring.thy ===== *)
theory Trace_Ring
  imports Ordered_Dict
begin

text \<open>
  The per-query trace ring (\<open>src/src/minni/trace.py\<close>): a bounded ordered dictionary of trace
  entries with a byte account, each entry bound to the principal that created it.  The state is
  the two dictionaries and the running total; each method body is one atomic step.

  The capacity is a natural number (with a negative one the trimming loop of the code runs into
  \<open>popitem\<close> on an empty dictionary).  An entry is a JSON-like dictionary, so the fallbacks of
  \<open>_entry_size\<close> for values \<open>json.dumps\<close> rejects are not reached.

  Results: the byte account and both bounds hold after any run (\<open>tr_run_accounting\<close>); an entry is
  shown to its owner only and never with its owner mark (\<open>tr_owner_isolation\<close>); a trace stored under
  a fresh id is retained (\<open>tr_put_fresh_retained\<close>), while storing again under a present id may
  evict the trace just stored (\<open>tr_reput_evicts_itself\<close>).
\<close>

section \<open>State and operations\<close>

record trace_ring =
  tr_capacity :: nat
  tr_max_bytes :: int
  tr_entries :: "(string, pydict) odict"
  tr_sizes :: "(string, int) odict"
  tr_bytes :: int

definition tr_new :: "nat \<Rightarrow> int \<Rightarrow> trace_ring" where
  "tr_new capacity max_bytes = \<lparr>tr_capacity = capacity, tr_max_bytes = max_bytes,
     tr_entries = [], tr_sizes = [], tr_bytes = 0\<rparr>"

definition tr_entry_size :: "pydict \<Rightarrow> int" where
  "tr_entry_size entry = int (length (json_dumps False (PDict entry)))"

definition tr_pop_oldest :: "trace_ring \<Rightarrow> trace_ring" where
  "tr_pop_oldest r = (case tr_entries r of
     [] \<Rightarrow> r
   | (old_id, _) # rest \<Rightarrow> r\<lparr>tr_entries := rest,
       tr_bytes := tr_bytes r - (case map_of (tr_sizes r) old_id of None \<Rightarrow> 0 | Some n \<Rightarrow> n),
       tr_sizes := od_pop old_id (tr_sizes r)\<rparr>)"

definition tr_over_capacity :: "trace_ring \<Rightarrow> bool" where
  "tr_over_capacity r \<longleftrightarrow> tr_capacity r < length (tr_entries r)"

definition tr_over_bytes :: "trace_ring \<Rightarrow> bool" where
  "tr_over_bytes r \<longleftrightarrow> tr_max_bytes r < tr_bytes r \<and> 1 < length (tr_entries r)"

definition tr_trim :: "trace_ring \<Rightarrow> trace_ring" where
  "tr_trim r = while tr_over_bytes tr_pop_oldest (while tr_over_capacity tr_pop_oldest r)"

definition tr_mark_owner :: "string option \<Rightarrow> pydict \<Rightarrow> pydict" where
  "tr_mark_owner owner stored = (case owner of None \<Rightarrow> stored | Some a \<Rightarrow> od_set ''_owner'' (PStr a) stored)"

definition tr_stored :: "string \<Rightarrow> pydict \<Rightarrow> string option \<Rightarrow> int \<Rightarrow> pydict" where
  "tr_stored trace_id entry owner max_bytes =
    (let stored = tr_mark_owner owner (od_set ''trace_id'' (PStr trace_id) entry)
     in if max_bytes < tr_entry_size stored
        then tr_mark_owner owner
          [(''trace_id'', PStr trace_id), (''degraded'', PBool True),
           (''reason'', PStr ''trace entry exceeded max_bytes''),
           (''query'', dget entry ''query''), (''timing'', dget_or entry ''timing'' (PDict [])),
           (''final_ordering'', dget_or entry ''final_ordering'' (PList []))]
        else stored)"

definition tr_put :: "string \<Rightarrow> pydict \<Rightarrow> string option \<Rightarrow> trace_ring \<Rightarrow> trace_ring" where
  "tr_put trace_id entry owner r =
    (let stored = tr_stored trace_id entry owner (tr_max_bytes r);
         size = tr_entry_size stored;
         r = (if trace_id \<in> set (od_keys (tr_entries r))
              then r\<lparr>tr_bytes := tr_bytes r - (case map_of (tr_sizes r) trace_id of None \<Rightarrow> 0 | Some n \<Rightarrow> n),
                     tr_sizes := od_pop trace_id (tr_sizes r)\<rparr>
              else r)
     in tr_trim (r\<lparr>tr_entries := od_set trace_id stored (tr_entries r),
                   tr_sizes := od_set trace_id size (tr_sizes r),
                   tr_bytes := tr_bytes r + size\<rparr>))"

definition tr_strip_owner :: "pydict \<Rightarrow> pydict" where
  "tr_strip_owner entry = od_pop ''_owner'' entry"

definition tr_get :: "string \<Rightarrow> string option \<Rightarrow> trace_ring \<Rightarrow> trace_ring \<times> pydict option" where
  "tr_get trace_id requester r = (case map_of (tr_entries r) trace_id of
     None \<Rightarrow> (r, None)
   | Some entry \<Rightarrow>
       (let owner = dget entry ''_owner'' in
        if owner \<noteq> PNone \<and> requester \<noteq> None \<and> PStr (the requester) \<noteq> owner then (r, None)
        else (r\<lparr>tr_entries := od_move_to_end trace_id (tr_entries r)\<rparr>, Some (tr_strip_owner entry))))"

text \<open>
  \<open>_new_id\<close> draws random tokens until one is free; the draws are the argument, and \<open>None\<close> means
  that all the given draws collide.
\<close>

fun tr_new_id :: "string list \<Rightarrow> trace_ring \<Rightarrow> string option" where
  "tr_new_id [] r = None"
| "tr_new_id (hex # draws) r = (let trace_id = ''t'' @ hex in
     if trace_id \<notin> set (od_keys (tr_entries r)) then Some trace_id else tr_new_id draws r)"

definition tr_add :: "string list \<Rightarrow> pydict \<Rightarrow> string option \<Rightarrow> trace_ring \<Rightarrow> (trace_ring \<times> string) option" where
  "tr_add draws entry owner r = (case tr_new_id draws r of
     None \<Rightarrow> None
   | Some trace_id \<Rightarrow> Some (tr_put trace_id entry owner r, trace_id))"

section \<open>Runs and the accounting invariant\<close>

datatype tr_op = TPut string pydict "string option" | TGet string "string option"

fun tr_step :: "tr_op \<Rightarrow> trace_ring \<Rightarrow> trace_ring" where
  "tr_step (TPut trace_id entry owner) r = tr_put trace_id entry owner r"
| "tr_step (TGet trace_id requester) r = fst (tr_get trace_id requester r)"

definition tr_run :: "tr_op list \<Rightarrow> trace_ring \<Rightarrow> trace_ring" where
  "tr_run ops r = fold tr_step ops r"

definition tr_acct :: "trace_ring \<Rightarrow> bool" where
  "tr_acct r \<longleftrightarrow> distinct (od_keys (tr_entries r)) \<and> distinct (od_keys (tr_sizes r)) \<and>
     set (od_keys (tr_sizes r)) = set (od_keys (tr_entries r)) \<and>
     tr_bytes r = sum_list (map snd (tr_sizes r))"

definition tr_bounded :: "trace_ring \<Rightarrow> bool" where
  "tr_bounded r \<longleftrightarrow> length (tr_entries r) \<le> tr_capacity r \<and>
     (tr_bytes r \<le> tr_max_bytes r \<or> length (tr_entries r) \<le> 1)"

lemma sum_od_pop:
  "distinct (od_keys d) \<Longrightarrow> map_of d k = Some n \<Longrightarrow>
   sum_list (map snd (od_pop k d)) = sum_list (map snd d) - (n :: int)"
  by (induction d) (auto simp: od_pop_fresh dest: map_of_SomeD split: if_splits)

lemma tr_acct_pop [inv_intros]: "tr_acct r \<Longrightarrow> tr_acct (tr_pop_oldest r)"
proof (cases "tr_entries r")
  case Nil
  assume "tr_acct r"
  with Nil show ?thesis by (simp add: tr_pop_oldest_def)
next
  case (Cons e es)
  assume acct: "tr_acct r"
  obtain k s where e: "e = (k, s)" by (cases e)
  from acct Cons e have "k \<in> set (od_keys (tr_sizes r))" by (simp add: tr_acct_def)
  then obtain n where "map_of (tr_sizes r) k = Some n"
    by (metis map_of_None_iff_keys not_None_eq)
  with acct Cons e show ?thesis
    by (auto simp: tr_acct_def tr_pop_oldest_def sum_od_pop od_pop_keys)
qed

lemma tr_pop_frame [simp]:
  "tr_capacity (tr_pop_oldest r) = tr_capacity r" "tr_max_bytes (tr_pop_oldest r) = tr_max_bytes r"
  "tr_entries (tr_pop_oldest r) = tl (tr_entries r)"
  by (auto simp: tr_pop_oldest_def split: list.splits)

interpretation tr_cap: eviction tr_over_capacity tr_pop_oldest "\<lambda>r. length (tr_entries r)" tr_acct
  by unfold_locales (auto intro: inv_intros simp: tr_over_capacity_def)

interpretation tr_byt: eviction tr_over_bytes tr_pop_oldest "\<lambda>r. length (tr_entries r)" tr_acct
  by unfold_locales (auto intro: inv_intros simp: tr_over_bytes_def)

text \<open>What trimming keeps: the account, and a nonempty end of the entries unless the capacity is 0.\<close>

definition tr_suffix_of :: "trace_ring \<Rightarrow> trace_ring \<Rightarrow> bool" where
  "tr_suffix_of r u \<longleftrightarrow> tr_capacity u = tr_capacity r \<and> tr_max_bytes u = tr_max_bytes r \<and>
     (\<exists>n. tr_entries u = drop n (tr_entries r)) \<and>
     (tr_entries r \<noteq> [] \<and> 0 < tr_capacity r \<longrightarrow> tr_entries u \<noteq> [])"

lemma tr_suffix_pop:
  assumes "tr_suffix_of r u" and "tr_over_capacity u \<or> tr_over_bytes u"
  shows "tr_suffix_of r (tr_pop_oldest u)"
proof -
  from assms(1) obtain n where n: "tr_entries u = drop n (tr_entries r)"
    by (auto simp: tr_suffix_of_def)
  then have "tr_entries (tr_pop_oldest u) = drop (Suc n) (tr_entries r)"
    by (simp add: tl_drop drop_Suc)
  moreover have "tr_capacity u \<noteq> 0 \<Longrightarrow> tl (tr_entries u) \<noteq> []"
    using assms(2) by (cases "tr_entries u") (auto simp: tr_over_capacity_def tr_over_bytes_def)
  ultimately show ?thesis
    using assms(1) by (auto simp: tr_suffix_of_def simp del: tr_pop_frame(3)) (metis tr_pop_frame(3))+
qed

lemma tr_trim_spec:
  assumes "tr_acct r"
  shows "tr_acct (tr_trim r)" "tr_suffix_of r (tr_trim r)" "tr_bounded (tr_trim r)"
proof -
  let ?w = "while tr_over_capacity tr_pop_oldest r"
  have "tr_suffix_of r r" by (auto simp: tr_suffix_of_def intro!: exI [of _ 0])
  then have w: "tr_acct ?w" "tr_suffix_of r ?w" "\<not> tr_over_capacity ?w"
    using tr_cap.evict_loop_rule [where P = "tr_suffix_of r", OF assms] tr_suffix_pop by blast+
  define P where "P u \<longleftrightarrow> tr_suffix_of r u \<and> \<not> tr_over_capacity u" for u
  have "P (tr_pop_oldest u)" if "P u" "tr_over_bytes u" for u
    using that tr_suffix_pop by (auto simp: P_def tr_over_capacity_def)
  then have "tr_acct (tr_trim r) \<and> P (tr_trim r) \<and> \<not> tr_over_bytes (tr_trim r)"
    unfolding tr_trim_def using w tr_byt.evict_loop_rule [where P = P] by (auto simp: P_def)
  then show "tr_acct (tr_trim r)" "tr_suffix_of r (tr_trim r)" "tr_bounded (tr_trim r)"
    by (auto simp: P_def tr_bounded_def tr_over_capacity_def tr_over_bytes_def)
qed

lemma sum_od_set_fresh:
  "k \<notin> set (od_keys d) \<Longrightarrow> sum_list (map snd (od_set k (n :: int) d)) = sum_list (map snd d) + n"
  by (simp add: od_set_fresh)

text \<open>The state just before trimming.\<close>

definition tr_stored_state :: "string \<Rightarrow> pydict \<Rightarrow> string option \<Rightarrow> trace_ring \<Rightarrow> trace_ring" where
  "tr_stored_state trace_id entry owner r =
    (let stored = tr_stored trace_id entry owner (tr_max_bytes r)
     in r\<lparr>tr_entries := od_set trace_id stored (tr_entries r),
          tr_sizes := od_set trace_id (tr_entry_size stored) (od_pop trace_id (tr_sizes r)),
          tr_bytes := sum_list (map snd (od_pop trace_id (tr_sizes r))) + tr_entry_size stored\<rparr>)"

lemma tr_put_trim:
  assumes "tr_acct r"
  shows "tr_put trace_id entry owner r = tr_trim (tr_stored_state trace_id entry owner r)"
proof (cases "trace_id \<in> set (od_keys (tr_entries r))")
  case True
  with assms have "trace_id \<in> set (od_keys (tr_sizes r))" by (simp add: tr_acct_def)
  then obtain n where "map_of (tr_sizes r) trace_id = Some n"
    by (metis map_of_None_iff_keys not_None_eq)
  with assms True show ?thesis
    by (simp add: tr_put_def tr_stored_state_def Let_def tr_acct_def sum_od_pop)
next
  case False
  with assms have "od_pop trace_id (tr_sizes r) = tr_sizes r"
    by (auto simp: tr_acct_def intro!: od_pop_fresh)
  with assms False show ?thesis
    by (simp add: tr_put_def tr_stored_state_def Let_def tr_acct_def)
qed

lemma tr_acct_stored_state: "tr_acct r \<Longrightarrow> tr_acct (tr_stored_state trace_id entry owner r)"
  by (auto simp: tr_acct_def tr_stored_state_def Let_def od_set_pop od_pop_keys distinct_update
      dom_update)

lemma tr_put_spec:
  assumes "tr_acct r"
  shows "tr_acct (tr_put trace_id entry owner r)" "tr_bounded (tr_put trace_id entry owner r)"
    "tr_suffix_of (tr_stored_state trace_id entry owner r) (tr_put trace_id entry owner r)"
  using tr_trim_spec [OF tr_acct_stored_state [OF assms]] by (simp_all add: tr_put_trim [OF assms])

lemma tr_get_spec:
  assumes "tr_acct r"
  shows "tr_acct (fst (tr_get trace_id requester r))"
    and "tr_bounded r \<Longrightarrow> tr_bounded (fst (tr_get trace_id requester r))"
proof -
  have "length (od_move_to_end trace_id (tr_entries r)) = length (tr_entries r)"
    using assms by (metis distinct_card distinct_od_move_to_end length_map od_move_to_end_keys tr_acct_def)
  moreover have "set (od_keys (od_move_to_end trace_id (tr_entries r))) = set (od_keys (tr_entries r))"
    by (rule od_move_to_end_keys)
  ultimately show "tr_acct (fst (tr_get trace_id requester r))"
    and "tr_bounded r \<Longrightarrow> tr_bounded (fst (tr_get trace_id requester r))"
    using assms by (auto simp: tr_get_def tr_acct_def tr_bounded_def distinct_od_move_to_end Let_def
        split: option.splits)
qed

definition tr_ok :: "trace_ring \<Rightarrow> bool" where
  "tr_ok r \<longleftrightarrow> tr_acct r \<and> tr_bounded r"

lemma tr_ok_new [inv_intros]: "tr_ok (tr_new capacity max_bytes)"
  by (simp add: tr_ok_def tr_acct_def tr_bounded_def tr_new_def)

lemma tr_ok_step [inv_intros]: "tr_ok r \<Longrightarrow> tr_ok (tr_step op r)"
  by (cases op) (auto simp: tr_ok_def intro: tr_put_spec tr_get_spec)

lemma tr_ok_run [inv_intros]: "tr_ok r \<Longrightarrow> tr_ok (tr_run ops r)"
  unfolding tr_run_def by (induction ops arbitrary: r) (auto intro: inv_intros)

section \<open>Ownership\<close>

text \<open>The entry under \<open>trace_id\<close>, if it is still there, belongs to \<open>owner\<close>.\<close>

definition tr_owned :: "string \<Rightarrow> string \<Rightarrow> trace_ring \<Rightarrow> bool" where
  "tr_owned trace_id owner r \<longleftrightarrow>
     (\<forall>entry. map_of (tr_entries r) trace_id = Some entry \<longrightarrow> dget entry ''_owner'' = PStr owner)"

lemma tr_stored_owner [simp]: "dget (tr_stored trace_id entry (Some a) m) ''_owner'' = PStr a"
  by (simp add: tr_stored_def tr_mark_owner_def Let_def)

lemma map_of_drop: "distinct (od_keys d) \<Longrightarrow> map_of (drop n d) k = Some v \<Longrightarrow> map_of d k = Some v"
  by (metis distinct_map map_of_SomeD map_of_eq_Some_iff in_set_dropD)

lemma tr_suffix_lookup:
  "tr_suffix_of r u \<Longrightarrow> tr_acct r \<Longrightarrow> map_of (tr_entries u) k = Some v \<Longrightarrow> map_of (tr_entries r) k = Some v"
  unfolding tr_suffix_of_def tr_acct_def by (metis map_of_drop)

lemma tr_put_lookup:
  assumes "tr_acct r" and "map_of (tr_entries (tr_put trace_id entry owner r)) k = Some v"
  shows "if k = trace_id then v = tr_stored trace_id entry owner (tr_max_bytes r)
    else map_of (tr_entries r) k = Some v"
  using tr_suffix_lookup [OF tr_put_spec(3) tr_acct_stored_state assms(2)] assms(1)
  by (auto simp: tr_stored_state_def Let_def update_conv')

definition tr_writes :: "string \<Rightarrow> tr_op \<Rightarrow> bool" where
  "tr_writes trace_id op \<longleftrightarrow> (case op of TPut k _ _ \<Rightarrow> k = trace_id | TGet _ _ \<Rightarrow> False)"

lemma tr_owned_step:
  assumes "tr_ok r" "tr_owned trace_id owner r" "\<not> tr_writes trace_id op"
  shows "tr_owned trace_id owner (tr_step op r)"
proof (cases op)
  case (TPut k entry a)
  with assms tr_put_lookup [of r k entry a trace_id] show ?thesis
    by (auto simp: tr_owned_def tr_ok_def tr_writes_def)
next
  case (TGet k requester)
  with assms(2) show ?thesis
    by (auto simp: tr_owned_def tr_get_def map_of_od_move_to_end Let_def split: option.splits)
qed

lemma tr_owned_run:
  "tr_ok r \<Longrightarrow> tr_owned trace_id owner r \<Longrightarrow> (\<And>op. op \<in> set ops \<Longrightarrow> \<not> tr_writes trace_id op) \<Longrightarrow>
   tr_owned trace_id owner (tr_run ops r)"
  unfolding tr_run_def
  by (induction ops arbitrary: r) (auto intro: inv_intros tr_owned_step)

lemma tr_owned_put: "tr_ok r \<Longrightarrow> tr_owned trace_id a (tr_put trace_id entry (Some a) r)"
  using tr_put_lookup [of r trace_id entry "Some a" trace_id] by (auto simp: tr_owned_def tr_ok_def)

lemma tr_get_other_denied:
  "tr_owned trace_id owner r \<Longrightarrow> requester \<noteq> owner \<Longrightarrow> snd (tr_get trace_id (Some requester) r) = None"
  by (auto simp: tr_owned_def tr_get_def Let_def split: option.splits)

lemma tr_get_strips: "snd (tr_get trace_id requester r) = Some shown \<Longrightarrow> dget shown ''_owner'' = PNone"
  by (auto simp: tr_get_def tr_strip_owner_def Let_def dget_def delete_conv' split: option.splits if_splits)

section \<open>Properties\<close>

text \<open>After any sequence of puts and gets on a new ring, the entry and size dictionaries have the
  same distinct keys, the byte total is the sum of the recorded sizes, at most capacity many
  entries are kept, and the total is within \<open>max_bytes\<close> unless a single entry is left.\<close>

theorem tr_run_accounting: "tr_ok (tr_run ops (tr_new capacity max_bytes))"
  by (rule tr_ok_run [OF tr_ok_new])

text \<open>once a trace is stored for an owner, no later sequence of gets and of puts under other ids
  lets a different requester read it: the lookup answers \<open>None\<close>.  Whatever a lookup does return
  to anybody carries no \<open>_owner\<close> mark.\<close>

theorem tr_owner_isolation:
  assumes "\<And>op. op \<in> set later \<Longrightarrow> \<not> tr_writes trace_id op" and "requester \<noteq> owner"
  shows "snd (tr_get trace_id (Some requester) (tr_run later
      (tr_put trace_id entry (Some owner) (tr_run earlier (tr_new capacity max_bytes))))) = None \<and>
    (\<forall>who k r shown. snd (tr_get k who r) = Some shown \<longrightarrow> dget shown ''_owner'' = PNone)"
proof -
  let ?r = "tr_run earlier (tr_new capacity max_bytes)"
  have ok: "tr_ok ?r" by (rule tr_ok_run [OF tr_ok_new])
  then have "tr_ok (tr_put trace_id entry (Some owner) ?r)"
    using tr_ok_step [of ?r "TPut trace_id entry (Some owner)"] by simp
  from tr_owned_run [OF this tr_owned_put [OF ok] assms(1)] assms(2)
  show ?thesis by (blast intro: tr_get_other_denied tr_get_strips)
qed

theorem tr_owner_isolation_witness:
  "snd (tr_get ''t1'' (Some ''b'') (tr_run [TPut ''t2'' [] None, TGet ''t1'' None]
      (tr_put ''t1'' [(''query'', PStr ''x'')] (Some ''a'') (tr_run [] (tr_new 3 1000))))) = None"
proof -
  have writes: "\<And>op. op \<in> set [TPut ''t2'' [] None, TGet ''t1'' None] \<Longrightarrow> \<not> tr_writes ''t1'' op"
    by (auto simp: tr_writes_def)
  have "''b'' \<noteq> ''a''" by simp
  from tr_owner_isolation [OF writes this] show ?thesis by blast
qed

text \<open>a trace stored under an id that is not in the ring survives its own trimming when the
  capacity is positive: the next lookup by anybody with access returns it, marked with its id.\<close>

theorem tr_put_fresh_retained:
  assumes "tr_ok r" and "trace_id \<notin> set (od_keys (tr_entries r))" and "0 < tr_capacity r"
  shows "snd (tr_get trace_id owner (tr_put trace_id entry owner r)) =
    Some (tr_strip_owner (tr_stored trace_id entry owner (tr_max_bytes r)))"
proof -
  let ?s = "tr_stored_state trace_id entry owner r" and ?u = "tr_put trace_id entry owner r"
  let ?e = "tr_stored trace_id entry owner (tr_max_bytes r)"
  have acct: "tr_acct r" using assms(1) by (simp add: tr_ok_def)
  have s: "tr_entries ?s = tr_entries r @ [(trace_id, ?e)]"
    using assms(2) by (simp add: tr_stored_state_def Let_def od_set_fresh)
  have suf: "tr_suffix_of ?s ?u" by (rule tr_put_spec(3) [OF acct])
  then obtain n where n: "tr_entries ?u = drop n (tr_entries ?s)" and "tr_entries ?u \<noteq> []"
    using assms(3) s by (auto simp: tr_suffix_of_def tr_stored_state_def Let_def)
  then have "(trace_id, ?e) \<in> set (tr_entries ?u)"
    unfolding s by (cases "n \<le> length (tr_entries r)") auto
  moreover have "distinct (od_keys (tr_entries ?u))"
    using tr_put_spec(1) [OF acct] by (simp add: tr_acct_def)
  ultimately have "map_of (tr_entries ?u) trace_id = Some ?e" by simp
  then show ?thesis
    by (cases owner) (auto simp: tr_get_def Let_def)
qed

theorem tr_put_fresh_retained_witness:
  "snd (tr_get ''t2'' (Some ''a'') (tr_put ''t2'' [] (Some ''a'') (tr_put ''t1'' [] None (tr_new 1 40)))) =
    Some (tr_strip_owner (tr_stored ''t2'' [] (Some ''a'') 40))"
proof -
  let ?r = "tr_put ''t1'' [] None (tr_new 1 40)"
  have "tr_ok ?r" using tr_ok_step [OF tr_ok_new, of "TPut ''t1'' [] None"] by simp
  moreover have "''t2'' \<notin> set (od_keys (tr_entries ?r))" "0 < tr_capacity ?r" "tr_max_bytes ?r = 40"
    by code_simp+
  ultimately show ?thesis using tr_put_fresh_retained [of ?r "''t2''" "Some ''a''" "[]"] by simp
qed

text \<open>Storing again under an id that is present keeps its old place, so the trace just stored can
  be the oldest and be evicted by its own trimming: here the second store of \<open>t1\<close> returns a trace
  id that the next lookup does not find, while the older trace \<open>t2\<close> stays.\<close>

theorem tr_reput_evicts_itself:
  "let r = tr_put ''t1'' [(''query'', PStr ''a longer query than before'')] None
             (tr_put ''t2'' [] None (tr_put ''t1'' [] None (tr_new 5 70)))
   in snd (tr_get ''t1'' None r) = None \<and> snd (tr_get ''t2'' None r) \<noteq> None"
  by code_simp

end
