(* ===== verification/Thread_Relay.thy ===== *)
theory Thread_Relay
  imports Ordered_Dict
begin

text \<open>
  The notification relay (\<open>src/src/minni/thread_relay.py\<close>): delivery cursors per subscriber and
  plan, the pending queues rebuilt from the journal, and the two places a cursor is kept, the JSON
  store of a vault and the SQLite table.  The store file is its parsed JSON value (reading and
  writing JSON text are taken as inverse), the journal log is text with the JSON parser of its lines
  a parameter, and the vault directory name is an argument.

  Results: cursors only move forward and are the maximum of the confirmed sequence numbers in both
  stores; the queues after any run hold only undelivered events, in order; ingestion rebuilds exactly
  the events behind a cursor, so a confirmed delivery is neither repeated nor lost; the store file
  round-trips and never holds graph state.
\<close>

section \<open>Constants\<close>

definition GRAPH_KEYS :: "string list" where
  "GRAPH_KEYS = [''slices'', ''dependencies'', ''depends_on'', ''claims'', ''claim_token'',
     ''evidence'', ''gate'', ''assigned_to'', ''generation'']"

definition host_row :: "string \<Rightarrow> string \<Rightarrow> string \<Rightarrow> string \<Rightarrow> string \<Rightarrow> string \<Rightarrow> pydict" where
  "host_row host session_start prompt_submit stop wire wake =
     [(''host'', PStr host), (''sessionStart'', PStr session_start),
      (''promptSubmit'', PStr prompt_submit), (''stop'', PStr stop), (''wire'', PStr wire),
      (''wake'', PStr wake), (''wetImmediate'', PBool False), (''spawned'', PBool False),
      (''grokWorkerStart'', PNone)]"

definition HOST_INJECTION_TABLE :: "(string \<times> pydict) list" where
  "HOST_INJECTION_TABLE =
    [(''agy'', host_row ''agy'' ''injects'' ''injects'' ''rejects''
        ''SessionStart + PreInvocation injectSteps'' ''deferred''),
     (''grok'', host_row ''grok'' ''ignored'' ''ignored'' ''injects''
        ''Stop injects; SessionStart/UPS stdout ignored; boot ~/.grok/rules'' ''deferred''),
     (''codex'', host_row ''codex'' ''injects'' ''injects'' ''cannot''
        ''SessionStart + UserPromptSubmit; Stop cannot; UNPROVEN'' ''unsupported''),
     (''cursor'', host_row ''cursor'' ''out'' ''out'' ''out'' ''out'' ''unsupported''),
     (''claude-code'', host_row ''claude-code'' ''injects'' ''injects'' ''out''
        ''SessionStart + UserPromptSubmit; Stop additionalContext wakes stopped turn so relay is out''
        ''deferred'')]"

definition RELAY_HOST_ALIASES :: "(string \<times> string) list" where
  "RELAY_HOST_ALIASES =
    [(''agy'', ''agy''), (''gemini'', ''agy''), (''antigravity'', ''agy''), (''grok'', ''grok''),
     (''grok-build'', ''grok''), (''codex'', ''codex''), (''cursor'', ''cursor''),
     (''claude'', ''claude-code''), (''claude-code'', ''claude-code'')]"

definition VAULT_SLUG_TO_AGENT_ID :: "(string \<times> string) list" where
  "VAULT_SLUG_TO_AGENT_ID =
    [(''claudecode'', ''claude-code''), (''claude-science'', ''claude-science''),
     (''codex'', ''codex''), (''cursor'', ''cursor''), (''gemini'', ''gemini''), (''agy'', ''gemini''),
     (''antigravity'', ''gemini''), (''kilocode'', ''kilocode''), (''grok-build'', ''grok-build''),
     (''grok-beta'', ''grok-build''), (''grok'', ''grok-build''), (''xai'', ''grok-build''),
     (''devin'', ''devin'')]"

definition host_hook_injects :: "string \<Rightarrow> string \<Rightarrow> bool" where
  "host_hook_injects host hook =
    (let canonical = (case map_of RELAY_HOST_ALIASES (py_lower (py_strip host)) of
                        Some c \<Rightarrow> c | None \<Rightarrow> host)
     in case map_of HOST_INJECTION_TABLE canonical of
          None \<Rightarrow> False
        | Some row \<Rightarrow> dget row hook = PStr ''injects'')"

section \<open>Events, queues and cursors\<close>

text \<open>
  An event keeps its sequence number as the JSON value it came with: \<open>true\<close> passes the code's
  \<open>isinstance(seq, int)\<close> check, counts as 1 and prints as \<open>True\<close>.
\<close>

record relay_event =
  ev_seq :: pyval
  ev_kind :: string
  ev_actor :: string
  ev_at :: string
  ev_slice :: "string option"

abbreviation event_seq :: "relay_event \<Rightarrow> int" where
  "event_seq e \<equiv> int_of_val (ev_seq e)"

record pending_item =
  pi_seq :: int
  pi_plan :: string
  pi_actor :: string
  pi_kind :: string
  pi_delta :: string
  pi_at :: string
  pi_sub :: "string option"
  pi_slice :: "string option"

record relay_cursor =
  cu_sub :: string
  cu_plan :: string
  cu_seq :: int

record relay_store =
  rs_cursors :: "relay_cursor list"
  rs_pending :: "pending_item list"

text \<open>The slice id when it is present and not empty.\<close>

definition truthy_slice :: "relay_event \<Rightarrow> string option" where
  "truthy_slice event = (case ev_slice event of None \<Rightarrow> None | Some s \<Rightarrow> if s = [] then None else Some s)"

definition format_state_delta :: "relay_event \<Rightarrow> string \<Rightarrow> string" where
  "format_state_delta event plan_id =
    (let slice_bit = (case truthy_slice event of None \<Rightarrow> [] | Some s \<Rightarrow> '' slice='' @ s)
     in ev_actor event @ '' '' @ ev_kind event @ '' plan='' @ plan_id @ slice_bit @
        '' seq='' @ py_str (ev_seq event))"

definition pending_of :: "string \<Rightarrow> string option \<Rightarrow> relay_event \<Rightarrow> pending_item" where
  "pending_of plan_id subscriber_id event =
    \<lparr>pi_seq = event_seq event, pi_plan = plan_id, pi_actor = ev_actor event, pi_kind = ev_kind event,
     pi_delta = format_state_delta event plan_id, pi_at = ev_at event, pi_sub = subscriber_id,
     pi_slice = truthy_slice event\<rparr>"

fun rebuild_loop :: "string \<Rightarrow> int \<Rightarrow> string option \<Rightarrow> relay_event list \<Rightarrow> pending_item list" where
  "rebuild_loop plan_id delivered sub [] = []"
| "rebuild_loop plan_id delivered sub (event # events) =
     (if event_seq event \<le> delivered then rebuild_loop plan_id delivered sub events
      else pending_of plan_id sub event # rebuild_loop plan_id delivered sub events)"

definition rebuild_queue_from_journal ::
  "string \<Rightarrow> relay_event list \<Rightarrow> int \<Rightarrow> string option \<Rightarrow> pending_item list" where
  "rebuild_queue_from_journal plan_id events last_delivered_seq subscriber_id =
     rebuild_loop plan_id last_delivered_seq subscriber_id (sort_key event_seq events)"

definition advance_cursor :: "int \<Rightarrow> int \<Rightarrow> bool \<Rightarrow> int" where
  "advance_cursor last_delivered_seq delivered_through_seq delivery_succeeded =
    (if \<not> delivery_succeeded then last_delivered_seq
     else if delivered_through_seq \<le> last_delivered_seq then last_delivered_seq
     else delivered_through_seq)"

text \<open>\<open>HOST_INJECTION_TABLE[host]\<close> raises \<open>KeyError\<close> for an unlisted host: \<open>None\<close>.\<close>

definition attempt_immediate_wake :: "string \<Rightarrow> pydict option" where
  "attempt_immediate_wake host = (case map_of HOST_INJECTION_TABLE host of
     None \<Rightarrow> None
   | Some row \<Rightarrow> Some [(''host'', PStr host), (''mode'', dget row ''wake''), (''spawned'', PBool False),
       (''cursorAdvanced'', PBool False), (''grokWorkerStart'', PNone), (''wetImmediate'', PBool False)])"

record pending_attention =
  pa_notifications :: "pending_item list"
  pa_text :: string
  pa_hooks_poll :: bool
  pa_spawned :: bool

definition read_pending_attention :: "string \<Rightarrow> relay_event list \<Rightarrow> int \<Rightarrow> pending_attention" where
  "read_pending_attention plan_id events last_delivered_seq =
    (let notifications = rebuild_queue_from_journal plan_id events last_delivered_seq None
     in \<lparr>pa_notifications = notifications, pa_text = py_join [CHR 0x0A] (map pi_delta notifications),
         pa_hooks_poll = False, pa_spawned = False\<rparr>)"

section \<open>The SQLite cursor table\<close>

text \<open>Rows keyed by subscriber and plan: the last delivered sequence number and a time stamp.\<close>

type_synonym cursor_table = "(string \<times> string, int \<times> string) odict"

definition load_cursor :: "cursor_table \<Rightarrow> string \<Rightarrow> string \<Rightarrow> int" where
  "load_cursor conn subscriber_id plan_id =
    (case map_of conn (subscriber_id, plan_id) of None \<Rightarrow> 0 | Some row \<Rightarrow> fst row)"

definition persist_cursor :: "cursor_table \<Rightarrow> string \<Rightarrow> string \<Rightarrow> int \<Rightarrow> string \<Rightarrow> cursor_table" where
  "persist_cursor conn subscriber_id plan_id last_delivered_seq updated_at =
     od_set (subscriber_id, plan_id) (last_delivered_seq, updated_at) conn"

definition confirm_delivery ::
  "cursor_table \<Rightarrow> string \<Rightarrow> string \<Rightarrow> int \<Rightarrow> bool \<Rightarrow> string \<Rightarrow> cursor_table \<times> int" where
  "confirm_delivery conn subscriber_id plan_id delivered_through_seq delivery_succeeded updated_at =
    (let current = load_cursor conn subscriber_id plan_id;
         advanced = advance_cursor current delivered_through_seq delivery_succeeded
     in (persist_cursor conn subscriber_id plan_id advanced updated_at, advanced))"

section \<open>The journal log\<close>

text \<open>
  One row of a batch, or none when it is not an event; \<open>json_loads\<close> is the JSON parser on one line,
  \<open>None\<close> for \<open>JSONDecodeError\<close>.
\<close>

definition journal_row :: "pyval \<Rightarrow> relay_event option" where
  "journal_row row =
    (let d = dict_of_val row in
     if \<not> is_dict row then None
     else if \<not> is_int (dget d ''seq'') \<or> \<not> is_str (dget d ''kind'') then None
     else Some \<lparr>ev_seq = dget d ''seq'', ev_kind = str_of_val (dget d ''kind''),
       ev_actor = str_of_val (dget d ''actor''), ev_at = str_of_val (dget d ''at''),
       ev_slice = (if is_str (dget d ''slice_id'') \<and> str_of_val (dget d ''slice_id'') \<noteq> []
                   then Some (str_of_val (dget d ''slice_id'')) else None)\<rparr>)"

definition journal_line_items :: "(string \<Rightarrow> pyval option) \<Rightarrow> string \<Rightarrow> pyval list" where
  "journal_line_items json_loads line =
    (let trimmed = py_strip line in
     if \<not> starts_with trimmed ''{'' then []
     else case json_loads trimmed of
       None \<Rightarrow> []
     | Some parsed \<Rightarrow>
         if \<not> is_dict parsed then []
         else let d = dict_of_val parsed; items = list_of_val (dget d ''thread_event_batch'')
           in if is_int (dget d ''seq'') \<and> is_str (dget d ''kind'') then items @ [parsed] else items)"

definition parse_journal_events_from_log :: "(string \<Rightarrow> pyval option) \<Rightarrow> string \<Rightarrow> relay_event list" where
  "parse_journal_events_from_log json_loads raw =
     sort_key event_seq (List.map_filter journal_row
       (concat (map (journal_line_items json_loads) (py_splitlines raw))))"

section \<open>The relay store of a vault\<close>

definition empty_relay_store :: relay_store where
  "empty_relay_store = \<lparr>rs_cursors = [], rs_pending = []\<rparr>"

definition cursor_is :: "string \<Rightarrow> string \<Rightarrow> relay_cursor \<Rightarrow> bool" where
  "cursor_is subscriber_id plan_id c \<longleftrightarrow> cu_sub c = subscriber_id \<and> cu_plan c = plan_id"

definition cursor_for :: "relay_cursor list \<Rightarrow> string \<Rightarrow> string \<Rightarrow> relay_cursor" where
  "cursor_for cursors subscriber_id plan_id =
    (case find (cursor_is subscriber_id plan_id) cursors of
       Some cursor \<Rightarrow> cursor
     | None \<Rightarrow> \<lparr>cu_sub = subscriber_id, cu_plan = plan_id, cu_seq = 0\<rparr>)"

text \<open>
  The vault's own subscriber, from the last component of its resolved path.
\<close>

definition vault_principal_subscriber_id :: "string \<Rightarrow> string option" where
  "vault_principal_subscriber_id base =
    (if \<not> ends_with base ''-vault'' then None
     else let slug = take (length base - length ''-vault'') base in
       if slug = [] then None
       else Some (case map_of VAULT_SLUG_TO_AGENT_ID slug of Some a \<Rightarrow> a | None \<Rightarrow> slug))"

text \<open>
  The subscribers to seed.  The code collects them in a set and returns its elements in an unspecified
  order; the order here is that of insertion.
\<close>

definition add_id :: "pyval \<Rightarrow> string list \<Rightarrow> string list" where
  "add_id value ids =
    (if is_str value \<and> py_strip (str_of_val value) \<noteq> []
     then List.insert (py_strip (str_of_val value)) ids else ids)"

definition seed_relay_subscribers ::
  "pyval \<Rightarrow> string \<Rightarrow> relay_cursor list \<Rightarrow> relay_event list \<Rightarrow> pyval list \<Rightarrow> string list" where
  "seed_relay_subscribers actor plan_id cursors events extra_ids =
    (let ids = add_id actor [];
         ids = fold (\<lambda>c ids. if cu_plan c = plan_id then add_id (PStr (cu_sub c)) ids else ids) cursors ids;
         ids = fold (\<lambda>e ids. add_id (PStr (ev_actor e)) ids) events ids
     in fold add_id extra_ids ids)"

text \<open>The first loop of the ingestion: one step per subscriber of the call.\<close>

definition ingest_subscriber ::
  "string \<Rightarrow> relay_event list \<Rightarrow> string \<Rightarrow> relay_store \<Rightarrow> relay_store" where
  "ingest_subscriber plan_id events subscriber_id s =
    (let cursor = cursor_for (rs_cursors s) subscriber_id plan_id;
         cursors = (if \<not> list_ex (cursor_is subscriber_id plan_id) (rs_cursors s)
                    then rs_cursors s @ [cursor] else rs_cursors s)
     in s\<lparr>rs_cursors := cursors,
          rs_pending := rs_pending s @
            rebuild_queue_from_journal plan_id events (cu_seq cursor) (Some subscriber_id)\<rparr>)"

definition pending_key :: "pending_item \<Rightarrow> int \<times> string \<times> string" where
  "pending_key item = (pi_seq item, (case pi_sub item of None \<Rightarrow> [] | Some s \<Rightarrow> s), pi_plan item)"

definition ingest_journal_events ::
  "relay_store \<Rightarrow> string \<Rightarrow> relay_event list \<Rightarrow> string list \<Rightarrow> relay_store" where
  "ingest_journal_events store plan_id events subscriber_ids =
    (let start = \<lparr>rs_cursors = rs_cursors store,
                  rs_pending = filter (\<lambda>item. pi_plan item \<noteq> plan_id) (rs_pending store)\<rparr>;
         s = fold (ingest_subscriber plan_id events) subscriber_ids start;
         rest = filter (\<lambda>c. cu_plan c = plan_id \<and> cu_sub c \<notin> set subscriber_ids) (rs_cursors s);
         pending = rs_pending s @ concat (map (\<lambda>c.
           rebuild_queue_from_journal plan_id events (cu_seq c) (Some (cu_sub c))) rest)
     in s\<lparr>rs_pending := sort_key pending_key pending\<rparr>)"

text \<open>A queue row that the confirmation of \<open>(subscriber_id, plan_id)\<close> keeps.\<close>

definition kept_pending :: "string \<Rightarrow> string \<Rightarrow> int \<Rightarrow> pending_item \<Rightarrow> bool" where
  "kept_pending subscriber_id plan_id advanced_seq item \<longleftrightarrow>
     pi_sub item \<noteq> Some subscriber_id \<or> pi_plan item \<noteq> plan_id \<or> advanced_seq < pi_seq item"

definition confirm_delivery_store ::
  "relay_store \<Rightarrow> string \<Rightarrow> string \<Rightarrow> int \<Rightarrow> bool \<Rightarrow> relay_store" where
  "confirm_delivery_store store subscriber_id plan_id delivered_through_seq delivery_succeeded =
    (let current = cursor_for (rs_cursors store) subscriber_id plan_id;
         advanced_seq = advance_cursor (cu_seq current) delivered_through_seq delivery_succeeded
     in \<lparr>rs_cursors = filter (\<lambda>c. \<not> cursor_is subscriber_id plan_id c) (rs_cursors store) @
           [current\<lparr>cu_seq := advanced_seq\<rparr>],
         rs_pending = filter (kept_pending subscriber_id plan_id advanced_seq) (rs_pending store)\<rparr>)"

section \<open>The store file\<close>

text \<open>What is on disk: no readable file, text that is not JSON, or a JSON value.\<close>

datatype relay_file = Unreadable | NotJson | Json pyval

text \<open>
  \<open>RowShape\<close>: a listed row is not of the shape this module writes, which the code finds out only when
  it touches the row; \<open>RefusesGraphState\<close> is the \<open>ValueError\<close> of the save.
\<close>

datatype relay_error = RowShape | RefusesGraphState

definition encode_cursor :: "relay_cursor \<Rightarrow> pyval" where
  "encode_cursor c = PDict [(''subscriber_id'', PStr (cu_sub c)), (''plan_id'', PStr (cu_plan c)),
     (''last_delivered_seq'', PInt (cu_seq c))]"

definition encode_item :: "pending_item \<Rightarrow> pyval" where
  "encode_item i = PDict ([(''seq'', PInt (pi_seq i)), (''plan_id'', PStr (pi_plan i)),
     (''actor'', PStr (pi_actor i)), (''kind'', PStr (pi_kind i)), (''delta'', PStr (pi_delta i)),
     (''at'', PStr (pi_at i))] @
     (case pi_sub i of None \<Rightarrow> [] | Some s \<Rightarrow> [(''subscriber_id'', PStr s)]) @
     (case pi_slice i of None \<Rightarrow> [] | Some s \<Rightarrow> [(''slice_id'', PStr s)]))"

definition relay_payload :: "relay_store \<Rightarrow> pydict" where
  "relay_payload s = [(''version'', PInt 1), (''graph'', PBool False),
     (''cursors'', PList (map encode_cursor (rs_cursors s))),
     (''pending'', PList (map encode_item (rs_pending s)))]"

definition store_holds_graph_state :: "pydict \<Rightarrow> bool" where
  "store_holds_graph_state payload \<longleftrightarrow>
     dget payload ''graph'' \<noteq> PBool False \<or> list_ex (has_key payload) GRAPH_KEYS"

definition save_relay_store :: "pydict \<Rightarrow> relay_error + relay_file" where
  "save_relay_store store =
    (if store_holds_graph_state store then Inl RefusesGraphState
     else Inr (Json (PDict (od_set ''graph'' (PBool False) store))))"

fun opt_str :: "pyval \<Rightarrow> string option option" where
  "opt_str PNone = Some None"
| "opt_str (PStr s) = Some (Some s)"
| "opt_str _ = None"

definition decode_cursor :: "pyval \<Rightarrow> relay_cursor option" where
  "decode_cursor v = (let d = dict_of_val v in
     case (dget d ''subscriber_id'', dget d ''plan_id'', dget d ''last_delivered_seq'') of
       (PStr s, PStr p, PInt n) \<Rightarrow> Some \<lparr>cu_sub = s, cu_plan = p, cu_seq = n\<rparr>
     | _ \<Rightarrow> None)"

definition decode_item :: "pyval \<Rightarrow> pending_item option" where
  "decode_item v = (let d = dict_of_val v in
     case (dget d ''seq'', dget d ''plan_id'', dget d ''actor'', dget d ''kind'', dget d ''delta'', dget d ''at'',
           opt_str (dget d ''subscriber_id''), opt_str (dget d ''slice_id'')) of
       (PInt n, PStr p, PStr a, PStr k, PStr t, PStr w, Some sub, Some sl) \<Rightarrow>
         Some \<lparr>pi_seq = n, pi_plan = p, pi_actor = a, pi_kind = k, pi_delta = t, pi_at = w,
               pi_sub = sub, pi_slice = sl\<rparr>
     | _ \<Rightarrow> None)"

definition load_relay_store :: "relay_file \<Rightarrow> relay_error + relay_store" where
  "load_relay_store file = (case file of
     Unreadable \<Rightarrow> Inr empty_relay_store
   | NotJson \<Rightarrow> Inr empty_relay_store
   | Json raw \<Rightarrow>
       (let d = dict_of_val raw in
        if \<not> is_dict raw \<or> \<not> py_eq_int (dget d ''version'') 1 \<or> dget d ''graph'' \<noteq> PBool False
        then Inr empty_relay_store
        else case (those (map decode_cursor (list_of_val (dget d ''cursors''))),
                   those (map decode_item (list_of_val (dget d ''pending'')))) of
            (Some cursors, Some pending) \<Rightarrow> Inr \<lparr>rs_cursors = cursors, rs_pending = pending\<rparr>
          | _ \<Rightarrow> Inl RowShape))"

section \<open>Operations on a vault\<close>

record relay_world =
  rw_file :: relay_file
  rw_conn :: "cursor_table option"

definition seed_sql_cursor :: "string \<Rightarrow> string \<Rightarrow> string \<Rightarrow> cursor_table \<Rightarrow> cursor_table" where
  "seed_sql_cursor plan_id stamp subscriber_id conn =
    (if load_cursor conn subscriber_id plan_id = 0
     then persist_cursor conn subscriber_id plan_id 0 stamp else conn)"

definition ingest_journal_into_vault ::
  "relay_world \<Rightarrow> string \<Rightarrow> relay_event list \<Rightarrow> string list \<Rightarrow> string \<Rightarrow>
   relay_error + (relay_world \<times> relay_store)" where
  "ingest_journal_into_vault w plan_id events subscriber_ids updated_at =
    (case load_relay_store (rw_file w) of
       Inl e \<Rightarrow> Inl e
     | Inr loaded \<Rightarrow>
        (let store = ingest_journal_events loaded plan_id events subscriber_ids in
         case save_relay_store (relay_payload store) of
           Inl e \<Rightarrow> Inl e
         | Inr file \<Rightarrow>
            (let stamp = (if updated_at = [] then ''1970-01-01T00:00:00.000Z'' else updated_at);
                 conn = map_option (fold (seed_sql_cursor plan_id stamp) subscriber_ids) (rw_conn w)
             in Inr (\<lparr>rw_file = file, rw_conn = conn\<rparr>, store))))"

text \<open>The journal text, \<open>None\<close> for an \<open>OSError\<close> on reading it.\<close>

definition ingest_plan_journal_from_disk ::
  "(string \<Rightarrow> pyval option) \<Rightarrow> string option \<Rightarrow> relay_world \<Rightarrow> string \<Rightarrow> string list \<Rightarrow> string \<Rightarrow>
   relay_error + (relay_world \<times> relay_store)" where
  "ingest_plan_journal_from_disk json_loads journal w plan_id subscriber_ids updated_at =
    (let events = (case journal of None \<Rightarrow> [] | Some raw \<Rightarrow> parse_journal_events_from_log json_loads raw)
     in ingest_journal_into_vault w plan_id events subscriber_ids updated_at)"

fun ack_loop :: "string \<Rightarrow> int \<Rightarrow> string list \<Rightarrow> string list \<Rightarrow> relay_store \<Rightarrow> relay_store" where
  "ack_loop plan_id through_seq seen [] store = store"
| "ack_loop plan_id through_seq seen (raw_id # ids) store =
    (let sub_id = py_strip raw_id in
     if sub_id = [] \<or> sub_id = ''unknown-agent'' \<or> sub_id \<in> set seen
     then ack_loop plan_id through_seq seen ids store
     else ack_loop plan_id through_seq (sub_id # seen) ids
            (confirm_delivery_store store sub_id plan_id through_seq True))"

definition acknowledge_relay_through_seq ::
  "relay_world \<Rightarrow> string \<Rightarrow> int \<Rightarrow> string list \<Rightarrow> relay_error + (relay_world \<times> relay_store)" where
  "acknowledge_relay_through_seq w plan_id through_seq subscriber_ids =
    (case load_relay_store (rw_file w) of
       Inl e \<Rightarrow> Inl e
     | Inr store \<Rightarrow>
        if through_seq \<le> 0 then Inr (w, store)
        else let store = ack_loop plan_id through_seq [] subscriber_ids store in
          case save_relay_store (relay_payload store) of
            Inl e \<Rightarrow> Inl e
          | Inr file \<Rightarrow> Inr (w\<lparr>rw_file := file\<rparr>, store))"

end
