(* ===== verification/Relay_Delivery.thy ===== *)
theory Relay_Delivery
  imports Thread_Relay
begin

text \<open>
  What the relay of \<open>Thread_Relay\<close> promises its hooks.  The delivery contract is a locale over the two
  operations both cursor stores offer; it is interpreted for the SQLite table and for the JSON store.
  The rest is the invariant of the JSON store under ingestion, confirmation and acknowledgement, and
  the exact content of the rebuilt queues.
\<close>

section \<open>The delivery contract\<close>

text \<open>One confirmation: subscriber and plan, sequence number, whether delivery succeeded, time stamp.\<close>

type_synonym relay_key = "string \<times> string"
type_synonym confirmation = "relay_key \<times> int \<times> bool \<times> string"

definition confirm_all :: "(confirmation \<Rightarrow> 's \<Rightarrow> 's) \<Rightarrow> confirmation list \<Rightarrow> 's \<Rightarrow> 's" where
  "confirm_all confirm cs s = fold confirm cs s"

text \<open>The sequence numbers successfully delivered to one subscriber of one plan.\<close>

definition delivered_to :: "relay_key \<Rightarrow> confirmation list \<Rightarrow> int list" where
  "delivered_to k cs = map (\<lambda>c. fst (snd c)) (filter (\<lambda>(k', n, ok, _). k' = k \<and> ok) cs)"

lemma delivered_to_Cons:
  "delivered_to k ((k', n, ok, stamp) # cs) = (if k' = k \<and> ok then [n] else []) @ delivered_to k cs"
  by (simp add: delivered_to_def)

lemma Max_insert_max: "finite D \<Longrightarrow> Max (insert (max a b) D) = Max (insert a (insert b (D :: int set)))"
  by (cases "D = {}") (simp_all add: max.assoc)

locale delivery_cursor =
  fixes cursor :: "'s \<Rightarrow> relay_key \<Rightarrow> int"
    and confirm :: "confirmation \<Rightarrow> 's \<Rightarrow> 's"
  assumes cursor_confirm: "cursor (confirm (k, n, ok, stamp) s) k' =
    (if k' = k then advance_cursor (cursor s k) n ok else cursor s k')"
begin

lemma cursor_confirm_max:
  "cursor (confirm (k, n, ok, stamp) s) k' = (if k' = k \<and> ok then max (cursor s k) n else cursor s k')"
  by (simp add: cursor_confirm advance_cursor_def max_def)

lemma cursor_is_max_delivered:
  "cursor (confirm_all confirm cs s) k = Max (insert (cursor s k) (set (delivered_to k cs)))"
proof (induction cs arbitrary: s)
  case Nil
  then show ?case by (simp add: confirm_all_def delivered_to_def)
next
  case (Cons c cs)
  obtain k' n ok stamp where c: "c = (k', n, ok, stamp)" by (cases c)
  let ?D = "set (delivered_to k cs)"
  have "cursor (confirm_all confirm (c # cs) s) k = Max (insert (cursor (confirm c s) k) ?D)"
    using Cons.IH [of "confirm c s"] by (simp add: confirm_all_def)
  also have "\<dots> = Max (insert (cursor s k) (set (delivered_to k (c # cs))))"
    by (auto simp: c cursor_confirm_max delivered_to_Cons Max_insert_max)
  finally show ?case .
qed

lemma cursor_monotone: "cursor s k \<le> cursor (confirm_all confirm cs s) k"
  by (simp add: cursor_is_max_delivered)

end

definition sql_cursor :: "cursor_table \<Rightarrow> relay_key \<Rightarrow> int" where
  "sql_cursor conn k = load_cursor conn (fst k) (snd k)"

definition sql_confirm :: "confirmation \<Rightarrow> cursor_table \<Rightarrow> cursor_table" where
  "sql_confirm c conn = (case c of ((sub, plan), n, ok, stamp) \<Rightarrow> fst (confirm_delivery conn sub plan n ok stamp))"

definition json_cursor :: "relay_store \<Rightarrow> relay_key \<Rightarrow> int" where
  "json_cursor s k = cu_seq (cursor_for (rs_cursors s) (fst k) (snd k))"

definition json_confirm :: "confirmation \<Rightarrow> relay_store \<Rightarrow> relay_store" where
  "json_confirm c s = (case c of ((sub, plan), n, ok, _) \<Rightarrow> confirm_delivery_store s sub plan n ok)"

interpretation sql_delivery: delivery_cursor sql_cursor sql_confirm
  by unfold_locales
    (auto simp: sql_cursor_def sql_confirm_def confirm_delivery_def persist_cursor_def load_cursor_def
      update_conv' Let_def)

lemma find_append: "find P (xs @ ys) = (case find P xs of None \<Rightarrow> find P ys | Some x \<Rightarrow> Some x)"
  by (induction xs) auto

lemma cursor_for_key: "cursor_is sub plan (cursor_for cs sub plan)"
  by (auto simp: cursor_for_def cursor_is_def find_Some_iff split: option.splits)

lemma cursor_for_snoc_other:
  "\<not> cursor_is sub plan c \<Longrightarrow> cursor_for (cs @ [c]) sub plan = cursor_for cs sub plan"
  by (auto simp: cursor_for_def find_append split: option.splits)

lemma find_filter_disjoint:
  "(\<And>x. P x \<Longrightarrow> \<not> Q x) \<Longrightarrow> find P (filter (\<lambda>x. \<not> Q x) xs) = find P xs"
  by (induction xs) auto

lemma find_filter_same: "find P (filter (\<lambda>x. \<not> P x) xs) = None"
  by (auto simp: find_None_iff)

lemma cursor_for_replace:
  assumes "cursor_is sub plan c"
  shows "cursor_for (filter (\<lambda>c. \<not> cursor_is sub plan c) cs @ [c]) sub' plan' =
    (if (sub', plan') = (sub, plan) then c else cursor_for cs sub' plan')"
proof (cases "(sub', plan') = (sub, plan)")
  case True
  then show ?thesis using assms by (simp add: cursor_for_def find_append find_filter_same)
next
  case False
  then have "\<not> cursor_is sub' plan' c" "\<And>x. cursor_is sub' plan' x \<Longrightarrow> \<not> cursor_is sub plan x"
    using assms by (auto simp: cursor_is_def)
  then show ?thesis
    using False by (auto simp: cursor_for_snoc_other cursor_for_def find_append find_filter_disjoint
        split: option.splits)
qed

lemma json_cursor_confirm_store:
  "json_cursor (confirm_delivery_store s sub plan n ok) k =
    (if k = (sub, plan) then advance_cursor (json_cursor s (sub, plan)) n ok else json_cursor s k)"
proof -
  have "cursor_is sub plan ((cursor_for (rs_cursors s) sub plan)\<lparr>cu_seq := m\<rparr>)" for m
    using cursor_for_key [of sub plan "rs_cursors s"] by (simp add: cursor_is_def)
  then show ?thesis
    by (cases k) (simp add: json_cursor_def confirm_delivery_store_def cursor_for_replace Let_def)
qed

interpretation json_delivery: delivery_cursor json_cursor json_confirm
  by unfold_locales (auto simp: json_confirm_def json_cursor_confirm_store split: if_splits)

section \<open>Queues\<close>

lemma rebuild_loop_filter:
  "rebuild_loop plan d sub es = map (pending_of plan sub) (filter (\<lambda>e. d < event_seq e) es)"
  by (induction es) auto

lemma rebuild_queue_filter:
  "rebuild_queue_from_journal plan es d sub =
    map (pending_of plan sub) (filter (\<lambda>e. d < event_seq e) (sort_key event_seq es))"
  by (simp add: rebuild_queue_from_journal_def rebuild_loop_filter)

lemma pending_of_simps [simp]:
  "pi_seq (pending_of plan sub e) = event_seq e" "pi_plan (pending_of plan sub e) = plan"
  "pi_sub (pending_of plan sub e) = sub"
  by (simp_all add: pending_of_def)

lemma rebuild_queue_set:
  "i \<in> set (rebuild_queue_from_journal plan es d sub) \<Longrightarrow> pi_plan i = plan \<and> pi_sub i = sub \<and> d < pi_seq i"
  by (auto simp: rebuild_queue_filter)

lemma sorted_map_filter: "sorted (map f xs) \<Longrightarrow> sorted (map f (filter P xs))"
  by (induction xs) auto

lemma rebuild_queue_sorted: "sorted (map pi_seq (rebuild_queue_from_journal plan es d sub))"
  by (simp add: rebuild_queue_filter comp_def sorted_map_filter sorted_map_filter [where f = event_seq])

lemma rebuild_queue_key_sorted:
  "sorted (map pending_key (rebuild_queue_from_journal plan es d sub))"
proof -
  have "sorted_wrt (\<lambda>i j. pi_seq i \<le> pi_seq j) (rebuild_queue_from_journal plan es d sub)"
    using rebuild_queue_sorted by (simp add: sorted_wrt_map)
  then have "sorted_wrt (\<lambda>i j. pending_key i \<le> pending_key j) (rebuild_queue_from_journal plan es d sub)"
    by (rule sorted_wrt_mono_rel [rotated])
      (auto dest!: rebuild_queue_set simp: pending_key_def)
  then show ?thesis by (simp add: sorted_wrt_map)
qed

section \<open>Ingestion\<close>

lemma json_cursor_ingest_subscriber [simp]:
  "json_cursor (ingest_subscriber plan es sub s) k = json_cursor s k"
proof -
  have "cursor_for (cs @ [\<lparr>cu_sub = sub, cu_plan = plan, cu_seq = 0\<rparr>]) s' p' = cursor_for cs s' p'"
    if "find (cursor_is sub plan) cs = None" for cs s' p'
    using that by (auto simp: cursor_for_def find_append cursor_is_def split: option.splits)
  moreover have "\<not> list_ex (cursor_is sub plan) cs \<Longrightarrow> find (cursor_is sub plan) cs = None" for cs
    by (auto simp: find_None_iff list_ex_iff)
  ultimately show ?thesis
    by (auto simp: json_cursor_def ingest_subscriber_def Let_def cursor_for_def [of _ sub plan])
qed

lemma json_cursor_ingest_fold [simp]:
  "json_cursor (fold (ingest_subscriber plan es) subs s) k = json_cursor s k"
  by (induction subs arbitrary: s) simp_all

lemma json_cursor_ingest [simp]:
  "json_cursor (ingest_journal_events s plan es subs) k = json_cursor s k"
proof -
  have eq: "rs_cursors t = rs_cursors u \<Longrightarrow> json_cursor t k = json_cursor u k" for t u
    by (simp add: json_cursor_def)
  let ?start = "\<lparr>rs_cursors = rs_cursors s, rs_pending = filter (\<lambda>i. pi_plan i \<noteq> plan) (rs_pending s)\<rparr>"
  have "json_cursor (ingest_journal_events s plan es subs) k =
      json_cursor (fold (ingest_subscriber plan es) subs ?start) k"
    by (rule eq) (simp add: ingest_journal_events_def Let_def)
  also have "\<dots> = json_cursor ?start k" by simp
  also have "\<dots> = json_cursor s k" by (rule eq) simp
  finally show ?thesis .
qed

lemma ingest_fold_pending:
  "rs_pending (fold (ingest_subscriber plan es) subs s) = rs_pending s @
    concat (map (\<lambda>sub. rebuild_queue_from_journal plan es (json_cursor s (sub, plan)) (Some sub)) subs)"
proof (induction subs arbitrary: s)
  case Nil
  then show ?case by simp
next
  case (Cons sub subs)
  have "rs_pending (ingest_subscriber plan es sub s) = rs_pending s @
      rebuild_queue_from_journal plan es (json_cursor s (sub, plan)) (Some sub)"
    by (simp add: ingest_subscriber_def json_cursor_def Let_def)
  with Cons show ?case by simp
qed

definition cursor_keys :: "relay_store \<Rightarrow> relay_key list" where
  "cursor_keys s = map (\<lambda>c. (cu_sub c, cu_plan c)) (rs_cursors s)"

lemma cursor_keys_ingest_subscriber:
  "cursor_keys (ingest_subscriber plan es sub s) =
    (if (sub, plan) \<in> set (cursor_keys s) then cursor_keys s else cursor_keys s @ [(sub, plan)])"
proof -
  have "list_ex (cursor_is sub plan) (rs_cursors s) \<longleftrightarrow> (sub, plan) \<in> set (cursor_keys s)"
    by (auto simp: list_ex_iff cursor_is_def cursor_keys_def)
  moreover have "(cu_sub (cursor_for cs sub plan), cu_plan (cursor_for cs sub plan)) = (sub, plan)" for cs
    using cursor_for_key [of sub plan cs] by (simp add: cursor_is_def)
  ultimately show ?thesis
    by (auto simp: ingest_subscriber_def Let_def cursor_keys_def)
qed

lemma distinct_cursor_keys_fold:
  "distinct (cursor_keys s) \<Longrightarrow> distinct (cursor_keys (fold (ingest_subscriber plan es) subs s))"
  by (induction subs arbitrary: s) (auto simp: cursor_keys_ingest_subscriber)

lemma cursor_keys_fold_set:
  "set (cursor_keys (fold (ingest_subscriber plan es) subs s)) =
    set (cursor_keys s) \<union> (\<lambda>sub. (sub, plan)) ` set subs"
  by (induction subs arbitrary: s) (auto simp: cursor_keys_ingest_subscriber)

lemma json_cursor_member:
  assumes "distinct (cursor_keys s)" and "c \<in> set (rs_cursors s)"
  shows "json_cursor s (cu_sub c, cu_plan c) = cu_seq c"
proof -
  have "find (cursor_is (cu_sub c) (cu_plan c)) cs = Some c"
    if "distinct (map (\<lambda>c. (cu_sub c, cu_plan c)) cs)" "c \<in> set cs" for cs
    using that by (induction cs) (auto simp: cursor_is_def rev_image_eqI)
  with assms show ?thesis by (simp add: json_cursor_def cursor_for_def cursor_keys_def)
qed

section \<open>The invariant of the store\<close>

text \<open>
  One cursor per subscriber and plan; the queue is ordered and holds, for named subscribers only,
  events behind nobody's cursor.
\<close>

definition relay_inv :: "relay_store \<Rightarrow> bool" where
  "relay_inv s \<longleftrightarrow> distinct (cursor_keys s) \<and> sorted (map pending_key (rs_pending s)) \<and>
     (\<forall>i \<in> set (rs_pending s). \<exists>sub. pi_sub i = Some sub \<and> json_cursor s (sub, pi_plan i) < pi_seq i)"

text \<open>The subscribers an ingestion serves, in the order of its two loops.\<close>

definition served :: "relay_store \<Rightarrow> string \<Rightarrow> string list \<Rightarrow> string list" where
  "served s plan subs = subs @ [sub. (sub, p) \<leftarrow> cursor_keys s, p = plan \<and> sub \<notin> set subs]"

lemma served_set: "set (served s plan subs) = set subs \<union> {sub. (sub, plan) \<in> set (cursor_keys s)}"
  by (auto simp: served_def)

lemma distinct_served:
  assumes "distinct subs" and "distinct (cursor_keys s)"
  shows "distinct (served s plan subs)"
proof -
  have "distinct [sub. (sub, p) \<leftarrow> ks, p = plan \<and> sub \<notin> set subs]" if "distinct ks" for ks
    using that by (induction ks) auto
  with assms show ?thesis by (auto simp: served_def)
qed

definition ingest_queue :: "relay_store \<Rightarrow> string \<Rightarrow> relay_event list \<Rightarrow> string \<Rightarrow> pending_item list" where
  "ingest_queue s plan es sub = rebuild_queue_from_journal plan es (json_cursor s (sub, plan)) (Some sub)"

lemma rest_cursors_served:
  assumes "distinct (cursor_keys s)"
  shows "map (\<lambda>c. rebuild_queue_from_journal plan es (cu_seq c) (Some (cu_sub c)))
      (filter (\<lambda>c. cu_plan c = plan \<and> cu_sub c \<notin> set subs) (rs_cursors s)) =
    map (ingest_queue s plan es) [sub. (sub, p) \<leftarrow> cursor_keys s, p = plan \<and> sub \<notin> set subs]"
proof -
  have "map (\<lambda>c. rebuild_queue_from_journal plan es (cu_seq c) (Some (cu_sub c)))
      (filter (\<lambda>c. cu_plan c = plan \<and> cu_sub c \<notin> set subs) cs) =
    map (ingest_queue s plan es)
      [sub. (sub, p) \<leftarrow> map (\<lambda>c. (cu_sub c, cu_plan c)) cs, p = plan \<and> sub \<notin> set subs]"
    if "set cs \<subseteq> set (rs_cursors s)" for cs
    using that
  proof (induction cs)
    case (Cons c cs)
    with json_cursor_member [OF assms, of c] show ?case
      by (auto simp: ingest_queue_def)
  qed simp
  then show ?thesis by (simp add: cursor_keys_def)
qed

text \<open>The keys the first loop adds are those of its own subscribers.\<close>

lemma fold_keys_rest:
  "[sub. (sub, p) \<leftarrow> cursor_keys (fold (ingest_subscriber plan es) ids s), p = plan \<and> sub \<notin> set subs] =
   [sub. (sub, p) \<leftarrow> cursor_keys s, p = plan \<and> sub \<notin> set subs]" if "set ids \<subseteq> set subs"
  using that
  by (induction ids arbitrary: s) (auto simp: cursor_keys_ingest_subscriber)

lemma ingest_pending:
  assumes "distinct (cursor_keys s)"
  shows "rs_pending (ingest_journal_events s plan es subs) =
    sort_key pending_key (filter (\<lambda>i. pi_plan i \<noteq> plan) (rs_pending s) @
      concat (map (ingest_queue s plan es) (served s plan subs)))"
proof -
  let ?start = "\<lparr>rs_cursors = rs_cursors s, rs_pending = filter (\<lambda>i. pi_plan i \<noteq> plan) (rs_pending s)\<rparr>"
  let ?f = "fold (ingest_subscriber plan es) subs ?start"
  have keys: "cursor_keys ?start = cursor_keys s" by (simp add: cursor_keys_def)
  have cur: "json_cursor ?start k = json_cursor s k" for k by (simp add: json_cursor_def)
  have queue: "ingest_queue ?f plan es = ingest_queue s plan es"
    by (rule ext) (simp add: ingest_queue_def cur)
  have "distinct (cursor_keys ?f)"
    using assms by (intro distinct_cursor_keys_fold) (simp add: keys)
  from rest_cursors_served [OF this, of plan es subs]
  have "map (\<lambda>c. rebuild_queue_from_journal plan es (cu_seq c) (Some (cu_sub c)))
      (filter (\<lambda>c. cu_plan c = plan \<and> cu_sub c \<notin> set subs) (rs_cursors ?f)) =
    map (ingest_queue s plan es) [sub. (sub, p) \<leftarrow> cursor_keys s, p = plan \<and> sub \<notin> set subs]"
    by (simp only: queue fold_keys_rest [OF order_refl] keys)
  moreover have "rs_pending ?f = rs_pending ?start @ concat (map (ingest_queue s plan es) subs)"
    unfolding ingest_fold_pending ingest_queue_def cur ..
  ultimately show ?thesis
    by (simp add: ingest_journal_events_def Let_def served_def)
qed

lemma cursor_keys_ingest:
  "cursor_keys (ingest_journal_events s plan es subs) = cursor_keys (fold (ingest_subscriber plan es) subs
     \<lparr>rs_cursors = rs_cursors s, rs_pending = filter (\<lambda>i. pi_plan i \<noteq> plan) (rs_pending s)\<rparr>)"
  by (simp add: ingest_journal_events_def Let_def cursor_keys_def)

lemma relay_inv_empty [inv_intros]: "relay_inv empty_relay_store"
  by (simp add: relay_inv_def empty_relay_store_def cursor_keys_def)

lemma relay_inv_ingest [inv_intros]:
  assumes "relay_inv s"
  shows "relay_inv (ingest_journal_events s plan es subs)"
proof -
  have d: "distinct (cursor_keys s)" using assms by (simp add: relay_inv_def)
  then have "distinct (cursor_keys (ingest_journal_events s plan es subs))"
    unfolding cursor_keys_ingest
    by (intro distinct_cursor_keys_fold) (simp add: cursor_keys_def)
  with assms d show ?thesis
    by (auto simp: relay_inv_def ingest_pending ingest_queue_def dest!: rebuild_queue_set)
qed

lemma relay_inv_confirm [inv_intros]:
  assumes "relay_inv s"
  shows "relay_inv (confirm_delivery_store s sub plan n ok)"
proof -
  let ?t = "confirm_delivery_store s sub plan n ok"
  let ?adv = "advance_cursor (json_cursor s (sub, plan)) n ok"
  have pend: "rs_pending ?t = filter (kept_pending sub plan ?adv) (rs_pending s)"
    by (simp add: confirm_delivery_store_def json_cursor_def Let_def)
  have key: "(cu_sub (cursor_for cs sub plan), cu_plan (cursor_for cs sub plan)) = (sub, plan)" for cs
    using cursor_for_key [of sub plan cs] by (simp add: cursor_is_def)
  have filter_key: "map (\<lambda>c. (cu_sub c, cu_plan c)) (filter (\<lambda>c. \<not> cursor_is sub plan c) cs) =
      filter (\<lambda>k. k \<noteq> (sub, plan)) (map (\<lambda>c. (cu_sub c, cu_plan c)) cs)" for cs
    by (induction cs) (auto simp: cursor_is_def)
  have "cursor_keys ?t = filter (\<lambda>k. k \<noteq> (sub, plan)) (cursor_keys s) @ [(sub, plan)]"
    using key by (simp add: cursor_keys_def confirm_delivery_store_def Let_def filter_key)
  then have "distinct (cursor_keys ?t)"
    using assms by (simp add: relay_inv_def)
  moreover have "\<exists>r. pi_sub i = Some r \<and> json_cursor ?t (r, pi_plan i) < pi_seq i"
    if "i \<in> set (rs_pending ?t)" for i
  proof -
    from that have i: "i \<in> set (rs_pending s)" "kept_pending sub plan ?adv i" by (auto simp: pend)
    with assms obtain r where "pi_sub i = Some r" "json_cursor s (r, pi_plan i) < pi_seq i"
      by (auto simp: relay_inv_def)
    with i(2) show ?thesis by (auto simp: json_cursor_confirm_store kept_pending_def)
  qed
  ultimately show ?thesis
    using assms by (simp add: relay_inv_def pend sorted_map_filter)
qed

lemma relay_inv_ack [inv_intros]: "relay_inv s \<Longrightarrow> relay_inv (ack_loop plan n seen ids s)"
  by (induction plan n seen ids s rule: ack_loop.induct) (auto simp: Let_def intro: inv_intros)

section \<open>Runs\<close>

datatype relay_op =
    OIngest string "relay_event list" "string list"
  | OConfirm string string int bool
  | OAck string int "string list"

fun relay_step :: "relay_op \<Rightarrow> relay_store \<Rightarrow> relay_store" where
  "relay_step (OIngest plan es subs) s = ingest_journal_events s plan es subs"
| "relay_step (OConfirm sub plan n ok) s = confirm_delivery_store s sub plan n ok"
| "relay_step (OAck plan n ids) s = (if n \<le> 0 then s else ack_loop plan n [] ids s)"

definition relay_run :: "relay_op list \<Rightarrow> relay_store \<Rightarrow> relay_store" where
  "relay_run ops s = fold relay_step ops s"

lemma relay_inv_step [inv_intros]: "relay_inv s \<Longrightarrow> relay_inv (relay_step op s)"
  by (cases op) (auto intro: inv_intros)

lemma relay_inv_run [inv_intros]: "relay_inv s \<Longrightarrow> relay_inv (relay_run ops s)"
  unfolding relay_run_def by (induction ops arbitrary: s) (auto intro: inv_intros)

lemma advance_cursor_ge: "c \<le> advance_cursor c n ok"
  by (simp add: advance_cursor_def)

lemma json_cursor_ack_ge: "json_cursor s k \<le> json_cursor (ack_loop plan n seen ids s) k"
proof (induction plan n seen ids s rule: ack_loop.induct)
  case (2 plan n seen raw_id ids s)
  have "json_cursor s k \<le> json_cursor (confirm_delivery_store s (py_strip raw_id) plan n True) k"
    by (auto simp: json_cursor_confirm_store advance_cursor_ge)
  with 2 show ?case by (auto simp: Let_def)
qed simp

lemma json_cursor_step_ge: "json_cursor s k \<le> json_cursor (relay_step op s) k"
  by (cases op) (auto simp: json_cursor_confirm_store advance_cursor_ge json_cursor_ack_ge)

section \<open>Queue contents\<close>

text \<open>What one subscriber of one plan has pending.\<close>

definition queue_of :: "relay_store \<Rightarrow> string \<Rightarrow> string \<Rightarrow> pending_item list" where
  "queue_of s sub plan = filter (\<lambda>i. pi_sub i = Some sub \<and> pi_plan i = plan) (rs_pending s)"

lemma filter_served_queue:
  assumes "distinct subs"
  shows "filter (\<lambda>i. pi_sub i = Some sub \<and> pi_plan i = plan) (concat (map (ingest_queue s plan es) subs)) =
    (if sub \<in> set subs then ingest_queue s plan es sub else [])"
proof -
  have "filter (\<lambda>i. pi_sub i = Some sub \<and> pi_plan i = plan) (ingest_queue s plan es r) =
      (if r = sub then ingest_queue s plan es r else [])" for r
    by (auto simp: ingest_queue_def filter_id_conv filter_empty_conv dest!: rebuild_queue_set)
  with assms show ?thesis by (induction subs) auto
qed

lemma queue_of_ingest:
  assumes "relay_inv s" and "distinct subs" and "sub \<in> set subs \<or> (sub, plan) \<in> set (cursor_keys s)"
  shows "queue_of (ingest_journal_events s plan es subs) sub plan =
    rebuild_queue_from_journal plan es (json_cursor s (sub, plan)) (Some sub)"
proof -
  have d: "distinct (cursor_keys s)" using assms(1) by (simp add: relay_inv_def)
  have sub: "sub \<in> set (served s plan subs)" using assms(3) by (auto simp: served_set)
  have old: "filter (\<lambda>i. pi_sub i = Some sub \<and> pi_plan i = plan) (filter (\<lambda>i. pi_plan i \<noteq> plan) xs) = []" for xs
    by (induction xs) auto
  have "queue_of (ingest_journal_events s plan es subs) sub plan =
      sort_key pending_key (ingest_queue s plan es sub)"
    unfolding queue_of_def ingest_pending [OF d] filter_sort filter_append old
      filter_served_queue [OF distinct_served [OF assms(2) d]]
    using sub by simp
  also have "\<dots> = ingest_queue s plan es sub"
    by (rule sort_key_id_if_sorted) (simp add: ingest_queue_def rebuild_queue_key_sorted)
  finally show ?thesis by (simp add: ingest_queue_def)
qed

lemma queue_of_ingest_other:
  assumes "relay_inv s" and "plan' \<noteq> plan"
  shows "queue_of (ingest_journal_events s plan es subs) sub plan' = queue_of s sub plan'"
proof -
  let ?Q = "\<lambda>i. pi_sub i = Some sub \<and> pi_plan i = plan'"
  have d: "distinct (cursor_keys s)" using assms(1) by (simp add: relay_inv_def)
  have "filter ?Q (ingest_queue s plan es r) = []" for r
    using assms(2) by (auto simp: ingest_queue_def filter_empty_conv dest!: rebuild_queue_set)
  then have new: "filter ?Q (concat (map (ingest_queue s plan es) rs)) = []" for rs
    by (induction rs) auto
  have old: "filter ?Q (filter (\<lambda>i. pi_plan i \<noteq> plan) xs) = filter ?Q xs" for xs
    using assms(2) by (induction xs) auto
  have "queue_of (ingest_journal_events s plan es subs) sub plan' = sort_key pending_key (queue_of s sub plan')"
    unfolding queue_of_def ingest_pending [OF d] filter_sort filter_append old new by simp
  also have "\<dots> = queue_of s sub plan'"
    using assms(1) by (intro sort_key_id_if_sorted) (simp add: queue_of_def relay_inv_def sorted_map_filter)
  finally show ?thesis .
qed

section \<open>The file\<close>

lemma decode_encode_cursor [simp]: "decode_cursor (encode_cursor c) = Some c"
  by (simp add: decode_cursor_def encode_cursor_def)

lemma decode_encode_item [simp]: "decode_item (encode_item i) = Some i"
  by (cases "pi_sub i"; cases "pi_slice i") (simp_all add: decode_item_def encode_item_def)

lemma those_decode [simp]:
  "those (map (decode_cursor \<circ> encode_cursor) cs) = Some cs" "those (map (decode_item \<circ> encode_item) is) = Some is"
  by (induction cs) (auto simp: comp_def, induction "is", auto simp: comp_def)

lemma payload_no_graph: "\<not> store_holds_graph_state (relay_payload s)"
  by (simp add: store_holds_graph_state_def relay_payload_def GRAPH_KEYS_def has_key_def)

lemma load_payload:
  "load_relay_store (Json (PDict (od_set ''graph'' (PBool False) (relay_payload s)))) = Inr s"
  by (simp add: load_relay_store_def relay_payload_def Let_def)

section \<open>Acknowledgement\<close>

definition acked_ids :: "string list \<Rightarrow> string set" where
  "acked_ids ids = py_strip ` set ids - {[], ''unknown-agent''}"

lemma ack_loop_cursor:
  assumes "\<And>r. r \<in> set seen \<Longrightarrow> n \<le> json_cursor s (r, plan)" and "r \<in> acked_ids ids"
  shows "n \<le> json_cursor (ack_loop plan n seen ids s) (r, plan)"
  using assms
proof (induction plan n seen ids s rule: ack_loop.induct)
  case (1 plan n seen s)
  then show ?case by (simp add: acked_ids_def)
next
  case (2 plan n seen raw_id ids s)
  let ?id = "py_strip raw_id"
  let ?skip = "?id = [] \<or> ?id = ''unknown-agent'' \<or> ?id \<in> set seen"
  show ?case
  proof (cases ?skip)
    case True
    show ?thesis
    proof (cases "r \<in> acked_ids ids")
      case T: True
      with True "2.IH"(1) [OF refl True "2.prems"(1)] show ?thesis by (simp add: Let_def)
    next
      case False
      with "2.prems"(2) True have "r \<in> set seen" by (auto simp: acked_ids_def)
      then have "n \<le> json_cursor s (r, plan)" by (rule "2.prems"(1))
      with True show ?thesis
        using json_cursor_ack_ge [of s "(r, plan)" plan n seen ids] by (simp add: Let_def)
    qed
  next
    case False
    let ?t = "confirm_delivery_store s ?id plan n True"
    have seen: "n \<le> json_cursor ?t (q, plan)" if "q \<in> set (?id # seen)" for q
      using that "2.prems"(1) [of q] by (auto simp: json_cursor_confirm_store advance_cursor_def)
    have "n \<le> json_cursor (ack_loop plan n (?id # seen) ids ?t) (r, plan)"
    proof (cases "r \<in> acked_ids ids")
      case True
      show ?thesis by (rule "2.IH"(2) [OF refl False seen True])
    next
      case F: False
      with "2.prems"(2) have "r = ?id" by (auto simp: acked_ids_def)
      with seen [of r] json_cursor_ack_ge [of ?t "(r, plan)" plan n "?id # seen" ids] show ?thesis
        by simp
    qed
    with False show ?thesis by (simp add: Let_def)
  qed
qed

lemma ack_loop_other:
  assumes "sub \<notin> acked_ids ids \<or> plan' \<noteq> plan"
  shows "json_cursor (ack_loop plan n seen ids s) (sub, plan') = json_cursor s (sub, plan') \<and>
    queue_of (ack_loop plan n seen ids s) sub plan' = queue_of s sub plan'"
  using assms
proof (induction plan n seen ids s rule: ack_loop.induct)
  case (2 plan n seen raw_id ids s)
  let ?t = "confirm_delivery_store s (py_strip raw_id) plan n True"
  have rest: "sub \<notin> acked_ids ids \<or> plan' \<noteq> plan" using "2.prems" by (auto simp: acked_ids_def)
  have "json_cursor ?t (sub, plan') = json_cursor s (sub, plan') \<and> queue_of ?t sub plan' = queue_of s sub plan'"
    if "\<not> (py_strip raw_id = [] \<or> py_strip raw_id = ''unknown-agent'' \<or> py_strip raw_id \<in> set seen)"
  proof -
    have "\<not> (sub = py_strip raw_id \<and> plan' = plan)" using that "2.prems" by (auto simp: acked_ids_def)
    moreover from this have "queue_of ?t sub plan' = queue_of s sub plan'"
      by (auto simp: queue_of_def confirm_delivery_store_def Let_def kept_pending_def intro!: filter_cong)
    ultimately show ?thesis by (auto simp: json_cursor_confirm_store)
  qed
  with "2.IH"(1) [OF refl _ rest] "2.IH"(2) [OF refl _ rest] show ?case by (auto simp: Let_def)
qed simp

section \<open>Properties\<close>

text \<open>After any sequence of ingestions, confirmations and acknowledgements on the empty store there is
  one cursor per subscriber and plan, the pending queue is ordered by sequence number, subscriber and
  plan, and every pending item is for a named subscriber whose cursor is behind it.\<close>

theorem relay_run_invariant: "relay_inv (relay_run ops empty_relay_store)"
  by (rule relay_inv_run [OF relay_inv_empty])

text \<open>a delivery cursor never moves back, whatever is ingested, confirmed, reported as failed or
  acknowledged.\<close>

theorem relay_cursor_monotone: "json_cursor s k \<le> json_cursor (relay_run ops s) k"
proof (induction ops arbitrary: s)
  case (Cons op ops)
  have "json_cursor s k \<le> json_cursor (relay_step op s) k" by (rule json_cursor_step_ge)
  also have "\<dots> \<le> json_cursor (relay_run ops (relay_step op s)) k" by (rule Cons.IH)
  finally show ?case by (simp add: relay_run_def)
qed (simp add: relay_run_def)

text \<open>C32: the SQLite table and the JSON store implement the same delivery contract.  Starting empty, after
  any list of confirmations both hold for every subscriber and plan the largest sequence number that
  was successfully delivered, or 0 when there was none or none was positive.\<close>

theorem relay_stores_agree:
  "sql_cursor (confirm_all sql_confirm cs []) k = Max (insert 0 (set (delivered_to k cs))) \<and>
   json_cursor (confirm_all json_confirm cs empty_relay_store) k = Max (insert 0 (set (delivered_to k cs)))"
proof -
  have "sql_cursor [] k = 0" "json_cursor empty_relay_store k = 0"
    by (simp_all add: sql_cursor_def load_cursor_def json_cursor_def empty_relay_store_def cursor_for_def)
  then show ?thesis
    by (simp add: sql_delivery.cursor_is_max_delivered json_delivery.cursor_is_max_delivered)
qed

text \<open>Ingestion is exact.  For every subscriber named in the call or already holding a cursor for the
  plan, the queue afterwards is the journal events behind its cursor, in order of sequence number;
  the queues of other plans and all cursors are untouched.\<close>

theorem relay_ingest_exact:
  assumes "relay_inv s" and "distinct subs" and "sub \<in> set subs \<or> (sub, plan) \<in> set (cursor_keys s)"
  shows "queue_of (ingest_journal_events s plan es subs) sub plan =
      map (pending_of plan (Some sub))
        (filter (\<lambda>e. json_cursor s (sub, plan) < event_seq e) (sort_key event_seq es)) \<and>
    (\<forall>r p. p \<noteq> plan \<longrightarrow> queue_of (ingest_journal_events s plan es subs) r p = queue_of s r p) \<and>
    (\<forall>k. json_cursor (ingest_journal_events s plan es subs) k = json_cursor s k)"
  using queue_of_ingest [OF assms] queue_of_ingest_other [OF assms(1)]
  by (simp add: rebuild_queue_filter)

definition sample_event :: "int \<Rightarrow> relay_event" where
  "sample_event n = \<lparr>ev_seq = PInt n, ev_kind = ''done'', ev_actor = ''codex'', ev_at = ''t'', ev_slice = Some ''s1''\<rparr>"

theorem relay_ingest_exact_witness:
  "map pi_seq (queue_of (ingest_journal_events empty_relay_store ''p''
      [sample_event 2, sample_event 1] [''codex'', ''grok'']) ''grok'' ''p'') = [1, 2]"
proof -
  have "queue_of (ingest_journal_events empty_relay_store ''p'' [sample_event 2, sample_event 1] [''codex'', ''grok''])
      ''grok'' ''p'' = map (pending_of ''p'' (Some ''grok''))
        (filter (\<lambda>e. json_cursor empty_relay_store (''grok'', ''p'') < event_seq e)
          (sort_key event_seq [sample_event 2, sample_event 1]))"
    by (rule relay_ingest_exact [THEN conjunct1]) (auto intro: inv_intros)
  then show ?thesis
    by (simp add: json_cursor_def empty_relay_store_def cursor_for_def sample_event_def)
qed

text \<open>C22: deliver once.  After an ingestion and a confirmation up to \<open>n\<close>, a later ingestion of any version
  of the journal offers the subscriber exactly the events beyond both its old cursor and, if the
  delivery succeeded, \<open>n\<close>: what was delivered is not repeated, and after a failed delivery nothing
  is lost.\<close>

theorem relay_exactly_once:
  assumes "relay_inv s" and "distinct subs" and "distinct subs'" and "sub \<in> set subs"
  shows "queue_of (ingest_journal_events (confirm_delivery_store
      (ingest_journal_events s plan es subs) sub plan n ok) plan es' subs') sub plan =
    map (pending_of plan (Some sub))
      (filter (\<lambda>e. (if ok then max (json_cursor s (sub, plan)) n else json_cursor s (sub, plan)) < event_seq e)
        (sort_key event_seq es'))"
proof -
  let ?s1 = "ingest_journal_events s plan es subs"
  let ?s2 = "confirm_delivery_store ?s1 sub plan n ok"
  have inv: "relay_inv ?s2" using assms(1) by (intro inv_intros)
  have "(sub, plan) \<in> set (cursor_keys ?s2)"
    using cursor_for_key [of sub plan "rs_cursors ?s1"]
    by (simp add: cursor_keys_def confirm_delivery_store_def Let_def cursor_is_def)
  moreover have "json_cursor ?s2 (sub, plan) =
      (if ok then max (json_cursor s (sub, plan)) n else json_cursor s (sub, plan))"
    by (simp add: json_cursor_confirm_store advance_cursor_def)
  ultimately show ?thesis
    using queue_of_ingest [OF inv assms(3)] by (simp add: rebuild_queue_filter)
qed

theorem relay_exactly_once_witness:
  "map pi_seq (queue_of (ingest_journal_events (confirm_delivery_store
      (ingest_journal_events empty_relay_store ''p'' [sample_event 1, sample_event 2] [''grok''])
        ''grok'' ''p'' 1 True) ''p'' [sample_event 1, sample_event 2, sample_event 3] []) ''grok'' ''p'') = [2, 3]"
proof -
  have "distinct [''grok'']" "distinct ([] :: string list)" "''grok'' \<in> set [''grok'']" by simp_all
  from relay_exactly_once [OF relay_inv_empty this, where plan = "''p''" and n = 1 and ok = True
      and es = "[sample_event 1, sample_event 2]" and es' = "[sample_event 1, sample_event 2, sample_event 3]"]
  show ?thesis
    by (simp add: json_cursor_def empty_relay_store_def cursor_for_def sample_event_def)
qed



text \<open>Acknowledging a plan through a positive sequence number moves the cursor of every named
  subscriber (blank and unknown ids aside) to at least that number, leaves nothing up to it in their
  queues, and changes neither cursor nor queue of anybody else.\<close>

theorem relay_acknowledge:
  assumes "load_relay_store (rw_file w) = Inr s" and "relay_inv s" and "0 < n"
    and "acknowledge_relay_through_seq w plan n ids = Inr (w', s')"
  shows "(\<forall>sub \<in> acked_ids ids. n \<le> json_cursor s' (sub, plan) \<and>
      (\<forall>i \<in> set (queue_of s' sub plan). n < pi_seq i)) \<and>
    (\<forall>sub p. sub \<notin> acked_ids ids \<or> p \<noteq> plan \<longrightarrow>
      json_cursor s' (sub, p) = json_cursor s (sub, p) \<and> queue_of s' sub p = queue_of s sub p) \<and>
    load_relay_store (rw_file w') = Inr s'"
proof -
  have s': "s' = ack_loop plan n [] ids s" and
    w': "rw_file w' = Json (PDict (od_set ''graph'' (PBool False) (relay_payload s')))"
    using assms by (auto simp: acknowledge_relay_through_seq_def save_relay_store_def payload_no_graph Let_def)
  have "relay_inv s'" unfolding s' by (intro inv_intros assms)
  then have behind: "json_cursor s' (sub, plan) < pi_seq i" if "i \<in> set (queue_of s' sub plan)" for sub i
    using that by (auto simp: relay_inv_def queue_of_def)
  have "n \<le> json_cursor s' (sub, plan)" if "sub \<in> acked_ids ids" for sub
    unfolding s' by (rule ack_loop_cursor [OF _ that]) simp
  with behind have "\<forall>sub \<in> acked_ids ids. n \<le> json_cursor s' (sub, plan) \<and>
      (\<forall>i \<in> set (queue_of s' sub plan). n < pi_seq i)"
    by (fastforce intro: le_less_trans)
  then show ?thesis
    using ack_loop_other [where ids = ids and plan = plan and n = n and seen = "[]" and s = s]
    by (simp add: w' load_payload flip: s')
qed

definition ack_sample :: relay_world where
  "ack_sample = \<lparr>rw_file = Json (PDict (relay_payload (ingest_journal_events empty_relay_store ''p''
      [sample_event 1, sample_event 2] [''grok'', ''codex'']))), rw_conn = None\<rparr>"

theorem relay_acknowledge_witness:
  "\<exists>w' s'. acknowledge_relay_through_seq ack_sample ''p'' 1 ['' grok '', ''unknown-agent''] = Inr (w', s') \<and>
    1 \<le> json_cursor s' (''grok'', ''p'') \<and> (\<forall>i \<in> set (queue_of s' ''grok'' ''p''). 1 < pi_seq i)"
proof -
  let ?s = "ingest_journal_events empty_relay_store ''p'' [sample_event 1, sample_event 2] [''grok'', ''codex'']"
  have "od_set ''graph'' (PBool False) (relay_payload ?s) = relay_payload ?s"
    by (simp add: relay_payload_def)
  then have load: "load_relay_store (rw_file ack_sample) = Inr ?s"
    using load_payload [of ?s] by (simp add: ack_sample_def)
  obtain w' s' where ack:
      "acknowledge_relay_through_seq ack_sample ''p'' 1 ['' grok '', ''unknown-agent''] = Inr (w', s')"
    by (simp add: acknowledge_relay_through_seq_def load save_relay_store_def payload_no_graph Let_def)
  have "relay_inv ?s" by (intro inv_intros)
  moreover have "''grok'' \<in> acked_ids ['' grok '', ''unknown-agent'']"
    by (simp add: acked_ids_def) code_simp
  ultimately show ?thesis
    using relay_acknowledge [OF load _ _ ack] ack by auto
qed

end
