(* ===== verification/Principal.thy ===== *)
theory Principal
  imports Ordered_Dict
begin

text \<open>
  Identity and read authorization (\<open>src/src/minni/principal.py\<close>): the operator's principal files, the
  resolution of a caller's claim to an \<open>EffectivePrincipal\<close>, the vault-root check and the read gate.

  Parameters: the operating system (path resolution, home expansion, the environment variable
  \<open>MINNI_LOCAL_OPERATOR\<close>, the Minni home), gathered in \<open>os_env\<close>; the principals directory is the
  association list \<open>principal_dir\<close> from file stem to mode and parsed JSON.  A raised exception is a
  value of \<open>principal_error\<close>.  Logging is left out, and so are the best-effort \<open>chmod\<close> calls (a file
  loaded non-strictly may have its mode tightened; no result depends on it).  Absolute paths are
  text with \<open>/\<close> between the components.
\<close>

section \<open>Environment and paths\<close>

record os_env =
  oe_expanduser :: "string \<Rightarrow> string option"
  oe_resolve :: "string \<Rightarrow> string option"
  oe_minni_home :: string
  oe_local_operator :: string

fun split_path :: "string \<Rightarrow> string \<Rightarrow> string list" where
  "split_path cur [] = (if cur = [] then [] else [rev cur])"
| "split_path cur (c # s) =
     (if c = CHR ''/'' then (if cur = [] then split_path [] s else rev cur # split_path [] s)
      else split_path (c # cur) s)"

definition path_parts :: "string \<Rightarrow> string list" where
  "path_parts s = split_path [] s"

text \<open>\<open>p.is_relative_to(base)\<close> for two absolute paths.\<close>

definition is_relative_to :: "string \<Rightarrow> string \<Rightarrow> bool" where
  "is_relative_to p base \<longleftrightarrow> take (length (path_parts base)) (path_parts p) = path_parts base"

definition is_absolute :: "string \<Rightarrow> bool" where
  "is_absolute p \<longleftrightarrow> starts_with p ''/''"

definition expand_resolve :: "os_env \<Rightarrow> string \<Rightarrow> string option" where
  "expand_resolve env p = (case oe_expanduser env p of None \<Rightarrow> None | Some q \<Rightarrow> oe_resolve env q)"

section \<open>Principals\<close>

definition CANONICAL_PRINCIPAL_NAMES :: "string list" where
  "CANONICAL_PRINCIPAL_NAMES = [''local'', ''default'', ''operator'', ''main'']"

definition OPERATOR_RESERVED_AGENT_IDS :: "string list" where
  "OPERATOR_RESERVED_AGENT_IDS = [''operator'', ''main'']"

definition PLATFORM_NO_ROOTS_SENTINEL :: string where
  "PLATFORM_NO_ROOTS_SENTINEL = ''/.minni-platform-no-vault-roots''"

record effective_principal =
  ep_agent_id :: string
  ep_workspace_id :: string
  ep_session_id :: pyval
  ep_transport :: string
  ep_capabilities :: "pyval list"
  ep_vault_roots :: "string list"
  ep_auto_accept_own :: bool
  ep_deny_reason :: "string option"

definition can :: "effective_principal \<Rightarrow> string \<Rightarrow> bool" where
  "can p capability \<longleftrightarrow> PStr ''*'' \<in> set (ep_capabilities p) \<or> PStr capability \<in> set (ep_capabilities p)"

text \<open>The loop over the roots; a base that does not resolve raises and ends it with \<open>False\<close>.\<close>

fun under_some_root :: "os_env \<Rightarrow> string \<Rightarrow> string list \<Rightarrow> bool" where
  "under_some_root env p [] = False"
| "under_some_root env p (base # roots) = (case oe_resolve env base of
     None \<Rightarrow> False
   | Some r \<Rightarrow> if is_relative_to p r then True else under_some_root env p roots)"

definition allows_vault_root :: "os_env \<Rightarrow> effective_principal \<Rightarrow> pyval \<Rightarrow> bool" where
  "allows_vault_root env p path =
    (if ep_vault_roots p = [] then ep_capabilities p \<noteq> []
     else case path of
       PStr s \<Rightarrow> (case oe_resolve env s of None \<Rightarrow> False | Some r \<Rightarrow> under_some_root env r (ep_vault_roots p))
     | _ \<Rightarrow> False)"

datatype principal_error =
    FilePermission string
  | InvalidAgentId string
  | IdentityMismatch string string
  | BadConfigType
  | PathFailure

section \<open>Principal files\<close>

text \<open>\<open>pf_mode\<close> is \<open>None\<close> when \<open>stat\<close> fails, \<open>pf_json\<close> is \<open>None\<close> when the text is not JSON.\<close>

record principal_file =
  pf_mode :: "nat option"
  pf_json :: "pyval option"

type_synonym principal_dir = "(string \<times> principal_file) list"

definition has_any_principal_files :: "principal_dir \<Rightarrow> bool" where
  "has_any_principal_files d \<longleftrightarrow> d \<noteq> []"

definition load_raw_principal_file ::
  "string \<Rightarrow> principal_dir \<Rightarrow> bool \<Rightarrow> principal_error + pydict option" where
  "load_raw_principal_file principal_name d strict = (case map_of d principal_name of
     None \<Rightarrow> Inr None
   | Some f \<Rightarrow>
      (let insecure = (case pf_mode f of None \<Rightarrow> strict | Some mode \<Rightarrow> mode mod 64 \<noteq> 0)
       in if insecure \<and> strict then Inl (FilePermission principal_name)
          else case pf_json f of Some (PDict raw) \<Rightarrow> Inr (Some raw) | _ \<Rightarrow> Inr None))"

definition auto_accept_flag :: "pyval \<Rightarrow> bool" where
  "auto_accept_flag raw_value = (case raw_value of PBool b \<Rightarrow> b | _ \<Rightarrow> False)"

definition AGENT_VAULT_DIRS :: "(string \<times> string) list" where
  "AGENT_VAULT_DIRS = [(''claude-code'', ''claudecode-vault''), (''claude-science'', ''claude-science-vault''),
     (''codex'', ''codex-vault''), (''cursor'', ''cursor-vault''), (''gemini'', ''gemini-vault''),
     (''grok-build'', ''grok-build-vault''), (''kilocode'', ''kilocode-vault'')]"

definition vault_dirname_for :: "string \<Rightarrow> string" where
  "vault_dirname_for agent_id =
     (case map_of AGENT_VAULT_DIRS agent_id of Some d \<Rightarrow> d | None \<Rightarrow> agent_id @ ''-vault'')"

definition canonical_live_vault_root :: "os_env \<Rightarrow> string \<Rightarrow> string" where
  "canonical_live_vault_root env agent_id = oe_minni_home env @ ''/'' @ vault_dirname_for agent_id"

definition acl_forbids_live_store :: "os_env \<Rightarrow> effective_principal \<Rightarrow> string \<Rightarrow> bool" where
  "acl_forbids_live_store env p live =
    (if allows_vault_root env p (PStr live) then False
     else if ep_vault_roots p = [] then True
     else list_all (\<lambda>r. r = PLATFORM_NO_ROOTS_SENTINEL) (ep_vault_roots p))"

text \<open>The vault whose layout is seeded, if any: the argument of \<open>ensure_agent_vault\<close>.\<close>

definition seed_own_vault :: "os_env \<Rightarrow> effective_principal \<Rightarrow> string option" where
  "seed_own_vault env p =
    (if \<not> (can p ''learn'' \<or> can p ''write'') then None
     else let live = canonical_live_vault_root env (ep_agent_id p)
       in if acl_forbids_live_store env p live then None else Some live)"

section \<open>Agent ids\<close>

definition agent_first_char :: "char \<Rightarrow> bool" where
  "agent_first_char c \<longleftrightarrow> (let n = (of_char c :: nat) in 97 \<le> n \<and> n \<le> 122 \<or> 48 \<le> n \<and> n \<le> 57)"

definition agent_char :: "char \<Rightarrow> bool" where
  "agent_char c \<longleftrightarrow> agent_first_char c \<or> c \<in> set ''._-''"

definition agent_core :: "string \<Rightarrow> bool" where
  "agent_core s = (case s of [] \<Rightarrow> False
     | c # cs \<Rightarrow> agent_first_char c \<and> list_all agent_char cs \<and> length cs \<le> 63)"

text \<open>
  \<open>re.match\<close> of the pattern \<open>^[a-z0-9][a-z0-9._-]{0,63}$\<close>: in Python \<open>$\<close> also matches before a final
  newline.
\<close>

definition agent_id_matches :: "string \<Rightarrow> bool" where
  "agent_id_matches s \<longleftrightarrow> agent_core s \<or> (s \<noteq> [] \<and> last s = CHR 0x0A \<and> agent_core (butlast s))"

definition validate_agent_id :: "string \<Rightarrow> principal_error + string" where
  "validate_agent_id agent_id =
    (if agent_id = [] then Inl (InvalidAgentId agent_id)
     else if \<not> agent_id_matches agent_id then Inl (InvalidAgentId agent_id)
     else Inr agent_id)"

section \<open>Loading principals\<close>

text \<open>\<open>list(v)\<close> and the items of a \<open>for\<close> loop over \<open>v\<close>; \<open>None\<close> is the \<open>TypeError\<close>.\<close>

fun py_iter :: "pyval \<Rightarrow> pyval list option" where
  "py_iter (PList xs) = Some xs"
| "py_iter (PStr s) = Some (map (\<lambda>c. PStr [c]) s)"
| "py_iter (PDict d) = Some (map (\<lambda>kv. PStr (fst kv)) d)"
| "py_iter _ = None"

definition norm_root :: "os_env \<Rightarrow> pyval \<Rightarrow> string" where
  "norm_root env x = (case expand_resolve env (py_str x) of Some rp \<Rightarrow> rp | None \<Rightarrow> py_str x)"

definition principal_from_raw ::
  "os_env \<Rightarrow> pydict \<Rightarrow> string \<Rightarrow> principal_error + effective_principal" where
  "principal_from_raw env raw transport =
    (case validate_agent_id (py_str (py_or (py_or (dget raw ''agent_id'') (dget raw ''id'')) (PStr ''main''))) of
       Inl e \<Rightarrow> Inl e
     | Inr aid \<Rightarrow>
       (case (py_iter (py_or (dget_or raw ''allowed_vault_roots'' (PList [])) (PList [])),
              py_iter (dget_or raw ''capabilities'' (PList [PStr ''*'']))) of
          (Some raw_roots, Some caps) \<Rightarrow> Inr
            \<lparr>ep_agent_id = aid,
             ep_workspace_id = py_str (dget_or raw ''workspace_id'' (PStr ''default'')),
             ep_session_id = dget raw ''session_id'',
             ep_transport = transport,
             ep_capabilities = caps,
             ep_vault_roots = map (norm_root env) raw_roots,
             ep_auto_accept_own = auto_accept_flag (dget_or raw ''auto_accept_own'' (PBool False)),
             ep_deny_reason = None\<rparr>
        | _ \<Rightarrow> Inl BadConfigType))"

definition from_operator_config ::
  "os_env \<Rightarrow> principal_dir \<Rightarrow> string \<Rightarrow> string \<Rightarrow> bool \<Rightarrow> principal_error + effective_principal option" where
  "from_operator_config env d principal_name transport strict =
    (case load_raw_principal_file principal_name d strict of
       Inl e \<Rightarrow> Inl e
     | Inr None \<Rightarrow> Inr None
     | Inr (Some raw) \<Rightarrow> (case principal_from_raw env raw transport of Inl e \<Rightarrow> Inl e | Inr p \<Rightarrow> Inr (Some p)))"

definition local_operator_asserted :: "os_env \<Rightarrow> bool" where
  "local_operator_asserted env \<longleftrightarrow>
     py_lower (py_strip (oe_local_operator env)) \<in> {''1'', ''true'', ''yes'', ''on''}"

definition bare_principal ::
  "string \<Rightarrow> string \<Rightarrow> pyval list \<Rightarrow> string option \<Rightarrow> effective_principal" where
  "bare_principal agent_id transport caps deny_reason =
    \<lparr>ep_agent_id = agent_id, ep_workspace_id = ''default'', ep_session_id = PNone, ep_transport = transport,
     ep_capabilities = caps, ep_vault_roots = [], ep_auto_accept_own = False, ep_deny_reason = deny_reason\<rparr>"

fun first_canonical ::
  "os_env \<Rightarrow> principal_dir \<Rightarrow> string \<Rightarrow> bool \<Rightarrow> string list \<Rightarrow> principal_error + effective_principal option" where
  "first_canonical env d transport strict [] = Inr None"
| "first_canonical env d transport strict (name # names) =
     (case from_operator_config env d name transport strict of
        Inl e \<Rightarrow> Inl e
      | Inr (Some p) \<Rightarrow> Inr (Some p)
      | Inr None \<Rightarrow> first_canonical env d transport strict names)"

definition from_local_transport ::
  "os_env \<Rightarrow> principal_dir \<Rightarrow> string \<Rightarrow> bool \<Rightarrow> principal_error + effective_principal" where
  "from_local_transport env d transport strict =
    (case first_canonical env d transport strict CANONICAL_PRINCIPAL_NAMES of
       Inl e \<Rightarrow> Inl e
     | Inr (Some p) \<Rightarrow> Inr p
     | Inr None \<Rightarrow>
        if strict \<and> \<not> local_operator_asserted env then Inr (bare_principal ''main'' transport [] None)
        else Inr (bare_principal ''main'' transport [PStr ''*''] None))"

section \<open>Aliases and learning scope\<close>

definition string_list :: "pyval \<Rightarrow> string list" where
  "string_list value =
    (let raw = (case value of PList xs \<Rightarrow> xs | PStr s \<Rightarrow> [PStr s] | _ \<Rightarrow> [])
     in filter (\<lambda>s. s \<noteq> []) (map (\<lambda>item. py_strip (py_str item)) raw))"

definition principal_aliases :: "pydict \<Rightarrow> string list" where
  "principal_aliases raw = string_list (dget raw ''legacy_agent_ids'') @ string_list (dget raw ''aliases'')"

definition add_valid_agent :: "string \<Rightarrow> string list \<Rightarrow> string list" where
  "add_valid_agent agent_id scope = (case validate_agent_id agent_id of
     Inl _ \<Rightarrow> scope
   | Inr a \<Rightarrow> if a \<in> set scope then scope else scope @ [a])"

definition scope_step :: "string \<Rightarrow> principal_dir \<Rightarrow> string \<Rightarrow> string list \<Rightarrow> string list" where
  "scope_step agent_id d name scope = (case load_raw_principal_file name d False of
     Inr (Some raw) \<Rightarrow>
       if raw = [] then scope
       else (let canonical = py_strip (py_str (py_or (py_or (dget raw ''agent_id'') (dget raw ''id'')) (PStr ''main'')));
                 aliases = principal_aliases raw;
                 platform_ids = string_list (dget raw ''platform_agent_ids'')
             in if agent_id = canonical \<or> agent_id \<in> set platform_ids
                then fold add_valid_agent aliases scope
                else if agent_id \<in> set aliases
                then fold add_valid_agent aliases (add_valid_agent canonical scope)
                else scope)
   | _ \<Rightarrow> scope)"

definition agent_scope_for :: "string \<Rightarrow> principal_dir \<Rightarrow> principal_error + string list" where
  "agent_scope_for agent_id d = (case validate_agent_id agent_id of
     Inl e \<Rightarrow> Inl e
   | Inr a \<Rightarrow> Inr (fold (scope_step a d) CANONICAL_PRINCIPAL_NAMES (add_valid_agent a [])))"

section \<open>Stamping a claim\<close>

definition default_deny_principal ::
  "string \<Rightarrow> string \<Rightarrow> string option \<Rightarrow> principal_error + effective_principal" where
  "default_deny_principal agent_id transport deny_reason = (case validate_agent_id agent_id of
     Inl e \<Rightarrow> Inl e
   | Inr a \<Rightarrow> Inr (bare_principal a transport [] deny_reason))"

definition default_platform_roots :: "os_env \<Rightarrow> string \<Rightarrow> principal_error + string list" where
  "default_platform_roots env agent_id =
    (case oe_resolve env (canonical_live_vault_root env agent_id) of
       None \<Rightarrow> Inl PathFailure
     | Some base \<Rightarrow>
        if agent_id = ''gemini'' then
          (case expand_resolve env ''~/.gemini/minni-vault'' of
             None \<Rightarrow> Inl PathFailure | Some legacy \<Rightarrow> Inr [base, legacy])
        else Inr [base])"

text \<open>The first of several maps in a principal file that has an entry for the agent.\<close>

fun first_mapped :: "pydict \<Rightarrow> string list \<Rightarrow> string \<Rightarrow> pyval option" where
  "first_mapped raw [] supplied = None"
| "first_mapped raw (k # ks) supplied = (case dget raw k of
     PDict m \<Rightarrow> (case map_of m supplied of Some v \<Rightarrow> Some v | None \<Rightarrow> first_mapped raw ks supplied)
   | _ \<Rightarrow> first_mapped raw ks supplied)"

definition operator_caps :: "string list" where
  "operator_caps = [''*'', ''govern'', ''resolve_candidate'']"

definition mapped_caps :: "pydict \<Rightarrow> string list \<Rightarrow> string \<Rightarrow> bool \<Rightarrow> string list" where
  "mapped_caps raw cap_keys supplied strip_operator_caps =
    (let caps = (case first_mapped raw cap_keys supplied of
                   Some (PList xs) \<Rightarrow> map py_str xs | _ \<Rightarrow> [])
     in if strip_operator_caps then filter (\<lambda>c. c \<notin> set operator_caps) caps else caps)"

fun resolve_all :: "os_env \<Rightarrow> pyval list \<Rightarrow> principal_error + string list" where
  "resolve_all env [] = Inr []"
| "resolve_all env (r # rs) =
     (if is_str r \<and> py_strip (str_of_val r) \<noteq> [] then
        (case expand_resolve env (str_of_val r) of
           None \<Rightarrow> Inl PathFailure
         | Some p \<Rightarrow> (case resolve_all env rs of Inl e \<Rightarrow> Inl e | Inr ps \<Rightarrow> Inr (p # ps)))
      else resolve_all env rs)"

definition mapped_roots ::
  "os_env \<Rightarrow> pydict \<Rightarrow> string list \<Rightarrow> string \<Rightarrow> principal_error + string list" where
  "mapped_roots env raw root_keys supplied = (case first_mapped raw root_keys supplied of
     None \<Rightarrow> default_platform_roots env supplied
   | Some (PList raw_roots) \<Rightarrow>
       if raw_roots = [] then Inr [PLATFORM_NO_ROOTS_SENTINEL]
       else (case resolve_all env raw_roots of
               Inl e \<Rightarrow> Inl e
             | Inr roots \<Rightarrow> Inr (if roots = [] then [PLATFORM_NO_ROOTS_SENTINEL] else roots))
   | Some _ \<Rightarrow> Inr [PLATFORM_NO_ROOTS_SENTINEL])"

definition build_mapped_principal ::
  "os_env \<Rightarrow> pydict \<Rightarrow> string \<Rightarrow> string \<Rightarrow> string \<Rightarrow> string list \<Rightarrow> string list \<Rightarrow> string list \<Rightarrow> bool \<Rightarrow>
   principal_error + effective_principal" where
  "build_mapped_principal env raw supplied stamped_ws transport cap_keys root_keys auto_keys strip_operator_caps =
    (let caps = mapped_caps raw cap_keys supplied strip_operator_caps
     in case mapped_roots env raw root_keys supplied of
          Inl e \<Rightarrow> Inl e
        | Inr roots \<Rightarrow>
            (let raw_auto = (case first_mapped raw auto_keys supplied of Some v \<Rightarrow> v | None \<Rightarrow> PBool False);
                 raw_ws = dget raw ''workspace_id''
             in Inr \<lparr>ep_agent_id = supplied,
                     ep_workspace_id = (if raw_ws \<noteq> PNone then py_str raw_ws else stamped_ws),
                     ep_session_id = dget raw ''session_id'',
                     ep_transport = transport,
                     ep_capabilities = map PStr caps,
                     ep_vault_roots = roots,
                     ep_auto_accept_own = auto_accept_flag raw_auto,
                     ep_deny_reason = None\<rparr>))"

text \<open>
  The two searches over the canonical files: the first file that lists the caller decides; \<open>None\<close>
  means that no file does.
\<close>

definition lists_platform_agent :: "string \<Rightarrow> pydict \<Rightarrow> bool" where
  "lists_platform_agent supplied raw \<longleftrightarrow> (case dget raw ''platform_agent_ids'' of
     PList ids \<Rightarrow> supplied \<in> set (map py_str ids) | _ \<Rightarrow> False)"

definition lists_alias :: "string \<Rightarrow> pydict \<Rightarrow> bool" where
  "lists_alias supplied raw \<longleftrightarrow> supplied \<in> set (principal_aliases raw)"

fun find_listing ::
  "(pydict \<Rightarrow> bool) \<Rightarrow> principal_dir \<Rightarrow> string list \<Rightarrow> principal_error + pydict option" where
  "find_listing listed d [] = Inr None"
| "find_listing listed d (name # names) = (case load_raw_principal_file name d True of
     Inl e \<Rightarrow> Inl e
   | Inr None \<Rightarrow> find_listing listed d names
   | Inr (Some raw) \<Rightarrow>
       if raw = [] \<or> \<not> listed raw then find_listing listed d names else Inr (Some raw))"

fun collect_aliases :: "principal_dir \<Rightarrow> string list \<Rightarrow> principal_error + string list" where
  "collect_aliases d [] = Inr []"
| "collect_aliases d (name # names) = (case load_raw_principal_file name d True of
     Inl e \<Rightarrow> Inl e
   | Inr raw \<Rightarrow> (case collect_aliases d names of
        Inl e \<Rightarrow> Inl e
      | Inr rest \<Rightarrow> Inr ((case raw of Some r \<Rightarrow> principal_aliases r | None \<Rightarrow> []) @ rest)))"

text \<open>A claim made in operator context.\<close>

definition stamp_operator_claim ::
  "principal_dir \<Rightarrow> bool \<Rightarrow> string \<Rightarrow> effective_principal \<Rightarrow> principal_error + effective_principal" where
  "stamp_operator_claim d strict supplied stamped =
    (if supplied = ep_agent_id stamped then Inr stamped
     else if supplied \<in> set OPERATOR_RESERVED_AGENT_IDS \<and>
             ep_agent_id stamped \<in> set OPERATOR_RESERVED_AGENT_IDS then Inr stamped
     else if strict \<and> supplied \<in> set OPERATOR_RESERVED_AGENT_IDS then
       (case collect_aliases d CANONICAL_PRINCIPAL_NAMES of
          Inl e \<Rightarrow> Inl e
        | Inr aliases \<Rightarrow>
            if supplied \<in> set aliases then Inr stamped
            else Inl (IdentityMismatch supplied (ep_agent_id stamped)))
     else Inl (IdentityMismatch supplied (ep_agent_id stamped)))"

text \<open>A claim of an agent other than the local principal and without a file of its own.\<close>

definition stamp_hosted_claim ::
  "os_env \<Rightarrow> principal_dir \<Rightarrow> bool \<Rightarrow> string \<Rightarrow> string \<Rightarrow> effective_principal \<Rightarrow>
   principal_error + effective_principal" where
  "stamp_hosted_claim env d strict transport supplied stamped =
    (case (if strict then find_listing (lists_platform_agent supplied) d CANONICAL_PRINCIPAL_NAMES else Inr None) of
       Inl e \<Rightarrow> Inl e
     | Inr (Some raw) \<Rightarrow>
         build_mapped_principal env raw supplied (ep_workspace_id stamped) transport
           [''platform_agent_capabilities''] [''platform_agent_vault_roots'']
           [''platform_agent_auto_accept_own''] False
     | Inr None \<Rightarrow>
        (case (if strict then find_listing (lists_alias supplied) d CANONICAL_PRINCIPAL_NAMES else Inr None) of
           Inl e \<Rightarrow> Inl e
         | Inr (Some raw) \<Rightarrow>
             build_mapped_principal env raw supplied (ep_workspace_id stamped) transport
               [''legacy_agent_capabilities'', ''platform_agent_capabilities'']
               [''legacy_agent_vault_roots'', ''platform_agent_vault_roots'']
               [''legacy_agent_auto_accept_own'', ''platform_agent_auto_accept_own''] True
         | Inr None \<Rightarrow>
             if strict \<and> ep_agent_id stamped \<notin> set OPERATOR_RESERVED_AGENT_IDS
             then Inl (IdentityMismatch supplied (ep_agent_id stamped))
             else default_deny_principal supplied transport (Some ''unknown_identity'')))"

definition stamp_effective_principal ::
  "os_env \<Rightarrow> principal_dir \<Rightarrow> string option \<Rightarrow> string \<Rightarrow> bool \<Rightarrow> principal_error + effective_principal" where
  "stamp_effective_principal env d supplied_agent_id transport operator_context =
    (let strict = has_any_principal_files d in
     case from_local_transport env d
         (if transport \<in> {''uds'', ''stdio'', ''local'', ''test''} then transport else ''http'') strict of
       Inl e \<Rightarrow> Inl e
     | Inr stamped \<Rightarrow>
        (let supplied_raw = (case supplied_agent_id of None \<Rightarrow> [] | Some s \<Rightarrow> py_strip s) in
         if supplied_raw = [] then Inr stamped
         else case validate_agent_id supplied_raw of
           Inl _ \<Rightarrow> Inl (IdentityMismatch supplied_raw (ep_agent_id stamped))
         | Inr supplied \<Rightarrow>
            if supplied \<in> set OPERATOR_RESERVED_AGENT_IDS \<and> \<not> operator_context \<and> \<not> local_operator_asserted env
            then default_deny_principal supplied transport (Some ''reserved_agent_id'')
            else if operator_context \<or> supplied \<in> set OPERATOR_RESERVED_AGENT_IDS
            then stamp_operator_claim d strict supplied stamped
            else case from_operator_config env d supplied transport True of
              Inl e \<Rightarrow> Inl e
            | Inr (Some p) \<Rightarrow>
                if ep_agent_id p \<noteq> supplied then Inl (IdentityMismatch supplied (ep_agent_id p)) else Inr p
            | Inr None \<Rightarrow>
                if supplied = ep_agent_id stamped then Inr stamped
                else stamp_hosted_claim env d strict transport supplied stamped))"

text \<open>The stamped principal and the vault whose layout is seeded as a side effect.\<close>

definition resolve_effective_principal ::
  "os_env \<Rightarrow> principal_dir \<Rightarrow> string option \<Rightarrow> string \<Rightarrow> bool \<Rightarrow>
   principal_error + (effective_principal \<times> string option)" where
  "resolve_effective_principal env d supplied_agent_id transport operator_context =
    (case stamp_effective_principal env d supplied_agent_id transport operator_context of
       Inl e \<Rightarrow> Inl e
     | Inr p \<Rightarrow> Inr (p, seed_own_vault env p))"

section \<open>Authorization\<close>

definition is_operator_principal :: "effective_principal \<Rightarrow> bool" where
  "is_operator_principal p =
    (let caps = ep_capabilities p in
     if PStr ''*'' \<in> set caps \<or> PStr ''resolve_candidate'' \<in> set caps \<or> PStr ''govern'' \<in> set caps then True
     else if ep_agent_id p \<in> {''main'', ''operator''} \<and> caps \<noteq> [] then True
     else False)"

definition doc_agent :: "pydict \<Rightarrow> string" where
  "doc_agent m = py_strip (py_str (py_or (py_or (dget m ''agent'') (dget m ''sigil'')) (PStr ''unknown'')))"

definition doc_page_type :: "pydict \<Rightarrow> string" where
  "doc_page_type m = py_lower (py_str (py_or (dget m ''page_type'') (PStr [])))"

definition doc_privacy :: "pydict \<Rightarrow> string" where
  "doc_privacy m = py_strip (py_lower (py_str
     (py_or (py_or (dget m ''privacy_level'') (dget m ''privacy'')) (PStr ''safe''))))"

definition doc_path :: "pydict \<Rightarrow> pyval" where
  "doc_path m = py_or (py_or (dget m ''path'') (dget m ''source'')) (dget m ''filename'')"

definition doc_workspace_raw :: "pydict \<Rightarrow> pyval" where
  "doc_workspace_raw m = py_or (py_or (dget m ''workspace_id'') (dget m ''workspace'')) (dget m ''ws'')"

definition same_agent :: "effective_principal \<Rightarrow> pydict \<Rightarrow> bool" where
  "same_agent p m \<longleftrightarrow> doc_agent m = ep_agent_id p \<and>
     \<not> (doc_page_type m = ''session'' \<and> py_lower (doc_agent m) = ''unknown'')"

definition workspace_denies :: "effective_principal \<Rightarrow> string \<Rightarrow> pydict \<Rightarrow> bool" where
  "workspace_denies p workspace m =
    (let doc_ws_raw = doc_workspace_raw m;
         doc_ws = py_str (py_or doc_ws_raw (PStr ''default''));
         call_ws = (if workspace = [] then ''default'' else workspace)
     in doc_ws \<noteq> ''*'' \<and> call_ws \<noteq> ''*'' \<and> doc_ws \<noteq> call_ws \<and>
        \<not> (same_agent p m \<and> \<not> truthy doc_ws_raw))"

definition foreign_session_denies :: "effective_principal \<Rightarrow> pydict \<Rightarrow> bool" where
  "foreign_session_denies p m =
    (let agent_l = py_lower (doc_agent m) in
     \<not> same_agent p m \<and>
     (doc_page_type m = ''session'' \<or> agent_l = ''wiki:session'' \<or> starts_with agent_l ''session:'') \<and>
     \<not> is_operator_principal p)"

text \<open>The path check; \<open>Path(path)\<close> of a value that is not a string raises, which denies.\<close>

definition path_denies :: "os_env \<Rightarrow> effective_principal \<Rightarrow> pydict \<Rightarrow> bool" where
  "path_denies env p m =
    (let path = doc_path m in
     if \<not> truthy path then False
     else case path of
       PStr s \<Rightarrow> (case oe_expanduser env s of
          None \<Rightarrow> True
        | Some q \<Rightarrow>
            if is_absolute q then \<not> allows_vault_root env p path
            else if ep_vault_roots p = [] then ep_capabilities p = []
            else if \<not> same_agent p m then True
            else list_all (\<lambda>r. r = PLATFORM_NO_ROOTS_SENTINEL) (ep_vault_roots p))
     | _ \<Rightarrow> True)"

definition shared_page :: "pydict \<Rightarrow> bool" where
  "shared_page m =
    (let agent_l = py_lower (doc_agent m) in
     doc_page_type m \<in> {''wiki'', ''handoff'', ''synthesis'', ''decision''} \<or>
     starts_with agent_l ''wiki:'' \<or> starts_with agent_l ''handoff'' \<or>
     py_in ''wiki'' agent_l \<or> py_in ''handoff'' agent_l)"

definition can_read_document :: "os_env \<Rightarrow> effective_principal option \<Rightarrow> string \<Rightarrow> pyval \<Rightarrow> bool" where
  "can_read_document env caller workspace doc_metadata = (case (caller, doc_metadata) of
     (Some p, PDict m) \<Rightarrow>
       if workspace_denies p workspace m then False
       else if foreign_session_denies p m then False
       else if path_denies env p m then False
       else if doc_privacy m = ''blocked'' then False
       else if same_agent p m then True
       else if doc_agent m = ''unknown'' \<and> (ep_capabilities p \<noteq> [] \<or> ep_vault_roots p \<noteq> []) then True
       else if is_operator_principal p then True
       else if doc_privacy m \<in> {''private'', ''local-only''} then False
       else shared_page m
   | _ \<Rightarrow> False)"

definition allows_cross_agent_recall :: "effective_principal \<Rightarrow> bool" where
  "allows_cross_agent_recall p =
    (let caps = ep_capabilities p in
     if PStr ''*'' \<in> set caps \<or> PStr ''cross_agent'' \<in> set caps \<or> PStr ''govern'' \<in> set caps then True
     else is_operator_principal p)"

end
