(* ===== verification/Identity_Gate.thy ===== *)
theory Identity_Gate
  imports Principal
begin

text \<open>
  What the identity and read-authorization code of \<open>principal.py\<close> guarantees: which identity a wire
  claim is stamped with, which callers can hold operator rights, and what the read gate refuses.
  The gate's contract towards its clients is the locale \<open>read_gate\<close>.
\<close>

section \<open>The read gate as an interface\<close>

text \<open>
  What every surface that shows documents relies on: no caller, no document; only a metadata dict
  can pass; blocked documents and documents the path check refuses are never shown.
\<close>

locale read_gate =
  fixes can_read :: "'p option \<Rightarrow> string \<Rightarrow> pyval \<Rightarrow> bool"
    and blocked :: "pydict \<Rightarrow> bool"
    and outside :: "'p \<Rightarrow> pydict \<Rightarrow> bool"
  assumes gate_caller: "can_read c ws v \<Longrightarrow> \<exists>p. c = Some p"
    and gate_dict: "can_read c ws v \<Longrightarrow> is_dict v"
    and gate_blocked: "can_read c ws (PDict m) \<Longrightarrow> \<not> blocked m"
    and gate_outside: "can_read (Some p) ws (PDict m) \<Longrightarrow> \<not> outside p m"
begin

lemma gate_passed:
  assumes "can_read c ws v"
  obtains p m where "c = Some p" and "v = PDict m" and "\<not> blocked m" and "\<not> outside p m"
proof -
  obtain p where p: "c = Some p" using gate_caller[OF assms] by blast
  obtain m where m: "v = PDict m" using gate_dict[OF assms] by (cases v) auto
  show thesis using that[OF p m] gate_blocked gate_outside assms p m by blast
qed

lemma no_caller_sees_nothing: "filter (\<lambda>d. can_read None ws (f d)) ds = []"
  using gate_caller by (auto simp: filter_empty_conv)

lemma shown_not_blocked:
  assumes "d \<in> set (filter (\<lambda>d. can_read c ws (f d)) ds)"
  shows "\<exists>m. f d = PDict m \<and> \<not> blocked m"
  using assms by (auto elim: gate_passed)

end

definition doc_blocked :: "pydict \<Rightarrow> bool" where
  "doc_blocked m \<longleftrightarrow> doc_privacy m = ''blocked''"

interpretation rd: read_gate "can_read_document env" doc_blocked "path_denies env" for env
  by unfold_locales
    (auto simp: can_read_document_def doc_blocked_def
      split: option.splits pyval.splits if_splits)

section \<open>Paths\<close>

lemma under_some_rootD:
  "under_some_root env q roots \<Longrightarrow>
     \<exists>base \<in> set roots. \<exists>r. oe_resolve env base = Some r \<and> is_relative_to q r"
  by (induction roots) (auto split: option.splits if_splits)

lemma allows_vault_rootD:
  assumes "allows_vault_root env p v" and "ep_vault_roots p \<noteq> []"
  shows "\<exists>s q. v = PStr s \<and> oe_resolve env s = Some q \<and>
     (\<exists>base \<in> set (ep_vault_roots p). \<exists>r. oe_resolve env base = Some r \<and> is_relative_to q r)"
  using assms by (auto simp: allows_vault_root_def dest: under_some_rootD split: pyval.splits option.splits)

lemma path_allowed_cases:
  assumes "\<not> path_denies env p m" and "doc_path m = PStr s" and "s \<noteq> []"
  obtains q where "oe_expanduser env s = Some q" and "is_absolute q" and "allows_vault_root env p (PStr s)"
  | q where "oe_expanduser env s = Some q" and "\<not> is_absolute q" and "ep_vault_roots p = []"
      and "ep_capabilities p \<noteq> []"
  | q where "oe_expanduser env s = Some q" and "\<not> is_absolute q" and "same_agent p m"
      and "\<exists>r \<in> set (ep_vault_roots p). r \<noteq> PLATFORM_NO_ROOTS_SENTINEL"
  using assms by (auto simp: path_denies_def Let_def list_all_iff split: option.splits if_splits)

lemma read_iff:
  "can_read_document env (Some p) ws (PDict m) \<longleftrightarrow>
     \<not> workspace_denies p ws m \<and> \<not> foreign_session_denies p m \<and> \<not> path_denies env p m \<and>
     doc_privacy m \<noteq> ''blocked'' \<and>
     (same_agent p m \<or>
      doc_agent m = ''unknown'' \<and> (ep_capabilities p \<noteq> [] \<or> ep_vault_roots p \<noteq> []) \<or>
      is_operator_principal p \<or>
      doc_privacy m \<notin> {''private'', ''local-only''} \<and> shared_page m)"
  by (auto simp: can_read_document_def)

section \<open>Callers without rights\<close>

definition powerless :: "effective_principal \<Rightarrow> bool" where
  "powerless p \<longleftrightarrow> ep_capabilities p = [] \<and> ep_vault_roots p = []"

lemma powerless_can [simp]: "powerless p \<Longrightarrow> \<not> can p c"
  by (simp add: powerless_def can_def)

lemma powerless_not_operator [simp]: "powerless p \<Longrightarrow> \<not> is_operator_principal p"
  by (simp add: powerless_def is_operator_principal_def)

lemma powerless_seeds_nothing [simp]: "powerless p \<Longrightarrow> seed_own_vault env p = None"
  by (simp add: seed_own_vault_def)

lemma powerless_no_root [simp]: "powerless p \<Longrightarrow> \<not> allows_vault_root env p v"
  by (simp add: powerless_def allows_vault_root_def)

lemma powerless_path: "powerless p \<Longrightarrow> truthy (doc_path m) \<Longrightarrow> path_denies env p m"
  by (auto simp: path_denies_def Let_def powerless_def allows_vault_root_def split: pyval.splits option.splits)

lemma bare_powerless [simp]: "powerless (bare_principal a t [] dr)"
  by (simp add: powerless_def bare_principal_def)

lemma bare_sel [simp]:
  "ep_agent_id (bare_principal a t cs dr) = a" "ep_capabilities (bare_principal a t cs dr) = cs"
  "ep_deny_reason (bare_principal a t cs dr) = dr" "ep_vault_roots (bare_principal a t cs dr) = []"
  by (simp_all add: bare_principal_def)

lemma validate_agent_id_Inr [simp]: "validate_agent_id a = Inr b \<longleftrightarrow> b = a \<and> a \<noteq> [] \<and> agent_id_matches a"
  by (auto simp: validate_agent_id_def)

lemma default_deny_Inr:
  "default_deny_principal a t dr = Inr p \<longleftrightarrow> a \<noteq> [] \<and> agent_id_matches a \<and> p = bare_principal a t [] dr"
  by (auto simp: default_deny_principal_def validate_agent_id_def split: sum.splits if_splits)

section \<open>Hosted agents\<close>

lemma build_mapped_Inr:
  assumes "build_mapped_principal env raw a ws t ck rk ak strip = Inr p"
  shows "ep_agent_id p = a" and "ep_capabilities p = map PStr (mapped_caps raw ck a strip)"
    and "mapped_roots env raw rk a = Inr (ep_vault_roots p)" and "ep_deny_reason p = None"
  using assms by (auto simp: build_mapped_principal_def Let_def split: sum.splits)

lemma mapped_roots_nonempty: "mapped_roots env raw rk a = Inr roots \<Longrightarrow> roots \<noteq> []"
  by (auto simp: mapped_roots_def default_platform_roots_def split: option.splits pyval.splits if_splits sum.splits)

lemma stripped_caps: "c \<in> set operator_caps \<Longrightarrow> c \<notin> set (mapped_caps raw ck a True)"
  by (simp add: mapped_caps_def Let_def)

lemma is_operator_iff:
  "is_operator_principal p \<longleftrightarrow>
     (\<exists>c \<in> set operator_caps. PStr c \<in> set (ep_capabilities p)) \<or>
     ep_agent_id p \<in> set OPERATOR_RESERVED_AGENT_IDS \<and> ep_capabilities p \<noteq> []"
  by (auto simp: is_operator_principal_def operator_caps_def OPERATOR_RESERVED_AGENT_IDS_def Let_def)

lemma stripped_not_operator:
  assumes "build_mapped_principal env raw a ws t ck rk ak True = Inr p"
    and "a \<notin> set OPERATOR_RESERVED_AGENT_IDS"
  shows "\<not> is_operator_principal p"
proof -
  have caps: "ep_capabilities p = map PStr (mapped_caps raw ck a True)" by (rule build_mapped_Inr[OF assms(1)])
  have aid: "ep_agent_id p = a" by (rule build_mapped_Inr[OF assms(1)])
  show ?thesis using assms(2) stripped_caps by (auto simp: is_operator_iff caps aid)
qed

lemma find_listing_Some:
  "find_listing listed d names = Inr (Some raw) \<Longrightarrow>
     \<exists>n \<in> set names. \<exists>f. map_of d n = Some f \<and> pf_json f = Some (PDict raw) \<and> raw \<noteq> [] \<and> listed raw"
  by (induction names)
    (force simp: load_raw_principal_file_def Let_def split: sum.splits option.splits if_splits pyval.splits)+

text \<open>What a principal file says about an agent: the capability list written for it under \<open>key\<close>.\<close>

definition raw_grants :: "pydict \<Rightarrow> string \<Rightarrow> string \<Rightarrow> string \<Rightarrow> bool" where
  "raw_grants raw key agent cap = (case first_mapped raw [key] agent of
     Some (PList xs) \<Rightarrow> cap \<in> set (map py_str xs) | _ \<Rightarrow> False)"

definition file_grants :: "principal_dir \<Rightarrow> string \<Rightarrow> string \<Rightarrow> string \<Rightarrow> bool" where
  "file_grants d key agent cap = list_ex (\<lambda>n. case map_of d n of
     None \<Rightarrow> False
   | Some f \<Rightarrow> (case pf_json f of
        Some (PDict raw) \<Rightarrow> lists_platform_agent agent raw \<and> raw_grants raw key agent cap
      | _ \<Rightarrow> False)) CANONICAL_PRINCIPAL_NAMES"

lemma stamp_hosted_cases:
  assumes "stamp_hosted_claim env d strict t a st = Inr p"
  obtains
    (platform) raw where "find_listing (lists_platform_agent a) d CANONICAL_PRINCIPAL_NAMES = Inr (Some raw)"
      and "build_mapped_principal env raw a (ep_workspace_id st) t [''platform_agent_capabilities'']
         [''platform_agent_vault_roots''] [''platform_agent_auto_accept_own''] False = Inr p"
  | (aliased) raw where "build_mapped_principal env raw a (ep_workspace_id st) t
         [''legacy_agent_capabilities'', ''platform_agent_capabilities'']
         [''legacy_agent_vault_roots'', ''platform_agent_vault_roots'']
         [''legacy_agent_auto_accept_own'', ''platform_agent_auto_accept_own''] True = Inr p"
  | (unknown) "p = bare_principal a t [] (Some ''unknown_identity'')"
  using assms unfolding stamp_hosted_claim_def
  by (auto simp: default_deny_Inr split: sum.splits option.splits if_splits)

lemma mapped_cap_grants: "cap \<in> set (mapped_caps raw [key] a False) \<longleftrightarrow> raw_grants raw key a cap"
  unfolding mapped_caps_def raw_grants_def Let_def
  by (simp del: first_mapped.simps split: option.splits pyval.splits)

lemma platform_cap_granted:
  assumes "find_listing (lists_platform_agent a) d CANONICAL_PRINCIPAL_NAMES = Inr (Some raw)"
    and "cap \<in> set (mapped_caps raw [''platform_agent_capabilities''] a False)"
  shows "file_grants d ''platform_agent_capabilities'' a cap"
  using find_listing_Some[OF assms(1)] assms(2)
  unfolding mapped_cap_grants file_grants_def list_ex_iff by force

lemma stamp_hosted_agent: "stamp_hosted_claim env d strict t a st = Inr p \<Longrightarrow> ep_agent_id p = a"
  by (erule stamp_hosted_cases) (auto dest: build_mapped_Inr(1))

lemma stamp_hosted_operator:
  assumes "stamp_hosted_claim env d strict t a st = Inr p" and "is_operator_principal p"
    and "a \<notin> set OPERATOR_RESERVED_AGENT_IDS"
  shows "\<exists>c \<in> set operator_caps. file_grants d ''platform_agent_capabilities'' a c"
  using assms(1)
proof (cases rule: stamp_hosted_cases)
  case (platform raw)
  have "ep_agent_id p = a" "ep_capabilities p = map PStr (mapped_caps raw [''platform_agent_capabilities''] a False)"
    using build_mapped_Inr(1,2)[OF platform(2)] by auto
  then obtain c where "c \<in> set operator_caps" "c \<in> set (mapped_caps raw [''platform_agent_capabilities''] a False)"
    using assms(2,3) by (auto simp: is_operator_iff)
  then show ?thesis using platform_cap_granted[OF platform(1)] by blast
qed (use assms stripped_not_operator in auto)


section \<open>Stamping a claim\<close>

abbreviation local_transport :: "string \<Rightarrow> string" where
  "local_transport t \<equiv> (if t \<in> {''uds'', ''stdio'', ''local'', ''test''} then t else ''http'')"

lemma stamp_claim_cases:
  assumes "stamp_effective_principal env d (Some s) t oc = Inr p" and "py_strip s \<noteq> []"
  obtains
    (reserved) "py_strip s \<in> set OPERATOR_RESERVED_AGENT_IDS" and "\<not> oc" and "\<not> local_operator_asserted env"
      and "p = bare_principal (py_strip s) t [] (Some ''reserved_agent_id'')"
  | (operator) "oc \<or> py_strip s \<in> set OPERATOR_RESERVED_AGENT_IDS \<and> local_operator_asserted env"
      and "from_local_transport env d (local_transport t) (has_any_principal_files d) = Inr p"
      and "py_strip s = ep_agent_id p \<or> py_strip s \<in> set OPERATOR_RESERVED_AGENT_IDS"
  | (own_file) "\<not> oc" and "py_strip s \<notin> set OPERATOR_RESERVED_AGENT_IDS"
      and "from_operator_config env d (py_strip s) t True = Inr (Some p)" and "ep_agent_id p = py_strip s"
  | (local) "\<not> oc" and "py_strip s \<notin> set OPERATOR_RESERVED_AGENT_IDS" and "py_strip s = ep_agent_id p"
      and "from_local_transport env d (local_transport t) (has_any_principal_files d) = Inr p"
  | (hosted) st where "\<not> oc" and "py_strip s \<notin> set OPERATOR_RESERVED_AGENT_IDS"
      and "stamp_hosted_claim env d (has_any_principal_files d) t (py_strip s) st = Inr p"
proof -
  let ?a = "py_strip s" and ?R = "set OPERATOR_RESERVED_AGENT_IDS" and ?strict = "has_any_principal_files d"
  obtain st where st: "from_local_transport env d (local_transport t) ?strict = Inr st"
    using assms(1) by (simp add: stamp_effective_principal_def Let_def split: sum.splits)
  obtain b where "validate_agent_id ?a = Inr b"
    using assms st by (cases "validate_agent_id ?a") (auto simp: stamp_effective_principal_def Let_def)
  then have valid: "validate_agent_id ?a = Inr ?a" by (simp add: validate_agent_id_def split: if_splits)
  have claim: "(if ?a \<in> ?R \<and> \<not> oc \<and> \<not> local_operator_asserted env
       then default_deny_principal ?a t (Some ''reserved_agent_id'')
       else if oc \<or> ?a \<in> ?R then stamp_operator_claim d ?strict ?a st
       else case from_operator_config env d ?a t True of
              Inl e \<Rightarrow> Inl e
            | Inr (Some q) \<Rightarrow> if ep_agent_id q \<noteq> ?a then Inl (IdentityMismatch ?a (ep_agent_id q)) else Inr q
            | Inr None \<Rightarrow> if ?a = ep_agent_id st then Inr st
                else stamp_hosted_claim env d ?strict t ?a st) = Inr p"
    using assms unfolding stamp_effective_principal_def Let_def st option.case sum.case valid if_False
    by simp
  consider "?a \<in> ?R" "\<not> oc" "\<not> local_operator_asserted env"
    | "oc \<or> ?a \<in> ?R" "oc \<or> local_operator_asserted env"
    | "\<not> oc" "?a \<notin> ?R" by blast
  then show thesis
  proof cases
    case 1 then show thesis using claim reserved by (simp add: default_deny_Inr)
  next
    case 2
    then have op: "stamp_operator_claim d ?strict ?a st = Inr p" using claim by (simp split: if_splits)
    then have "p = st" "?a = ep_agent_id st \<or> ?a \<in> ?R"
      by (auto simp: stamp_operator_claim_def simp del: insert_iff split: if_splits sum.splits)
    then show thesis using operator st 2 by blast
  next
    case 3
    then show thesis using claim own_file "local" st hosted
      by (auto split: sum.splits option.splits if_splits)
  qed
qed


lemma resolve_effective_Inr:
  "resolve_effective_principal env d c t oc = Inr (p, v) \<longleftrightarrow>
     stamp_effective_principal env d c t oc = Inr p \<and> v = seed_own_vault env p"
  by (auto simp: resolve_effective_principal_def split: sum.splits)

text \<open>C4: A caller that names an agent id is stamped with exactly that id, or refused: no claim of a
  name other than the two reserved operator ids is ever answered with another agent's principal,
  whatever the principal files contain and in operator context too.\<close>

theorem stamp_keeps_claimed_identity:
  assumes "resolve_effective_principal env d (Some s) t oc = Inr (p, v)"
    and "py_strip s \<noteq> []" and "py_strip s \<notin> set OPERATOR_RESERVED_AGENT_IDS"
  shows "ep_agent_id p = py_strip s"
proof -
  have "stamp_effective_principal env d (Some s) t oc = Inr p" using assms(1) by (simp add: resolve_effective_Inr)
  then show ?thesis using assms(2,3)
    by (cases rule: stamp_claim_cases) (auto dest: stamp_hosted_agent)
qed

text \<open>Without operator context, a wire claim of a reserved operator id (\<open>main\<close>, \<open>operator\<close>) is
  answered with a principal of that name that can do nothing: no capability, no vault root, marked
  \<open>reserved_agent_id\<close>, and no vault is seeded for it.\<close>

theorem reserved_claim_powerless:
  assumes "resolve_effective_principal env d (Some s) t False = Inr (p, v)"
    and "py_strip s \<in> set OPERATOR_RESERVED_AGENT_IDS" and "\<not> local_operator_asserted env"
  shows "ep_agent_id p = py_strip s \<and> ep_deny_reason p = Some ''reserved_agent_id'' \<and> v = None \<and>
    \<not> is_operator_principal p \<and> \<not> can p cap \<and> \<not> allows_vault_root env p path"
proof -
  have st: "stamp_effective_principal env d (Some s) t False = Inr p" and v: "v = seed_own_vault env p"
    using assms(1) by (simp_all add: resolve_effective_Inr)
  have "py_strip s \<noteq> []" using assms(2) by (auto simp: OPERATOR_RESERVED_AGENT_IDS_def)
  from st this have "p = bare_principal (py_strip s) t [] (Some ''reserved_agent_id'')"
    by (cases rule: stamp_claim_cases) (use assms(2,3) in auto)
  then show ?thesis using v by simp
qed

text \<open>C2: Operator rights come only from what the operator wrote.  When a caller without operator
  context holds them, its claim was not a reserved id, and one of three things was written for that
  very name: a principal file of its own, the local principal's own identity, or an operator
  capability in the \<open>platform_agent_capabilities\<close> map of a canonical file that lists it.  Being a
  legacy alias never suffices.\<close>

theorem operator_rights_are_written:
  assumes "resolve_effective_principal env d (Some s) t False = Inr (p, v)" and "py_strip s \<noteq> []"
    and "\<not> local_operator_asserted env" and "is_operator_principal p"
  shows "py_strip s \<notin> set OPERATOR_RESERVED_AGENT_IDS \<and>
    (from_operator_config env d (py_strip s) t True = Inr (Some p) \<or>
     from_local_transport env d (local_transport t) (has_any_principal_files d) = Inr p \<or>
     (\<exists>c \<in> set operator_caps. file_grants d ''platform_agent_capabilities'' (py_strip s) c))"
proof -
  have "stamp_effective_principal env d (Some s) t False = Inr p" using assms(1) by (simp add: resolve_effective_Inr)
  then show ?thesis using assms(2)
    by (cases rule: stamp_claim_cases) (use assms(3,4) stamp_hosted_operator[OF _ assms(4)] in auto)
qed

lemma first_canonical_None:
  "\<forall>n \<in> set names. map_of d n = None \<Longrightarrow> first_canonical env d t strict names = Inr None"
  by (induction names) (simp_all add: from_operator_config_def load_raw_principal_file_def)

text \<open>On an install with principal files but none for the local operator, a caller that names no
  agent has no right at all unless the daemon's own environment asserts a local operator.\<close>

theorem strict_install_without_operator:
  assumes "has_any_principal_files d" and "\<forall>n \<in> set CANONICAL_PRINCIPAL_NAMES. map_of d n = None"
    and "\<not> local_operator_asserted env"
  shows "\<exists>p. resolve_effective_principal env d None t oc = Inr (p, None) \<and> ep_agent_id p = ''main'' \<and>
    \<not> is_operator_principal p \<and> \<not> can p cap \<and> \<not> allows_vault_root env p path"
  using assms by (simp add: resolve_effective_principal_def stamp_effective_principal_def
      from_local_transport_def first_canonical_None)


section \<open>Reading documents\<close>

lemma foreign_not_session:
  "\<not> foreign_session_denies p m \<Longrightarrow> \<not> same_agent p m \<Longrightarrow> \<not> is_operator_principal p \<Longrightarrow>
     doc_page_type m \<noteq> ''session'' \<and> py_lower (doc_agent m) \<noteq> ''wiki:session'' \<and>
     \<not> starts_with (py_lower (doc_agent m)) ''session:''"
  by (simp add: foreign_session_denies_def Let_def)

text \<open>C8: Of another named agent's documents, a caller without operator rights reads only shared pages:
  the page is a wiki, handoff, synthesis or decision page, it is neither private, local-only nor
  blocked, it is not a session page, and its workspace is the caller's or shared.\<close>

theorem foreign_read_is_shared:
  assumes "can_read_document env (Some p) ws (PDict m)" and "\<not> is_operator_principal p"
    and "doc_agent m \<noteq> ep_agent_id p" and "doc_agent m \<noteq> ''unknown''"
  shows "shared_page m \<and> doc_privacy m \<notin> {''private'', ''local-only'', ''blocked''} \<and>
    doc_page_type m \<noteq> ''session'' \<and> \<not> starts_with (py_lower (doc_agent m)) ''session:'' \<and>
    (ws = ''*'' \<or>
     py_str (py_or (doc_workspace_raw m) (PStr ''default'')) \<in> {''*'', if ws = [] then ''default'' else ws})"
proof -
  have foreign: "\<not> same_agent p m" using assms(3) by (simp add: same_agent_def)
  note r = assms(1)[unfolded read_iff]
  have ws: "\<not> workspace_denies p ws m" and ses: "\<not> foreign_session_denies p m" using r by auto
  have "shared_page m \<and> doc_privacy m \<notin> {''private'', ''local-only'', ''blocked''}"
    using r foreign assms(2,4) by auto
  moreover have "doc_page_type m \<noteq> ''session'' \<and> \<not> starts_with (py_lower (doc_agent m)) ''session:''"
    using foreign_not_session[OF ses foreign assms(2)] by auto
  ultimately show ?thesis using ws foreign by (auto simp: workspace_denies_def Let_def split: if_splits)
qed

text \<open>C24: A caller confined to vault roots reads a document with an absolute path only when the resolved
  path lies under one of its resolved roots; this holds for operators too.\<close>

theorem read_within_vault_roots:
  assumes "can_read_document env (Some p) ws (PDict m)" and "ep_vault_roots p \<noteq> []"
    and "doc_path m = PStr s" and "s \<noteq> []" and "oe_expanduser env s = Some q" and "is_absolute q"
  shows "\<exists>r. oe_resolve env s = Some r \<and>
    (\<exists>base \<in> set (ep_vault_roots p). \<exists>b. oe_resolve env base = Some b \<and> is_relative_to r b)"
proof -
  have "\<not> path_denies env p m" using assms(1) by (rule rd.gate_outside)
  then have "allows_vault_root env p (PStr s)" using assms(3-6) by (auto elim!: path_allowed_cases)
  from allows_vault_rootD[OF this assms(2)] show ?thesis by auto
qed

text \<open>A caller stamped by default deny (no capability, no root) reads no document that has a path,
  nothing blocked, nothing of unknown authorship, and of other agents only shared pages.\<close>

theorem powerless_reads:
  assumes "can_read_document env (Some p) ws (PDict m)" and "powerless p"
  shows "\<not> truthy (doc_path m) \<and> doc_privacy m \<noteq> ''blocked'' \<and>
    (same_agent p m \<or> shared_page m \<and> doc_privacy m \<notin> {''private'', ''local-only''})"
proof -
  have "\<not> path_denies env p m" using assms(1) by (rule rd.gate_outside)
  then show ?thesis using assms powerless_path by (auto simp: read_iff powerless_def[of p])
qed


section \<open>Learning scope\<close>

definition file_agent :: "pydict \<Rightarrow> string" where
  "file_agent raw = py_strip (py_str (py_or (py_or (dget raw ''agent_id'') (dget raw ''id'')) (PStr ''main'')))"

definition shares_learning :: "pydict \<Rightarrow> string \<Rightarrow> string \<Rightarrow> bool" where
  "shares_learning raw a x =
    (if a = file_agent raw \<or> a \<in> set (string_list (dget raw ''platform_agent_ids''))
     then x \<in> set (principal_aliases raw)
     else a \<in> set (principal_aliases raw) \<and> (x \<in> set (principal_aliases raw) \<or> x = file_agent raw))"

definition valid_agent :: "string \<Rightarrow> bool" where
  "valid_agent x \<longleftrightarrow> x \<noteq> [] \<and> agent_id_matches x"

lemma add_valid_agent_props:
  "distinct sc \<Longrightarrow> distinct (add_valid_agent x sc)"
  "set (add_valid_agent x sc) = set sc \<union> {y. y = x \<and> valid_agent y}"
  "\<exists>ys. add_valid_agent x sc = sc @ ys"
  by (auto simp: add_valid_agent_def valid_agent_def validate_agent_id_def)

lemma add_valid_agents_props:
  "distinct sc \<Longrightarrow> distinct (fold add_valid_agent xs sc)"
  "set (fold add_valid_agent xs sc) = set sc \<union> {y \<in> set xs. valid_agent y}"
  "\<exists>ys. fold add_valid_agent xs sc = sc @ ys"
proof -
  show "\<exists>ys. fold add_valid_agent xs sc = sc @ ys"
  proof (induction xs arbitrary: sc)
    case (Cons x xs)
    then show ?case using add_valid_agent_props(3)[of x sc] by (metis append.assoc fold_simps(2))
  qed simp
qed (induction xs arbitrary: sc; auto simp: add_valid_agent_props)+

definition loaded :: "principal_dir \<Rightarrow> string \<Rightarrow> pydict \<Rightarrow> bool" where
  "loaded d n raw \<longleftrightarrow> load_raw_principal_file n d False = Inr (Some raw) \<and> raw \<noteq> []"

lemma scope_step_props:
  "distinct sc \<Longrightarrow> distinct (scope_step a d n sc)"
  "set (scope_step a d n sc) = set sc \<union> {y. valid_agent y \<and> (\<exists>raw. loaded d n raw \<and> shares_learning raw a y)}"
  "\<exists>ys. scope_step a d n sc = sc @ ys"
proof -
  consider "\<nexists>raw. loaded d n raw" and "scope_step a d n sc = sc"
    | raw where "loaded d n raw" and "scope_step a d n sc =
        (if a = file_agent raw \<or> a \<in> set (string_list (dget raw ''platform_agent_ids''))
         then fold add_valid_agent (principal_aliases raw) sc
         else if a \<in> set (principal_aliases raw)
         then fold add_valid_agent (file_agent raw # principal_aliases raw) sc else sc)"
  proof (cases "\<exists>raw. loaded d n raw")
    case True
    then obtain raw where raw: "loaded d n raw" by blast
    then show thesis by (intro that(2)[of raw]) (simp_all add: loaded_def scope_step_def file_agent_def Let_def)
  next
    case False
    then show thesis by (intro that(1)) (auto simp: loaded_def scope_step_def split: sum.splits option.splits)
  qed
  note cases = this
  show "distinct sc \<Longrightarrow> distinct (scope_step a d n sc)"
    by (cases rule: cases) (simp_all add: add_valid_agents_props(1) add_valid_agent_props(1))
  show "\<exists>ys. scope_step a d n sc = sc @ ys"
  proof (cases rule: cases)
    case (2 raw)
    show ?thesis unfolding 2(2) using add_valid_agents_props(3) by (simp del: fold.simps fold_simps)
  qed simp
  show "set (scope_step a d n sc) = set sc \<union> {y. valid_agent y \<and> (\<exists>raw. loaded d n raw \<and> shares_learning raw a y)}"
  proof (cases rule: cases)
    case (2 raw)
    have "loaded d n raw' \<Longrightarrow> raw' = raw" for raw' using 2(1) by (simp add: loaded_def)
    then have "(\<exists>raw. loaded d n raw \<and> shares_learning raw a y) \<longleftrightarrow> shares_learning raw a y" for y
      using 2(1) by blast
    then show ?thesis unfolding 2(2) shares_learning_def
      by (auto simp: add_valid_agents_props(2) add_valid_agent_props(2))
  qed auto
qed


text \<open>The learning scope of an agent is the agent itself, first, and then exactly the valid ids that
  some canonical principal file ties to it: the file's aliases when it names the agent as its own or
  as a platform agent, the aliases and the file's own agent when it names the agent as an alias.
  Nothing is listed twice.\<close>

theorem agent_scope_exact:
  assumes "agent_scope_for a d = Inr sc"
  shows "distinct sc \<and> (\<exists>rest. sc = a # rest) \<and> valid_agent a \<and>
    set sc = insert a {x. valid_agent x \<and>
      (\<exists>n \<in> set CANONICAL_PRINCIPAL_NAMES. \<exists>raw. loaded d n raw \<and> shares_learning raw a x)}"
proof -
  have a: "valid_agent a" and sc: "sc = fold (scope_step a d) CANONICAL_PRINCIPAL_NAMES [a]"
    using assms unfolding agent_scope_for_def add_valid_agent_def valid_agent_def
    by (cases "validate_agent_id a"; auto)+
  have "distinct ys \<Longrightarrow> distinct (fold (scope_step a d) ns ys) \<and> (\<exists>zs. fold (scope_step a d) ns ys = ys @ zs) \<and>
    set (fold (scope_step a d) ns ys) = set ys \<union>
      {x. valid_agent x \<and> (\<exists>n \<in> set ns. \<exists>raw. loaded d n raw \<and> shares_learning raw a x)}" for ns ys
  proof (induction ns arbitrary: ys)
    case (Cons n ns)
    obtain zs where zs: "scope_step a d n ys = ys @ zs" using scope_step_props(3) by blast
    note ih = Cons.IH[OF scope_step_props(1)[OF Cons.prems], of a d n]
    have "\<exists>zs'. fold (scope_step a d) ns (scope_step a d n ys) = ys @ zs'" using ih zs by auto
    moreover have "set (fold (scope_step a d) ns (scope_step a d n ys)) = set ys \<union>
      {x. valid_agent x \<and> (\<exists>n \<in> set (n # ns). \<exists>raw. loaded d n raw \<and> shares_learning raw a x)}"
      using ih unfolding scope_step_props(2) by (simp del: fold_simps) blast
    ultimately show ?case using ih by simp
  qed simp
  from this[of "[a]" CANONICAL_PRINCIPAL_NAMES] show ?thesis unfolding sc using a by auto
qed


section \<open>Concrete instances\<close>

definition sample_env :: os_env where
  "sample_env = \<lparr>oe_expanduser = Some, oe_resolve = Some, oe_minni_home = ''/h'', oe_local_operator = []\<rparr>"

definition sample_dir :: principal_dir where
  "sample_dir = [(''local'', \<lparr>pf_mode = Some 384, pf_json = Some (PDict
     [(''agent_id'', PStr ''main''),
      (''platform_agent_ids'', PList [PStr ''codex'']),
      (''platform_agent_capabilities'', PDict [(''codex'', PList [PStr ''govern'', PStr ''learn''])]),
      (''platform_agent_vault_roots'', PDict [(''codex'', PList [PStr ''/h/codex-vault''])]),
      (''legacy_agent_ids'', PList [PStr ''old'', PStr ''Bad Id''])])\<rparr>)]"

definition sample_codex :: effective_principal where
  "sample_codex = \<lparr>ep_agent_id = ''codex'', ep_workspace_id = ''default'', ep_session_id = PNone,
     ep_transport = ''uds'', ep_capabilities = [PStr ''govern'', PStr ''learn''],
     ep_vault_roots = [''/h/codex-vault''], ep_auto_accept_own = False, ep_deny_reason = None\<rparr>"

definition sample_reader :: effective_principal where
  "sample_reader = sample_codex\<lparr>ep_capabilities := [PStr ''read'']\<rparr>"

lemma sample_stamp: "resolve_effective_principal sample_env sample_dir (Some '' codex '') ''uds'' False =
    Inr (sample_codex, Some ''/h/codex-vault'')"
  by code_simp

lemma stamp_keeps_claimed_identity_witness: "ep_agent_id sample_codex = py_strip '' codex ''"
  by (rule stamp_keeps_claimed_identity[OF sample_stamp]) code_simp+

lemma operator_rights_are_written_witness:
  "is_operator_principal sample_codex \<and>
   (from_operator_config sample_env sample_dir ''codex'' ''uds'' True = Inr (Some sample_codex) \<or>
    from_local_transport sample_env sample_dir ''uds'' True = Inr sample_codex \<or>
    (\<exists>c \<in> set operator_caps. file_grants sample_dir ''platform_agent_capabilities'' ''codex'' c))"
proof -
  have op: "is_operator_principal sample_codex" by code_simp
  have n: "py_strip '' codex '' \<noteq> []" "\<not> local_operator_asserted sample_env" by code_simp+
  have e: "py_strip '' codex '' = ''codex''" "has_any_principal_files sample_dir = True" by code_simp+
  show ?thesis using op operator_rights_are_written[OF sample_stamp n op] unfolding e by simp
qed

lemma reserved_claim_powerless_witness:
  "\<exists>p. resolve_effective_principal sample_env sample_dir (Some ''main'') ''uds'' False = Inr (p, None) \<and>
     \<not> can p ''learn'' \<and> \<not> allows_vault_root sample_env p (PStr ''/h/codex-vault'')"
proof -
  let ?p = "bare_principal ''main'' ''uds'' [] (Some ''reserved_agent_id'')"
  have r: "resolve_effective_principal sample_env sample_dir (Some ''main'') ''uds'' False = Inr (?p, None)"
    by code_simp
  have "py_strip ''main'' \<in> set OPERATOR_RESERVED_AGENT_IDS" "\<not> local_operator_asserted sample_env" by code_simp+
  from reserved_claim_powerless[OF r this] r show ?thesis by blast
qed

lemma strict_install_without_operator_witness:
  "\<exists>p. resolve_effective_principal sample_env [(''codex'', \<lparr>pf_mode = Some 384, pf_json = None\<rparr>)] None ''uds'' False
     = Inr (p, None) \<and> \<not> can p ''search''"
proof -
  have "has_any_principal_files [(''codex'', \<lparr>pf_mode = Some 384, pf_json = None\<rparr>)]"
    "\<forall>n \<in> set CANONICAL_PRINCIPAL_NAMES. map_of [(''codex'', \<lparr>pf_mode = Some 384, pf_json = None\<rparr>)] n = None"
    "\<not> local_operator_asserted sample_env" by code_simp+
  from strict_install_without_operator[OF this] show ?thesis by blast
qed

lemma foreign_read_is_shared_witness:
  "shared_page [(''agent'', PStr ''gemini''), (''page_type'', PStr ''wiki''), (''path'', PStr ''/h/codex-vault/a.md'')]"
proof -
  let ?m = "[(''agent'', PStr ''gemini''), (''page_type'', PStr ''wiki''), (''path'', PStr ''/h/codex-vault/a.md'')]"
  have "can_read_document sample_env (Some sample_reader) ''default'' (PDict ?m)"
    "\<not> is_operator_principal sample_reader" "doc_agent ?m \<noteq> ep_agent_id sample_reader" "doc_agent ?m \<noteq> ''unknown''"
    by code_simp+
  from foreign_read_is_shared[OF this] show ?thesis by blast
qed

lemma read_within_vault_roots_witness:
  "\<exists>base \<in> set (ep_vault_roots sample_reader). is_relative_to ''/h/codex-vault/a.md'' base"
proof -
  let ?m = "[(''agent'', PStr ''codex''), (''path'', PStr ''/h/codex-vault/a.md'')]"
  have "can_read_document sample_env (Some sample_reader) ''default'' (PDict ?m)"
    "ep_vault_roots sample_reader \<noteq> []" "doc_path ?m = PStr ''/h/codex-vault/a.md''"
    "''/h/codex-vault/a.md'' \<noteq> ([] :: string)"
    "oe_expanduser sample_env ''/h/codex-vault/a.md'' = Some ''/h/codex-vault/a.md''"
    "is_absolute ''/h/codex-vault/a.md''"
    by code_simp+
  from read_within_vault_roots[OF this] show ?thesis by (auto simp: sample_env_def)
qed

lemma powerless_reads_witness:
  "\<not> truthy (doc_path [(''agent'', PStr ''ghost'')]) \<and> doc_privacy [(''agent'', PStr ''ghost'')] \<noteq> ''blocked''"
proof -
  have "can_read_document sample_env (Some (bare_principal ''ghost'' ''uds'' [] None)) ''default''
      (PDict [(''agent'', PStr ''ghost'')])"
    "powerless (bare_principal ''ghost'' ''uds'' [] None)" by code_simp+
  from powerless_reads[OF this] show ?thesis by blast
qed

lemma agent_scope_exact_witness:
  "agent_scope_for ''codex'' sample_dir = Inr [''codex'', ''old''] \<and> distinct [''codex'', ''old''] \<and> valid_agent ''codex''"
proof -
  have "agent_scope_for ''codex'' sample_dir = Inr [''codex'', ''old'']" by code_simp
  from this agent_scope_exact[OF this] show ?thesis by blast
qed

end
