(* ===== verification/Rpc_Dispatch.thy ===== *)
theory Rpc_Dispatch
  imports Identity_Gate
begin

text \<open>
  The daemon's request gate: \<open>minnid_runtime/rpc.py\<close>, \<open>minnid_runtime/provenance.py\<close>,
  \<open>minnid_runtime/dispatch.py\<close>, the method table of \<open>minnid.py\<close> and the two JSON-RPC error builders
  of \<open>principal.py\<close>.

  A request is the parsed JSON object.  The handlers are a parameter (a function from the method and
  its call to an exception or a result); \<open>exc_text\<close> is the text of an exception and \<open>now\<close> the clock.
  The daemon writes an \<open>EffectivePrincipal\<close> object into the parameter dict; since it is no JSON value
  the model keeps it beside the dict, in \<open>call_slot\<close>, which is filled exactly when the wire dict has
  no \<open>_principal\<close> key (\<open>setdefault\<close>).  Text is Latin-1, so the em dash of one message is a hyphen here.
\<close>

section \<open>Replies\<close>

definition make_response :: "pyval \<Rightarrow> pyval \<Rightarrow> pyval" where
  "make_response result request_id =
     PDict [(''jsonrpc'', PStr ''2.0''), (''id'', request_id), (''result'', result)]"

definition make_error_data :: "int \<Rightarrow> string \<Rightarrow> pyval \<Rightarrow> pyval \<Rightarrow> pyval" where
  "make_error_data code message request_id data =
     PDict [(''jsonrpc'', PStr ''2.0''), (''id'', request_id),
       (''error'', PDict ([(''code'', PInt code), (''message'', PStr message)] @
          (if data = PNone then [] else [(''data'', data)])))]"

definition make_error :: "int \<Rightarrow> string \<Rightarrow> pyval \<Rightarrow> pyval" where
  "make_error code message request_id = make_error_data code message request_id PNone"

definition error_code :: "pyval \<Rightarrow> int option" where
  "error_code reply = (case reply of
     PDict d \<Rightarrow> (case dget d ''error'' of
        PDict e \<Rightarrow> (case dget e ''code'' of PInt c \<Rightarrow> Some c | _ \<Rightarrow> None)
      | _ \<Rightarrow> None)
   | _ \<Rightarrow> None)"

definition make_mismatch_error :: "string \<Rightarrow> string \<Rightarrow> pyval \<Rightarrow> pyval" where
  "make_mismatch_error supplied stamped request_id = make_error (-32000)
     (''identity_mismatch: supplied agent_id '' @ [CHR 0x27] @ supplied @ [CHR 0x27] @
      '' does not match server-stamped EffectivePrincipal '' @ [CHR 0x27] @ stamped @ [CHR 0x27]) request_id"

definition make_capability_denied_error :: "string \<Rightarrow> string \<Rightarrow> pyval \<Rightarrow> string \<Rightarrow> pyval" where
  "make_capability_denied_error capability method_name request_id principal_id = make_error (-32004)
     (''capability_denied: '' @ repr_str capability @ '' required for '' @ repr_str method_name @
      (if principal_id = [] then [] else '' (principal='' @ repr_str principal_id @ '')'')) request_id"

definition make_reserved_agent_id_error :: "string \<Rightarrow> string \<Rightarrow> pyval \<Rightarrow> pyval" where
  "make_reserved_agent_id_error agent_id method_name request_id = make_error (-32004)
     (''reserved_agent_id: reserved agent_id '' @ repr_str agent_id @ '' requires operator context for '' @
      repr_str method_name @ '' - omit agent_id for the zero-config operator path, or set MINNI_LOCAL_OPERATOR '' @
      ''in the daemon environment (operator-controlled, never wire-supplied)'') request_id"

section \<open>Provenance\<close>

definition RECOVERY_ALLOWED_METHODS :: "string list" where
  "RECOVERY_ALLOWED_METHODS = [''ping'', ''status'', ''health_report'', ''hygiene_report'']"

definition RPC_CAPABILITY_REQUIREMENTS :: "(string \<times> string) list" where
  "RPC_CAPABILITY_REQUIREMENTS =
    [(''search'', ''search''), (''feedback'', ''feedback''), (''trace'', ''read''), (''expand'', ''read''),
     (''sm_drill'', ''read''), (''sm_export_pack'', ''export''), (''read'', ''read''),
     (''list_events'', ''read''), (''learn'', ''learn''), (''resolve_contradiction'', ''learn''),
     (''minni_subscribe_contradictions'', ''read''), (''log_event'', ''log_event''),
     (''daemon.handoff'', ''handoff''), (''handoff'', ''handoff''), (''minni_ack_handoff'', ''handoff''),
     (''minni_list_pending_handoffs'', ''handoff''), (''minni_await_handoff'', ''handoff''),
     (''stage_candidate'', ''learn''), (''list_candidates'', ''learn''), (''ax_snapshot_store'', ''learn''),
     (''ax_snapshot_get'', ''read''), (''vault_index_doc'', ''learn''), (''daemon.compile'', ''read''),
     (''daemon.endorse'', ''govern''), (''cache_reload'', ''govern'')]"

definition METHODS :: "string list" where
  "METHODS = [''ping'', ''gate.shared'', ''search'', ''feedback'', ''trace'', ''expand'', ''sm_drill'',
     ''sm_export_pack'', ''read'', ''list_events'', ''learn'', ''resolve_contradiction'',
     ''minni_subscribe_contradictions'', ''log_event'', ''daemon.handoff'', ''handoff'',
     ''minni_ack_handoff'', ''minni_list_pending_handoffs'', ''minni_await_handoff'', ''daemon.compile'',
     ''daemon.endorse'', ''stage_candidate'', ''list_candidates'', ''resolve_candidate'',
     ''ax_snapshot_store'', ''ax_snapshot_get'', ''vault_index_doc'', ''status'', ''health_report'',
     ''hygiene_report'', ''cache_reload'']"

definition allowed_methods_text :: string where
  "allowed_methods_text = py_join '', '' RECOVERY_ALLOWED_METHODS"

definition recover_human :: "string \<Rightarrow> string \<Rightarrow> pyval \<Rightarrow> string" where
  "recover_human reason method_name supplied =
     ''Minni provenance recovery required for method '' @ repr_str method_name @
     (if supplied = PNone then [] else '' supplied='' @ py_repr supplied) @ '': '' @ reason @
     ''. Stamp this runtime with MINNI_AGENT_ID and a matching principals/<agent>.json file; diagnostics available via '' @
     allowed_methods_text @ ''.''"

definition recover_machine :: "string \<Rightarrow> string \<Rightarrow> pyval \<Rightarrow> pyval" where
  "recover_machine reason method_name supplied = PDict
    [(''ok'', PBool False), (''status'', PStr ''recovery_required''), (''reason'', PStr reason),
     (''identity'', PNone),
     (''caller'', PDict [(''method'', PStr method_name), (''supplied_agent_id'', supplied)]),
     (''route'', PDict
        [(''zone'', PStr ''pre_identity''), (''surface'', PStr ''diagnostic''),
         (''allowed_methods'', PList (map PStr RECOVERY_ALLOWED_METHODS)),
         (''next'', PStr (''Call status/health_report, then stamp the runtime with MINNI_AGENT_ID and a '' @
            ''principals/<agent>.json entry.''))]),
     (''remediation'', PList
        [PStr ''Stamp this runtime surface with MINNI_AGENT_ID.'',
         PStr (''Author the matching operator-owned principals/<agent>.json file '' @
           ''(engine/.venv/bin/python engine/tools/author_principals.py --apply '' @
           ''for the shipped agents, or hand-author it) and chmod it 0600.''),
         PStr ''Send SIGHUP to minnid or restart it so identity caches reload.'',
         PStr (''Use one of the pre-identity diagnostic methods: '' @ allowed_methods_text @ ''.'')])]"

text \<open>
  \<open>recover\<close>; the caller context is the method and the supplied id (the extra key of one caller is
  not read).  \<open>None\<close> is the \<open>ValueError\<close> for an unknown mode.
\<close>

definition recover :: "string \<Rightarrow> string \<Rightarrow> pyval \<Rightarrow> string \<Rightarrow> pyval option" where
  "recover reason method_name supplied render_mode =
    (let m = (if method_name = [] then ''unknown'' else method_name) in
     if render_mode = ''human'' then Some (PStr (recover_human reason m supplied))
     else if render_mode \<noteq> ''machine'' then None
     else Some (recover_machine reason m supplied))"

definition opt_str :: "string option \<Rightarrow> pyval" where
  "opt_str v = (case v of None \<Rightarrow> PNone | Some s \<Rightarrow> PStr s)"

definition enforce_method_capability ::
  "string \<Rightarrow> effective_principal option \<Rightarrow> pyval \<Rightarrow> pyval option" where
  "enforce_method_capability method_name caller request_id = (case caller of
     None \<Rightarrow> None
   | Some p \<Rightarrow> (case map_of RPC_CAPABILITY_REQUIREMENTS method_name of
        None \<Rightarrow> None
      | Some required \<Rightarrow>
          if can p required then None
          else if ep_deny_reason p = Some ''unknown_identity'' then
            Some (make_error_data (-32004)
              (py_str (the (recover ''unknown_identity'' method_name (PStr (ep_agent_id p)) ''human''))) request_id
              (the (recover ''unknown_identity'' method_name (PStr (ep_agent_id p)) ''machine'')))
          else if ep_deny_reason p = Some ''reserved_agent_id'' then
            Some (make_reserved_agent_id_error (ep_agent_id p) method_name request_id)
          else Some (make_capability_denied_error required method_name request_id (ep_agent_id p))))"

text \<open>\<open>ProvenanceResolution\<close>: a principal or a recovery payload.\<close>

record provenance_resolution =
  pr_principal :: "effective_principal option"
  pr_recovery :: "pyval option"

definition provenance_claim :: "string \<Rightarrow> pydict \<Rightarrow> string option" where
  "provenance_claim method_name params =
    (let claim =
       (if method_name \<in> {''daemon.handoff'', ''handoff''} then dget params ''from_agent''
        else (let c = dget params ''agent_id'' in
          if c = PNone \<and> method_name = ''vault_index_doc'' then dget params ''agent'' else c))
     in if claim = PNone then None
        else (let s = py_strip (py_str claim) in if s = [] then None else Some s))"

definition resolve_provenance ::
  "os_env \<Rightarrow> principal_dir \<Rightarrow> (principal_error \<Rightarrow> string) \<Rightarrow> string \<Rightarrow> pyval \<Rightarrow> provenance_resolution" where
  "resolve_provenance env d exc_text method_name params = (case params of
     PDict ps \<Rightarrow>
      (let supplied = provenance_claim method_name ps in
       case resolve_effective_principal env d supplied ''uds'' False of
         Inr (p, _) \<Rightarrow> \<lparr>pr_principal = Some p, pr_recovery = None\<rparr>
       | Inl (IdentityMismatch s st) \<Rightarrow>
           \<lparr>pr_principal = None, pr_recovery = recover ''identity_mismatch'' method_name (PStr s) ''machine''\<rparr>
       | Inl e \<Rightarrow>
           \<lparr>pr_principal = None,
            pr_recovery = recover (''provenance_error: '' @ exc_text e) method_name (opt_str supplied) ''machine''\<rparr>)
   | _ \<Rightarrow> \<lparr>pr_principal = None, pr_recovery = recover ''invalid_params'' method_name PNone ''machine''\<rparr>)"

section \<open>The gate\<close>

record rpc_call =
  call_params :: pydict
  call_slot :: "effective_principal option"

text \<open>What the gate decides: answer itself, run the handler of a method, or raise (a method name that
  cannot be hashed).\<close>

datatype gate_decision = Reply pyval | Invoke string rpc_call | GateRaise

definition stamp_call :: "provenance_resolution \<Rightarrow> pyval \<Rightarrow> pydict \<Rightarrow> rpc_call" where
  "stamp_call pr now params =
    (let flagged = AList.update ''_recovery'' (PBool (pr_recovery pr \<noteq> None)) params
     in \<lparr>call_params = AList.update ''_accepted_monotonic'' now flagged,
         call_slot = (if has_key flagged ''_principal'' then None else pr_principal pr)\<rparr>)"

definition gate_method ::
  "os_env \<Rightarrow> principal_dir \<Rightarrow> (principal_error \<Rightarrow> string) \<Rightarrow> pyval \<Rightarrow> string \<Rightarrow> pydict \<Rightarrow> pyval \<Rightarrow> gate_decision" where
  "gate_method env d exc_text now method_name params request_id =
    (let pr = resolve_provenance env d exc_text method_name (PDict params) in
     if pr_recovery pr \<noteq> None \<and> method_name \<notin> set RECOVERY_ALLOWED_METHODS
     then Reply (make_response (the (pr_recovery pr)) request_id)
     else (case enforce_method_capability method_name (pr_principal pr) request_id of
             Some err \<Rightarrow> Reply err
           | None \<Rightarrow> Invoke method_name (stamp_call pr now params)))"

definition gate ::
  "os_env \<Rightarrow> principal_dir \<Rightarrow> (principal_error \<Rightarrow> string) \<Rightarrow> pyval \<Rightarrow> pydict \<Rightarrow> gate_decision" where
  "gate env d exc_text now request =
    (let method_value = dget_or request ''method'' (PStr []);
         request_id = dget request ''id'';
         params = py_or (dget_or request ''params'' (PDict [])) (PDict [])
     in if is_list method_value \<or> is_dict method_value then GateRaise
        else if \<not> (is_str method_value \<and> str_of_val method_value \<in> set METHODS) then
          Reply (make_error (-32601) (''Method not found: '' @ py_str method_value) request_id)
        else (case params of
            PDict ps \<Rightarrow> gate_method env d exc_text now (str_of_val method_value) ps request_id
          | _ \<Rightarrow> Reply (make_error (-32602) ''Invalid params: expected a JSON object'' request_id)))"

datatype obs_event = Incr string | RecordError string string

text \<open>The reply or the re-raised exception, and the counters touched.\<close>

definition dispatch_request ::
  "(string \<Rightarrow> rpc_call \<Rightarrow> pyval \<Rightarrow> string + pyval) \<Rightarrow> os_env \<Rightarrow> principal_dir \<Rightarrow> (principal_error \<Rightarrow> string) \<Rightarrow>
   pyval \<Rightarrow> pydict \<Rightarrow> (string + pyval) \<times> obs_event list" where
  "dispatch_request handler env d exc_text now request = (case gate env d exc_text now request of
     GateRaise \<Rightarrow> (Inl ''TypeError'', [])
   | Reply r \<Rightarrow> (Inr r, [])
   | Invoke m call \<Rightarrow>
      (case handler m call (dget request ''id'') of
         Inl exc \<Rightarrow> (Inl exc, [Incr ''errors'', Incr (''errors.'' @ m), RecordError m exc])
       | Inr result \<Rightarrow>
           (Inr result, if is_dict result \<and> has_key (dict_of_val result) ''error''
                        then [Incr ''errors'', Incr (''errors.'' @ m)] else [])))"

section \<open>Identity inside a handler\<close>

datatype handler_identity = Stamped effective_principal | Refused pyval | IdentityRaise principal_error

definition claim_of :: "pyval \<Rightarrow> string option" where
  "claim_of v = (if v = PNone then None else Some (py_str v))"

definition handler_principal ::
  "os_env \<Rightarrow> principal_dir \<Rightarrow> rpc_call \<Rightarrow> pyval \<Rightarrow> string \<Rightarrow> handler_identity" where
  "handler_principal env d call request_id claim_key = (case call_slot call of
     Some p \<Rightarrow> Stamped p
   | None \<Rightarrow>
      (case resolve_effective_principal env d (claim_of (dget (call_params call) claim_key)) ''uds'' False of
         Inr (p, _) \<Rightarrow> Stamped p
       | Inl (IdentityMismatch s st) \<Rightarrow> Refused (make_mismatch_error s st request_id)
       | Inl e \<Rightarrow> IdentityRaise e))"

definition guard_vault_root ::
  "os_env \<Rightarrow> principal_dir \<Rightarrow> rpc_call \<Rightarrow> pyval \<Rightarrow> pyval \<Rightarrow> string \<Rightarrow> principal_error + pyval option" where
  "guard_vault_root env d call vault_path request_id label =
    (case handler_principal env d call request_id ''agent_id'' of
       IdentityRaise e \<Rightarrow> Inl e
     | Refused err \<Rightarrow> Inr (Some err)
     | Stamped p \<Rightarrow> Inr (if allows_vault_root env p vault_path then None
         else Some (make_error (-32003) (''vault_root_denied: '' @ label @
           '' path outside principal.allowed_vault_roots (realpath + relative check; traversal/symlink escape rejected)'')
           request_id)))"

section \<open>Facts about the tables\<close>



lemma recover_machine_Some [simp]:
  "recover reason m s ''machine'' = Some (recover_machine reason (if m = [] then ''unknown'' else m) s)"
  by (simp add: recover_def)

lemma resolve_provenance_exclusive:
  "(pr_principal (resolve_provenance env d et m v) = None) = (pr_recovery (resolve_provenance env d et m v) \<noteq> None)"
  by (simp add: resolve_provenance_def Let_def split: pyval.splits sum.splits principal_error.splits prod.splits)



section \<open>The identity a handler works with\<close>

lemma dropWhile_rev_strip: "dropWhile P (rev (dropWhile P (rev (dropWhile P s)))) = rev (dropWhile P (rev (dropWhile P s)))"
proof (cases "dropWhile P s")
  case (Cons x xs)
  then have x: "\<not> P x" by (metis hd_dropWhile list.sel(1) list.simps(3))
  have "dropWhile P (rev (x # xs)) = dropWhile P (rev xs) @ [x] \<or> dropWhile P (rev (x # xs)) = [x]"
    using x by (simp add: dropWhile_append) 
  then show ?thesis using x Cons by auto
next
  case Nil
  show ?thesis unfolding Nil by simp
qed

lemma py_strip_strip [simp]: "py_strip (py_strip s) = py_strip s"
proof -
  have "dropWhile P (dropWhile P s) = dropWhile P s" for P :: "char \<Rightarrow> bool" and s by (induction s) auto
  then show ?thesis by (simp add: py_strip_def dropWhile_rev_strip)
qed






lemma stamp_call_recovery [simp]:
  "dget (call_params (stamp_call pr now ps)) ''_recovery'' = PBool (pr_recovery pr \<noteq> None)"
  by (simp add: stamp_call_def Let_def dget_update)

lemma stamp_call_slot: "call_slot (stamp_call pr now ps) \<in> {None, pr_principal pr}"
  by (simp add: stamp_call_def Let_def)

lemma resolve_provenance_Some:
  "pr_principal (resolve_provenance env d et m (PDict ps)) = Some p \<longleftrightarrow>
     (\<exists>v. resolve_effective_principal env d (provenance_claim m ps) ''uds'' False = Inr (p, v))"
  by (auto simp: resolve_provenance_def Let_def split: sum.splits principal_error.splits)


text \<open>A caller whose identity cannot be resolved reaches only the four diagnostic methods, marked as
  a recovery call and without a stamped principal; on every other method the gate answers with the
  recovery payload and no handler runs.\<close>

theorem unresolved_caller_only_diagnoses:
  assumes "resolve_effective_principal env d (provenance_claim m ps) ''uds'' False = Inl e"
  shows "gate_method env d et now m ps i =
    (if m \<in> set RECOVERY_ALLOWED_METHODS
     then Invoke m (stamp_call (resolve_provenance env d et m (PDict ps)) now ps)
     else Reply (make_response (the (pr_recovery (resolve_provenance env d et m (PDict ps)))) i)) \<and>
    call_slot (stamp_call (resolve_provenance env d et m (PDict ps)) now ps) = None \<and>
    dget (call_params (stamp_call (resolve_provenance env d et m (PDict ps)) now ps)) ''_recovery'' = PBool True"
proof -
  let ?pr = "resolve_provenance env d et m (PDict ps)"
  have none: "pr_principal ?pr = None" using assms resolve_provenance_Some[of env d et m ps] by (cases "pr_principal ?pr") auto
  then have "pr_recovery ?pr \<noteq> None" using resolve_provenance_exclusive by blast
  moreover have "call_slot (stamp_call ?pr now ps) = None" using stamp_call_slot[of ?pr now ps] none by simp
  ultimately show ?thesis using none by (auto simp: gate_method_def Let_def enforce_method_capability_def)
qed

section \<open>Refusals\<close>

lemma required_method_exists:
  assumes "map_of RPC_CAPABILITY_REQUIREMENTS m = Some c"
  shows "m \<in> set METHODS"
proof -
  have "list_all (\<lambda>e. fst e \<in> set METHODS) RPC_CAPABILITY_REQUIREMENTS" by code_simp
  then show ?thesis using map_of_SomeD[OF assms] by (auto simp: list_all_iff)
qed

lemma error_code_make_error_data [simp]: "error_code (make_error_data c msg i dt) = Some c"
  by (simp add: error_code_def make_error_data_def)

lemma enforce_denies:
  assumes "map_of RPC_CAPABILITY_REQUIREMENTS m = Some c" and "\<not> can p c"
  shows "\<exists>err. enforce_method_capability m (Some p) i = Some err \<and> error_code err = Some (-32004) \<and>
    (ep_deny_reason p = Some ''unknown_identity'' \<longrightarrow>
       (\<exists>msg. err = make_error_data (-32004) msg i
          (recover_machine ''unknown_identity'' (if m = [] then ''unknown'' else m) (PStr (ep_agent_id p)))))"
  using assms by (auto simp: enforce_method_capability_def make_reserved_agent_id_error_def
      make_capability_denied_error_def make_error_def)

text \<open>A call of a method whose capability the resolved caller lacks never runs the handler and touches
  no counter: the reply is the JSON-RPC error -32004, and for an identity unknown to the operator it
  carries the machine-readable recovery route.\<close>

theorem missing_capability_refused:
  assumes "dget_or request ''method'' (PStr []) = PStr m" and "dget_or request ''params'' (PDict []) = PDict ps"
    and "map_of RPC_CAPABILITY_REQUIREMENTS m = Some c"
    and "resolve_effective_principal env d (provenance_claim m ps) ''uds'' False = Inr (p, v)"
    and "\<not> can p c"
  shows "\<exists>err. dispatch_request handler env d et now request = (Inr err, []) \<and> error_code err = Some (-32004) \<and>
    (ep_deny_reason p = Some ''unknown_identity'' \<longrightarrow>
       (\<exists>msg. err = make_error_data (-32004) msg (dget request ''id'')
          (recover_machine ''unknown_identity'' (if m = [] then ''unknown'' else m) (PStr (ep_agent_id p)))))"
proof -
  have params: "py_or (PDict ps) (PDict []) = PDict ps" by (simp add: py_or_def)
  have pr: "resolve_provenance env d et m (PDict ps) = \<lparr>pr_principal = Some p, pr_recovery = None\<rparr>"
    using assms(4) by (simp add: resolve_provenance_def)
  obtain err where err: "enforce_method_capability m (Some p) (dget request ''id'') = Some err"
    and rest: "error_code err = Some (-32004) \<and> (ep_deny_reason p = Some ''unknown_identity'' \<longrightarrow>
       (\<exists>msg. err = make_error_data (-32004) msg (dget request ''id'')
          (recover_machine ''unknown_identity'' (if m = [] then ''unknown'' else m) (PStr (ep_agent_id p)))))"
    using enforce_denies[OF assms(3,5)] by blast
  have "gate env d et now request = Reply err"
    using err by (simp add: gate_def assms(1,2) params required_method_exists[OF assms(3)] gate_method_def pr)
  then show ?thesis using rest by (auto simp: dispatch_request_def)
qed

section \<open>Concrete instances\<close>



lemma unresolved_caller_only_diagnoses_witness:
  "gate_method sample_env sample_dir (\<lambda>_. []) PNone ''learn'' [(''agent_id'', PStr ''NOT VALID'')] (PInt 1) =
     Reply (make_response (recover_machine ''identity_mismatch'' ''learn'' (PStr ''NOT VALID'')) (PInt 1))"
proof -
  have r: "resolve_effective_principal sample_env sample_dir
      (provenance_claim ''learn'' [(''agent_id'', PStr ''NOT VALID'')]) ''uds'' False
    = Inl (IdentityMismatch ''NOT VALID'' ''main'')" by code_simp
  have n: "''learn'' \<notin> set RECOVERY_ALLOWED_METHODS" by code_simp
  have p: "pr_recovery (resolve_provenance sample_env sample_dir (\<lambda>_. []) ''learn'' (PDict [(''agent_id'', PStr ''NOT VALID'')]))
      = Some (recover_machine ''identity_mismatch'' ''learn'' (PStr ''NOT VALID''))" by code_simp
  show ?thesis using unresolved_caller_only_diagnoses[OF r, of "\<lambda>_. []" PNone "PInt 1"] n p by auto
qed

lemma missing_capability_refused_witness:
  "\<exists>err. dispatch_request (\<lambda>_ _ _. Inl ''boom'') sample_env sample_dir (\<lambda>_. []) PNone
      [(''method'', PStr ''search''), (''params'', PDict [(''agent_id'', PStr ''ghost'')])] = (Inr err, []) \<and>
     error_code err = Some (-32004)"
proof -
  let ?r = "[(''method'', PStr ''search''), (''params'', PDict [(''agent_id'', PStr ''ghost'')])]"
  have a: "dget_or ?r ''method'' (PStr []) = PStr ''search''"
    "dget_or ?r ''params'' (PDict []) = PDict [(''agent_id'', PStr ''ghost'')]"
    "map_of RPC_CAPABILITY_REQUIREMENTS ''search'' = Some ''search''" by code_simp+
  have b: "resolve_effective_principal sample_env sample_dir
      (provenance_claim ''search'' [(''agent_id'', PStr ''ghost'')]) ''uds'' False
    = Inr (bare_principal ''ghost'' ''uds'' [] (Some ''unknown_identity''), None)" by code_simp
  have c: "\<not> can (bare_principal ''ghost'' ''uds'' [] (Some ''unknown_identity'')) ''search''" by code_simp
  show ?thesis using missing_capability_refused[OF a b c] by blast
qed

end
