(* ===== verification/Handoff_Packets.thy ===== *)
theory Handoff_Packets
  imports Rpc_Dispatch
begin

text \<open>
  The pure part of \<open>minnid_runtime/handoff.py\<close> and the structural part of
  \<open>minnid_runtime/redaction.py\<close>: vault naming, slugs and file names, audit escaping, packet
  validation and the handoff page.

  Parameters: the process environment and the home directory (\<open>handoff_env\<close>), the SHA-1 digest, the
  text redaction of the regular expressions, the default values drawn from the clock and the uuid
  module, and the ellipsis character, which is outside Latin-1.  \<open>py_upper\<close> is exact on Latin-1 but for
  the two letters whose capital is outside it; no caller can tell, since both are replaced afterwards.
\<close>

section \<open>Text helpers\<close>

text \<open>\<open>re.sub(r"[^...]+", repl, s)\<close>: every maximal run of characters outside the class is replaced.\<close>

fun sub_runs :: "(char \<Rightarrow> bool) \<Rightarrow> string \<Rightarrow> bool \<Rightarrow> string \<Rightarrow> string" where
  "sub_runs keep repl in_run [] = []"
| "sub_runs keep repl in_run (c # s) =
     (if keep c then c # sub_runs keep repl False s
      else (if in_run then [] else repl) @ sub_runs keep repl True s)"

definition strip_char :: "char \<Rightarrow> string \<Rightarrow> string" where
  "strip_char c s = rev (dropWhile (\<lambda>x. x = c) (rev (dropWhile (\<lambda>x. x = c) s)))"

definition is_upper_alnum :: "char \<Rightarrow> bool" where
  "is_upper_alnum c \<longleftrightarrow> (let n = (of_char c :: nat) in 65 \<le> n \<and> n \<le> 90 \<or> 48 \<le> n \<and> n \<le> 57)"

definition py_upper_char :: "char \<Rightarrow> string" where
  "py_upper_char c = (let n = (of_char c :: nat) in
     if n = 223 then ''SS''
     else if 97 \<le> n \<and> n \<le> 122 \<or> 224 \<le> n \<and> n \<le> 254 \<and> n \<noteq> 247 then [char_of (n - 32)] else [c])"

definition py_upper :: "string \<Rightarrow> string" where
  "py_upper s = concat (map py_upper_char s)"

text \<open>\<open>s.split("\n")\<close>.\<close>

fun split_nl :: "string \<Rightarrow> string list" where
  "split_nl [] = [[]]"
| "split_nl (c # s) = (if c = CHR 0x0A then [] # split_nl s
     else (case split_nl s of [] \<Rightarrow> [[c]] | l # ls \<Rightarrow> (c # l) # ls))"

definition join_nl :: "string list \<Rightarrow> string" where
  "join_nl ls = py_join [CHR 0x0A] ls"

section \<open>Vault naming\<close>

record handoff_env =
  hv_var :: "string \<Rightarrow> string option"
  hv_json :: "string \<Rightarrow> pyval option"
  hv_user_path :: "string \<Rightarrow> string"
  hv_canonical_home :: string
  hv_home_vaults :: "string list"
  hv_sha1 :: "string \<Rightarrow> string"

definition getenv :: "handoff_env \<Rightarrow> string \<Rightarrow> string" where
  "getenv he k = (case hv_var he k of None \<Rightarrow> [] | Some v \<Rightarrow> v)"

definition agent_env_key :: "string \<Rightarrow> string" where
  "agent_env_key agent_id = strip_char (CHR ''_'') (sub_runs is_upper_alnum ''_'' False (py_upper agent_id))"

definition VAULT_SLUGS :: "(string \<times> string) list" where
  "VAULT_SLUGS = [(''claude-code'', ''claudecode''), (''claudecode'', ''claudecode''), (''codex'', ''codex''),
     (''claude-science'', ''claude-science''), (''grok-build'', ''grok-build''), (''grok-beta'', ''grok-beta''),
     (''grok'', ''grok'')]"

definition default_agent_vault :: "handoff_env \<Rightarrow> string \<Rightarrow> string" where
  "default_agent_vault he agent_id =
    (let plain = sub_runs agent_first_char [] False (py_lower agent_id);
         slug = (case map_of VAULT_SLUGS agent_id of Some s \<Rightarrow> s | None \<Rightarrow> if plain = [] then ''agent'' else plain)
     in hv_canonical_home he @ ''/'' @ slug @ ''-vault'')"

definition vault_mapping :: "handoff_env \<Rightarrow> pydict" where
  "vault_mapping he =
    (let raw = getenv he ''MINNI_AGENT_VAULTS''
     in if raw = [] then [] else (case hv_json he raw of Some (PDict m) \<Rightarrow> m | _ \<Rightarrow> []))"

definition agent_vault :: "handoff_env \<Rightarrow> string \<Rightarrow> string \<times> bool" where
  "agent_vault he agent_id = (case map_of (vault_mapping he) agent_id of
     Some v \<Rightarrow> (hv_user_path he (py_str v), True)
   | None \<Rightarrow>
      (let override = getenv he (''MINNI_'' @ agent_env_key agent_id @ ''_VAULT_PATH'')
       in if override \<noteq> [] then (hv_user_path he override, True)
          else (default_agent_vault he agent_id, False)))"

text \<open>\<open>list(dict.fromkeys(xs))\<close>.\<close>

fun from_keys :: "'a list \<Rightarrow> 'a list \<Rightarrow> 'a list" where
  "from_keys seen [] = rev seen"
| "from_keys seen (x # xs) = from_keys (if x \<in> set seen then seen else x # seen) xs"

definition known_agent_vaults :: "handoff_env \<Rightarrow> string list" where
  "known_agent_vaults he =
    from_keys [] (map (\<lambda>kv. hv_user_path he (py_str (snd kv))) (vault_mapping he) @ hv_home_vaults he)"

section \<open>File names\<close>

definition slugify :: "string \<Rightarrow> string" where
  "slugify t = (let slug = take 80 (strip_char (CHR ''-'') (sub_runs agent_first_char ''-'' False (py_lower t)))
     in if slug = [] then ''handoff'' else slug)"

definition packet_key :: "pydict \<Rightarrow> string \<Rightarrow> string" where
  "packet_key packet stamp = py_str (py_or (py_or (dget packet ''lease_id'') (dget packet ''trace_id'')) (PStr stamp))"

definition handoff_wiki_filename :: "handoff_env \<Rightarrow> pydict \<Rightarrow> string \<Rightarrow> string" where
  "handoff_wiki_filename he packet stamp =
    (let title = py_strip (str_of_val (dget packet ''task''));
         slug = slugify (py_str (dget packet ''from_agent'') @ ''-to-'' @ py_str (dget packet ''to_agent'') @ ''-'' @ title);
         raw = packet_key packet stamp
     in take 8 stamp @ ''-'' @ slug @ ''-'' @ slugify raw @ ''-'' @ take 10 (hv_sha1 he raw) @ ''.md'')"

definition handoff_packet_filename :: "handoff_env \<Rightarrow> pydict \<Rightarrow> string \<Rightarrow> string" where
  "handoff_packet_filename he packet stamp =
    (let slug = slugify (py_str (py_or (dget packet ''task'') (PStr ''handoff'')));
         raw = packet_key packet stamp
     in stamp @ ''-'' @ slug @ ''-'' @ slugify raw @ ''-'' @ take 10 (hv_sha1 he raw) @ ''.json'')"

section \<open>Audit escaping\<close>

definition AUDIT_SUMMARY_MAX :: nat where "AUDIT_SUMMARY_MAX = 500"
definition AUDIT_DETAIL_LINE_MAX :: nat where "AUDIT_DETAIL_LINE_MAX = 1000"
definition AUDIT_DETAIL_BLOCK_MAX :: nat where "AUDIT_DETAIL_BLOCK_MAX = 4000"

text \<open>The \<open>[: max_len - 1] + "\<dots>"\<close> of the three caps; \<open>dots\<close> is the ellipsis.\<close>

definition cap_text :: "char \<Rightarrow> nat \<Rightarrow> string \<Rightarrow> string" where
  "cap_text dots max_len v = (if length v > max_len then take (max_len - 1) v @ [dots] else v)"

definition escape_hash :: "string \<Rightarrow> string" where
  "escape_hash row = (if starts_with row ''#'' then CHR 0x5C # row else row)"

definition escape_inline_char :: "char \<Rightarrow> string" where
  "escape_inline_char c =
    (if c = CHR 0x5C then [CHR 0x5C, CHR 0x5C]
     else if c = CHR 0x0D then [CHR 0x5C, CHR ''r'']
     else if c = CHR 0x0A then [CHR 0x5C, CHR ''n''] else [c])"

definition escape_audit_field :: "char \<Rightarrow> string \<Rightarrow> bool \<Rightarrow> nat option \<Rightarrow> string" where
  "escape_audit_field dots v inline max_len =
    (let e = (if inline then escape_hash (concat (map escape_inline_char v))
              else join_nl (map escape_hash (split_nl v)))
     in case max_len of None \<Rightarrow> e | Some n \<Rightarrow> cap_text dots n e)"

definition escape_audit_details_block :: "char \<Rightarrow> string \<Rightarrow> string" where
  "escape_audit_details_block dots raw = cap_text dots AUDIT_DETAIL_BLOCK_MAX
     (join_nl (map (\<lambda>row. cap_text dots AUDIT_DETAIL_LINE_MAX (escape_hash row)) (split_nl raw)))"

definition nl :: string where "nl = [CHR 0x0A]"

text \<open>The entry \<open>append_handoff_audit\<close> appends to the log and to the daily file.\<close>

definition audit_entry :: "char \<Rightarrow> string \<Rightarrow> string \<Rightarrow> string \<Rightarrow> string \<Rightarrow> string" where
  "audit_entry dots ts tool summary raw_details =
     ''## ['' @ ts @ ''] '' @ escape_audit_field dots tool True (Some 200) @ '' | '' @
     escape_audit_field dots summary True (Some AUDIT_SUMMARY_MAX) @ nl @ nl @ ''```json'' @ nl @
     escape_audit_details_block dots raw_details @ nl @ ''```'' @ nl @ nl"

section \<open>Validation\<close>

definition HANDOFF_KINDS :: "string list" where
  "HANDOFF_KINDS = [''answer'', ''candidate_learning'', ''handoff'', ''request'']"

definition HANDOFF_ACK_STATUSES :: "string list" where
  "HANDOFF_ACK_STATUSES = [''accepted'', ''rejected_contradicts'', ''rejected_scope'', ''rejected_stale'']"

definition set_default :: "string \<Rightarrow> pyval \<Rightarrow> pydict \<Rightarrow> pydict" where
  "set_default k v d = (if has_key d k then d else d @ [(k, v)])"

record packet_defaults =
  pd_created_at :: string
  pd_trace_id :: string
  pd_lease_id :: string
  pd_expires_at :: string

definition with_defaults :: "packet_defaults \<Rightarrow> string \<Rightarrow> string \<Rightarrow> pydict \<Rightarrow> pydict" where
  "with_defaults pd from_agent to_agent packet =
     set_default ''expires_at'' (PStr (pd_expires_at pd))
    (set_default ''requires_ack'' (PBool True)
    (set_default ''lease_id'' (PStr (pd_lease_id pd))
    (set_default ''trace_id'' (PStr (pd_trace_id pd))
    (set_default ''created_at'' (PStr (pd_created_at pd))
    (set_default ''to_agent'' (PStr to_agent)
    (set_default ''from_agent'' (PStr from_agent) packet))))))"

text \<open>The type table: the name of the type and whether a value has it.\<close>

datatype field_type = TStr | TList | TBool

fun type_name :: "field_type \<Rightarrow> string" where
  "type_name TStr = ''str''"
| "type_name TList = ''list''"
| "type_name TBool = ''bool''"

fun has_type :: "field_type \<Rightarrow> pyval \<Rightarrow> bool" where
  "has_type TStr v = is_str v"
| "has_type TList v = is_list v"
| "has_type TBool v = is_bool v"

definition PACKET_FIELDS :: "(string \<times> field_type) list" where
  "PACKET_FIELDS = [(''from_agent'', TStr), (''to_agent'', TStr), (''kind'', TStr), (''task'', TStr),
     (''envelope'', TStr), (''wikilink_refs'', TList), (''trace_id'', TStr), (''created_at'', TStr),
     (''lease_id'', TStr), (''requires_ack'', TBool), (''expires_at'', TStr)]"

fun field_errors :: "(string \<times> field_type) list \<Rightarrow> pydict \<Rightarrow> string option" where
  "field_errors [] packet = None"
| "field_errors ((k, ty) # fs) packet =
     (if \<not> has_key packet k then Some (k @ '' is required'')
      else if \<not> has_type ty (dget packet k) then Some (k @ '' must be '' @ type_name ty)
      else if ty = TStr \<and> py_strip (str_of_val (dget packet k)) = [] then Some (k @ '' must not be empty'')
      else field_errors fs packet)"

definition nonblank_str :: "pyval \<Rightarrow> bool" where
  "nonblank_str v \<longleftrightarrow> is_str v \<and> py_strip (str_of_val v) \<noteq> []"

text \<open>The last test of the source (a string \<open>expires_at\<close>) repeats one of the table and never fails.\<close>

definition validate_handoff_packet ::
  "packet_defaults \<Rightarrow> string \<Rightarrow> string \<Rightarrow> pyval \<Rightarrow> string + pydict" where
  "validate_handoff_packet pd from_agent to_agent packet = (case packet of
     PDict raw \<Rightarrow>
      (let normalized = with_defaults pd from_agent to_agent raw in
       case field_errors PACKET_FIELDS normalized of
         Some err \<Rightarrow> Inl err
       | None \<Rightarrow>
          if dget normalized ''from_agent'' \<noteq> PStr from_agent then Inl ''from_agent must match params.from_agent''
          else if dget normalized ''to_agent'' \<noteq> PStr to_agent then Inl ''to_agent must match params.to_agent''
          else if str_of_val (dget normalized ''kind'') \<notin> set HANDOFF_KINDS
          then Inl (''kind must be one of '' @ py_repr (PList (map PStr HANDOFF_KINDS)))
          else if \<not> list_all nonblank_str (list_of_val (dget normalized ''wikilink_refs''))
          then Inl ''wikilink_refs must be a list of strings''
          else if dget normalized ''expires_at'' \<noteq> PNone \<and> \<not> is_str (dget normalized ''expires_at'')
          then Inl ''expires_at must be a string''
          else Inr normalized)
   | _ \<Rightarrow> Inl ''packet must be an object'')"

section \<open>Redaction\<close>

text \<open>\<open>redact_value\<close> over the text redaction \<open>rt\<close>, which returns the text and whether it changed.\<close>

function redact_value :: "(string \<Rightarrow> string \<times> bool) \<Rightarrow> pyval \<Rightarrow> pyval \<times> bool" where
  "redact_value rt (PStr s) = (PStr (fst (rt s)), snd (rt s))"
| "redact_value rt (PList xs) =
     (PList (map (\<lambda>v. fst (redact_value rt v)) xs), list_ex (\<lambda>v. snd (redact_value rt v)) xs)"
| "redact_value rt (PDict d) =
     (PDict (map (\<lambda>kv. (fst kv, fst (redact_value rt (snd kv)))) d),
      list_ex (\<lambda>kv. snd (redact_value rt (snd kv))) d)"
| "redact_value rt PNone = (PNone, False)"
| "redact_value rt (PBool b) = (PBool b, False)"
| "redact_value rt (PInt i) = (PInt i, False)"
| "redact_value rt (PFloat f t) = (PFloat f t, False)"
  by pat_completeness auto
termination
  by (relation "measure (\<lambda>(_, v). size v)") (auto simp: size_list_mem size_dict_mem)

section \<open>The handoff page\<close>

definition remove_md :: "string \<Rightarrow> string" where
  "remove_md ref = (if ends_with ref ''.md'' then take (length ref - 3) ref else ref)"

definition handoff_page_text :: "pydict \<Rightarrow> string" where
  "handoff_page_text packet =
    (let field = (\<lambda>k. py_str (dget packet k));
         title = py_strip (field ''task'');
         refs = join_nl (map (\<lambda>r. ''- [['' @ remove_md (str_of_val r) @ '']]'') (list_of_val (dget packet ''wikilink_refs'')))
     in ''---'' @ nl @ ''title: '' @ title @ nl @ ''type: handoff'' @ nl @ ''status: accepted'' @ nl @
        ''privacy: safe'' @ nl @ ''from_agent: '' @ field ''from_agent'' @ nl @ ''to_agent: '' @ field ''to_agent'' @ nl @
        ''trace_id: '' @ field ''trace_id'' @ nl @ ''created: '' @ field ''created_at'' @ nl @ ''---'' @ nl @ nl @
        ''# '' @ title @ nl @ nl @ ''From: `'' @ field ''from_agent'' @ ''`'' @ nl @ nl @
        ''To: `'' @ field ''to_agent'' @ ''`'' @ nl @ nl @ ''## Envelope'' @ nl @ nl @
        ''```xml'' @ nl @ field ''envelope'' @ nl @ ''```'' @ nl @ nl @ ''## Wikilink References'' @ nl @ nl @
        (if refs = [] then ''- None'' else refs) @ nl)"

text \<open>The page's file name and text, for packets of kind \<open>handoff\<close> only.\<close>

definition compile_handoff_page :: "handoff_env \<Rightarrow> pydict \<Rightarrow> string \<Rightarrow> (string \<times> string) option" where
  "compile_handoff_page he packet stamp =
    (if dget packet ''kind'' \<noteq> PStr ''handoff'' then None
     else Some (handoff_wiki_filename he packet stamp, handoff_page_text packet))"

end
