(* ===== verification/Handoff_Leases.thy ===== *)
theory Handoff_Leases
  imports Handoff_Packets
begin

text \<open>
  The handoff protocol of \<open>minnid_runtime/handoff.py\<close> with the archive move of
  \<open>afm_passes/inbox_archive.py\<close>: the lease table in SQLite, the JSON packets in the vaults' inbox and
  outbox directories, and the five handlers.

  The state is \<open>handoff_state\<close>.  A path is its vault, directory and file name.  Each database call takes
  a flag that says whether the store answers, and \<open>handle_daemon_handoff\<close> takes the step at which an
  input or output error strikes, if any; in the acknowledgement, file writes and renames are taken to
  succeed.  Every clock reading is an argument.  \<open>parse_ts\<close> (the timestamp parser) and \<open>iso_ts\<close> are the
  callables the handlers are given.
\<close>

section \<open>State\<close>

record lease_row =
  lr_from :: string
  lr_to :: string
  lr_task :: pyval
  lr_status :: string
  lr_contradicts :: pyval
  lr_inbox :: string
  lr_outbox :: string
  lr_created :: rat
  lr_expires :: "rat option"

type_synonym file_key = "string \<times> string \<times> string"

record handoff_state =
  hs_leases :: "(string \<times> lease_row) list"
  hs_files :: "(file_key \<times> pyval option) list"
  hs_archive :: "((string \<times> string) \<times> pyval option) list"
  hs_pages :: "((string \<times> string) \<times> string) list"
  hs_audit :: "(string \<times> string) list"
  hs_vaults :: "string list"
  hs_requests :: nat

definition path_text :: "file_key \<Rightarrow> string" where
  "path_text k = (case k of (v, r, n) \<Rightarrow> v @ ''/'' @ r @ ''/'' @ n)"

definition live :: "rat option \<Rightarrow> rat \<Rightarrow> bool" where
  "live expires now = (case expires of None \<Rightarrow> True | Some e \<Rightarrow> now < e)"

section \<open>The file channel\<close>

definition dir_listing :: "handoff_state \<Rightarrow> string \<Rightarrow> string \<Rightarrow> (file_key \<times> pyval option) list" where
  "dir_listing st vault rel = sort_key (\<lambda>f. snd (snd (fst f)))
     (filter (\<lambda>f. fst (fst f) = vault \<and> fst (snd (fst f)) = rel \<and> ends_with (snd (snd (fst f))) ''.json'') (hs_files st))"

definition packet_of :: "file_key \<times> pyval option \<Rightarrow> (file_key \<times> pydict) option" where
  "packet_of f = (case snd f of
     Some (PDict packet) \<Rightarrow> (case dget packet ''lease_id'' of
        PStr l \<Rightarrow> if l = [] then None else Some (fst f, packet)
      | _ \<Rightarrow> None)
   | _ \<Rightarrow> None)"

definition iter_handoff_files ::
  "handoff_env \<Rightarrow> handoff_state \<Rightarrow> string option \<Rightarrow> (file_key \<times> pydict) list" where
  "iter_handoff_files he st agent_id =
    (let vaults = (case agent_id of
           Some a \<Rightarrow> if a = [] then known_agent_vaults he else [fst (agent_vault he a)]
         | None \<Rightarrow> known_agent_vaults he)
     in List.map_filter packet_of
          (concat (map (\<lambda>v. dir_listing st v ''inbox'' @ dir_listing st v ''outbox'') vaults)))"

definition packet_open :: "(pyval \<Rightarrow> rat option) \<Rightarrow> rat \<Rightarrow> string \<Rightarrow> pydict \<Rightarrow> bool" where
  "packet_open parse_ts now lease_id packet \<longleftrightarrow>
     dget packet ''lease_id'' = PStr lease_id \<and> \<not> truthy (dget packet ''ack_status'') \<and>
     live (parse_ts (dget packet ''expires_at'')) now"

text \<open>\<open>d.update(u)\<close>.\<close>

definition dict_update :: "pydict \<Rightarrow> pydict \<Rightarrow> pydict" where
  "dict_update d u = fold (\<lambda>kv acc. AList.update (fst kv) (snd kv) acc) u d"

definition write_file :: "file_key \<Rightarrow> pydict \<Rightarrow> handoff_state \<Rightarrow> handoff_state" where
  "write_file k packet st = st\<lparr>hs_files := AList.update k (Some (PDict packet)) (hs_files st)\<rparr>"

definition write_matching_lease_packets ::
  "handoff_env \<Rightarrow> (pyval \<Rightarrow> rat option) \<Rightarrow> rat \<Rightarrow> string \<Rightarrow> pydict \<Rightarrow> handoff_state \<Rightarrow> handoff_state \<times> file_key list" where
  "write_matching_lease_packets he parse_ts now lease_id updates st =
    (let hits = filter (\<lambda>f. packet_open parse_ts now lease_id (snd f)) (iter_handoff_files he st None)
     in (fold (\<lambda>f. write_file (fst f) (dict_update (snd f) updates)) hits st, map fst hits))"

section \<open>The lease table\<close>

text \<open>A value SQLite accepts as a parameter.\<close>

definition sql_bindable :: "pyval \<Rightarrow> bool" where
  "sql_bindable v = (case v of
     PList _ \<Rightarrow> False | PDict _ \<Rightarrow> False
   | PInt i \<Rightarrow> - (2 ^ 63) \<le> i \<and> i < 2 ^ 63
   | _ \<Rightarrow> True)"

definition lease_status_of_packet :: "pydict \<Rightarrow> string" where
  "lease_status_of_packet packet =
     (if truthy (dget_or packet ''requires_ack'' (PBool True)) then ''pending'' else ''not_required'')"

definition store_handoff_lease ::
  "(pyval \<Rightarrow> rat option) \<Rightarrow> rat \<Rightarrow> bool \<Rightarrow> pydict \<Rightarrow> string \<Rightarrow> string \<Rightarrow> handoff_state \<Rightarrow> handoff_state \<times> bool" where
  "store_handoff_lease parse_ts now db packet inbox_path outbox_path st =
    (let created = (case parse_ts (dget packet ''created_at'') of Some t \<Rightarrow> if t = 0 then now else t | None \<Rightarrow> now);
         lease = str_of_val (dget packet ''lease_id'');
         contradicts = (case map_of (hs_leases st) lease of
            Some old \<Rightarrow> lr_contradicts old | None \<Rightarrow> dget packet ''contradicts_id'');
         row = \<lparr>lr_from = str_of_val (dget packet ''from_agent''), lr_to = str_of_val (dget packet ''to_agent''),
           lr_task = dget packet ''task'', lr_status = lease_status_of_packet packet, lr_contradicts = contradicts,
           lr_inbox = inbox_path, lr_outbox = outbox_path, lr_created = created,
           lr_expires = parse_ts (dget packet ''expires_at'')\<rparr>
     in if db \<and> sql_bindable (dget packet ''contradicts_id'')
        then (st\<lparr>hs_leases := AList.update lease row (hs_leases st)\<rparr>, True) else (st, False))"

definition ackable :: "rat \<Rightarrow> lease_row \<Rightarrow> bool" where
  "ackable now row \<longleftrightarrow> lr_status row \<in> {''pending'', ''not_required''} \<and> live (lr_expires row) now"

definition acked_row :: "string \<Rightarrow> pyval \<Rightarrow> lease_row \<Rightarrow> lease_row" where
  "acked_row status contradicts_id row = row\<lparr>
     lr_status := (if lr_status row = ''not_required'' then ''not_required'' else status),
     lr_contradicts := (if contradicts_id = PNone then lr_contradicts row else contradicts_id)\<rparr>"

definition update_handoff_lease_status ::
  "rat \<Rightarrow> bool \<Rightarrow> string \<Rightarrow> string \<Rightarrow> pyval \<Rightarrow> handoff_state \<Rightarrow> handoff_state \<times> bool" where
  "update_handoff_lease_status now db lease_id status contradicts_id st =
    (if \<not> db \<or> \<not> sql_bindable contradicts_id then (st, False)
     else case map_of (hs_leases st) lease_id of
       None \<Rightarrow> (st, False)
     | Some row \<Rightarrow> if ackable now row
         then (st\<lparr>hs_leases := AList.update lease_id (acked_row status contradicts_id row) (hs_leases st)\<rparr>, True)
         else (st, False))"

text \<open>\<open>None\<close> below is \<open>HandoffStoreError\<close>.\<close>

definition lease_entry :: "(rat \<Rightarrow> string) \<Rightarrow> string \<times> lease_row \<Rightarrow> pydict" where
  "lease_entry iso_ts l = [(''lease_id'', PStr (fst l)), (''from_agent'', PStr (lr_from (snd l))),
     (''to_agent'', PStr (lr_to (snd l))), (''task'', lr_task (snd l)),
     (''expires_at'', (case lr_expires (snd l) of None \<Rightarrow> PNone | Some e \<Rightarrow> PStr (iso_ts e))),
     (''path'', PStr (lr_inbox (snd l)))]"

definition pending_handoff_leases ::
  "(rat \<Rightarrow> string) \<Rightarrow> rat \<Rightarrow> bool \<Rightarrow> string \<Rightarrow> handoff_state \<Rightarrow> pydict list option" where
  "pending_handoff_leases iso_ts now db agent_id st =
    (if \<not> db then None
     else Some (map (lease_entry iso_ts)
       (sort_key (\<lambda>l. (lr_created (snd l), fst l))
         (filter (\<lambda>l. lr_to (snd l) = agent_id \<and> lr_status (snd l) = ''pending'' \<and> live (lr_expires (snd l)) now)
            (hs_leases st)))))"

definition handoff_lease_status :: "bool \<Rightarrow> string \<Rightarrow> handoff_state \<Rightarrow> string option option" where
  "handoff_lease_status db lease_id st =
    (if \<not> db then None else Some (map_option lr_status (map_of (hs_leases st) lease_id)))"

fun first_recipient :: "string \<Rightarrow> (file_key \<times> pydict) list \<Rightarrow> string option" where
  "first_recipient lease_id [] = None"
| "first_recipient lease_id (f # fs) =
     (if dget (snd f) ''lease_id'' = PStr lease_id \<and> truthy (dget (snd f) ''to_agent'')
      then Some (py_str (dget (snd f) ''to_agent'')) else first_recipient lease_id fs)"

definition lease_to_agent :: "handoff_env \<Rightarrow> bool \<Rightarrow> string \<Rightarrow> handoff_state \<Rightarrow> string option" where
  "lease_to_agent he db lease_id st =
    (case (if db then map_of (hs_leases st) lease_id else None) of
       Some row \<Rightarrow> if lr_to row \<noteq> [] then Some (lr_to row)
                   else first_recipient lease_id (iter_handoff_files he st None)
     | None \<Rightarrow> first_recipient lease_id (iter_handoff_files he st None))"

section \<open>Archiving\<close>

definition archive_name :: "string \<Rightarrow> nat \<Rightarrow> string" where
  "archive_name name k =
    (if ends_with name ''.json'' \<and> name \<noteq> ''.json''
     then take (length name - 5) name @ ''.'' @ nat_digits k @ ''.json''
     else name @ ''.'' @ nat_digits k)"

text \<open>The first free name; among one more candidates than taken names one is free.\<close>

definition archive_target :: "string list \<Rightarrow> string \<Rightarrow> string" where
  "archive_target taken name =
    (if name \<notin> set taken then name
     else case find (\<lambda>k. archive_name name k \<notin> set taken) [1..<length taken + 2] of
       Some k \<Rightarrow> archive_name name k | None \<Rightarrow> name)"

definition archive_inbox_file :: "file_key \<Rightarrow> handoff_state \<Rightarrow> handoff_state \<times> string option" where
  "archive_inbox_file k st =
    (case k of (vault, rel, name) \<Rightarrow>
      (case map_of (hs_files st) k of
         None \<Rightarrow> (st, None)
       | Some content \<Rightarrow>
          (let target = archive_target (map (\<lambda>a. snd (fst a)) (filter (\<lambda>a. fst (fst a) = vault) (hs_archive st))) name
           in (st\<lparr>hs_files := AList.delete k (hs_files st),
                 hs_archive := ((vault, target), content) # hs_archive st\<rparr>,
               Some (vault @ ''/inbox/.archive/'' @ target)))))"

fun archive_changed :: "file_key list \<Rightarrow> handoff_state \<Rightarrow> handoff_state \<times> string list" where
  "archive_changed [] st = (st, [])"
| "archive_changed (k # ks) st =
     (if fst (snd k) = ''inbox'' then
        (let (st1, t) = archive_inbox_file k st; (st2, ts) = archive_changed ks st1
         in (st2, (case t of Some p \<Rightarrow> p # ts | None \<Rightarrow> ts)))
      else archive_changed ks st)"


section \<open>Acknowledging\<close>

type_synonym handler_reply = "principal_error + pyval"

definition text_param :: "pydict \<Rightarrow> string \<Rightarrow> string" where
  "text_param params k = py_strip (py_str (dget_or params k (PStr [])))"

text \<open>The three database calls of an acknowledgement: reading the recipient, the update, and reading the
  status when the update changed nothing.\<close>

record ack_clock =
  ac_db_recipient :: bool
  ac_db_update :: bool
  ac_db_status :: bool
  ac_now_db :: rat
  ac_now_files :: rat
  ac_acked_at :: string

definition ack_updates :: "ack_clock \<Rightarrow> string \<Rightarrow> pyval \<Rightarrow> pydict" where
  "ack_updates ck status contradicts_id =
     [(''ack_status'', PStr status), (''acked_at'', PStr (ac_acked_at ck))] @
     (if contradicts_id = PNone then [] else [(''contradicts_id'', contradicts_id)])"

definition no_lease_error :: "string \<Rightarrow> pyval \<Rightarrow> pyval" where
  "no_lease_error lease_id request_id = make_error (-32000) (''No handoff lease found for '' @ lease_id) request_id"

text \<open>The part after the authorization.\<close>

definition ack_lease ::
  "handoff_env \<Rightarrow> (pyval \<Rightarrow> rat option) \<Rightarrow> ack_clock \<Rightarrow> string \<Rightarrow> string \<Rightarrow> pyval \<Rightarrow> pyval \<Rightarrow> handoff_state \<Rightarrow>
   handoff_state \<times> pyval" where
  "ack_lease he parse_ts ck lease_id status contradicts_id request_id st =
    (let (st1, db_changed) = update_handoff_lease_status (ac_now_db ck) (ac_db_update ck) lease_id status contradicts_id st;
         existing = (if db_changed then None else
           (case handoff_lease_status (ac_db_status ck) lease_id st1 of None \<Rightarrow> None | Some s \<Rightarrow> s))
     in case existing of
          Some s \<Rightarrow> (st1, make_error (-32009) (''handoff lease '' @ lease_id @ '' cannot be acked (status='' @
             repr_str s @ '' or expired)'') request_id)
        | None \<Rightarrow>
           (let (st2, changed) = write_matching_lease_packets he parse_ts (ac_now_files ck) lease_id
                  (ack_updates ck status contradicts_id) st1
            in if changed = [] \<and> \<not> db_changed then (st2, no_lease_error lease_id request_id)
               else (let (st3, archived) = archive_changed changed st2
                 in (st3, make_response (PDict [(''lease_id'', PStr lease_id), (''status'', PStr status),
                      (''updated_paths'', PList (map (PStr \<circ> path_text) changed)),
                      (''archived_paths'', PList (map PStr archived))]) request_id))))"

definition handle_ack_handoff ::
  "os_env \<Rightarrow> principal_dir \<Rightarrow> handoff_env \<Rightarrow> (pyval \<Rightarrow> rat option) \<Rightarrow> ack_clock \<Rightarrow> rpc_call \<Rightarrow> pyval \<Rightarrow>
   handoff_state \<Rightarrow> handoff_state \<times> handler_reply" where
  "handle_ack_handoff env d he parse_ts ck call request_id st =
    (let params = call_params call; lease_id = text_param params ''lease_id''; status = text_param params ''status'' in
     if lease_id = [] then (st, Inr (make_error (-32602) ''lease_id is required'' request_id))
     else if status \<notin> set HANDOFF_ACK_STATUSES then
       (st, Inr (make_error (-32602) (''status must be one of '' @ py_repr (PList (map PStr HANDOFF_ACK_STATUSES))) request_id))
     else case handler_principal env d call request_id ''agent_id'' of
       IdentityRaise e \<Rightarrow> (st, Inl e)
     | Refused err \<Rightarrow> (st, Inr err)
     | Stamped p \<Rightarrow>
        (case lease_to_agent he (ac_db_recipient ck) lease_id st of
           None \<Rightarrow> (st, Inr (no_lease_error lease_id request_id))
         | Some to_agent \<Rightarrow>
            if to_agent \<noteq> ep_agent_id p then
              (st, Inr (make_error (-32004) (''principal_mismatch: handoff lease '' @ lease_id @ '' is addressed to '' @
                 [CHR 0x27] @ to_agent @ [CHR 0x27] @ ''; caller principal '' @ [CHR 0x27] @ ep_agent_id p @ [CHR 0x27] @
                 '' may not ack it'') request_id))
            else (let (st', reply) = ack_lease he parse_ts ck lease_id status (dget params ''contradicts_id'') request_id st
                  in (st', Inr reply))))"

section \<open>Listing\<close>

definition file_entry :: "file_key \<times> pydict \<Rightarrow> pydict" where
  "file_entry f = map (\<lambda>k. (k, dget (snd f) k)) [''lease_id'', ''from_agent'', ''to_agent'', ''task'', ''expires_at''] @
     [(''path'', PStr (path_text (fst f)))]"

definition file_channel_pending_handoffs ::
  "handoff_env \<Rightarrow> (pyval \<Rightarrow> rat option) \<Rightarrow> rat \<Rightarrow> string \<Rightarrow> handoff_state \<Rightarrow> pydict list" where
  "file_channel_pending_handoffs he parse_ts now agent_id st =
     map file_entry (filter (\<lambda>f. dget (snd f) ''to_agent'' = PStr agent_id \<and>
         truthy (dget_or (snd f) ''requires_ack'' (PBool False)) \<and> \<not> truthy (dget (snd f) ''ack_status'') \<and>
         live (parse_ts (dget (snd f) ''expires_at'')) now)
       (iter_handoff_files he st (Some agent_id)))"

definition known_lease_ids_for_agent :: "bool \<Rightarrow> string \<Rightarrow> handoff_state \<Rightarrow> string list" where
  "known_lease_ids_for_agent db agent_id st =
     (if \<not> db then [] else map fst (filter (\<lambda>l. lr_to (snd l) = agent_id) (hs_leases st)))"

definition entry_id :: "pydict \<Rightarrow> string" where
  "entry_id h = str_of_val (dget h ''lease_id'')"

text \<open>The merge: store entries first, then the file entries whose lease the store does not know.\<close>

definition merge_handoffs :: "pydict list \<Rightarrow> string list \<Rightarrow> pydict list \<Rightarrow> (string \<times> pydict) list" where
  "merge_handoffs stored known files =
     fold (\<lambda>h m. if entry_id h \<in> set known \<or> map_of m (entry_id h) \<noteq> None then m else m @ [(entry_id h, h)]) files
       (fold (\<lambda>h m. AList.update (entry_id h) h m) stored [])"

definition list_reply :: "string \<Rightarrow> pydict list \<Rightarrow> pyval \<Rightarrow> pyval" where
  "list_reply agent_id handoffs request_id =
     make_response (PDict [(''agent_id'', PStr agent_id), (''handoffs'', PList (map PDict handoffs))]) request_id"

record list_clock =
  lc_db_pending :: bool
  lc_db_known :: bool
  lc_now_db :: rat
  lc_now_files :: rat

definition pending_for ::
  "handoff_env \<Rightarrow> (pyval \<Rightarrow> rat option) \<Rightarrow> (rat \<Rightarrow> string) \<Rightarrow> list_clock \<Rightarrow> string \<Rightarrow> handoff_state \<Rightarrow> pydict list" where
  "pending_for he parse_ts iso_ts ck agent_id st =
    (let stored = (case pending_handoff_leases iso_ts (lc_now_db ck) (lc_db_pending ck) agent_id st of
           None \<Rightarrow> [] | Some hs \<Rightarrow> hs)
     in map snd (merge_handoffs stored (known_lease_ids_for_agent (lc_db_known ck) agent_id st @ map entry_id stored)
          (file_channel_pending_handoffs he parse_ts (lc_now_files ck) agent_id st)))"

definition handle_list_pending_handoffs ::
  "os_env \<Rightarrow> principal_dir \<Rightarrow> handoff_env \<Rightarrow> (pyval \<Rightarrow> rat option) \<Rightarrow> (rat \<Rightarrow> string) \<Rightarrow> (string \<Rightarrow> string) \<Rightarrow> list_clock \<Rightarrow>
   rpc_call \<Rightarrow> pyval \<Rightarrow> handoff_state \<Rightarrow> handler_reply" where
  "handle_list_pending_handoffs env d he parse_ts iso_ts store_error ck call request_id st =
    (case handler_principal env d call request_id ''agent_id'' of
       IdentityRaise e \<Rightarrow> Inl e
     | Refused err \<Rightarrow> Inr err
     | Stamped p \<Rightarrow>
        (let agent_id = ep_agent_id p; handoffs = pending_for he parse_ts iso_ts ck agent_id st in
         if agent_id = [] then Inr (make_error (-32602) ''agent_id is required'' request_id)
         else if handoffs \<noteq> [] then Inr (list_reply agent_id handoffs request_id)
         else if \<not> lc_db_pending ck then Inr (make_error (-32000) (store_error agent_id) request_id)
         else Inr (list_reply agent_id handoffs request_id)))"


section \<open>Sending\<close>

text \<open>The steps of a delivery that can raise.\<close>

datatype send_step = EnsureSender | EnsureRecipient | WriteOutbox | WriteInbox | WritePage | AuditSender | AuditRecipient

record send_io =
  si_fault :: "(send_step \<times> string) option"
  si_db :: bool
  si_now :: rat
  si_stamp :: string
  si_audit_ts :: string
  si_dots :: char

definition ensure_handoff_vault :: "string \<Rightarrow> handoff_state \<Rightarrow> handoff_state" where
  "ensure_handoff_vault v st = st\<lparr>hs_vaults := (if v \<in> set (hs_vaults st) then hs_vaults st else v # hs_vaults st)\<rparr>"

definition audit_details :: "pydict \<Rightarrow> string \<Rightarrow> string \<Rightarrow> file_key \<Rightarrow> file_key \<Rightarrow> pyval \<Rightarrow> bool \<Rightarrow> bool \<Rightarrow> pydict" where
  "audit_details packet from_agent to_agent inbox outbox page redacted persisted =
    [(''trace_id'', dget packet ''trace_id''), (''from_agent'', PStr from_agent), (''to_agent'', PStr to_agent),
     (''kind'', dget packet ''kind''), (''task'', dget packet ''task''), (''inbox_path'', PStr (path_text inbox)),
     (''outbox_path'', PStr (path_text outbox)), (''handoff_page'', page), (''redacted'', PBool redacted),
     (''lease_id'', dget packet ''lease_id''), (''expires_at'', dget packet ''expires_at''),
     (''lease_persisted'', PBool persisted)]"

text \<open>\<open>dumps\<close> is the indented \<open>json.dumps\<close> of the details.\<close>

definition append_handoff_audit ::
  "(pyval \<Rightarrow> string) \<Rightarrow> send_io \<Rightarrow> string \<Rightarrow> string \<Rightarrow> string \<Rightarrow> pydict \<Rightarrow> handoff_state \<Rightarrow> handoff_state" where
  "append_handoff_audit dumps io v tool summary details st =
     (ensure_handoff_vault v st)\<lparr>hs_audit := hs_audit st @
        [(v, audit_entry (si_dots io) (si_audit_ts io) tool summary (dumps (PDict details)))]\<rparr>"

definition run_step :: "send_io \<Rightarrow> send_step \<Rightarrow> (handoff_state \<Rightarrow> handoff_state) \<Rightarrow>
    handoff_state \<times> string option \<Rightarrow> handoff_state \<times> string option" where
  "run_step io step f r = (case r of
     (st, Some exc) \<Rightarrow> (st, Some exc)
   | (st, None) \<Rightarrow> (case si_fault io of
        Some (s, exc) \<Rightarrow> if s = step then (st, Some exc) else (f st, None)
      | None \<Rightarrow> (f st, None)))"

definition write_packets :: "send_io \<Rightarrow> file_key \<Rightarrow> file_key \<Rightarrow> pydict \<Rightarrow> handoff_state \<Rightarrow> handoff_state \<times> string option" where
  "write_packets io outbox inbox packet st =
     run_step io WriteInbox (write_file inbox packet)
       (run_step io WriteOutbox (write_file outbox packet)
         (run_step io EnsureRecipient (ensure_handoff_vault (fst inbox))
           (run_step io EnsureSender (ensure_handoff_vault (fst outbox)) (st, None))))"

definition write_page :: "send_io \<Rightarrow> string \<Rightarrow> (string \<times> string) option \<Rightarrow> handoff_state \<times> string option \<Rightarrow>
    handoff_state \<times> string option" where
  "write_page io sender page r = (case page of
     None \<Rightarrow> r
   | Some pg \<Rightarrow> run_step io WritePage (\<lambda>s. s\<lparr>hs_pages := AList.update (sender, fst pg) (snd pg) (hs_pages s)\<rparr>) r)"

definition write_audits :: "(pyval \<Rightarrow> string) \<Rightarrow> send_io \<Rightarrow> string \<Rightarrow> string \<Rightarrow> string \<Rightarrow> pydict \<Rightarrow>
    handoff_state \<times> string option \<Rightarrow> handoff_state \<times> string option" where
  "write_audits dumps io sender recipient task details r =
     run_step io AuditRecipient (append_handoff_audit dumps io recipient ''handoff_received'' task details)
       (run_step io AuditSender (append_handoff_audit dumps io sender ''handoff_sent'' task details) r)"

definition page_value :: "string \<Rightarrow> (string \<times> string) option \<Rightarrow> pyval" where
  "page_value sender page = (case page of None \<Rightarrow> PNone | Some pg \<Rightarrow> PStr (sender @ ''/wiki/handoffs/'' @ fst pg))"

definition delivery_result ::
  "string \<Rightarrow> pydict \<Rightarrow> file_key \<Rightarrow> file_key \<Rightarrow> pyval \<Rightarrow> bool \<Rightarrow> bool \<Rightarrow> string option \<Rightarrow> pyval" where
  "delivery_result to_agent packet inbox outbox page redacted persisted failure = (case failure of
     Some exc \<Rightarrow> PDict [(''status'', PStr ''degraded''), (''delivered'', PBool False),
       (''reason'', PStr exc), (''to_agent'', PStr to_agent)]
   | None \<Rightarrow> PDict
       [(''status'', PStr (if persisted then ''ok'' else ''degraded'')), (''delivered'', PBool True),
        (''lease_persisted'', PBool persisted),
        (''reason'', if persisted then PNone
           else PStr ''handoff delivered to JSON packets but SQLite lease persistence failed''),
        (''redacted'', PBool redacted), (''inbox_path'', PStr (path_text inbox)),
        (''outbox_path'', PStr (path_text outbox)), (''handoff_page'', page),
        (''trace_id'', dget packet ''trace_id''), (''lease_id'', dget packet ''lease_id''),
        (''expires_at'', dget packet ''expires_at'')])"

definition deliver ::
  "handoff_env \<Rightarrow> (pyval \<Rightarrow> string) \<Rightarrow> (pyval \<Rightarrow> rat option) \<Rightarrow> send_io \<Rightarrow> string \<Rightarrow> string \<Rightarrow> string \<Rightarrow> string \<Rightarrow>
   pydict \<Rightarrow> bool \<Rightarrow> handoff_state \<Rightarrow> handoff_state \<times> pyval" where
  "deliver he dumps parse_ts io from_agent to_agent sender recipient packet redacted st =
    (let suffix = handoff_packet_filename he packet (si_stamp io);
         outbox = (sender, ''outbox'', suffix); inbox = (recipient, ''inbox'', suffix);
         (st1, e1) = write_packets io outbox inbox packet st;
         (st2, persisted) = (if e1 = None
            then store_handoff_lease parse_ts (si_now io) (si_db io) packet (path_text inbox) (path_text outbox) st1
            else (st1, False));
         page = compile_handoff_page he packet (si_stamp io);
         details = audit_details packet from_agent to_agent inbox outbox (page_value sender page) redacted persisted;
         (st3, failure) = write_audits dumps io sender recipient (py_str (dget packet ''task'')) details
            (write_page io sender page (st2, e1))
     in (st3, delivery_result to_agent packet inbox outbox (page_value sender page) redacted persisted failure))"

text \<open>The wikilink check; the error text of the first reference that is refused.\<close>

definition lstrip_slash :: "string \<Rightarrow> string" where
  "lstrip_slash s = dropWhile (\<lambda>c. c = CHR ''/'') s"

fun wikilink_error :: "os_env \<Rightarrow> effective_principal \<Rightarrow> string \<Rightarrow> pyval list \<Rightarrow> string option" where
  "wikilink_error env p wiki_root [] = None"
| "wikilink_error env p wiki_root (ref # refs) =
    (let ref_str = py_strip (py_str ref) in
     if ref_str = [] then wikilink_error env p wiki_root refs
     else case (oe_resolve env (wiki_root @ ''/'' @ lstrip_slash ref_str), oe_resolve env wiki_root) of
       (Some cand, Some base) \<Rightarrow>
         if \<not> is_relative_to cand base \<or> \<not> allows_vault_root env p (PStr cand)
         then Some ''wikilink_traversal_denied: wikilink escapes allowed vault roots (G23)''
         else wikilink_error env p wiki_root refs
     | _ \<Rightarrow> Some ''wikilink_traversal_denied: unresolvable ref'')"

definition create_missing_vaults :: "handoff_env \<Rightarrow> bool" where
  "create_missing_vaults he \<longleftrightarrow>
     py_lower (case hv_var he ''MINNI_HANDOFF_CREATE_MISSING_VAULTS'' of None \<Rightarrow> ''1'' | Some v \<Rightarrow> v)
       \<notin> {''0'', ''false'', ''off''}"

definition send_packet ::
  "os_env \<Rightarrow> handoff_env \<Rightarrow> (string \<Rightarrow> string \<times> bool) \<Rightarrow> (pyval \<Rightarrow> string) \<Rightarrow> (pyval \<Rightarrow> rat option) \<Rightarrow> send_io \<Rightarrow>
   effective_principal \<Rightarrow> string \<Rightarrow> pydict \<Rightarrow> pyval \<Rightarrow> handoff_state \<Rightarrow> handoff_state \<times> pyval" where
  "send_packet env he rt dumps parse_ts io p to_agent packet request_id st =
    (let from_agent = ep_agent_id p;
         (redacted_packet, redacted) = redact_value rt (PDict packet);
         (sender, sender_explicit) = agent_vault he from_agent;
         (recipient, recipient_explicit) = agent_vault he to_agent;
         denied = (\<lambda>label. make_error (-32003)
            (''vault_root_denied: '' @ label @ '' vault outside principal.allowed_vault_roots'') request_id)
     in if \<not> allows_vault_root env p (PStr sender) then (st, denied ''sender'')
        else if \<not> allows_vault_root env p (PStr recipient) then (st, denied ''recipient'')
        else (case wikilink_error env p (sender @ ''/wiki'') (list_of_val (dget packet ''wikilink_refs'')) of
           Some msg \<Rightarrow> (st, make_error (-32003) msg request_id)
         | None \<Rightarrow>
            if \<not> recipient_explicit \<and> recipient \<notin> set (hs_vaults st) \<and> \<not> create_missing_vaults he then
              ((if sender_explicit then ensure_handoff_vault sender st else st),
               make_response (PDict [(''status'', PStr ''degraded''), (''delivered'', PBool False),
                 (''reason'', PStr (''destination vault not found for '' @ to_agent)),
                 (''to_agent'', PStr to_agent), (''recipient_vault'', PStr recipient)]) request_id)
            else (let (st', result) = deliver he dumps parse_ts io from_agent to_agent sender recipient
                        (dict_of_val redacted_packet) redacted st
                  in (st', make_response result request_id))))"

definition handle_daemon_handoff ::
  "os_env \<Rightarrow> principal_dir \<Rightarrow> handoff_env \<Rightarrow> (string \<Rightarrow> string \<times> bool) \<Rightarrow> (pyval \<Rightarrow> string) \<Rightarrow> (pyval \<Rightarrow> rat option) \<Rightarrow>
   packet_defaults \<Rightarrow> send_io \<Rightarrow> rpc_call \<Rightarrow> pyval \<Rightarrow> handoff_state \<Rightarrow> handoff_state \<times> handler_reply" where
  "handle_daemon_handoff env d he rt dumps parse_ts pd io call request_id st0 =
    (let st = st0\<lparr>hs_requests := Suc (hs_requests st0)\<rparr>; params = call_params call;
         claimed = text_param params ''from_agent''; to_agent = text_param params ''to_agent'' in
     if claimed = [] \<or> to_agent = [] then
       (st, Inr (make_error (-32602) ''from_agent and to_agent are required'' request_id))
     else case handler_principal env d call request_id ''from_agent'' of
       IdentityRaise e \<Rightarrow> (st, Inl e)
     | Refused err \<Rightarrow> (st, Inr err)
     | Stamped p \<Rightarrow>
        (case validate_handoff_packet pd (ep_agent_id p) to_agent (dget params ''packet'') of
           Inl err \<Rightarrow> (st, Inr (make_error (-32602) err request_id))
         | Inr packet \<Rightarrow>
            (let (st', reply) = send_packet env he rt dumps parse_ts io p to_agent packet request_id st
             in (st', Inr reply))))"

section \<open>Waiting\<close>

text \<open>One poll of \<open>handle_await_handoff\<close>: the state it sees, whether the store answers, and the time of
  the deadline test.  A run of the loop is the list of its polls; \<open>None\<close> means that it is still waiting.\<close>

record poll =
  po_state :: handoff_state
  po_db :: bool
  po_now :: rat

fun terminal_ack :: "string \<Rightarrow> (file_key \<times> pydict) list \<Rightarrow> pyval option" where
  "terminal_ack lease_id [] = None"
| "terminal_ack lease_id (f # fs) =
     (if dget (snd f) ''lease_id'' = PStr lease_id \<and> truthy (dget (snd f) ''ack_status'')
      then Some (PDict [(''lease_id'', PStr lease_id), (''status'', dget (snd f) ''ack_status''),
        (''acked_at'', dget (snd f) ''acked_at'')])
      else terminal_ack lease_id fs)"

definition poll_answer :: "handoff_env \<Rightarrow> string \<Rightarrow> poll \<Rightarrow> pyval option" where
  "poll_answer he lease_id po =
    (case handoff_lease_status (po_db po) lease_id (po_state po) of
       Some (Some status) \<Rightarrow>
         if status \<noteq> ''pending'' then Some (PDict [(''lease_id'', PStr lease_id), (''status'', PStr status)])
         else terminal_ack lease_id (iter_handoff_files he (po_state po) None)
     | _ \<Rightarrow> terminal_ack lease_id (iter_handoff_files he (po_state po) None))"

fun await_loop ::
  "handoff_env \<Rightarrow> (string \<Rightarrow> string) \<Rightarrow> string \<Rightarrow> rat \<Rightarrow> pyval \<Rightarrow> poll list \<Rightarrow> pyval option" where
  "await_loop he store_error lease_id deadline request_id [] = None"
| "await_loop he store_error lease_id deadline request_id (po # pos) =
    (case poll_answer he lease_id po of
       Some r \<Rightarrow> Some (make_response r request_id)
     | None \<Rightarrow>
        if deadline \<le> po_now po then
          Some (if po_db po then make_response (PDict [(''lease_id'', PStr lease_id), (''status'', PStr ''timeout'')]) request_id
                else make_error (-32000) (store_error lease_id) request_id)
        else await_loop he store_error lease_id deadline request_id pos)"

definition clamp_timeout :: "int \<Rightarrow> int" where
  "clamp_timeout ms = max 0 (min ms 300000)"

text \<open>\<open>py_int\<close> is \<open>int(v)\<close>, \<open>None\<close> when it raises.\<close>

definition handle_await_handoff ::
  "handoff_env \<Rightarrow> (string \<Rightarrow> string) \<Rightarrow> (pyval \<Rightarrow> int option) \<Rightarrow> rat \<Rightarrow> rpc_call \<Rightarrow> pyval \<Rightarrow> poll list \<Rightarrow> string + pyval option" where
  "handle_await_handoff he store_error py_int start call request_id polls =
    (let params = call_params call; lease_id = text_param params ''lease_id'' in
     if lease_id = [] then Inr (Some (make_error (-32602) ''lease_id is required'' request_id))
     else case py_int (dget_or params ''timeout_ms'' (PInt 30000)) of
       None \<Rightarrow> Inl ''ValueError''
     | Some ms \<Rightarrow> Inr (await_loop he store_error lease_id (start + of_int (clamp_timeout ms) / 1000) request_id polls))"

end
