(* ===== verification/Handoff_Protocol.thy ===== *)
theory Handoff_Protocol
  imports Handoff_Leases
begin

text \<open>
  What the handoff code guarantees: audit entries cannot be forged, validation only completes a packet,
  only the recipient settles a lease and settling is final on both channels, the pending list merges the
  channels without resurrecting a settled lease, and a wait ends.  The contract the two channels share
  is the locale \<open>settling\<close>.
\<close>

section \<open>Audit entries\<close>

lemma split_nl_not_Nil [simp]: "split_nl s \<noteq> []"
  by (induction s) (auto split: list.splits)

lemma split_nl_append: "split_nl (s @ t) = butlast (split_nl s) @ (last (split_nl s) @ hd (split_nl t)) # tl (split_nl t)"
proof (induction s)
  case Nil
  then show ?case by (simp add: list.expand)
next
  case (Cons c s)
  obtain l ls where "split_nl s = l # ls" by (cases "split_nl s") auto
  then show ?case using Cons by (cases ls) auto
qed

lemma split_nl_plain: "CHR 0x0A \<notin> set s \<Longrightarrow> split_nl s = [s]"
  by (induction s) auto

text \<open>Text whose lines, all or all but the first, do not start with a hash.\<close>

definition no_hash :: "string \<Rightarrow> bool" where
  "no_hash row \<longleftrightarrow> row = [] \<or> hd row \<noteq> CHR ''#''"

definition lines_ok :: "string \<Rightarrow> bool" where
  "lines_ok s \<longleftrightarrow> list_all no_hash (split_nl s)"

definition tail_ok :: "string \<Rightarrow> bool" where
  "tail_ok s \<longleftrightarrow> list_all no_hash (tl (split_nl s))"

lemma lines_tail: "lines_ok s \<Longrightarrow> tail_ok s"
  by (cases "split_nl s") (auto simp: lines_ok_def tail_ok_def)

lemma no_hash_append: "no_hash (a @ b) \<longleftrightarrow> (if a = [] then no_hash b else no_hash a)"
  by (auto simp: no_hash_def)

lemma lines_ok_Nil [simp]: "lines_ok []"
  by (simp add: lines_ok_def no_hash_def)

lemma tail_ok_append:
  assumes "tail_ok s" and "lines_ok t"
  shows "tail_ok (s @ t)"
proof -
  obtain a as where s: "split_nl s = a # as" by (cases "split_nl s") auto
  obtain b bs where t: "split_nl t = b # bs" by (cases "split_nl t") auto
  have b: "no_hash b" "list_all no_hash bs" using assms(2) t by (auto simp: lines_ok_def)
  show ?thesis
  proof (cases "as = []")
    case True
    then show ?thesis using b by (simp add: tail_ok_def split_nl_append s t)
  next
    case False
    have as: "list_all no_hash as" using assms(1) s by (simp add: tail_ok_def)
    have "no_hash (last as @ b)" using as False b(1)
      by (auto simp: no_hash_append list_all_iff)
    moreover have "list_all no_hash (butlast as)" using as by (auto simp: list_all_iff dest: in_set_butlastD)
    ultimately show ?thesis using False b by (simp add: tail_ok_def split_nl_append s t)
  qed
qed

lemma tail_ok_plain: "CHR 0x0A \<notin> set s \<Longrightarrow> tail_ok s"
  by (simp add: tail_ok_def split_nl_plain)

lemma split_join_nl: "ls \<noteq> [] \<Longrightarrow> list_all (\<lambda>l. CHR 0x0A \<notin> set l) ls \<Longrightarrow> split_nl (join_nl ls) = ls"
proof (induction ls)
  case (Cons a ls)
  show ?case
  proof (cases ls)
    case Nil
    then show ?thesis using Cons.prems by (simp add: join_nl_def split_nl_plain)
  next
    case (Cons b bs)
    have "split_nl (join_nl ls) = ls" using Cons Cons.IH Cons.prems by simp
    then have "split_nl ([CHR 0x0A] @ join_nl ls) = [] # ls" by simp
    moreover have "join_nl (a # ls) = a @ [CHR 0x0A] @ join_nl ls" by (simp add: join_nl_def Cons)
    ultimately show ?thesis using Cons.prems by (simp add: split_nl_append split_nl_plain)
  qed
qed simp

lemma split_nl_no_nl: "l \<in> set (split_nl s) \<Longrightarrow> CHR 0x0A \<notin> set l"
  by (induction s arbitrary: l) (auto split: list.splits if_splits)

lemma lines_ok_appendD: "lines_ok (a @ b) \<Longrightarrow> lines_ok a"
proof -
  obtain xs x where a: "split_nl a = xs @ [x]" using split_nl_not_Nil[of a] by (metis rev_exhaust)
  assume "lines_ok (a @ b)"
  then have "list_all no_hash xs" "no_hash (x @ hd (split_nl b))" by (auto simp: lines_ok_def split_nl_append a)
  then show "lines_ok a" by (auto simp: lines_ok_def a no_hash_append split: if_splits) (simp add: no_hash_def)
qed

lemma lines_ok_cap:
  assumes "lines_ok s" and "dots \<noteq> CHR ''#''" and "dots \<noteq> CHR 0x0A"
  shows "lines_ok (cap_text dots n s)"
proof (cases "length s > n")
  case True
  have "lines_ok (take (n - 1) s)" using assms(1) lines_ok_appendD[of "take (n - 1) s" "drop (n - 1) s"] by simp
  moreover obtain xs x where a: "split_nl (take (n - 1) s) = xs @ [x]"
    using split_nl_not_Nil by (metis rev_exhaust)
  ultimately have "lines_ok (take (n - 1) s @ [dots])" using assms(2,3)
    by (auto simp: lines_ok_def split_nl_append a no_hash_append) (auto simp: no_hash_def)
  then show ?thesis using True by (simp add: cap_text_def)
qed (simp add: cap_text_def assms(1))

lemma no_hash_escape: "no_hash (escape_hash row)"
  by (cases row) (auto simp: escape_hash_def no_hash_def starts_with_def)

lemma no_hash_lines_ok: "no_hash row \<Longrightarrow> CHR 0x0A \<notin> set row \<Longrightarrow> lines_ok row"
  by (simp add: lines_ok_def split_nl_plain)

lemma cap_text_no_nl: "CHR 0x0A \<notin> set s \<Longrightarrow> dots \<noteq> CHR 0x0A \<Longrightarrow> CHR 0x0A \<notin> set (cap_text dots n s)"
  by (auto simp: cap_text_def dest: in_set_takeD)

lemma details_lines_ok:
  assumes "dots \<noteq> CHR ''#''" and "dots \<noteq> CHR 0x0A"
  shows "lines_ok (escape_audit_details_block dots raw)"
proof -
  let ?rows = "map (\<lambda>row. cap_text dots AUDIT_DETAIL_LINE_MAX (escape_hash row)) (split_nl raw)"
  have nl: "CHR 0x0A \<notin> set (cap_text dots AUDIT_DETAIL_LINE_MAX (escape_hash row))" if "row \<in> set (split_nl raw)" for row
    using split_nl_no_nl[OF that] assms(2) by (intro cap_text_no_nl) (auto simp: escape_hash_def)
  have hash: "no_hash (cap_text dots AUDIT_DETAIL_LINE_MAX (escape_hash row))" if "row \<in> set (split_nl raw)" for row
  proof -
    have "CHR 0x0A \<notin> set (escape_hash row)" using split_nl_no_nl[OF that] by (auto simp: escape_hash_def)
    then have "lines_ok (escape_hash row)" by (intro no_hash_lines_ok no_hash_escape)
    then have "lines_ok (cap_text dots AUDIT_DETAIL_LINE_MAX (escape_hash row))" by (rule lines_ok_cap[OF _ assms])
    then show ?thesis by (simp add: lines_ok_def split_nl_plain[OF nl[OF that]])
  qed
  have "split_nl (join_nl ?rows) = ?rows" by (rule split_join_nl) (use nl in \<open>auto simp: list_all_iff\<close>)
  then have "lines_ok (join_nl ?rows)" using hash by (auto simp: lines_ok_def list_all_iff)
  then show ?thesis unfolding escape_audit_details_block_def by (rule lines_ok_cap[OF _ assms])
qed

lemma inline_no_nl:
  assumes "dots \<noteq> CHR 0x0A"
  shows "CHR 0x0A \<notin> set (escape_audit_field dots v True (Some n))"
  unfolding escape_audit_field_def Let_def option.case if_True
  by (rule cap_text_no_nl[OF _ assms])
    (auto simp: escape_hash_def escape_inline_char_def split: if_splits)

lemma starts_with_append [simp]: "starts_with (p @ s) p"
  by (simp add: starts_with_def)

text \<open>Whatever the tool name, the summary and the details contain, the entry written to the audit log
  has one header line: its first line starts with \<open>## [\<close> and no other line starts with a hash, so no
  field can forge a second entry.\<close>

theorem audit_entry_one_header:
  assumes "CHR 0x0A \<notin> set ts" and "dots \<noteq> CHR ''#''" and "dots \<noteq> CHR 0x0A"
  shows "starts_with (hd (split_nl (audit_entry dots ts tool summary raw))) ''## ['' \<and>
    list_all no_hash (tl (split_nl (audit_entry dots ts tool summary raw)))"
proof -
  define hdr where "hdr = ''## ['' @ ts @ ''] '' @ escape_audit_field dots tool True (Some 200) @ '' | '' @
     escape_audit_field dots summary True (Some AUDIT_SUMMARY_MAX)"
  define body where "body = ''```json'' @ nl @ escape_audit_details_block dots raw"
  have hdr: "CHR 0x0A \<notin> set hdr" unfolding hdr_def using assms(1) inline_no_nl[OF assms(3)] by simp
  have entry: "audit_entry dots ts tool summary raw = hdr @ nl @ nl @ body @ nl @ ''```'' @ nl @ nl"
    by (simp add: audit_entry_def hdr_def body_def)
  have lines: "lines_ok (a @ nl @ b)" if "lines_ok a" "lines_ok b" for a b
  proof -
    obtain xs x where "split_nl a = xs @ [x]" using split_nl_not_Nil by (metis rev_exhaust)
    then show ?thesis using that by (simp add: lines_ok_def nl_def split_nl_append)
  qed
  have fence: "lines_ok ''```json''" "lines_ok ''```''" by code_simp+
  have "lines_ok (body @ nl @ ''```'' @ nl @ [])"
    unfolding body_def append_assoc by (intro lines details_lines_ok assms fence lines_ok_Nil)
  then have rest: "lines_ok (nl @ body @ nl @ ''```'' @ nl @ nl)"
    using lines[OF lines_ok_Nil] lines[of "body @ nl @ ''```'' @ nl" "[]"] by simp
  have "split_nl (hdr @ nl @ (nl @ body @ nl @ ''```'' @ nl @ nl)) = hdr # split_nl (nl @ body @ nl @ ''```'' @ nl @ nl)"
    by (simp add: split_nl_append split_nl_plain[OF hdr] nl_def)
  moreover have "starts_with hdr ''## [''" by (simp add: hdr_def starts_with_def)
  ultimately show ?thesis using rest unfolding entry by (simp add: lines_ok_def)
qed


section \<open>Validated packets\<close>

lemma set_default_keeps: "map_of d k = Some v \<Longrightarrow> map_of (set_default k' v' d) k = Some v"
  by (auto simp: set_default_def has_key_def)

lemma with_defaults_keeps: "map_of raw k = Some v \<Longrightarrow> map_of (with_defaults pd a b raw) k = Some v"
  unfolding with_defaults_def by (intro set_default_keeps)

lemma with_defaults_id:
  assumes "list_all (has_key d) [''from_agent'', ''to_agent'', ''created_at'', ''trace_id'', ''lease_id'',
     ''requires_ack'', ''expires_at'']"
  shows "with_defaults pd a b d = d"
  using assms by (simp add: with_defaults_def set_default_def)

lemma field_errors_None:
  "field_errors fs packet = None \<longleftrightarrow> list_all (\<lambda>f. has_key packet (fst f) \<and> has_type (snd f) (dget packet (fst f)) \<and>
     (snd f = TStr \<longrightarrow> nonblank_str (dget packet (fst f)))) fs"
  by (induction fs packet rule: field_errors.induct) (auto simp: nonblank_str_def)

lemma validate_Inr:
  "validate_handoff_packet pd a b (PDict raw) = Inr packet \<longleftrightarrow>
     packet = with_defaults pd a b raw \<and> field_errors PACKET_FIELDS packet = None \<and>
     dget packet ''from_agent'' = PStr a \<and> dget packet ''to_agent'' = PStr b \<and>
     str_of_val (dget packet ''kind'') \<in> set HANDOFF_KINDS \<and>
     list_all nonblank_str (list_of_val (dget packet ''wikilink_refs''))"
proof -
  let ?n = "with_defaults pd a b raw"
  have "field_errors PACKET_FIELDS ?n = None \<Longrightarrow> is_str (dget ?n ''expires_at'')"
    unfolding field_errors_None PACKET_FIELDS_def by simp
  then show ?thesis
    by (auto simp: validate_handoff_packet_def Let_def split: option.splits if_splits)
qed

text \<open>An accepted handoff packet is the caller's own with the missing fields filled in: every field the
  caller set is kept, every required field is present with its type and no text is blank, sender and
  recipient are the ones of the call, and validating it again, whatever the defaults, changes nothing.\<close>

theorem validated_packet_complete:
  assumes "validate_handoff_packet pd from_agent to_agent (PDict raw) = Inr packet"
  shows "(\<forall>k v. map_of raw k = Some v \<longrightarrow> map_of packet k = Some v) \<and>
    list_all (\<lambda>f. has_type (snd f) (dget packet (fst f)) \<and> (snd f = TStr \<longrightarrow> nonblank_str (dget packet (fst f))))
      PACKET_FIELDS \<and>
    dget packet ''from_agent'' = PStr from_agent \<and> dget packet ''to_agent'' = PStr to_agent \<and>
    validate_handoff_packet pd' from_agent to_agent (PDict packet) = Inr packet"
proof -
  note v = assms[unfolded validate_Inr]
  have fields: "list_all (\<lambda>f. has_key packet (fst f) \<and> has_type (snd f) (dget packet (fst f)) \<and>
     (snd f = TStr \<longrightarrow> nonblank_str (dget packet (fst f)))) PACKET_FIELDS"
    using v unfolding field_errors_None by blast
  then have same: "with_defaults pd' from_agent to_agent packet = packet"
    by (intro with_defaults_id) (simp add: PACKET_FIELDS_def)
  have "validate_handoff_packet pd' from_agent to_agent (PDict packet) = Inr packet"
    unfolding validate_Inr using v same by metis
  moreover have "\<forall>k v. map_of raw k = Some v \<longrightarrow> map_of packet k = Some v"
    using v with_defaults_keeps by blast
  ultimately show ?thesis using v fields by (auto simp: list_all_iff)
qed

section \<open>Settling\<close>

text \<open>
  The contract of both channels: an item is open at some times; settling it with a verdict closes it
  for good, and time never reopens anything.
\<close>

locale settling =
  fixes open_at :: "rat \<Rightarrow> 'x \<Rightarrow> bool"
    and settle :: "'v \<Rightarrow> 'x \<Rightarrow> 'x"
    and verdict :: "'v \<Rightarrow> bool"
  assumes settled: "verdict v \<Longrightarrow> \<not> open_at t (settle v x)"
    and expired: "open_at t' x \<Longrightarrow> t \<le> t' \<Longrightarrow> open_at t x"
begin

lemma never_reopened: "\<not> open_at t x \<Longrightarrow> t \<le> t' \<Longrightarrow> \<not> open_at t' x"
  using expired by blast

lemma closed_after_settling:
  assumes "v \<in> set vs" and "\<forall>v \<in> set vs. verdict v"
  shows "\<not> open_at t (fold settle vs x)"
  using assms
proof (induction vs rule: rev_induct)
  case (snoc u us)
  then show ?case using settled by simp
qed simp

end

definition row_pending :: "rat \<Rightarrow> lease_row \<Rightarrow> bool" where
  "row_pending now row \<longleftrightarrow> lr_status row = ''pending'' \<and> live (lr_expires row) now"

lemma live_mono: "live e t' \<Longrightarrow> t \<le> t' \<Longrightarrow> live e t"
  by (auto simp: live_def split: option.splits)

lemma dget_dict_update_absent: "k \<notin> fst ` set u \<Longrightarrow> dget (dict_update d u) k = dget d k"
  by (induction u arbitrary: d) (auto simp: dict_update_def)

lemma dget_ack_updates:
  "dget (dict_update packet (ack_updates ck s c)) ''ack_status'' = PStr s"
  "dget (dict_update packet (ack_updates ck s c)) ''lease_id'' = dget packet ''lease_id''"
  "dget (dict_update packet (ack_updates ck s c)) ''to_agent'' = dget packet ''to_agent''"
  "dget (dict_update packet (ack_updates ck s c)) ''expires_at'' = dget packet ''expires_at''"
  by (simp_all add: dict_update_def ack_updates_def)

lemma ack_status_text: "s \<in> set HANDOFF_ACK_STATUSES \<Longrightarrow> s \<noteq> ''pending'' \<and> s \<noteq> ''not_required'' \<and> s \<noteq> []"
  by (auto simp: HANDOFF_ACK_STATUSES_def)



interpretation packet_settling: settling "\<lambda>now. packet_open parse_ts now lease_id"
    "\<lambda>(s, c) packet. dict_update packet (ack_updates ck s c)" "\<lambda>(s, c). s \<in> set HANDOFF_ACK_STATUSES"
  for parse_ts lease_id ck
  by unfold_locales
    (auto simp: packet_open_def dget_ack_updates dest: ack_status_text intro: live_mono)


section \<open>Frames\<close>

lemma write_files_frame:
  "hs_leases (fold (\<lambda>f. write_file (fst f) (g f)) fs st) = hs_leases st"
  by (induction fs arbitrary: st) (simp_all add: write_file_def)

lemma write_matching_leases:
  "write_matching_lease_packets he pt now l u st = (st', ks) \<Longrightarrow> hs_leases st' = hs_leases st"
  by (auto simp: write_matching_lease_packets_def Let_def write_files_frame)

lemma archive_inbox_leases: "archive_inbox_file k st = (st', t) \<Longrightarrow> hs_leases st' = hs_leases st"
  by (auto simp: archive_inbox_file_def Let_def split: prod.splits option.splits)

lemma archive_changed_leases: "archive_changed ks st = (st', ts) \<Longrightarrow> hs_leases st' = hs_leases st"
  by (induction ks arbitrary: st st' ts)
    (auto simp: Let_def dest: archive_inbox_leases split: prod.splits if_splits)

lemmas lease_frames = write_matching_leases archive_changed_leases

lemma update_status_frame:
  "update_handoff_lease_status now db l s c st = (st', b) \<Longrightarrow> l' \<noteq> l \<Longrightarrow>
     map_of (hs_leases st') l' = map_of (hs_leases st) l'"
  by (auto simp: update_handoff_lease_status_def update_conv' split: if_splits option.splits)

lemma ack_lease_leases:
  assumes "ack_lease he pt ck l s c i st = (st', r)"
  shows "hs_leases st' = hs_leases (fst (update_handoff_lease_status (ac_now_db ck) (ac_db_update ck) l s c st))"
proof -
  obtain st1 b where u: "update_handoff_lease_status (ac_now_db ck) (ac_db_update ck) l s c st = (st1, b)" by fastforce
  obtain st2 ks where w: "write_matching_lease_packets he pt (ac_now_files ck) l (ack_updates ck s c) st1 = (st2, ks)"
    by fastforce
  obtain st3 ts where a: "archive_changed ks st2 = (st3, ts)" by fastforce
  show ?thesis using assms write_matching_leases[OF w] archive_changed_leases[OF a]
    by (auto simp: ack_lease_def Let_def u w a split: option.splits if_splits)
qed

text \<open>An acknowledgement changes something only when the stamped caller is the recipient on record for
  that very lease; and then no other lease changes.\<close>

theorem ack_recipient_only:
  assumes "handle_ack_handoff env d he pt ck call i st = (st', r)" and "st' \<noteq> st"
  shows "\<exists>p. handler_principal env d call i ''agent_id'' = Stamped p \<and>
    lease_to_agent he (ac_db_recipient ck) (text_param (call_params call) ''lease_id'') st = Some (ep_agent_id p) \<and>
    (\<forall>l. l \<noteq> text_param (call_params call) ''lease_id'' \<longrightarrow> map_of (hs_leases st') l = map_of (hs_leases st) l)"
proof -
  let ?l = "text_param (call_params call) ''lease_id''" and ?s = "text_param (call_params call) ''status''"
  let ?c = "dget (call_params call) ''contradicts_id''"
  obtain p where p: "handler_principal env d call i ''agent_id'' = Stamped p"
    "lease_to_agent he (ac_db_recipient ck) ?l st = Some (ep_agent_id p)"
    "fst (ack_lease he pt ck ?l ?s ?c i st) = st'"
    using assms by (auto simp: handle_ack_handoff_def Let_def split: if_splits handler_identity.splits option.splits prod.splits)
  obtain st1 b where u: "update_handoff_lease_status (ac_now_db ck) (ac_db_update ck) ?l ?s ?c st = (st1, b)" by fastforce
  obtain r' where "ack_lease he pt ck ?l ?s ?c i st = (st', r')" using p(3) by (metis prod.collapse)
  then have "hs_leases st' = hs_leases st1" using ack_lease_leases u by fastforce
  then show ?thesis using p update_status_frame[OF u] by auto
qed

section \<open>The pending list\<close>

definition keyed :: "(string \<times> pydict) list \<Rightarrow> bool" where
  "keyed m \<longleftrightarrow> distinct (map fst m) \<and> list_all (\<lambda>e. fst e = entry_id (snd e)) m"

lemma keyed_Nil [simp]: "keyed []"
  by (simp add: keyed_def)

lemma keyed_update:
  assumes "keyed m"
  shows "keyed (AList.update (entry_id h) h m)"
    and "set (map fst (AList.update (entry_id h) h m)) = insert (entry_id h) (set (map fst m))"
proof -
  have "list_all P m \<Longrightarrow> P (k, v) \<Longrightarrow> list_all P (AList.update k v m)" for P k and v :: pydict
    by (induction m) auto
  then show "keyed (AList.update (entry_id h) h m)" using assms by (simp add: keyed_def distinct_update)
  show "set (map fst (AList.update (entry_id h) h m)) = insert (entry_id h) (set (map fst m))"
    by (induction m) auto
qed

lemma keyed_stored:
  assumes "keyed m"
  shows "keyed (fold (\<lambda>h m. AList.update (entry_id h) h m) hs m) \<and>
    set (map fst (fold (\<lambda>h m. AList.update (entry_id h) h m) hs m)) = set (map fst m) \<union> set (map entry_id hs)"
  using assms
proof (induction hs arbitrary: m)
  case (Cons h hs)
  from Cons.IH[OF keyed_update(1)[OF Cons.prems, of h]] show ?case
    by (simp only: fold_simps keyed_update(2)[OF Cons.prems] list.set list.map) blast
qed simp

lemma keyed_files:
  fixes known :: "string list" and m :: "(string \<times> pydict) list"
  defines "step \<equiv> \<lambda>(h :: pydict) (m :: (string \<times> pydict) list).
     if entry_id h \<in> set known \<or> map_of m (entry_id h) \<noteq> None then m else m @ [(entry_id h, h)]"
  assumes "keyed m"
  shows "keyed (fold step fs m) \<and>
    set (map fst (fold step fs m)) = set (map fst m) \<union> (set (map entry_id fs) - set known)"
  using assms(2)
proof (induction fs arbitrary: m)
  case (Cons h fs)
  have 1: "keyed (step h m)" using Cons.prems
    by (auto simp: step_def keyed_def map_of_None_iff_keys simp del: set_map)
  have 2: "set (map fst (step h m)) = set (map fst m) \<union> ({entry_id h} - set known)"
    by (auto simp: step_def map_of_None_iff_keys simp del: set_map)
  from Cons.IH[OF 1] show ?case by (simp only: fold_simps 2 list.set list.map) blast
qed simp

lemma keyed_merge:
  "keyed (merge_handoffs stored known files)"
  "set (map fst (merge_handoffs stored known files)) =
     set (map entry_id stored) \<union> (set (map entry_id files) - set known)"
  unfolding merge_handoffs_def
  using keyed_files[OF conjunct1[OF keyed_stored[OF keyed_Nil]]] conjunct2[OF keyed_stored[OF keyed_Nil]]
  by (simp_all del: set_map)

lemma map_entry_id_merge: "map entry_id (map snd (merge_handoffs a b c)) = map fst (merge_handoffs a b c)"
  using keyed_merge(1)[of a b c] by (auto simp: keyed_def list_all_iff)

lemma entry_id_lease_entry [simp]: "entry_id (lease_entry iso_ts l) = fst l"
  by (simp add: entry_id_def lease_entry_def)

lemma pending_ids:
  assumes "distinct (map fst (hs_leases st))" and "lc_db_pending ck" and "lc_db_known ck"
  shows "distinct (map entry_id (pending_for he pt iso_ts ck a st)) \<and>
    set (map entry_id (pending_for he pt iso_ts ck a st)) =
    {l. \<exists>row. map_of (hs_leases st) l = Some row \<and> lr_to row = a \<and> row_pending (lc_now_db ck) row} \<union>
    {l. (\<forall>row. map_of (hs_leases st) l = Some row \<longrightarrow> lr_to row \<noteq> a) \<and>
        l \<in> entry_id ` set (file_channel_pending_handoffs he pt (lc_now_files ck) a st)}"
proof -
  let ?pend = "\<lambda>row. lr_to row = a \<and> row_pending (lc_now_db ck) row"
  obtain stored where stored: "pending_handoff_leases iso_ts (lc_now_db ck) True a st = Some stored"
    by (simp add: pending_handoff_leases_def)
  have mem: "(l, row) \<in> set (hs_leases st) \<longleftrightarrow> map_of (hs_leases st) l = Some row" for l row
    using assms(1) by (auto intro: map_of_is_SomeI dest: map_of_SomeD)
  have img: "fst ` {x \<in> set (hs_leases st). Q (snd x)} = {l. \<exists>row. (l, row) \<in> set (hs_leases st) \<and> Q row}" for Q
    by (auto simp: image_iff)
  have "entry_id ` set stored = fst ` {x \<in> set (hs_leases st). ?pend (snd x)}"
    using stored[symmetric] by (simp add: pending_handoff_leases_def row_pending_def image_image)
  then have ids: "entry_id ` set stored = {l. \<exists>row. map_of (hs_leases st) l = Some row \<and> ?pend row}"
    unfolding img[of ?pend] mem .
  have known: "set (known_lease_ids_for_agent True a st) = {l. \<exists>row. map_of (hs_leases st) l = Some row \<and> lr_to row = a}"
    using img[of "\<lambda>row. lr_to row = a"] unfolding mem by (simp add: known_lease_ids_for_agent_def)
  let ?m = "merge_handoffs stored (known_lease_ids_for_agent True a st @ map entry_id stored)
      (file_channel_pending_handoffs he pt (lc_now_files ck) a st)"
  let ?es = "pending_for he pt iso_ts ck a st"
  have es: "?es = map snd ?m" using assms(2,3) stored by (simp add: pending_for_def)
  have "set (map entry_id ?es) = entry_id ` set stored \<union>
      (entry_id ` set (file_channel_pending_handoffs he pt (lc_now_files ck) a st) -
       set (known_lease_ids_for_agent True a st @ map entry_id stored))"
    unfolding es map_entry_id_merge keyed_merge(2) by simp
  also have "\<dots> = {l. \<exists>row. map_of (hs_leases st) l = Some row \<and> ?pend row} \<union>
    {l. (\<forall>row. map_of (hs_leases st) l = Some row \<longrightarrow> lr_to row \<noteq> a) \<and>
        l \<in> entry_id ` set (file_channel_pending_handoffs he pt (lc_now_files ck) a st)}"
    using ids known by auto
  finally show ?thesis unfolding es map_entry_id_merge using keyed_merge(1) by (simp add: keyed_def)
qed

text \<open>C23: With the lease store answering, the pending list of an agent names every lease once, and it names
  exactly the leases the store holds as pending and unexpired for the agent together with the open
  packets in its own vault whose lease the store has never recorded for it: a lease the store has
  settled is not resurrected by a stale file.\<close>

theorem pending_list_exact:
  assumes "distinct (map fst (hs_leases st))" and "lc_db_pending ck" and "lc_db_known ck"
  shows "distinct (map entry_id (pending_for he pt iso_ts ck a st)) \<and>
    set (map entry_id (pending_for he pt iso_ts ck a st)) =
    {l. \<exists>row. map_of (hs_leases st) l = Some row \<and> lr_to row = a \<and> row_pending (lc_now_db ck) row} \<union>
    {l. (\<forall>row. map_of (hs_leases st) l = Some row \<longrightarrow> lr_to row \<noteq> a) \<and>
        l \<in> entry_id ` set (file_channel_pending_handoffs he pt (lc_now_files ck) a st)}"
  using assms by (rule pending_ids)

section \<open>Settling a lease\<close>




section \<open>Waiting\<close>

lemma await_loop_skip:
  "\<forall>q \<in> set before. poll_answer he l q = None \<and> po_now q < deadline \<Longrightarrow>
     await_loop he se l deadline i (before @ pos) = await_loop he se l deadline i pos"
  by (induction before) auto

text \<open>A wait for a lease ends with the first poll that finds an answer or reaches the deadline, so it
  ends whenever the clock reaches the deadline: an answer is passed on, a deadline is reported as a
  timeout, or as an error when the store does not answer at that moment, whatever earlier polls saw.\<close>

theorem await_ends:
  assumes "po \<in> set polls" and "deadline \<le> po_now po"
  shows "\<exists>before po' after. polls = before @ po' # after \<and>
    (\<forall>q \<in> set before. poll_answer he l q = None \<and> po_now q < deadline) \<and>
    await_loop he se l deadline i polls = Some (case poll_answer he l po' of
       Some r \<Rightarrow> make_response r i
     | None \<Rightarrow> if po_db po' then make_response (PDict [(''lease_id'', PStr l), (''status'', PStr ''timeout'')]) i
               else make_error (-32000) (se l) i)"
proof -
  have "\<exists>q \<in> set polls. \<not> (poll_answer he l q = None \<and> po_now q < deadline)" using assms by force
  then obtain before po' after where split: "polls = before @ po' # after"
    and stop: "\<not> (poll_answer he l po' = None \<and> po_now po' < deadline)"
    and quiet: "\<forall>q \<in> set before. poll_answer he l q = None \<and> po_now q < deadline"
    using split_list_first_prop[of polls "\<lambda>q. \<not> (poll_answer he l q = None \<and> po_now q < deadline)"] by blast
  have "await_loop he se l deadline i (po' # after) = Some (case poll_answer he l po' of
       Some r \<Rightarrow> make_response r i
     | None \<Rightarrow> if po_db po' then make_response (PDict [(''lease_id'', PStr l), (''status'', PStr ''timeout'')]) i
               else make_error (-32000) (se l) i)"
    using stop by (auto split: option.splits)
  then show ?thesis using split quiet await_loop_skip[OF quiet, of se i "po' # after"] by auto
qed


section \<open>Delivery\<close>

lemma run_step_ok:
  "\<forall>exc. si_fault io \<noteq> Some (step, exc) \<Longrightarrow> run_step io step f (st, None) = (f st, None)"
  by (auto simp: run_step_def split: option.splits)

lemma run_step_fault: "si_fault io = Some (step, exc) \<Longrightarrow> snd (run_step io step f r) \<noteq> None"
  by (auto simp: run_step_def split: prod.splits option.splits)

lemma run_step_failed: "snd r \<noteq> None \<Longrightarrow> run_step io step f r = r"
  by (auto simp: run_step_def split: prod.splits)

lemma run_step_frame: "(\<And>s. g (f s) = g s) \<Longrightarrow> g (fst (run_step io step f r)) = g (fst r)"
  by (auto simp: run_step_def split: prod.splits option.splits)

lemma audit_frame [simp]:
  "hs_files (append_handoff_audit dumps io v tool sm dt st) = hs_files st"
  "hs_leases (append_handoff_audit dumps io v tool sm dt st) = hs_leases st"
  by (simp_all add: append_handoff_audit_def ensure_handoff_vault_def)

lemma write_page_frame:
  "hs_files (fst (write_page io v page r)) = hs_files (fst r)"
  "hs_leases (fst (write_page io v page r)) = hs_leases (fst r)"
  by (simp_all add: write_page_def run_step_frame split: option.splits)

lemma write_audits_frame:
  "hs_files (fst (write_audits dumps io a b t d r)) = hs_files (fst r)"
  "hs_leases (fst (write_audits dumps io a b t d r)) = hs_leases (fst r)"
  by (simp_all add: write_audits_def run_step_frame)

text \<open>An error at one of the first four steps, in which nothing reaches the recipient.\<close>

definition early_fault :: "send_io \<Rightarrow> bool" where
  "early_fault io = (case si_fault io of
     None \<Rightarrow> False | Some (step, _) \<Rightarrow> step \<in> {EnsureSender, EnsureRecipient, WriteOutbox, WriteInbox})"

lemma write_packets_ok:
  assumes "\<not> early_fault io"
  shows "write_packets io outbox inbox packet st = (write_file inbox packet (write_file outbox packet
     (ensure_handoff_vault (fst inbox) (ensure_handoff_vault (fst outbox) st))), None)"
proof -
  have "\<forall>exc. si_fault io \<noteq> Some (step, exc)" if "step \<in> {EnsureSender, EnsureRecipient, WriteOutbox, WriteInbox}" for step
    using assms that by (auto simp: early_fault_def)
  then show ?thesis by (simp add: write_packets_def run_step_ok)
qed

lemma write_packets_early:
  assumes "early_fault io"
  shows "snd (write_packets io outbox inbox packet st) \<noteq> None"
proof -
  have sticky: "snd r \<noteq> None \<Longrightarrow> snd (run_step io step f r) \<noteq> None" for step f r by (simp add: run_step_failed)
  obtain step exc where f: "si_fault io = Some (step, exc)"
    and "step \<in> {EnsureSender, EnsureRecipient, WriteOutbox, WriteInbox}"
    using assms by (auto simp: early_fault_def split: option.splits)
  then consider "step = EnsureSender" | "step = EnsureRecipient" | "step = WriteOutbox" | "step = WriteInbox" by blast
  then show ?thesis unfolding write_packets_def
    by cases (use f run_step_fault sticky in metis)+
qed

lemma late_sticky:
  "snd r \<noteq> None \<Longrightarrow> snd (write_audits dumps io a b t d (write_page io v page r)) \<noteq> None"
  by (auto simp: write_audits_def write_page_def run_step_failed split: option.splits)

lemma delivered_iff: "dget (dict_of_val (delivery_result to_agent packet inbox outbox pv red per failure)) ''delivered'' =
    PBool (failure = None)"
  by (auto simp: delivery_result_def split: option.splits)

lemma store_lease_fst_files: "hs_files (fst (store_handoff_lease pt now db packet a b st)) = hs_files st"
  by (simp add: store_handoff_lease_def Let_def)

text \<open>The new row of a delivered packet.\<close>

lemma store_lease_row:
  assumes "snd (store_handoff_lease pt now db packet a b st)"
  shows "\<exists>row. hs_leases (fst (store_handoff_lease pt now db packet a b st)) =
      AList.update (entry_id packet) row (hs_leases st) \<and>
    lr_to row = str_of_val (dget packet ''to_agent'') \<and> lr_status row = lease_status_of_packet packet \<and>
    lr_expires row = pt (dget packet ''expires_at'')"
proof -
  let ?row = "\<lparr>lr_from = str_of_val (dget packet ''from_agent''), lr_to = str_of_val (dget packet ''to_agent''),
     lr_task = dget packet ''task'', lr_status = lease_status_of_packet packet,
     lr_contradicts = (case map_of (hs_leases st) (entry_id packet) of
        Some old \<Rightarrow> lr_contradicts old | None \<Rightarrow> dget packet ''contradicts_id''),
     lr_inbox = a, lr_outbox = b,
     lr_created = (case pt (dget packet ''created_at'') of Some t \<Rightarrow> if t = 0 then now else t | None \<Rightarrow> now),
     lr_expires = pt (dget packet ''expires_at'')\<rparr>"
  have "hs_leases (fst (store_handoff_lease pt now db packet a b st)) =
      AList.update (entry_id packet) ?row (hs_leases st)"
    using assms by (simp add: store_handoff_lease_def Let_def entry_id_def split: if_splits)
  then show ?thesis by (intro exI[of _ ?row]) simp
qed

lemma deliver_cases:
  fixes he packet io sender recipient
  defines "suffix \<equiv> handoff_packet_filename he packet (si_stamp io)"
  defines "outbox \<equiv> (sender, ''outbox'', suffix)" and "inbox \<equiv> (recipient, ''inbox'', suffix)"
  assumes "deliver he dumps pt io a b sender recipient packet red st = (st', r)"
  obtains (early) "early_fault io" and "dget (dict_of_val r) ''delivered'' = PBool False"
  | (written) store pv failure d where "\<not> early_fault io"
      and "store = store_handoff_lease pt (si_now io) (si_db io) packet (path_text inbox) (path_text outbox)
         (write_file inbox packet (write_file outbox packet
            (ensure_handoff_vault recipient (ensure_handoff_vault sender st))))"
      and "hs_files st' = hs_files (fst store)" and "hs_leases st' = hs_leases (fst store)"
      and "failure = snd (write_audits dumps io sender recipient (py_str (dget packet ''task'')) d
             (write_page io sender (compile_handoff_page he packet (si_stamp io)) (fst store, None)))"
      and "r = delivery_result b packet inbox outbox pv red (snd store) failure"
proof (cases "early_fault io")
  case True
  then have "snd (write_packets io outbox inbox packet st) \<noteq> None" by (rule write_packets_early)
  then have "dget (dict_of_val r) ''delivered'' = PBool False"
    using assms(4) late_sticky
    by (auto simp: deliver_def Let_def delivered_iff suffix_def outbox_def inbox_def split: prod.splits if_splits)
       (metis late_sticky option.distinct(1) snd_conv)+
  then show thesis using early True by blast
next
  case False
  define store where "store = store_handoff_lease pt (si_now io) (si_db io) packet (path_text inbox) (path_text outbox)
         (write_file inbox packet (write_file outbox packet
            (ensure_handoff_vault recipient (ensure_handoff_vault sender st))))"
  define pv where "pv = page_value sender (compile_handoff_page he packet (si_stamp io))"
  define d where "d = audit_details packet a b inbox outbox pv red (snd store)"
  define fin where "fin = write_audits dumps io sender recipient (py_str (dget packet ''task'')) d
             (write_page io sender (compile_handoff_page he packet (si_stamp io)) (fst store, None))"
  have "deliver he dumps pt io a b sender recipient packet red st =
      (fst fin, delivery_result b packet inbox outbox pv red (snd store) (snd fin))"
    by (simp add: deliver_def Let_def write_packets_ok[OF False] case_prod_beta fin_def d_def pv_def store_def
        suffix_def outbox_def inbox_def)
  then have "st' = fst fin" "r = delivery_result b packet inbox outbox pv red (snd store) (snd fin)"
    using assms(4) by simp_all
  then show thesis
    by (intro written[OF False store_def _ _ _ , of "snd fin" d pv])
      (simp_all add: fin_def write_audits_frame write_page_frame)
qed


text \<open>A handoff reported as delivered is in the sender's outbox and the recipient's inbox, and no other
  packet changed.  If the lease was stored too and needs an acknowledgement, the recipient's pending
  list names it until it expires.\<close>

theorem delivered_handoff_arrives:
  assumes "deliver he dumps pt io a b sender recipient packet red st = (st', r)"
    and "dget (dict_of_val r) ''delivered'' = PBool True"
  shows "map_of (hs_files st') (sender, ''outbox'', handoff_packet_filename he packet (si_stamp io)) = Some (Some (PDict packet)) \<and>
    map_of (hs_files st') (recipient, ''inbox'', handoff_packet_filename he packet (si_stamp io)) = Some (Some (PDict packet)) \<and>
    (\<forall>k. snd (snd k) \<noteq> handoff_packet_filename he packet (si_stamp io) \<longrightarrow> map_of (hs_files st') k = map_of (hs_files st) k) \<and>
    (dget (dict_of_val r) ''lease_persisted'' = PBool True \<and> lease_status_of_packet packet = ''pending'' \<and>
     distinct (map fst (hs_leases st)) \<and> lc_db_pending lc \<and> lc_db_known lc \<and>
     live (pt (dget packet ''expires_at'')) (lc_now_db lc) \<longrightarrow>
       entry_id packet \<in> set (map entry_id (pending_for he pt iso_ts lc (str_of_val (dget packet ''to_agent'')) st')))"
  using assms(1)
proof (cases rule: deliver_cases)
  case early
  then show ?thesis using assms(2) by simp
next
  case (written store pv failure d)
  let ?suffix = "handoff_packet_filename he packet (si_stamp io)"
  let ?st1 = "write_file (recipient, ''inbox'', ?suffix) packet (write_file (sender, ''outbox'', ?suffix) packet
            (ensure_handoff_vault recipient (ensure_handoff_vault sender st)))"
  have files: "hs_files st' = AList.update (recipient, ''inbox'', ?suffix) (Some (PDict packet))
      (AList.update (sender, ''outbox'', ?suffix) (Some (PDict packet)) (hs_files st))"
    and st1: "hs_leases ?st1 = hs_leases st"
    using written(2,3) by (simp_all add: store_lease_fst_files write_file_def ensure_handoff_vault_def)
  have "failure = None" using assms(2) delivered_iff[of b packet] written(6) by simp
  then have persisted: "dget (dict_of_val r) ''lease_persisted'' = PBool (snd store)"
    using written(6) by (simp add: delivery_result_def)
  have "entry_id packet \<in> set (map entry_id (pending_for he pt iso_ts lc (str_of_val (dget packet ''to_agent'')) st'))"
    if conds: "snd store" "lease_status_of_packet packet = ''pending''" "distinct (map fst (hs_leases st))"
      "lc_db_pending lc" "lc_db_known lc" "live (pt (dget packet ''expires_at'')) (lc_now_db lc)"
  proof -
    obtain row where row: "hs_leases st' = AList.update (entry_id packet) row (hs_leases st)"
        "lr_to row = str_of_val (dget packet ''to_agent'')" "lr_status row = lease_status_of_packet packet"
        "lr_expires row = pt (dget packet ''expires_at'')"
      using store_lease_row[OF conds(1)[unfolded written(2)]] written(2,4) st1 by auto
    have "distinct (map fst (hs_leases st'))" using conds(3) by (simp add: row(1) distinct_update)
    moreover have "map_of (hs_leases st') (entry_id packet) = Some row" by (simp add: row(1) update_conv')
    moreover have "row_pending (lc_now_db lc) row" using row conds(2,6) by (simp add: row_pending_def)
    ultimately show ?thesis unfolding conjunct2[OF pending_ids[OF \<open>distinct (map fst (hs_leases st'))\<close> conds(4,5)]]
      using row(2) by blast
  qed
  then show ?thesis unfolding files using persisted by (auto simp: update_conv')
qed

text \<open>When writing an audit entry fails, the sender is told that nothing was delivered although the
  packet is in the recipient's inbox.\<close>

theorem late_failure_misreports:
  assumes "deliver he dumps pt io a b sender recipient packet red st = (st', r)"
    and "si_fault io = Some (step, exc)" and "step \<in> {AuditSender, AuditRecipient}"
  shows "dget (dict_of_val r) ''delivered'' = PBool False \<and>
    map_of (hs_files st') (recipient, ''inbox'', handoff_packet_filename he packet (si_stamp io)) = Some (Some (PDict packet))"
  using assms(1)
proof (cases rule: deliver_cases)
  case early
  then show ?thesis using assms(2,3) by (auto simp: early_fault_def)
next
  case (written store pv failure d)
  have "failure \<noteq> None" unfolding written(5) write_audits_def
  proof (cases "step = AuditSender")
    case True
    show "snd (run_step io AuditRecipient f (run_step io AuditSender g s)) \<noteq> None" for f g s
      using run_step_fault[OF assms(2)[unfolded True], of g s] by (simp add: run_step_failed)
  next
    case False
    then have "step = AuditRecipient" using assms(3) by blast
    then show "snd (run_step io AuditRecipient f r') \<noteq> None" for f r' using run_step_fault assms(2) by blast
  qed
  then show ?thesis using written(2,3,6)
    by (simp add: store_lease_fst_files write_file_def ensure_handoff_vault_def update_conv' delivered_iff)
qed

section \<open>Taking over a lease\<close>

definition bob :: effective_principal where
  "bob = \<lparr>ep_agent_id = ''bob'', ep_workspace_id = ''default'', ep_session_id = PNone, ep_transport = ''uds'',
     ep_capabilities = [PStr ''handoff''], ep_vault_roots = [''/h/bob-vault''], ep_auto_accept_own = False,
     ep_deny_reason = None\<rparr>"

definition bob_env :: handoff_env where
  "bob_env = \<lparr>hv_var = \<lambda>_. None, hv_json = \<lambda>_. None, hv_user_path = \<lambda>s. s, hv_canonical_home = ''/h'',
     hv_home_vaults = [''/h/alice-vault'', ''/h/bob-vault''], hv_sha1 = \<lambda>_. ''00''\<rparr>"

definition alice_lease :: lease_row where
  "alice_lease = \<lparr>lr_from = ''carol'', lr_to = ''alice'', lr_task = PStr ''review'', lr_status = ''pending'',
     lr_contradicts = PNone, lr_inbox = [], lr_outbox = [], lr_created = 1, lr_expires = None\<rparr>"

definition alice_packet :: pydict where
  "alice_packet = [(''lease_id'', PStr ''L1''), (''from_agent'', PStr ''carol''), (''to_agent'', PStr ''alice''),
     (''requires_ack'', PBool True)]"

definition alice_waiting :: handoff_state where
  "alice_waiting = \<lparr>hs_leases = [(''L1'', alice_lease)],
     hs_files = [((''/h/alice-vault'', ''inbox'', ''p.json''), Some (PDict alice_packet))],
     hs_archive = [], hs_pages = [], hs_audit = [], hs_vaults = [''/h/alice-vault'', ''/h/bob-vault''], hs_requests = 0\<rparr>"

definition bob_sends :: rpc_call where
  "bob_sends = \<lparr>call_params = [(''from_agent'', PStr ''bob''), (''to_agent'', PStr ''bob''),
     (''packet'', PDict [(''lease_id'', PStr ''L1''), (''kind'', PStr ''request''), (''task'', PStr ''t''),
        (''envelope'', PStr ''e''), (''wikilink_refs'', PList [])])], call_slot = Some bob\<rparr>"

definition bob_acks :: rpc_call where
  "bob_acks = \<lparr>call_params = [(''lease_id'', PStr ''L1''), (''status'', PStr ''accepted'')], call_slot = Some bob\<rparr>"

definition plain_io :: send_io where
  "plain_io = \<lparr>si_fault = None, si_db = True, si_now = 2, si_stamp = ''20260101T000000Z'', si_audit_ts = ''2026'',
     si_dots = CHR 0xFF\<rparr>"

definition plain_ack :: ack_clock where
  "plain_ack = \<lparr>ac_db_recipient = True, ac_db_update = True, ac_db_status = True, ac_now_db = 3, ac_now_files = 3,
     ac_acked_at = ''2026''\<rparr>"

definition plain_defaults :: packet_defaults where
  "plain_defaults = \<lparr>pd_created_at = ''c'', pd_trace_id = ''t'', pd_lease_id = ''l'', pd_expires_at = ''x''\<rparr>"

definition after_bob_sends :: handoff_state where
  "after_bob_sends = fst (handle_daemon_handoff sample_env [] bob_env (\<lambda>s. (s, False)) (\<lambda>_. ''{}'') (\<lambda>_. None)
     plain_defaults plain_io bob_sends PNone alice_waiting)"

definition after_bob_acks :: handoff_state where
  "after_bob_acks = fst (handle_ack_handoff sample_env [] bob_env (\<lambda>_. None) plain_ack bob_acks PNone after_bob_sends)"

text \<open>The recipient check of an acknowledgement can be bypassed: an agent that may send handoffs takes
  over another agent's lease by sending itself a handoff with the same lease id, which overwrites the
  recipient on record, and then acknowledges it; the first recipient's packet leaves its inbox for the
  archive, marked as acknowledged, without any call by that recipient.\<close>

theorem lease_takeover:
  "map_of (hs_files alice_waiting) (''/h/alice-vault'', ''inbox'', ''p.json'') = Some (Some (PDict alice_packet)) \<and>
   lease_to_agent bob_env True ''L1'' alice_waiting = Some ''alice'' \<and>
   lease_to_agent bob_env True ''L1'' after_bob_sends = Some ''bob'' \<and>
   map_of (hs_files after_bob_acks) (''/h/alice-vault'', ''inbox'', ''p.json'') = None \<and>
   (case map_of (hs_archive after_bob_acks) (''/h/alice-vault'', ''p.json'') of
      Some (Some (PDict packet)) \<Rightarrow> dget packet ''ack_status'' = PStr ''accepted'' | _ \<Rightarrow> False)"
  by code_simp


section \<open>Concrete instances\<close>

lemma audit_entry_one_header_witness:
  "list_all no_hash (tl (split_nl (audit_entry (CHR 0xFF) ''2026'' ''t'' ''s'' (''x'' @ nl @ ''## [2026] forged''))))"
proof -
  have "CHR 0x0A \<notin> set ''2026''" "CHR 0xFF \<noteq> CHR ''#''" "CHR 0xFF \<noteq> CHR 0x0A" by simp_all
  from audit_entry_one_header[OF this] show ?thesis by blast
qed

lemma validated_packet_complete_witness:
  "\<exists>packet. validate_handoff_packet plain_defaults ''bob'' ''bob'' (dget (call_params bob_sends) ''packet'') = Inr packet \<and>
     dget packet ''from_agent'' = PStr ''bob''"
proof -
  let ?raw = "[(''lease_id'', PStr ''L1''), (''kind'', PStr ''request''), (''task'', PStr ''t''),
        (''envelope'', PStr ''e''), (''wikilink_refs'', PList [])]"
  have raw: "dget (call_params bob_sends) ''packet'' = PDict ?raw" by code_simp
  have v: "validate_handoff_packet plain_defaults ''bob'' ''bob'' (PDict ?raw) =
      Inr (with_defaults plain_defaults ''bob'' ''bob'' ?raw)" by code_simp
  show ?thesis unfolding raw using v validated_packet_complete[OF v, of plain_defaults] by blast
qed

definition alice :: effective_principal where
  "alice = bob\<lparr>ep_agent_id := ''alice''\<rparr>"

definition alice_acks :: rpc_call where
  "alice_acks = bob_acks\<lparr>call_slot := Some alice\<rparr>"

lemma ack_recipient_only_witness:
  "\<exists>p. handler_principal sample_env [] alice_acks PNone ''agent_id'' = Stamped p \<and>
     lease_to_agent bob_env True ''L1'' alice_waiting = Some (ep_agent_id p)"
proof -
  obtain st' r where ack: "handle_ack_handoff sample_env [] bob_env (\<lambda>_. None) plain_ack alice_acks PNone alice_waiting = (st', r)"
    by fastforce
  have "hs_leases (fst (handle_ack_handoff sample_env [] bob_env (\<lambda>_. None) plain_ack alice_acks PNone alice_waiting))
      \<noteq> hs_leases alice_waiting" by code_simp
  then have "st' \<noteq> alice_waiting" unfolding ack by auto
  moreover have "text_param (call_params alice_acks) ''lease_id'' = ''L1''" "ac_db_recipient plain_ack = True" by code_simp+
  ultimately show ?thesis using ack_recipient_only[OF ack] by auto
qed

definition plain_list :: list_clock where
  "plain_list = \<lparr>lc_db_pending = True, lc_db_known = True, lc_now_db = 3, lc_now_files = 3\<rparr>"

lemma pending_list_exact_witness:
  "distinct (map entry_id (pending_for bob_env (\<lambda>_. None) (\<lambda>_. []) plain_list ''alice'' alice_waiting))"
proof -
  have "distinct (map fst (hs_leases alice_waiting))" "lc_db_pending plain_list" "lc_db_known plain_list" by code_simp+
  from pending_list_exact[OF this] show ?thesis by blast
qed


lemma await_ends_witness:
  "\<exists>r. await_loop bob_env (\<lambda>_. []) ''L2'' 1 PNone [\<lparr>po_state = alice_waiting, po_db = True, po_now = 2\<rparr>] = Some r"
proof -
  let ?po = "\<lparr>po_state = alice_waiting, po_db = True, po_now = 2\<rparr>"
  have "?po \<in> set [?po]" "(1::rat) \<le> po_now ?po" by simp_all
  from await_ends[OF this] show ?thesis by blast
qed

definition bob_packet :: pydict where
  "bob_packet = [(''lease_id'', PStr ''L7''), (''from_agent'', PStr ''bob''), (''to_agent'', PStr ''alice''),
     (''kind'', PStr ''request''), (''task'', PStr ''t'')]"

lemma delivered_handoff_arrives_witness:
  "\<exists>st' r. deliver bob_env (\<lambda>_. ''{}'') (\<lambda>_. None) plain_io ''bob'' ''alice'' ''/h/bob-vault'' ''/h/alice-vault''
       bob_packet False alice_waiting = (st', r) \<and>
     ''L7'' \<in> set (map entry_id (pending_for bob_env (\<lambda>_. None) (\<lambda>_. []) plain_list ''alice'' st'))"
proof -
  let ?d = "deliver bob_env (\<lambda>_. ''{}'') (\<lambda>_. None) plain_io ''bob'' ''alice'' ''/h/bob-vault'' ''/h/alice-vault''
       bob_packet False alice_waiting"
  obtain st' r where d: "?d = (st', r)" by fastforce
  have "dget (dict_of_val (snd ?d)) ''delivered'' = PBool True"
    "dget (dict_of_val (snd ?d)) ''lease_persisted'' = PBool True" by code_simp+
  then have r: "dget (dict_of_val r) ''delivered'' = PBool True" "dget (dict_of_val r) ''lease_persisted'' = PBool True"
    unfolding d by simp_all
  have h: "lease_status_of_packet bob_packet = ''pending''" "distinct (map fst (hs_leases alice_waiting))"
    "lc_db_pending plain_list" "lc_db_known plain_list" "live None (lc_now_db plain_list)"
    "entry_id bob_packet = ''L7''" "str_of_val (dget bob_packet ''to_agent'') = ''alice''" by code_simp+
  show ?thesis using d delivered_handoff_arrives[OF d r(1), of plain_list "\<lambda>_. []"] r(2) h by simp
qed

lemma late_failure_misreports_witness:
  "\<exists>st' r. deliver bob_env (\<lambda>_. ''{}'') (\<lambda>_. None) (plain_io\<lparr>si_fault := Some (AuditSender, ''disk full'')\<rparr>)
       ''bob'' ''alice'' ''/h/bob-vault'' ''/h/alice-vault'' bob_packet False alice_waiting = (st', r) \<and>
     dget (dict_of_val r) ''delivered'' = PBool False"
proof -
  let ?io = "plain_io\<lparr>si_fault := Some (AuditSender, ''disk full'')\<rparr>"
  obtain st' r where d: "deliver bob_env (\<lambda>_. ''{}'') (\<lambda>_. None) ?io
       ''bob'' ''alice'' ''/h/bob-vault'' ''/h/alice-vault'' bob_packet False alice_waiting = (st', r)" by fastforce
  have "si_fault ?io = Some (AuditSender, ''disk full'')" "AuditSender \<in> {AuditSender, AuditRecipient}" by simp_all
  from late_failure_misreports[OF d this] d show ?thesis by blast
qed

end
