(* ===== verification/Graph_Candidates.thy ===== *)
theory Graph_Candidates
  imports Identity_Gate
begin

text \<open>
  The candidate shortlist of the learning graph (\<open>graph_candidates.py\<close>, with \<open>truncate_to_tokens\<close> of
  \<open>edge_inference.py\<close>).

  Parameters: the two storage accessors, each a function of the document id to an exception
  (\<open>Inl\<close>) or a value, the SHA-256 digest and the tokenizer (\<open>None\<close> when it is not installed).  The
  result is paired with the list of documents whose content was requested, in order, also when the
  preparation ends in a \<open>ValueError\<close>.  A score is the rational it denotes with its text; an integer
  score is taken to be exactly representable (below 2^53).
\<close>

section \<open>Descriptors\<close>

definition MAX_CHUNK_HITS :: int where "MAX_CHUNK_HITS = 48"
definition MAX_SHORTLIST_DOCS :: int where "MAX_SHORTLIST_DOCS = 12"
definition COSINE_FLOOR :: rat where "COSINE_FLOOR = 42 / 100"
definition MAX_CLASSIFIER_PAIRS :: int where "MAX_CLASSIFIER_PAIRS = 8"
definition MAX_EXCERPT_TOKENS :: int where "MAX_EXCERPT_TOKENS = 220"

definition CLOSED_STATUSES :: "string list" where
  "CLOSED_STATUSES = [''draft'', ''expired'', ''rejected'', ''superseded'']"

type_synonym score = "rat \<times> string"

record candidate_descriptor =
  cd_pair_id :: string
  cd_store_id :: string
  cd_content_sha256 :: pyval
  cd_metadata_sha256 :: string
  cd_evidence_sha256 :: string
  cd_doc_id :: int
  cd_chunk_id :: int
  cd_cosine :: score
  cd_title :: string
  cd_status :: string
  cd_page_type :: string
  cd_excerpt :: "string option"
  cd_excerpt_tokens :: int
  cd_excerpt_measured :: bool

record candidate_shortlist =
  cs_pairs :: "candidate_descriptor list"
  cs_deferred :: "candidate_descriptor list"
  cs_examined_chunks :: nat
  cs_examined_docs :: nat
  cs_excluded_before_cap :: nat
  cs_below_floor :: nat
  cs_malformed_hits :: nat
  cs_hits_truncated :: bool

datatype shortlist_error =
    BadEnvelope string
  | ChunkAliasing int int int
  | IdentityMismatchIn string
  | BadDigest
  | NotJson
  | ContentNotText
  | ContentHashMismatch

section \<open>Validation helpers\<close>

text \<open>\<open>isinstance(v, int) and not isinstance(v, bool)\<close>, with the integer.\<close>

definition as_doc_id :: "pyval \<Rightarrow> int option" where
  "as_doc_id v = (case v of PInt i \<Rightarrow> Some i | _ \<Rightarrow> None)"

definition finite_score :: "pyval \<Rightarrow> score option" where
  "finite_score v = (case v of
     PInt i \<Rightarrow> Some (of_int i, int_str i @ ''.0'')
   | PFloat (Fin q) t \<Rightarrow> Some (q, t)
   | _ \<Rightarrow> None)"

definition pair_id :: "int \<Rightarrow> string" where
  "pair_id doc_id = ''candidate-doc-'' @ int_str doc_id"

definition metadata_authorized :: "os_env \<Rightarrow> effective_principal \<Rightarrow> string \<Rightarrow> pyval \<Rightarrow> bool" where
  "metadata_authorized env p workspace metadata =
     (is_dict metadata \<and> can_read_document env (Some p) workspace metadata)"

definition metadata_eligible :: "pydict \<Rightarrow> bool" where
  "metadata_eligible metadata =
    (if dget metadata ''memory_kind'' \<noteq> PStr ''learning'' then False
     else if py_lower (py_str (py_or (dget metadata ''page_type'') (PStr []))) \<noteq> ''learning'' then False
     else if dget metadata ''privacy_level'' = PStr ''blocked'' then False
     else if py_str (py_or (dget metadata ''page_status'') (PStr [])) \<in> set CLOSED_STATUSES then False
     else True)"

definition identity_ok :: "pyval \<Rightarrow> string \<Rightarrow> int \<Rightarrow> bool" where
  "identity_ok envelope store_id doc_id = (case envelope of
     PDict e \<Rightarrow> dget e ''store_id'' = PStr store_id \<and> as_doc_id (dget e ''doc_id'') = Some doc_id
   | _ \<Rightarrow> False)"

definition digest_ok :: "pyval \<Rightarrow> bool" where
  "digest_ok v = (case v of PStr s \<Rightarrow> length s = 64 \<and> list_all (\<lambda>c. c \<in> set ''0123456789abcdef'') s | _ \<Rightarrow> False)"

section \<open>Excerpts\<close>

type_synonym tokenizer = "((string \<Rightarrow> nat list) \<times> (nat list \<Rightarrow> string)) option"

definition truncate_to_tokens :: "tokenizer \<Rightarrow> string \<Rightarrow> int \<Rightarrow> string \<times> int \<times> bool" where
  "truncate_to_tokens tok t max_tokens =
    (if t = [] \<or> max_tokens \<le> 0 then ([], 0, True)
     else case tok of
       Some (encode, decode) \<Rightarrow>
         (let tokens = encode t in
          if int (length tokens) \<le> max_tokens then (t, int (length tokens), True)
          else (decode (take (nat max_tokens) tokens), max_tokens, True))
     | None \<Rightarrow>
         (let char_limit = nat (max_tokens * 4) in
          if length t \<le> char_limit then (t, max 1 (int ((length t + 3) div 4)), False)
          else (take char_limit t, max_tokens, False)))"

definition truncate_excerpt :: "tokenizer \<Rightarrow> string \<Rightarrow> string \<times> int \<times> bool" where
  "truncate_excerpt tok content = truncate_to_tokens tok (py_strip content) MAX_EXCERPT_TOKENS"

section \<open>Hits\<close>

text \<open>The best score and chunk per document, the owner of each chunk and the number of malformed rows.\<close>

record hit_table =
  ht_best :: "(int \<times> (score \<times> int)) list"
  ht_owner :: "(int \<times> int) list"
  ht_malformed :: nat

definition better_hit :: "score \<Rightarrow> int \<Rightarrow> (score \<times> int) option \<Rightarrow> bool" where
  "better_hit sc chunk_id prev = (case prev of
     None \<Rightarrow> True
   | Some (psc, pchunk) \<Rightarrow> fst sc > fst psc \<or> fst sc = fst psc \<and> chunk_id < pchunk)"

definition take_hit :: "string \<Rightarrow> pyval \<Rightarrow> hit_table \<Rightarrow> shortlist_error + hit_table" where
  "take_hit store_id entry ht = (case entry of
     PDict e \<Rightarrow>
      (case (as_doc_id (dget e ''doc_id''), as_doc_id (dget e ''chunk_id''),
             finite_score (dget_or e ''cosine'' (dget e ''score''))) of
         (Some doc_id, Some chunk_id, Some sc) \<Rightarrow>
           if \<not> identity_ok entry store_id doc_id then Inl (IdentityMismatchIn ''hit'')
           else (let owner = (case map_of (ht_owner ht) chunk_id of None \<Rightarrow> doc_id | Some o' \<Rightarrow> o') in
             if owner \<noteq> doc_id then Inl (ChunkAliasing chunk_id owner doc_id)
             else Inr (ht\<lparr>ht_owner := AList.update chunk_id owner (ht_owner ht),
                  ht_best := (if better_hit sc chunk_id (map_of (ht_best ht) doc_id)
                     then AList.update doc_id (sc, chunk_id) (ht_best ht) else ht_best ht)\<rparr>))
       | _ \<Rightarrow> Inr (ht\<lparr>ht_malformed := Suc (ht_malformed ht)\<rparr>))
   | _ \<Rightarrow> Inr (ht\<lparr>ht_malformed := Suc (ht_malformed ht)\<rparr>))"

fun take_hits :: "string \<Rightarrow> pyval list \<Rightarrow> hit_table \<Rightarrow> shortlist_error + hit_table" where
  "take_hits store_id [] ht = Inr ht"
| "take_hits store_id (e # es) ht = (case take_hit store_id e ht of
     Inl err \<Rightarrow> Inl err | Inr ht' \<Rightarrow> take_hits store_id es ht')"

definition no_hits :: hit_table where
  "no_hits = \<lparr>ht_best = [], ht_owner = [], ht_malformed = 0\<rparr>"

definition rank_docs :: "(int \<times> (score \<times> int)) list \<Rightarrow> (int \<times> (score \<times> int)) list" where
  "rank_docs best = sort_key (\<lambda>kv. (- fst (fst (snd kv)), fst kv)) best"

section \<open>The shortlist\<close>

type_synonym accessor = "int \<Rightarrow> string + pyval"

type_synonym listed = "int \<times> score \<times> int \<times> pydict"

fun shortlist_docs ::
  "os_env \<Rightarrow> effective_principal \<Rightarrow> string \<Rightarrow> string \<Rightarrow> accessor \<Rightarrow> int option \<Rightarrow> nat \<Rightarrow> rat \<Rightarrow>
   (int \<times> (score \<times> int)) list \<Rightarrow> listed list \<Rightarrow> nat \<Rightarrow> shortlist_error + (listed list \<times> nat)" where
  "shortlist_docs env p workspace store_id get_metadata source max_docs lowest [] acc excluded = Inr (acc, excluded)"
| "shortlist_docs env p workspace store_id get_metadata source max_docs lowest ((doc_id, (sc, chunk_id)) # rest) acc excluded =
    (if length acc \<ge> max_docs then Inr (acc, excluded)
     else if fst sc < lowest then
       shortlist_docs env p workspace store_id get_metadata source max_docs lowest rest acc excluded
     else if source = Some doc_id then
       shortlist_docs env p workspace store_id get_metadata source max_docs lowest rest acc (Suc excluded)
     else case get_metadata doc_id of
       Inl _ \<Rightarrow> shortlist_docs env p workspace store_id get_metadata source max_docs lowest rest acc (Suc excluded)
     | Inr metadata \<Rightarrow>
        if is_dict metadata \<and> \<not> identity_ok metadata store_id doc_id then Inl (IdentityMismatchIn ''metadata'')
        else if is_dict metadata \<and> json_has_nan metadata then Inl NotJson
        else if \<not> metadata_authorized env p workspace metadata \<or> \<not> metadata_eligible (dict_of_val metadata) then
          shortlist_docs env p workspace store_id get_metadata source max_docs lowest rest acc (Suc excluded)
        else if \<not> digest_ok (dget (dict_of_val metadata) ''content_sha256'') then Inl BadDigest
        else shortlist_docs env p workspace store_id get_metadata source max_docs lowest rest
               (acc @ [(doc_id, sc, chunk_id, dict_of_val metadata)]) excluded)"

definition opt_text :: "string option \<Rightarrow> pyval" where
  "opt_text v = (case v of None \<Rightarrow> PNone | Some s \<Rightarrow> PStr s)"

definition make_descriptor ::
  "(string \<Rightarrow> string) \<Rightarrow> string \<Rightarrow> listed \<Rightarrow> string option \<Rightarrow> int \<Rightarrow> bool \<Rightarrow> candidate_descriptor" where
  "make_descriptor sha store_id l excerpt tokens measured = (case l of (doc_id, sc, chunk_id, metadata) \<Rightarrow>
    (let metadata_hash = sha (json_dumps True (PDict metadata));
         content_hash = dget metadata ''content_sha256'';
         evidence = [(''version'', PInt 1), (''store_id'', PStr store_id), (''doc_id'', PInt doc_id),
           (''chunk_id'', PInt chunk_id), (''cosine'', PFloat (Fin (fst sc)) (snd sc)),
           (''metadata_sha256'', PStr metadata_hash), (''content_sha256'', content_hash), (''excerpt'', opt_text excerpt)]
     in \<lparr>cd_pair_id = pair_id doc_id, cd_store_id = store_id, cd_content_sha256 = content_hash,
         cd_metadata_sha256 = metadata_hash, cd_evidence_sha256 = sha (json_dumps True (PDict evidence)),
         cd_doc_id = doc_id, cd_chunk_id = chunk_id, cd_cosine = sc,
         cd_title = py_str (py_or (py_or (dget metadata ''title'') (dget metadata ''path'')) (PInt doc_id)),
         cd_status = py_str (py_or (dget metadata ''page_status'') (PStr ''accepted'')),
         cd_page_type = py_str (py_or (dget metadata ''page_type'') (PStr ''learning'')),
         cd_excerpt = excerpt, cd_excerpt_tokens = tokens, cd_excerpt_measured = measured\<rparr>))"

text \<open>The text of a content envelope: \<open>None\<close> when there is none.\<close>

definition load_content ::
  "(string \<Rightarrow> string) \<Rightarrow> string \<Rightarrow> accessor \<Rightarrow> int \<Rightarrow> pydict \<Rightarrow> shortlist_error + string option" where
  "load_content sha store_id get_content doc_id metadata = (case get_content doc_id of
     Inl _ \<Rightarrow> Inr None
   | Inr PNone \<Rightarrow> Inr None
   | Inr envelope \<Rightarrow>
      if \<not> identity_ok envelope store_id doc_id then Inl (IdentityMismatchIn ''content'')
      else (case dget (dict_of_val envelope) ''content'' of
        PStr content \<Rightarrow> if PStr (sha content) \<noteq> dget metadata ''content_sha256'' then Inl ContentHashMismatch
                        else Inr (Some content)
      | _ \<Rightarrow> Inl ContentNotText))"

type_synonym described = "candidate_descriptor list \<times> candidate_descriptor list"

fun describe_docs ::
  "(string \<Rightarrow> string) \<Rightarrow> tokenizer \<Rightarrow> string \<Rightarrow> accessor \<Rightarrow> nat \<Rightarrow> listed list \<Rightarrow> described \<Rightarrow> int list \<Rightarrow>
   int list \<times> (shortlist_error + described)" where
  "describe_docs sha tok store_id get_content max_pairs [] acc calls = (calls, Inr acc)"
| "describe_docs sha tok store_id get_content max_pairs (l # ls) (pairs, deferred) calls =
    (if length pairs < max_pairs then
       (case load_content sha store_id get_content (fst l) (snd (snd (snd l))) of
          Inl err \<Rightarrow> (calls @ [fst l], Inl err)
        | Inr None \<Rightarrow> describe_docs sha tok store_id get_content max_pairs ls
            (pairs, deferred @ [make_descriptor sha store_id l None 0 True]) (calls @ [fst l])
        | Inr (Some content) \<Rightarrow>
            if py_strip content = [] then
              describe_docs sha tok store_id get_content max_pairs ls
                (pairs, deferred @ [make_descriptor sha store_id l None 0 True]) (calls @ [fst l])
            else (let (excerpt, tokens, measured) = truncate_excerpt tok content in
              describe_docs sha tok store_id get_content max_pairs ls
                (pairs @ [make_descriptor sha store_id l (Some excerpt) tokens measured], deferred) (calls @ [fst l])))
     else describe_docs sha tok store_id get_content max_pairs ls
            (pairs, deferred @ [make_descriptor sha store_id l None 0 True]) calls)"

definition clamp :: "int \<Rightarrow> int \<Rightarrow> nat" where
  "clamp v most = nat (max 0 (min v most))"

record shortlist_request =
  sr_hits :: pyval
  sr_store_id :: pyval
  sr_source_doc_id :: pyval
  sr_workspace :: pyval
  sr_max_chunk_hits :: int
  sr_max_docs :: int
  sr_cosine_floor :: pyfloat
  sr_max_pairs :: int

definition envelope_error :: "shortlist_request \<Rightarrow> string option" where
  "envelope_error req =
    (if \<not> is_str (sr_store_id req) \<or> py_strip (str_of_val (sr_store_id req)) = []
     then Some ''store_id must be a non-empty opaque storage identity''
     else if \<not> is_list (sr_hits req) then Some ''hits must be a sequence of chunk-hit dicts''
     else if \<not> is_str (sr_workspace req) \<or> str_of_val (sr_workspace req) = []
     then Some ''workspace must be a non-empty string''
     else if sr_source_doc_id req \<noteq> PNone \<and> as_doc_id (sr_source_doc_id req) = None
     then Some ''source_doc_id must be an int doc id''
     else case sr_cosine_floor req of Fin _ \<Rightarrow> None | _ \<Rightarrow> Some ''cosine_floor must be finite'')"

definition floor_of :: "shortlist_request \<Rightarrow> rat" where
  "floor_of req = (case sr_cosine_floor req of Fin q \<Rightarrow> max COSINE_FLOOR q | _ \<Rightarrow> COSINE_FLOOR)"

definition prepare_candidate_shortlist ::
  "os_env \<Rightarrow> (string \<Rightarrow> string) \<Rightarrow> tokenizer \<Rightarrow> effective_principal \<Rightarrow> accessor \<Rightarrow> accessor \<Rightarrow> shortlist_request \<Rightarrow>
   int list \<times> (shortlist_error + candidate_shortlist)" where
  "prepare_candidate_shortlist env sha tok p get_metadata get_content req = (case envelope_error req of
     Some msg \<Rightarrow> ([], Inl (BadEnvelope msg))
   | None \<Rightarrow>
      (let store_id = str_of_val (sr_store_id req); hits = list_of_val (sr_hits req);
           max_hits = clamp (sr_max_chunk_hits req) MAX_CHUNK_HITS; lowest = floor_of req
       in case take_hits store_id (take max_hits hits) no_hits of
            Inl err \<Rightarrow> ([], Inl err)
          | Inr ht \<Rightarrow>
             (let ranked = rank_docs (ht_best ht) in
              case shortlist_docs env p (str_of_val (sr_workspace req)) store_id get_metadata
                     (as_doc_id (sr_source_doc_id req)) (clamp (sr_max_docs req) MAX_SHORTLIST_DOCS) lowest ranked [] 0 of
                Inl err \<Rightarrow> ([], Inl err)
              | Inr (listed, excluded) \<Rightarrow>
                 (case describe_docs sha tok store_id get_content (clamp (sr_max_pairs req) MAX_CLASSIFIER_PAIRS)
                         listed ([], []) [] of
                    (calls, Inl err) \<Rightarrow> (calls, Inl err)
                  | (calls, Inr (pairs, deferred)) \<Rightarrow> (calls, Inr
                      \<lparr>cs_pairs = pairs, cs_deferred = deferred, cs_examined_chunks = min (length hits) max_hits,
                       cs_examined_docs = length ranked, cs_excluded_before_cap = excluded,
                       cs_below_floor = length (filter (\<lambda>kv. fst (fst (snd kv)) < lowest) ranked),
                       cs_malformed_hits = ht_malformed ht,
                       cs_hits_truncated = (max_hits < length hits)\<rparr>)))))"

end
