(* ===== verification/Candidate_Privacy.thy ===== *)
theory Candidate_Privacy
  imports Graph_Candidates
begin

text \<open>
  What the candidate shortlist guarantees: only authorized, eligible documents are ever read or
  listed, the normative bounds hold and cannot be raised by the caller, the result is in rank order,
  and an excerpt is the truncation of the text its descriptor's hash names.
\<close>

section \<open>Hits\<close>

lemma take_hit_distinct:
  "take_hit s e ht = Inr ht' \<Longrightarrow> distinct (map fst (ht_best ht)) \<Longrightarrow> distinct (map fst (ht_best ht'))"
  by (auto simp: take_hit_def Let_def distinct_update split: pyval.splits option.splits if_splits)

lemma take_hits_distinct:
  "take_hits s es ht = Inr ht' \<Longrightarrow> distinct (map fst (ht_best ht)) \<Longrightarrow> distinct (map fst (ht_best ht'))"
  by (induction es arbitrary: ht) (auto split: sum.splits dest: take_hit_distinct)

abbreviation rank_key :: "int \<times> (score \<times> int) \<Rightarrow> rat \<times> int" where
  "rank_key kv \<equiv> (- fst (fst (snd kv)), fst kv)"

lemma rank_docs_sorted:
  assumes "distinct (map fst best)"
  shows "sorted_wrt (\<lambda>a b. rank_key a < rank_key b) (rank_docs best)"
proof -
  have "distinct (map rank_key (rank_docs best))"
    using assms by (auto simp: rank_docs_def distinct_map inj_on_def)
  moreover have "sorted (map rank_key (rank_docs best))" by (simp add: rank_docs_def)
  ultimately have "sorted_wrt (<) (map rank_key (rank_docs best))" by (simp add: strict_sorted_iff)
  then show ?thesis by (simp add: sorted_wrt_map)
qed

section \<open>The listed documents\<close>

abbreviation listed_key :: "listed \<Rightarrow> rat \<times> int" where
  "listed_key l \<equiv> (- fst (fst (snd l)), fst l)"

text \<open>What every listed document has passed.\<close>

definition passed :: "os_env \<Rightarrow> effective_principal \<Rightarrow> string \<Rightarrow> accessor \<Rightarrow> int option \<Rightarrow> rat \<Rightarrow> listed \<Rightarrow> bool" where
  "passed env p ws get_metadata source lowest l = (case l of (doc_id, sc, chunk_id, m) \<Rightarrow>
     get_metadata doc_id = Inr (PDict m) \<and> can_read_document env (Some p) ws (PDict m) \<and> metadata_eligible m \<and>
     digest_ok (dget m ''content_sha256'') \<and> source \<noteq> Some doc_id \<and> lowest \<le> fst sc)"

lemma shortlist_docs_props:
  assumes "shortlist_docs env p ws store_id gm source max_docs lowest ranked acc ex = Inr (listed, ex')"
    and "sorted_wrt (<) (map listed_key acc @ map rank_key ranked)"
    and "list_all (passed env p ws gm source lowest) acc" and "length acc \<le> max_docs"
  shows "sorted_wrt (<) (map listed_key listed) \<and> list_all (passed env p ws gm source lowest) listed \<and>
    length listed \<le> max_docs"
  using assms
proof (induction ranked arbitrary: acc ex)
  case Nil
  then show ?case by simp
next
  case (Cons e ranked)
  obtain doc_id sc chunk_id where e: "e = (doc_id, sc, chunk_id)" by (cases e)
  have drop: "sorted_wrt (<) (map listed_key acc @ map rank_key ranked)"
    using Cons.prems(2) by (auto simp: sorted_wrt_append)
  note step = Cons.IH[OF _ drop Cons.prems(3,4)]
  show ?case
  proof (cases "length acc \<ge> max_docs \<or> fst sc < lowest \<or> source = Some doc_id \<or>
      (\<exists>x. gm doc_id = Inl x) \<or> (\<exists>m. gm doc_id = Inr m \<and> (\<not> metadata_authorized env p ws m \<or>
        \<not> metadata_eligible (dict_of_val m)))")
    case True
    then show ?thesis using Cons.prems step by (auto simp: e sorted_wrt_append split: if_splits sum.splits)
  next
    case False
    then obtain v where v: "gm doc_id = Inr v" "metadata_authorized env p ws v" "metadata_eligible (dict_of_val v)"
      by (cases "gm doc_id") auto
    then obtain m where m: "v = PDict m" by (cases v) (auto simp: metadata_authorized_def)
    have dig: "digest_ok (dget m ''content_sha256'')"
      and rec: "shortlist_docs env p ws store_id gm source max_docs lowest ranked
          (acc @ [(doc_id, sc, chunk_id, m)]) ex = Inr (listed, ex')"
      using Cons.prems(1) False v m by (auto simp: e split: if_splits)
    show ?thesis
      by (rule Cons.IH[OF rec])
        (use Cons.prems False v m dig in \<open>auto simp: e passed_def metadata_authorized_def not_less\<close>)
  qed
qed

section \<open>Descriptions\<close>

abbreviation descriptor_key :: "candidate_descriptor \<Rightarrow> rat \<times> int" where
  "descriptor_key c \<equiv> (- fst (cd_cosine c), cd_doc_id c)"

lemma descriptor_key_make [simp]: "descriptor_key (make_descriptor sha s l x t b) = listed_key l"
  by (simp add: make_descriptor_def case_prod_beta Let_def)

lemma make_descriptor_sel [simp]:
  "cd_doc_id (make_descriptor sha s l x t b) = fst l"
  "cd_cosine (make_descriptor sha s l x t b) = fst (snd l)"
  "cd_excerpt (make_descriptor sha s l x t b) = x"
  "cd_content_sha256 (make_descriptor sha s l x t b) = dget (snd (snd (snd l))) ''content_sha256''"
  by (simp_all add: make_descriptor_def case_prod_beta Let_def)

lemma describe_docs_calls:
  "describe_docs sha tok s gc mp ls acc calls = (calls', r) \<Longrightarrow> set calls' \<subseteq> set calls \<union> fst ` set ls"
  by (induction sha tok s gc mp ls acc calls arbitrary: calls' r rule: describe_docs.induct)
    (fastforce simp: Let_def split: if_splits sum.splits option.splits prod.splits)+


text \<open>A pair's excerpt is the truncation of the stored text its content hash names.\<close>

definition excerpt_verified :: "(string \<Rightarrow> string) \<Rightarrow> tokenizer \<Rightarrow> accessor \<Rightarrow> candidate_descriptor \<Rightarrow> bool" where
  "excerpt_verified sha tok get_content c = (case get_content (cd_doc_id c) of
     Inr (PDict e) \<Rightarrow> (case dget e ''content'' of
        PStr content \<Rightarrow> PStr (sha content) = cd_content_sha256 c \<and>
          cd_excerpt c = Some (fst (truncate_excerpt tok content)) \<and> py_strip content \<noteq> []
      | _ \<Rightarrow> False)
   | _ \<Rightarrow> False)"

lemma load_content_Some:
  assumes "load_content sha s gc i m = Inr (Some content)"
  obtains e where "gc i = Inr (PDict e)" and "dget e ''content'' = PStr content"
    and "PStr (sha content) = dget m ''content_sha256''"
proof -
  obtain v where v: "gc i = Inr v" using assms by (auto simp: load_content_def split: sum.splits)
  then have "v \<noteq> PNone" "identity_ok v s i" using assms by (auto simp: load_content_def split: pyval.splits if_splits)
  then obtain e where "v = PDict e" by (cases v) (auto simp: identity_ok_def)
  then show thesis using assms v that by (auto simp: load_content_def split: pyval.splits if_splits)
qed

definition sorted_before :: "candidate_descriptor list \<Rightarrow> listed list \<Rightarrow> bool" where
  "sorted_before cs ls \<longleftrightarrow> sorted_wrt (<) (map descriptor_key cs @ map listed_key ls)"

lemma sorted_before_skip: "sorted_before cs (l # ls) \<Longrightarrow> sorted_before cs ls"
  by (auto simp: sorted_before_def sorted_wrt_append)

lemma sorted_before_snoc: "sorted_before cs (l # ls) \<Longrightarrow> sorted_before (cs @ [make_descriptor sha s l x t b]) ls"
  unfolding sorted_before_def by simp

lemma describe_docs_Inr:
  assumes "describe_docs sha tok s gc mp ls (ps, ds) calls = (calls', Inr (ps', ds'))"
    and "sorted_before ps ls" and "sorted_before ds ls" and "length ps \<le> mp"
    and "list_all (excerpt_verified sha tok gc) ps" and "list_all (\<lambda>c. cd_excerpt c = None) ds"
  shows "sorted_before ps' [] \<and> sorted_before ds' [] \<and> length ps' \<le> mp \<and>
    length ps' + length ds' = length ps + length ds + length ls \<and>
    set (map descriptor_key (ps' @ ds')) = set (map descriptor_key (ps @ ds)) \<union> listed_key ` set ls \<and>
    list_all (excerpt_verified sha tok gc) ps' \<and> list_all (\<lambda>c. cd_excerpt c = None) ds'"
  using assms
proof (induction ls arbitrary: ps ds calls)
  case Nil
  then show ?case by simp
next
  case (Cons l ls)
  let ?d = "make_descriptor sha s l None 0 True"
  have later: "?case" if "describe_docs sha tok s gc mp ls (ps, ds @ [?d]) c = (calls', Inr (ps', ds'))" for c
    using Cons.IH[OF that sorted_before_skip[OF Cons.prems(2)] sorted_before_snoc[OF Cons.prems(3)] Cons.prems(4,5)]
      Cons.prems(6) by auto
  show ?case
  proof (cases "length ps < mp")
    case False
    then show ?thesis using Cons.prems(1) by (intro later) simp
  next
    case True
    obtain content_opt where lc: "load_content sha s gc (fst l) (snd (snd (snd l))) = Inr content_opt"
      using True Cons.prems(1) by (cases "load_content sha s gc (fst l) (snd (snd (snd l)))") auto
    show ?thesis
    proof (cases "\<exists>content. content_opt = Some content \<and> py_strip content \<noteq> []")
      case False
      then show ?thesis using True lc Cons.prems(1)
        by (intro later[of "calls @ [fst l]"]) (auto split: option.splits)
    next
      case pair: True
      then obtain content where content: "content_opt = Some content" "py_strip content \<noteq> []" by blast
      obtain x t b where tr: "truncate_excerpt tok content = (x, t, b)" by (cases "truncate_excerpt tok content")
      have rec: "describe_docs sha tok s gc mp ls (ps @ [make_descriptor sha s l (Some x) t b], ds) (calls @ [fst l]) =
          (calls', Inr (ps', ds'))"
        using Cons.prems(1) True lc content tr by simp
      obtain e where "gc (fst l) = Inr (PDict e)" "dget e ''content'' = PStr content"
          "PStr (sha content) = dget (snd (snd (snd l))) ''content_sha256''"
        using load_content_Some lc content(1) by metis
      then have "excerpt_verified sha tok gc (make_descriptor sha s l (Some x) t b)"
        using tr content(2) by (simp add: excerpt_verified_def)
      then show ?thesis
        using Cons.IH[OF rec sorted_before_snoc[OF Cons.prems(2)] sorted_before_skip[OF Cons.prems(3)]]
          Cons.prems(5,6) True by auto
    qed
  qed
qed

lemma described_from_listed:
  assumes "describe_docs sha tok s gc mp ls ([], []) [] = (calls, Inr (ps, ds))" and "sorted_before [] ls"
    and "c \<in> set (ps @ ds)"
  obtains x where "x \<in> set ls" and "fst x = cd_doc_id c" and "fst (fst (snd x)) = fst (cd_cosine c)"
proof -
  have "set (map descriptor_key (ps @ ds)) = listed_key ` set ls"
    using describe_docs_Inr[OF assms(1,2,2)] by simp
  moreover have "descriptor_key c \<in> set (map descriptor_key (ps @ ds))"
    unfolding set_map using assms(3) by (rule imageI)
  ultimately have "descriptor_key c \<in> listed_key ` set ls" by simp
  then obtain x where "x \<in> set ls" "descriptor_key c = listed_key x" by (rule imageE)
  then show thesis using that[of x] by simp
qed

section \<open>The shortlist\<close>

lemma clamp_le: "clamp v most \<le> nat (max 0 most)"
  by (simp add: clamp_def)

lemma floor_of_ge: "COSINE_FLOOR \<le> floor_of req"
  by (simp add: floor_of_def split: pyfloat.splits)

lemma prepare_cases:
  assumes "prepare_candidate_shortlist env sha tok p gm gc req = (calls, r)"
  obtains (nothing) err where "calls = []" and "r = Inl err"
  | (listed) ht listed ex res where
      "take_hits (str_of_val (sr_store_id req)) (take (clamp (sr_max_chunk_hits req) MAX_CHUNK_HITS) (list_of_val (sr_hits req)))
         no_hits = Inr ht"
      and "shortlist_docs env p (str_of_val (sr_workspace req)) (str_of_val (sr_store_id req)) gm
         (as_doc_id (sr_source_doc_id req)) (clamp (sr_max_docs req) MAX_SHORTLIST_DOCS) (floor_of req)
         (rank_docs (ht_best ht)) [] 0 = Inr (listed, ex)"
      and "describe_docs sha tok (str_of_val (sr_store_id req)) gc (clamp (sr_max_pairs req) MAX_CLASSIFIER_PAIRS)
         listed ([], []) [] = (calls, res)"
      and "case res of Inl err \<Rightarrow> r = Inl err
         | Inr (ps, ds) \<Rightarrow> \<exists>sl. r = Inr sl \<and> cs_pairs sl = ps \<and> cs_deferred sl = ds"
  using assms unfolding prepare_candidate_shortlist_def Let_def
  by (auto split: option.splits sum.splits prod.splits)

lemma prepare_listed:
  assumes "take_hits s hs no_hits = Inr ht"
    and "shortlist_docs env p ws s gm source max_docs lowest (rank_docs (ht_best ht)) [] 0 = Inr (listed, ex)"
  shows "sorted_before [] listed" and "list_all (passed env p ws gm source lowest) listed" and "length listed \<le> max_docs"
proof -
  have "distinct (map fst (ht_best ht))" using take_hits_distinct[OF assms(1)] by (simp add: no_hits_def)
  from rank_docs_sorted[OF this] have "sorted_wrt (<) (map listed_key [] @ map rank_key (rank_docs (ht_best ht)))"
    by (simp add: sorted_wrt_map)
  from shortlist_docs_props[OF assms(2) this] show "sorted_before [] listed"
    "list_all (passed env p ws gm source lowest) listed" "length listed \<le> max_docs"
    by (simp_all add: sorted_before_def)
qed

text \<open>What the privacy rule asks of a document: the stored metadata passed the read gate and is an open
  learning, and the document is not the one being committed.\<close>

definition may_surface :: "os_env \<Rightarrow> effective_principal \<Rightarrow> accessor \<Rightarrow> shortlist_request \<Rightarrow> int \<Rightarrow> bool" where
  "may_surface env p get_metadata req doc_id = (case get_metadata doc_id of
     Inr (PDict m) \<Rightarrow> can_read_document env (Some p) (str_of_val (sr_workspace req)) (PDict m) \<and> metadata_eligible m \<and>
       as_doc_id (sr_source_doc_id req) \<noteq> Some doc_id
   | _ \<Rightarrow> False)"

lemma passed_may_surface:
  "list_all (passed env p (str_of_val (sr_workspace req)) gm (as_doc_id (sr_source_doc_id req)) lowest) ls \<Longrightarrow>
     i \<in> fst ` set ls \<Longrightarrow> may_surface env p gm req i"
  by (fastforce simp: list_all_iff passed_def may_surface_def)

text \<open>C19: Content is requested, and a document listed, only after its stored metadata passed the caller's
  read authorization and the learning filter; this holds for the content requests also when the
  preparation is aborted by an error.\<close>

theorem shortlist_reads_only_authorized:
  assumes "prepare_candidate_shortlist env sha tok p gm gc req = (calls, r)"
  shows "(\<forall>i \<in> set calls. may_surface env p gm req i) \<and>
    (case r of Inl _ \<Rightarrow> True
     | Inr sl \<Rightarrow> \<forall>c \<in> set (cs_pairs sl @ cs_deferred sl). may_surface env p gm req (cd_doc_id c))"
  using assms
proof (cases rule: prepare_cases)
  case (nothing err)
  then show ?thesis by simp
next
  case (listed ht ls ex res)
  note l = prepare_listed[OF listed(1,2)]
  have "\<forall>i \<in> set calls. may_surface env p gm req i"
    using describe_docs_calls[OF listed(3)] passed_may_surface[OF l(2)] by auto
  moreover have "may_surface env p gm req (cd_doc_id c)"
    if "res = Inr (ps, ds)" "c \<in> set (ps @ ds)" for ps ds c
  proof -
    have d: "describe_docs sha tok (str_of_val (sr_store_id req)) gc (clamp (sr_max_pairs req) MAX_CLASSIFIER_PAIRS)
         ls ([], []) [] = (calls, Inr (ps, ds))" using listed(3) that(1) by simp
    have "cd_doc_id c \<in> fst ` set ls" using described_from_listed[OF d l(1) that(2)] by (metis imageI)
    then show ?thesis by (rule passed_may_surface[OF l(2)])
  qed
  ultimately show ?thesis using listed(4) by (cases res) (auto split: sum.splits)
qed

text \<open>The shortlist stays within the normative bounds whatever the caller asks for: at most 8 pairs, at
  most 12 documents, each with a cosine of at least 0.42; pairs and deferred documents are each in
  strict rank order, by falling cosine and then by document id.\<close>

theorem shortlist_bounded_and_ranked:
  assumes "prepare_candidate_shortlist env sha tok p gm gc req = (calls, Inr sl)"
  shows "length (cs_pairs sl) \<le> 8 \<and> length (cs_pairs sl) + length (cs_deferred sl) \<le> 12 \<and>
    (\<forall>c \<in> set (cs_pairs sl @ cs_deferred sl). 42 / 100 \<le> fst (cd_cosine c)) \<and>
    sorted_wrt (\<lambda>a b. descriptor_key a < descriptor_key b) (cs_pairs sl) \<and>
    sorted_wrt (\<lambda>a b. descriptor_key a < descriptor_key b) (cs_deferred sl)"
  using assms
proof (cases rule: prepare_cases)
  case (listed ht ls ex res)
  note l = prepare_listed[OF listed(1,2)]
  obtain ps ds where res: "res = Inr (ps, ds)" "cs_pairs sl = ps" "cs_deferred sl = ds"
    using listed(4) by (auto split: sum.splits)
  have d: "describe_docs sha tok (str_of_val (sr_store_id req)) gc (clamp (sr_max_pairs req) MAX_CLASSIFIER_PAIRS)
       ls ([], []) [] = (calls, Inr (ps, ds))" using listed(3) res(1) by simp
  have "clamp (sr_max_pairs req) MAX_CLASSIFIER_PAIRS \<le> 8" "clamp (sr_max_docs req) MAX_SHORTLIST_DOCS \<le> 12"
    using clamp_le[of _ MAX_CLASSIFIER_PAIRS] clamp_le[of _ MAX_SHORTLIST_DOCS]
    by (simp_all add: MAX_CLASSIFIER_PAIRS_def MAX_SHORTLIST_DOCS_def)
  note bounds = this describe_docs_Inr[OF d l(1) l(1)]
  have "42 / 100 \<le> fst (cd_cosine c)" if mem: "c \<in> set (ps @ ds)" for c
  proof -
    obtain x where "x \<in> set ls" "fst (fst (snd x)) = fst (cd_cosine c)"
      using described_from_listed[OF d l(1) mem] by metis
    moreover have "floor_of req \<le> fst (fst (snd x))" if "x \<in> set ls" for x
      using l(2) that by (auto simp: list_all_iff passed_def)
    ultimately have "floor_of req \<le> fst (cd_cosine c)" by metis
    then show ?thesis using floor_of_ge[of req] by (simp add: COSINE_FLOOR_def)
  qed
  then show ?thesis using bounds l(3) res by (auto simp: sorted_before_def sorted_wrt_map)
qed simp

text \<open>Every pair carries an excerpt that is the token-bounded truncation of a stored text whose digest
  is the content hash of its descriptor, so of its authorized metadata; deferred documents carry none.\<close>

theorem shortlist_excerpts_verified:
  assumes "prepare_candidate_shortlist env sha tok p gm gc req = (calls, Inr sl)"
  shows "list_all (excerpt_verified sha tok gc) (cs_pairs sl) \<and> list_all (\<lambda>c. cd_excerpt c = None) (cs_deferred sl)"
  using assms
proof (cases rule: prepare_cases)
  case (listed ht ls ex res)
  obtain ps ds where res: "res = Inr (ps, ds)" "cs_pairs sl = ps" "cs_deferred sl = ds"
    using listed(4) by (auto split: sum.splits)
  have "describe_docs sha tok (str_of_val (sr_store_id req)) gc (clamp (sr_max_pairs req) MAX_CLASSIFIER_PAIRS)
       ls ([], []) [] = (calls, Inr (ps, ds))" using listed(3) res(1) by simp
  from describe_docs_Inr[OF this prepare_listed(1)[OF listed(1,2)] prepare_listed(1)[OF listed(1,2)]]
  show ?thesis using res by simp
qed simp


section \<open>The best hit of a document\<close>

text \<open>The document, chunk and score of a well-formed hit.\<close>

definition hit_of :: "pyval \<Rightarrow> (int \<times> int \<times> score) option" where
  "hit_of entry = (case entry of
     PDict e \<Rightarrow> (case (as_doc_id (dget e ''doc_id''), as_doc_id (dget e ''chunk_id''),
             finite_score (dget_or e ''cosine'' (dget e ''score''))) of
         (Some d, Some c, Some sc) \<Rightarrow> Some (d, c, sc) | _ \<Rightarrow> None)
   | _ \<Rightarrow> None)"

definition hit_list :: "pyval list \<Rightarrow> (int \<times> int \<times> score) list" where
  "hit_list es = List.map_filter hit_of es"

text \<open>\<open>best_ok hits d v\<close>: \<open>v\<close> is the best hit of document \<open>d\<close>: the highest score, then the lowest chunk.\<close>

definition best_ok :: "(int \<times> int \<times> score) list \<Rightarrow> int \<Rightarrow> (score \<times> int) option \<Rightarrow> bool" where
  "best_ok hs d v = (case v of
     None \<Rightarrow> list_all (\<lambda>h. fst h \<noteq> d) hs
   | Some (sc, c) \<Rightarrow> (d, c, sc) \<in> set hs \<and>
       list_all (\<lambda>h. fst h = d \<longrightarrow> fst (snd (snd h)) < fst sc \<or> fst (snd (snd h)) = fst sc \<and> c \<le> fst (snd h)) hs)"

definition owners_ok :: "(int \<times> int \<times> score) list \<Rightarrow> (int \<times> int) list \<Rightarrow> bool" where
  "owners_ok hs owner \<longleftrightarrow> list_all (\<lambda>h. map_of owner (fst (snd h)) = Some (fst h)) hs"

lemma take_hit_cases:
  assumes "take_hit s e ht = Inr ht'"
  obtains (bad) "hit_of e = None" and "ht' = ht\<lparr>ht_malformed := Suc (ht_malformed ht)\<rparr>"
  | (good) d c sc where "hit_of e = Some (d, c, sc)" and "map_of (ht_owner ht) c \<in> {None, Some d}"
      and "ht_owner ht' = AList.update c d (ht_owner ht)" and "ht_malformed ht' = ht_malformed ht"
      and "ht_best ht' = (if better_hit sc c (map_of (ht_best ht) d)
         then AList.update d (sc, c) (ht_best ht) else ht_best ht)"
  using assms by (fastforce simp: take_hit_def hit_of_def Let_def split: pyval.splits option.splits if_splits)

lemma best_ok_step:
  assumes "best_ok hs d' (map_of best d')"
  shows "best_ok (hs @ [(d, c, sc)]) d' (map_of (if better_hit sc c (map_of best d)
     then AList.update d (sc, c) best else best) d')"
  using assms unfolding best_ok_def better_hit_def
  by (fastforce simp: update_conv' list_all_iff split: option.splits if_splits prod.splits)

lemma owners_ok_step:
  assumes "owners_ok hs owner" and "map_of owner c \<in> {None, Some d}"
  shows "owners_ok (hs @ [(d, c, sc)]) (AList.update c d owner)"
  using assms by (auto simp: owners_ok_def list_all_iff update_conv')

lemma take_hits_inv:
  assumes "take_hits s es ht = Inr ht'" and "\<forall>d. best_ok hs d (map_of (ht_best ht) d)" and "owners_ok hs (ht_owner ht)"
  shows "(\<forall>d. best_ok (hs @ hit_list es) d (map_of (ht_best ht') d)) \<and> owners_ok (hs @ hit_list es) (ht_owner ht') \<and>
    ht_malformed ht' + length (hit_list es) = ht_malformed ht + length es"
  using assms
proof (induction es arbitrary: ht hs)
  case Nil
  then show ?case by (simp add: hit_list_def List.map_filter_def)
next
  case (Cons e es)
  obtain h1 where h1: "take_hit s e ht = Inr h1" "take_hits s es h1 = Inr ht'"
    using Cons.prems(1) by (auto split: sum.splits)
  from h1(1) show ?case
  proof (cases rule: take_hit_cases)
    case bad
    then show ?thesis using Cons.IH[OF h1(2), of hs] Cons.prems(2,3) by (simp add: hit_list_def List.map_filter_def)
  next
    case (good d c sc)
    have "\<forall>d'. best_ok (hs @ [(d, c, sc)]) d' (map_of (ht_best h1) d')"
      unfolding good(5) using best_ok_step Cons.prems(2) by blast
    moreover have "owners_ok (hs @ [(d, c, sc)]) (ht_owner h1)"
      unfolding good(3) using owners_ok_step[OF Cons.prems(3) good(2)] .
    ultimately show ?thesis using Cons.IH[OF h1(2), of "hs @ [(d, c, sc)]"] good(1,4)
      by (simp add: hit_list_def List.map_filter_def)
  qed
qed

text \<open>Deduplicating the hit snapshot keeps for every document exactly its best well-formed hit (highest
  score, ties to the lowest chunk), counts every malformed row, and accepts a snapshot only when no
  chunk belongs to two documents.\<close>

theorem hits_deduplicated:
  assumes "take_hits s es no_hits = Inr ht"
  shows "(\<forall>d. best_ok (hit_list es) d (map_of (ht_best ht) d)) \<and>
    ht_malformed ht + length (hit_list es) = length es \<and>
    (\<forall>h \<in> set (hit_list es). \<forall>h' \<in> set (hit_list es). fst (snd h) = fst (snd h') \<longrightarrow> fst h = fst h')"
proof -
  have start: "\<forall>d. best_ok [] d (map_of (ht_best no_hits) d)" "owners_ok [] (ht_owner no_hits)" "ht_malformed no_hits = 0"
    by (simp_all add: best_ok_def owners_ok_def no_hits_def)
  note inv = take_hits_inv[OF assms start(1,2), unfolded append_Nil start(3) add_0]
  have "fst h = fst h'" if "h \<in> set (hit_list es)" "h' \<in> set (hit_list es)" "fst (snd h) = fst (snd h')" for h h'
  proof -
    have "\<forall>h \<in> set (hit_list es). map_of (ht_owner ht) (fst (snd h)) = Some (fst h)"
      using conjunct1[OF conjunct2[OF inv]] unfolding owners_ok_def list_all_iff .
    then have "map_of (ht_owner ht) (fst (snd h)) = Some (fst h)" "map_of (ht_owner ht) (fst (snd h')) = Some (fst h')"
      using that by blast+
    then show ?thesis using that(3) by simp
  qed
  then show ?thesis using conjunct1[OF inv] conjunct2[OF conjunct2[OF inv]] by (intro conjI ballI impI) blast+
qed

section \<open>Concrete instances\<close>

definition sample_hits :: pyval where
  "sample_hits = PList [PDict [(''doc_id'', PInt 1), (''chunk_id'', PInt 10), (''cosine'', PFloat (Fin (9 / 10)) ''0.9''), (''store_id'', PStr ''s'')],
     PDict [(''doc_id'', PInt 2), (''chunk_id'', PInt 20), (''cosine'', PFloat (Fin (8 / 10)) ''0.8''), (''store_id'', PStr ''s'')],
     PNone]"

definition sample_request :: shortlist_request where
  "sample_request = \<lparr>sr_hits = sample_hits, sr_store_id = PStr ''s'', sr_source_doc_id = PNone,
     sr_workspace = PStr ''default'', sr_max_chunk_hits = 100, sr_max_docs = 100, sr_cosine_floor = Fin 0, sr_max_pairs = 100\<rparr>"

definition sample_digest :: string where
  "sample_digest = replicate 64 (CHR ''0'')"

definition sample_metadata :: accessor where
  "sample_metadata i = Inr (PDict [(''store_id'', PStr ''s''), (''doc_id'', PInt i), (''memory_kind'', PStr ''learning''),
     (''page_type'', PStr ''learning''), (''agent'', PStr (if i = 1 then ''codex'' else ''gemini'')),
     (''content_sha256'', PStr sample_digest)])"

definition sample_content :: accessor where
  "sample_content i = Inr (PDict [(''store_id'', PStr ''s''), (''doc_id'', PInt i), (''content'', PStr ''text'')])"

abbreviation sample_run :: "int list \<times> (shortlist_error + candidate_shortlist)" where
  "sample_run \<equiv> prepare_candidate_shortlist sample_env (\<lambda>_. sample_digest) None sample_reader
     sample_metadata sample_content sample_request"

lemma sample_run_ok: "\<exists>sl. sample_run = ([1], Inr sl) \<and> length (cs_pairs sl) = 1"
proof -
  have "fst sample_run = [1] \<and> (case snd sample_run of Inr sl \<Rightarrow> length (cs_pairs sl) = 1 | _ \<Rightarrow> False)" by code_simp
  then show ?thesis by (cases "sample_run") (auto split: sum.splits)
qed

lemma shortlist_reads_only_authorized_witness:
  "\<exists>calls r. sample_run = (calls, r) \<and> 1 \<in> set calls \<and> may_surface sample_env sample_reader sample_metadata sample_request 1"
proof -
  obtain sl where r: "sample_run = ([1], Inr sl)" using sample_run_ok by blast
  show ?thesis using r shortlist_reads_only_authorized[OF r] by simp
qed

lemma shortlist_bounded_and_ranked_witness:
  "\<exists>calls sl. sample_run = (calls, Inr sl) \<and> length (cs_pairs sl) + length (cs_deferred sl) \<le> 12"
proof -
  obtain sl where r: "sample_run = ([1], Inr sl)" using sample_run_ok by blast
  show ?thesis using r shortlist_bounded_and_ranked[OF r] by blast
qed

lemma shortlist_excerpts_verified_witness:
  "\<exists>calls sl. sample_run = (calls, Inr sl) \<and> cs_pairs sl \<noteq> [] \<and>
     list_all (excerpt_verified (\<lambda>_. sample_digest) None sample_content) (cs_pairs sl)"
proof -
  obtain sl where r: "sample_run = ([1], Inr sl)" "length (cs_pairs sl) = 1" using sample_run_ok by blast
  then have "cs_pairs sl \<noteq> []" by auto
  then show ?thesis using r(1) shortlist_excerpts_verified[OF r(1)] by blast
qed

lemma hits_deduplicated_witness:
  "\<exists>ht. take_hits ''s'' (list_of_val sample_hits) no_hits = Inr ht \<and> best_ok (hit_list (list_of_val sample_hits)) 1 (map_of (ht_best ht) 1)"
proof -
  have "case take_hits ''s'' (list_of_val sample_hits) no_hits of Inr ht \<Rightarrow> True | _ \<Rightarrow> False" by code_simp
  then obtain ht where t: "take_hits ''s'' (list_of_val sample_hits) no_hits = Inr ht" by (auto split: sum.splits)
  show ?thesis using t hits_deduplicated[OF t] by blast
qed

end
