(* ===== verification/Py_Words.thy ===== *)
theory Py_Words
  imports Py_Values
begin

text \<open>
  Words, slices and compact JSON text: \<open>str.split()\<close>, \<open>xs[a:b]\<close> and
  \<open>json.dumps(v, separators=(",", ":"), ensure_ascii=False)\<close>, with the facts about joining words and splitting
  them again that the text components share.
\<close>

section \<open>Slices\<close>

definition slice_bound :: "nat \<Rightarrow> int \<Rightarrow> nat" where
  "slice_bound n i = (if i < 0 then nat (max 0 (i + int n)) else min (nat i) n)"

definition py_slice :: "int \<Rightarrow> int \<Rightarrow> 'a list \<Rightarrow> 'a list" where
  "py_slice a b xs = take (slice_bound (length xs) b - slice_bound (length xs) a) (drop (slice_bound (length xs) a) xs)"

lemma py_slice_nat: "a \<le> b \<Longrightarrow> b \<le> length xs \<Longrightarrow> py_slice (int a) (int b) xs = take (b - a) (drop a xs)"
  by (simp add: py_slice_def slice_bound_def)

lemma py_slice_ahead: "a \<le> length xs \<Longrightarrow> py_slice (int a) (int a + int k) xs = take k (drop a xs)"
  by (auto simp: py_slice_def slice_bound_def nat_add_distrib min_def)

text \<open>\<open>s[:n]\<close> for a bound \<open>n\<close> that is not negative.\<close>

definition cut_at :: "int \<Rightarrow> 'a list \<Rightarrow> 'a list" where
  "cut_at n s = (if int (length s) \<le> n then s else take (nat n) s)"

lemma cut_at_take: "cut_at n s = take (nat n) s"
  by (simp add: cut_at_def)

section \<open>Words\<close>

fun words_from :: "string \<Rightarrow> string \<Rightarrow> string list" where
  "words_from cur [] = (if cur = [] then [] else [rev cur])"
| "words_from cur (c # s) =
    (if py_isspace c then (if cur = [] then words_from [] s else rev cur # words_from [] s)
     else words_from (c # cur) s)"

definition py_split :: "string \<Rightarrow> string list" where
  "py_split s = words_from [] s"

definition clean_word :: "string \<Rightarrow> bool" where
  "clean_word w \<longleftrightarrow> w \<noteq> [] \<and> list_all (\<lambda>c. \<not> py_isspace c) w"

lemma isspace_blank [simp]: "py_isspace CHR '' ''"
  by (simp add: py_isspace_def)

lemma words_from_clean: "list_all (\<lambda>c. \<not> py_isspace c) cur \<Longrightarrow> list_all clean_word (words_from cur s)"
  by (induction cur s rule: words_from.induct) (simp_all add: clean_word_def)

lemma split_clean: "list_all clean_word (py_split s)"
  by (simp add: py_split_def words_from_clean)

lemma words_from_word: "list_all (\<lambda>c. \<not> py_isspace c) w \<Longrightarrow> words_from cur (w @ s) = words_from (rev w @ cur) s"
  by (induction w arbitrary: cur) auto

lemma split_word: "clean_word w \<Longrightarrow> py_split w = [w]"
  using words_from_word[of w "[]" "[]"] by (simp add: py_split_def clean_word_def)

lemma split_word_blank: "clean_word w \<Longrightarrow> py_split (w @ CHR '' '' # s) = w # py_split s"
  by (simp add: py_split_def clean_word_def words_from_word)

lemma split_join: "list_all clean_word ws \<Longrightarrow> py_split (py_join '' '' ws) = ws"
  by (induction "'' ''" ws rule: py_join.induct) (simp_all add: split_word split_word_blank py_split_def[of "[]"])

text \<open>Cutting a joined text behind one of its blanks keeps a prefix of the words.\<close>

lemma split_cut:
  assumes "list_all clean_word ws" and "i < length (py_join '' '' ws)" and "py_isspace (py_join '' '' ws ! i)"
  shows "\<exists>k \<le> length ws. py_split (take (Suc i) (py_join '' '' ws)) = take k ws"
  using assms
proof (induction "'' ''" ws arbitrary: i rule: py_join.induct)
  case (2 w)
  then have "w ! i \<in> set w" by simp
  then show ?case using 2 by (auto simp: clean_word_def list_all_iff)
next
  case (3 w y ys)
  let ?t = "py_join '' '' (y # ys)"
  consider "i < length w" | "i = length w" | j where "i = Suc (length w + j)"
    by (metis less_imp_Suc_add linorder_neqE_nat)
  then show ?case
  proof cases
    case 1
    then have "w ! i \<in> set w" by simp
    then show ?thesis using 3(2,4) 1 by (auto simp: clean_word_def list_all_iff nth_append)
  next
    case 2
    then have "py_split (take (Suc i) (py_join '' '' (w # y # ys))) = take 1 (w # y # ys)"
      using 3(2) split_word_blank[of w "[]"] by (simp add: py_split_def[of "[]"])
    then show ?thesis by (metis One_nat_def length_Cons Suc_le_mono le0)
  next
    case (3 j)
    have prem: "list_all clean_word (y # ys)" "j < length ?t" "py_isspace (?t ! j)"
      using "3.prems" 3 by (simp_all add: nth_append)
    obtain k where k: "k \<le> length (y # ys)" "py_split (take (Suc j) ?t) = take k (y # ys)"
      using "3.hyps"[OF prem] by blast
    have "take (Suc i) (py_join '' '' (w # y # ys)) = w @ CHR '' '' # take (Suc j) ?t" using 3 by simp
    then have "py_split (take (Suc i) (py_join '' '' (w # y # ys))) = take (Suc k) (w # y # ys)"
      using "3.prems"(1) k(2) by (simp add: split_word_blank)
    then show ?thesis using k(1) by (metis length_Cons Suc_le_mono)
  qed
qed simp

text \<open>A text is blank exactly when it has no word.\<close>

lemma words_from_Nil: "words_from cur s = [] \<longleftrightarrow> cur = [] \<and> list_all py_isspace s"
  by (induction cur s rule: words_from.induct) auto

lemma strip_blank: "py_strip s = [] \<longleftrightarrow> list_all py_isspace s"
proof -
  have "dropWhile P xs = [] \<longleftrightarrow> list_all P xs" for P :: "char \<Rightarrow> bool" and xs
    by (induction xs) auto
  moreover have "list_all py_isspace (dropWhile py_isspace s) \<longleftrightarrow> list_all py_isspace s"
    by (induction s) auto
  ultimately show ?thesis by (simp add: py_strip_def list_all_iff)
qed

lemma strip_words: "py_strip s = [] \<longleftrightarrow> py_split s = []"
  by (simp add: strip_blank py_split_def words_from_Nil)

section \<open>Splitting on a character\<close>

text \<open>\<open>s.split(c)\<close>, with the field read so far as accumulator.\<close>

fun split_on :: "char \<Rightarrow> string \<Rightarrow> string \<Rightarrow> string list" where
  "split_on c cur [] = [rev cur]"
| "split_on c cur (d # s) = (if d = c then rev cur # split_on c [] s else split_on c (d # cur) s)"

section \<open>Searching\<close>

text \<open>\<open>s.find(p, k)\<close>.\<close>

fun find_at :: "string \<Rightarrow> string \<Rightarrow> nat \<Rightarrow> nat option" where
  "find_at p [] i = (if p = [] then Some i else None)"
| "find_at p (c # s) i = (if starts_with (c # s) p then Some i else find_at p s (Suc i))"

definition py_find :: "string \<Rightarrow> string \<Rightarrow> nat \<Rightarrow> nat option" where
  "py_find s p k = (if length s < k then None else find_at p (drop k s) k)"

section \<open>Integers in text\<close>

text \<open>\<open>int(s)\<close>: a sign and decimal digits, with single underscores between digits.\<close>

fun digits_value :: "bool \<Rightarrow> int \<Rightarrow> string \<Rightarrow> int option" where
  "digits_value seen acc [] = (if seen then Some acc else None)"
| "digits_value seen acc (c # s) = (let n = (of_char c :: nat) in
     if 48 \<le> n \<and> n \<le> 57 then digits_value True (10 * acc + int (n - 48)) s
     else if c = CHR ''_'' \<and> seen then digits_value False acc s else None)"

definition int_text :: "string \<Rightarrow> int option" where
  "int_text s = (case py_strip s of
     [] \<Rightarrow> None
   | c # t \<Rightarrow> if c = CHR ''-'' then map_option uminus (digits_value False 0 t)
              else if c = CHR ''+'' then digits_value False 0 t else digits_value False 0 (c # t))"

text \<open>\<open>int(v)\<close>; \<open>None\<close> is the exception.\<close>

fun py_int :: "pyval \<Rightarrow> int option" where
  "py_int (PBool b) = Some (if b then 1 else 0)"
| "py_int (PInt i) = Some i"
| "py_int (PFloat (Fin r) _) = Some (if 0 \<le> r then \<lfloor>r\<rfloor> else \<lceil>r\<rceil>)"
| "py_int (PStr s) = int_text s"
| "py_int _ = None"

section \<open>JSON text with its characters as they are\<close>

definition json_raw_char :: "char \<Rightarrow> string" where
  "json_raw_char c = (if 127 \<le> (of_char c :: nat) then [c] else json_char c)"

definition json_raw_str :: "string \<Rightarrow> string" where
  "json_raw_str s = [char_of (34 :: nat)] @ concat (map json_raw_char s) @ [char_of (34 :: nat)]"

function json_raw :: "pyval \<Rightarrow> string" where
  "json_raw PNone = ''null''"
| "json_raw (PBool b) = (if b then ''true'' else ''false'')"
| "json_raw (PInt i) = int_str i"
| "json_raw (PFloat f t) = json_float f t"
| "json_raw (PStr s) = json_raw_str s"
| "json_raw (PList xs) = ''['' @ py_join '','' (map json_raw xs) @ '']''"
| "json_raw (PDict d) = ''{'' @ py_join '','' (map (\<lambda>kv. json_raw_str (fst kv) @ '':'' @ json_raw (snd kv)) d) @ ''}''"
  by pat_completeness auto
termination
  by (relation "measure size") (auto simp: size_list_mem size_dict_mem)

section \<open>JSON text with the default separators\<close>

text \<open>\<open>json.dumps(v)\<close>.\<close>

function json_default :: "pyval \<Rightarrow> string" where
  "json_default PNone = ''null''"
| "json_default (PBool b) = (if b then ''true'' else ''false'')"
| "json_default (PInt i) = int_str i"
| "json_default (PFloat f t) = json_float f t"
| "json_default (PStr s) = json_str s"
| "json_default (PList xs) = ''['' @ py_join '', '' (map json_default xs) @ '']''"
| "json_default (PDict d) = ''{'' @ py_join '', '' (map (\<lambda>kv. json_str (fst kv) @ '': '' @ json_default (snd kv)) d) @ ''}''"
  by pat_completeness auto
termination
  by (relation "measure size") (auto simp: size_list_mem size_dict_mem)

section \<open>Iteration, repetitions and rounding\<close>

text \<open>Iterating over the value; \<open>None\<close> is the exception.\<close>

definition iterated :: "pyval \<Rightarrow> pyval list option" where
  "iterated v = (case v of
     PList xs \<Rightarrow> Some xs
   | PStr s \<Rightarrow> Some (map (\<lambda>c. PStr [c]) s)
   | PDict d \<Rightarrow> Some (map (\<lambda>kv. PStr (fst kv)) d)
   | _ \<Rightarrow> None)"

text \<open>The first of equal items stays.\<close>

definition unique :: "'a list \<Rightarrow> 'a list" where
  "unique xs = rev (remdups (rev xs))"

lemma set_unique [simp]: "set (unique xs) = set xs"
  by (simp add: unique_def)

lemma distinct_unique [simp]: "distinct (unique xs)"
  by (simp add: unique_def)

text \<open>\<open>round(x, 4)\<close>: a tie goes to the even neighbour.\<close>

definition round_even :: "rat \<Rightarrow> int" where
  "round_even x = (let n = \<lfloor>x\<rfloor>; d = x - of_int n in
     if d < 1 / 2 then n else if 1 / 2 < d then n + 1 else if even n then n else n + 1)"

definition round4 :: "rat \<Rightarrow> rat" where
  "round4 x = of_int (round_even (x * 10000)) / 10000"

lemma round_even_int [simp]: "round_even (of_int n) = n"
  by (simp add: round_even_def)

lemma round_even_mono: "x \<le> y \<Longrightarrow> round_even x \<le> round_even y"
proof -
  assume le: "x \<le> y"
  have near: "\<lfloor>z\<rfloor> \<le> round_even z \<and> round_even z \<le> \<lfloor>z\<rfloor> + 1" for z by (simp add: round_even_def Let_def)
  show ?thesis
  proof (cases "\<lfloor>x\<rfloor> = \<lfloor>y\<rfloor>")
    case True
    then show ?thesis using le by (auto simp: round_even_def Let_def)
  next
    case False
    then have "\<lfloor>x\<rfloor> + 1 \<le> \<lfloor>y\<rfloor>" using floor_mono[OF le] by linarith
    then show ?thesis using near[of x] near[of y] by linarith
  qed
qed

lemma round4_mono: "x \<le> y \<Longrightarrow> round4 x \<le> round4 y"
  unfolding round4_def by (intro divide_right_mono) (simp_all add: round_even_mono)

lemma round4_fixed [simp]: "round4 0 = 0" "round4 1 = 1"
  using round_even_int[of 0] round_even_int[of 10000] by (simp_all add: round4_def)

end
