(* ===== verification/Trie_Index.thy ===== *)
theory Trie_Index
  imports Ordered_Dict Py_Words
begin

text \<open>
  The in-memory token and prefix index for fast recall (\<open>trie_index.py\<close>, with \<open>_normalize_agent_filter\<close>
  of \<open>fts_search.py\<close>).

  The state is \<open>trie\<close>.  A set of document ids is a list without repetitions; Python iterates such a set
  in an order of its own, which only affects the order of results with equal scores.  The database is
  what the two queries of a load see (\<open>trie_db\<close>); each query may fail.  The placeholder sigil is
  outside Latin-1 and a parameter.
\<close>

section \<open>Text\<close>

definition strip_frontmatter :: "string \<Rightarrow> string" where
  "strip_frontmatter t =
    (if t = [] then []
     else if starts_with t ''---'' then
       (case py_find t (CHR 0x0A # ''---'') 3 of
          None \<Rightarrow> t
        | Some e \<Rightarrow> (case py_find t [CHR 0x0A] (e + 4) of
             None \<Rightarrow> [] | Some nl \<Rightarrow> py_lstrip (drop (nl + 1) t)))
     else t)"

definition word_char :: "char \<Rightarrow> bool" where
  "word_char c \<longleftrightarrow> (let n = (of_char c :: nat) in 97 \<le> n \<and> n \<le> 122 \<or> 48 \<le> n \<and> n \<le> 57 \<or> n = 95)"

text \<open>The maximal runs of word characters.\<close>

fun word_runs :: "string \<Rightarrow> string \<Rightarrow> string list" where
  "word_runs cur [] = (if cur = [] then [] else [rev cur])"
| "word_runs cur (c # s) =
     (if word_char c then word_runs (c # cur) s
      else (if cur = [] then word_runs [] s else rev cur # word_runs [] s))"

definition tokenize_trie_text :: "string \<Rightarrow> string list" where
  "tokenize_trie_text t = filter (\<lambda>w. 2 \<le> length w) (word_runs [] (py_lower t))"

section \<open>State\<close>

record trie_doc =
  td_path :: string
  td_path_lower :: "string option"
  td_agent :: string
  td_sigil :: string
  td_decay :: rat
  td_chunk_text :: string
  td_heading :: string
  td_page_status :: string
  td_privacy :: string
  td_page_type :: pyval
  td_evidence :: pyval
  td_indexed_at :: pyval
  td_layer :: string

type_synonym postings = "(string \<times> int list) list"

record trie =
  t_docs :: "(int \<times> trie_doc) list option"
  t_tokens :: postings
  t_prefixes :: postings
  t_max :: int
  t_count :: int
  t_checked :: rat

definition new_trie :: trie where
  "new_trie = \<lparr>t_docs = None, t_tokens = [], t_prefixes = [], t_max = - 1, t_count = - 1, t_checked = 0\<rparr>"

definition posting :: "postings \<Rightarrow> string \<Rightarrow> int list" where
  "posting m t = (case map_of m t of None \<Rightarrow> [] | Some ds \<Rightarrow> ds)"

definition add_posting :: "int \<Rightarrow> string \<Rightarrow> postings \<Rightarrow> postings" where
  "add_posting did t m = AList.update t (List.insert did (posting m t)) m"

definition token_prefixes :: "nat \<Rightarrow> string \<Rightarrow> string list" where
  "token_prefixes cap t = map (\<lambda>n. take n t) [3..<min (length t) cap + 1]"

definition add_tokens :: "nat \<Rightarrow> int \<Rightarrow> string list \<Rightarrow> trie \<Rightarrow> trie" where
  "add_tokens cap did toks tr = tr\<lparr>
     t_tokens := fold (add_posting did) (remdups toks) (t_tokens tr),
     t_prefixes := fold (add_posting did) (concat (map (token_prefixes cap) (remdups toks))) (t_prefixes tr)\<rparr>"

definition or_text :: "string option \<Rightarrow> string \<Rightarrow> string" where
  "or_text v dflt = (case v of None \<Rightarrow> dflt | Some s \<Rightarrow> if s = [] then dflt else s)"

section \<open>Indexing one document\<close>

record trie_row =
  rw_doc_id :: int
  rw_path :: "string option"
  rw_agent :: "string option"
  rw_sigil :: "string option"
  rw_decay :: "rat option"
  rw_chunk_text :: "string option"
  rw_heading :: "string option"
  rw_page_status :: "string option"
  rw_privacy :: "string option"
  rw_page_type :: pyval
  rw_evidence :: pyval
  rw_indexed_at :: pyval
  rw_layer :: "string option"

definition doc_of_row :: "string \<Rightarrow> bool \<Rightarrow> trie_row \<Rightarrow> trie_doc" where
  "doc_of_row sigil lower_path r = \<lparr>td_path = or_text (rw_path r) [],
     td_path_lower = (if lower_path then Some (py_lower (or_text (rw_path r) [])) else None),
     td_agent = or_text (rw_agent r) [], td_sigil = or_text (rw_sigil r) sigil,
     td_decay = (case rw_decay r of None \<Rightarrow> 1 | Some q \<Rightarrow> q),
     td_chunk_text = take 1200 (strip_frontmatter (or_text (rw_chunk_text r) [])),
     td_heading = or_text (rw_heading r) [], td_page_status = or_text (rw_page_status r) ''candidate'',
     td_privacy = or_text (rw_privacy r) ''safe'', td_page_type = rw_page_type r, td_evidence = rw_evidence r,
     td_indexed_at = rw_indexed_at r, td_layer = or_text (rw_layer r) ''knowledge''\<rparr>"

definition index_doc_in_trie :: "string \<Rightarrow> rat \<Rightarrow> trie_row \<Rightarrow> trie \<Rightarrow> trie" where
  "index_doc_in_trie sigil now r tr = (case t_docs tr of
     None \<Rightarrow> tr
   | Some docs \<Rightarrow>
      (let header = or_text (rw_path r) [] @ '' '' @ or_text (rw_heading r) [] @ '' '' @ take 600 (or_text (rw_chunk_text r) []);
           tr1 = add_tokens 12 (rw_doc_id r) (tokenize_trie_text header)
                   (tr\<lparr>t_docs := Some (AList.update (rw_doc_id r) (doc_of_row sigil False r) docs)\<rparr>)
       in if rw_indexed_at r = PNone then tr1
          else tr1\<lparr>t_max := max (t_max tr1) (rw_doc_id r), t_checked := now\<rparr>))"

definition invalidate_trie :: "trie \<Rightarrow> trie" where
  "invalidate_trie tr = new_trie"

section \<open>Loading\<close>

text \<open>A stored document: its columns with the text of the first chunk (or, without chunks, of the full-text
  table), as the query for small stores selects it, and with the text of chunk 0, as the query for
  large stores does.\<close>

record stored_doc =
  sd_row :: trie_row
  sd_chunk0 :: string
  sd_heading0 :: string

record trie_db =
  db_docs :: "stored_doc list"
  db_count_ok :: bool
  db_select_ok :: bool

definition load_row :: "string \<Rightarrow> trie_row \<Rightarrow> trie \<Rightarrow> trie" where
  "load_row sigil r tr =
    (let doc = doc_of_row sigil True r; docs = (case t_docs tr of None \<Rightarrow> [] | Some ds \<Rightarrow> ds);
         header = td_path doc @ '' '' @ td_heading doc @ '' '' @ take 300 (td_chunk_text doc)
     in add_tokens 10 (rw_doc_id r) (tokenize_trie_text header)
          (tr\<lparr>t_docs := Some (AList.update (rw_doc_id r) doc docs)\<rparr>))"

definition selected_rows :: "trie_db \<Rightarrow> int \<Rightarrow> trie_row list" where
  "selected_rows db prev_max =
     map (\<lambda>d. if length (db_docs db) < 50 then sd_row d
              else (sd_row d)\<lparr>rw_chunk_text := Some (sd_chunk0 d), rw_heading := Some (sd_heading0 d)\<rparr>)
       (filter (\<lambda>d. prev_max < rw_doc_id (sd_row d) \<and>
            (case rw_privacy (sd_row d) of None \<Rightarrow> ''safe'' | Some p \<Rightarrow> p) \<noteq> ''blocked'') (db_docs db))"

definition db_max_id :: "trie_db \<Rightarrow> int" where
  "db_max_id db = fold max (map (\<lambda>d. rw_doc_id (sd_row d)) (db_docs db)) 0"

definition fresh_enough :: "rat \<Rightarrow> trie \<Rightarrow> bool" where
  "fresh_enough now tr \<longleftrightarrow> t_docs tr \<noteq> None \<and> now - t_checked tr < 30"

definition reset_marks :: "trie \<Rightarrow> trie" where
  "reset_marks tr = tr\<lparr>t_max := - 1, t_count := - 1\<rparr>"

text \<open>The load under the lock; \<open>now\<close> is the reading taken there.\<close>

definition load_trie :: "string \<Rightarrow> trie_db \<Rightarrow> rat \<Rightarrow> trie \<Rightarrow> trie" where
  "load_trie sigil db now tr =
    (if \<not> db_count_ok db then reset_marks tr
     else
       (let doc_count = int (length (db_docs db)); max_doc_id = db_max_id db;
            tr1 = tr\<lparr>t_checked := now\<rparr>
        in if t_docs tr1 \<noteq> None \<and> max_doc_id = t_max tr1 \<and> doc_count = t_count tr1 then tr1
           else
             (let incremental = (t_docs tr1 \<noteq> None \<and> 0 \<le> t_max tr1 \<and> t_count tr1 \<le> doc_count \<and> t_max tr1 \<le> max_doc_id);
                  tr2 = (if incremental then tr1 else tr1\<lparr>t_docs := Some [], t_tokens := [], t_prefixes := []\<rparr>);
                  prev_max = (if incremental then t_max tr1 else 0);
                  tr3 = tr2\<lparr>t_max := max_doc_id, t_count := doc_count\<rparr>
              in if doc_count = 0 then tr3
                 else if \<not> db_select_ok db then reset_marks tr3
                 else fold (load_row sigil) (selected_rows db prev_max) tr3)))"

text \<open>\<open>_ensure_trie_loaded\<close>: no database, the unlocked test, the test under the lock, the load.\<close>

definition ensure_trie_loaded :: "string \<Rightarrow> trie_db option \<Rightarrow> rat \<Rightarrow> rat \<Rightarrow> trie \<Rightarrow> trie" where
  "ensure_trie_loaded sigil db now1 now2 tr = (case db of
     None \<Rightarrow> tr
   | Some d \<Rightarrow> if fresh_enough now1 tr then tr
               else if fresh_enough now2 tr then tr
               else load_trie sigil d now2 tr)"

section \<open>Searching\<close>

definition OR_FALLBACK_STOPWORDS :: "string list" where
  "OR_FALLBACK_STOPWORDS = [''minni'', ''sovereign'', ''the'', ''and'', ''for'', ''with'', ''from'', ''this'',
     ''that'', ''what'', ''how'', ''why'', ''when'', ''where'', ''are'', ''was'', ''were'', ''is'', ''in'', ''on'', ''to'',
     ''of'', ''by'', ''at'', ''as'', ''or'', ''not'']"

definition selective_or_terms :: "trie \<Rightarrow> string list \<Rightarrow> string list" where
  "selective_or_terms tr terms =
     filter (\<lambda>t. t \<notin> set OR_FALLBACK_STOPWORDS \<and> length (posting (t_tokens tr) t) \<le> 500) terms"

definition add_scope :: "pyval \<Rightarrow> string list \<Rightarrow> string list" where
  "add_scope item scope = (let agent = py_strip (py_str item) in
     if agent \<noteq> [] \<and> agent \<notin> set scope then scope @ [agent] else scope)"

definition normalize_agent_filter :: "pyval \<Rightarrow> string list" where
  "normalize_agent_filter agent_filter = (case agent_filter of
     PStr s \<Rightarrow> fold add_scope [PStr s] []
   | PList xs \<Rightarrow> fold add_scope xs []
   | _ \<Rightarrow> [])"

type_synonym trie_scores = "(int \<times> rat) list"

definition bump :: "rat \<Rightarrow> int \<Rightarrow> trie_scores \<Rightarrow> trie_scores" where
  "bump w did scores = AList.update did ((case map_of scores did of None \<Rightarrow> 0 | Some s \<Rightarrow> s) + w) scores"

definition score_token :: "trie \<Rightarrow> bool \<Rightarrow> string \<Rightarrow> trie_scores \<Rightarrow> trie_scores" where
  "score_token tr selective t scores =
    (let s1 = fold (bump 3) (posting (t_tokens tr) t) scores;
         matches = posting (t_prefixes tr) (take 10 t)
     in if 3 \<le> length t \<and> (length matches \<le> 500 \<or> \<not> selective) then fold (bump 1) matches s1 else s1)"

definition boost_token :: "trie \<Rightarrow> string \<Rightarrow> trie_scores \<Rightarrow> trie_scores" where
  "boost_token tr t scores =
     map (\<lambda>e. if fst e \<in> set (posting (t_tokens tr) t) then (fst e, snd e + 3) else e) scores"

definition trie_scores_for :: "trie \<Rightarrow> string list \<Rightarrow> trie_scores" where
  "trie_scores_for tr q =
    (let selective = (if 1 < length q then selective_or_terms tr q else q);
         primary = (if selective \<noteq> [] then selective else q);
         ubiquitous = (if selective \<noteq> [] then filter (\<lambda>t. t \<notin> set primary) q else []);
         scores = fold (score_token tr (selective \<noteq> [])) primary []
     in if scores = [] then fold (\<lambda>t. fold (bump 3) (posting (t_tokens tr) t)) ubiquitous []
        else fold (boost_token tr) ubiquitous scores)"

definition path_score :: "string \<Rightarrow> string list \<Rightarrow> trie_doc \<Rightarrow> rat \<Rightarrow> rat" where
  "path_score q_lower q doc sc =
    (let path_lower = (case td_path_lower doc of
           Some p \<Rightarrow> if p = [] then py_lower (td_path doc) else p | None \<Rightarrow> py_lower (td_path doc))
     in if q_lower \<noteq> [] \<and> py_in q_lower path_lower then sc + 4
        else sc + 3 / 2 * of_nat (length (filter (\<lambda>t. py_in t path_lower) q)))"

definition trie_hit ::
  "(int \<times> trie_doc) list \<Rightarrow> string list \<Rightarrow> string list \<Rightarrow> string \<Rightarrow> string list \<Rightarrow> int \<times> rat \<Rightarrow> (rat \<times> int) option" where
  "trie_hit docs excluded agents q_lower q e = (case map_of docs (fst e) of
     None \<Rightarrow> None
   | Some doc \<Rightarrow>
       if (if td_page_status doc = [] then ''candidate'' else td_page_status doc) \<in> set excluded then None
       else if td_privacy doc = ''blocked'' then None
       else if agents \<noteq> [] \<and> td_agent doc \<notin> set agents then None
       else Some (path_score q_lower q doc (snd e), fst e))"

text \<open>\<open>xs[:limit]\<close>.\<close>

definition py_take :: "int \<Rightarrow> 'a list \<Rightarrow> 'a list" where
  "py_take limit xs = (if 0 \<le> limit then take (nat limit) xs else take (length xs - nat (- limit)) xs)"

text \<open>The search on a loaded index: the documents with their negated scores.\<close>

definition search_loaded :: "trie \<Rightarrow> string \<Rightarrow> int \<Rightarrow> pyval \<Rightarrow> string list \<Rightarrow> (trie_doc \<times> int \<times> rat) list" where
  "search_loaded tr query limit agent_filter exclude_statuses = (case t_docs tr of
     None \<Rightarrow> []
   | Some docs \<Rightarrow>
      (let q = tokenize_trie_text query in
       if docs = [] \<or> q = [] then []
       else
         (let agents = (if truthy agent_filter then normalize_agent_filter agent_filter else []);
              scored = List.map_filter (trie_hit docs exclude_statuses agents (py_lower (py_strip query)) q) (trie_scores_for tr q)
          in map (\<lambda>h. (the (map_of docs (snd h)), snd h, - fst h)) (py_take limit (sort_key (\<lambda>h. - fst h) scored)))))"

definition trie_search ::
  "string \<Rightarrow> trie_db option \<Rightarrow> rat \<Rightarrow> rat \<Rightarrow> string \<Rightarrow> int \<Rightarrow> pyval \<Rightarrow> string list \<Rightarrow> trie \<Rightarrow> trie \<times> (trie_doc \<times> int \<times> rat) list" where
  "trie_search sigil db now1 now2 query limit agent_filter exclude_statuses tr =
    (let tr' = ensure_trie_loaded sigil db now1 now2 tr
     in (tr', search_loaded tr' query limit agent_filter exclude_statuses))"

end
