(* ===== verification/Trie_Recall.thy ===== *)
theory Trie_Recall
  imports Trie_Index
begin

text \<open>
  What the token index guarantees: a search shows only stored documents that pass its filters, in
  falling order of score, and a full load makes every unblocked document findable by every word of its
  header; and a defect of the incremental load.
\<close>

section \<open>Postings\<close>

lemma posting_add: "set (posting (add_posting did t m) t') = set (posting m t') \<union> (if t' = t then {did} else {})"
  by (auto simp: add_posting_def posting_def update_conv' split: option.splits)

lemma posting_adds:
  "set (posting (fold (add_posting did) ts m) t) = set (posting m t) \<union> (if t \<in> set ts then {did} else {})"
  by (induction ts arbitrary: m) (auto simp: posting_add)

lemma add_tokens_postings:
  "set (posting (t_tokens (add_tokens cap did ts tr)) t) = set (posting (t_tokens tr) t) \<union> (if t \<in> set ts then {did} else {})"
  "set (posting (t_prefixes (add_tokens cap did ts tr)) t) \<subseteq> insert did (set (posting (t_prefixes tr) t))"
  by (auto simp: add_tokens_def posting_adds)

lemma add_tokens_docs [simp]: "t_docs (add_tokens cap did ts tr) = t_docs tr"
  by (simp add: add_tokens_def)

section \<open>Scores\<close>

lemma bump_keys: "set (map fst (bump w d s)) = insert d (set (map fst s))"
  by (auto simp: bump_def dom_update)

lemma bump_distinct: "distinct (map fst s) \<Longrightarrow> distinct (map fst (bump w d s))"
  by (simp add: bump_def distinct_update)

lemma bumps_keys: "set (map fst (fold (bump w) ds s)) = set ds \<union> set (map fst s)"
  by (induction ds arbitrary: s) (simp_all add: bump_keys del: set_map)

lemma bumps_distinct: "distinct (map fst s) \<Longrightarrow> distinct (map fst (fold (bump w) ds s))"
  by (induction ds arbitrary: s) (simp_all add: bump_distinct)

definition known_ids :: "trie \<Rightarrow> int set \<Rightarrow> bool" where
  "known_ids tr A \<longleftrightarrow> (\<forall>t. set (posting (t_tokens tr) t) \<subseteq> A) \<and> (\<forall>t. set (posting (t_prefixes tr) t) \<subseteq> A)"

lemma score_token_keys:
  "set (posting (t_tokens tr) t) \<union> set (map fst s) \<subseteq> set (map fst (score_token tr b t s))"
  "known_ids tr A \<Longrightarrow> set (map fst s) \<subseteq> A \<Longrightarrow> set (map fst (score_token tr b t s)) \<subseteq> A"
  "distinct (map fst s) \<Longrightarrow> distinct (map fst (score_token tr b t s))"
  by (auto simp: score_token_def Let_def bumps_keys bumps_distinct known_ids_def simp del: set_map)

lemma score_tokens_keys:
  "distinct (map fst s) \<Longrightarrow> distinct (map fst (fold (score_token tr b) ts s))"
  "known_ids tr A \<Longrightarrow> set (map fst s) \<subseteq> A \<Longrightarrow> set (map fst (fold (score_token tr b) ts s)) \<subseteq> A"
  by (induction ts arbitrary: s) (simp_all add: score_token_keys del: set_map)

lemma boost_keys [simp]: "map fst (fold (boost_token tr) ts s) = map fst s"
  by (induction ts arbitrary: s) (auto simp: boost_token_def)

lemma ubiquitous_keys:
  "distinct (map fst s) \<Longrightarrow> distinct (map fst (fold (\<lambda>t. fold (bump w) (posting m t)) ts s))"
  "(\<forall>t. set (posting m t) \<subseteq> A) \<Longrightarrow> set (map fst s) \<subseteq> A \<Longrightarrow>
     set (map fst (fold (\<lambda>t. fold (bump w) (posting m t)) ts s)) \<subseteq> A"
  by (induction ts arbitrary: s) (simp_all add: bumps_distinct bumps_keys del: set_map)

lemma trie_scores_distinct: "distinct (map fst (trie_scores_for tr q))"
  by (simp add: trie_scores_for_def Let_def score_tokens_keys ubiquitous_keys)

lemma trie_scores_known: "known_ids tr A \<Longrightarrow> set (map fst (trie_scores_for tr q)) \<subseteq> A"
  using score_tokens_keys(2)[of tr A "[]"] ubiquitous_keys(2)[of "t_tokens tr" A "[]"]
  by (simp add: trie_scores_for_def Let_def known_ids_def del: set_map)

lemma single_token_found: "did \<in> set (posting (t_tokens tr) t) \<Longrightarrow> did \<in> set (map fst (trie_scores_for tr [t]))"
  using score_token_keys(1)[of tr t "[]" True] by (auto simp: trie_scores_for_def Let_def simp del: set_map)

section \<open>Searching\<close>

lemma trie_hit_Some:
  assumes "trie_hit docs ex ag ql q e = Some h"
  shows "\<exists>doc. map_of docs (snd h) = Some doc \<and> snd h = fst e \<and> td_privacy doc \<noteq> ''blocked'' \<and>
    (if td_page_status doc = [] then ''candidate'' else td_page_status doc) \<notin> set ex \<and>
    (ag \<noteq> [] \<longrightarrow> td_agent doc \<in> set ag)"
proof (cases "map_of docs (fst e)")
  case (Some doc)
  have h: "h = (path_score ql q doc (snd e), fst e)" and ok: "td_privacy doc \<noteq> ''blocked''"
    "(if td_page_status doc = [] then ''candidate'' else td_page_status doc) \<notin> set ex" "ag \<noteq> [] \<longrightarrow> td_agent doc \<in> set ag"
    using assms unfolding trie_hit_def Some option.case by (metis option.inject option.distinct(1))+
  show ?thesis unfolding h snd_conv using Some ok by blast
qed (use assms in \<open>simp add: trie_hit_def\<close>)

lemma py_take_subset: "set (py_take l xs) \<subseteq> set xs"
  by (auto simp: py_take_def dest: in_set_takeD)

lemma length_py_take: "0 \<le> l \<Longrightarrow> int (length (py_take l xs)) \<le> l"
  by (simp add: py_take_def)

lemma py_take_all: "int (length xs) \<le> l \<Longrightarrow> py_take l xs = xs"
  by (simp add: py_take_def)

lemma sorted_wrt_py_take: "sorted_wrt P xs \<Longrightarrow> sorted_wrt P (py_take l xs)"
  by (simp add: py_take_def sorted_wrt_take)

lemma map_py_take: "map f (py_take l xs) = py_take l (map f xs)"
  by (simp add: py_take_def take_map)

lemma distinct_py_take: "distinct xs \<Longrightarrow> distinct (py_take l xs)"
  by (simp add: py_take_def)

lemma map_filter_mem: "h \<in> set (List.map_filter f xs) \<longleftrightarrow> (\<exists>e \<in> set xs. f e = Some h)"
  by (induction xs) (auto simp: List.map_filter_simps split: option.splits)

lemma distinct_hits:
  assumes "distinct (map fst s)"
  shows "distinct (map snd (List.map_filter (trie_hit docs ex ag ql q) s))"
proof -
  have id: "snd h = fst e" if "trie_hit docs ex ag ql q e = Some h" for e h using trie_hit_Some[OF that] by blast
  have sub: "set (map snd (List.map_filter (trie_hit docs ex ag ql q) s)) \<subseteq> set (map fst s)" for s
  proof (induction s)
    case (Cons e s)
    then show ?case by (cases "trie_hit docs ex ag ql q e") (auto simp: List.map_filter_simps id simp del: set_map)
  qed (simp add: List.map_filter_simps)
  show ?thesis using assms
  proof (induction s)
    case (Cons e s)
    then have "fst e \<notin> set (map snd (List.map_filter (trie_hit docs ex ag ql q) s))" using sub[of s] by auto
    then show ?case using Cons
      by (cases "trie_hit docs ex ag ql q e") (simp_all add: List.map_filter_simps id del: set_map)
  qed (simp add: List.map_filter_simps)
qed


lemma search_loaded_cases:
  obtains (none) "search_loaded tr query l af ex = []"
  | (some) docs ag scored where "t_docs tr = Some docs"
      and "ag = (if truthy af then normalize_agent_filter af else [])"
      and "scored = List.map_filter (trie_hit docs ex ag (py_lower (py_strip query)) (tokenize_trie_text query))
             (trie_scores_for tr (tokenize_trie_text query))"
      and "search_loaded tr query l af ex =
             map (\<lambda>h. (the (map_of docs (snd h)), snd h, - fst h)) (py_take l (sort_key (\<lambda>h. - fst h) scored))"
proof (cases "t_docs tr")
  case None
  then show thesis using none by (simp add: search_loaded_def)
next
  case (Some docs)
  show thesis
  proof (cases "docs = [] \<or> tokenize_trie_text query = []")
    case True
    then show thesis using none Some by (auto simp: search_loaded_def)
  next
    case False
    show thesis by (rule some[OF Some refl refl]) (use False in \<open>simp add: search_loaded_def Some Let_def\<close>)
  qed
qed

text \<open>A search shows each document at most once, in falling order of score and at most as many as asked
  for; every document shown is stored under the id shown, is not blocked, has none of the excluded
  statuses and, when an agent filter is given, belongs to one of its agents.\<close>

theorem trie_search_filtered:
  assumes "0 \<le> limit"
  shows "distinct (map (\<lambda>h. fst (snd h)) (search_loaded tr query limit af ex)) \<and>
    sorted_wrt (\<lambda>a b. snd (snd a) \<le> snd (snd b)) (search_loaded tr query limit af ex) \<and>
    int (length (search_loaded tr query limit af ex)) \<le> limit \<and>
    (\<forall>(doc, did, sc) \<in> set (search_loaded tr query limit af ex).
       (\<exists>docs. t_docs tr = Some docs \<and> map_of docs did = Some doc) \<and> td_privacy doc \<noteq> ''blocked'' \<and>
       (if td_page_status doc = [] then ''candidate'' else td_page_status doc) \<notin> set ex \<and>
       (truthy af \<and> normalize_agent_filter af \<noteq> [] \<longrightarrow> td_agent doc \<in> set (normalize_agent_filter af)))"
proof (cases rule: search_loaded_cases[of tr query limit af ex])
  case none
  then show ?thesis using assms by simp
next
  case (some docs ag scored)
  let ?hits = "py_take limit (sort_key (\<lambda>h. - fst h) scored)"
  have "distinct (map snd (sort_key (\<lambda>h. - fst h) scored))"
  proof -
    have "distinct (map snd scored)" unfolding some(3) by (rule distinct_hits[OF trie_scores_distinct])
    then show ?thesis by (simp add: distinct_map)
  qed
  then have "distinct (map snd ?hits)" by (simp add: map_py_take distinct_py_take)
  moreover have "sorted_wrt (\<lambda>a b. - fst a \<le> - fst b) ?hits"
  proof (rule sorted_wrt_py_take)
    have "sorted (map (\<lambda>h. - fst h) (sort_key (\<lambda>h. - fst h) scored))" by simp
    then show "sorted_wrt (\<lambda>a b. - fst a \<le> - fst b) (sort_key (\<lambda>h. - fst h) scored)" unfolding sorted_wrt_map .
  qed
  moreover have "\<exists>doc. map_of docs (snd h) = Some doc \<and> td_privacy doc \<noteq> ''blocked'' \<and>
      (if td_page_status doc = [] then ''candidate'' else td_page_status doc) \<notin> set ex \<and>
      (ag \<noteq> [] \<longrightarrow> td_agent doc \<in> set ag)" if "h \<in> set ?hits" for h
  proof -
    have "h \<in> set scored" using that py_take_subset by fastforce
    then obtain e where "trie_hit docs ex ag (py_lower (py_strip query)) (tokenize_trie_text query) e = Some h"
      unfolding some(3) map_filter_mem by blast
    from trie_hit_Some[OF this] show ?thesis by blast
  qed
  moreover have "int (length ?hits) \<le> limit" by (rule length_py_take[OF assms])
  ultimately show ?thesis unfolding some(4) using some(1,2)
    by (auto simp: sorted_wrt_map o_def) force+
qed


section \<open>Loading\<close>

lemma word_char_lower: "word_char c \<Longrightarrow> py_lower_char c = c"
  by (auto simp: word_char_def py_lower_char_def Let_def)

lemma word_runs_chars: "w \<in> set (word_runs cur s) \<Longrightarrow> list_all word_char cur \<Longrightarrow> list_all word_char w"
  by (induction cur s rule: word_runs.induct) (auto split: if_splits)

lemma word_runs_word: "list_all word_char s \<Longrightarrow> cur @ s \<noteq> [] \<Longrightarrow> word_runs cur s = [rev cur @ s]"
  by (induction s arbitrary: cur) auto

lemma tokenize_token:
  assumes "t \<in> set (tokenize_trie_text s)"
  shows "tokenize_trie_text t = [t]"
proof -
  have t: "list_all word_char t" "2 \<le> length t"
    using assms word_runs_chars[of t "[]"] by (auto simp: tokenize_trie_text_def)
  then have "py_lower t = t" by (auto simp: py_lower_def list_all_iff word_char_lower intro: map_idI)
  moreover have "word_runs [] t = [t]" using word_runs_word[OF t(1), of "[]"] t(2) by fastforce
  ultimately show ?thesis using t(2) by (simp add: tokenize_trie_text_def)
qed

definition row_header :: "string \<Rightarrow> trie_row \<Rightarrow> string" where
  "row_header sigil r = (let doc = doc_of_row sigil True r in
     td_path doc @ '' '' @ td_heading doc @ '' '' @ take 300 (td_chunk_text doc))"

lemma load_row_postings:
  "set (posting (t_tokens (load_row sigil r tr)) t) = set (posting (t_tokens tr) t) \<union>
     (if t \<in> set (tokenize_trie_text (row_header sigil r)) then {rw_doc_id r} else {})"
  "set (posting (t_prefixes (load_row sigil r tr)) t) \<subseteq> insert (rw_doc_id r) (set (posting (t_prefixes tr) t))"
proof -
  show "set (posting (t_tokens (load_row sigil r tr)) t) = set (posting (t_tokens tr) t) \<union>
     (if t \<in> set (tokenize_trie_text (row_header sigil r)) then {rw_doc_id r} else {})"
    by (simp add: load_row_def Let_def add_tokens_postings(1) row_header_def)
  show "set (posting (t_prefixes (load_row sigil r tr)) t) \<subseteq> insert (rw_doc_id r) (set (posting (t_prefixes tr) t))"
    unfolding load_row_def Let_def by (rule order_trans[OF add_tokens_postings(2)]) simp
qed

lemma load_row_docs:
  "t_docs (load_row sigil r tr) = Some (AList.update (rw_doc_id r) (doc_of_row sigil True r)
     (case t_docs tr of None \<Rightarrow> [] | Some ds \<Rightarrow> ds))"
  by (simp add: load_row_def Let_def)

lemma load_rows_known:
  "known_ids tr A \<Longrightarrow> rw_doc_id ` set rows \<subseteq> A \<Longrightarrow> known_ids (fold (load_row sigil) rows tr) A"
proof (induction rows arbitrary: tr)
  case (Cons r rows)
  have "known_ids (load_row sigil r tr) A"
    using Cons.prems load_row_postings(2)[of sigil r tr] by (fastforce simp: known_ids_def load_row_postings(1))
  then show ?case using Cons.IH[of "load_row sigil r tr"] Cons.prems(2) by simp
qed simp

lemma load_rows_found:
  "r \<in> set rows \<Longrightarrow> t \<in> set (tokenize_trie_text (row_header sigil r)) \<Longrightarrow>
     rw_doc_id r \<in> set (posting (t_tokens (fold (load_row sigil) rows tr)) t)"
proof (induction rows rule: rev_induct)
  case (snoc x rows)
  then show ?case by (cases "r = x") (auto simp: load_row_postings(1))
qed simp

lemma load_rows_docs:
  assumes "r \<in> set rows" and "distinct (map rw_doc_id rows)"
  shows "\<exists>ds. t_docs (fold (load_row sigil) rows tr) = Some ds \<and> map_of ds (rw_doc_id r) = Some (doc_of_row sigil True r)"
  using assms
proof (induction rows rule: rev_induct)
  case (snoc x rows)
  show ?case
  proof (cases "r = x")
    case False
    then have "r \<in> set rows" using snoc.prems by auto
    then have "rw_doc_id r \<in> set (map rw_doc_id rows)" by simp
    then have "rw_doc_id r \<noteq> rw_doc_id x" using snoc.prems(2) by auto
    note facts = this \<open>r \<in> set rows\<close>
    then show ?thesis using snoc facts by (auto simp: load_row_docs update_conv')
  qed (simp add: load_row_docs update_conv')
qed simp

lemma full_load:
  assumes "t_docs tr = None" and "db_count_ok db" and "db_select_ok db" and "db_docs db \<noteq> []"
  shows "load_trie sigil db now tr = fold (load_row sigil) (selected_rows db 0)
     (tr\<lparr>t_checked := now, t_docs := Some [], t_tokens := [], t_prefixes := [], t_max := db_max_id db,
        t_count := int (length (db_docs db))\<rparr>)"
  using assms by (simp add: load_trie_def Let_def)

lemma selected_ids: "map rw_doc_id (selected_rows db m) = map (\<lambda>d. rw_doc_id (sd_row d))
    (filter (\<lambda>d. m < rw_doc_id (sd_row d) \<and>
       (case rw_privacy (sd_row d) of None \<Rightarrow> ''safe'' | Some p \<Rightarrow> p) \<noteq> ''blocked'') (db_docs db))"
  by (simp add: selected_rows_def o_def)

lemma selected_not_blocked: "r \<in> set (selected_rows db m) \<Longrightarrow> td_privacy (doc_of_row sigil lp r) \<noteq> ''blocked''"
  by (auto simp: selected_rows_def doc_of_row_def or_text_def split: option.splits if_splits)

text \<open>After a full load, every stored document that is not blocked is found by every word of its
  header (path, heading and the first 300 characters of its text), with any limit that covers the
  store, and is shown as it was stored.\<close>

theorem trie_load_finds:
  assumes "t_docs tr = None" and "db_count_ok db" and "db_select_ok db"
    and "distinct (map (\<lambda>d. rw_doc_id (sd_row d)) (db_docs db))"
    and "r \<in> set (selected_rows db 0)" and "t \<in> set (tokenize_trie_text (row_header sigil r))"
    and "int (length (db_docs db)) \<le> limit"
  shows "\<exists>sc. (doc_of_row sigil True r, rw_doc_id r, sc) \<in> set (search_loaded (load_trie sigil db now tr) t limit PNone [])"
proof -
  define start where "start = tr\<lparr>t_checked := now, t_docs := Some [], t_tokens := [], t_prefixes := [],
      t_max := db_max_id db, t_count := int (length (db_docs db))\<rparr>"
  let ?rows = "selected_rows db 0" and ?tr = "load_trie sigil db now tr"
  have "db_docs db \<noteq> []" using assms(5) by (auto simp: selected_rows_def)
  then have load: "?tr = fold (load_row sigil) ?rows start"
    unfolding start_def by (rule full_load[OF assms(1-3)])
  have "distinct (map rw_doc_id ?rows)" unfolding selected_ids by (rule distinct_map_filter[OF assms(4)])
  from load_rows_docs[OF assms(5) this, of sigil start] obtain ds where ds: "t_docs ?tr = Some ds"
      "map_of ds (rw_doc_id r) = Some (doc_of_row sigil True r)" unfolding load by blast
  have known: "known_ids ?tr (set (map rw_doc_id ?rows))"
    unfolding load by (rule load_rows_known) (simp_all add: known_ids_def start_def posting_def)
  let ?scores = "trie_scores_for ?tr [t]"
  let ?hit = "trie_hit ds [] [] (py_lower (py_strip t)) [t]"
  have "rw_doc_id r \<in> set (posting (t_tokens ?tr) t)" unfolding load by (rule load_rows_found[OF assms(5,6)])
  then obtain w where w: "(rw_doc_id r, w) \<in> set ?scores" using single_token_found[of "rw_doc_id r" ?tr t] by auto
  then have hit: "(path_score (py_lower (py_strip t)) [t] (doc_of_row sigil True r) w, rw_doc_id r) \<in> set (List.map_filter ?hit ?scores)"
    unfolding map_filter_mem
    by (intro bexI[OF _ w]) (simp add: trie_hit_def ds(2) selected_not_blocked[OF assms(5)])
  have "length ?scores \<le> length (db_docs db)"
  proof -
    have "length ?scores = card (set (map fst ?scores))" using distinct_card[OF trie_scores_distinct] by simp
    also have "\<dots> \<le> card (set (map rw_doc_id ?rows))"
      by (rule card_mono[OF _ trie_scores_known[OF known]]) simp
    also have "\<dots> \<le> length (map rw_doc_id ?rows)" by (rule card_length)
    finally show ?thesis by (simp add: selected_rows_def) (meson length_filter_le order_trans)
  qed
  moreover have "length (List.map_filter ?hit ?scores) \<le> length ?scores" by (simp add: List.map_filter_def)
  ultimately have all: "int (length (sort_key (\<lambda>h. - fst h) (List.map_filter ?hit ?scores))) \<le> limit"
    using assms(7) by simp
  have "ds \<noteq> []" using ds(2) by auto
  then have "search_loaded ?tr t limit PNone [] = map (\<lambda>h. (the (map_of ds (snd h)), snd h, - fst h))
      (sort_key (\<lambda>h. - fst h) (List.map_filter ?hit ?scores))"
    using py_take_all[OF all] by (simp add: search_loaded_def ds(1) tokenize_token[OF assms(6)] Let_def)
  then show ?thesis using imageI[OF hit, of "\<lambda>h. (the (map_of ds (snd h)), snd h, - fst h)"] ds(2) by auto
qed


section \<open>A document the incremental load misses\<close>

definition sample_row :: "int \<Rightarrow> string \<Rightarrow> trie_row" where
  "sample_row i path = \<lparr>rw_doc_id = i, rw_path = Some path, rw_agent = Some ''codex'', rw_sigil = None, rw_decay = None,
     rw_chunk_text = None, rw_heading = None, rw_page_status = None, rw_privacy = None, rw_page_type = PNone,
     rw_evidence = PNone, rw_indexed_at = PInt 1, rw_layer = None\<rparr>"

definition sample_db :: "(int \<times> string) list \<Rightarrow> trie_db" where
  "sample_db ds = \<lparr>db_docs = map (\<lambda>d. \<lparr>sd_row = sample_row (fst d) (snd d), sd_chunk0 = [], sd_heading0 = []\<rparr>) ds,
     db_count_ok = True, db_select_ok = True\<rparr>"

text \<open>The store holds document 1; the daemon loads it and indexes document 3 itself, while another writer
  has stored document 2.\<close>

definition trie_at_110 :: trie where
  "trie_at_110 = index_doc_in_trie ''?'' 110 (sample_row 3 ''gamma'')
     (ensure_trie_loaded ''?'' (Some (sample_db [(1, ''alpha'')])) 100 100 new_trie)"

definition store_with_beta :: "trie_db option" where
  "store_with_beta = Some (sample_db [(1, ''alpha''), (2, ''beta''), (3, ''gamma'')])"

definition trie_at_200 :: trie where
  "trie_at_200 = ensure_trie_loaded ''?'' store_with_beta 200 200 trie_at_110"

definition trie_at_300 :: trie where
  "trie_at_300 = ensure_trie_loaded ''?'' store_with_beta 300 300 trie_at_200"

text \<open>Indexing a document raises the watermark of the incremental load past documents that were never
  loaded: a document stored by another writer under a smaller id is missed by the next load and by
  later ones, while a load from scratch finds it.\<close>

theorem trie_misses_document:
  "search_loaded trie_at_200 ''beta'' 10 PNone [] = [] \<and> search_loaded trie_at_300 ''beta'' 10 PNone [] = [] \<and>
   map (\<lambda>h. fst (snd h)) (search_loaded trie_at_300 ''gamma'' 10 PNone []) = [3] \<and>
   map (\<lambda>h. fst (snd h)) (search_loaded (ensure_trie_loaded ''?'' store_with_beta 200 200 new_trie) ''beta'' 10 PNone []) = [2]"
  by code_simp

section \<open>Concrete instances\<close>

lemma trie_search_filtered_witness: "int (length (search_loaded trie_at_300 ''gamma'' 1 PNone [])) \<le> 1"
proof -
  have "(0 :: int) \<le> 1" by simp
  from trie_search_filtered[OF this] show ?thesis by blast
qed

lemma trie_load_finds_witness:
  "\<exists>sc. (doc_of_row ''?'' True (sample_row 1 ''alpha''), 1, sc) \<in>
     set (search_loaded (load_trie ''?'' (sample_db [(1, ''alpha'')]) 5 new_trie) ''alpha'' 1 PNone [])"
proof -
  have h: "t_docs new_trie = None" "db_count_ok (sample_db [(1, ''alpha'')])" "db_select_ok (sample_db [(1, ''alpha'')])"
    "distinct (map (\<lambda>d. rw_doc_id (sd_row d)) (db_docs (sample_db [(1, ''alpha'')])))"
    "sample_row 1 ''alpha'' \<in> set (selected_rows (sample_db [(1, ''alpha'')]) 0)"
    "''alpha'' \<in> set (tokenize_trie_text (row_header ''?'' (sample_row 1 ''alpha'')))"
    "int (length (db_docs (sample_db [(1, ''alpha'')]))) \<le> 1"
    by code_simp+
  have "rw_doc_id (sample_row 1 ''alpha'') = 1" by code_simp
  then show ?thesis using trie_load_finds[OF h, of 5] by simp
qed

end
