(* ===== verification/Afm_Scheduler.thy ===== *)
theory Afm_Scheduler
  imports Ordered_Dict
begin

text \<open>
  The idle scheduler of the AFM loop (\<open>afm_scheduler.py\<close>).

  The schedule is the configuration dict, \<open>to_int\<close> is Python's \<open>int()\<close> (\<open>None\<close> when it raises), clock
  readings are arguments and the compile pass is a parameter of a tick: it may raise.  A value
  \<open>None\<close> of \<open>due_pass\<close> and \<open>tick\<close> is an exception.  The thread that calls \<open>tick\<close> every few seconds is the
  list of operations of \<open>run_ops\<close>; starting and stopping it is not modelled.
\<close>

section \<open>Model\<close>

record scheduler =
  sc_last_activity :: rat
  sc_long_ops :: nat
  sc_last_run :: "(string \<times> rat) list"

definition new_scheduler :: "rat \<Rightarrow> scheduler" where
  "new_scheduler now = \<lparr>sc_last_activity = now, sc_long_ops = 0, sc_last_run = []\<rparr>"

definition mark_activity :: "rat \<Rightarrow> scheduler \<Rightarrow> scheduler" where
  "mark_activity now s = s\<lparr>sc_last_activity := now\<rparr>"

definition begin_long_op :: "scheduler \<Rightarrow> scheduler" where
  "begin_long_op s = s\<lparr>sc_long_ops := Suc (sc_long_ops s)\<rparr>"

definition end_long_op :: "scheduler \<Rightarrow> scheduler" where
  "end_long_op s = s\<lparr>sc_long_ops := sc_long_ops s - 1\<rparr>"

definition schedule_enabled :: "pydict \<Rightarrow> bool" where
  "schedule_enabled schedule = truthy (dget schedule ''enabled'')"

definition last_run :: "scheduler \<Rightarrow> string \<Rightarrow> rat" where
  "last_run s name = (case map_of (sc_last_run s) name of None \<Rightarrow> 0 | Some t \<Rightarrow> t)"

definition pass_interval :: "(pyval \<Rightarrow> int option) \<Rightarrow> pyval \<Rightarrow> int option" where
  "pass_interval to_int cfg = (case py_or cfg (PDict []) of
     PDict c \<Rightarrow> to_int (dget_or c ''interval_seconds'' (PInt 86400))
   | _ \<Rightarrow> None)"

fun overdue_passes ::
  "(pyval \<Rightarrow> int option) \<Rightarrow> rat \<Rightarrow> scheduler \<Rightarrow> pydict \<Rightarrow> (rat \<times> string) list option" where
  "overdue_passes to_int now s [] = Some []"
| "overdue_passes to_int now s ((name, cfg) # passes) = (case pass_interval to_int cfg of
     None \<Rightarrow> None
   | Some interval \<Rightarrow> (case overdue_passes to_int now s passes of
        None \<Rightarrow> None
      | Some rest \<Rightarrow> Some (if now - last_run s name \<ge> of_int interval
          then (now - last_run s name - of_int interval, name) # rest else rest)))"

definition due_pass ::
  "(pyval \<Rightarrow> int option) \<Rightarrow> pydict \<Rightarrow> rat \<Rightarrow> rat \<Rightarrow> scheduler \<Rightarrow> string option option" where
  "due_pass to_int schedule now1 now2 s =
    (if \<not> schedule_enabled schedule then Some None
     else case to_int (dget_or schedule ''idle_seconds'' (PInt 300)) of
       None \<Rightarrow> None
     | Some idle \<Rightarrow>
        if now1 - sc_last_activity s < of_int idle then Some None
        else if sc_long_ops s > 0 then Some None
        else (case py_or (dget schedule ''passes'') (PDict []) of
          PDict passes \<Rightarrow> (case overdue_passes to_int now2 s passes of
             None \<Rightarrow> None
           | Some overdue \<Rightarrow> Some (if overdue = [] then None else Some (snd (hd (rev (sort overdue))))))
        | _ \<Rightarrow> None))"

text \<open>One tick: the pass run, if any, and the new state; \<open>ok\<close> tells whether the pass returns and \<open>finish\<close> is
  the clock after it.\<close>

definition tick ::
  "(pyval \<Rightarrow> int option) \<Rightarrow> pydict \<Rightarrow> rat \<Rightarrow> rat \<Rightarrow> rat \<Rightarrow> bool \<Rightarrow> scheduler \<Rightarrow> scheduler \<times> string option option" where
  "tick to_int schedule now1 now2 finish ok s = (case due_pass to_int schedule now1 now2 s of
     None \<Rightarrow> (s, None)
   | Some None \<Rightarrow> (s, Some None)
   | Some (Some name) \<Rightarrow>
       if name = [] then (s, Some None)
       else if ok then (s\<lparr>sc_last_run := AList.update name finish (sc_last_run s)\<rparr>, Some (Some name))
       else (s, None))"

section \<open>Choosing a pass\<close>

lemma overdue_passes_mem:
  "overdue_passes to_int now s passes = Some ov \<Longrightarrow>
     (d, name) \<in> set ov \<longleftrightarrow> (\<exists>cfg interval. (name, cfg) \<in> set passes \<and> pass_interval to_int cfg = Some interval \<and>
        of_int interval \<le> now - last_run s name \<and> d = now - last_run s name - of_int interval)"
proof (induction passes arbitrary: ov)
  case (Cons e passes)
  obtain n cfg where e: "e = (n, cfg)" by (cases e)
  obtain interval rest where i: "pass_interval to_int cfg = Some interval"
      "overdue_passes to_int now s passes = Some rest"
    using Cons.prems by (auto simp: e split: option.splits)
  have ov: "ov = (if now - last_run s n \<ge> of_int interval
      then (now - last_run s n - of_int interval, n) # rest else rest)"
    using Cons.prems by (simp add: e i)
  show ?case using Cons.IH[OF i(2)] i(1) unfolding ov e by auto
qed simp

lemma hd_rev_sort_max:
  fixes xs :: "(rat \<times> string) list"
  assumes "xs \<noteq> []"
  shows "hd (rev (sort xs)) \<in> set xs" and "\<forall>x \<in> set xs. x \<le> hd (rev (sort xs))"
proof -
  obtain ys y where s: "sort xs = ys @ [y]" using assms by (metis rev_exhaust set_empty set_sort)
  have "set (sort xs) = set xs" "sorted (sort xs)" by simp_all
  then have "set xs = set (ys @ [y])" "sorted (ys @ [y])" unfolding s by simp_all
  then show "hd (rev (sort xs)) \<in> set xs" "\<forall>x \<in> set xs. x \<le> hd (rev (sort xs))"
    unfolding s by (auto simp: sorted_append)
qed

definition due :: "(pyval \<Rightarrow> int option) \<Rightarrow> pydict \<Rightarrow> rat \<Rightarrow> scheduler \<Rightarrow> string \<Rightarrow> rat \<Rightarrow> bool" where
  "due to_int passes now s name d \<longleftrightarrow> (\<exists>cfg interval. (name, cfg) \<in> set passes \<and>
     pass_interval to_int cfg = Some interval \<and> of_int interval \<le> now - last_run s name \<and>
     d = now - last_run s name - of_int interval)"

lemma due_pass_Some:
  assumes "due_pass to_int schedule now1 now2 s = Some (Some name)"
  obtains idle passes d where "schedule_enabled schedule"
    and "to_int (dget_or schedule ''idle_seconds'' (PInt 300)) = Some idle"
    and "of_int idle \<le> now1 - sc_last_activity s" and "sc_long_ops s = 0"
    and "py_or (dget schedule ''passes'') (PDict []) = PDict passes"
    and "due to_int passes now2 s name d"
    and "\<forall>name' d'. due to_int passes now2 s name' d' \<longrightarrow> d' \<le> d"
proof -
  obtain idle where idle: "schedule_enabled schedule" "to_int (dget_or schedule ''idle_seconds'' (PInt 300)) = Some idle"
      "of_int idle \<le> now1 - sc_last_activity s" "sc_long_ops s = 0"
    using assms by (auto simp: due_pass_def not_less split: if_splits option.splits)
  then obtain passes ov where p: "py_or (dget schedule ''passes'') (PDict []) = PDict passes"
      "overdue_passes to_int now2 s passes = Some ov" "ov \<noteq> []" "name = snd (hd (rev (sort ov)))"
    using assms by (auto simp: due_pass_def split: pyval.splits option.splits if_splits)
  obtain d where d: "hd (rev (sort ov)) = (d, name)" using p(4) by (metis prod.collapse)
  have "due to_int passes now2 s name d"
    using hd_rev_sort_max(1)[OF p(3)] overdue_passes_mem[OF p(2)] unfolding due_def d by blast
  moreover have "d' \<le> d" if "due to_int passes now2 s name' d'" for name' d'
  proof -
    have "(d', name') \<in> set ov" using that overdue_passes_mem[OF p(2)] unfolding due_def by blast
    then show ?thesis using hd_rev_sort_max(2)[OF p(3)] unfolding d by (force simp: less_eq_prod_def)
  qed
  ultimately show thesis using that idle p(1) by blast
qed


lemma tick_ran:
  assumes "tick to_int schedule now1 now2 finish ok s = (s', Some (Some name))"
  shows "due_pass to_int schedule now1 now2 s = Some (Some name)"
    and "s' = s\<lparr>sc_last_run := AList.update name finish (sc_last_run s)\<rparr>"
  using assms by (auto simp: tick_def split: option.splits if_splits)

text \<open>A tick runs a pass only when the loop is enabled, the daemon has been idle for the configured
  time and no long operation is open; the pass has been waiting at least its interval since its last
  run, no other pass is more overdue, and the run is recorded at its end.\<close>

theorem tick_runs_most_overdue_when_idle:
  assumes "tick to_int schedule now1 now2 finish ok s = (s', Some (Some name))"
  shows "schedule_enabled schedule \<and> sc_long_ops s = 0 \<and>
    (\<exists>idle. to_int (dget_or schedule ''idle_seconds'' (PInt 300)) = Some idle \<and> of_int idle \<le> now1 - sc_last_activity s) \<and>
    (\<exists>passes d. py_or (dget schedule ''passes'') (PDict []) = PDict passes \<and> due to_int passes now2 s name d \<and>
       (\<forall>name' d'. due to_int passes now2 s name' d' \<longrightarrow> d' \<le> d)) \<and>
    last_run s' name = finish"
proof -
  have "last_run s' name = finish" unfolding tick_ran(2)[OF assms] by (simp add: last_run_def update_conv')
  then show ?thesis using due_pass_Some[OF tick_ran(1)[OF assms]] by metis
qed

section \<open>Runs of the scheduler\<close>

datatype sched_op = MarkActivity rat | BeginOp | EndOp | Tick rat rat rat bool

type_synonym pass_log = "(string \<times> rat \<times> rat) list"

text \<open>The log of the passes run: name, start and end.\<close>

fun sched_step :: "(pyval \<Rightarrow> int option) \<Rightarrow> pydict \<Rightarrow> sched_op \<Rightarrow> scheduler \<times> pass_log \<Rightarrow> scheduler \<times> pass_log" where
  "sched_step to_int schedule (MarkActivity t) (s, runs) = (mark_activity t s, runs)"
| "sched_step to_int schedule BeginOp (s, runs) = (begin_long_op s, runs)"
| "sched_step to_int schedule EndOp (s, runs) = (end_long_op s, runs)"
| "sched_step to_int schedule (Tick now1 now2 finish ok) (s, runs) =
     (case tick to_int schedule now1 now2 finish ok s of
        (s', Some (Some name)) \<Rightarrow> (s', runs @ [(name, now2, finish)])
      | (s', _) \<Rightarrow> (s', runs))"

definition run_ops :: "(pyval \<Rightarrow> int option) \<Rightarrow> pydict \<Rightarrow> sched_op list \<Rightarrow> rat \<Rightarrow> scheduler \<times> pass_log" where
  "run_ops to_int schedule ops start = fold (sched_step to_int schedule) ops (new_scheduler start, [])"

text \<open>The end of the last run of a pass, 0 if it never ran.\<close>

definition last_finish :: "pass_log \<Rightarrow> string \<Rightarrow> rat" where
  "last_finish runs name = (case map_of (rev (map (\<lambda>e. (fst e, snd (snd e))) runs)) name of None \<Rightarrow> 0 | Some t \<Rightarrow> t)"

fun spaced :: "(pyval \<Rightarrow> int option) \<Rightarrow> pydict \<Rightarrow> pass_log \<Rightarrow> pass_log \<Rightarrow> bool" where
  "spaced to_int passes before [] = True"
| "spaced to_int passes before (e # es) =
     ((case map_of passes (fst e) of
         None \<Rightarrow> False
       | Some cfg \<Rightarrow> (case pass_interval to_int cfg of
            None \<Rightarrow> False | Some interval \<Rightarrow> of_int interval \<le> fst (snd e) - last_finish before (fst e))) \<and>
      spaced to_int passes (before @ [e]) es)"

lemma spaced_append: "spaced to_int passes b (xs @ ys) \<longleftrightarrow> spaced to_int passes b xs \<and> spaced to_int passes (b @ xs) ys"
  by (induction xs arbitrary: b) auto

lemma last_finish_snoc [simp]: "last_finish (runs @ [(n, st, f)]) name = (if name = n then f else last_finish runs name)"
  by (simp add: last_finish_def)

definition log_inv :: "(pyval \<Rightarrow> int option) \<Rightarrow> pydict \<Rightarrow> scheduler \<times> pass_log \<Rightarrow> bool" where
  "log_inv to_int passes r \<longleftrightarrow> (\<forall>n. last_run (fst r) n = last_finish (snd r) n) \<and> spaced to_int passes [] (snd r)"

lemma log_inv_step:
  assumes "log_inv to_int passes r" and "py_or (dget schedule ''passes'') (PDict []) = PDict passes"
    and "distinct (map fst passes)"
  shows "log_inv to_int passes (sched_step to_int schedule op r)"
proof (cases op)
  case (Tick now1 now2 finish ok)
  obtain s runs where r: "r = (s, runs)" by (cases r)
  show ?thesis
  proof (cases "\<exists>name. snd (tick to_int schedule now1 now2 finish ok s) = Some (Some name)")
    case True
    then obtain s' name where t: "tick to_int schedule now1 now2 finish ok s = (s', Some (Some name))"
      by (metis prod.collapse)
    obtain d where "due to_int passes now2 s name d"
      using due_pass_Some[OF tick_ran(1)[OF t]] assms(2) by (metis pyval.inject(6))
    then obtain cfg interval where c: "map_of passes name = Some cfg" "pass_interval to_int cfg = Some interval"
        "of_int interval \<le> now2 - last_run s name"
      using assms(3) by (auto simp: due_def)
    have "last_run s' n = (if n = name then finish else last_run s n)" for n
      unfolding tick_ran(2)[OF t] by (simp add: last_run_def update_conv')
    then show ?thesis using assms(1) c by (simp add: log_inv_def Tick r t spaced_append)
  next
    case False
    then have "fst (tick to_int schedule now1 now2 finish ok s) = s"
      by (auto simp: tick_def split: option.splits if_splits)
    then have "sched_step to_int schedule op r = r" using False
      by (auto simp: Tick r split: prod.splits option.splits)
    then show ?thesis using assms(1) by simp
  qed
qed (use assms(1) in \<open>cases r; auto simp: log_inv_def last_run_def mark_activity_def begin_long_op_def end_long_op_def\<close>)+

text \<open>C31: Whatever ticks, activity and long operations happen, every run of a pass starts at least the
  pass's interval after the end of its previous run.\<close>

theorem passes_are_spaced:
  assumes "py_or (dget schedule ''passes'') (PDict []) = PDict passes" and "distinct (map fst passes)"
  shows "spaced to_int passes [] (snd (run_ops to_int schedule ops start))"
proof -
  have "log_inv to_int passes r \<Longrightarrow> log_inv to_int passes (fold (sched_step to_int schedule) ops r)" for r
    by (induction ops arbitrary: r) (simp_all add: log_inv_step[OF _ assms])
  moreover have "log_inv to_int passes (new_scheduler start, [])"
    by (simp add: log_inv_def new_scheduler_def last_run_def last_finish_def)
  ultimately show ?thesis by (auto simp: run_ops_def log_inv_def)
qed

section \<open>Concrete instances\<close>

definition plain_int :: "pyval \<Rightarrow> int option" where
  "plain_int v = (case v of PInt i \<Rightarrow> Some i | _ \<Rightarrow> None)"

definition sample_schedule :: pydict where
  "sample_schedule = [(''enabled'', PBool True), (''idle_seconds'', PInt 10),
     (''passes'', PDict [(''hygiene'', PDict [(''interval_seconds'', PInt 60)]), (''digest'', PDict [(''interval_seconds'', PInt 30)])])]"

lemma tick_runs_most_overdue_when_idle_witness:
  "\<exists>s'. tick plain_int sample_schedule 100 100 101 True (new_scheduler 0) = (s', Some (Some ''digest'')) \<and> last_run s' ''digest'' = 101"
proof -
  have "snd (tick plain_int sample_schedule 100 100 101 True (new_scheduler 0)) = Some (Some ''digest'')" by code_simp
  then obtain s' where t: "tick plain_int sample_schedule 100 100 101 True (new_scheduler 0) = (s', Some (Some ''digest''))"
    by (metis prod.collapse)
  show ?thesis using t tick_runs_most_overdue_when_idle[OF t] by blast
qed

lemma passes_are_spaced_witness:
  "spaced plain_int (dict_of_val (dget sample_schedule ''passes'')) []
     (snd (run_ops plain_int sample_schedule [Tick 100 100 101 True, Tick 102 102 103 True, Tick 140 140 141 True] 0))"
proof -
  have "py_or (dget sample_schedule ''passes'') (PDict []) = PDict (dict_of_val (dget sample_schedule ''passes''))"
    "distinct (map fst (dict_of_val (dget sample_schedule ''passes'')))" by code_simp+
  from passes_are_spaced[OF this] show ?thesis .
qed

end
