(* ===== verification/Request_Deadline.thy ===== *)
theory Request_Deadline
  imports Py_Values
begin

text \<open>
  Cooperative request budgets (\<open>request_deadline.py\<close>) and the budget of one SQLite call
  (\<open>_BudgetConnection.request_operation\<close> of \<open>db.py\<close>).

  The three context variables are the record \<open>request_ctx\<close>; a query memo is an object shared by
  reference, so a context holds its address and \<open>rq_memos\<close> is the store of memo objects.  The body of
  a \<open>with\<close> block is a function from the state to its outcome (an exception or a value) and the state
  it leaves; the exit of the block runs in both cases.  Clock readings are arguments.
\<close>

section \<open>State\<close>

record request_ctx =
  rc_deadline :: "rat option"
  rc_allow_expired :: bool
  rc_cache :: "nat option"

record 'v request_state =
  rq_ctx :: request_ctx
  rq_memos :: "(string \<times> 'v) list list"

datatype request_error = DeadlineExceeded | BadDeadline | OtherError string

type_synonym ('v, 'a) body = "'v request_state \<Rightarrow> (request_error + 'a) \<times> 'v request_state"

definition no_request :: request_ctx where
  "no_request = \<lparr>rc_deadline = None, rc_allow_expired = False, rc_cache = None\<rparr>"

section \<open>The query memo\<close>

text \<open>
  \<open>_QueryEmbedMemo\<close>.  A vector is \<open>None\<close> or a value; \<open>vsize\<close> reads its \<open>size\<close> attribute, \<open>None\<close> when it
  has none.  The copies that are stored and returned are values here.
\<close>

definition memo_get :: "(string \<times> 'v) list \<Rightarrow> string \<Rightarrow> 'v option" where
  "memo_get m query = map_of m query"

definition memo_set :: "('v \<Rightarrow> int option) \<Rightarrow> string \<Rightarrow> 'v option \<Rightarrow> (string \<times> 'v) list \<Rightarrow> (string \<times> 'v) list" where
  "memo_set vsize query vec m =
    (case vec of None \<Rightarrow> m
     | Some v \<Rightarrow> if vsize v = Some 0 then m else AList.update query v m)"

section \<open>The budget\<close>

definition remaining_seconds :: "rat \<Rightarrow> request_ctx \<Rightarrow> rat option" where
  "remaining_seconds now c = (case rc_deadline c of None \<Rightarrow> None | Some d \<Rightarrow> Some (max 0 (d - now)))"

definition check_deadline :: "rat \<Rightarrow> request_ctx \<Rightarrow> request_error + rat option" where
  "check_deadline now c = (case remaining_seconds now c of
     None \<Rightarrow> Inr None
   | Some r \<Rightarrow> if r \<le> 0 then Inl DeadlineExceeded else Inr (Some r))"

text \<open>\<open>math.isfinite\<close> of an \<open>int\<close> raises \<open>OverflowError\<close> when the integer has no nearest float.\<close>

definition int_overflows :: "int \<Rightarrow> bool" where
  "int_overflows i \<longleftrightarrow> 2 ^ 1024 - 2 ^ 970 \<le> \<bar>i\<bar>"

text \<open>The deadline a caller passes: \<open>Some None\<close> is \<open>None\<close>, \<open>None\<close> is refused.\<close>

definition deadline_arg :: "pyval \<Rightarrow> rat option option" where
  "deadline_arg v = (case v of
     PNone \<Rightarrow> Some None
   | PInt i \<Rightarrow> if int_overflows i then None else Some (Some (of_int i))
   | PFloat (Fin q) _ \<Rightarrow> Some (Some q)
   | _ \<Rightarrow> None)"

definition effective_deadline :: "rat option \<Rightarrow> rat option \<Rightarrow> rat option" where
  "effective_deadline deadline previous = (case previous of
     None \<Rightarrow> deadline
   | Some p \<Rightarrow> (case deadline of None \<Rightarrow> Some p | Some d \<Rightarrow> Some (min p d)))"

text \<open>\<open>with allow_expired_sql():\<close>\<close>

definition allow_expired_sql :: "('v, 'a) body \<Rightarrow> ('v, 'a) body" where
  "allow_expired_sql body s =
    (let (r, s') = body (s\<lparr>rq_ctx := (rq_ctx s)\<lparr>rc_allow_expired := True\<rparr>\<rparr>)
     in (r, s'\<lparr>rq_ctx := (rq_ctx s')\<lparr>rc_allow_expired := rc_allow_expired (rq_ctx s)\<rparr>\<rparr>))"

text \<open>\<open>with request_deadline(deadline):\<close> a memo is created only when no enclosing block has one.\<close>

definition enter_memo :: "'v request_state \<Rightarrow> 'v request_state" where
  "enter_memo s = (case rc_cache (rq_ctx s) of
     Some _ \<Rightarrow> s
   | None \<Rightarrow> s\<lparr>rq_ctx := (rq_ctx s)\<lparr>rc_cache := Some (length (rq_memos s))\<rparr>, rq_memos := rq_memos s @ [[]]\<rparr>)"

definition enter_deadline :: "rat option \<Rightarrow> 'v request_state \<Rightarrow> 'v request_state" where
  "enter_deadline d s = enter_memo (s\<lparr>rq_ctx :=
     (rq_ctx s)\<lparr>rc_deadline := effective_deadline d (rc_deadline (rq_ctx s))\<rparr>\<rparr>)"

definition leave_deadline :: "'v request_state \<Rightarrow> 'v request_state \<Rightarrow> 'v request_state" where
  "leave_deadline before s = s\<lparr>rq_ctx := (rq_ctx s)\<lparr>rc_deadline := rc_deadline (rq_ctx before),
     rc_cache := (if rc_cache (rq_ctx before) = None then None else rc_cache (rq_ctx s))\<rparr>\<rparr>"

definition request_deadline :: "pyval \<Rightarrow> ('v, 'a) body \<Rightarrow> ('v, 'a) body" where
  "request_deadline deadline body s = (case deadline_arg deadline of
     None \<Rightarrow> (Inl BadDeadline, s)
   | Some d \<Rightarrow> (let (r, s') = body (enter_deadline d s) in (r, leave_deadline s s')))"

text \<open>
  \<open>bind_copied_deadline\<close> and \<open>run_bound\<close>: the context of the submitting thread is copied at the call,
  the worker runs the function in the copy and gets its own context back.
\<close>

definition bind_copied_deadline :: "'v request_state \<Rightarrow> ('v, 'a) body \<Rightarrow> ('v, 'a) body" where
  "bind_copied_deadline submitter fn worker =
    (let (r, s') = fn (worker\<lparr>rq_ctx := rq_ctx submitter\<rparr>) in (r, s'\<lparr>rq_ctx := rq_ctx worker\<rparr>))"

text \<open>
  \<open>with budgeted_lock(lock):\<close> \<open>acquire\<close> says whether the lock answers to a way of asking for it, the
  flag of the result whether the body ran with the lock held (it is released in every case).
\<close>

datatype lock_request = WaitForever | NoWait | WaitUpTo rat

definition budgeted_lock ::
  "rat \<Rightarrow> (lock_request \<Rightarrow> bool) \<Rightarrow> ('v, 'a) body \<Rightarrow> 'v request_state \<Rightarrow> ((request_error + 'a) \<times> 'v request_state) \<times> bool" where
  "budgeted_lock now acquire body s =
    (let ask = (case remaining_seconds now (rq_ctx s) of
        None \<Rightarrow> Some WaitForever
      | Some r \<Rightarrow> if r \<le> 0 then (if rc_allow_expired (rq_ctx s) then Some NoWait else None)
                  else Some (WaitUpTo r))
     in case ask of
          None \<Rightarrow> ((Inl DeadlineExceeded, s), False)
        | Some req \<Rightarrow> if \<not> acquire req then ((Inl DeadlineExceeded, s), False) else (body s, True))"

text \<open>
  One SQLite call under \<open>request_operation\<close>: the entry check, then the call, and an
  \<open>OperationalError\<close> after the deadline reported as the deadline.  \<open>t0\<close> and \<open>t1\<close> are the clock before
  and after the call; \<open>operational\<close> tells an \<open>OperationalError\<close> from other failures.
\<close>

datatype sql_outcome = SqlOk | SqlOperational | SqlOther

definition request_operation :: "rat \<Rightarrow> rat \<Rightarrow> sql_outcome \<Rightarrow> request_ctx \<Rightarrow> request_error + unit" where
  "request_operation t0 t1 outcome c =
    (case rc_deadline c of
       None \<Rightarrow> (if outcome = SqlOk then Inr () else Inl (OtherError ''sqlite''))
     | Some d \<Rightarrow>
        if max 0 (d - t0) \<le> 0 \<and> \<not> rc_allow_expired c then Inl DeadlineExceeded
        else (case outcome of
            SqlOk \<Rightarrow> Inr ()
          | SqlOther \<Rightarrow> Inl (OtherError ''sqlite'')
          | SqlOperational \<Rightarrow> (case check_deadline t1 c of
               Inl e \<Rightarrow> Inl e | Inr _ \<Rightarrow> Inl (OtherError ''sqlite''))))"

section \<open>What the budget guarantees\<close>

lemma effective_le:
  "effective_deadline d p = Some e \<Longrightarrow> (\<forall>x. d = Some x \<longrightarrow> e \<le> x) \<and> (\<forall>x. p = Some x \<longrightarrow> e \<le> x)"
  by (auto simp: effective_deadline_def split: option.splits)

lemma check_deadline_iff: "check_deadline now c = Inl e \<longleftrightarrow> e = DeadlineExceeded \<and> (\<exists>d. rc_deadline c = Some d \<and> d \<le> now)"
  by (auto simp: check_deadline_def remaining_seconds_def split: option.splits)

lemma enter_deadline_ctx [simp]:
  "rc_deadline (rq_ctx (enter_deadline d s)) = effective_deadline d (rc_deadline (rq_ctx s))"
  "rc_allow_expired (rq_ctx (enter_deadline d s)) = rc_allow_expired (rq_ctx s)"
  "rc_cache (rq_ctx (enter_deadline d s)) \<noteq> None"
  "rc_cache (rq_ctx s) = Some a \<Longrightarrow> rc_cache (rq_ctx (enter_deadline d s)) = Some a"
  by (auto simp: enter_deadline_def enter_memo_def split: option.splits)

text \<open>The body in a nest of blocks, outermost first.\<close>

fun nested :: "pyval list \<Rightarrow> ('v, 'a) body \<Rightarrow> ('v, 'a) body" where
  "nested [] body = body"
| "nested (d # ds) body = request_deadline d (nested ds body)"

fun enter_all :: "rat option list \<Rightarrow> 'v request_state \<Rightarrow> 'v request_state" where
  "enter_all [] s = s"
| "enter_all (d # ds) s = enter_all ds (enter_deadline d s)"

lemma fst_request_deadline: "deadline_arg d = Some e \<Longrightarrow> fst (request_deadline d body s) = fst (body (enter_deadline e s))"
  by (simp add: request_deadline_def Let_def split: prod.splits)

lemma nested_runs_body:
  assumes "map deadline_arg ds = map Some es"
  shows "fst (nested ds body s) = fst (body (enter_all es s))"
  using assms
proof (induction ds arbitrary: es s)
  case (Cons d ds)
  then obtain e es' where es: "es = e # es'" "deadline_arg d = Some e" "map deadline_arg ds = map Some es'"
    by (cases es) auto
  then show ?case using Cons.IH[OF es(3)] by (simp add: fst_request_deadline)
qed simp

lemma enter_all_le:
  assumes "x \<in> set (rc_deadline (rq_ctx s) # es)" and "x = Some d"
  shows "\<exists>e. rc_deadline (rq_ctx (enter_all es s)) = Some e \<and> e \<le> d"
  using assms
proof (induction es arbitrary: s x d)
  case (Cons e0 es)
  let ?s = "enter_deadline e0 s"
  show ?case
  proof (cases "x \<in> set es")
    case True
    then show ?thesis using Cons.IH[of x ?s d] Cons.prems by simp
  next
    case False
    then have x: "x = rc_deadline (rq_ctx s) \<or> x = e0" using Cons.prems by auto
    have "\<exists>e1. rc_deadline (rq_ctx ?s) = Some e1 \<and> e1 \<le> d"
      using x Cons.prems(2) by (auto simp: effective_deadline_def split: option.splits)
    then obtain e1 where "rc_deadline (rq_ctx ?s) = Some e1" "e1 \<le> d" by blast
    then show ?thesis using Cons.IH[of "Some e1" ?s e1] by force
  qed
next
  case Nil
  then have "rc_deadline (rq_ctx s) = Some d" by simp
  then show ?case by simp
qed

lemma enter_all_mem: "rc_deadline (rq_ctx (enter_all es s)) \<in> insert (rc_deadline (rq_ctx s)) (set es)"
proof (induction es arbitrary: s)
  case (Cons e es)
  have "rc_deadline (rq_ctx (enter_deadline e s)) \<in> {rc_deadline (rq_ctx s), e}"
    by (auto simp: effective_deadline_def min_def split: option.splits)
  then show ?case using Cons.IH[of "enter_deadline e s"] by auto
qed simp

lemma request_deadline_restores:
  "let s' = snd (request_deadline d body s) in
     rc_deadline (rq_ctx s') = rc_deadline (rq_ctx s) \<and>
     (rc_cache (rq_ctx s) = None \<longrightarrow> rc_cache (rq_ctx s') = None)"
  by (auto simp: request_deadline_def leave_deadline_def Let_def split: option.splits prod.splits)

text \<open>A body whose first act is \<open>check_deadline\<close>.\<close>

definition checked :: "rat \<Rightarrow> ('v, 'a) body \<Rightarrow> ('v, 'a) body" where
  "checked now work s = (case check_deadline now (rq_ctx s) of Inl e \<Rightarrow> (Inl e, s) | Inr _ \<Rightarrow> work s)"

lemma fst_checked:
  "fst (checked now work s) =
    (if \<exists>d. rc_deadline (rq_ctx s) = Some d \<and> d \<le> now then Inl DeadlineExceeded else fst (work s))"
  by (cases "rc_deadline (rq_ctx s)") (auto simp: checked_def check_deadline_def remaining_seconds_def)

text \<open>However requests nest, the work inside starts only before the earliest of all the deadlines
  around it, also where expired SQL is allowed: no block extends an enclosing budget, and when the outermost
  block is left, normally or by an exception, the deadline of before is back.\<close>

theorem nested_budget:
  assumes args: "map deadline_arg (v # vs) = map Some es"
  shows "fst (nested (v # vs) (checked now work) s) =
      (if \<exists>d \<le> now. Some d \<in> insert (rc_deadline (rq_ctx s)) (set es) then Inl DeadlineExceeded
       else fst (work (enter_all es s))) \<and>
    rc_deadline (rq_ctx (snd (nested (v # vs) (checked now work) s))) = rc_deadline (rq_ctx s)"
proof
  let ?c = "rq_ctx (enter_all es s)"
  have "(\<exists>d \<le> now. Some d \<in> insert (rc_deadline (rq_ctx s)) (set es)) \<longleftrightarrow> (\<exists>d. rc_deadline ?c = Some d \<and> d \<le> now)"
    (is "?L \<longleftrightarrow> ?R")
  proof
    assume ?L
    then obtain d where "d \<le> now" "Some d \<in> set (rc_deadline (rq_ctx s) # es)" by auto
    then show ?R using enter_all_le[of "Some d" s es d] order_trans by blast
  next
    assume ?R
    then show ?L using enter_all_mem[of es s] by metis
  qed
  moreover have "fst (checked now work (enter_all es s)) =
      (if \<exists>d. rc_deadline ?c = Some d \<and> d \<le> now then Inl DeadlineExceeded else fst (work (enter_all es s)))"
    by (rule fst_checked)
  ultimately show "fst (nested (v # vs) (checked now work) s) =
      (if \<exists>d \<le> now. Some d \<in> insert (rc_deadline (rq_ctx s)) (set es) then Inl DeadlineExceeded
       else fst (work (enter_all es s)))"
    by (simp only: nested_runs_body[OF args])
  show "rc_deadline (rq_ctx (snd (nested (v # vs) (checked now work) s))) = rc_deadline (rq_ctx s)"
    using request_deadline_restores[of v "nested vs (checked now work)" s] by (simp add: Let_def)
qed

text \<open>The query memo: the legs of one request share it, and it is gone after the request.\<close>

lemma memo_shared:
  assumes "rc_cache (rq_ctx s) = Some a" and "deadline_arg d = Some e"
  shows "request_deadline d body s = (let (r, s') = body (enter_deadline e s) in
           (r, s'\<lparr>rq_ctx := (rq_ctx s')\<lparr>rc_deadline := rc_deadline (rq_ctx s)\<rparr>\<rparr>))"
    and "rc_cache (rq_ctx (enter_deadline e s)) = Some a" and "rq_memos (enter_deadline e s) = rq_memos s"
  using assms by (auto simp: request_deadline_def leave_deadline_def enter_deadline_def enter_memo_def
    split: prod.splits)

lemma memo_get_set: "vsize v \<noteq> Some 0 \<Longrightarrow> memo_get (memo_set vsize q (Some v) m) q' = (if q = q' then Some v else memo_get m q')"
  by (simp add: memo_get_def memo_set_def update_conv')

text \<open>A call that starts after the deadline does not start, and one interrupted by it says so.\<close>

lemma request_operation_expired:
  "rc_deadline c = Some d \<Longrightarrow> d \<le> t0 \<Longrightarrow> \<not> rc_allow_expired c \<Longrightarrow> request_operation t0 t1 oc c = Inl DeadlineExceeded"
  "rc_deadline c = Some d \<Longrightarrow> d \<le> t1 \<Longrightarrow> request_operation t0 t1 SqlOperational c = Inl DeadlineExceeded"
  "rc_deadline c = Some d \<Longrightarrow> t0 < d \<Longrightarrow> request_operation t0 t1 SqlOk c = Inr ()"
  by (auto simp: request_operation_def check_deadline_def remaining_seconds_def)

lemma nested_budget_witness:
  "fst (nested [PInt 20, PNone, PInt 5] (checked 7 (\<lambda>s. (Inr (), s)))
     \<lparr>rq_ctx = no_request, rq_memos = ([] :: (string \<times> nat) list list)\<rparr>) = Inl DeadlineExceeded"
proof -
  have "map deadline_arg [PInt 20, PNone, PInt 5] = map Some [Some 20, None, Some 5]"
    by (simp add: deadline_arg_def int_overflows_def)
  from nested_budget[OF this, of 7 "\<lambda>s. (Inr (), s)" "\<lparr>rq_ctx = no_request, rq_memos = []\<rparr>"]
  show ?thesis by (auto split: if_splits dest: spec[of _ 5])
qed

end
