(* ===== verification/Graph_Expansion.thy ===== *)
theory Graph_Expansion
  imports Identity_Gate Request_Deadline
begin

text \<open>
  Expansion of ranked seeds over the typed memory graph (\<open>graph_expansion.py\<close>).

  The read snapshot is \<open>graph_store\<close>: the rows of \<open>documents\<close>, \<open>memory_links\<close> and \<open>chunk_embeddings\<close> that
  the three queries see (text columns are \<open>string option\<close>, the numeric columns of a link are values as
  SQLite returns them), the real path of the main database file and the verdict of the schema check.
  Time and the database are the environment: \<open>ge_time k\<close> is the k-th reading of the clock, \<open>ge_sql k\<close> the
  outcome of the SQLite call made at reading k, \<open>ge_cleanup\<close> whether the rollback of the snapshot
  succeeds.  The run state counts the readings and logs the documents whose text was asked for.
  Scores and times are rationals; an integer score, weight or deadline is taken to be exactly
  representable as a float.
\<close>

section \<open>Constants\<close>

definition TYPE_FACTORS :: "(string \<times> rat) list" where
  "TYPE_FACTORS = [(''updates'', 1), (''contradicts'', 95 / 100), (''extends'', 85 / 100),
     (''derived_from'', 75 / 100), (''wikilink'', 70 / 100), (''relates'', 55 / 100)]"

definition ALLOWED_LINK_TYPES :: "string list" where
  "ALLOWED_LINK_TYPES = map fst TYPE_FACTORS"

definition TWO_HOP_TYPES :: "string list" where
  "TWO_HOP_TYPES = [''updates'', ''extends'', ''derived_from'']"

definition HOP_DECAY :: rat where "HOP_DECAY = 65 / 100"
definition MAX_SEEDS :: nat where "MAX_SEEDS = 8"
definition MAX_NEIGHBORS_PER_SEED :: nat where "MAX_NEIGHBORS_PER_SEED = 6"
definition MAX_GRAPH_CANDIDATES :: nat where "MAX_GRAPH_CANDIDATES = 12"
definition EDGE_PAGE_SIZE :: nat where "EDGE_PAGE_SIZE = 32"

definition CLOSED_PAGE_STATUSES :: "string list" where
  "CLOSED_PAGE_STATUSES = [''draft'', ''expired'', ''rejected'', ''superseded'']"

section \<open>The store\<close>

record doc_row =
  dr_doc_id :: int
  dr_path :: "string option"
  dr_agent :: "string option"
  dr_sigil :: "string option"
  dr_privacy_level :: "string option"
  dr_page_status :: "string option"
  dr_page_type :: "string option"
  dr_memory_kind :: "string option"

record link_row =
  lk_source :: int
  lk_target :: int
  lk_type :: string
  lk_weight :: pyval
  lk_confidence :: pyval
  lk_edge_status :: "string option"
  lk_run_id :: pyval
  lk_model_id :: pyval
  lk_method :: pyval

record chunk_row =
  ck_chunk_id :: int
  ck_doc_id :: int
  ck_index :: int
  ck_text :: "string option"
  ck_heading :: "string option"

record graph_store =
  gs_docs :: "doc_row list"
  gs_links :: "link_row list"
  gs_chunks :: "chunk_row list"
  gs_main_file :: "string option"
  gs_schema_ready :: bool

datatype link_direction = Outgoing | Incoming

text \<open>The seed's column and the neighbor's column of a link.\<close>

definition seed_col :: "link_direction \<Rightarrow> link_row \<Rightarrow> int" where
  "seed_col dir l = (case dir of Outgoing \<Rightarrow> lk_source l | Incoming \<Rightarrow> lk_target l)"

definition neighbor_col :: "link_direction \<Rightarrow> link_row \<Rightarrow> int" where
  "neighbor_col dir l = (case dir of Outgoing \<Rightarrow> lk_target l | Incoming \<Rightarrow> lk_source l)"

text \<open>\<open>lower()\<close> of SQLite folds ASCII only.\<close>

definition sql_lower :: "string \<Rightarrow> string" where
  "sql_lower s = map (\<lambda>c. let n = (of_char c :: nat) in if 65 \<le> n \<and> n \<le> 90 then char_of (n + 32) else c) s"

definition coalesce :: "'a option \<Rightarrow> 'a \<Rightarrow> 'a" where
  "coalesce v d = (case v of None \<Rightarrow> d | Some x \<Rightarrow> x)"

text \<open>The \<open>WHERE\<close> clause of \<open>_EDGE_PAGE_SQL\<close> without its cursor.\<close>

definition edge_selected :: "link_direction \<Rightarrow> int \<Rightarrow> string list \<Rightarrow> link_row \<times> doc_row \<Rightarrow> bool" where
  "edge_selected dir seed types e = (case e of (l, d) \<Rightarrow>
     dr_doc_id d = neighbor_col dir l \<and> seed_col dir l = seed \<and> lk_edge_status l = Some ''active'' \<and>
     lk_type l \<in> set types \<and> lk_source l \<noteq> lk_target l \<and> dr_memory_kind d = Some ''learning'' \<and>
     sql_lower (coalesce (dr_page_type d) []) = ''learning'' \<and>
     sql_lower (coalesce (dr_privacy_level d) ''safe'') \<noteq> ''blocked'' \<and>
     coalesce (dr_page_status d) ''candidate'' \<notin> set CLOSED_PAGE_STATUSES)"

definition edge_key :: "link_row \<times> doc_row \<Rightarrow> int \<times> string" where
  "edge_key e = (dr_doc_id (snd e), lk_type (fst e))"

text \<open>All rows of the query beyond a cursor, in its order.\<close>

definition edges_beyond ::
  "graph_store \<Rightarrow> link_direction \<Rightarrow> int \<Rightarrow> string list \<Rightarrow> int \<times> string \<Rightarrow> (link_row \<times> doc_row) list" where
  "edges_beyond gs dir seed types cursor = sort_key edge_key
     (filter (\<lambda>e. edge_selected dir seed types e \<and> cursor < edge_key e)
        (List.product (gs_links gs) (gs_docs gs)))"

definition fetch_edge_page ::
  "graph_store \<Rightarrow> link_direction \<Rightarrow> int \<Rightarrow> string list \<Rightarrow> int \<times> string \<Rightarrow> (link_row \<times> doc_row) list" where
  "fetch_edge_page gs dir seed types cursor = take EDGE_PAGE_SIZE (edges_beyond gs dir seed types cursor)"

section \<open>Documents\<close>

definition opt_val :: "string option \<Rightarrow> pyval" where
  "opt_val v = (case v of None \<Rightarrow> PNone | Some s \<Rightarrow> PStr s)"

definition document_metadata :: "string \<Rightarrow> doc_row \<Rightarrow> pydict" where
  "document_metadata store_id d =
    [(''doc_id'', PInt (dr_doc_id d)), (''store_id'', PStr store_id), (''path'', opt_val (dr_path d)),
     (''agent'', opt_val (dr_agent d)), (''sigil'', opt_val (dr_sigil d)),
     (''privacy_level'', py_or (opt_val (dr_privacy_level d)) (PStr ''safe'')),
     (''page_status'', py_or (opt_val (dr_page_status d)) (PStr ''candidate'')),
     (''page_type'', opt_val (dr_page_type d)), (''memory_kind'', opt_val (dr_memory_kind d))]"

definition authorized :: "os_env \<Rightarrow> effective_principal \<Rightarrow> string \<Rightarrow> pydict \<Rightarrow> bool" where
  "authorized os p workspace m = can_read_document os (Some p) workspace (PDict m)"

definition text_of :: "pydict \<Rightarrow> string \<Rightarrow> string \<Rightarrow> string" where
  "text_of m k dflt = py_str (py_or (dget m k) (PStr dflt))"

definition seed_usable :: "pydict \<Rightarrow> bool" where
  "seed_usable m \<longleftrightarrow>
    (if dget m ''memory_kind'' \<noteq> PStr ''learning'' then False
     else if py_lower (text_of m ''page_type'' []) \<noteq> ''learning'' then False
     else if py_lower (text_of m ''privacy_level'' ''safe'') = ''blocked'' then False
     else True)"

definition neighbor_eligible :: "pydict \<Rightarrow> bool" where
  "neighbor_eligible m \<longleftrightarrow>
    (if dget m ''memory_kind'' \<noteq> PStr ''learning'' then False
     else if py_lower (text_of m ''page_type'' []) \<noteq> ''learning'' then False
     else if py_lower (text_of m ''privacy_level'' ''safe'') = ''blocked'' then False
     else if text_of m ''page_status'' [] \<in> set CLOSED_PAGE_STATUSES then False
     else True)"

section \<open>Numbers\<close>

definition finite_seed_score :: "pyval \<Rightarrow> rat option" where
  "finite_seed_score v = (case v of PInt i \<Rightarrow> Some (of_int i) | PFloat (Fin q) _ \<Rightarrow> Some q | _ \<Rightarrow> None)"

definition finite_unit :: "pyval \<Rightarrow> rat option" where
  "finite_unit v = (case finite_seed_score v of
     None \<Rightarrow> None | Some q \<Rightarrow> if q < 0 \<or> 1 < q then None else Some q)"

definition legacy_or_unit :: "pyval \<Rightarrow> rat option" where
  "legacy_or_unit v = (if v = PNone then Some 1 else finite_unit v)"

definition legacy_or_weight :: "pyval \<Rightarrow> rat option" where
  "legacy_or_weight v = (if v = PNone then Some 1
     else case finite_seed_score v of None \<Rightarrow> None | Some q \<Rightarrow> if q < 0 then None else Some q)"

section \<open>Candidates\<close>

record graph_hop =
  hp_from :: int
  hp_to :: int
  hp_link_type :: string
  hp_direction :: link_direction
  hp_confidence :: rat
  hp_weight :: rat
  hp_run_id :: pyval
  hp_model_id :: pyval
  hp_method :: pyval
  hp_store_id :: string

record graph_candidate =
  gc_doc_id :: int
  gc_store_id :: string
  gc_metadata :: pydict
  gc_score :: rat
  gc_seed_doc_id :: int
  gc_paths :: "graph_hop list"
  gc_depth :: nat
  gc_link_type :: string
  gc_text :: "(string \<times> int option \<times> string) option"
  gc_rank :: nat

definition hop_of :: "string \<Rightarrow> int \<Rightarrow> link_direction \<Rightarrow> link_row \<times> doc_row \<Rightarrow> rat \<Rightarrow> rat \<Rightarrow> graph_hop" where
  "hop_of store_id source dir e weight confidence = (case e of (l, d) \<Rightarrow>
     \<lparr>hp_from = source, hp_to = dr_doc_id d, hp_link_type = lk_type l, hp_direction = dir,
      hp_confidence = confidence, hp_weight = weight, hp_run_id = lk_run_id l, hp_model_id = lk_model_id l,
      hp_method = lk_method l, hp_store_id = store_id\<rparr>)"

definition type_factor :: "string \<Rightarrow> rat" where
  "type_factor t = (case map_of TYPE_FACTORS t of None \<Rightarrow> 0 | Some f \<Rightarrow> f)"

definition consider_edge ::
  "os_env \<Rightarrow> effective_principal \<Rightarrow> string \<Rightarrow> string \<Rightarrow> int list \<Rightarrow> int \<Rightarrow> rat \<Rightarrow> link_direction \<Rightarrow>
   link_row \<times> doc_row \<Rightarrow> graph_candidate option" where
  "consider_edge os p workspace store_id seed_ids seed_doc_id seed_score dir e = (case e of (l, d) \<Rightarrow>
    (if lk_type l \<notin> set ALLOWED_LINK_TYPES then None
     else if dr_doc_id d = seed_doc_id then None
     else if dr_doc_id d \<in> set seed_ids then None
     else case (legacy_or_weight (lk_weight l), legacy_or_unit (lk_confidence l)) of
       (Some weight, Some confidence) \<Rightarrow>
         (let m = document_metadata store_id d in
          if \<not> authorized os p workspace m then None
          else if \<not> neighbor_eligible m then None
          else Some \<lparr>gc_doc_id = dr_doc_id d, gc_store_id = store_id, gc_metadata = m,
            gc_score = seed_score * type_factor (lk_type l) * weight * confidence,
            gc_seed_doc_id = seed_doc_id, gc_paths = [hop_of store_id seed_doc_id dir e weight confidence],
            gc_depth = 1, gc_link_type = lk_type l, gc_text = None, gc_rank = 0\<rparr>)
     | _ \<Rightarrow> None))"

definition consider_second_hop ::
  "os_env \<Rightarrow> effective_principal \<Rightarrow> string \<Rightarrow> string \<Rightarrow> int list \<Rightarrow> int \<Rightarrow> graph_candidate \<Rightarrow> link_direction \<Rightarrow>
   link_row \<times> doc_row \<Rightarrow> graph_candidate option" where
  "consider_second_hop os p workspace store_id seed_ids seed_doc_id parent dir e = (case e of (l, d) \<Rightarrow>
    (if lk_type l \<notin> set TWO_HOP_TYPES then None
     else if dr_doc_id d = gc_doc_id parent then None
     else if dr_doc_id d \<in> set seed_ids then None
     else case (legacy_or_weight (lk_weight l), legacy_or_unit (lk_confidence l)) of
       (Some weight, Some confidence) \<Rightarrow>
         (let m = document_metadata store_id d in
          if \<not> authorized os p workspace m then None
          else if \<not> neighbor_eligible m then None
          else Some \<lparr>gc_doc_id = dr_doc_id d, gc_store_id = store_id, gc_metadata = m,
            gc_score = gc_score parent * type_factor (lk_type l) * weight * confidence * HOP_DECAY,
            gc_seed_doc_id = seed_doc_id,
            gc_paths = gc_paths parent @ [hop_of store_id (gc_doc_id parent) dir e weight confidence],
            gc_depth = 2, gc_link_type = lk_type l, gc_text = None, gc_rank = 0\<rparr>)
     | _ \<Rightarrow> None))"

text \<open>The comparison inside the first-hop loop and \<open>_far_wins\<close>.\<close>

definition near_wins :: "graph_candidate \<Rightarrow> graph_candidate \<Rightarrow> bool" where
  "near_wins c prev \<longleftrightarrow> gc_score c > gc_score prev \<or>
     gc_score c = gc_score prev \<and> gc_link_type c < gc_link_type prev"

definition far_wins :: "graph_candidate \<Rightarrow> graph_candidate \<Rightarrow> bool" where
  "far_wins c prev \<longleftrightarrow>
    (if gc_score c \<noteq> gc_score prev then gc_score c > gc_score prev
     else if gc_depth c \<noteq> gc_depth prev then gc_depth c < gc_depth prev
     else gc_link_type c < gc_link_type prev)"

type_synonym best_table = "(int \<times> graph_candidate) list"

definition put_best :: "(graph_candidate \<Rightarrow> graph_candidate \<Rightarrow> bool) \<Rightarrow> graph_candidate \<Rightarrow> best_table \<Rightarrow> best_table" where
  "put_best wins c best = (case map_of best (gc_doc_id c) of
     None \<Rightarrow> AList.update (gc_doc_id c) c best
   | Some prev \<Rightarrow> if wins c prev then AList.update (gc_doc_id c) c best else best)"

definition take_edge ::
  "(link_row \<times> doc_row \<Rightarrow> graph_candidate option) \<Rightarrow> (graph_candidate \<Rightarrow> graph_candidate \<Rightarrow> bool) \<Rightarrow>
   link_row \<times> doc_row \<Rightarrow> best_table \<Rightarrow> best_table" where
  "take_edge consider wins e best = (case consider e of None \<Rightarrow> best | Some c \<Rightarrow> put_best wins c best)"

text \<open>\<open>sorted(best.values(), key=(-graph_score, doc_id))\<close>.\<close>

definition ranked_best :: "best_table \<Rightarrow> graph_candidate list" where
  "ranked_best best = sort_key (\<lambda>c. (- gc_score c, gc_doc_id c)) (map snd best)"

section \<open>Runs\<close>

record graph_env =
  ge_os :: os_env
  ge_time :: "nat \<Rightarrow> rat"
  ge_sql :: "nat \<Rightarrow> sql_outcome"
  ge_cleanup :: bool

record run_state =
  rs_tick :: nat
  rs_texts :: "int list"

type_synonym 'a run = "run_state \<Rightarrow> (request_error + 'a) \<times> run_state"

definition run_return :: "'a \<Rightarrow> 'a run" where
  "run_return a s = (Inr a, s)"

definition run_bind :: "'a run \<Rightarrow> ('a \<Rightarrow> 'b run) \<Rightarrow> 'b run" where
  "run_bind m f s = (case m s of (Inl e, s') \<Rightarrow> (Inl e, s') | (Inr a, s') \<Rightarrow> f a s')"

text \<open>\<open>check_deadline()\<close>, one SQLite call, and a query: \<open>execute\<close> and then a fetch.\<close>

definition run_check :: "graph_env \<Rightarrow> request_ctx \<Rightarrow> unit run" where
  "run_check env ctx s =
    (case check_deadline (ge_time env (rs_tick s)) ctx of Inl e \<Rightarrow> Inl e | Inr _ \<Rightarrow> Inr (),
     s\<lparr>rs_tick := Suc (rs_tick s)\<rparr>)"

definition run_call :: "graph_env \<Rightarrow> request_ctx \<Rightarrow> unit run" where
  "run_call env ctx s =
    (request_operation (ge_time env (rs_tick s)) (ge_time env (Suc (rs_tick s))) (ge_sql env (rs_tick s)) ctx,
     s\<lparr>rs_tick := rs_tick s + 2\<rparr>)"

definition run_query :: "graph_env \<Rightarrow> request_ctx \<Rightarrow> unit run" where
  "run_query env ctx = run_bind (run_call env ctx) (\<lambda>_. run_call env ctx)"

definition log_text :: "int \<Rightarrow> unit run" where
  "log_text doc_id s = (Inr (), s\<lparr>rs_texts := rs_texts s @ [doc_id]\<rparr>)"

section \<open>Walking the pages of an edge query\<close>

lemma beyond_less:
  assumes "fetch_edge_page gs dir seed types cursor \<noteq> []"
  shows "length (edges_beyond gs dir seed types (edge_key (last (fetch_edge_page gs dir seed types cursor))))
    < length (edges_beyond gs dir seed types cursor)"
proof -
  let ?E = "List.product (gs_links gs) (gs_docs gs)"
  let ?e = "last (fetch_edge_page gs dir seed types cursor)"
  have "?e \<in> set (fetch_edge_page gs dir seed types cursor)" using assms by simp
  then have e: "?e \<in> set ?E" "edge_selected dir seed types ?e" "cursor < edge_key ?e"
    by (auto simp: fetch_edge_page_def edges_beyond_def dest!: in_set_takeD)
  have "length (filter (\<lambda>e. edge_selected dir seed types e \<and> edge_key ?e < edge_key e) ?E)
      < length (filter (\<lambda>e. edge_selected dir seed types e \<and> cursor < edge_key e) ?E)"
  proof -
    have sub: "filter (\<lambda>e. edge_selected dir seed types e \<and> edge_key ?e < edge_key e) ?E =
        filter (\<lambda>e. edge_key ?e < edge_key e) (filter (\<lambda>e. edge_selected dir seed types e \<and> cursor < edge_key e) ?E)"
      using e(3) by (auto intro!: filter_cong)
    show ?thesis unfolding sub
      by (rule length_filter_less[of ?e]) (use e in auto)
  qed
  then show ?thesis by (simp add: edges_beyond_def)
qed

function walk_pages ::
  "graph_env \<Rightarrow> request_ctx \<Rightarrow> graph_store \<Rightarrow> link_direction \<Rightarrow> int \<Rightarrow> string list \<Rightarrow>
   (link_row \<times> doc_row \<Rightarrow> graph_candidate option) \<Rightarrow> (graph_candidate \<Rightarrow> graph_candidate \<Rightarrow> bool) \<Rightarrow>
   int \<times> string \<Rightarrow> best_table \<Rightarrow> best_table run" where
  "walk_pages env ctx gs dir seed types consider wins cursor best s =
    (case run_bind (run_check env ctx) (\<lambda>_. run_query env ctx) s of
       (Inl e, s') \<Rightarrow> (Inl e, s')
     | (Inr _, s') \<Rightarrow>
        let rows = fetch_edge_page gs dir seed types cursor in
        if rows = [] then (Inr best, s')
        else if length rows < EDGE_PAGE_SIZE then (Inr (fold (take_edge consider wins) rows best), s')
        else walk_pages env ctx gs dir seed types consider wins (edge_key (last rows))
               (fold (take_edge consider wins) rows best) s')"
  by pat_completeness auto
termination
  by (relation "measure (\<lambda>(env, ctx, gs, dir, seed, types, consider, wins, cursor, best, s).
       length (edges_beyond gs dir seed types cursor))") (auto intro: beyond_less)

declare walk_pages.simps [simp del]

text \<open>Both directions, from the start.\<close>

definition walk_both ::
  "graph_env \<Rightarrow> request_ctx \<Rightarrow> graph_store \<Rightarrow> int \<Rightarrow> string list \<Rightarrow>
   (link_direction \<Rightarrow> link_row \<times> doc_row \<Rightarrow> graph_candidate option) \<Rightarrow>
   (graph_candidate \<Rightarrow> graph_candidate \<Rightarrow> bool) \<Rightarrow> best_table run" where
  "walk_both env ctx gs seed types consider wins =
    run_bind (walk_pages env ctx gs Outgoing seed types (consider Outgoing) wins (0, []) [])
      (\<lambda>best. walk_pages env ctx gs Incoming seed types (consider Incoming) wins (0, []) best)"

definition second_hop_for_parent ::
  "graph_env \<Rightarrow> request_ctx \<Rightarrow> graph_store \<Rightarrow> effective_principal \<Rightarrow> string \<Rightarrow> string \<Rightarrow> int list \<Rightarrow> int \<Rightarrow>
   graph_candidate \<Rightarrow> graph_candidate list run" where
  "second_hop_for_parent env ctx gs p workspace store_id seed_ids seed_doc_id parent =
    run_bind (walk_both env ctx gs (gc_doc_id parent) TWO_HOP_TYPES
       (consider_second_hop (ge_os env) p workspace store_id seed_ids seed_doc_id parent) far_wins)
     (\<lambda>best. run_return (take MAX_NEIGHBORS_PER_SEED (ranked_best best)))"

fun merge_parents ::
  "graph_env \<Rightarrow> request_ctx \<Rightarrow> graph_store \<Rightarrow> effective_principal \<Rightarrow> string \<Rightarrow> string \<Rightarrow> int list \<Rightarrow> int \<Rightarrow>
   graph_candidate list \<Rightarrow> best_table \<Rightarrow> best_table run" where
  "merge_parents env ctx gs p workspace store_id seed_ids seed_doc_id [] best = run_return best"
| "merge_parents env ctx gs p workspace store_id seed_ids seed_doc_id (parent # parents) best =
    run_bind (run_check env ctx) (\<lambda>_.
    run_bind (second_hop_for_parent env ctx gs p workspace store_id seed_ids seed_doc_id parent) (\<lambda>items.
    merge_parents env ctx gs p workspace store_id seed_ids seed_doc_id parents
      (fold (put_best far_wins) items best)))"

definition hop_frontier :: "best_table \<Rightarrow> graph_candidate list" where
  "hop_frontier best =
    filter (\<lambda>c. gc_link_type c \<in> set TWO_HOP_TYPES) (take MAX_NEIGHBORS_PER_SEED (ranked_best best))"

definition merge_second_hop ::
  "graph_env \<Rightarrow> request_ctx \<Rightarrow> graph_store \<Rightarrow> effective_principal \<Rightarrow> string \<Rightarrow> string \<Rightarrow> int list \<Rightarrow> int \<Rightarrow>
   best_table \<Rightarrow> best_table run" where
  "merge_second_hop env ctx gs p workspace store_id seed_ids seed_doc_id best =
    merge_parents env ctx gs p workspace store_id seed_ids seed_doc_id (hop_frontier best) best"

section \<open>Text and results\<close>

definition hydrated_text :: "graph_store \<Rightarrow> int \<Rightarrow> string \<times> int option \<times> string" where
  "hydrated_text gs doc_id =
    (case sort_key ck_index (filter (\<lambda>c. ck_doc_id c = doc_id) (gs_chunks gs)) of
       [] \<Rightarrow> ([], None, [])
     | c # _ \<Rightarrow> (coalesce (ck_text c) [], Some (ck_chunk_id c), coalesce (ck_heading c) []))"

fun hydrate_all :: "graph_env \<Rightarrow> request_ctx \<Rightarrow> graph_store \<Rightarrow> graph_candidate list \<Rightarrow> graph_candidate list run" where
  "hydrate_all env ctx gs [] = run_return []"
| "hydrate_all env ctx gs (c # cs) =
    run_bind (run_check env ctx) (\<lambda>_.
    run_bind (log_text (gc_doc_id c)) (\<lambda>_.
    run_bind (run_query env ctx) (\<lambda>_.
    run_bind (hydrate_all env ctx gs cs) (\<lambda>rest.
    run_return (c\<lparr>gc_text := Some (hydrated_text gs (gc_doc_id c))\<rparr> # rest)))))"

definition eligible_neighbors_for_seed ::
  "graph_env \<Rightarrow> request_ctx \<Rightarrow> graph_store \<Rightarrow> effective_principal \<Rightarrow> string \<Rightarrow> string \<Rightarrow> int list \<Rightarrow> bool \<Rightarrow>
   int \<times> rat \<Rightarrow> graph_candidate list run" where
  "eligible_neighbors_for_seed env ctx gs p workspace store_id seed_ids two_hops seed =
    run_bind (walk_both env ctx gs (fst seed) ALLOWED_LINK_TYPES
      (consider_edge (ge_os env) p workspace store_id seed_ids (fst seed) (snd seed)) near_wins) (\<lambda>near.
    run_bind (if two_hops then merge_second_hop env ctx gs p workspace store_id seed_ids (fst seed) near
              else run_return near) (\<lambda>best.
    hydrate_all env ctx gs (take MAX_NEIGHBORS_PER_SEED (ranked_best best))))"

text \<open>The loop over the seeds: what is collected survives an error of a later seed.\<close>

fun collect_seeds ::
  "graph_env \<Rightarrow> request_ctx \<Rightarrow> graph_store \<Rightarrow> effective_principal \<Rightarrow> string \<Rightarrow> string \<Rightarrow> int list \<Rightarrow> bool \<Rightarrow>
   (int \<times> rat) list \<Rightarrow> graph_candidate list \<Rightarrow> run_state \<Rightarrow> request_error option \<times> graph_candidate list \<times> run_state" where
  "collect_seeds env ctx gs p workspace store_id seed_ids two_hops [] collected s = (None, collected, s)"
| "collect_seeds env ctx gs p workspace store_id seed_ids two_hops (seed # seeds) collected s =
    (case run_bind (run_check env ctx) (\<lambda>_.
        eligible_neighbors_for_seed env ctx gs p workspace store_id seed_ids two_hops seed) s of
       (Inl e, s') \<Rightarrow> (Some e, collected, s')
     | (Inr cs, s') \<Rightarrow>
         collect_seeds env ctx gs p workspace store_id seed_ids two_hops seeds (collected @ cs) s')"

text \<open>\<open>_finalize\<close>; the second disjunct of its comparison never holds, as the ids are equal.\<close>

definition final_wins :: "graph_candidate \<Rightarrow> graph_candidate \<Rightarrow> bool" where
  "final_wins c prev \<longleftrightarrow> gc_score c > gc_score prev \<or>
     gc_score c = gc_score prev \<and> gc_doc_id c < gc_doc_id prev"

definition finalize :: "graph_candidate list \<Rightarrow> string \<Rightarrow> graph_candidate list" where
  "finalize collected store_id =
    map (\<lambda>(rank, c). c\<lparr>gc_rank := rank\<rparr>)
      (enumerate 1 (take MAX_GRAPH_CANDIDATES (ranked_best
        (fold (put_best final_wins) (filter (\<lambda>c. gc_store_id c = store_id) collected) []))))"

section \<open>Seeds\<close>

datatype expand_error = BadWorkspace | BadStoreId | BadDepth | BadSeeds | CrossCorpus

definition raw_seed_score :: "pydict \<Rightarrow> pyval" where
  "raw_seed_score raw = dget_or raw ''score'' (dget raw ''rrf_score'')"

fun scan_seeds :: "string \<Rightarrow> pyval list \<Rightarrow> (int \<times> rat) list \<Rightarrow> expand_error + (int \<times> rat) list" where
  "scan_seeds store_id [] ranked = Inr ranked"
| "scan_seeds store_id (raw # raws) ranked =
    (case raw of
       PDict d \<Rightarrow>
        (case (dget d ''doc_id'', finite_seed_score (raw_seed_score d)) of
           (PInt doc_id, Some score) \<Rightarrow>
             if dget d ''store_id'' = PNone then scan_seeds store_id raws ranked
             else if dget d ''store_id'' \<noteq> PStr store_id then Inl CrossCorpus
             else if doc_id \<in> set (map fst ranked) then scan_seeds store_id raws ranked
             else let ranked' = ranked @ [(doc_id, score)] in
               if MAX_SEEDS \<le> length ranked' then Inr ranked' else scan_seeds store_id raws ranked'
         | _ \<Rightarrow> scan_seeds store_id raws ranked)
     | _ \<Rightarrow> scan_seeds store_id raws ranked)"

definition bounded_seeds :: "pyval \<Rightarrow> string \<Rightarrow> expand_error + (int \<times> rat) list" where
  "bounded_seeds seeds store_id = (case seeds of
     PList raws \<Rightarrow> scan_seeds store_id (take MAX_SEEDS raws) []
   | _ \<Rightarrow> Inl BadSeeds)"

fun authorize_seeds ::
  "graph_env \<Rightarrow> request_ctx \<Rightarrow> graph_store \<Rightarrow> effective_principal \<Rightarrow> string \<Rightarrow> string \<Rightarrow>
   (int \<times> rat) list \<Rightarrow> (int \<times> rat) list run" where
  "authorize_seeds env ctx gs p workspace store_id [] = run_return []"
| "authorize_seeds env ctx gs p workspace store_id ((doc_id, score) # ranked) =
    run_bind (run_check env ctx) (\<lambda>_.
    run_bind (run_query env ctx) (\<lambda>_.
    run_bind (authorize_seeds env ctx gs p workspace store_id ranked) (\<lambda>rest.
    run_return (case find (\<lambda>d. dr_doc_id d = doc_id) (gs_docs gs) of
        None \<Rightarrow> rest
      | Some d \<Rightarrow> (let m = document_metadata store_id d in
          if \<not> authorized (ge_os env) p workspace m then rest
          else if \<not> seed_usable m then rest
          else (doc_id, score) # rest)))))"

section \<open>The expansion\<close>

definition validated_deadline :: "request_ctx \<Rightarrow> pyval \<Rightarrow> rat option" where
  "validated_deadline ctx v = (case v of
     PNone \<Rightarrow> rc_deadline ctx
   | _ \<Rightarrow> (case finite_seed_score v of
       None \<Rightarrow> None
     | Some d \<Rightarrow> (case rc_deadline ctx of None \<Rightarrow> Some d | Some c \<Rightarrow> Some (min d c))))"

record graph_expansion_result =
  gx_neighbors :: "graph_candidate list"
  gx_status :: string

text \<open>
  Inside the snapshot: what was collected, the error that stopped the run and, when the schema check
  refused, the early return.  A failing schema query reads as a missing schema, a deadline does not.
\<close>

datatype snapshot_end = Walked "request_error option" "graph_candidate list" | SchemaMissing

definition schema_ready :: "graph_env \<Rightarrow> request_ctx \<Rightarrow> graph_store \<Rightarrow> bool run" where
  "schema_ready env ctx gs s = (case run_query env ctx s of
     (Inr _, s') \<Rightarrow> (Inr (gs_schema_ready gs), s')
   | (Inl DeadlineExceeded, s') \<Rightarrow> (Inl DeadlineExceeded, s')
   | (Inl _, s') \<Rightarrow> (Inr False, s'))"

definition in_snapshot ::
  "graph_env \<Rightarrow> request_ctx \<Rightarrow> graph_store \<Rightarrow> effective_principal \<Rightarrow> string \<Rightarrow> string \<Rightarrow> bool \<Rightarrow>
   (int \<times> rat) list \<Rightarrow> run_state \<Rightarrow> snapshot_end \<times> run_state" where
  "in_snapshot env ctx gs p workspace store_id two_hops ranked s =
    (case run_bind (run_check env ctx) (\<lambda>_. run_bind (schema_ready env ctx gs) (\<lambda>ready.
        run_bind (run_check env ctx) (\<lambda>_. run_return ready))) s of
       (Inl e, s1) \<Rightarrow> (Walked (Some e) [], s1)
     | (Inr False, s1) \<Rightarrow> (SchemaMissing, s1)
     | (Inr True, s1) \<Rightarrow>
        (case authorize_seeds env ctx gs p workspace store_id ranked s1 of
           (Inl e, s2) \<Rightarrow> (Walked (Some e) [], s2)
         | (Inr seeds, s2) \<Rightarrow>
            (case collect_seeds env ctx gs p workspace store_id (map fst seeds) two_hops seeds [] s2 of
               (stop, collected, s3) \<Rightarrow> (Walked stop collected, s3))))"

definition snapshot_result :: "string \<Rightarrow> snapshot_end \<Rightarrow> graph_expansion_result" where
  "snapshot_result store_id fin = (case fin of
     SchemaMissing \<Rightarrow> \<lparr>gx_neighbors = [], gx_status = ''schema_missing''\<rparr>
   | Walked None collected \<Rightarrow> \<lparr>gx_neighbors = finalize collected store_id, gx_status = ''ok''\<rparr>
   | Walked (Some DeadlineExceeded) collected \<Rightarrow>
       \<lparr>gx_neighbors = finalize collected store_id, gx_status = ''degraded''\<rparr>
   | Walked (Some _) collected \<Rightarrow> \<lparr>gx_neighbors = [], gx_status = ''degraded''\<rparr>)"

text \<open>
  The body of the \<open>try\<close>: the database identity, then the snapshot, opened by one call and always
  rolled back; a failing rollback is an error of its own.
\<close>

definition expand_in_deadline ::
  "graph_env \<Rightarrow> request_ctx \<Rightarrow> graph_store \<Rightarrow> effective_principal \<Rightarrow> string \<Rightarrow> string \<Rightarrow> bool \<Rightarrow>
   (int \<times> rat) list \<Rightarrow> run_state \<Rightarrow> (expand_error + graph_expansion_result) \<times> run_state" where
  "expand_in_deadline env ctx gs p workspace store_id two_hops ranked s =
    (case run_bind (run_check env ctx) (\<lambda>_. run_query env ctx) s of
       (Inl e, s1) \<Rightarrow> (Inr (snapshot_result store_id (Walked (Some e) [])), s1)
     | (Inr _, s1) \<Rightarrow>
        (if gs_main_file gs \<noteq> Some store_id then (Inl CrossCorpus, s1)
         else case run_bind (run_check env ctx) (\<lambda>_. run_call env ctx) s1 of
           (Inl e, s2) \<Rightarrow> (Inr (snapshot_result store_id (Walked (Some e) [])), s2)
         | (Inr _, s2) \<Rightarrow>
            (case in_snapshot env ctx gs p workspace store_id two_hops ranked s2 of
               (fin, s3) \<Rightarrow>
                 (Inr (if ge_cleanup env then snapshot_result store_id fin
                       else \<lparr>gx_neighbors = [], gx_status = ''degraded''\<rparr>), s3))))"

definition expand_typed_graph ::
  "graph_env \<Rightarrow> request_ctx \<Rightarrow> graph_store \<Rightarrow> pyval \<Rightarrow> pyval \<Rightarrow> effective_principal option \<Rightarrow> pyval \<Rightarrow>
   pyval \<Rightarrow> pyval \<Rightarrow> run_state \<Rightarrow> (expand_error + graph_expansion_result) \<times> run_state" where
  "expand_typed_graph env ctx gs store_id seeds caller workspace deadline_monotonic max_depth s =
    (case workspace of
       PStr ws \<Rightarrow>
        if ws = [] then (Inl BadWorkspace, s)
        else (case caller of
          None \<Rightarrow> (Inr \<lparr>gx_neighbors = [], gx_status = ''disabled''\<rparr>, s)
        | Some p \<Rightarrow> (case store_id of
            PStr st \<Rightarrow>
              if py_strip st = [] then (Inl BadStoreId, s)
              else if \<not> (py_eq_int max_depth 1 \<or> py_eq_int max_depth 2) then (Inl BadDepth, s)
              else (case validated_deadline ctx deadline_monotonic of
                None \<Rightarrow> (Inr \<lparr>gx_neighbors = [], gx_status = ''disabled''\<rparr>, s)
              | Some d \<Rightarrow> (case bounded_seeds seeds st of
                  Inl e \<Rightarrow> (Inl e, s)
                | Inr ranked \<Rightarrow>
                    if ranked = [] then (Inr \<lparr>gx_neighbors = [], gx_status = ''ok''\<rparr>, s)
                    else expand_in_deadline env
                      (ctx\<lparr>rc_deadline := effective_deadline (Some d) (rc_deadline ctx)\<rparr>)
                      gs p ws st (py_eq_int max_depth 2) ranked s))
          | _ \<Rightarrow> (Inl BadStoreId, s)))
     | _ \<Rightarrow> (Inl BadWorkspace, s))"

end
