(* ===== verification/Expansion_Safety.thy ===== *)
theory Expansion_Safety
  imports Graph_Expansion
begin

text \<open>
  Soundness of the expansion of one seed: every candidate is a readable open learning, explained by
  stored links, and the text of no other document is asked for, however the run ends.
\<close>

section \<open>Runs that return\<close>

lemma run_bind_Inr: "run_bind m f s = (Inr b, s') \<longleftrightarrow> (\<exists>a s1. m s = (Inr a, s1) \<and> f a s1 = (Inr b, s'))"
  by (auto simp: run_bind_def split: prod.splits sum.splits)

lemma run_return_Inr [simp]: "run_return a s = (Inr b, s') \<longleftrightarrow> b = a \<and> s' = s"
  by (auto simp: run_return_def)

lemma run_bind_texts:
  assumes "rs_texts (snd (m s)) = rs_texts s" and "\<And>a s1. rs_texts (snd (f a s1)) = rs_texts s1"
  shows "rs_texts (snd (run_bind m f s)) = rs_texts s"
  using assms by (cases "m s") (auto simp: run_bind_def split: sum.splits)

lemma texts_unchanged [simp]:
  "rs_texts (snd (run_check env ctx s)) = rs_texts s"
  "rs_texts (snd (run_call env ctx s)) = rs_texts s"
  "rs_texts (snd (run_query env ctx s)) = rs_texts s"
  "rs_texts (snd (run_return a s)) = rs_texts s"
  by (auto simp: run_check_def run_call_def run_query_def run_return_def intro!: run_bind_texts)

lemma walk_pages_texts [simp]:
  "rs_texts (snd (walk_pages env ctx gs dir seed types consider wins cursor best s)) = rs_texts s"
proof (induction env ctx gs dir seed "types" "consider" wins cursor best s rule: walk_pages.induct)
  case (1 env ctx gs dir seed "types" "consider" wins cursor best s)
  have "rs_texts (snd (run_bind (run_check env ctx) (\<lambda>_. run_query env ctx) s)) = rs_texts s"
    by (rule run_bind_texts) auto
  then show ?case
    using 1 by (subst walk_pages.simps) (auto simp: Let_def split: prod.splits sum.splits)
qed

lemma walk_both_texts [simp]: "rs_texts (snd (walk_both env ctx gs seed types consider wins s)) = rs_texts s"
  unfolding walk_both_def by (rule run_bind_texts) auto

lemma second_hop_texts [simp]:
  "rs_texts (snd (second_hop_for_parent env ctx gs p ws st ids seed parent s)) = rs_texts s"
  unfolding second_hop_for_parent_def by (rule run_bind_texts) auto

lemma merge_parents_texts [simp]:
  "rs_texts (snd (merge_parents env ctx gs p ws st ids seed parents best s)) = rs_texts s"
  by (induction parents arbitrary: best s) (auto intro!: run_bind_texts)

section \<open>The table of best candidates\<close>

text \<open>One entry per document, under its id, each satisfying a predicate.\<close>

definition table_ok :: "(graph_candidate \<Rightarrow> bool) \<Rightarrow> best_table \<Rightarrow> bool" where
  "table_ok P best \<longleftrightarrow> distinct (map fst best) \<and> (\<forall>(k, c) \<in> set best. k = gc_doc_id c \<and> P c)"

lemma table_ok_Nil [simp]: "table_ok P []"
  by (simp add: table_ok_def)

lemma update_mem: "x \<in> set (AList.update k v d) \<Longrightarrow> x = (k, v) \<or> x \<in> set d"
  by (induction d) (auto split: if_splits)

lemma update_ok: "table_ok P best \<Longrightarrow> P c \<Longrightarrow> table_ok P (AList.update (gc_doc_id c) c best)"
  by (auto simp: table_ok_def distinct_update dest!: update_mem)

lemma put_best_ok: "table_ok P best \<Longrightarrow> P c \<Longrightarrow> table_ok P (put_best wins c best)"
  by (auto simp: put_best_def update_ok split: option.splits)

lemma fold_put_best_ok: "table_ok P best \<Longrightarrow> list_all P cs \<Longrightarrow> table_ok P (fold (put_best wins) cs best)"
  by (induction cs arbitrary: best) (auto intro: put_best_ok)

lemma take_edge_ok: "table_ok P best \<Longrightarrow> (\<And>c. consider e = Some c \<Longrightarrow> P c) \<Longrightarrow> table_ok P (take_edge consider wins e best)"
  by (auto simp: take_edge_def intro: put_best_ok split: option.splits)

lemma fold_take_edge_ok:
  assumes "table_ok P best" and "\<And>e c. e \<in> set es \<Longrightarrow> consider e = Some c \<Longrightarrow> P c"
  shows "table_ok P (fold (take_edge consider wins) es best)"
  using assms
proof (induction es arbitrary: best)
  case (Cons e es)
  have "table_ok P (take_edge consider wins e best)"
    by (rule take_edge_ok[OF Cons.prems(1)]) (rule Cons.prems(2)[of e], auto)
  from Cons.IH[OF this] Cons.prems(2) have "table_ok P (fold (take_edge consider wins) es (take_edge consider wins e best))"
    by (metis list.set_intros(2))
  then show ?case by simp
qed simp

lemma ranked_best_props:
  assumes "table_ok P best"
  shows "list_all P (ranked_best best)" and "distinct (map gc_doc_id (ranked_best best))"
    and "sorted_wrt (\<lambda>a b. (- gc_score a, gc_doc_id a) < (- gc_score b, gc_doc_id b)) (ranked_best best)"
proof -
  let ?k = "\<lambda>c. (- gc_score c, gc_doc_id c)"
  have set: "set (ranked_best best) = snd ` set best" by (simp add: ranked_best_def)
  show "list_all P (ranked_best best)"
    using assms by (auto simp: list_all_iff set table_ok_def)
  have "map gc_doc_id (map snd best) = map fst best"
    using assms by (induction best) (auto simp: table_ok_def)
  then have d: "distinct (map gc_doc_id (map snd best))"
    using assms by (simp only: table_ok_def)
  show d': "distinct (map gc_doc_id (ranked_best best))"
    using d unfolding ranked_best_def distinct_map[of gc_doc_id] by simp
  then have "distinct (map ?k (ranked_best best))"
    by (auto simp: distinct_map inj_on_def)
  moreover have "sorted (map ?k (ranked_best best))" by (simp add: ranked_best_def)
  ultimately have "sorted_wrt (<) (map ?k (ranked_best best))"
    by (simp add: strict_sorted_iff)
  then show "sorted_wrt (\<lambda>a b. ?k a < ?k b) (ranked_best best)"
    by (simp add: sorted_wrt_map)
qed

section \<open>Selected edges\<close>

lemma edge_page_mem:
  "e \<in> set (fetch_edge_page gs dir seed types cursor) \<Longrightarrow>
    fst e \<in> set (gs_links gs) \<and> snd e \<in> set (gs_docs gs) \<and> edge_selected dir seed types e"
  by (auto simp: fetch_edge_page_def edges_beyond_def dest!: in_set_takeD)

text \<open>Induction over the pages that are left.\<close>

lemma page_induct:
  assumes "\<And>cursor best s. (\<And>best' s'. fetch_edge_page gs dir seed types cursor \<noteq> [] \<Longrightarrow>
      Q (edge_key (last (fetch_edge_page gs dir seed types cursor))) best' s') \<Longrightarrow> Q cursor best s"
  shows "Q cursor best (s :: run_state)"
proof (induction "length (edges_beyond gs dir seed types cursor)" arbitrary: cursor best s rule: less_induct)
  case less
  show ?case by (rule assms) (use less beyond_less in blast)
qed

lemma walk_pages_step:
  assumes "walk_pages env ctx gs dir seed types consider wins cursor best s = (Inr b, s')"
    and "rows = fetch_edge_page gs dir seed types cursor"
  obtains "rows = []" and "b = best"
  | "rows \<noteq> []" and "length rows < EDGE_PAGE_SIZE" and "b = fold (take_edge consider wins) rows best"
  | s1 where "rows \<noteq> []" and "length rows = EDGE_PAGE_SIZE"
    and "walk_pages env ctx gs dir seed types consider wins (edge_key (last rows))
      (fold (take_edge consider wins) rows best) s1 = (Inr b, s')"
proof -
  have "length rows \<le> EDGE_PAGE_SIZE" by (simp add: assms(2) fetch_edge_page_def)
  then show ?thesis
    using assms(1) that unfolding assms(2)
    by (subst (asm) walk_pages.simps) (auto simp: Let_def split: prod.splits sum.splits if_splits)
qed

lemma walk_pages_ok:
  assumes P: "\<And>e c. fst e \<in> set (gs_links gs) \<Longrightarrow> snd e \<in> set (gs_docs gs) \<Longrightarrow> edge_selected dir seed types e \<Longrightarrow>
      consider e = Some c \<Longrightarrow> P c"
  shows "walk_pages env ctx gs dir seed types consider wins cursor best s = (Inr b, s') \<Longrightarrow>
    table_ok P best \<Longrightarrow> table_ok P b"
proof (induction cursor best s rule: page_induct[where gs = gs and dir = dir and seed = seed and types = types])
  case (1 cursor best s)
  let ?rows = "fetch_edge_page gs dir seed types cursor"
  have ok: "table_ok P (fold (take_edge consider wins) ?rows best)"
    by (rule fold_take_edge_ok[OF 1(3)]) (use P edge_page_mem in blast)
  show ?case
    by (rule walk_pages_step[OF 1(2) refl]) (use 1(1,3) ok in auto)
qed

lemma walk_both_ok:
  assumes "\<And>dir e c. fst e \<in> set (gs_links gs) \<Longrightarrow> snd e \<in> set (gs_docs gs) \<Longrightarrow> edge_selected dir seed types e \<Longrightarrow>
      consider dir e = Some c \<Longrightarrow> P c"
    and "walk_both env ctx gs seed types consider wins s = (Inr b, s')"
  shows "table_ok P b"
proof -
  obtain b1 s1 where 1: "walk_pages env ctx gs Outgoing seed types (consider Outgoing) wins (0, []) [] s = (Inr b1, s1)"
    and 2: "walk_pages env ctx gs Incoming seed types (consider Incoming) wins (0, []) b1 s1 = (Inr b, s')"
    using assms(2) by (auto simp: walk_both_def run_bind_Inr)
  have "table_ok P b1" by (rule walk_pages_ok[OF _ 1]) (use assms(1) in blast, simp)
  then show ?thesis by (rule walk_pages_ok[OF _ 2, rotated]) (use assms(1) in blast)
qed

section \<open>What a candidate stands for\<close>

text \<open>A document of the store that the caller may read and that is an open learning.\<close>

definition visible_learning :: "os_env \<Rightarrow> effective_principal \<Rightarrow> string \<Rightarrow> string \<Rightarrow> graph_store \<Rightarrow> int \<Rightarrow> bool" where
  "visible_learning os p ws st gs doc_id \<longleftrightarrow> (\<exists>d \<in> set (gs_docs gs). dr_doc_id d = doc_id \<and>
     can_read_document os (Some p) ws (PDict (document_metadata st d)) \<and>
     neighbor_eligible (document_metadata st d))"

text \<open>A hop that an active stored link of one of the given types backs, with its numbers.\<close>

definition stored_hop :: "graph_store \<Rightarrow> string list \<Rightarrow> graph_hop \<Rightarrow> bool" where
  "stored_hop gs types h \<longleftrightarrow> (\<exists>l \<in> set (gs_links gs). lk_edge_status l = Some ''active'' \<and>
     lk_type l = hp_link_type h \<and> hp_link_type h \<in> set types \<and>
     seed_col (hp_direction h) l = hp_from h \<and> neighbor_col (hp_direction h) l = hp_to h \<and>
     legacy_or_weight (lk_weight l) = Some (hp_weight h) \<and>
     legacy_or_unit (lk_confidence l) = Some (hp_confidence h))"

definition hop_gain :: "graph_hop \<Rightarrow> rat" where
  "hop_gain h = type_factor (hp_link_type h) * hp_weight h * hp_confidence h"

text \<open>The path of a candidate leads from the seed to it over stored links and its score is what the path earns.\<close>

definition explained :: "graph_store \<Rightarrow> (int \<Rightarrow> bool) \<Rightarrow> int \<times> rat \<Rightarrow> graph_candidate \<Rightarrow> bool" where
  "explained gs visible seed c \<longleftrightarrow> gc_seed_doc_id c = fst seed \<and>
    (case gc_paths c of
       [h] \<Rightarrow> gc_depth c = 1 \<and> stored_hop gs ALLOWED_LINK_TYPES h \<and> hp_from h = fst seed \<and>
         hp_to h = gc_doc_id c \<and> gc_link_type c = hp_link_type h \<and> gc_score c = snd seed * hop_gain h
     | [h, g] \<Rightarrow> gc_depth c = 2 \<and> stored_hop gs TWO_HOP_TYPES h \<and> stored_hop gs TWO_HOP_TYPES g \<and>
         hp_from h = fst seed \<and> hp_to h = hp_from g \<and> visible (hp_to h) \<and> hp_to g = gc_doc_id c \<and>
         gc_score c = snd seed * hop_gain h * hop_gain g * HOP_DECAY
     | _ \<Rightarrow> False)"

definition sound_candidate ::
  "os_env \<Rightarrow> effective_principal \<Rightarrow> string \<Rightarrow> string \<Rightarrow> graph_store \<Rightarrow> int list \<Rightarrow> int \<times> rat \<Rightarrow> graph_candidate \<Rightarrow> bool" where
  "sound_candidate os p ws st gs seed_ids seed c \<longleftrightarrow>
     visible_learning os p ws st gs (gc_doc_id c) \<and> gc_store_id c = st \<and> gc_doc_id c \<notin> set seed_ids \<and>
     explained gs (visible_learning os p ws st gs) seed c"

lemma consider_edge_sound:
  assumes "fst e \<in> set (gs_links gs)" and "snd e \<in> set (gs_docs gs)"
    and "edge_selected dir (fst seed) ALLOWED_LINK_TYPES e"
    and "consider_edge os p ws st seed_ids (fst seed) (snd seed) dir e = Some c"
  shows "sound_candidate os p ws st gs seed_ids seed c \<and> gc_depth c = 1"
proof -
  obtain l d where e: "e = (l, d)" by (cases e)
  obtain w k where wk: "legacy_or_weight (lk_weight l) = Some w" "legacy_or_unit (lk_confidence l) = Some k"
    using assms(4) by (auto simp: consider_edge_def e split: if_splits option.splits)
  have c: "c = \<lparr>gc_doc_id = dr_doc_id d, gc_store_id = st, gc_metadata = document_metadata st d,
      gc_score = snd seed * type_factor (lk_type l) * w * k, gc_seed_doc_id = fst seed,
      gc_paths = [hop_of st (fst seed) dir (l, d) w k], gc_depth = 1, gc_link_type = lk_type l,
      gc_text = None, gc_rank = 0\<rparr>"
    and "authorized os p ws (document_metadata st d)" "neighbor_eligible (document_metadata st d)"
    and "dr_doc_id d \<notin> set seed_ids"
    using assms(4) wk by (auto simp: consider_edge_def e Let_def split: if_splits)
  moreover have "stored_hop gs ALLOWED_LINK_TYPES (hop_of st (fst seed) dir (l, d) w k)"
    using assms(1,3) wk by (auto simp: stored_hop_def hop_of_def edge_selected_def e intro!: bexI[of _ l])
  ultimately show ?thesis
    using assms(2) unfolding sound_candidate_def explained_def visible_learning_def authorized_def
    by (auto simp: hop_of_def hop_gain_def e mult_ac)
qed

lemma consider_second_hop_sound:
  assumes parent: "sound_candidate os p ws st gs seed_ids seed parent" "gc_depth parent = 1"
      "gc_link_type parent \<in> set TWO_HOP_TYPES"
    and "fst e \<in> set (gs_links gs)" and "snd e \<in> set (gs_docs gs)"
    and "edge_selected dir (gc_doc_id parent) TWO_HOP_TYPES e"
    and "consider_second_hop os p ws st seed_ids (fst seed) parent dir e = Some c"
  shows "sound_candidate os p ws st gs seed_ids seed c"
proof -
  obtain l d where e: "e = (l, d)" by (cases e)
  obtain w k where wk: "legacy_or_weight (lk_weight l) = Some w" "legacy_or_unit (lk_confidence l) = Some k"
    using assms(7) by (auto simp: consider_second_hop_def e split: if_splits option.splits)
  let ?g = "hop_of st (gc_doc_id parent) dir (l, d) w k"
  have c: "c = \<lparr>gc_doc_id = dr_doc_id d, gc_store_id = st, gc_metadata = document_metadata st d,
      gc_score = gc_score parent * type_factor (lk_type l) * w * k * HOP_DECAY, gc_seed_doc_id = fst seed,
      gc_paths = gc_paths parent @ [?g], gc_depth = 2, gc_link_type = lk_type l,
      gc_text = None, gc_rank = 0\<rparr>"
    and a: "authorized os p ws (document_metadata st d)" "neighbor_eligible (document_metadata st d)"
      "dr_doc_id d \<notin> set seed_ids"
    using assms(7) wk by (auto simp: consider_second_hop_def e Let_def split: if_splits)
  have "stored_hop gs TWO_HOP_TYPES ?g"
    using assms(4,6) wk by (auto simp: stored_hop_def hop_of_def edge_selected_def e intro!: bexI[of _ l])
  moreover obtain h where h: "gc_paths parent = [h]" "stored_hop gs ALLOWED_LINK_TYPES h" "hp_from h = fst seed"
      "hp_to h = gc_doc_id parent" "gc_link_type parent = hp_link_type h" "gc_score parent = snd seed * hop_gain h"
    using parent(1,2) by (auto simp: sound_candidate_def explained_def split: list.splits)
  moreover have "stored_hop gs TWO_HOP_TYPES h"
    using h(2,5) parent(3) by (auto simp: stored_hop_def)
  moreover have "visible_learning os p ws st gs (hp_to h)"
    using parent(1) h(4) by (simp add: sound_candidate_def)
  ultimately show ?thesis
    using assms(5) a unfolding c sound_candidate_def explained_def authorized_def
    by (auto simp: hop_of_def hop_gain_def visible_learning_def e mult_ac)
qed

section \<open>The neighbors of one seed\<close>

lemma table_ok_mono: "table_ok P best \<Longrightarrow> (\<And>c. P c \<Longrightarrow> Q c) \<Longrightarrow> table_ok Q best"
  by (auto simp: table_ok_def)

lemma merge_parents_ok:
  assumes "merge_parents env ctx gs p ws st seed_ids (fst seed) parents best s = (Inr b, s')"
    and "table_ok (sound_candidate (ge_os env) p ws st gs seed_ids seed) best"
    and "list_all (\<lambda>c. sound_candidate (ge_os env) p ws st gs seed_ids seed c \<and> gc_depth c = 1 \<and>
      gc_link_type c \<in> set TWO_HOP_TYPES) parents"
  shows "table_ok (sound_candidate (ge_os env) p ws st gs seed_ids seed) b"
  using assms
proof (induction parents arbitrary: best s)
  case (Cons parent parents)
  let ?S = "sound_candidate (ge_os env) p ws st gs seed_ids seed"
  obtain items s1 s2 where 1: "second_hop_for_parent env ctx gs p ws st seed_ids (fst seed) parent s1 = (Inr items, s2)"
    and 2: "merge_parents env ctx gs p ws st seed_ids (fst seed) parents (fold (put_best far_wins) items best) s2 = (Inr b, s')"
    using Cons.prems(1) by (auto simp: run_bind_Inr)
  obtain far s3 where far: "walk_both env ctx gs (gc_doc_id parent) TWO_HOP_TYPES
      (consider_second_hop (ge_os env) p ws st seed_ids (fst seed) parent) far_wins s1 = (Inr far, s3)"
    and items: "items = take MAX_NEIGHBORS_PER_SEED (ranked_best far)"
    using 1 by (auto simp: second_hop_for_parent_def run_bind_Inr)
  have par: "?S parent" "gc_depth parent = 1" "gc_link_type parent \<in> set TWO_HOP_TYPES"
    using Cons.prems(3) by auto
  have "table_ok ?S far"
    by (rule walk_both_ok[OF _ far]) (rule consider_second_hop_sound[OF par])
  then have "list_all ?S items"
    using ranked_best_props(1)[of ?S far] by (auto simp: items list_all_iff dest: in_set_takeD)
  then have "table_ok ?S (fold (put_best far_wins) items best)"
    by (rule fold_put_best_ok[OF Cons.prems(2)])
  from Cons.IH[OF 2 this] Cons.prems(3) show ?case by simp
qed (simp add: run_return_def)

lemma hydrate_all_Inr:
  "hydrate_all env ctx gs cs s = (Inr cs', s') \<Longrightarrow>
     cs' = map (\<lambda>c. c\<lparr>gc_text := Some (hydrated_text gs (gc_doc_id c))\<rparr>) cs"
  by (induction cs arbitrary: cs' s s') (auto simp: run_bind_Inr)

lemma log_text_texts [simp]: "rs_texts (snd (log_text d s)) = rs_texts s @ [d]"
  by (simp add: log_text_def)

lemma run_bind_texts_sub:
  assumes "set (rs_texts (snd (m s))) \<subseteq> set (rs_texts s) \<union> A"
    and "\<And>a s1. m s = (Inr a, s1) \<Longrightarrow> set (rs_texts (snd (f a s1))) \<subseteq> set (rs_texts s1) \<union> A"
  shows "set (rs_texts (snd (run_bind m f s))) \<subseteq> set (rs_texts s) \<union> A"
  using assms by (cases "m s") (fastforce simp: run_bind_def split: sum.splits)

lemma hydrate_all_texts:
  "set (rs_texts (snd (hydrate_all env ctx gs cs s))) \<subseteq> set (rs_texts s) \<union> gc_doc_id ` set cs"
proof (induction cs arbitrary: s)
  case (Cons c cs)
  have "set (rs_texts (snd (hydrate_all env ctx gs cs s1))) \<subseteq> set (rs_texts s1) \<union> gc_doc_id ` set (c # cs)" for s1
    using Cons[of s1] by auto
  then show ?case
    unfolding hydrate_all.simps by (intro run_bind_texts_sub) auto
qed simp

lemma ranked_prefix_all: "table_ok P best \<Longrightarrow> list_all P (take n (ranked_best best))"
  using ranked_best_props(1)[of P best] by (auto simp: list_all_iff dest: in_set_takeD)

lemma sound_text [simp]:
  "sound_candidate os p ws st gs seed_ids seed (c\<lparr>gc_text := t\<rparr>) = sound_candidate os p ws st gs seed_ids seed c"
  "sound_candidate os p ws st gs seed_ids seed (c\<lparr>gc_rank := r\<rparr>) = sound_candidate os p ws st gs seed_ids seed c"
  unfolding sound_candidate_def explained_def by (simp_all cong: list.case_cong)

text \<open>The table before the texts are read, and what follows.\<close>

definition seed_table ::
  "graph_env \<Rightarrow> request_ctx \<Rightarrow> graph_store \<Rightarrow> effective_principal \<Rightarrow> string \<Rightarrow> string \<Rightarrow> int list \<Rightarrow> bool \<Rightarrow>
   int \<times> rat \<Rightarrow> best_table run" where
  "seed_table env ctx gs p ws st seed_ids two_hops seed =
    run_bind (walk_both env ctx gs (fst seed) ALLOWED_LINK_TYPES
      (consider_edge (ge_os env) p ws st seed_ids (fst seed) (snd seed)) near_wins) (\<lambda>near.
    if two_hops then merge_second_hop env ctx gs p ws st seed_ids (fst seed) near else run_return near)"

lemma run_bind_assoc: "run_bind (run_bind m f) g = run_bind m (\<lambda>a. run_bind (f a) g)"
  by (rule ext) (auto simp: run_bind_def split: prod.splits sum.splits)

lemma neighbors_via_table:
  "eligible_neighbors_for_seed env ctx gs p ws st seed_ids two_hops seed =
    run_bind (seed_table env ctx gs p ws st seed_ids two_hops seed)
      (\<lambda>best. hydrate_all env ctx gs (take MAX_NEIGHBORS_PER_SEED (ranked_best best)))"
  by (simp add: eligible_neighbors_for_seed_def seed_table_def run_bind_assoc)

lemma seed_table_texts [simp]:
  "rs_texts (snd (seed_table env ctx gs p ws st seed_ids two_hops seed s)) = rs_texts s"
  unfolding seed_table_def by (rule run_bind_texts) (auto simp: merge_second_hop_def)

lemma seed_table_ok:
  assumes "seed_table env ctx gs p ws st seed_ids two_hops seed s = (Inr b, s')"
  shows "table_ok (\<lambda>c. sound_candidate (ge_os env) p ws st gs seed_ids seed c \<and>
    (\<not> two_hops \<longrightarrow> gc_depth c = 1)) b"
proof -
  let ?S = "sound_candidate (ge_os env) p ws st gs seed_ids seed"
  let ?N = "\<lambda>c. ?S c \<and> gc_depth c = 1"
  obtain near s1 where near: "walk_both env ctx gs (fst seed) ALLOWED_LINK_TYPES
      (consider_edge (ge_os env) p ws st seed_ids (fst seed) (snd seed)) near_wins s = (Inr near, s1)"
    and b: "(if two_hops then merge_second_hop env ctx gs p ws st seed_ids (fst seed) near else run_return near) s1 = (Inr b, s')"
    using assms by (auto simp: seed_table_def run_bind_Inr)
  have ok: "table_ok ?N near"
    by (rule walk_both_ok[OF _ near]) (use consider_edge_sound in blast)
  show ?thesis
  proof (cases two_hops)
    case True
    have "list_all ?N (take MAX_NEIGHBORS_PER_SEED (ranked_best near))"
      by (rule ranked_prefix_all[OF ok])
    then have front: "list_all (\<lambda>c. ?S c \<and> gc_depth c = 1 \<and> gc_link_type c \<in> set TWO_HOP_TYPES) (hop_frontier near)"
      by (auto simp: hop_frontier_def list_all_iff)
    have run: "merge_parents env ctx gs p ws st seed_ids (fst seed) (hop_frontier near) near s1 = (Inr b, s')"
      using b True by (simp add: merge_second_hop_def)
    have "table_ok ?S near" by (rule table_ok_mono[OF ok]) simp
    from merge_parents_ok[OF run this front] have "table_ok ?S b" .
    then show ?thesis using True by simp
  next
    case False
    then show ?thesis using b ok by simp
  qed
qed

lemma seed_neighbors:
  assumes "eligible_neighbors_for_seed env ctx gs p ws st seed_ids two_hops seed s = (Inr cs, s')"
  shows "list_all (\<lambda>c. sound_candidate (ge_os env) p ws st gs seed_ids seed c \<and>
      (\<not> two_hops \<longrightarrow> gc_depth c = 1) \<and> gc_text c = Some (hydrated_text gs (gc_doc_id c))) cs"
    and "length cs \<le> MAX_NEIGHBORS_PER_SEED" and "distinct (map gc_doc_id cs)"
proof -
  obtain b s1 where b: "seed_table env ctx gs p ws st seed_ids two_hops seed s = (Inr b, s1)"
    and h: "hydrate_all env ctx gs (take MAX_NEIGHBORS_PER_SEED (ranked_best b)) s1 = (Inr cs, s')"
    using assms by (auto simp: neighbors_via_table run_bind_Inr)
  note ok = seed_table_ok[OF b] and cs = hydrate_all_Inr[OF h]
  show "length cs \<le> MAX_NEIGHBORS_PER_SEED" by (simp add: cs)
  have "map gc_doc_id cs = take MAX_NEIGHBORS_PER_SEED (map gc_doc_id (ranked_best b))"
    by (simp add: cs take_map comp_def)
  then show "distinct (map gc_doc_id cs)" using ranked_best_props(2)[OF ok] by simp
  show "list_all (\<lambda>c. sound_candidate (ge_os env) p ws st gs seed_ids seed c \<and>
      (\<not> two_hops \<longrightarrow> gc_depth c = 1) \<and> gc_text c = Some (hydrated_text gs (gc_doc_id c))) cs"
    using ranked_prefix_all[OF ok, of MAX_NEIGHBORS_PER_SEED]
    by (auto simp: cs list_all_iff)
qed

lemma seed_texts_visible:
  "set (rs_texts (snd (eligible_neighbors_for_seed env ctx gs p ws st seed_ids two_hops seed s)))
    \<subseteq> set (rs_texts s) \<union> Collect (visible_learning (ge_os env) p ws st gs)"
  unfolding neighbors_via_table
proof (rule run_bind_texts_sub)
  fix b s1
  assume "seed_table env ctx gs p ws st seed_ids two_hops seed s = (Inr b, s1)"
  from ranked_prefix_all[OF seed_table_ok[OF this], of MAX_NEIGHBORS_PER_SEED]
  have "gc_doc_id ` set (take MAX_NEIGHBORS_PER_SEED (ranked_best b)) \<subseteq> Collect (visible_learning (ge_os env) p ws st gs)"
    by (auto simp: list_all_iff sound_candidate_def)
  then show "set (rs_texts (snd (hydrate_all env ctx gs (take MAX_NEIGHBORS_PER_SEED (ranked_best b)) s1)))
      \<subseteq> set (rs_texts s1) \<union> Collect (visible_learning (ge_os env) p ws st gs)"
    using hydrate_all_texts[of env ctx gs "take MAX_NEIGHBORS_PER_SEED (ranked_best b)" s1] by blast
qed simp

end
