(* ===== verification/Expansion_Answer.thy ===== *)
theory Expansion_Answer
  imports Expansion_Safety
begin

text \<open>
  The answer of a whole expansion of the memory graph: nothing unauthorized is read or listed, every
  neighbor is explained by stored links, the caps hold, reading the edges in pages loses none, and a
  degraded answer is the answer for the first seeds.
\<close>

section \<open>Pages against one scan\<close>

text \<open>The primary keys of the two tables.\<close>

definition keyed :: "graph_store \<Rightarrow> bool" where
  "keyed gs \<longleftrightarrow> distinct (map (\<lambda>l. (lk_source l, lk_target l, lk_type l)) (gs_links gs)) \<and>
     distinct (map dr_doc_id (gs_docs gs))"

lemma distinct_map_eq: "distinct (map f xs) \<Longrightarrow> x \<in> set xs \<Longrightarrow> y \<in> set xs \<Longrightarrow> f x = f y \<Longrightarrow> x = y"
  by (auto simp: distinct_map inj_on_def)

lemma edge_key_inj:
  assumes "keyed gs" and "fst e \<in> set (gs_links gs)" "snd e \<in> set (gs_docs gs)" "edge_selected dir seed types e"
    and "fst e' \<in> set (gs_links gs)" "snd e' \<in> set (gs_docs gs)" "edge_selected dir seed types e'"
    and "edge_key e = edge_key e'"
  shows "e = e'"
proof -
  have "snd e = snd e'"
    using assms(1,3,6,8) by (auto simp: keyed_def edge_key_def dest: distinct_map_eq)
  moreover have "(lk_source (fst e), lk_target (fst e), lk_type (fst e)) = (lk_source (fst e'), lk_target (fst e'), lk_type (fst e'))"
    using assms(4,7,8) by (cases dir) (auto simp: edge_selected_def edge_key_def seed_col_def neighbor_col_def)
  then have "fst e = fst e'"
    using assms(1,2,5) unfolding keyed_def by (metis (no_types, lifting) distinct_map_eq)
  ultimately show ?thesis by (simp add: prod_eq_iff)
qed

lemma edges_strictly_sorted:
  assumes "keyed gs"
  shows "sorted_wrt (\<lambda>a b. edge_key a < edge_key b) (edges_beyond gs dir seed types cursor)"
proof -
  let ?F = "filter (\<lambda>e. edge_selected dir seed types e \<and> cursor < edge_key e) (List.product (gs_links gs) (gs_docs gs))"
  have "distinct (gs_links gs)" "distinct (gs_docs gs)"
    using assms by (auto simp: keyed_def distinct_map)
  then have "distinct ?F" by (simp add: distinct_product)
  moreover have "inj_on edge_key (set ?F)"
  proof (rule inj_onI)
    fix e e' assume "e \<in> set ?F" "e' \<in> set ?F" "edge_key e = edge_key e'"
    then show "e = e'"
      by (intro edge_key_inj[OF assms, of e dir seed types e']) (auto simp: mem_Times_iff)
  qed
  ultimately have "distinct (map edge_key ?F)" by (simp add: distinct_map)
  then have "distinct (map edge_key (edges_beyond gs dir seed types cursor))"
    by (simp add: edges_beyond_def distinct_map)
  moreover have "sorted (map edge_key (edges_beyond gs dir seed types cursor))"
    by (simp add: edges_beyond_def)
  ultimately show ?thesis by (simp add: strict_sorted_iff flip: sorted_wrt_map)
qed

lemma filter_beyond_last:
  fixes k :: "'a \<Rightarrow> 'b :: linorder"
  assumes "sorted_wrt (\<lambda>a b. k a < k b) xs" and "take n xs \<noteq> []"
  shows "filter (\<lambda>e. k (last (take n xs)) < k e) xs = drop n xs"
proof -
  have xs: "xs = take n xs @ drop n xs" by simp
  have "filter (\<lambda>e. k (last (take n xs)) < k e) (take n xs) = []"
  proof -
    have split: "butlast (take n xs) @ [last (take n xs)] = take n xs"
      by (rule append_butlast_last_id[OF assms(2)])
    have "sorted_wrt (\<lambda>a b. k a < k b) (butlast (take n xs) @ [last (take n xs)])"
      unfolding split by (rule sorted_wrt_take[OF assms(1)])
    then have "\<forall>e \<in> set (butlast (take n xs) @ [last (take n xs)]). \<not> k (last (take n xs)) < k e"
      by (force simp: sorted_wrt_append)
    then show ?thesis unfolding split by (simp only: filter_empty_conv not_False_eq_True)
  qed
  moreover have "filter (\<lambda>e. k (last (take n xs)) < k e) (drop n xs) = drop n xs"
  proof -
    have "sorted_wrt (\<lambda>a b. k a < k b) (take n xs @ drop n xs)" using assms(1) by simp
    then have "\<forall>a \<in> set (take n xs). \<forall>b \<in> set (drop n xs). k a < k b"
      unfolding sorted_wrt_append by blast
    then show ?thesis using last_in_set[OF assms(2)] by (simp add: filter_id_conv)
  qed
  ultimately show ?thesis by (metis xs filter_append append_Nil)
qed

lemma beyond_split:
  assumes "keyed gs" and "rows = fetch_edge_page gs dir seed types cursor" and "rows \<noteq> []"
  shows "edges_beyond gs dir seed types cursor = rows @ edges_beyond gs dir seed types (edge_key (last rows))"
proof -
  let ?E = "edges_beyond gs dir seed types cursor"
  have "edge_selected dir seed types (last rows) \<and> cursor < edge_key (last rows)"
    using last_in_set[OF assms(3)] by (auto simp: assms(2) fetch_edge_page_def edges_beyond_def dest!: in_set_takeD)
  then have "edges_beyond gs dir seed types (edge_key (last rows)) = filter (\<lambda>e. edge_key (last rows) < edge_key e) ?E"
    unfolding edges_beyond_def filter_sort filter_filter by (intro arg_cong[of _ _ "sort_key edge_key"] filter_cong) auto
  also have "\<dots> = drop EDGE_PAGE_SIZE ?E"
    using filter_beyond_last[OF edges_strictly_sorted[OF assms(1)]] assms(2,3) by (simp add: fetch_edge_page_def)
  finally show ?thesis by (simp add: assms(2) fetch_edge_page_def)
qed

lemma walk_pages_scan:
  assumes "keyed gs"
  shows "walk_pages env ctx gs dir seed types consider wins cursor best s = (Inr b, s') \<Longrightarrow>
    b = fold (take_edge consider wins) (edges_beyond gs dir seed types cursor) best"
proof (induction cursor best s rule: page_induct[where gs = gs and dir = dir and seed = seed and types = types])
  case (1 cursor best s)
  let ?rows = "fetch_edge_page gs dir seed types cursor"
  show ?case
  proof (rule walk_pages_step[OF 1(2) refl])
    assume "?rows = []" "b = best"
    then show ?thesis by (simp add: fetch_edge_page_def EDGE_PAGE_SIZE_def)
  next
    assume "length ?rows < EDGE_PAGE_SIZE" "b = fold (take_edge consider wins) ?rows best"
    then show ?thesis by (auto simp: fetch_edge_page_def)
  next
    fix s1
    assume rows: "?rows \<noteq> []" and rest: "walk_pages env ctx gs dir seed types consider wins (edge_key (last ?rows))
      (fold (take_edge consider wins) ?rows best) s1 = (Inr b, s')"
    from 1(1)[OF rows rest] show ?thesis
      by (subst beyond_split[OF assms refl rows]) simp
  qed
qed

text \<open>Nothing goes wrong: the clock stays before the deadline and every call succeeds.\<close>

definition quiet :: "graph_env \<Rightarrow> request_ctx \<Rightarrow> bool" where
  "quiet env ctx \<longleftrightarrow> (\<exists>d. rc_deadline ctx = Some d \<and> (\<forall>k. ge_time env k < d \<and> ge_sql env k = SqlOk))"

lemma quiet_runs:
  assumes "quiet env ctx"
  shows "\<exists>s'. run_check env ctx s = (Inr (), s')" and "\<exists>s'. run_query env ctx s = (Inr (), s')"
    and "\<exists>s'. run_call env ctx s = (Inr (), s')"
proof -
  obtain d where "rc_deadline ctx = Some d" and "\<And>k. ge_time env k < d" and "\<And>k. ge_sql env k = SqlOk"
    using assms by (auto simp: quiet_def)
  moreover from this have "\<And>k. \<not> max 0 (d - ge_time env k) \<le> 0" by (simp add: not_le)
  ultimately show "\<exists>s'. run_check env ctx s = (Inr (), s')" and "\<exists>s'. run_query env ctx s = (Inr (), s')"
    and "\<exists>s'. run_call env ctx s = (Inr (), s')"
    by (simp_all add: run_check_def run_call_def run_query_def run_bind_def check_deadline_def
        remaining_seconds_def request_operation_def)
qed

lemma quiet_walk_pages:
  assumes "quiet env ctx"
  shows "\<exists>b s'. walk_pages env ctx gs dir seed types consider wins cursor best s = (Inr b, s')"
proof (induction cursor best s rule: page_induct[where gs = gs and dir = dir and seed = seed and types = types])
  case (1 cursor best s)
  obtain s1 where s1: "run_bind (run_check env ctx) (\<lambda>_. run_query env ctx) s = (Inr (), s1)"
    using quiet_runs[OF assms] by (metis run_bind_Inr)
  show ?case using 1 by (subst walk_pages.simps) (simp add: s1 Let_def)
qed

section \<open>The reference answer\<close>

text \<open>
  The same selection over one scan of the edges in each direction, without pages, clock or errors.
\<close>

definition scan_both ::
  "graph_store \<Rightarrow> int \<Rightarrow> string list \<Rightarrow> (link_direction \<Rightarrow> link_row \<times> doc_row \<Rightarrow> graph_candidate option) \<Rightarrow>
   (graph_candidate \<Rightarrow> graph_candidate \<Rightarrow> bool) \<Rightarrow> best_table" where
  "scan_both gs seed types consider wins =
    fold (take_edge (consider Incoming) wins) (edges_beyond gs Incoming seed types (0, []))
      (fold (take_edge (consider Outgoing) wins) (edges_beyond gs Outgoing seed types (0, [])) [])"

definition far_answer ::
  "graph_store \<Rightarrow> os_env \<Rightarrow> effective_principal \<Rightarrow> string \<Rightarrow> string \<Rightarrow> int list \<Rightarrow> int \<Rightarrow> graph_candidate \<Rightarrow> graph_candidate list" where
  "far_answer gs os p ws st seed_ids seed parent = take MAX_NEIGHBORS_PER_SEED (ranked_best
     (scan_both gs (gc_doc_id parent) TWO_HOP_TYPES (consider_second_hop os p ws st seed_ids seed parent) far_wins))"

definition near_answer ::
  "graph_store \<Rightarrow> os_env \<Rightarrow> effective_principal \<Rightarrow> string \<Rightarrow> string \<Rightarrow> int list \<Rightarrow> int \<times> rat \<Rightarrow> best_table" where
  "near_answer gs os p ws st seed_ids seed = scan_both gs (fst seed) ALLOWED_LINK_TYPES
     (consider_edge os p ws st seed_ids (fst seed) (snd seed)) near_wins"

definition seed_answer ::
  "graph_store \<Rightarrow> os_env \<Rightarrow> effective_principal \<Rightarrow> string \<Rightarrow> string \<Rightarrow> int list \<Rightarrow> bool \<Rightarrow> int \<times> rat \<Rightarrow> graph_candidate list" where
  "seed_answer gs os p ws st seed_ids two_hops seed =
    (let near = near_answer gs os p ws st seed_ids seed;
         best = (if two_hops then fold (\<lambda>parent best. fold (put_best far_wins)
             (far_answer gs os p ws st seed_ids (fst seed) parent) best) (hop_frontier near) near else near)
     in map (\<lambda>c. c\<lparr>gc_text := Some (hydrated_text gs (gc_doc_id c))\<rparr>)
          (take MAX_NEIGHBORS_PER_SEED (ranked_best best)))"

definition open_seeds ::
  "graph_store \<Rightarrow> os_env \<Rightarrow> effective_principal \<Rightarrow> string \<Rightarrow> string \<Rightarrow> (int \<times> rat) list \<Rightarrow> (int \<times> rat) list" where
  "open_seeds gs os p ws st ranked = filter (\<lambda>(doc_id, score).
     case find (\<lambda>d. dr_doc_id d = doc_id) (gs_docs gs) of None \<Rightarrow> False
     | Some d \<Rightarrow> authorized os p ws (document_metadata st d) \<and> seed_usable (document_metadata st d)) ranked"

lemma walk_both_scan:
  assumes "keyed gs" and "walk_both env ctx gs seed types consider wins s = (Inr b, s')"
  shows "b = scan_both gs seed types consider wins"
  using assms(2) by (auto simp: walk_both_def run_bind_Inr scan_both_def dest!: walk_pages_scan[OF assms(1)])

lemma merge_parents_scan:
  assumes "keyed gs"
  shows "merge_parents env ctx gs p ws st seed_ids seed parents best s = (Inr b, s') \<Longrightarrow>
    b = fold (\<lambda>parent best. fold (put_best far_wins) (far_answer gs (ge_os env) p ws st seed_ids seed parent) best) parents best"
proof (induction parents arbitrary: best s)
  case (Cons parent parents)
  then show ?case
    by (auto simp: run_bind_Inr second_hop_for_parent_def far_answer_def dest!: walk_both_scan[OF assms])
qed simp

lemma seed_answer_run:
  assumes "keyed gs" and "eligible_neighbors_for_seed env ctx gs p ws st seed_ids two_hops seed s = (Inr cs, s')"
  shows "cs = seed_answer gs (ge_os env) p ws st seed_ids two_hops seed"
proof -
  obtain near best s1 s2 s3 where 1: "walk_both env ctx gs (fst seed) ALLOWED_LINK_TYPES
      (consider_edge (ge_os env) p ws st seed_ids (fst seed) (snd seed)) near_wins s = (Inr near, s1)"
    and 2: "(if two_hops then merge_second_hop env ctx gs p ws st seed_ids (fst seed) near else run_return near) s1 = (Inr best, s2)"
    and 3: "hydrate_all env ctx gs (take MAX_NEIGHBORS_PER_SEED (ranked_best best)) s2 = (Inr cs, s3)"
    using assms(2) by (auto simp: eligible_neighbors_for_seed_def run_bind_Inr)
  have near: "near = near_answer gs (ge_os env) p ws st seed_ids seed"
    using walk_both_scan[OF assms(1) 1] by (simp add: near_answer_def)
  show ?thesis
  proof (cases two_hops)
    case True
    then have "merge_parents env ctx gs p ws st seed_ids (fst seed) (hop_frontier near) near s1 = (Inr best, s2)"
      using 2 by (simp add: merge_second_hop_def)
    from merge_parents_scan[OF assms(1) this] hydrate_all_Inr[OF 3] near True show ?thesis
      by (simp add: seed_answer_def Let_def)
  next
    case False
    then show ?thesis using 2 near hydrate_all_Inr[OF 3] by (simp add: seed_answer_def Let_def)
  qed
qed

lemma authorize_seeds_open:
  "authorize_seeds env ctx gs p ws st ranked s = (Inr seeds, s') \<Longrightarrow> seeds = open_seeds gs (ge_os env) p ws st ranked"
proof (induction ranked arbitrary: s seeds s')
  case (Cons r ranked)
  obtain doc_id score where r: "r = (doc_id, score)" by (cases r)
  obtain rest s1 s2 where "authorize_seeds env ctx gs p ws st ranked s1 = (Inr rest, s2)"
    and seeds: "seeds = (case find (\<lambda>d. dr_doc_id d = doc_id) (gs_docs gs) of None \<Rightarrow> rest
      | Some d \<Rightarrow> (let m = document_metadata st d in
          if \<not> authorized (ge_os env) p ws m then rest else if \<not> seed_usable m then rest else (doc_id, score) # rest))"
    using Cons.prems by (auto simp: r run_bind_Inr)
  from Cons.IH[OF this(1)] show ?case
    unfolding seeds by (auto simp: open_seeds_def r Let_def split: option.splits)
qed (simp add: open_seeds_def)

lemma authorize_seeds_texts [simp]: "rs_texts (snd (authorize_seeds env ctx gs p ws st ranked s)) = rs_texts s"
proof (induction ranked arbitrary: s)
  case (Cons r ranked)
  then show ?case by (cases r) (auto intro!: run_bind_texts)
qed simp

text \<open>The loop over the seeds collects the answers of a prefix, of all of them when nothing stops it.\<close>

lemma collect_seeds_prefix:
  assumes "keyed gs"
  shows "collect_seeds env ctx gs p ws st seed_ids two_hops seeds collected s = (stop, out, s') \<Longrightarrow>
    \<exists>k \<le> length seeds. out = collected @ concat (map (seed_answer gs (ge_os env) p ws st seed_ids two_hops) (take k seeds)) \<and>
      (stop = None \<longrightarrow> k = length seeds)"
proof (induction seeds arbitrary: collected s)
  case (Cons seed seeds)
  let ?run = "run_bind (run_check env ctx) (\<lambda>_. eligible_neighbors_for_seed env ctx gs p ws st seed_ids two_hops seed) s"
  show ?case
  proof (cases ?run)
    case (Pair r s1)
    show ?thesis
    proof (cases r)
      case (Inl e)
      then have "out = collected \<and> stop = Some e" using Cons.prems Pair by auto
      then show ?thesis by (intro exI[of _ 0]) auto
    next
      case (Inr cs)
      then have cs: "cs = seed_answer gs (ge_os env) p ws st seed_ids two_hops seed"
        using Pair by (auto simp: run_bind_Inr dest!: seed_answer_run[OF assms])
      have "collect_seeds env ctx gs p ws st seed_ids two_hops seeds (collected @ cs) s1 = (stop, out, s')"
        using Cons.prems Pair Inr by simp
      from Cons.IH[OF this] obtain k where "k \<le> length seeds" "stop = None \<longrightarrow> k = length seeds"
        "out = (collected @ cs) @ concat (map (seed_answer gs (ge_os env) p ws st seed_ids two_hops) (take k seeds))"
        by blast
      then show ?thesis by (intro exI[of _ "Suc k"]) (simp add: cs)
    qed
  qed
qed auto

lemma collect_seeds_all:
  "collect_seeds env ctx gs p ws st seed_ids two_hops seeds collected s = (stop, out, s') \<Longrightarrow> P_ok collected \<Longrightarrow>
    (\<And>seed s cs s' collected. seed \<in> set seeds \<Longrightarrow> P_ok collected \<Longrightarrow>
      eligible_neighbors_for_seed env ctx gs p ws st seed_ids two_hops seed s = (Inr cs, s') \<Longrightarrow> P_ok (collected @ cs)) \<Longrightarrow>
    P_ok out"
proof (induction seeds arbitrary: collected s)
  case (Cons seed seeds)
  show ?case
  proof (cases "run_bind (run_check env ctx) (\<lambda>_. eligible_neighbors_for_seed env ctx gs p ws st seed_ids two_hops seed) s")
    case (Pair r s1)
    show ?thesis
    proof (cases r)
      case (Inl e)
      then show ?thesis using Cons.prems Pair by simp
    next
      case (Inr cs)
      then obtain s2 where "eligible_neighbors_for_seed env ctx gs p ws st seed_ids two_hops seed s2 = (Inr cs, s1)"
        using Pair by (auto simp: run_bind_Inr)
      then have "P_ok (collected @ cs)" using Cons.prems(2,3) by (meson list.set_intros(1))
      moreover have "collect_seeds env ctx gs p ws st seed_ids two_hops seeds (collected @ cs) s1 = (stop, out, s')"
        using Cons.prems(1) Pair Inr by simp
      ultimately show ?thesis using Cons.IH Cons.prems(3) by (meson list.set_intros(2))
    qed
  qed
qed simp

lemma collect_seeds_texts:
  "set (rs_texts (snd (snd (collect_seeds env ctx gs p ws st seed_ids two_hops seeds collected s))))
    \<subseteq> set (rs_texts s) \<union> Collect (visible_learning (ge_os env) p ws st gs)"
proof (induction seeds arbitrary: collected s)
  case (Cons seed seeds)
  let ?run = "run_bind (run_check env ctx) (\<lambda>_. eligible_neighbors_for_seed env ctx gs p ws st seed_ids two_hops seed)"
  have "set (rs_texts (snd (?run s))) \<subseteq> set (rs_texts s) \<union> Collect (visible_learning (ge_os env) p ws st gs)"
    by (rule run_bind_texts_sub) (simp_all add: seed_texts_visible)
  then show ?case
    using Cons by (cases "?run s") (fastforce split: sum.splits)
qed simp

section \<open>The whole expansion\<close>

lemma schema_ready_texts [simp]: "rs_texts (snd (schema_ready env ctx gs s)) = rs_texts s"
  using texts_unchanged(3)[of env ctx s]
  by (cases "run_query env ctx s") (auto simp: schema_ready_def split: sum.splits request_error.splits)

lemma run_bind_snd_texts:
  assumes "run_bind m f s = (r, s')" and "\<And>s. rs_texts (snd (m s)) = rs_texts s"
    and "\<And>a s. rs_texts (snd (f a s)) = rs_texts s"
  shows "rs_texts s' = rs_texts s"
  using run_bind_texts[of m s f] assms by simp

lemma in_snapshot_cases:
  assumes "in_snapshot env ctx gs p ws st two_hops ranked s = (fin, s')"
  obtains "rs_texts s' = rs_texts s" and "fin = SchemaMissing \<or> (\<exists>e. fin = Walked (Some e) [])"
  | s2 stop out where "rs_texts s2 = rs_texts s" and "fin = Walked stop out"
    and "collect_seeds env ctx gs p ws st (map fst (open_seeds gs (ge_os env) p ws st ranked)) two_hops
      (open_seeds gs (ge_os env) p ws st ranked) [] s2 = (stop, out, s')"
proof -
  let ?m = "run_bind (run_check env ctx) (\<lambda>_. run_bind (schema_ready env ctx gs) (\<lambda>ready.
        run_bind (run_check env ctx) (\<lambda>_. run_return ready)))"
  obtain r1 s1 where 1: "?m s = (r1, s1)" by (cases "?m s")
  have t1: "rs_texts s1 = rs_texts s"
    by (rule run_bind_snd_texts[OF 1]) (auto intro!: run_bind_texts)
  obtain r2 s2 where 2: "authorize_seeds env ctx gs p ws st ranked s1 = (r2, s2)"
    by (cases "authorize_seeds env ctx gs p ws st ranked s1")
  have t2: "rs_texts s2 = rs_texts s"
    using authorize_seeds_texts[of env ctx gs p ws st ranked s1] 2 t1 by simp
  show ?thesis
  proof (cases "r1 = Inr True \<and> (\<exists>seeds. r2 = Inr seeds)")
    case True
    then obtain seeds where seeds: "r1 = Inr True" "r2 = Inr seeds" by blast
    obtain stop out s3 where 3: "collect_seeds env ctx gs p ws st (map fst seeds) two_hops seeds [] s2 = (stop, out, s3)"
      by (cases "collect_seeds env ctx gs p ws st (map fst seeds) two_hops seeds [] s2") auto
    have eq: "seeds = open_seeds gs (ge_os env) p ws st ranked"
      by (rule authorize_seeds_open) (use 2 seeds in simp)
    show ?thesis
      by (rule that(2)[OF t2]) (use assms 1 2 3 seeds in \<open>simp_all add: in_snapshot_def flip: eq\<close>)
  next
    case False
    have "rs_texts s' = rs_texts s \<and> (fin = SchemaMissing \<or> (\<exists>e. fin = Walked (Some e) []))"
      using assms 1 2 False t1 t2 by (auto simp: in_snapshot_def split: sum.splits bool.splits)
    then show ?thesis using that(1) by blast
  qed
qed

text \<open>Either no seed was walked, or the result is that of the loop over the readable seeds.\<close>

lemma expand_cases:
  assumes "expand_typed_graph env ctx gs (PStr st) seeds (Some p) (PStr ws) dl depth s = (r, s')"
  obtains "rs_texts s' = rs_texts s" and "\<And>g. r = Inr g \<Longrightarrow> gx_neighbors g = [] \<and>
      (gx_status g = ''ok'' \<longrightarrow> bounded_seeds seeds st = Inr [])"
  | ctx' ranked s2 stop out where "rs_texts s2 = rs_texts s" and "bounded_seeds seeds st = Inr ranked"
    and "collect_seeds env ctx' gs p ws st (map fst (open_seeds gs (ge_os env) p ws st ranked)) (py_eq_int depth 2)
      (open_seeds gs (ge_os env) p ws st ranked) [] s2 = (stop, out, s')"
    and "\<And>g. r = Inr g \<Longrightarrow> gx_neighbors g = [] \<and> gx_status g = ''degraded'' \<or>
      gx_neighbors g = finalize out st \<and> (gx_status g = ''ok'' \<longleftrightarrow> stop = None)"
proof (cases "\<exists>ranked d. bounded_seeds seeds st = Inr ranked \<and> ranked \<noteq> [] \<and> ws \<noteq> [] \<and> py_strip st \<noteq> [] \<and>
    (py_eq_int depth 1 \<or> py_eq_int depth 2) \<and> validated_deadline ctx dl = Some d")
  case False
  then have "rs_texts s' = rs_texts s \<and> (\<forall>g. r = Inr g \<longrightarrow> gx_neighbors g = [] \<and>
      (gx_status g = ''ok'' \<longrightarrow> bounded_seeds seeds st = Inr []))"
    using assms by (auto simp: expand_typed_graph_def split: if_splits option.splits sum.splits)
  then show ?thesis using that(1) by blast
next
  case True
  then obtain ranked d where cond: "bounded_seeds seeds st = Inr ranked" "ranked \<noteq> []" "ws \<noteq> []" "py_strip st \<noteq> []"
      "py_eq_int depth 1 \<or> py_eq_int depth 2" "validated_deadline ctx dl = Some d" by blast
  let ?ctx = "ctx\<lparr>rc_deadline := effective_deadline (Some d) (rc_deadline ctx)\<rparr>"
  have run: "expand_in_deadline env ?ctx gs p ws st (py_eq_int depth 2) ranked s = (r, s')"
    using assms cond by (simp add: expand_typed_graph_def)
  obtain r1 s1 where 1: "run_bind (run_check env ?ctx) (\<lambda>_. run_query env ?ctx) s = (r1, s1)" by fastforce
  have t1: "rs_texts s1 = rs_texts s" by (rule run_bind_snd_texts[OF 1]) auto
  obtain r2 s2 where 2: "run_bind (run_check env ?ctx) (\<lambda>_. run_call env ?ctx) s1 = (r2, s2)" by fastforce
  have t2: "rs_texts s2 = rs_texts s" using run_bind_snd_texts[OF 2] t1 by simp
  obtain fin s3 where 3: "in_snapshot env ?ctx gs p ws st (py_eq_int depth 2) ranked s2 = (fin, s3)" by fastforce
  have fini: "finalize [] st = []" by (simp add: finalize_def ranked_best_def)
  show ?thesis
  proof (cases "(\<exists>u. r1 = Inr u) \<and> gs_main_file gs = Some st \<and> (\<exists>u. r2 = Inr u)")
    case False
    then have "rs_texts s' = rs_texts s \<and> (\<forall>g. r = Inr g \<longrightarrow> gx_neighbors g = [] \<and>
        (gx_status g = ''ok'' \<longrightarrow> bounded_seeds seeds st = Inr []))"
      using run 1 2 t1 t2 fini
      by (auto simp: expand_in_deadline_def snapshot_result_def split: sum.splits if_splits request_error.splits)
    then show ?thesis using that(1) by blast
  next
    case True
    then have r: "r = Inr (if ge_cleanup env then snapshot_result st fin else \<lparr>gx_neighbors = [], gx_status = ''degraded''\<rparr>)"
      and s3: "s3 = s'"
      using run 1 2 3 by (auto simp: expand_in_deadline_def)
    show ?thesis
    proof (rule in_snapshot_cases[OF 3])
      assume "rs_texts s3 = rs_texts s2" and "fin = SchemaMissing \<or> (\<exists>e. fin = Walked (Some e) [])"
      then have "rs_texts s' = rs_texts s \<and> (\<forall>g. r = Inr g \<longrightarrow> gx_neighbors g = [] \<and>
          (gx_status g = ''ok'' \<longrightarrow> bounded_seeds seeds st = Inr []))"
        using r s3 t2 fini by (auto simp: snapshot_result_def split: request_error.splits if_splits)
      then show ?thesis using that(1) by blast
    next
      fix s4 stop out
      assume s4: "rs_texts s4 = rs_texts s2" "fin = Walked stop out"
        "collect_seeds env ?ctx gs p ws st (map fst (open_seeds gs (ge_os env) p ws st ranked)) (py_eq_int depth 2)
          (open_seeds gs (ge_os env) p ws st ranked) [] s4 = (stop, out, s3)"
      show ?thesis
        by (rule that(2)[OF _ cond(1) s4(3)[unfolded s3]])
          (use r s4 t2 in \<open>auto simp: snapshot_result_def split: if_splits option.splits request_error.splits\<close>)
    qed
  qed
qed

lemma finalize_from:
  assumes "c \<in> set (finalize out st)"
  shows "\<exists>c0 \<in> set out. \<exists>r. c = c0\<lparr>gc_rank := r\<rparr>"
proof -
  let ?best = "fold (put_best final_wins) (filter (\<lambda>c. gc_store_id c = st) out) []"
  let ?R = "take MAX_GRAPH_CANDIDATES (ranked_best ?best)"
  have "table_ok (\<lambda>c. c \<in> set out) ?best"
    by (rule fold_put_best_ok) (auto simp: list_all_iff)
  from ranked_prefix_all[OF this, of MAX_GRAPH_CANDIDATES]
  have R: "set ?R \<subseteq> set out" unfolding list_all_iff by blast
  obtain x where x: "x \<in> set (enumerate 1 ?R)" "c = (\<lambda>(rank, c). c\<lparr>gc_rank := rank\<rparr>) x"
    using assms unfolding finalize_def by auto
  have "snd x \<in> set (map snd (enumerate 1 ?R))" using x(1) by (metis imageI list.set_map)
  then have "snd x \<in> set out" using R by auto
  then show ?thesis using x(2) by (intro bexI[of _ "snd x"]) (auto simp: case_prod_beta)
qed

lemma finalize_shape:
  shows "length (finalize out st) \<le> MAX_GRAPH_CANDIDATES"
    and "map gc_rank (finalize out st) = [1..<Suc (length (finalize out st))]"
    and "sorted_wrt (\<lambda>a b. (- gc_score a, gc_doc_id a) < (- gc_score b, gc_doc_id b)) (finalize out st)"
    and "distinct (map gc_doc_id (finalize out st))"
proof -
  let ?best = "fold (put_best final_wins) (filter (\<lambda>c. gc_store_id c = st) out) []"
  let ?R = "take MAX_GRAPH_CANDIDATES (ranked_best ?best)"
  let ?lt = "\<lambda>a b. (- gc_score a, gc_doc_id a) < (- gc_score b, gc_doc_id b)"
  have ok: "table_ok (\<lambda>c. True) ?best" by (rule fold_put_best_ok) (auto simp: list_all_iff)
  show "length (finalize out st) \<le> MAX_GRAPH_CANDIDATES" by (simp add: finalize_def)
  have "map gc_rank (finalize out st) = map fst (enumerate 1 ?R)"
    by (simp add: finalize_def comp_def case_prod_beta)
  then show "map gc_rank (finalize out st) = [1..<Suc (length (finalize out st))]"
    by (simp add: finalize_def)
  have "map gc_doc_id (finalize out st) = map gc_doc_id (map snd (enumerate 1 ?R))"
    unfolding finalize_def by (simp add: comp_def case_prod_beta del: map_snd_enumerate)
  then have ids: "map gc_doc_id (finalize out st) = map gc_doc_id ?R" by simp
  then show "distinct (map gc_doc_id (finalize out st))"
    using ranked_best_props(2)[OF ok] by (simp flip: take_map)
  have "sorted_wrt ?lt (map snd (enumerate 1 ?R))"
    using sorted_wrt_take[OF ranked_best_props(3)[OF ok]] by simp
  then show "sorted_wrt ?lt (finalize out st)"
    unfolding finalize_def sorted_wrt_map by (simp add: case_prod_beta)
qed

lemma finalize_per_seed:
  "length (filter (\<lambda>c. gc_seed_doc_id c = q) (finalize out st)) \<le> length (filter (\<lambda>c. gc_seed_doc_id c = q) out)"
proof -
  let ?F = "filter (\<lambda>c. gc_seed_doc_id c = q) (finalize out st)" and ?O = "filter (\<lambda>c. gc_seed_doc_id c = q) out"
  have "length ?F = card (set (map gc_doc_id ?F))"
    using distinct_card[OF distinct_map_filter[OF finalize_shape(4)]] by simp
  also have "set (map gc_doc_id ?F) \<subseteq> set (map gc_doc_id ?O)"
    using finalize_from[of _ out st] by fastforce
  then have "card (set (map gc_doc_id ?F)) \<le> card (set (map gc_doc_id ?O))" by (intro card_mono) auto
  also have "\<dots> \<le> length ?O" using card_length[of "map gc_doc_id ?O"] by simp
  finally show ?thesis .
qed

lemma scan_seeds_distinct:
  "scan_seeds st raws ranked = Inr out \<Longrightarrow> distinct (map fst ranked) \<Longrightarrow> distinct (map fst out)"
  by (induction st raws ranked rule: scan_seeds.induct)
    (auto simp: Let_def split: pyval.splits option.splits if_splits)

lemma bounded_seeds_distinct: "bounded_seeds seeds st = Inr ranked \<Longrightarrow> distinct (map fst ranked)"
  by (auto simp: bounded_seeds_def split: pyval.splits dest: scan_seeds_distinct)

lemma open_seeds_sub: "set (open_seeds gs os p ws st ranked) \<subseteq> set ranked"
  by (auto simp: open_seeds_def)

text \<open>What every collected candidate satisfies, and how many a seed contributes.\<close>

lemma collected_sound:
  assumes "collect_seeds env ctx gs p ws st seed_ids two_hops seeds [] s = (stop, out, s')"
  shows "\<forall>c \<in> set out. \<exists>seed \<in> set seeds. sound_candidate (ge_os env) p ws st gs seed_ids seed c \<and>
    (\<not> two_hops \<longrightarrow> gc_depth c = 1) \<and> gc_text c = Some (hydrated_text gs (gc_doc_id c))"
  using assms
proof (rule collect_seeds_all)
  fix seed s cs s' collected
  assume 1: "seed \<in> set seeds" and 2: "eligible_neighbors_for_seed env ctx gs p ws st seed_ids two_hops seed s = (Inr cs, s')"
    and 3: "\<forall>c \<in> set collected. \<exists>seed \<in> set seeds. sound_candidate (ge_os env) p ws st gs seed_ids seed c \<and>
    (\<not> two_hops \<longrightarrow> gc_depth c = 1) \<and> gc_text c = Some (hydrated_text gs (gc_doc_id c))"
  show "\<forall>c \<in> set (collected @ cs). \<exists>seed \<in> set seeds. sound_candidate (ge_os env) p ws st gs seed_ids seed c \<and>
    (\<not> two_hops \<longrightarrow> gc_depth c = 1) \<and> gc_text c = Some (hydrated_text gs (gc_doc_id c))"
    using seed_neighbors(1)[OF 2] 1 3 by (auto simp: list_all_iff)
qed simp

lemma collected_per_seed:
  "collect_seeds env ctx gs p ws st seed_ids two_hops seeds collected s = (stop, out, s') \<Longrightarrow>
    distinct (map fst seeds) \<Longrightarrow>
    length (filter (\<lambda>c. gc_seed_doc_id c = q) out) \<le> length (filter (\<lambda>c. gc_seed_doc_id c = q) collected) +
      (if q \<in> fst ` set seeds then MAX_NEIGHBORS_PER_SEED else 0)"
proof (induction seeds arbitrary: collected s)
  case (Cons seed seeds)
  show ?case
  proof (cases "run_bind (run_check env ctx) (\<lambda>_. eligible_neighbors_for_seed env ctx gs p ws st seed_ids two_hops seed) s")
    case (Pair r s1)
    show ?thesis
    proof (cases r)
      case (Inl e)
      then show ?thesis using Cons.prems Pair by auto
    next
      case (Inr cs)
      then obtain s2 where 2: "eligible_neighbors_for_seed env ctx gs p ws st seed_ids two_hops seed s2 = (Inr cs, s1)"
        using Pair by (auto simp: run_bind_Inr)
      have "\<forall>c \<in> set cs. gc_seed_doc_id c = fst seed"
        using seed_neighbors(1)[OF 2] by (auto simp: list_all_iff sound_candidate_def explained_def)
      then have "length (filter (\<lambda>c. gc_seed_doc_id c = q) cs) \<le> (if q = fst seed then MAX_NEIGHBORS_PER_SEED else 0)"
        using seed_neighbors(2)[OF 2] length_filter_le[of "\<lambda>c. gc_seed_doc_id c = q" cs] by (auto simp: filter_empty_conv)
      moreover have "collect_seeds env ctx gs p ws st seed_ids two_hops seeds (collected @ cs) s1 = (stop, out, s')"
        using Cons.prems(1) Pair Inr by simp
      from Cons.IH[OF this] Cons.prems(2)
      have "length (filter (\<lambda>c. gc_seed_doc_id c = q) out) \<le> length (filter (\<lambda>c. gc_seed_doc_id c = q) collected) +
          length (filter (\<lambda>c. gc_seed_doc_id c = q) cs) + (if q \<in> fst ` set seeds then MAX_NEIGHBORS_PER_SEED else 0)"
        by simp
      ultimately show ?thesis using Cons.prems(2) by (auto split: if_splits)
    qed
  qed
qed auto

section \<open>Theorems\<close>

text \<open>C34: An expansion asks only for the text of open learnings of the store that the caller may read, also
  when the deadline or the database cuts it short, and it lists only such documents.\<close>

theorem expansion_private:
  assumes "expand_typed_graph env ctx gs (PStr st) seeds (Some p) (PStr ws) dl depth s = (r, s')"
  shows "set (rs_texts s') \<subseteq> set (rs_texts s) \<union> Collect (visible_learning (ge_os env) p ws st gs) \<and>
    (\<forall>g. r = Inr g \<longrightarrow> (\<forall>c \<in> set (gx_neighbors g). visible_learning (ge_os env) p ws st gs (gc_doc_id c)))"
proof (rule expand_cases[OF assms])
  assume 1: "rs_texts s' = rs_texts s" and "\<And>g. r = Inr g \<Longrightarrow> gx_neighbors g = [] \<and> (gx_status g = ''ok'' \<longrightarrow> bounded_seeds seeds st = Inr [])"
  then have "\<And>g. r = Inr g \<Longrightarrow> gx_neighbors g = []" by blast
  then show ?thesis using 1 by auto
next
  fix ctx' ranked s2 stop out
  assume s2: "rs_texts s2 = rs_texts s"
    and c: "collect_seeds env ctx' gs p ws st (map fst (open_seeds gs (ge_os env) p ws st ranked)) (py_eq_int depth 2)
      (open_seeds gs (ge_os env) p ws st ranked) [] s2 = (stop, out, s')"
    and r: "\<And>g. r = Inr g \<Longrightarrow> gx_neighbors g = [] \<and> gx_status g = ''degraded'' \<or>
      gx_neighbors g = finalize out st \<and> (gx_status g = ''ok'' \<longleftrightarrow> stop = None)"
  have "set (rs_texts s') \<subseteq> set (rs_texts s) \<union> Collect (visible_learning (ge_os env) p ws st gs)"
    using collect_seeds_texts[of env ctx' gs p ws st "map fst (open_seeds gs (ge_os env) p ws st ranked)"
        "py_eq_int depth 2" "open_seeds gs (ge_os env) p ws st ranked" "[]" s2] by (simp add: c s2)
  moreover have "visible_learning (ge_os env) p ws st gs (gc_doc_id k)" if "k \<in> set (finalize out st)" for k
    using finalize_from[OF that] collected_sound[OF c] by (auto simp: sound_candidate_def)
  ultimately show ?thesis using r by fastforce
qed

text \<open>Every neighbor is earned: it comes from a readable seed of the request over one stored active link, or
  over two of the types allowed for a second hop through a readable open learning, and its score is the
  seed's score times the factors of that path.  No readable seed is echoed, and with depth 1 no neighbor is
  two hops away.\<close>

theorem expansion_explained:
  assumes "expand_typed_graph env ctx gs (PStr st) seeds (Some p) (PStr ws) dl depth s = (Inr g, s')"
    and "bounded_seeds seeds st = Inr ranked" and "c \<in> set (gx_neighbors g)"
  shows "(\<exists>seed \<in> set (open_seeds gs (ge_os env) p ws st ranked).
      explained gs (visible_learning (ge_os env) p ws st gs) seed c) \<and>
    gc_doc_id c \<notin> fst ` set (open_seeds gs (ge_os env) p ws st ranked) \<and>
    (gc_depth c = 1 \<or> gc_depth c = 2 \<and> py_eq_int depth 2) \<and>
    gc_text c = Some (hydrated_text gs (gc_doc_id c))"
proof (rule expand_cases[OF assms(1)])
  assume "\<And>g'. Inr g = Inr g' \<Longrightarrow> gx_neighbors g' = [] \<and> (gx_status g' = ''ok'' \<longrightarrow> bounded_seeds seeds st = Inr [])"
  from this[OF refl] show ?thesis using assms(3) by simp
next
  fix ctx' ranked' s2 stop out
  assume ranked': "bounded_seeds seeds st = Inr ranked'"
    and c: "collect_seeds env ctx' gs p ws st (map fst (open_seeds gs (ge_os env) p ws st ranked')) (py_eq_int depth 2)
      (open_seeds gs (ge_os env) p ws st ranked') [] s2 = (stop, out, s')"
    and r: "\<And>g'. Inr g = Inr g' \<Longrightarrow> gx_neighbors g' = [] \<and> gx_status g' = ''degraded'' \<or>
      gx_neighbors g' = finalize out st \<and> (gx_status g' = ''ok'' \<longleftrightarrow> stop = None)"
  have "c \<in> set (finalize out st)" using r[OF refl] assms(3) by auto
  then obtain c0 rank where c0: "c0 \<in> set out" "c = c0\<lparr>gc_rank := rank\<rparr>" using finalize_from by blast
  have "\<exists>seed \<in> set (open_seeds gs (ge_os env) p ws st ranked').
      sound_candidate (ge_os env) p ws st gs (map fst (open_seeds gs (ge_os env) p ws st ranked')) seed c \<and>
      (\<not> py_eq_int depth 2 \<longrightarrow> gc_depth c = 1) \<and> gc_text c = Some (hydrated_text gs (gc_doc_id c))"
    using bspec[OF collected_sound[OF c] c0(1)] unfolding c0(2) by simp
  then obtain seed where seed: "seed \<in> set (open_seeds gs (ge_os env) p ws st ranked')"
    "sound_candidate (ge_os env) p ws st gs (map fst (open_seeds gs (ge_os env) p ws st ranked')) seed c"
    "\<not> py_eq_int depth 2 \<longrightarrow> gc_depth c = 1" "gc_text c = Some (hydrated_text gs (gc_doc_id c))"
    by blast
  have "gc_depth c = 1 \<or> gc_depth c = 2"
    using seed(2) by (auto simp: sound_candidate_def explained_def split: list.splits)
  then show ?thesis using seed ranked' assms(2) by (auto simp: sound_candidate_def)
qed

text \<open>At most 12 neighbors are listed, at most 6 for a seed, each document once, in falling order of score
  (then by id), with ranks counting from 1.\<close>

theorem expansion_bounded:
  assumes "expand_typed_graph env ctx gs (PStr st) seeds (Some p) (PStr ws) dl depth s = (Inr g, s')"
  shows "length (gx_neighbors g) \<le> 12 \<and> distinct (map gc_doc_id (gx_neighbors g)) \<and>
    length (filter (\<lambda>c. gc_seed_doc_id c = q) (gx_neighbors g)) \<le> 6 \<and>
    sorted_wrt (\<lambda>a b. (- gc_score a, gc_doc_id a) < (- gc_score b, gc_doc_id b)) (gx_neighbors g) \<and>
    map gc_rank (gx_neighbors g) = [1..<Suc (length (gx_neighbors g))]"
proof -
  have nil: ?thesis if "gx_neighbors g = []" using that by simp
  show ?thesis
  proof (rule expand_cases[OF assms])
    assume "\<And>g'. Inr g = Inr g' \<Longrightarrow> gx_neighbors g' = [] \<and> (gx_status g' = ''ok'' \<longrightarrow> bounded_seeds seeds st = Inr [])"
    then show ?thesis using nil by blast
  next
    fix ctx' ranked s2 stop out
    assume ranked: "bounded_seeds seeds st = Inr ranked"
      and c: "collect_seeds env ctx' gs p ws st (map fst (open_seeds gs (ge_os env) p ws st ranked)) (py_eq_int depth 2)
        (open_seeds gs (ge_os env) p ws st ranked) [] s2 = (stop, out, s')"
      and r: "\<And>g'. Inr g = Inr g' \<Longrightarrow> gx_neighbors g' = [] \<and> gx_status g' = ''degraded'' \<or>
        gx_neighbors g' = finalize out st \<and> (gx_status g' = ''ok'' \<longleftrightarrow> stop = None)"
    have "distinct (map fst (open_seeds gs (ge_os env) p ws st ranked))"
      using bounded_seeds_distinct[OF ranked] by (simp add: open_seeds_def distinct_map_filter)
    from collected_per_seed[OF c this, of q] finalize_per_seed[of q out st]
    have "length (filter (\<lambda>c. gc_seed_doc_id c = q) (finalize out st)) \<le> 6"
      by (auto simp: MAX_NEIGHBORS_PER_SEED_def split: if_splits)
    then have "gx_neighbors g = finalize out st \<Longrightarrow> ?thesis"
      using finalize_shape[of out st] by (simp add: MAX_GRAPH_CANDIDATES_def)
    then show ?thesis using r[OF refl] nil by blast
  qed
qed

text \<open>C35: Reading the edges of a node in pages is the same as one scan of all of them: whenever the walk returns,
  and it does when the clock and the database let it, no edge of a node is lost between two pages.\<close>

theorem pages_equal_one_scan:
  assumes "keyed gs"
  shows "fst (walk_both env ctx gs seed types consider wins s) \<in> {Inr (scan_both gs seed types consider wins)} \<union> range Inl \<and>
    (quiet env ctx \<longrightarrow> fst (walk_both env ctx gs seed types consider wins s) = Inr (scan_both gs seed types consider wins))"
proof -
  obtain r s' where r: "walk_both env ctx gs seed types consider wins s = (r, s')" by fastforce
  have scan: "r = Inr b \<Longrightarrow> b = scan_both gs seed types consider wins" for b
    using walk_both_scan[OF assms] r by blast
  have "\<exists>b s'. walk_both env ctx gs seed types consider wins s = (Inr b, s')" if "quiet env ctx"
    unfolding walk_both_def run_bind_Inr using quiet_walk_pages[OF that] by meson
  then show ?thesis using scan r by (cases r) auto
qed

text \<open>C36: A degraded answer is an honest one: whatever the clock and the database do, the neighbors are the final
  selection from the undisturbed answers of the first readable seeds, of all of them when the status is ok.\<close>

theorem degraded_is_prefix:
  assumes "keyed gs"
    and "expand_typed_graph env ctx gs (PStr st) seeds (Some p) (PStr ws) dl depth s = (Inr g, s')"
    and "bounded_seeds seeds st = Inr ranked"
  shows "\<exists>k \<le> length (open_seeds gs (ge_os env) p ws st ranked).
    gx_neighbors g = finalize (concat (map (seed_answer gs (ge_os env) p ws st
        (map fst (open_seeds gs (ge_os env) p ws st ranked)) (py_eq_int depth 2))
      (take k (open_seeds gs (ge_os env) p ws st ranked)))) st \<and>
    (gx_status g = ''ok'' \<longrightarrow> k = length (open_seeds gs (ge_os env) p ws st ranked))"
proof -
  have nil: "finalize [] st = []" by (simp add: finalize_def ranked_best_def)
  show ?thesis
  proof (rule expand_cases[OF assms(2)])
    assume "\<And>g'. Inr g = Inr g' \<Longrightarrow> gx_neighbors g' = [] \<and> (gx_status g' = ''ok'' \<longrightarrow> bounded_seeds seeds st = Inr [])"
    from this[OF refl] show ?thesis using assms(3) by (intro exI[of _ 0]) (auto simp: nil open_seeds_def)
  next
    fix ctx' ranked' s2 stop out
    assume ranked': "bounded_seeds seeds st = Inr ranked'"
      and c: "collect_seeds env ctx' gs p ws st (map fst (open_seeds gs (ge_os env) p ws st ranked')) (py_eq_int depth 2)
        (open_seeds gs (ge_os env) p ws st ranked') [] s2 = (stop, out, s')"
      and r: "\<And>g'. Inr g = Inr g' \<Longrightarrow> gx_neighbors g' = [] \<and> gx_status g' = ''degraded'' \<or>
        gx_neighbors g' = finalize out st \<and> (gx_status g' = ''ok'' \<longleftrightarrow> stop = None)"
    have eq: "ranked' = ranked" using ranked' assms(3) by simp
    from r[OF refl] show ?thesis
    proof
      assume "gx_neighbors g = [] \<and> gx_status g = ''degraded''"
      then show ?thesis by (intro exI[of _ 0]) (simp add: nil)
    next
      assume "gx_neighbors g = finalize out st \<and> (gx_status g = ''ok'' \<longleftrightarrow> stop = None)"
      then show ?thesis using collect_seeds_prefix[OF assms(1) c] unfolding eq by auto
    qed
  qed
qed

section \<open>Instances\<close>

definition sample_doc :: "int \<Rightarrow> string \<Rightarrow> doc_row" where
  "sample_doc i a = \<lparr>dr_doc_id = i, dr_path = None, dr_agent = Some a, dr_sigil = None, dr_privacy_level = None,
     dr_page_status = Some ''accepted'', dr_page_type = Some ''learning'', dr_memory_kind = Some ''learning''\<rparr>"

definition sample_link :: "int \<Rightarrow> int \<Rightarrow> string \<Rightarrow> link_row" where
  "sample_link a b t = \<lparr>lk_source = a, lk_target = b, lk_type = t, lk_weight = PNone, lk_confidence = PNone,
     lk_edge_status = Some ''active'', lk_run_id = PNone, lk_model_id = PNone, lk_method = PNone\<rparr>"

definition sample_graph :: graph_store where
  "sample_graph = \<lparr>gs_docs = [sample_doc 1 ''codex'', sample_doc 2 ''codex'', sample_doc 3 ''codex'', sample_doc 4 ''other''],
     gs_links = [sample_link 1 2 ''updates'', sample_link 3 2 ''extends'', sample_link 1 4 ''relates''],
     gs_chunks = [], gs_main_file = Some ''/h/minni.db'', gs_schema_ready = True\<rparr>"

definition sample_graph_env :: graph_env where
  "sample_graph_env = \<lparr>ge_os = sample_env, ge_time = (\<lambda>_. 0), ge_sql = (\<lambda>_. SqlOk), ge_cleanup = True\<rparr>"

definition sample_seeds :: pyval where
  "sample_seeds = PList [PDict [(''doc_id'', PInt 1), (''score'', PInt 4), (''store_id'', PStr ''/h/minni.db'')]]"

abbreviation sample_ctx :: request_ctx where
  "sample_ctx \<equiv> no_request\<lparr>rc_deadline := Some 9\<rparr>"

abbreviation sample_tick :: "nat \<Rightarrow> run_state" where
  "sample_tick n \<equiv> \<lparr>rs_tick = n, rs_texts = []\<rparr>"

definition sample_walk :: "(request_error + graph_candidate list) \<times> run_state" where
  "sample_walk = eligible_neighbors_for_seed sample_graph_env sample_ctx sample_graph sample_reader ''default''
     ''/h/minni.db'' [1] True (1, 4) (sample_tick 20)"

definition sample_found :: "graph_candidate list" where
  "sample_found = (case fst sample_walk of Inr cs \<Rightarrow> cs | Inl _ \<Rightarrow> [])"

lemma sample_steps:
  "run_bind (run_check sample_graph_env sample_ctx) (\<lambda>_. run_query sample_graph_env sample_ctx) (sample_tick 0) = (Inr (), sample_tick 5)"
  "run_bind (run_check sample_graph_env sample_ctx) (\<lambda>_. run_call sample_graph_env sample_ctx) (sample_tick 5) = (Inr (), sample_tick 8)"
  "run_bind (run_check sample_graph_env sample_ctx) (\<lambda>_. run_bind (schema_ready sample_graph_env sample_ctx sample_graph)
     (\<lambda>ready. run_bind (run_check sample_graph_env sample_ctx) (\<lambda>_. run_return ready))) (sample_tick 8) = (Inr True, sample_tick 14)"
  "authorize_seeds sample_graph_env sample_ctx sample_graph sample_reader ''default'' ''/h/minni.db'' [(1, 4)] (sample_tick 14)
     = (Inr [(1, 4)], sample_tick 19)"
  "run_check sample_graph_env sample_ctx (sample_tick 19) = (Inr (), sample_tick 20)"
  "bounded_seeds sample_seeds ''/h/minni.db'' = Inr [(1, 4)]"
  "validated_deadline no_request (PInt 9) = Some 9"
  "py_strip ''/h/minni.db'' \<noteq> [] \<and> py_eq_int (PInt 2) 2 \<and> gs_main_file sample_graph = Some ''/h/minni.db'' \<and> ge_cleanup sample_graph_env"
  "effective_deadline (Some 9) (rc_deadline no_request) = Some 9"
  by code_simp+

lemma sample_walk_Inr: "sample_walk = (Inr sample_found, snd sample_walk)"
proof -
  have "length (case fst sample_walk of Inr cs \<Rightarrow> cs | Inl _ \<Rightarrow> []) = 2" by code_simp
  then have "fst sample_walk = Inr sample_found" by (auto simp: sample_found_def split: sum.splits)
  then show ?thesis by (metis prod.collapse)
qed

lemma sample_expansion:
  "expand_typed_graph sample_graph_env no_request sample_graph (PStr ''/h/minni.db'') sample_seeds (Some sample_reader)
     (PStr ''default'') (PInt 9) (PInt 2) (sample_tick 0) =
   (Inr \<lparr>gx_neighbors = finalize sample_found ''/h/minni.db'', gx_status = ''ok''\<rparr>, snd sample_walk)"
proof -
  have collect: "collect_seeds sample_graph_env sample_ctx sample_graph sample_reader ''default'' ''/h/minni.db'' [1] True
      [(1, 4)] [] (sample_tick 19) = (None, sample_found, snd sample_walk)"
    by (simp add: run_bind_def sample_steps(5) flip: sample_walk_def) (subst sample_walk_Inr, simp)
  have "in_snapshot sample_graph_env sample_ctx sample_graph sample_reader ''default'' ''/h/minni.db'' True [(1, 4)]
      (sample_tick 8) = (Walked None sample_found, snd sample_walk)"
    by (simp add: in_snapshot_def sample_steps collect del: authorize_seeds.simps collect_seeds.simps)
  then show ?thesis
    using sample_steps(8)
    by (simp add: expand_typed_graph_def expand_in_deadline_def sample_steps snapshot_result_def)
qed

lemma sample_neighbors:
  "map (\<lambda>c. (gc_doc_id c, gc_score c, gc_depth c)) (finalize sample_found ''/h/minni.db'') = [(2, 4, 1), (3, 221 / 100, 2)]"
  "rs_texts (snd sample_walk) = [2, 3]"
  by code_simp+

lemma sample_keyed: "keyed sample_graph"
  by code_simp


lemma expansion_private_witness:
  "set (rs_texts (snd sample_walk)) \<subseteq> Collect (visible_learning sample_env sample_reader ''default'' ''/h/minni.db'' sample_graph)"
  using expansion_private[OF sample_expansion] by (simp add: sample_graph_env_def)

lemma expansion_explained_witness:
  "(\<lambda>c. gc_text c = Some (hydrated_text sample_graph (gc_doc_id c))) ` set (finalize sample_found ''/h/minni.db'') \<subseteq> {True}"
  using expansion_explained[OF sample_expansion sample_steps(6)] by auto

lemma expansion_bounded_witness: "distinct (map gc_doc_id (finalize sample_found ''/h/minni.db''))"
  using expansion_bounded[OF sample_expansion] by simp

lemma pages_equal_one_scan_witness:
  "fst (walk_both sample_graph_env sample_ctx sample_graph 1 ALLOWED_LINK_TYPES
      (consider_edge sample_env sample_reader ''default'' ''/h/minni.db'' [1] 1 4) near_wins (sample_tick 0)) =
    Inr (scan_both sample_graph 1 ALLOWED_LINK_TYPES
      (consider_edge sample_env sample_reader ''default'' ''/h/minni.db'' [1] 1 4) near_wins)"
proof -
  have "quiet sample_graph_env sample_ctx" by (simp add: quiet_def sample_graph_env_def)
  then show ?thesis using pages_equal_one_scan[OF sample_keyed] by blast
qed

lemma degraded_is_prefix_witness:
  "finalize sample_found ''/h/minni.db'' = finalize (concat (map (seed_answer sample_graph sample_env sample_reader
      ''default'' ''/h/minni.db'' (map fst (open_seeds sample_graph sample_env sample_reader ''default'' ''/h/minni.db'' [(1, 4)])) True)
    (open_seeds sample_graph sample_env sample_reader ''default'' ''/h/minni.db'' [(1, 4)]))) ''/h/minni.db''"
proof -
  have e: "ge_os sample_graph_env = sample_env" "py_eq_int (PInt 2) 2 = True"
    by (simp_all add: sample_graph_env_def)
  show ?thesis
    using degraded_is_prefix[OF sample_keyed sample_expansion sample_steps(6), unfolded e] by auto
qed

end
