(* ===== verification/Rerank_Cache.thy ===== *)
theory Rerank_Cache
  imports Ordered_Dict
begin

text \<open>
  The in-memory LRU of cross-encoder scores (\<open>src/src/minni/rerank_cache.py\<close>).  The state is the
  capacity, the ordered dictionary of scores (oldest first) and the generation counter; each method
  body runs under the cache's lock, so it is one atomic step here.  SHA-256 is the parameter \<open>H\<close>:
  no result needs more of it than being a function.

  Results: every operation keeps the well-formedness invariant (\<open>rc_inv\<close>); the surviving keys are
  the most recently used ones (\<open>rc_lru_order\<close>); a score computed before an invalidation cannot come
  back after it (\<open>rc_no_stale_repopulation\<close>).
\<close>

section \<open>State and operations\<close>

type_synonym rc_key = "string \<times> string \<times> string \<times> int \<times> string \<times> string"

record rerank_cache =
  rc_capacity :: int
  rc_scores :: "(rc_key, pyfloat) odict"
  rc_generation :: int

definition rc_new :: "int \<Rightarrow> rerank_cache" where
  "rc_new capacity = \<lparr>rc_capacity = max 1 capacity, rc_scores = [], rc_generation = 0\<rparr>"

text \<open>\<open>model_name or "unknown"\<close>.\<close>

definition or_unknown :: "string \<Rightarrow> string" where
  "or_unknown s = (if s = [] then ''unknown'' else s)"

record rc_input =
  in_model :: string
  in_version :: string
  in_query :: string
  in_chunk :: int
  in_corpus :: string
  in_passage :: string

definition rc_key_of :: "(string \<Rightarrow> string) \<Rightarrow> rc_input \<Rightarrow> rc_key" where
  "rc_key_of H i = (or_unknown (in_model i), or_unknown (in_version i), H (in_query i),
     in_chunk i, in_corpus i, H (in_passage i))"

fun key_chunk :: "rc_key \<Rightarrow> int" where
  "key_chunk (_, _, _, c, _, _) = c"

definition rc_get :: "(string \<Rightarrow> string) \<Rightarrow> rc_input \<Rightarrow> rerank_cache \<Rightarrow> rerank_cache \<times> pyfloat option" where
  "rc_get H i c = (let key = rc_key_of H i in
     case map_of (rc_scores c) key of
       None \<Rightarrow> (c, None)
     | Some score \<Rightarrow>
         (c\<lparr>rc_scores := od_set key score (od_pop key (rc_scores c))\<rparr>, Some score))"

definition rc_over :: "rerank_cache \<Rightarrow> bool" where
  "rc_over c \<longleftrightarrow> rc_capacity c < int (length (rc_scores c))"

definition rc_evict_oldest :: "rerank_cache \<Rightarrow> rerank_cache" where
  "rc_evict_oldest c = c\<lparr>rc_scores := tl (rc_scores c)\<rparr>"

definition rc_set ::
  "(string \<Rightarrow> string) \<Rightarrow> rc_input \<Rightarrow> pyfloat \<Rightarrow> int option \<Rightarrow> rerank_cache \<Rightarrow> rerank_cache" where
  "rc_set H i score expected_generation c = (let key = rc_key_of H i in
     if expected_generation \<noteq> None \<and> expected_generation \<noteq> Some (rc_generation c) then c
     else while rc_over rc_evict_oldest
            (c\<lparr>rc_scores := od_set key score (od_pop key (rc_scores c))\<rparr>))"

definition rc_invalidate_chunks :: "int option list \<Rightarrow> rerank_cache \<Rightarrow> rerank_cache \<times> int" where
  "rc_invalidate_chunks chunk_ids c = (let doomed = [cid. Some cid \<leftarrow> chunk_ids] in
     if doomed = [] then (c, 0)
     else let keys = filter (\<lambda>key. key_chunk key \<in> set doomed) (od_keys (rc_scores c)) in
       (c\<lparr>rc_generation := rc_generation c + 1, rc_scores := fold od_pop keys (rc_scores c)\<rparr>,
        int (length keys)))"

definition rc_clear :: "rerank_cache \<Rightarrow> rerank_cache" where
  "rc_clear c = c\<lparr>rc_generation := rc_generation c + 1, rc_scores := []\<rparr>"

section \<open>Runs\<close>

text \<open>Any sequence of calls, in the order in which they take the lock.\<close>

datatype rc_op =
    RGet rc_input
  | RSet rc_input pyfloat "int option"
  | RInvalidate "int option list"
  | RClear

fun rc_step :: "(string \<Rightarrow> string) \<Rightarrow> rc_op \<Rightarrow> rerank_cache \<Rightarrow> rerank_cache" where
  "rc_step H (RGet i) c = fst (rc_get H i c)"
| "rc_step H (RSet i score eg) c = rc_set H i score eg c"
| "rc_step H (RInvalidate cids) c = fst (rc_invalidate_chunks cids c)"
| "rc_step H RClear c = rc_clear c"

definition rc_run :: "(string \<Rightarrow> string) \<Rightarrow> rc_op list \<Rightarrow> rerank_cache \<Rightarrow> rerank_cache" where
  "rc_run H ops c = fold (rc_step H) ops c"

section \<open>The invariant\<close>

definition rc_wf :: "rerank_cache \<Rightarrow> bool" where
  "rc_wf c \<longleftrightarrow> 1 \<le> rc_capacity c \<and> distinct (od_keys (rc_scores c))"

definition rc_inv :: "rerank_cache \<Rightarrow> bool" where
  "rc_inv c \<longleftrightarrow> rc_wf c \<and> int (length (rc_scores c)) \<le> rc_capacity c"

lemma rc_wf_evict: "rc_wf c \<Longrightarrow> rc_wf (rc_evict_oldest c)"
  by (cases "rc_scores c") (auto simp: rc_wf_def rc_evict_oldest_def)

lemma rc_evict_shrinks:
  "rc_wf c \<Longrightarrow> rc_over c \<Longrightarrow> length (rc_scores (rc_evict_oldest c)) < length (rc_scores c)"
  by (cases "rc_scores c") (auto simp: rc_wf_def rc_over_def rc_evict_oldest_def)

interpretation rc_ev: eviction rc_over rc_evict_oldest "\<lambda>c. length (rc_scores c)" rc_wf
  by unfold_locales (auto intro: rc_wf_evict rc_evict_shrinks)

lemma rc_loop_drop:
  assumes "rc_wf c"
  shows "while rc_over rc_evict_oldest c =
    c\<lparr>rc_scores := drop (length (rc_scores c) - nat (rc_capacity c)) (rc_scores c)\<rparr>"
proof -
  define P where "P u \<longleftrightarrow> (\<exists>n \<le> length (rc_scores c) - nat (rc_capacity c).
      u = c\<lparr>rc_scores := drop n (rc_scores c)\<rparr>)" for u
  let ?w = "while rc_over rc_evict_oldest c"
  have start: "P c" by (auto simp: P_def intro!: exI [of _ 0])
  have keep: "P (rc_evict_oldest u)" if "rc_wf u" "P u" "rc_over u" for u
  proof -
    from \<open>P u\<close> obtain n where u: "u = c\<lparr>rc_scores := drop n (rc_scores c)\<rparr>" by (auto simp: P_def)
    with \<open>rc_over u\<close> assms have "Suc n \<le> length (rc_scores c) - nat (rc_capacity c)"
      by (auto simp: rc_over_def rc_wf_def)
    moreover have "rc_evict_oldest u = c\<lparr>rc_scores := drop (Suc n) (rc_scores c)\<rparr>"
      by (simp add: u rc_evict_oldest_def tl_drop drop_Suc)
    ultimately show ?thesis by (auto simp: P_def)
  qed
  have "rc_wf ?w \<and> P ?w \<and> \<not> rc_over ?w"
    by (rule rc_ev.evict_loop_rule [where P = P]) (use assms start keep in auto)
  then obtain n where n: "n \<le> length (rc_scores c) - nat (rc_capacity c)"
      and w: "?w = c\<lparr>rc_scores := drop n (rc_scores c)\<rparr>" and "\<not> rc_over ?w"
    by (auto simp: P_def)
  then have "length (rc_scores c) - n \<le> nat (rc_capacity c)"
    by (auto simp: rc_over_def)
  with n have "n = length (rc_scores c) - nat (rc_capacity c)" by arith
  with w show ?thesis by simp
qed

lemma rc_set_scores:
  assumes "rc_wf c" and "expected = None \<or> expected = Some (rc_generation c)"
  shows "rc_set H i score expected c = c\<lparr>rc_scores :=
    (let s = od_pop (rc_key_of H i) (rc_scores c) @ [(rc_key_of H i, score)]
     in drop (length s - nat (rc_capacity c)) s)\<rparr>"
proof -
  let ?c = "c\<lparr>rc_scores := od_pop (rc_key_of H i) (rc_scores c) @ [(rc_key_of H i, score)]\<rparr>"
  have "rc_wf ?c" using assms(1) by (auto simp: rc_wf_def od_pop_keys)
  from rc_loop_drop [OF this] assms(2) show ?thesis
    by (auto simp: rc_set_def od_set_pop Let_def)
qed

lemma rc_inv_new [inv_intros]: "rc_inv (rc_new capacity)"
  by (simp add: rc_inv_def rc_wf_def rc_new_def)

lemma rc_get_scores:
  "rc_scores (fst (rc_get H i c)) = od_move_to_end (rc_key_of H i) (rc_scores c)"
  by (simp add: rc_get_def od_move_to_end_def Let_def split: option.splits)

lemma rc_get_frame [simp]:
  "rc_capacity (fst (rc_get H i c)) = rc_capacity c"
  "rc_generation (fst (rc_get H i c)) = rc_generation c"
  by (auto simp: rc_get_def Let_def split: option.splits)

lemma length_od_move_to_end: "distinct (od_keys d) \<Longrightarrow> length (od_move_to_end k d) = length d"
  by (metis distinct_card distinct_od_move_to_end length_map od_move_to_end_keys)

lemma rc_inv_get [inv_intros]: "rc_inv c \<Longrightarrow> rc_inv (fst (rc_get H i c))"
  by (auto simp: rc_inv_def rc_wf_def rc_get_scores distinct_od_move_to_end length_od_move_to_end)

lemma rc_inv_set [inv_intros]:
  assumes "rc_inv c"
  shows "rc_inv (rc_set H i score eg c)"
proof (cases "eg = None \<or> eg = Some (rc_generation c)")
  case True
  have wf: "rc_wf c" using assms by (simp add: rc_inv_def)
  show ?thesis
    unfolding rc_set_scores [OF wf True]
    using wf by (auto simp: rc_inv_def rc_wf_def od_pop_keys Let_def drop_map [symmetric]
        intro!: distinct_drop dest!: in_set_dropD)
next
  case False
  with assms show ?thesis by (simp add: rc_set_def)
qed

lemma fold_od_pop_keys:
  "od_keys (fold od_pop ks d) = filter (\<lambda>k. k \<notin> set ks) (od_keys d)"
  by (induction ks arbitrary: d) (auto simp: od_pop_keys intro!: filter_cong)

lemma rc_invalidate_keys:
  "od_keys (rc_scores (fst (rc_invalidate_chunks cids c))) =
   filter (\<lambda>k. Some (key_chunk k) \<notin> set cids) (od_keys (rc_scores c))"
proof -
  have "set [cid. Some cid \<leftarrow> cids] = {cid. Some cid \<in> set cids}"
    by (induction cids) (auto split: option.splits)
  moreover from this have "[cid. Some cid \<leftarrow> cids] = [] \<longleftrightarrow> (\<forall>cid. Some cid \<notin> set cids)"
    by (metis (no_types, lifting) Collect_empty_eq set_empty)
  ultimately show ?thesis
    by (auto simp: rc_invalidate_chunks_def Let_def fold_od_pop_keys intro!: filter_cong [symmetric]
        filter_True [symmetric])
qed

lemma rc_inv_invalidate [inv_intros]:
  assumes "rc_inv c"
  shows "rc_inv (fst (rc_invalidate_chunks cids c))"
proof -
  let ?d = "rc_scores (fst (rc_invalidate_chunks cids c))"
  have "length ?d \<le> length (rc_scores c)"
    by (metis length_filter_le length_map rc_invalidate_keys)
  moreover have "rc_capacity (fst (rc_invalidate_chunks cids c)) = rc_capacity c"
    by (simp add: rc_invalidate_chunks_def Let_def)
  ultimately show ?thesis
    using assms by (auto simp: rc_inv_def rc_wf_def rc_invalidate_keys)
qed

lemma rc_inv_clear [inv_intros]: "rc_inv c \<Longrightarrow> rc_inv (rc_clear c)"
  by (simp add: rc_inv_def rc_wf_def rc_clear_def)

lemma rc_inv_step [inv_intros]: "rc_inv c \<Longrightarrow> rc_inv (rc_step H op c)"
  by (cases op) (auto intro: inv_intros)

lemma rc_inv_run [inv_intros]: "rc_inv c \<Longrightarrow> rc_inv (rc_run H ops c)"
  unfolding rc_run_def by (induction ops arbitrary: c) (auto intro: inv_intros)

section \<open>Recency\<close>

text \<open>The keys an operation uses: a hit, and a store that is not refused.\<close>

fun rc_touch :: "(string \<Rightarrow> string) \<Rightarrow> rc_op \<Rightarrow> rerank_cache \<Rightarrow> rc_key list" where
  "rc_touch H (RGet i) c = (if rc_key_of H i \<in> set (od_keys (rc_scores c)) then [rc_key_of H i] else [])"
| "rc_touch H (RSet i score eg) c =
     (if eg = None \<or> eg = Some (rc_generation c) then [rc_key_of H i] else [])"
| "rc_touch H _ c = []"

fun rc_touches :: "(string \<Rightarrow> string) \<Rightarrow> rc_op list \<Rightarrow> rerank_cache \<Rightarrow> rc_key list" where
  "rc_touches H [] c = []"
| "rc_touches H (op # ops) c = rc_touch H op c @ rc_touches H ops (rc_step H op c)"

definition invalidates :: "rc_op \<Rightarrow> bool" where
  "invalidates op \<longleftrightarrow> (case op of RInvalidate _ \<Rightarrow> True | RClear \<Rightarrow> True | _ \<Rightarrow> False)"

definition last_n :: "nat \<Rightarrow> 'a list \<Rightarrow> 'a list" where
  "last_n n xs = drop (length xs - n) xs"

lemma remdups_snoc: "remdups (xs @ [k]) = filter (\<lambda>x. x \<noteq> k) (remdups xs) @ [k]"
  by (induction xs) auto

lemma filter_neq_length:
  "distinct xs \<Longrightarrow> length xs \<le> Suc (length (filter (\<lambda>x. x \<noteq> k) xs))"
  by (induction xs) (auto simp: filter_id_conv le_SucI intro!: filter_True [THEN arg_cong [of _ _ length], symmetric, THEN eq_imp_le])

lemma last_n_touch:
  assumes "distinct xs" and "0 < n"
  shows "last_n n (filter (\<lambda>x. x \<noteq> k) (last_n n xs) @ [k]) = last_n n (filter (\<lambda>x. x \<noteq> k) xs @ [k])"
proof (cases "length xs \<le> n")
  case True
  then show ?thesis by (simp add: last_n_def)
next
  case False
  define us vs where "us = filter (\<lambda>x. x \<noteq> k) (take (length xs - n) xs)"
    and "vs = filter (\<lambda>x. x \<noteq> k) (drop (length xs - n) xs)"
  have split: "filter (\<lambda>x. x \<noteq> k) xs = us @ vs"
    unfolding us_def vs_def by (metis append_take_drop_id filter_append)
  have "length (drop (length xs - n) xs) \<le> Suc (length vs)"
    unfolding vs_def by (rule filter_neq_length) (simp add: assms)
  with False have "n \<le> Suc (length vs)" by simp
  then show ?thesis
    unfolding split by (simp add: last_n_def vs_def [symmetric])
qed

lemma rc_step_frame:
  "\<not> invalidates op \<Longrightarrow> rc_inv c \<Longrightarrow> rc_capacity (rc_step H op c) = rc_capacity c"
  by (cases op) (auto simp: invalidates_def rc_inv_def rc_set_def rc_set_scores [unfolded Let_def]
      rc_loop_drop rc_wf_def od_pop_keys od_set_pop Let_def)

lemma rc_step_recency:
  assumes "rc_inv c" and "\<not> invalidates op"
    and keys: "od_keys (rc_scores c) = last_n (nat (rc_capacity c)) (remdups h)"
  shows "od_keys (rc_scores (rc_step H op c)) = last_n (nat (rc_capacity c)) (remdups (h @ rc_touch H op c))"
proof (cases op)
  case (RGet i)
  have wf: "distinct (od_keys (rc_scores c))" "0 < nat (rc_capacity c)"
    "length (rc_scores c) \<le> nat (rc_capacity c)"
    using assms(1) by (auto simp: rc_inv_def rc_wf_def)
  show ?thesis
  proof (cases "rc_key_of H i \<in> set (od_keys (rc_scores c))")
    case True
    let ?k = "rc_key_of H i" and ?n = "nat (rc_capacity c)"
    from True obtain v where "map_of (rc_scores c) ?k = Some v"
      by (metis map_of_None_iff_keys not_None_eq)
    then have mv: "od_keys (od_move_to_end ?k (rc_scores c)) =
        filter (\<lambda>x. x \<noteq> ?k) (od_keys (rc_scores c)) @ [?k]"
      by (simp add: od_move_to_end_def od_set_pop od_pop_keys)
    have "length (filter (\<lambda>x. x \<noteq> ?k) (od_keys (rc_scores c)) @ [?k]) = length (rc_scores c)"
      by (metis length_map length_od_move_to_end mv wf(1))
    then have "filter (\<lambda>x. x \<noteq> ?k) (od_keys (rc_scores c)) @ [?k] =
        last_n ?n (filter (\<lambda>x. x \<noteq> ?k) (od_keys (rc_scores c)) @ [?k])"
      using wf(3) unfolding last_n_def by simp
    also have "\<dots> = last_n ?n (remdups (h @ [?k]))"
      using wf(2) by (simp add: keys last_n_touch remdups_snoc)
    finally show ?thesis using True RGet mv by (simp add: rc_get_scores)
  next
    case False
    then have "rc_get H i c = (c, None)"
      by (simp add: rc_get_def map_of_None_iff_keys [THEN iffD2])
    with False RGet keys show ?thesis by simp
  qed
next
  case (RSet i score eg)
  have wf: "rc_wf c" "0 < nat (rc_capacity c)"
    using assms(1) by (auto simp: rc_inv_def rc_wf_def)
  show ?thesis
  proof (cases "eg = None \<or> eg = Some (rc_generation c)")
    case True
    let ?k = "rc_key_of H i" and ?n = "nat (rc_capacity c)"
    have "od_keys (rc_scores (rc_set H i score eg c)) =
        last_n ?n (filter (\<lambda>x. x \<noteq> ?k) (od_keys (rc_scores c)) @ [?k])"
      unfolding rc_set_scores [OF wf(1) True]
      by (simp add: last_n_def Let_def drop_map [symmetric] od_pop_keys
          flip: length_map [where f = fst and xs = "od_pop ?k (rc_scores c)"])
    also have "\<dots> = last_n ?n (remdups (h @ [?k]))"
      using wf(2) by (simp add: keys last_n_touch remdups_snoc)
    finally show ?thesis using True RSet by auto
  next
    case False
    with RSet keys show ?thesis by (auto simp: rc_set_def)
  qed
qed (use assms in \<open>auto simp: invalidates_def\<close>)

lemma rc_run_recency:
  assumes "rc_inv c" and "\<And>op. op \<in> set ops \<Longrightarrow> \<not> invalidates op"
    and "od_keys (rc_scores c) = last_n (nat (rc_capacity c)) (remdups h)"
  shows "od_keys (rc_scores (rc_run H ops c)) =
    last_n (nat (rc_capacity c)) (remdups (h @ rc_touches H ops c))"
  using assms
proof (induction ops arbitrary: c h)
  case Nil
  then show ?case by (simp add: rc_run_def)
next
  case (Cons op ops)
  have "od_keys (rc_scores (rc_run H ops (rc_step H op c))) =
      last_n (nat (rc_capacity (rc_step H op c)))
        (remdups ((h @ rc_touch H op c) @ rc_touches H ops (rc_step H op c)))"
    by (rule Cons.IH)
      (use Cons.prems rc_step_recency rc_step_frame rc_inv_step in \<open>auto simp: rc_step_frame\<close>)
  with Cons.prems show ?case by (simp add: rc_run_def rc_step_frame)
qed

section \<open>Stale scores\<close>

text \<open>A store that carries a generation read no later than generation \<open>g\<close>; other calls are free.\<close>

definition captured_by :: "int \<Rightarrow> rc_op \<Rightarrow> bool" where
  "captured_by g op \<longleftrightarrow> (case op of RSet _ _ eg \<Rightarrow> (case eg of None \<Rightarrow> False | Some e \<Rightarrow> e \<le> g) | _ \<Rightarrow> True)"

lemma rc_invalidate_generation_le: "rc_generation c \<le> rc_generation (fst (rc_invalidate_chunks cids c))"
  by (simp add: rc_invalidate_chunks_def Let_def)

lemma rc_captured_step:
  assumes "captured_by g op" and "g < rc_generation c"
  shows "g < rc_generation (rc_step H op c) \<and>
    set (od_keys (rc_scores (rc_step H op c))) \<subseteq> set (od_keys (rc_scores c))"
proof (cases op)
  case (RGet i)
  then show ?thesis
    using assms(2) od_move_to_end_keys [of "rc_key_of H i" "rc_scores c"]
    by (simp add: rc_get_scores)
next
  case (RSet i score eg)
  with assms obtain e where "eg = Some e" "e < rc_generation c"
    by (auto simp: captured_by_def split: option.splits)
  then have "rc_set H i score eg c = c" by (simp add: rc_set_def)
  with RSet assms(2) show ?thesis by simp
next
  case (RInvalidate cids)
  with assms(2) rc_invalidate_generation_le [of c cids] show ?thesis
    by (simp only: rc_step.simps rc_invalidate_keys) auto
next
  case RClear
  with assms(2) show ?thesis by (simp add: rc_clear_def)
qed

lemma rc_captured_run:
  assumes "\<And>op. op \<in> set ops \<Longrightarrow> captured_by g op" and "g < rc_generation c"
  shows "set (od_keys (rc_scores (rc_run H ops c))) \<subseteq> set (od_keys (rc_scores c))"
  using assms
proof (induction ops arbitrary: c)
  case Nil
  then show ?case by (simp add: rc_run_def)
next
  case (Cons op ops)
  have "captured_by g op" using Cons.prems(1) by simp
  from rc_captured_step [OF this Cons.prems(2), of H]
  have step: "g < rc_generation (rc_step H op c)"
    "set (od_keys (rc_scores (rc_step H op c))) \<subseteq> set (od_keys (rc_scores c))" by auto
  have "set (od_keys (rc_scores (rc_run H ops (rc_step H op c)))) \<subseteq>
      set (od_keys (rc_scores (rc_step H op c)))"
    by (rule Cons.IH) (use Cons.prems step in auto)
  with step(2) show ?case by (auto simp: rc_run_def)
qed

lemma rc_invalidate_generation:
  "Some cid \<in> set cids \<Longrightarrow>
   rc_generation (fst (rc_invalidate_chunks cids c)) = rc_generation c + 1"
  by (induction cids) (auto simp: rc_invalidate_chunks_def Let_def split: option.splits if_splits)

section \<open>Properties\<close>

text \<open>after any sequence of get, set, invalidate and clear calls on a fresh cache, the capacity is
  at least one, the keys are distinct and there are at most capacity many of them.\<close>

theorem rc_run_well_formed: "rc_inv (rc_run H ops (rc_new capacity))"
  by (rule rc_inv_run [OF rc_inv_new])

text \<open>The cache is a least-recently-used cache.  After any sequence of gets and sets on a fresh
  cache the cached keys, oldest first, are the last capacity many distinct keys in the order of
  their latest use, where a use is a hit or a store whose expected generation is not out of date.\<close>

theorem rc_lru_order:
  assumes "\<And>op. op \<in> set ops \<Longrightarrow> \<not> invalidates op"
  shows "od_keys (rc_scores (rc_run H ops (rc_new capacity))) =
    last_n (nat (max 1 capacity)) (remdups (rc_touches H ops (rc_new capacity)))"
  using rc_run_recency [OF rc_inv_new assms, where h = "[]"]
  by (simp add: rc_new_def last_n_def)

definition sample_input :: "int \<Rightarrow> rc_input" where
  "sample_input cid = \<lparr>in_model = ''m'', in_version = [], in_query = ''q'', in_chunk = cid,
     in_corpus = [], in_passage = ''p''\<rparr>"

definition sample_ops :: "rc_op list" where
  "sample_ops = [RSet (sample_input 1) (Fin 1) None, RSet (sample_input 2) (Fin 2) None,
     RGet (sample_input 1), RSet (sample_input 3) (Fin 3) (Some 0)]"

theorem rc_lru_order_witness:
  "od_keys (rc_scores (rc_run id sample_ops (rc_new 2))) =
    [rc_key_of id (sample_input 1), rc_key_of id (sample_input 3)]"
proof -
  have "od_keys (rc_scores (rc_run id sample_ops (rc_new 2))) =
      last_n (nat (max 1 2)) (remdups (rc_touches id sample_ops (rc_new 2)))"
    by (rule rc_lru_order) (auto simp: sample_ops_def invalidates_def)
  also have "\<dots> = [rc_key_of id (sample_input 1), rc_key_of id (sample_input 3)]"
    by code_simp
  finally show ?thesis .
qed

text \<open>a score whose computation started before an invalidation cannot repopulate the cache.  After
  \<open>invalidate_chunks\<close> on a list with chunk \<open>cid\<close>, no sequence of further calls whose stores carry a
  generation read before that invalidation leaves any score for \<open>cid\<close> in the cache.\<close>

theorem rc_no_stale_repopulation:
  assumes "Some cid \<in> set cids"
    and "\<And>op. op \<in> set ops \<Longrightarrow> captured_by (rc_generation c) op"
    and "key \<in> set (od_keys (rc_scores (rc_run H ops (fst (rc_invalidate_chunks cids c)))))"
  shows "key_chunk key \<noteq> cid"
proof -
  have "rc_generation c < rc_generation (fst (rc_invalidate_chunks cids c))"
    by (simp add: rc_invalidate_generation [OF assms(1)])
  from rc_captured_run [OF assms(2) this] assms(3)
  have "key \<in> set (od_keys (rc_scores (fst (rc_invalidate_chunks cids c))))" by blast
  with assms(1) show ?thesis by (auto simp only: rc_invalidate_keys set_filter)
qed

definition stale_start :: rerank_cache where
  "stale_start = rc_run id [RSet (sample_input 1) (Fin 1) None, RSet (sample_input 2) (Fin 2) None] (rc_new 4)"

theorem rc_no_stale_repopulation_witness:
  "rc_key_of id (sample_input 2) \<in> set (od_keys (rc_scores (rc_run id
      [RSet (sample_input 1) (Fin 7) (Some 0)] (fst (rc_invalidate_chunks [Some 1, None] stale_start))))) \<and>
    key_chunk (rc_key_of id (sample_input 2)) \<noteq> 1"
proof -
  have g: "rc_generation stale_start = 0" by code_simp
  have m: "rc_key_of id (sample_input 2) \<in> set (od_keys (rc_scores (rc_run id
      [RSet (sample_input 1) (Fin 7) (Some 0)] (fst (rc_invalidate_chunks [Some 1, None] stale_start)))))"
    by code_simp
  moreover have "key_chunk (rc_key_of id (sample_input 2)) \<noteq> 1"
    by (rule rc_no_stale_repopulation [OF _ _ m]) (auto simp: captured_by_def g)
  ultimately show ?thesis ..
qed

end
