(* ===== verification/Rank_Fusion.thy ===== *)
theory Rank_Fusion
  imports Trie_Index Rerank_Cache
begin

text \<open>
  Fusion and re-ranking of search results: \<open>_rrf_merge\<close>, \<open>_rrf_merge_multi\<close> and the re-ranking of
  \<open>semantic_rerank.py\<close>, \<open>_reserve_top_fts_slots\<close> of \<open>fts_search.py\<close>, the correction class of \<open>config.py\<close>.

  A result row and a merged document keep the entries that decide about rank as record fields and the
  other entries of the Python dict as a \<open>pydict\<close>.  Scores are rationals; \<open>rrf_k\<close> is a natural number, so no
  denominator is zero.  A missing \<open>decay_score\<close> and a null one are both \<open>None\<close>, as the code treats them
  alike.  The rows come from queries that select every column, so \<open>r["path"]\<close> does not raise.  The
  cross-encoder is a parameter; a sort with \<open>reverse=True\<close> is stable, as Python's is.
\<close>

section \<open>Rows, documents, configuration\<close>

record search_row =
  sr_doc_id :: int
  sr_decay :: "rat option"
  sr_similarity :: "rat option"
  sr_fields :: pydict

record merged_doc =
  md_doc_id :: int
  md_rrf :: rat
  md_decay :: "rat option"
  md_fts_rank :: "nat option"
  md_sem_rank :: "nat option"
  md_similarity :: "rat option"
  md_fields :: pydict
  md_sem_chunk :: bool
  md_salience_boost :: rat
  md_decay_applied :: rat
  md_final :: rat
  md_rerank :: "rat option"
  md_raw_rerank :: "rat option"

record rank_config =
  rk_rrf_k :: nat
  rk_fts_weight :: rat
  rk_semantic_weight :: rat
  rk_correction_types :: "string list"
  rk_salience_boost :: rat
  rk_decay_floor :: rat
  rk_final_k :: int

definition correction_class_page_types :: "string list \<Rightarrow> string list" where
  "correction_class_page_types raw = map py_lower
     (if raw = [] then [''correction'', ''contradiction'', ''decision'', ''fix''] else raw)"

text \<open>The defaults of \<open>MinniConfig\<close>.\<close>

definition default_rank_config :: rank_config where
  "default_rank_config = \<lparr>rk_rrf_k = 60, rk_fts_weight = 60 / 100, rk_semantic_weight = 40 / 100,
     rk_correction_types = correction_class_page_types [''correction'', ''contradiction'', ''decision'', ''fix''],
     rk_salience_boost = 25 / 100, rk_decay_floor = 50 / 100, rk_final_k = 5\<rparr>"

section \<open>Reciprocal rank fusion\<close>

type_synonym merge_table = "(int \<times> merged_doc) list"

definition copied_fields :: "search_row \<Rightarrow> pydict" where
  "copied_fields r = (let f = sr_fields r in
    [(''path'', dget f ''path''), (''agent'', dget f ''agent''), (''sigil'', dget f ''sigil''),
     (''chunk_text'', dget_or f ''chunk_text'' (PStr [])),
     (''heading_context'', dget_or f ''heading_context'' (PStr [])),
     (''page_status'', dget_or f ''page_status'' (PStr ''candidate'')),
     (''privacy_level'', dget_or f ''privacy_level'' (PStr ''safe'')),
     (''page_type'', dget f ''page_type''), (''evidence_refs'', dget f ''evidence_refs''),
     (''indexed_at'', dget f ''indexed_at''), (''layer'', dget_or f ''layer'' (PStr ''knowledge''))])"

definition new_merged :: "search_row \<Rightarrow> merged_doc" where
  "new_merged r = \<lparr>md_doc_id = sr_doc_id r, md_rrf = 0, md_decay = sr_decay r, md_fts_rank = None,
     md_sem_rank = None, md_similarity = None, md_fields = copied_fields r, md_sem_chunk = False,
     md_salience_boost = 0, md_decay_applied = 1, md_final = 0, md_rerank = None, md_raw_rerank = None\<rparr>"

definition rank_share :: "rat \<Rightarrow> nat \<Rightarrow> nat \<Rightarrow> rat" where
  "rank_share weight k rank = weight / of_nat (k + rank)"

definition entry_or :: "merge_table \<Rightarrow> search_row \<Rightarrow> merged_doc \<Rightarrow> merged_doc" where
  "entry_or t r fresh = (case map_of t (sr_doc_id r) of None \<Rightarrow> fresh | Some d \<Rightarrow> d)"

text \<open>The first loop of \<open>_rrf_merge\<close>: one row of the lexical ranking.\<close>

definition merge_fts_row :: "rank_config \<Rightarrow> nat \<times> search_row \<Rightarrow> merge_table \<Rightarrow> merge_table" where
  "merge_fts_row cfg rr t = (case rr of (rank, r) \<Rightarrow>
     let d = entry_or t r ((new_merged r)\<lparr>md_fts_rank := Some rank\<rparr>)
     in AList.update (sr_doc_id r)
          (d\<lparr>md_rrf := md_rrf d + rank_share (rk_fts_weight cfg) (rk_rrf_k cfg) rank\<rparr>) t)"

text \<open>\<open>if not d.get(k) and r.get(k): d[k] = r[k]\<close>, for the four entries filled this way.\<close>

definition fill_field :: "search_row \<Rightarrow> string \<Rightarrow> pydict \<Rightarrow> pydict" where
  "fill_field r k f = (if \<not> truthy (dget f k) \<and> truthy (dget (sr_fields r) k)
     then AList.update k (dget (sr_fields r) k) f else f)"

definition fill_fields :: "search_row \<Rightarrow> pydict \<Rightarrow> pydict" where
  "fill_fields r f = fold (fill_field r) [''page_type'', ''evidence_refs'', ''indexed_at'', ''layer''] f"

definition take_chunk :: "search_row \<Rightarrow> pydict \<Rightarrow> pydict" where
  "take_chunk r f = AList.update ''heading_context'' (dget_or (sr_fields r) ''heading_context'' (PStr []))
     (AList.update ''chunk_text'' (dget (sr_fields r) ''chunk_text'') f)"

text \<open>The second loop: one row of the semantic ranking; its chunk replaces the lexical one.\<close>

definition semantic_chunk :: "search_row \<Rightarrow> pydict \<Rightarrow> pydict" where
  "semantic_chunk r f = (if \<not> truthy (dget (sr_fields r) ''chunk_text'') then f
     else let f' = take_chunk r f in
       if dget (sr_fields r) ''chunk_id'' \<noteq> PNone
       then AList.update ''chunk_id'' (dget (sr_fields r) ''chunk_id'') f' else AList.delete ''chunk_id'' f')"

definition merge_semantic_row :: "rank_config \<Rightarrow> nat \<times> search_row \<Rightarrow> merge_table \<Rightarrow> merge_table" where
  "merge_semantic_row cfg rr t = (case rr of (rank, r) \<Rightarrow>
     let d = entry_or t r ((new_merged r)\<lparr>md_sem_rank := Some rank\<rparr>)
     in AList.update (sr_doc_id r)
          (d\<lparr>md_rrf := md_rrf d + rank_share (rk_semantic_weight cfg) (rk_rrf_k cfg) rank,
             md_sem_rank := (if md_sem_rank d = None then Some rank else md_sem_rank d),
             md_similarity := (if sr_similarity r \<noteq> None \<and> md_similarity d = None then sr_similarity r
                               else md_similarity d),
             md_fields := fill_fields r (semantic_chunk r (md_fields d))\<rparr>) t)"

text \<open>\<open>_score_merged_doc\<close>.\<close>

definition is_correction :: "rank_config \<Rightarrow> pydict \<Rightarrow> bool" where
  "is_correction cfg f \<longleftrightarrow> py_lower (py_str (py_or (dget f ''page_type'') (PStr []))) \<in> set (rk_correction_types cfg)"

definition clamp_unit :: "rat \<Rightarrow> rat" where
  "clamp_unit x = max 0 (min 1 x)"

definition applied_decay :: "rank_config \<Rightarrow> merged_doc \<Rightarrow> rat" where
  "applied_decay cfg d =
    (let decay = (case md_decay d of None \<Rightarrow> 1 | Some x \<Rightarrow> x)
     in clamp_unit (if is_correction cfg (md_fields d) then max decay (rk_decay_floor cfg) else decay))"

definition score_merged_doc :: "rank_config \<Rightarrow> merged_doc \<Rightarrow> merged_doc" where
  "score_merged_doc cfg d =
    (let boost = (if is_correction cfg (md_fields d) then rk_salience_boost cfg else 0);
         decay = applied_decay cfg d
     in d\<lparr>md_salience_boost := boost, md_decay_applied := decay, md_final := md_rrf d * decay * (1 + boost)\<rparr>)"

text \<open>\<open>_reserve_top_fts_slots\<close>.\<close>

definition by_final :: "merged_doc list \<Rightarrow> merged_doc list" where
  "by_final ds = sort_key (\<lambda>d. - md_final d) ds"

fun missing_fts :: "merge_table \<Rightarrow> int set \<Rightarrow> search_row list \<Rightarrow> int list \<Rightarrow> merged_doc list \<Rightarrow> merged_doc list" where
  "missing_fts t present [] seen acc = acc"
| "missing_fts t present (r # rs) seen acc =
    (case map_of t (sr_doc_id r) of
       Some d \<Rightarrow>
         if sr_doc_id r \<notin> present \<and> sr_doc_id r \<notin> set seen
         then missing_fts t present rs (seen @ [sr_doc_id r]) (acc @ [d])
         else missing_fts t present rs seen acc
     | None \<Rightarrow> missing_fts t present rs seen acc)"

fun fill_kept :: "nat \<Rightarrow> merged_doc list \<Rightarrow> merged_doc list \<Rightarrow> merged_doc list" where
  "fill_kept keep_count [] kept = kept"
| "fill_kept keep_count (d # ds) kept =
    (if keep_count \<le> length kept then kept
     else fill_kept keep_count ds (if d \<in> set kept then kept else kept @ [d]))"

definition reserve_top_fts_slots ::
  "merged_doc list \<Rightarrow> search_row list \<Rightarrow> merge_table \<Rightarrow> int \<Rightarrow> merged_doc list" where
  "reserve_top_fts_slots ranked fts t limit =
    (let top_window = py_take limit ranked in
     if fts = [] \<or> limit \<le> 0 then top_window
     else let quota = min 10 (min (length fts) (nat limit));
              missing = missing_fts t (set (map md_doc_id top_window)) (take quota fts) [] []
       in if missing = [] then top_window
          else let keep_count = nat limit - length missing;
                   kept = filter (\<lambda>d. \<exists>q \<in> set_option (md_fts_rank d). q \<le> quota) top_window
            in take (nat limit) (by_final (fill_kept keep_count top_window kept @ missing)))"

definition merged_table :: "rank_config \<Rightarrow> search_row list \<Rightarrow> search_row list \<Rightarrow> merge_table" where
  "merged_table cfg fts sem = fold (merge_semantic_row cfg) (enumerate 1 sem)
     (fold (merge_fts_row cfg) (enumerate 1 fts) [])"

definition score_table :: "rank_config \<Rightarrow> merge_table \<Rightarrow> merge_table" where
  "score_table cfg t = map (\<lambda>(k, d). (k, score_merged_doc cfg d)) t"

definition rrf_merge :: "rank_config \<Rightarrow> search_row list \<Rightarrow> search_row list \<Rightarrow> int \<Rightarrow> merged_doc list" where
  "rrf_merge cfg fts sem limit =
    (let t = score_table cfg (merged_table cfg fts sem)
     in reserve_top_fts_slots (by_final (map snd t)) fts t limit)"

section \<open>Fusion of more than two streams\<close>

datatype stream_label = FtsStream | SemStream | ExtraStream

definition new_merged_multi :: "search_row \<Rightarrow> merged_doc" where
  "new_merged_multi r = (let f = sr_fields r in (new_merged r)\<lparr>md_fields :=
     AList.update ''path'' (dget_or f ''path'' (PStr []))
     (AList.update ''agent'' (dget_or f ''agent'' (PStr []))
     (AList.update ''sigil'' (dget_or f ''sigil'' (PStr [])) (copied_fields r)))
     @ [(''backend_name'', dget_or f ''backend_name'' (PStr ''faiss-disk''))]\<rparr>)"

definition multi_chunk :: "stream_label \<Rightarrow> search_row \<Rightarrow> merged_doc \<Rightarrow> merged_doc" where
  "multi_chunk label r d =
    (if truthy (dget (sr_fields r) ''chunk_text'') \<and> \<not> md_sem_chunk d then
       let f = take_chunk r (md_fields d) in
       if label = FtsStream then d\<lparr>md_fields := f\<rparr>
       else d\<lparr>md_sem_chunk := True,
              md_fields := (if dget (sr_fields r) ''chunk_id'' \<noteq> PNone
                then AList.update ''chunk_id'' (dget (sr_fields r) ''chunk_id'') f else f)\<rparr>
     else d)"

definition add_stream_row :: "rank_config \<Rightarrow> rat \<Rightarrow> stream_label \<Rightarrow> nat \<times> search_row \<Rightarrow> merge_table \<Rightarrow> merge_table" where
  "add_stream_row cfg weight label rr t = (case rr of (rank, r) \<Rightarrow>
     let d = entry_or t r (new_merged_multi r);
         d1 = d\<lparr>md_rrf := md_rrf d + rank_share weight (rk_rrf_k cfg) rank,
                md_fts_rank := (if label = FtsStream then Some rank else md_fts_rank d),
                md_sem_rank := (if label = SemStream \<and> md_sem_rank d = None then Some rank else md_sem_rank d)\<rparr>;
         d2 = multi_chunk label r d1
     in AList.update (sr_doc_id r) (d2\<lparr>md_fields := fill_fields r (md_fields d2)\<rparr>) t)"

definition add_stream :: "rank_config \<Rightarrow> rat \<Rightarrow> stream_label \<Rightarrow> search_row list \<Rightarrow> merge_table \<Rightarrow> merge_table" where
  "add_stream cfg weight label rows t = fold (add_stream_row cfg weight label) (enumerate 1 rows) t"

definition merged_table_multi ::
  "rank_config \<Rightarrow> search_row list \<Rightarrow> search_row list \<Rightarrow> search_row list list \<Rightarrow> merge_table" where
  "merged_table_multi cfg fts sem extras =
    fold (add_stream cfg (rk_semantic_weight cfg) ExtraStream) extras
      (add_stream cfg (rk_semantic_weight cfg) SemStream sem
        (add_stream cfg (rk_fts_weight cfg) FtsStream fts []))"

definition rrf_merge_multi ::
  "rank_config \<Rightarrow> search_row list \<Rightarrow> search_row list \<Rightarrow> search_row list list \<Rightarrow> int \<Rightarrow> merged_doc list" where
  "rrf_merge_multi cfg fts sem extras limit =
    (let t = score_table cfg (map (\<lambda>(k, d). (k, d\<lparr>md_sem_chunk := False\<rparr>)) (merged_table_multi cfg fts sem extras))
     in reserve_top_fts_slots (by_final (map snd t)) fts t limit)"

section \<open>Re-ranking\<close>

definition rerank_score :: "merged_doc \<Rightarrow> rat" where
  "rerank_score d = (case md_rerank d of None \<Rightarrow> 0 | Some x \<Rightarrow> x)"

text \<open>\<open>_apply_correction_rerank_boost\<close>, for one candidate.\<close>

definition correction_boosted :: "rank_config \<Rightarrow> merged_doc \<Rightarrow> merged_doc" where
  "correction_boosted cfg d =
    (let boost = rk_salience_boost cfg; score = rerank_score d in
     if boost \<le> 0 then d
     else if \<not> is_correction cfg (md_fields d) then d
     else d\<lparr>md_rerank := Some (if score > 0 then score * (1 + boost)
                              else if score < 0 then score / (1 + boost) else boost),
            md_salience_boost := boost\<rparr>)"

text \<open>\<open>_apply_decay_rerank_attenuation\<close>, for one candidate.\<close>

definition decay_attenuated :: "rank_config \<Rightarrow> merged_doc \<Rightarrow> merged_doc" where
  "decay_attenuated cfg d =
    (let decay = applied_decay cfg d; d' = d\<lparr>md_decay_applied := decay\<rparr>; score = rerank_score d in
     if decay = 1 then d'
     else d'\<lparr>md_rerank := Some (if score > 0 then score * decay
            else if score < 0 then (if decay > 0 then score / decay else score * 2)
            else decay - 1)\<rparr>)"

definition apply_rerank_score_adjustments :: "rank_config \<Rightarrow> merged_doc list \<Rightarrow> merged_doc list" where
  "apply_rerank_score_adjustments cfg ds =
    map (\<lambda>d. decay_attenuated cfg (correction_boosted cfg (d\<lparr>md_raw_rerank := Some (rerank_score d)\<rparr>))) ds"

text \<open>\<open>candidates.sort(key=lambda x: x.get("rerank_score", 0), reverse=True)\<close>.\<close>

definition by_rerank :: "merged_doc list \<Rightarrow> merged_doc list" where
  "by_rerank ds = sort_key (\<lambda>d. - rerank_score d) ds"

definition rerank_passage :: "pydict \<Rightarrow> string" where
  "rerank_passage f =
    (let passage = py_str (py_or (dget_or f ''chunk_text'' (PStr [])) (PStr []));
         heading = dget_or f ''heading_context'' (PStr [])
     in if truthy heading then ''['' @ py_str heading @ ''] '' @ passage else passage)"

text \<open>\<open>_apply_post_rerank_confidence_floor\<close>.\<close>

definition floor_drops :: "bool \<Rightarrow> merged_doc \<Rightarrow> bool" where
  "floor_drops no_fts d = (md_fts_rank d = None \<and> (case md_raw_rerank d of
     None \<Rightarrow> False
   | Some raw \<Rightarrow> raw < -4 \<or> raw < (if no_fts then -1 else -4) \<and>
       (case md_similarity d of None \<Rightarrow> 0 | Some s \<Rightarrow> s) < 35 / 100))"

definition post_rerank_floor :: "rank_config \<Rightarrow> merged_doc list \<Rightarrow> search_row list \<Rightarrow> int \<Rightarrow> merged_doc list" where
  "post_rerank_floor cfg merged fts limit =
    py_take (max (rk_final_k cfg) limit) (filter (\<lambda>d. \<not> floor_drops (fts = []) d) merged)"

text \<open>
  \<open>_rerank\<close>.  \<open>predict\<close> is the cross-encoder on a list of pairs, \<open>None\<close> when it raises or when the deadline
  skips it.  The cache is the state; \<open>others\<close> is what other threads do to it while the model runs.
\<close>

record rerank_call =
  rr_model :: string
  rr_version :: string
  rr_query :: string
  rr_corpus :: string

definition cache_input :: "rerank_call \<Rightarrow> int \<Rightarrow> pydict \<Rightarrow> rc_input" where
  "cache_input call chunk_id f = \<lparr>in_model = rr_model call, in_version = rr_version call, in_query = rr_query call,
     in_chunk = chunk_id, in_corpus = rr_corpus call, in_passage = rerank_passage f\<rparr>"

definition chunk_of :: "merged_doc \<Rightarrow> int option" where
  "chunk_of d = (case dget (md_fields d) ''chunk_id'' of PInt i \<Rightarrow> Some i | _ \<Rightarrow> None)"

fun finite_of :: "pyfloat \<Rightarrow> rat" where
  "finite_of (Fin q) = q"
| "finite_of _ = 0"

text \<open>The lookups, in the order of the candidates: the score of each hit, and the cache after them.\<close>

fun lookup_scores :: "(string \<Rightarrow> string) \<Rightarrow> rerank_call \<Rightarrow> merged_doc list \<Rightarrow> rerank_cache \<Rightarrow> rat option list \<times> rerank_cache" where
  "lookup_scores H call [] c = ([], c)"
| "lookup_scores H call (d # ds) c =
    (case chunk_of d of
       None \<Rightarrow> (let (rest, c') = lookup_scores H call ds c in (None # rest, c'))
     | Some i \<Rightarrow>
        (let (c1, hit) = rc_get H (cache_input call i (md_fields d)) c;
             (rest, c') = lookup_scores H call ds c1
         in (map_option finite_of hit # rest, c')))"

text \<open>The scores the model returned, put in the places of the misses; a missing score stays \<open>None\<close>.\<close>

fun fill_scores :: "rat option list \<Rightarrow> rat list \<Rightarrow> rat option list" where
  "fill_scores [] scores = []"
| "fill_scores (Some x # known) scores = Some x # fill_scores known scores"
| "fill_scores (None # known) [] = None # fill_scores known []"
| "fill_scores (None # known) (x # scores) = Some x # fill_scores known scores"

fun store_scores ::
  "(string \<Rightarrow> string) \<Rightarrow> rerank_call \<Rightarrow> int \<Rightarrow> (merged_doc \<times> rat) list \<Rightarrow> rerank_cache \<Rightarrow> rerank_cache" where
  "store_scores H call generation [] c = c"
| "store_scores H call generation ((d, score) # rest) c =
    store_scores H call generation rest
      (case chunk_of d of None \<Rightarrow> c
       | Some i \<Rightarrow> rc_set H (cache_input call i (md_fields d)) (Fin score) (Some generation) c)"

definition with_scores :: "rank_config \<Rightarrow> merged_doc list \<Rightarrow> rat option list \<Rightarrow> merged_doc list" where
  "with_scores cfg ds scores = by_rerank (apply_rerank_score_adjustments cfg
     (map (\<lambda>(d, s). d\<lparr>md_rerank := Some (case s of None \<Rightarrow> 0 | Some x \<Rightarrow> x)\<rparr>) (zip ds scores)))"

definition misses :: "merged_doc list \<Rightarrow> rat option list \<Rightarrow> merged_doc list" where
  "misses ds known = map fst (filter (\<lambda>(d, s). s = None) (zip ds known))"

definition rerank ::
  "(string \<Rightarrow> string) \<Rightarrow> rank_config \<Rightarrow> ((string \<times> string) list \<Rightarrow> rat list option) \<Rightarrow> (rerank_cache \<Rightarrow> rerank_cache) \<Rightarrow>
   rerank_call \<Rightarrow> merged_doc list \<Rightarrow> rerank_cache \<Rightarrow> merged_doc list \<times> rerank_cache" where
  "rerank H cfg predict others call ds c =
    (if ds = [] then (ds, c)
     else let generation = rc_generation c;
              (known, c1) = lookup_scores H call ds c;
              missing = misses ds known
       in if missing = [] then (with_scores cfg ds known, c1)
          else case predict (map (\<lambda>d. (rr_query call, rerank_passage (md_fields d))) missing) of
            None \<Rightarrow> (ds, others c1)
          | Some scores \<Rightarrow>
              (with_scores cfg ds (fill_scores known scores),
               store_scores H call generation (zip missing scores) (others c1)))"

end
