(* ===== verification/Rank_Order.thy ===== *)
theory Rank_Order
  imports Rank_Fusion Trie_Recall
begin

text \<open>
  What fusion guarantees: the exact reciprocal-rank score, the order it induces, and the slots reserved
  for the best lexical hits.
\<close>

section \<open>A stream of ranked rows\<close>

definition rrf_at :: "merge_table \<Rightarrow> int \<Rightarrow> rat" where
  "rrf_at t i = (case map_of t i of None \<Rightarrow> 0 | Some d \<Rightarrow> md_rrf d)"

definition own_ids :: "merge_table \<Rightarrow> bool" where
  "own_ids t \<longleftrightarrow> distinct (map fst t) \<and> (\<forall>(k, d) \<in> set t. md_doc_id d = k)"

text \<open>What a document earns from the rows of one stream whose first rank is \<open>n\<close>.\<close>

definition stream_share :: "rat \<Rightarrow> nat \<Rightarrow> nat \<Rightarrow> search_row list \<Rightarrow> int \<Rightarrow> rat" where
  "stream_share weight k n rows i =
    (\<Sum>(rank, r) \<leftarrow> enumerate n rows. if sr_doc_id r = i then rank_share weight k rank else 0)"

definition add_key :: "int \<Rightarrow> int list \<Rightarrow> int list" where
  "add_key i ks = (if i \<in> set ks then ks else ks @ [i])"

text \<open>The contract of taking one row of a stream into the table.\<close>

locale rank_stream =
  fixes k :: nat and weight :: rat and step :: "nat \<times> search_row \<Rightarrow> merge_table \<Rightarrow> merge_table"
  assumes step_keys: "map fst (step (rank, r) t) = add_key (sr_doc_id r) (map fst t)"
    and step_own: "own_ids t \<Longrightarrow> own_ids (step (rank, r) t)"
    and step_rrf: "rrf_at (step (rank, r) t) i = rrf_at t i + (if sr_doc_id r = i then rank_share weight k rank else 0)"
begin

lemma stream_keys: "map fst (fold step (enumerate n rows) t) = fold (add_key \<circ> sr_doc_id) rows (map fst t)"
  by (induction rows arbitrary: n t) (auto simp: step_keys)

lemma stream_own: "own_ids t \<Longrightarrow> own_ids (fold step (enumerate n rows) t)"
  by (induction rows arbitrary: n t) (auto simp: step_own)

lemma stream_rrf: "rrf_at (fold step (enumerate n rows) t) i = rrf_at t i + stream_share weight k n rows i"
  by (induction rows arbitrary: n t) (auto simp: step_rrf stream_share_def)

end

lemma update_keys_add: "map fst (AList.update i d t) = add_key i (map fst t)"
  by (induction t) (auto simp: add_key_def)

lemma update_own: "own_ids t \<Longrightarrow> md_doc_id d = i \<Longrightarrow> own_ids (AList.update i d t)"
proof -
  have "x \<in> set (AList.update i d t) \<Longrightarrow> x = (i, d) \<or> x \<in> set t" for x
    by (induction t) (auto split: if_splits)
  then show "own_ids t \<Longrightarrow> md_doc_id d = i \<Longrightarrow> own_ids (AList.update i d t)"
    by (fastforce simp: own_ids_def distinct_update)
qed

lemma entry_or_id: "own_ids t \<Longrightarrow> md_doc_id fresh = sr_doc_id r \<Longrightarrow> md_doc_id (entry_or t r fresh) = sr_doc_id r"
  by (auto simp: entry_or_def own_ids_def dest!: map_of_SomeD split: option.splits)

lemma rrf_at_update: "rrf_at (AList.update i d t) j = (if i = j then md_rrf d else rrf_at t j)"
  by (simp add: rrf_at_def update_conv')

lemma entry_or_rrf: "md_rrf fresh = 0 \<Longrightarrow> md_rrf (entry_or t r fresh) = rrf_at t (sr_doc_id r)"
  by (simp add: entry_or_def rrf_at_def split: option.splits)

lemma new_merged_simps [simp]:
  "md_doc_id (new_merged r) = sr_doc_id r" "md_rrf (new_merged r) = 0"
  "md_doc_id (new_merged_multi r) = sr_doc_id r" "md_rrf (new_merged_multi r) = 0"
  by (simp_all add: new_merged_def new_merged_multi_def Let_def)

lemma multi_chunk_simps [simp]:
  "md_doc_id (multi_chunk label r d) = md_doc_id d" "md_rrf (multi_chunk label r d) = md_rrf d"
  "md_decay (multi_chunk label r d) = md_decay d" "md_fts_rank (multi_chunk label r d) = md_fts_rank d"
  "md_sem_rank (multi_chunk label r d) = md_sem_rank d"
  by (simp_all add: multi_chunk_def Let_def)

interpretation fts: rank_stream "rk_rrf_k cfg" "rk_fts_weight cfg" "merge_fts_row cfg" for cfg
  by unfold_locales
    (simp_all add: merge_fts_row_def Let_def update_keys_add update_own entry_or_id rrf_at_update entry_or_rrf)

interpretation sem: rank_stream "rk_rrf_k cfg" "rk_semantic_weight cfg" "merge_semantic_row cfg" for cfg
  by unfold_locales
    (simp_all add: merge_semantic_row_def Let_def update_keys_add update_own entry_or_id rrf_at_update entry_or_rrf)

interpretation multi: rank_stream "rk_rrf_k cfg" weight "add_stream_row cfg weight label" for cfg weight label
  by unfold_locales
    (simp_all add: add_stream_row_def Let_def update_keys_add update_own entry_or_id rrf_at_update entry_or_rrf)

section \<open>The merged table\<close>

lemma own_ids_Nil [simp]: "own_ids []"
  by (simp add: own_ids_def)

lemma rrf_at_Nil [simp]: "rrf_at [] i = 0"
  by (simp add: rrf_at_def)

definition fused_share :: "rank_config \<Rightarrow> search_row list \<Rightarrow> search_row list \<Rightarrow> int \<Rightarrow> rat" where
  "fused_share cfg fts sem i = stream_share (rk_fts_weight cfg) (rk_rrf_k cfg) 1 fts i +
     stream_share (rk_semantic_weight cfg) (rk_rrf_k cfg) 1 sem i"

lemma merged_table_props:
  "own_ids (merged_table cfg fts sem)"
  "rrf_at (merged_table cfg fts sem) i = fused_share cfg fts sem i"
  "map fst (merged_table cfg fts sem) = fold (add_key \<circ> sr_doc_id) (fts @ sem) []"
  by (simp_all add: merged_table_def fts.stream_own sem.stream_own sem.stream_rrf fts.stream_rrf
      sem.stream_keys fts.stream_keys fused_share_def)

lemma merged_table_multi_props:
  "own_ids (merged_table_multi cfg fts sem [])"
  "rrf_at (merged_table_multi cfg fts sem []) i = fused_share cfg fts sem i"
  "map fst (merged_table_multi cfg fts sem []) = fold (add_key \<circ> sr_doc_id) (fts @ sem) []"
  by (simp_all add: merged_table_multi_def add_stream_def multi.stream_own multi.stream_rrf
      multi.stream_keys fused_share_def)

lemma add_keys_set: "set (fold (add_key \<circ> sr_doc_id) rows ks) = set ks \<union> sr_doc_id ` set rows"
  by (induction rows arbitrary: ks) (auto simp: add_key_def)

lemma score_merged_simps [simp]:
  "md_doc_id (score_merged_doc cfg d) = md_doc_id d" "md_rrf (score_merged_doc cfg d) = md_rrf d"
  "md_fts_rank (score_merged_doc cfg d) = md_fts_rank d" "md_fields (score_merged_doc cfg d) = md_fields d"
  "md_decay (score_merged_doc cfg d) = md_decay d"
  by (simp_all add: score_merged_doc_def Let_def)

lemma score_table_keys [simp]: "map fst (score_table cfg t) = map fst t"
  by (simp add: score_table_def comp_def case_prod_beta)

lemma score_table_own [simp]: "own_ids (score_table cfg t) \<longleftrightarrow> own_ids t"
  by (auto simp: own_ids_def score_table_def comp_def case_prod_beta)

lemma map_of_score_table: "map_of (score_table cfg t) i = map_option (score_merged_doc cfg) (map_of t i)"
  by (simp add: score_table_def map_of_map)

lemma rrf_at_score [simp]: "rrf_at (score_table cfg t) i = rrf_at t i"
  by (simp add: rrf_at_def map_of_score_table split: option.splits)

text \<open>A document of the table under its own id.\<close>

lemma own_map_of: "own_ids t \<Longrightarrow> d \<in> set (map snd t) \<Longrightarrow> map_of t (md_doc_id d) = Some d"
  by (force simp: own_ids_def)

lemma own_distinct: "own_ids t \<Longrightarrow> map md_doc_id (map snd t) = map fst t"
  by (auto simp: own_ids_def)

lemma applied_decay_unit: "0 \<le> applied_decay cfg d \<and> applied_decay cfg d \<le> 1"
  by (simp add: applied_decay_def clamp_unit_def Let_def)

section \<open>Ranks in the table\<close>

fun rank_in :: "nat \<Rightarrow> search_row list \<Rightarrow> int \<Rightarrow> nat option" where
  "rank_in n [] i = None"
| "rank_in n (r # rs) i = (if sr_doc_id r = i then Some n else rank_in (Suc n) rs i)"

lemma rank_in_None: "rank_in n rows i = None \<longleftrightarrow> i \<notin> sr_doc_id ` set rows"
  by (induction rows arbitrary: n) auto

lemma rank_in_le: "rank_in n rows i = Some x \<Longrightarrow> x \<le> n + q \<longleftrightarrow> i \<in> sr_doc_id ` set (take (Suc q) rows)"
proof (induction rows arbitrary: n q)
  case (Cons r rows)
  show ?case
  proof (cases "sr_doc_id r = i")
    case False
    then have x: "rank_in (Suc n) rows i = Some x" using Cons.prems by simp
    have gt: "rank_in m rows i = Some x \<Longrightarrow> m \<le> x" for m
      by (induction rows arbitrary: m) (fastforce split: if_splits)+
    show ?thesis
    proof (cases q)
      case 0
      then show ?thesis using gt[OF x] False by auto
    next
      case (Suc q')
      then show ?thesis using Cons.IH[OF x, of q'] False by (simp add: image_iff)
    qed
  qed (use Cons.prems in auto)
qed simp

definition fts_rank_at :: "merge_table \<Rightarrow> int \<Rightarrow> nat option" where
  "fts_rank_at t i = (case map_of t i of None \<Rightarrow> None | Some d \<Rightarrow> md_fts_rank d)"

lemma fts_rank_at_update: "fts_rank_at (AList.update i d t) j = (if i = j then md_fts_rank d else fts_rank_at t j)"
  by (simp add: fts_rank_at_def update_conv')

lemma new_merged_fts [simp]: "md_fts_rank (new_merged r) = None" "md_fts_rank (new_merged_multi r) = None"
  by (simp_all add: new_merged_def new_merged_multi_def Let_def)

lemma fts_ranks:
  "fts_rank_at (fold (merge_fts_row cfg) (enumerate n rows) t) i =
    (if i \<in> fst ` set t then fts_rank_at t i else rank_in n rows i)"
proof (induction rows arbitrary: n t)
  case Nil
  show ?case by (cases "i \<in> fst ` set t") (simp_all add: fts_rank_at_def flip: map_of_eq_None_iff)
next
  case (Cons r rows)
  have keys: "fst ` set (merge_fts_row cfg (n, r) t) = insert (sr_doc_id r) (fst ` set t)"
    using arg_cong[OF fts.step_keys[of cfg n r t], of set] by (auto simp: add_key_def split: if_splits)
  have head: "fts_rank_at (merge_fts_row cfg (n, r) t) i =
      (if i = sr_doc_id r \<and> i \<notin> fst ` set t then Some n else fts_rank_at t i)"
  proof (cases "map_of t (sr_doc_id r)")
    case None
    then have "sr_doc_id r \<notin> fst ` set t" by (simp add: map_of_eq_None_iff)
    then show ?thesis using None by (auto simp: merge_fts_row_def fts_rank_at_update entry_or_def)
  next
    case (Some d)
    then have "sr_doc_id r \<in> fst ` set t" by (metis map_of_eq_None_iff option.distinct(1))
    moreover have "fts_rank_at t (sr_doc_id r) = md_fts_rank d" by (simp add: fts_rank_at_def Some)
    ultimately show ?thesis using Some by (auto simp: merge_fts_row_def fts_rank_at_update entry_or_def)
  qed
  show ?case using Cons by (auto simp: keys head)
qed

lemma sem_keeps_fts_rank: "fts_rank_at (fold (merge_semantic_row cfg) (enumerate n rows) t) i = fts_rank_at t i"
proof (induction rows arbitrary: n t)
  case (Cons r rows)
  have "fts_rank_at (merge_semantic_row cfg (n, r) t) i = fts_rank_at t i"
  proof -
    have "md_fts_rank (entry_or t r ((new_merged r)\<lparr>md_sem_rank := Some n\<rparr>)) = fts_rank_at t (sr_doc_id r)"
      by (simp add: entry_or_def fts_rank_at_def split: option.splits)
    then show ?thesis by (simp add: merge_semantic_row_def Let_def fts_rank_at_update)
  qed
  then show ?case using Cons by simp
qed simp

lemma merged_fts_rank: "fts_rank_at (merged_table cfg fts sem) i = rank_in 1 fts i"
  by (simp add: merged_table_def sem_keeps_fts_rank fts_ranks)

lemma fts_rank_at_score [simp]: "fts_rank_at (score_table cfg t) i = fts_rank_at t i"
  by (simp add: fts_rank_at_def map_of_score_table split: option.splits)

section \<open>Reserved slots\<close>

lemma missing_fts_props:
  assumes "own_ids t" and K: "K = fst ` set t" and "set (map md_doc_id acc) = set seen" and "distinct (map md_doc_id acc)"
    and "set acc \<subseteq> set (map snd t)"
  shows "set (map md_doc_id (missing_fts t P rs seen acc)) =
      set seen \<union> {i \<in> sr_doc_id ` set rs. i \<in> K \<and> i \<notin> P} \<and>
    distinct (map md_doc_id (missing_fts t P rs seen acc)) \<and>
    set (missing_fts t P rs seen acc) \<subseteq> set (map snd t)"
  using assms(3-)
proof (induction rs arbitrary: seen acc)
  case (Cons r rs)
  show ?case
  proof (cases "map_of t (sr_doc_id r)")
    case None
    then have "sr_doc_id r \<notin> K" by (simp add: map_of_eq_None_iff K)
    then show ?thesis using Cons.IH[OF Cons.prems] None by auto
  next
    case (Some d)
    then have mem: "(sr_doc_id r, d) \<in> set t" by (rule map_of_SomeD)
    then have d: "md_doc_id d = sr_doc_id r" "d \<in> set (map snd t)" "sr_doc_id r \<in> K"
      using assms(1) unfolding K by (force simp: own_ids_def)+
    show ?thesis
    proof (cases "sr_doc_id r \<notin> P \<and> sr_doc_id r \<notin> set seen")
      case True
      have "set (map md_doc_id (acc @ [d])) = set (seen @ [sr_doc_id r])" "distinct (map md_doc_id (acc @ [d]))"
        "set (acc @ [d]) \<subseteq> set (map snd t)"
        using Cons.prems True d by auto
      from Cons.IH[OF this] show ?thesis using True Some d by auto
    next
      case False
      then show ?thesis using Cons.IH[OF Cons.prems] Some d by auto
    qed
  qed
qed simp

lemma fill_kept_props:
  "set kept \<subseteq> set (fill_kept n ds kept) \<and> set (fill_kept n ds kept) \<subseteq> set kept \<union> set ds \<and>
   length (fill_kept n ds kept) \<le> max (length kept) n \<and>
   (distinct kept \<longrightarrow> distinct (fill_kept n ds kept))"
proof (induction n ds kept rule: fill_kept.induct)
  case (2 n d ds kept)
  show ?case
  proof (cases "n \<le> length kept")
    case False
    then show ?thesis using 2[OF False] by (cases "d \<in> set kept") auto
  qed auto
qed auto

lemma by_final_props:
  "set (by_final ds) = set ds" "length (by_final ds) = length ds"
  "sorted_wrt (\<lambda>a b. md_final b \<le> md_final a) (by_final ds)"
  "distinct (map md_doc_id ds) \<Longrightarrow> distinct (map md_doc_id (by_final ds))"
proof -
  have "sorted (map (\<lambda>d. - md_final d) (by_final ds))" by (simp add: by_final_def)
  then show "sorted_wrt (\<lambda>a b. md_final b \<le> md_final a) (by_final ds)"
    unfolding sorted_map by (simp add: sorted_wrt_iff_nth_less)
qed (simp_all add: by_final_def distinct_map)

lemma set_map_card: "distinct (map f xs) \<Longrightarrow> card (f ` set xs) = length xs"
  by (metis distinct_card length_map set_map)

text \<open>The documents in the window and the reserved ones, for a table that knows the lexical ranks.\<close>

lemma reserved_slots:
  assumes own: "own_ids t" and rank: "\<And>i. fts_rank_at t i = rank_in 1 fts i"
    and present: "sr_doc_id ` set fts \<subseteq> fst ` set t" and "distinct (map sr_doc_id fts)" and "0 \<le> limit"
    and out: "out = reserve_top_fts_slots (by_final (map snd t)) fts t limit"
  shows "set out \<subseteq> set (map snd t) \<and> distinct (map md_doc_id out) \<and> int (length out) \<le> limit \<and>
    sorted_wrt (\<lambda>a b. md_final b \<le> md_final a) out \<and>
    sr_doc_id ` set (take (min 10 (nat limit)) fts) \<subseteq> md_doc_id ` set out"
proof -
  let ?top = "py_take limit (by_final (map snd t))"
  have ids: "distinct (map md_doc_id (map snd t))"
    unfolding own_distinct[OF own] using own by (simp add: own_ids_def)
  have top: "set ?top \<subseteq> set (map snd t)" "distinct (map md_doc_id ?top)" "int (length ?top) \<le> limit"
    "sorted_wrt (\<lambda>a b. md_final b \<le> md_final a) ?top"
    using py_take_subset[of limit "by_final (map snd t)"] length_py_take[OF assms(5), of "by_final (map snd t)"]
      by_final_props[of "map snd t"] ids
    by (auto simp: map_py_take distinct_py_take sorted_wrt_py_take)
  define q where "q = min 10 (min (length fts) (nat limit))"
  have take_q: "take (min 10 (nat limit)) fts = take q fts" by (auto simp: q_def min_def)
  define missing where "missing = missing_fts t (set (map md_doc_id ?top)) (take q fts) [] []"
  note mp = missing_fts_props[OF own refl, of "[]" "[]" "set (map md_doc_id ?top)" "take q fts", folded missing_def]
  have m: "md_doc_id ` set missing = sr_doc_id ` set (take q fts) - md_doc_id ` set ?top"
    "distinct (map md_doc_id missing)" "set missing \<subseteq> set (map snd t)"
  proof -
    have "sr_doc_id ` set (take q fts) \<subseteq> fst ` set t"
      using present set_take_subset[of q fts] by (meson image_mono order_trans)
    then show "md_doc_id ` set missing = sr_doc_id ` set (take q fts) - md_doc_id ` set ?top"
      "distinct (map md_doc_id missing)" "set missing \<subseteq> set (map snd t)"
      using mp by auto
  qed
  show ?thesis
  proof (cases "fts = [] \<or> limit \<le> 0 \<or> missing = []")
    case True
    then have "out = ?top" by (auto simp: out reserve_top_fts_slots_def Let_def missing_def q_def)
    moreover have "sr_doc_id ` set (take q fts) \<subseteq> md_doc_id ` set ?top"
      using True m(1) by (auto simp: q_def)
    ultimately show ?thesis using top by (simp add: take_q)
  next
    case False
    let ?kept = "filter (\<lambda>d. \<exists>x \<in> set_option (md_fts_rank d). x \<le> q) ?top"
    let ?fill = "fill_kept (nat limit - length missing) ?top ?kept"
    have out': "out = take (nat limit) (by_final (?fill @ missing))"
      using False by (auto simp: out reserve_top_fts_slots_def Let_def missing_def q_def)
    have q0: "q > 0" using False by (simp add: q_def)
    have in_top: "d \<in> set ?top \<Longrightarrow> fts_rank_at t (md_doc_id d) = md_fts_rank d" for d
    proof -
      assume "d \<in> set ?top"
      then have "map_of t (md_doc_id d) = Some d" using top(1) by (intro own_map_of[OF own]) blast
      then show ?thesis by (simp add: fts_rank_at_def)
    qed
    have kept_ids: "md_doc_id ` set ?kept = md_doc_id ` set ?top \<inter> sr_doc_id ` set (take q fts)"
    proof -
      have "(\<exists>x \<in> set_option (md_fts_rank d). x \<le> q) \<longleftrightarrow> md_doc_id d \<in> sr_doc_id ` set (take q fts)"
        if "d \<in> set ?top" for d
      proof (cases "rank_in 1 fts (md_doc_id d)")
        case None
        then have "md_fts_rank d = None" using in_top[OF that] rank by metis
        then show ?thesis using None by (auto simp: rank_in_None dest: in_set_takeD)
      next
        case (Some x)
        then have "md_fts_rank d = Some x" using in_top[OF that] rank by metis
        then show ?thesis using rank_in_le[OF Some, of "q - 1"] q0 by simp
      qed
      then show ?thesis by auto
    qed
    have d_kept: "distinct (map md_doc_id ?kept)" using top(2) by (rule distinct_map_filter)
    have "length ?kept + length missing = card (md_doc_id ` set ?kept \<union> md_doc_id ` set missing)"
      using set_map_card[OF d_kept] set_map_card[OF m(2)] kept_ids m(1)
      by (subst card_Un_disjoint) auto
    also have "\<dots> \<le> card (sr_doc_id ` set (take q fts))"
      by (rule card_mono) (use kept_ids m(1) in auto)
    also have "\<dots> \<le> q" using card_image_le[of "set (take q fts)" sr_doc_id] card_length[of "take q fts"] by simp
    finally have room: "length ?kept + length missing \<le> nat limit" by (simp add: q_def)
    have fp: "set ?kept \<subseteq> set ?fill" "set ?fill \<subseteq> set ?top" "length ?fill \<le> nat limit - length missing" "distinct ?fill"
      using fill_kept_props[of ?kept "nat limit - length missing" ?top] room top(2)
      by (auto simp: distinct_map)
    have all: "length (by_final (?fill @ missing)) \<le> nat limit"
      using fp(3) room by (simp add: by_final_props)
    then have out'': "out = by_final (?fill @ missing)" by (simp add: out')
    have sub: "set (?fill @ missing) \<subseteq> set (map snd t)" using fp(2) top(1) m(3) by auto
    have inj: "inj_on md_doc_id (set (map snd t))" using ids unfolding distinct_map by blast
    have "md_doc_id ` set ?fill \<inter> md_doc_id ` set missing = {}" using fp(2) m(1) by auto
    moreover have "distinct (map md_doc_id ?fill)"
      using fp(4) inj_on_subset[OF inj, of "set ?fill"] sub by (simp add: distinct_map)
    ultimately have "distinct (map md_doc_id (?fill @ missing))" using m(2) by auto
    moreover have "sr_doc_id ` set (take q fts) \<subseteq> md_doc_id ` set ?kept \<union> md_doc_id ` set missing"
      unfolding kept_ids m(1) by blast
    then have "sr_doc_id ` set (take q fts) \<subseteq> md_doc_id ` set (?fill @ missing)"
      using image_mono[OF fp(1), of md_doc_id] unfolding set_append image_Un by blast
    ultimately show ?thesis
      using sub all assms(5) by_final_props[of "?fill @ missing"]
      by (simp add: out'' take_q)
  qed
qed

lemma scored_table_keys:
  "fst ` set (score_table cfg (merged_table cfg fts sem)) = sr_doc_id ` set (fts @ sem)"
proof -
  have "fst ` set (score_table cfg (merged_table cfg fts sem)) = set (map fst (score_table cfg (merged_table cfg fts sem)))"
    by (rule set_map[symmetric])
  also have "\<dots> = sr_doc_id ` set (fts @ sem)"
    unfolding score_table_keys merged_table_props add_keys_set by simp
  finally show ?thesis .
qed

lemma merge_reserved:
  assumes "distinct (map sr_doc_id fts)" and "0 \<le> limit" and "out = rrf_merge cfg fts sem limit"
  shows "set out \<subseteq> set (map snd (score_table cfg (merged_table cfg fts sem))) \<and> distinct (map md_doc_id out) \<and>
    int (length out) \<le> limit \<and> sorted_wrt (\<lambda>a b. md_final b \<le> md_final a) out \<and>
    sr_doc_id ` set (take (min 10 (nat limit)) fts) \<subseteq> md_doc_id ` set out"
proof (rule reserved_slots[OF _ _ _ assms(1,2)])
  show "own_ids (score_table cfg (merged_table cfg fts sem))" by (simp add: merged_table_props)
  show "fts_rank_at (score_table cfg (merged_table cfg fts sem)) i = rank_in 1 fts i" for i
    by (simp add: merged_fts_rank)
  show "sr_doc_id ` set fts \<subseteq> fst ` set (score_table cfg (merged_table cfg fts sem))"
    unfolding scored_table_keys by auto
  show "out = reserve_top_fts_slots (by_final (map snd (score_table cfg (merged_table cfg fts sem)))) fts
      (score_table cfg (merged_table cfg fts sem)) limit"
    by (simp add: assms(3) rrf_merge_def Let_def)
qed

lemma table_doc_scores:
  assumes "d \<in> set (map snd (score_table cfg (merged_table cfg fts sem)))"
  shows "md_rrf d = fused_share cfg fts sem (md_doc_id d)"
    and "md_final d = md_rrf d * md_decay_applied d * (1 + md_salience_boost d)"
    and "md_decay_applied d = applied_decay cfg d"
    and "md_salience_boost d = (if is_correction cfg (md_fields d) then rk_salience_boost cfg else 0)"
    and "md_doc_id d \<in> sr_doc_id ` set (fts @ sem)"
proof -
  let ?t = "merged_table cfg fts sem"
  have own: "own_ids (score_table cfg ?t)" by (simp add: merged_table_props)
  have at: "map_of (score_table cfg ?t) (md_doc_id d) = Some d" by (rule own_map_of[OF own assms])
  then have "rrf_at (score_table cfg ?t) (md_doc_id d) = md_rrf d" by (simp add: rrf_at_def)
  then show "md_rrf d = fused_share cfg fts sem (md_doc_id d)" by (simp add: merged_table_props)
  obtain d0 where "d = score_merged_doc cfg d0" using at by (auto simp: map_of_score_table)
  then show "md_final d = md_rrf d * md_decay_applied d * (1 + md_salience_boost d)"
    and "md_decay_applied d = applied_decay cfg d"
    and "md_salience_boost d = (if is_correction cfg (md_fields d) then rk_salience_boost cfg else 0)"
    by (simp_all add: score_merged_doc_def Let_def applied_decay_def)
  show "md_doc_id d \<in> sr_doc_id ` set (fts @ sem)"
    using imageI[OF map_of_SomeD[OF at], of fst] unfolding scored_table_keys by simp
qed

text \<open>A document found by both searches, one found by each, and one correction.\<close>

definition sample_fts :: "search_row list" where
  "sample_fts =
    [\<lparr>sr_doc_id = 1, sr_decay = Some (1/2), sr_similarity = None, sr_fields = [(''path'', PStr ''a''), (''page_type'', PStr ''note'')]\<rparr>,
     \<lparr>sr_doc_id = 2, sr_decay = None, sr_similarity = None, sr_fields = [(''path'', PStr ''b''), (''page_type'', PStr ''Fix'')]\<rparr>]"

definition sample_sem :: "search_row list" where
  "sample_sem =
    [\<lparr>sr_doc_id = 1, sr_decay = Some (1/2), sr_similarity = Some (1/2), sr_fields = [(''path'', PStr ''a''), (''chunk_text'', PStr ''y'')]\<rparr>,
     \<lparr>sr_doc_id = 3, sr_decay = Some (1/2), sr_similarity = Some (4/5), sr_fields = [(''path'', PStr ''c''), (''chunk_text'', PStr ''x''), (''chunk_id'', PInt 7)]\<rparr>]"

text \<open>A fused result lists at most \<open>limit\<close> documents, each once and in falling order of final score, and every
  one of the best ten lexical hits (as many as fit) is in it, however strong the semantic competition.\<close>

theorem lexical_hits_reserved:
  assumes "distinct (map sr_doc_id fts)" and "0 \<le> limit"
  shows "int (length (rrf_merge cfg fts sem limit)) \<le> limit \<and> distinct (map md_doc_id (rrf_merge cfg fts sem limit)) \<and>
    sorted_wrt (\<lambda>a b. md_final b \<le> md_final a) (rrf_merge cfg fts sem limit) \<and>
    sr_doc_id ` set (take (min 10 (nat limit)) fts) \<subseteq> md_doc_id ` set (rrf_merge cfg fts sem limit) \<and>
    md_doc_id ` set (rrf_merge cfg fts sem limit) \<subseteq> sr_doc_id ` set (fts @ sem)"
proof -
  note r = merge_reserved[OF assms refl, of cfg sem]
  have "md_doc_id ` set (rrf_merge cfg fts sem limit) \<subseteq> sr_doc_id ` set (fts @ sem)"
    using r table_doc_scores(5)[of _ cfg fts sem] by blast
  then show ?thesis using r by blast
qed

lemma lexical_hits_reserved_witness:
  "sr_doc_id ` set (take (min 10 (nat 2)) sample_fts) \<subseteq> md_doc_id ` set (rrf_merge default_rank_config sample_fts sample_sem 2) \<and>
   map md_doc_id (rrf_merge default_rank_config sample_fts sample_sem 2) = [2, 1]"
proof
  show "map md_doc_id (rrf_merge default_rank_config sample_fts sample_sem 2) = [2, 1]" by code_simp
  show "sr_doc_id ` set (take (min 10 (nat 2)) sample_fts) \<subseteq> md_doc_id ` set (rrf_merge default_rank_config sample_fts sample_sem 2)"
    using lexical_hits_reserved[of sample_fts 2 default_rank_config sample_sem] by (simp add: sample_fts_def)
qed

section \<open>Order\<close>

lemma share_rank:
  "distinct (map sr_doc_id rows) \<Longrightarrow> stream_share w k n rows i = (case rank_in n rows i of None \<Rightarrow> 0 | Some x \<Rightarrow> rank_share w k x)"
proof (induction rows arbitrary: n)
  case (Cons r rows)
  have "stream_share w k n (r # rows) i = (if sr_doc_id r = i then rank_share w k n else 0) + stream_share w k (Suc n) rows i"
    by (simp add: stream_share_def)
  moreover have "sr_doc_id r = i \<Longrightarrow> rank_in (Suc n) rows i = None" using Cons.prems by (auto simp: rank_in_None)
  ultimately show ?case using Cons by auto
qed (simp add: stream_share_def)

definition dominates :: "search_row list \<Rightarrow> int \<Rightarrow> int \<Rightarrow> bool" where
  "dominates rows a b \<longleftrightarrow> (\<forall>x. rank_in 1 rows b = Some x \<longrightarrow> (\<exists>y \<le> x. rank_in 1 rows a = Some y))"

lemma rank_in_pos: "rank_in n rows i = Some x \<Longrightarrow> n \<le> x"
  by (induction rows arbitrary: n) (fastforce split: if_splits)+

lemma dominated_share:
  assumes "distinct (map sr_doc_id rows)" and "0 \<le> w" and "dominates rows a b"
  shows "stream_share w k 1 rows b \<le> stream_share w k 1 rows a"
proof (cases "rank_in 1 rows b")
  case None
  then show ?thesis using assms(1,2) by (auto simp: share_rank rank_share_def split: option.splits)
next
  case (Some x)
  then obtain y where y: "y \<le> x" "rank_in 1 rows a = Some y" using assms(3) by (auto simp: dominates_def)
  have "1 \<le> y" by (rule rank_in_pos[OF y(2)])
  then have "w / of_nat (k + x) \<le> w / of_nat (k + y)"
    using assms(2) y(1) by (intro divide_left_mono) (auto simp: mult_pos_pos)
  then show ?thesis using assms(1) Some y by (simp add: share_rank rank_share_def)
qed

text \<open>The score of a fused document is exactly its reciprocal-rank sum times the applied decay and salience, and
  the order respects the rankings: of two documents of the same class and decay, the one ranked at least as
  well in both streams never scores less.\<close>

theorem fusion_respects_ranks:
  assumes "a \<in> set (rrf_merge cfg fts sem limit)" and "b \<in> set (rrf_merge cfg fts sem limit)"
    and "distinct (map sr_doc_id fts)" and "distinct (map sr_doc_id sem)" and "0 \<le> limit"
    and "0 \<le> rk_fts_weight cfg" and "0 \<le> rk_semantic_weight cfg" and "0 \<le> rk_salience_boost cfg"
    and "dominates fts (md_doc_id a) (md_doc_id b)" and "dominates sem (md_doc_id a) (md_doc_id b)"
    and "is_correction cfg (md_fields a) = is_correction cfg (md_fields b)" and "md_decay a = md_decay b"
  shows "md_final b \<le> md_final a \<and> md_final a = fused_share cfg fts sem (md_doc_id a) * applied_decay cfg a *
    (1 + (if is_correction cfg (md_fields a) then rk_salience_boost cfg else 0)) \<and>
    fused_share cfg fts sem (md_doc_id a) =
      (case rank_in 1 fts (md_doc_id a) of None \<Rightarrow> 0 | Some x \<Rightarrow> rk_fts_weight cfg / of_nat (rk_rrf_k cfg + x)) +
      (case rank_in 1 sem (md_doc_id a) of None \<Rightarrow> 0 | Some x \<Rightarrow> rk_semantic_weight cfg / of_nat (rk_rrf_k cfg + x))"
proof -
  have mem: "a \<in> set (map snd (score_table cfg (merged_table cfg fts sem)))"
    "b \<in> set (map snd (score_table cfg (merged_table cfg fts sem)))"
    using merge_reserved[OF assms(3,5) refl, of cfg sem] assms(1,2) by auto
  note a = table_doc_scores[OF mem(1)] and b = table_doc_scores[OF mem(2)]
  have "fused_share cfg fts sem (md_doc_id b) \<le> fused_share cfg fts sem (md_doc_id a)"
    unfolding fused_share_def by (intro add_mono dominated_share assms)
  then have "md_rrf b \<le> md_rrf a" by (simp only: a(1) b(1))
  moreover have same: "md_decay_applied b = md_decay_applied a" "md_salience_boost b = md_salience_boost a"
    using assms(11,12) by (simp_all add: a b applied_decay_def)
  moreover have "0 \<le> md_decay_applied a" "0 \<le> 1 + md_salience_boost a"
    using applied_decay_unit[of cfg a] assms(8) by (simp_all add: a)
  ultimately have "md_final b \<le> md_final a" unfolding a(2) b(2) same by (intro mult_right_mono) auto
  moreover have "fused_share cfg fts sem (md_doc_id a) =
      (case rank_in 1 fts (md_doc_id a) of None \<Rightarrow> 0 | Some x \<Rightarrow> rk_fts_weight cfg / of_nat (rk_rrf_k cfg + x)) +
      (case rank_in 1 sem (md_doc_id a) of None \<Rightarrow> 0 | Some x \<Rightarrow> rk_semantic_weight cfg / of_nat (rk_rrf_k cfg + x))"
    unfolding fused_share_def share_rank[OF assms(3)] share_rank[OF assms(4)] rank_share_def ..
  moreover have "md_final a = fused_share cfg fts sem (md_doc_id a) * applied_decay cfg a *
      (1 + (if is_correction cfg (md_fields a) then rk_salience_boost cfg else 0))"
    unfolding a(2) a(1) a(3) a(4) ..
  ultimately show ?thesis by blast
qed

lemma fusion_respects_ranks_witness:
  "md_final (rrf_merge default_rank_config sample_fts sample_sem 3 ! 2) \<le>
     md_final (rrf_merge default_rank_config sample_fts sample_sem 3 ! 1)"
proof -
  let ?out = "rrf_merge default_rank_config sample_fts sample_sem 3"
  have len: "length ?out = 3" by code_simp
  have dom: "dominates sample_fts (md_doc_id (?out ! 1)) (md_doc_id (?out ! 2))"
    "dominates sample_sem (md_doc_id (?out ! 1)) (md_doc_id (?out ! 2))"
  proof -
    have ids: "md_doc_id (?out ! 1) = 1" "md_doc_id (?out ! 2) = 3" by code_simp+
    show "dominates sample_fts (md_doc_id (?out ! 1)) (md_doc_id (?out ! 2))"
      "dominates sample_sem (md_doc_id (?out ! 1)) (md_doc_id (?out ! 2))"
      unfolding ids by (simp_all add: dominates_def sample_fts_def sample_sem_def)
  qed
  have same: "is_correction default_rank_config (md_fields (?out ! 1)) = is_correction default_rank_config (md_fields (?out ! 2))"
    "md_decay (?out ! 1) = md_decay (?out ! 2)" by code_simp+
  have mem: "?out ! 1 \<in> set ?out" "?out ! 2 \<in> set ?out" using len by simp_all
  show ?thesis
    by (rule fusion_respects_ranks[where fts = sample_fts and sem = sample_sem and limit = 3 and cfg = default_rank_config,
          THEN conjunct1])
      (rule dom same mem | simp add: sample_fts_def sample_sem_def default_rank_config_def)+
qed

end
