(* ===== verification/Merge_Agreement.thy ===== *)
theory Merge_Agreement
  imports Rank_Order
begin

text \<open>
  The two merge routines agree: without extra streams \<open>_rrf_merge_multi\<close> ranks as \<open>_rrf_merge\<close> does.  The
  comparison is up to the payload of a document; the part of an entry that decides about its rank is
  its \<open>core\<close>.
\<close>

definition core :: "merged_doc \<Rightarrow> int \<times> rat \<times> rat option \<times> nat option \<times> nat option \<times> pyval" where
  "core d = (md_doc_id d, md_rrf d, md_decay d, md_fts_rank d, md_sem_rank d, dget (md_fields d) ''page_type'')"

definition cores :: "merge_table \<Rightarrow> (int \<times> int \<times> rat \<times> rat option \<times> nat option \<times> nat option \<times> pyval) list" where
  "cores t = map (\<lambda>(k, d). (k, core d)) t"

definition strip_payload :: "merged_doc \<Rightarrow> merged_doc" where
  "strip_payload d = d\<lparr>md_fields := [], md_similarity := None, md_decay := None, md_sem_chunk := False,
     md_rerank := None, md_raw_rerank := None\<rparr>"

section \<open>Steps\<close>

lemma dget_delete: "dget (AList.delete k d) k' = (if k = k' then PNone else dget d k')"
  by (simp add: dget_def delete_conv')

lemma page_type_take_chunk [simp]:
  "dget (take_chunk r f) ''page_type'' = dget f ''page_type''"
  "dget (semantic_chunk r f) ''page_type'' = dget f ''page_type''"
  by (simp_all add: take_chunk_def semantic_chunk_def Let_def dget_delete)

lemma page_type_fill [simp]:
  "dget (fill_fields r f) ''page_type'' =
    (if \<not> truthy (dget f ''page_type'') \<and> truthy (dget (sr_fields r) ''page_type'')
     then dget (sr_fields r) ''page_type'' else dget f ''page_type'')"
  by (simp add: fill_fields_def fill_field_def)

lemma page_type_multi_chunk [simp]:
  "dget (md_fields (multi_chunk label r d)) ''page_type'' = dget (md_fields d) ''page_type''"
  by (simp add: multi_chunk_def Let_def)

lemma dget_append_miss: "dget (f @ [(k, v)]) k' = (if k = k' \<and> map_of f k' = None then v else dget f k')"
  by (simp add: dget_def map_add_def split: option.splits)

lemma core_new_merged:
  "core (new_merged r) = (sr_doc_id r, 0, sr_decay r, None, None, dget (sr_fields r) ''page_type'')"
  "core (new_merged_multi r) = (sr_doc_id r, 0, sr_decay r, None, None, dget (sr_fields r) ''page_type'')"
  by (simp_all add: core_def new_merged_def new_merged_multi_def copied_fields_def Let_def dget_append_miss)

lemma cores_update: "cores (AList.update i d t) = AList.update i (core d) (cores t)"
  by (induction t) (auto simp: cores_def)

text \<open>One step on the core of an entry.\<close>

definition core_step ::
  "rat \<Rightarrow> nat option \<Rightarrow> nat option \<Rightarrow> pyval \<Rightarrow> int \<times> rat \<times> rat option \<times> nat option \<times> nat option \<times> pyval \<Rightarrow>
   int \<times> rat \<times> rat option \<times> nat option \<times> nat option \<times> pyval" where
  "core_step share fr sr rp c = (case c of (i, x, dec, f, s, p) \<Rightarrow>
     (i, x + share, dec, if fr = None then f else fr, if s = None then sr else s,
      if \<not> truthy p \<and> truthy rp then rp else p))"

lemma core_semantic:
  "core (d\<lparr>md_rrf := md_rrf d + share, md_sem_rank := (if md_sem_rank d = None then Some n else md_sem_rank d),
      md_similarity := sim, md_fields := fill_fields r (semantic_chunk r (md_fields d))\<rparr>) =
    core_step share None (Some n) (dget (sr_fields r) ''page_type'') (core d)"
  by (auto simp: core_def core_step_def)

lemma core_stream:
  assumes "d1 = d\<lparr>md_rrf := md_rrf d + share, md_fts_rank := (if label = FtsStream then Some n else md_fts_rank d),
      md_sem_rank := (if label = SemStream \<and> md_sem_rank d = None then Some n else md_sem_rank d)\<rparr>"
  shows "core ((multi_chunk label r d1)\<lparr>md_fields := fill_fields r (md_fields (multi_chunk label r d1))\<rparr>) =
    core_step share (if label = FtsStream then Some n else None) (if label = SemStream then Some n else None)
      (dget (sr_fields r) ''page_type'') (core d)"
  by (cases label) (auto simp: core_def core_step_def assms)

lemma cores_semantic_row:
  "cores (merge_semantic_row cfg (n, r) t) = AList.update (sr_doc_id r)
    (core_step (rank_share (rk_semantic_weight cfg) (rk_rrf_k cfg) n) None (Some n) (dget (sr_fields r) ''page_type'')
      (core (entry_or t r ((new_merged r)\<lparr>md_sem_rank := Some n\<rparr>)))) (cores t)"
  by (simp only: merge_semantic_row_def Let_def prod.case cores_update core_semantic)

lemma cores_stream_row:
  "cores (add_stream_row cfg w label (n, r) t) = AList.update (sr_doc_id r)
    (core_step (rank_share w (rk_rrf_k cfg) n) (if label = FtsStream then Some n else None)
      (if label = SemStream then Some n else None) (dget (sr_fields r) ''page_type'')
      (core (entry_or t r (new_merged_multi r)))) (cores t)"
  by (simp only: add_stream_row_def Let_def prod.case cores_update core_stream[OF refl])

lemma map_of_cores: "map_of (cores t) i = map_option core (map_of t i)"
  by (induction t) (auto simp: cores_def)

lemma cores_keys: "cores t = cores t' \<Longrightarrow> map_of t i = None \<longleftrightarrow> map_of t' i = None"
  by (metis map_of_cores option.map_disc_iff)

lemma semantic_step_agrees:
  assumes "cores t = cores t'"
  shows "cores (merge_semantic_row cfg (n, r) t) = cores (add_stream_row cfg (rk_semantic_weight cfg) SemStream (n, r) t')"
proof (cases "map_of t (sr_doc_id r)")
  case None
  then have none: "map_of t' (sr_doc_id r) = None" using cores_keys[OF assms] by blast
  have "core ((new_merged r)\<lparr>md_sem_rank := Some n\<rparr>) =
      (sr_doc_id r, 0, sr_decay r, None, Some n, dget (sr_fields r) ''page_type'')"
    using core_new_merged(1)[of r] by (simp add: core_def)
  then show ?thesis
    using None none core_new_merged(2)[of r]
    by (simp add: cores_semantic_row cores_stream_row entry_or_def assms core_step_def)
next
  case (Some d)
  then obtain d' where d': "map_of t' (sr_doc_id r) = Some d'"
    using cores_keys[OF assms, of "sr_doc_id r"] by (cases "map_of t' (sr_doc_id r)") auto
  have "core d = core d'"
    using map_of_cores[of t "sr_doc_id r"] map_of_cores[of t' "sr_doc_id r"] assms Some d' by simp
  then show ?thesis
    using Some d' by (simp add: cores_semantic_row cores_stream_row entry_or_def assms)
qed

lemma fts_step_agrees:
  assumes "cores t = cores t'" and "sr_doc_id r \<notin> fst ` set t"
  shows "cores (merge_fts_row cfg (n, r) t) = cores (add_stream_row cfg (rk_fts_weight cfg) FtsStream (n, r) t')"
proof -
  have none: "map_of t (sr_doc_id r) = None" "map_of t' (sr_doc_id r) = None"
    using assms cores_keys[OF assms(1)] by (simp_all add: map_of_eq_None_iff)
  let ?d = "(new_merged r)\<lparr>md_fts_rank := Some n\<rparr>" and ?s = "rank_share (rk_fts_weight cfg) (rk_rrf_k cfg) n"
  have "core (?d\<lparr>md_rrf := md_rrf ?d + ?s\<rparr>) =
      (sr_doc_id r, ?s, sr_decay r, Some n, None, dget (sr_fields r) ''page_type'')"
    using core_new_merged(1)[of r] by (simp add: core_def)
  then have "cores (merge_fts_row cfg (n, r) t) = AList.update (sr_doc_id r)
      (sr_doc_id r, ?s, sr_decay r, Some n, None, dget (sr_fields r) ''page_type'') (cores t)"
    by (simp only: merge_fts_row_def Let_def prod.case cores_update entry_or_def none option.case)
  then show ?thesis
    using none core_new_merged(2)[of r]
    by (simp add: cores_stream_row entry_or_def assms core_step_def)
qed

lemma semantic_stream_agrees:
  "cores t = cores t' \<Longrightarrow> cores (fold (merge_semantic_row cfg) (enumerate n rows) t) =
    cores (fold (add_stream_row cfg (rk_semantic_weight cfg) SemStream) (enumerate n rows) t')"
proof (induction rows arbitrary: n t t')
  case (Cons r rows)
  from Cons.IH[OF semantic_step_agrees[OF Cons.prems]] show ?case by simp
qed simp

lemma fts_stream_agrees:
  "cores t = cores t' \<Longrightarrow> distinct (map sr_doc_id rows) \<Longrightarrow> sr_doc_id ` set rows \<inter> fst ` set t = {} \<Longrightarrow>
    cores (fold (merge_fts_row cfg) (enumerate n rows) t) =
    cores (fold (add_stream_row cfg (rk_fts_weight cfg) FtsStream) (enumerate n rows) t')"
proof (induction rows arbitrary: n t t')
  case (Cons r rows)
  have "fst ` set (merge_fts_row cfg (n, r) t) = insert (sr_doc_id r) (fst ` set t)"
    using arg_cong[OF fts.step_keys[of cfg n r t], of set] by (auto simp: add_key_def split: if_splits)
  then have "sr_doc_id ` set rows \<inter> fst ` set (merge_fts_row cfg (n, r) t) = {}"
    using Cons.prems by auto
  moreover have "cores (merge_fts_row cfg (n, r) t) = cores (add_stream_row cfg (rk_fts_weight cfg) FtsStream (n, r) t')"
    by (rule fts_step_agrees[OF Cons.prems(1)]) (use Cons.prems(3) in auto)
  ultimately show ?case using Cons.IH[of "merge_fts_row cfg (n, r) t"] Cons.prems(2) by simp
qed simp

lemma tables_agree:
  assumes "distinct (map sr_doc_id fts)"
  shows "cores (merged_table cfg fts sem) = cores (merged_table_multi cfg fts sem [])"
proof -
  have "cores (fold (merge_fts_row cfg) (enumerate 1 fts) []) =
      cores (fold (add_stream_row cfg (rk_fts_weight cfg) FtsStream) (enumerate 1 fts) [])"
    by (rule fts_stream_agrees[OF refl assms]) simp
  then show ?thesis
    unfolding merged_table_def merged_table_multi_def add_stream_def
    by (simp add: semantic_stream_agrees)
qed

section \<open>Selection sees only what decides\<close>

lemma strip_simps [simp]:
  "md_doc_id (strip_payload d) = md_doc_id d" "md_fts_rank (strip_payload d) = md_fts_rank d"
  "md_final (strip_payload d) = md_final d"
  by (simp_all add: strip_payload_def)

definition stripped :: "merge_table \<Rightarrow> merge_table" where
  "stripped t = map (\<lambda>(k, d). (k, strip_payload d)) t"

lemma map_of_stripped: "map_of (stripped t) i = map_option strip_payload (map_of t i)"
  by (induction t) (auto simp: stripped_def)

lemma docs_stripped: "map snd (stripped t) = map strip_payload (map snd t)"
  by (induction t) (auto simp: stripped_def)

lemma map_insort_key: "map h (insort_key (\<lambda>a. f (h a)) x xs) = insort_key f (h x) (map h xs)"
  by (induction xs) auto

lemma map_sort_key: "map h (sort_key (\<lambda>a. f (h a)) xs) = sort_key f (map h xs)"
  unfolding sort_key_def by (induction xs) (simp_all add: map_insort_key)

lemma strip_by_final: "map strip_payload (by_final ds) = by_final (map strip_payload ds)"
  using map_sort_key[of strip_payload "\<lambda>d. - md_final d" ds] by (simp add: by_final_def comp_def)

lemma strip_missing:
  "map strip_payload (missing_fts t P rs seen acc) = missing_fts (stripped t) P rs seen (map strip_payload acc)"
proof (induction t P rs seen acc rule: missing_fts.induct)
  case (2 t P r rs seen acc)
  then show ?case by (auto simp: map_of_stripped split: option.splits)
qed simp

lemma strip_fill:
  "inj_on strip_payload (set ds \<union> set kept) \<Longrightarrow>
    map strip_payload (fill_kept n ds kept) = fill_kept n (map strip_payload ds) (map strip_payload kept)"
proof (induction n ds kept rule: fill_kept.induct)
  case (2 n d ds kept)
  have mem: "strip_payload d \<in> strip_payload ` set kept \<longleftrightarrow> d \<in> set kept"
    using 2(2) by (auto simp: inj_on_def)
  have "inj_on strip_payload (set ds \<union> set (if d \<in> set kept then kept else kept @ [d]))"
    by (rule inj_on_subset[OF 2(2)]) auto
  then show ?case using 2(1) mem by auto
qed simp

lemma strip_reserve:
  assumes "own_ids t" and "0 \<le> limit"
  shows "map strip_payload (reserve_top_fts_slots (by_final (map snd t)) fts t limit) =
    reserve_top_fts_slots (by_final (map snd (stripped t))) fts (stripped t) limit"
proof -
  let ?T = "stripped t" and ?r = "by_final (map snd t)"
  have ranked: "by_final (map snd ?T) = map strip_payload ?r"
    by (simp only: strip_by_final docs_stripped)
  have top: "py_take limit (map strip_payload ?r) = map strip_payload (py_take limit ?r)"
    by (simp add: map_py_take)
  have "distinct (map md_doc_id (map snd t))"
    unfolding own_distinct[OF assms(1)] using assms(1) by (simp add: own_ids_def)
  then have "inj_on strip_payload (set (map snd t))"
    unfolding distinct_map inj_on_def by (metis strip_simps(1))
  then have inj: "inj_on strip_payload (set (py_take limit ?r))"
    using py_take_subset[of limit ?r] by (auto simp: by_final_props intro: inj_on_subset)
  define quota where "quota = min 10 (min (length fts) (nat limit))"
  define P where "P = set (map md_doc_id (py_take limit ?r))"
  have P': "set (map md_doc_id (map strip_payload (py_take limit ?r))) = P" by (simp add: P_def comp_def)
  define kept where "kept = filter (\<lambda>d. \<exists>q \<in> set_option (md_fts_rank d). q \<le> quota) (py_take limit ?r)"
  have kept': "filter (\<lambda>d. \<exists>q \<in> set_option (md_fts_rank d). q \<le> quota) (map strip_payload (py_take limit ?r)) = map strip_payload kept"
    by (simp add: kept_def filter_map comp_def)
  define missing where "missing = missing_fts t P (take quota fts) [] []"
  have missing': "missing_fts ?T P (take quota fts) [] [] = map strip_payload missing"
    using strip_missing[of t P "take quota fts" "[]" "[]"] by (simp add: missing_def)
  have fill: "map strip_payload (fill_kept n (py_take limit ?r) kept) =
      fill_kept n (map strip_payload (py_take limit ?r)) (map strip_payload kept)" for n
    by (rule strip_fill, rule inj_on_subset[OF inj]) (auto simp: kept_def)
  show ?thesis
    unfolding ranked reserve_top_fts_slots_def Let_def top
    unfolding quota_def[symmetric] P' P_def[symmetric] missing' missing_def[symmetric] kept' kept_def[symmetric]
    by (simp add: take_map[symmetric] strip_by_final fill)
qed

lemma map_agree:
  assumes "map f xs = map f ys" and "\<And>x y. f x = f y \<Longrightarrow> g x = g' y"
  shows "map g xs = map g' ys"
  by (rule nth_equalityI) (use assms in \<open>auto dest: map_eq_imp_length_eq simp: list_eq_iff_nth_eq\<close>)

text \<open>Without extra streams the general merge ranks exactly as the two-stream merge: the same documents in the
  same order, with the same ranks, scores, decay and salience.\<close>

theorem merges_agree:
  assumes "distinct (map sr_doc_id fts)" and "0 \<le> limit"
  shows "map strip_payload (rrf_merge_multi cfg fts sem [] limit) = map strip_payload (rrf_merge cfg fts sem limit)"
proof -
  let ?m = "\<lambda>(k, d). (k, d\<lparr>md_sem_chunk := False\<rparr>)"
  let ?t = "score_table cfg (merged_table cfg fts sem)"
  let ?u = "score_table cfg (map ?m (merged_table_multi cfg fts sem []))"
  have "stripped ?t = stripped ?u"
    unfolding score_table_def stripped_def map_map
  proof (rule map_agree[OF tables_agree[OF assms(1), unfolded cores_def]])
    fix x y :: "int \<times> merged_doc"
    assume "(\<lambda>(k, d). (k, core d)) x = (\<lambda>(k, d). (k, core d)) y"
    then show "((\<lambda>(k, d). (k, strip_payload d)) \<circ> (\<lambda>(k, d). (k, score_merged_doc cfg d))) x =
        ((\<lambda>(k, d). (k, strip_payload d)) \<circ> ((\<lambda>(k, d). (k, score_merged_doc cfg d)) \<circ> ?m)) y"
      by (cases x; cases y)
        (auto simp: core_def strip_payload_def score_merged_doc_def applied_decay_def is_correction_def Let_def)
  qed
  moreover have "own_ids ?t" by (simp add: merged_table_props)
  moreover have "own_ids ?u"
    using merged_table_multi_props(1)[of cfg fts sem]
    by (auto simp: own_ids_def score_table_def comp_def case_prod_beta)
  ultimately show ?thesis
    using strip_reserve[OF _ assms(2), of ?t fts] strip_reserve[OF _ assms(2), of ?u fts]
    by (simp only: rrf_merge_def rrf_merge_multi_def Let_def)
qed

lemma merges_agree_witness:
  "map strip_payload (rrf_merge_multi default_rank_config sample_fts sample_sem [] 2) =
     map strip_payload (rrf_merge default_rank_config sample_fts sample_sem 2)"
  by (rule merges_agree) (simp_all add: sample_fts_def)

end
