(* ===== verification/Rerank_Equivalence.thy ===== *)
theory Rerank_Equivalence
  imports Rank_Order
begin

text \<open>
  What re-ranking guarantees: the score cache changes the cost and never the answer; the score adjustments
  keep the order of candidates of one class and one decay; and where they do not keep it.
\<close>

section \<open>A cache that tells the truth\<close>

text \<open>
  The model under verification scores a pair of texts, \<open>score model version (query, passage)\<close>.  \<open>T\<close> is the set of
  texts in play, on which the digest \<open>H\<close> is assumed to have no collision.
\<close>

type_synonym scorer = "string \<Rightarrow> string \<Rightarrow> string \<times> string \<Rightarrow> rat"

definition in_play :: "string set \<Rightarrow> rc_input \<Rightarrow> bool" where
  "in_play T i \<longleftrightarrow> in_query i \<in> T \<and> in_passage i \<in> T"

definition true_score :: "scorer \<Rightarrow> rc_input \<Rightarrow> rat" where
  "true_score score i = score (or_unknown (in_model i)) (or_unknown (in_version i)) (in_query i, in_passage i)"

definition coherent :: "(string \<Rightarrow> string) \<Rightarrow> string set \<Rightarrow> scorer \<Rightarrow> rerank_cache \<Rightarrow> bool" where
  "coherent H T score c \<longleftrightarrow> rc_wf c \<and>
    (\<forall>i v. in_play T i \<longrightarrow> (rc_key_of H i, v) \<in> set (rc_scores c) \<longrightarrow> v = Fin (true_score score i))"

text \<open>A call that stores nothing but true scores.\<close>

definition honest :: "string set \<Rightarrow> scorer \<Rightarrow> rc_op \<Rightarrow> bool" where
  "honest T score op \<longleftrightarrow> (case op of RSet i v _ \<Rightarrow> in_play T i \<and> v = Fin (true_score score i) | _ \<Rightarrow> True)"

lemma same_key_same_score:
  assumes "inj_on H T" and "in_play T i" and "in_play T j" and "rc_key_of H i = rc_key_of H j"
  shows "true_score score i = true_score score j"
proof -
  have "in_query i = in_query j" "in_passage i = in_passage j"
    using assms by (auto simp: rc_key_of_def in_play_def intro: inj_onD[OF assms(1)])
  then show ?thesis using assms(4) by (simp add: rc_key_of_def true_score_def)
qed

lemma od_pop_subset: "set (od_pop k d) \<subseteq> set d"
  by (induction d) auto

lemma fold_od_pop_subset: "set (fold od_pop ks d) \<subseteq> set d"
proof (induction ks arbitrary: d)
  case (Cons k ks)
  show ?case using Cons[of "od_pop k d"] od_pop_subset[of k d] by simp
qed simp

lemma od_move_subset: "set (od_move_to_end k d) \<subseteq> set d"
proof (cases "map_of d k")
  case (Some v)
  then show ?thesis
    using od_pop_subset[of k d] by (auto simp: od_move_to_end_def od_set_pop dest: map_of_SomeD)
qed (simp add: od_move_to_end_def)

lemma coherent_subset:
  "coherent H T score c \<Longrightarrow> rc_wf c' \<Longrightarrow> set (rc_scores c') \<subseteq> set (rc_scores c) \<Longrightarrow> coherent H T score c'"
  by (auto simp: coherent_def)

lemma rc_get_keeps: "rc_wf c \<Longrightarrow> rc_wf (fst (rc_get H i c))"
  "set (rc_scores (fst (rc_get H i c))) \<subseteq> set (rc_scores c)"
  by (simp_all add: rc_wf_def rc_get_scores distinct_od_move_to_end od_move_subset)

lemma coherent_set:
  assumes "inj_on H T" and "coherent H T score c" and "in_play T i" and "v = Fin (true_score score i)"
  shows "coherent H T score (rc_set H i v eg c)"
proof (cases "eg = None \<or> eg = Some (rc_generation c)")
  case True
  let ?s = "od_pop (rc_key_of H i) (rc_scores c) @ [(rc_key_of H i, v)]"
  have wf: "rc_wf c" using assms(2) by (simp add: coherent_def)
  have scores: "rc_scores (rc_set H i v eg c) = drop (length ?s - nat (rc_capacity c)) ?s"
    "rc_capacity (rc_set H i v eg c) = rc_capacity c"
    by (simp_all add: rc_set_scores[OF wf True] Let_def)
  have "rc_wf (rc_set H i v eg c)"
    using wf unfolding rc_wf_def scores drop_map[symmetric] by (intro conjI distinct_drop) (simp_all add: od_pop_keys)
  moreover have "set (rc_scores (rc_set H i v eg c)) \<subseteq> insert (rc_key_of H i, v) (set (rc_scores c))"
    unfolding scores by (rule order_trans[OF set_drop_subset]) (use od_pop_subset[of "rc_key_of H i" "rc_scores c"] in \<open>simp, blast\<close>)
  moreover have "w = Fin (true_score score j)" if "in_play T j" "(rc_key_of H j, w) \<in> insert (rc_key_of H i, v) (set (rc_scores c))" for j w
  proof (cases "(rc_key_of H j, w) \<in> set (rc_scores c)")
    case True
    then show ?thesis using assms(2) that(1) unfolding coherent_def by blast
  next
    case False
    then have "rc_key_of H j = rc_key_of H i" "w = v" using that(2) by auto
    then show ?thesis using same_key_same_score[OF assms(1) that(1) assms(3)] assms(4) by simp
  qed
  ultimately show ?thesis unfolding coherent_def by blast
next
  case False
  then show ?thesis using assms(2) by (simp add: rc_set_def)
qed

lemma coherent_step:
  assumes "inj_on H T" and "coherent H T score c" and "honest T score op"
  shows "coherent H T score (rc_step H op c)"
proof (cases op)
  case (RGet i)
  moreover have "rc_wf c" using assms(2) by (simp add: coherent_def)
  ultimately show ?thesis using coherent_subset[OF assms(2) rc_get_keeps] by simp
next
  case (RSet i v eg)
  then show ?thesis using coherent_set[OF assms(1,2)] assms(3) by (simp add: honest_def)
next
  case (RInvalidate cids)
  have "rc_wf (fst (rc_invalidate_chunks cids c))"
    using assms(2) rc_invalidate_keys[of cids c]
    by (simp add: coherent_def rc_wf_def) (simp add: rc_invalidate_chunks_def Let_def)
  moreover have "set (rc_scores (fst (rc_invalidate_chunks cids c))) \<subseteq> set (rc_scores c)"
    by (simp add: rc_invalidate_chunks_def Let_def fold_od_pop_subset)
  ultimately show ?thesis using coherent_subset[OF assms(2)] RInvalidate by simp
next
  case RClear
  then show ?thesis using assms(2) by (simp add: coherent_def rc_clear_def rc_wf_def)
qed

lemma coherent_run:
  "inj_on H T \<Longrightarrow> coherent H T score c \<Longrightarrow> (\<And>op. op \<in> set ops \<Longrightarrow> honest T score op) \<Longrightarrow> coherent H T score (rc_run H ops c)"
  unfolding rc_run_def by (induction ops arbitrary: c) (auto intro: coherent_step)

section \<open>Re-ranking with and without the cache\<close>

definition pair_of :: "rerank_call \<Rightarrow> merged_doc \<Rightarrow> string \<times> string" where
  "pair_of call d = (rr_query call, rerank_passage (md_fields d))"

definition call_score :: "scorer \<Rightarrow> rerank_call \<Rightarrow> string \<times> string \<Rightarrow> rat" where
  "call_score score call = score (or_unknown (rr_model call)) (or_unknown (rr_version call))"

text \<open>The reference: every candidate is scored by the model, and no cache is involved.\<close>

definition rerank_uncached :: "scorer \<Rightarrow> rank_config \<Rightarrow> rerank_call \<Rightarrow> merged_doc list \<Rightarrow> merged_doc list" where
  "rerank_uncached score cfg call ds =
    (if ds = [] then ds else with_scores cfg ds (map (\<lambda>d. Some (call_score score call (pair_of call d))) ds))"

definition call_in_play :: "string set \<Rightarrow> rerank_call \<Rightarrow> merged_doc list \<Rightarrow> bool" where
  "call_in_play T call ds \<longleftrightarrow> rr_query call \<in> T \<and> (\<forall>d \<in> set ds. rerank_passage (md_fields d) \<in> T)"

lemma cache_input_play:
  "call_in_play T call ds \<Longrightarrow> d \<in> set ds \<Longrightarrow> in_play T (cache_input call i (md_fields d))"
  "true_score score (cache_input call i (md_fields d)) = call_score score call (pair_of call d)"
  by (simp_all add: call_in_play_def in_play_def cache_input_def true_score_def call_score_def pair_of_def)

lemma lookup_true:
  assumes "coherent H T score c" and "call_in_play T call ds" and "lookup_scores H call ds c = (known, c')"
  shows "coherent H T score c' \<and>
    list_all2 (\<lambda>d k. k = None \<or> k = Some (call_score score call (pair_of call d))) ds known"
  using assms
proof (induction ds arbitrary: c known c')
  case (Cons d ds)
  have play: "call_in_play T call ds" using Cons.prems(2) by (simp add: call_in_play_def)
  show ?case
  proof (cases "chunk_of d")
    case None
    then show ?thesis using Cons.IH[OF Cons.prems(1) play] Cons.prems(3) by (auto split: prod.splits)
  next
    case (Some i)
    let ?i = "cache_input call i (md_fields d)"
    obtain c1 hit where get: "rc_get H ?i c = (c1, hit)" by (cases "rc_get H ?i c")
    obtain rest c2 where rest: "lookup_scores H call ds c1 = (rest, c2)" by (cases "lookup_scores H call ds c1")
    have known: "known = map_option finite_of hit # rest" "c' = c2"
      using Cons.prems(3) Some get rest by auto
    have "coherent H T score (fst (rc_get H ?i c))"
      by (rule coherent_subset[OF Cons.prems(1) rc_get_keeps]) (use Cons.prems(1) in \<open>simp add: coherent_def\<close>)
    then have c1: "coherent H T score c1" by (simp add: get)
    have "hit = map_of (rc_scores c) (rc_key_of H ?i)"
      using get by (auto simp: rc_get_def Let_def split: option.splits)
    then have "hit = None \<or> hit = Some (Fin (call_score score call (pair_of call d)))"
    proof (cases hit)
      case (Some v)
      then have "(rc_key_of H ?i, v) \<in> set (rc_scores c)"
        using \<open>hit = map_of (rc_scores c) (rc_key_of H ?i)\<close> by (metis map_of_SomeD)
      moreover have "in_play T ?i" using Cons.prems(2) by (simp add: cache_input_play)
      ultimately have "v = Fin (true_score score ?i)" using Cons.prems(1) unfolding coherent_def by blast
      then show ?thesis by (simp add: Some cache_input_play(2))
    qed simp
    then show ?thesis using Cons.IH[OF c1 play rest] by (auto simp: known)
  qed
qed simp

lemma fill_true:
  "list_all2 (\<lambda>d k. k = None \<or> k = Some (f d)) ds known \<Longrightarrow>
    fill_scores known (map f (misses ds known)) = map (\<lambda>d. Some (f d)) ds"
  by (induction ds known rule: list_all2_induct) (auto simp: misses_def)

lemma misses_none: "length known = length ds \<Longrightarrow> misses ds known = [] \<Longrightarrow> fill_scores known [] = known"
proof (induction known arbitrary: ds)
  case (Cons k known)
  then show ?case by (cases ds; cases k) (auto simp: misses_def)
qed simp

lemma misses_subset: "set (misses ds known) \<subseteq> set ds"
  by (auto simp: misses_def dest: set_zip_leftD)

lemma store_true:
  assumes "inj_on H T" and "coherent H T score c" and "call_in_play T call ds" and "set ms \<subseteq> set ds"
  shows "coherent H T score (store_scores H call g (zip ms (map (\<lambda>d. call_score score call (pair_of call d)) ms)) c)"
  using assms(2,4)
proof (induction ms arbitrary: c)
  case (Cons d ms)
  let ?v = "call_score score call (pair_of call d)"
  have "coherent H T score (rc_set H (cache_input call i (md_fields d)) (Fin ?v) (Some g) c)" for i
    by (rule coherent_set[OF assms(1) Cons.prems(1)])
      (use Cons.prems(2) assms(3) in \<open>simp_all add: cache_input_play\<close>)
  then show ?case using Cons by (auto split: option.splits)
qed simp

text \<open>C37: The score cache never changes an answer.  Whatever the cache holds, as long as it is true, and
  whatever other threads store, look up or invalidate while the model runs, re-ranking returns exactly what
  scoring every candidate anew returns, and leaves a true cache; when the model is unavailable it still
  does so if the cache knows every candidate, and otherwise hands the candidates back as they came.
\<close>

theorem cached_rerank_is_uncached:
  assumes "inj_on H T" and "coherent H T score c" and "call_in_play T call ds"
    and "\<And>op. op \<in> set ops \<Longrightarrow> honest T score op"
    and "predict = (\<lambda>pairs. if up then Some (map (call_score score call) pairs) else None)"
  shows "fst (rerank H cfg predict (rc_run H ops) call ds c) =
      (if up \<or> misses ds (fst (lookup_scores H call ds c)) = [] then rerank_uncached score cfg call ds else ds) \<and>
    coherent H T score (snd (rerank H cfg predict (rc_run H ops) call ds c))"
proof -
  obtain known c1 where look: "lookup_scores H call ds c = (known, c1)" by (cases "lookup_scores H call ds c")
  let ?f = "\<lambda>d. call_score score call (pair_of call d)"
  note lt = lookup_true[OF assms(2,3) look]
  have full: "fill_scores known (map ?f (misses ds known)) = map (\<lambda>d. Some (?f d)) ds"
    by (rule fill_true) (use lt in blast)
  have len: "length known = length ds" using lt by (metis list_all2_lengthD)
  have after: "coherent H T score (rc_run H ops c1)"
    by (rule coherent_run[OF assms(1) _ assms(4)]) (use lt in blast)
  have store: "coherent H T score (store_scores H call g (zip (misses ds known) (map ?f (misses ds known))) (rc_run H ops c1))" for g
    by (rule store_true[OF assms(1) after assms(3) misses_subset])
  have pairs: "map (call_score score call) (map (\<lambda>d. (rr_query call, rerank_passage (md_fields d))) (misses ds known)) =
      map ?f (misses ds known)" by (simp add: pair_of_def)
  consider "ds = []" | "ds \<noteq> []" "misses ds known = []" | "ds \<noteq> []" "misses ds known \<noteq> []" by blast
  then show ?thesis
  proof cases
    case 1
    then show ?thesis using assms(2) by (simp add: rerank_def rerank_uncached_def)
  next
    case 2
    then show ?thesis using full misses_none[OF len 2(2)] lt by (simp add: rerank_def rerank_uncached_def look)
  next
    case 3
    then show ?thesis
      using full after store pairs unfolding rerank_def rerank_uncached_def look assms(5) Let_def fst_conv
      by (simp del: map_map)
  qed
qed

text \<open>One candidate the cache knows, one it does not, while another thread drops a third chunk.\<close>

definition sample_call :: rerank_call where
  "sample_call = \<lparr>rr_model = ''m'', rr_version = [], rr_query = ''q'', rr_corpus = []\<rparr>"

definition sample_candidates :: "merged_doc list" where
  "sample_candidates = map (\<lambda>(i, text). (new_merged \<lparr>sr_doc_id = i, sr_decay = None, sr_similarity = None, sr_fields = []\<rparr>)
     \<lparr>md_fields := [(''chunk_id'', PInt i), (''chunk_text'', PStr text)]\<rparr>) [(1, ''a''), (2, ''bb'')]"

definition sample_score :: scorer where
  "sample_score m v p = of_nat (length (snd p))"

definition warm_cache :: rerank_cache where
  "warm_cache = (rc_new 4)\<lparr>rc_scores := [((''m'', ''unknown'', ''q'', 1, [], ''a''), Fin 1)]\<rparr>"

theorem cached_rerank_is_uncached_witness:
  "map md_doc_id (fst (rerank id default_rank_config (\<lambda>pairs. Some (map (call_score sample_score sample_call) pairs))
      (rc_run id [RInvalidate [Some 3]]) sample_call sample_candidates warm_cache)) = [2, 1]"
proof -
  have "coherent id UNIV sample_score warm_cache"
    by (auto simp: coherent_def warm_cache_def rc_wf_def rc_new_def rc_key_of_def true_score_def sample_score_def)
  moreover have "call_in_play UNIV sample_call sample_candidates" by (simp add: call_in_play_def)
  moreover have "op \<in> set [RInvalidate [Some 3]] \<Longrightarrow> honest UNIV sample_score op" for op by (simp add: honest_def)
  ultimately have "fst (rerank id default_rank_config (\<lambda>pairs. Some (map (call_score sample_score sample_call) pairs))
      (rc_run id [RInvalidate [Some 3]]) sample_call sample_candidates warm_cache) =
      rerank_uncached sample_score default_rank_config sample_call sample_candidates"
    using cached_rerank_is_uncached[of id UNIV sample_score warm_cache sample_call sample_candidates "[RInvalidate [Some 3]]" _ True]
    by simp
  moreover have "map md_doc_id (rerank_uncached sample_score default_rank_config sample_call sample_candidates) = [2, 1]"
    by code_simp
  ultimately show ?thesis by simp
qed

section \<open>The score adjustments\<close>

lemma adjusted_score:
  "rerank_score (decay_attenuated cfg (correction_boosted cfg d)) =
    (let b = (if rk_salience_boost cfg > 0 \<and> is_correction cfg (md_fields d) then rk_salience_boost cfg else 0);
         s = rerank_score d;
         s' = (if b = 0 then s else if s > 0 then s * (1 + b) else if s < 0 then s / (1 + b) else b);
         x = applied_decay cfg d
     in if x = 1 then s' else if s' > 0 then s' * x else if s' < 0 then (if x > 0 then s' / x else s' * 2) else x - 1)"
  by (simp add: decay_attenuated_def correction_boosted_def applied_decay_def rerank_score_def Let_def)

definition adjusted :: "rank_config \<Rightarrow> merged_doc \<Rightarrow> rat" where
  "adjusted cfg d = rerank_score (decay_attenuated cfg (correction_boosted cfg d))"

definition boost_of :: "rank_config \<Rightarrow> merged_doc \<Rightarrow> rat" where
  "boost_of cfg d = (if rk_salience_boost cfg > 0 \<and> is_correction cfg (md_fields d) then rk_salience_boost cfg else 0)"

lemma boost_of_nonneg: "0 \<le> boost_of cfg d"
  by (simp add: boost_of_def)

lemma adjusted_nonzero:
  assumes "rerank_score d \<noteq> 0"
  shows "adjusted cfg d = (if rerank_score d > 0 then rerank_score d * ((1 + boost_of cfg d) * applied_decay cfg d)
    else rerank_score d * (if applied_decay cfg d > 0 then 1 / ((1 + boost_of cfg d) * applied_decay cfg d)
                           else 2 / (1 + boost_of cfg d)))"
proof -
  have b: "0 \<le> boost_of cfg d" "0 < 1 + boost_of cfg d" using boost_of_nonneg[of cfg d] by simp_all
  have x: "0 \<le> applied_decay cfg d" using applied_decay_unit by blast
  show ?thesis
  proof (cases "rerank_score d > 0")
    case True
    then have "0 < rerank_score d * (1 + boost_of cfg d)" using b by simp
    then show ?thesis
      using True by (simp add: adjusted_def adjusted_score Let_def flip: boost_of_def) 
  next
    case False
    then have "rerank_score d < 0" using assms by simp
    moreover from this have "rerank_score d / (1 + boost_of cfg d) < 0" using b by (simp add: divide_neg_pos)
    ultimately show ?thesis
      using b x by (auto simp: adjusted_def adjusted_score Let_def simp flip: boost_of_def)
  qed
qed

lemma adjusted_raw: "rerank_score (decay_attenuated cfg (correction_boosted cfg (d\<lparr>md_raw_rerank := x\<rparr>))) = adjusted cfg d"
  unfolding adjusted_def adjusted_score by (simp add: rerank_score_def applied_decay_def)

lemma adjustments_nth:
  "i < length ds \<Longrightarrow> rerank_score (apply_rerank_score_adjustments cfg ds ! i) = adjusted cfg (ds ! i)"
  by (simp add: apply_rerank_score_adjustments_def adjusted_raw)

lemma scaled_mono:
  fixes p q :: rat
  assumes "0 \<le> p" and "0 \<le> q" and "x \<le> y"
  shows "(if x > 0 then x * p else x * q) \<le> (if y > 0 then y * p else y * q)"
proof (cases "x > 0 \<or> y \<le> 0")
  case True
  then show ?thesis using assms by (auto intro: mult_right_mono)
next
  case False
  then have "x * q \<le> 0" "0 \<le> y * p" using assms by (auto simp: mult_nonpos_nonneg)
  then show ?thesis using False by simp
qed

text \<open>The salience and decay adjustments keep the cross-encoder's order: of two candidates of one class and one
  decay, with scores other than zero, the one the model put first is still not behind.\<close>

theorem adjustments_keep_order:
  assumes "i < length ds" and "j < length ds"
    and "rerank_score (ds ! i) \<le> rerank_score (ds ! j)" and "rerank_score (ds ! i) \<noteq> 0" and "rerank_score (ds ! j) \<noteq> 0"
    and "is_correction cfg (md_fields (ds ! i)) = is_correction cfg (md_fields (ds ! j))"
    and "md_decay (ds ! i) = md_decay (ds ! j)"
  shows "rerank_score (apply_rerank_score_adjustments cfg ds ! i) \<le> rerank_score (apply_rerank_score_adjustments cfg ds ! j)"
proof -
  have same: "boost_of cfg (ds ! i) = boost_of cfg (ds ! j)" "applied_decay cfg (ds ! i) = applied_decay cfg (ds ! j)"
    using assms(6,7) by (simp_all add: boost_of_def applied_decay_def)
  have "0 \<le> applied_decay cfg (ds ! j)" "0 \<le> 1 + boost_of cfg (ds ! j)"
    using applied_decay_unit boost_of_nonneg[of cfg "ds ! j"] by simp_all
  then show ?thesis
    unfolding adjustments_nth[OF assms(1)] adjustments_nth[OF assms(2)] adjusted_nonzero[OF assms(4)]
      adjusted_nonzero[OF assms(5)] same
    by (intro scaled_mono assms(3)) auto
qed

definition scored_doc :: "rat option \<Rightarrow> string \<Rightarrow> rat \<Rightarrow> merged_doc" where
  "scored_doc decay page_type score =
    (new_merged \<lparr>sr_doc_id = 1, sr_decay = decay, sr_similarity = None, sr_fields = [(''page_type'', PStr page_type)]\<rparr>)
      \<lparr>md_rerank := Some score\<rparr>"

lemma adjustments_keep_order_witness:
  "rerank_score (apply_rerank_score_adjustments default_rank_config
      [scored_doc (Some (1/4)) ''fix'' (-2), scored_doc (Some (1/4)) ''Decision'' 3] ! 0) \<le>
   rerank_score (apply_rerank_score_adjustments default_rank_config
      [scored_doc (Some (1/4)) ''fix'' (-2), scored_doc (Some (1/4)) ''Decision'' 3] ! 1)"
proof -
  have "is_correction default_rank_config (md_fields (scored_doc (Some (1/4)) ''fix'' (-2)))"
    "is_correction default_rank_config (md_fields (scored_doc (Some (1/4)) ''Decision'' 3))" by code_simp+
  then show ?thesis by (intro adjustments_keep_order) (simp_all add: scored_doc_def rerank_score_def new_merged_def)
qed

lemma scored_doc_adjusted:
  "map rerank_score (apply_rerank_score_adjustments cfg ds) = map (adjusted cfg) ds"
  by (simp add: apply_rerank_score_adjustments_def adjusted_raw)

lemma scored_doc_class:
  "is_correction default_rank_config (md_fields (scored_doc x ''fix'' s))"
  "\<not> is_correction default_rank_config (md_fields (scored_doc x ''note'' s))"
proof -
  have "is_correction default_rank_config (md_fields (scored_doc None ''fix'' 0))"
    "\<not> is_correction default_rank_config (md_fields (scored_doc None ''note'' 0))" by code_simp+
  then show "is_correction default_rank_config (md_fields (scored_doc x ''fix'' s))"
    "\<not> is_correction default_rank_config (md_fields (scored_doc x ''note'' s))"
    by (simp_all add: scored_doc_def new_merged_def copied_fields_def)
qed

lemma scored_doc_simps:
  "rerank_score (scored_doc x p s) = s" "md_decay (scored_doc x p s) = x"
  by (simp_all add: scored_doc_def new_merged_def rerank_score_def)

lemma default_rank_simps: "rk_salience_boost default_rank_config = 1/4" "rk_decay_floor default_rank_config = 1/2"
  by (simp_all add: default_rank_config_def)

lemmas adjusted_scored = adjusted_def adjusted_score applied_decay_def clamp_unit_def scored_doc_class
  scored_doc_simps default_rank_simps Let_def

text \<open>At a score of zero the adjustments break the order.  Of two corrections the one scored 0 passes the one scored
  1/10; of two memories of decay 1/2 the one scored 0 falls behind the one scored -1/10; and of two memories
  scored -1 the wholly decayed one passes the one of decay 1/10.\<close>

theorem zero_scores_jump:
  "map rerank_score (apply_rerank_score_adjustments default_rank_config
      [scored_doc None ''fix'' 0, scored_doc None ''fix'' (1/10)]) = [1/4, 1/8] \<and>
   map rerank_score (apply_rerank_score_adjustments default_rank_config
      [scored_doc (Some (1/2)) ''note'' 0, scored_doc (Some (1/2)) ''note'' (-1/10)]) = [-1/2, -1/5] \<and>
   map rerank_score (apply_rerank_score_adjustments default_rank_config
      [scored_doc (Some 0) ''note'' (-1), scored_doc (Some (1/10)) ''note'' (-1)]) = [-2, -10]"
proof -
  have "adjusted default_rank_config (scored_doc None ''fix'' 0) = 1/4"
    "adjusted default_rank_config (scored_doc None ''fix'' (1/10)) = 1/8"
    "adjusted default_rank_config (scored_doc (Some (1/2)) ''note'' 0) = -1/2"
    "adjusted default_rank_config (scored_doc (Some (1/2)) ''note'' (-1/10)) = -1/5"
    "adjusted default_rank_config (scored_doc (Some 0) ''note'' (-1)) = -2"
    "adjusted default_rank_config (scored_doc (Some (1/10)) ''note'' (-1)) = -10"
    unfolding adjusted_scored by (simp_all add: scored_doc_class)
  then show ?thesis unfolding scored_doc_adjusted list.map by blast
qed

section \<open>Similarity is lost in the general merge\<close>

definition no_similarity :: "merge_table \<Rightarrow> bool" where
  "no_similarity t \<longleftrightarrow> (\<forall>(k, d) \<in> set t. md_similarity d = None)"

lemma update_no_similarity: "no_similarity t \<Longrightarrow> md_similarity d = None \<Longrightarrow> no_similarity (AList.update i d t)"
  unfolding no_similarity_def by (induction t) auto

lemma multi_chunk_similarity [simp]: "md_similarity (multi_chunk label r d) = md_similarity d"
  by (simp add: multi_chunk_def Let_def)

lemma stream_row_no_similarity:
  assumes "no_similarity t"
  shows "no_similarity (add_stream_row cfg w label (n, r) t)"
proof -
  have "md_similarity (entry_or t r (new_merged_multi r)) = None"
  proof (cases "map_of t (sr_doc_id r)")
    case (Some d)
    then have "(sr_doc_id r, d) \<in> set t" by (rule map_of_SomeD)
    then show ?thesis using assms by (auto simp: entry_or_def Some no_similarity_def)
  qed (simp add: entry_or_def new_merged_multi_def new_merged_def Let_def)
  then show ?thesis
    unfolding add_stream_row_def Let_def prod.case
    by (intro update_no_similarity[OF assms]) simp
qed

lemma stream_no_similarity: "no_similarity t \<Longrightarrow> no_similarity (add_stream cfg w label rows t)"
proof -
  have "no_similarity t \<Longrightarrow> no_similarity (fold (add_stream_row cfg w label) (enumerate n rows) t)" for n
    by (induction rows arbitrary: n t) (simp_all add: stream_row_no_similarity)
  then show "no_similarity t \<Longrightarrow> no_similarity (add_stream cfg w label rows t)" by (simp add: add_stream_def)
qed

lemma merged_multi_no_similarity: "no_similarity (merged_table_multi cfg fts sem extras)"
proof -
  have "no_similarity t \<Longrightarrow> no_similarity (fold (add_stream cfg w label) ss t)" for ss w label t
    by (induction ss arbitrary: t) (simp_all add: stream_no_similarity)
  moreover have "no_similarity []" by (simp add: no_similarity_def)
  ultimately show ?thesis by (simp add: merged_table_multi_def stream_no_similarity)
qed

text \<open>Whatever is reserved or dropped, a ranked document is one of the table.\<close>

lemma reserve_subset:
  "set (reserve_top_fts_slots (by_final (map snd t)) fts t limit) \<subseteq> set (map snd t)"
proof -
  have missing: "set (missing_fts t P rs seen acc) \<subseteq> set acc \<union> set (map snd t)" for P rs seen acc
  proof (induction t P rs seen acc rule: missing_fts.induct)
    case (2 t P r rs seen acc)
    show ?case
    proof (cases "map_of t (sr_doc_id r)")
      case (Some d)
      then have "d \<in> set (map snd t)" using imageI[OF map_of_SomeD[OF Some], of snd] by simp
      then show ?thesis using 2(2)[OF Some] 2(3)[OF Some] Some
        by (cases "sr_doc_id r \<notin> P \<and> sr_doc_id r \<notin> set seen") auto
    qed (use 2(1) in simp)
  qed simp
  have window: "set (py_take limit (by_final (map snd t))) \<subseteq> set (map snd t)"
    using py_take_subset[of limit "by_final (map snd t)"] by (simp add: by_final_props)
  have "set (fill_kept n (py_take limit (by_final (map snd t))) (filter P (py_take limit (by_final (map snd t))))) \<subseteq> set (map snd t)" for n P
    using window fill_kept_props[of "filter P (py_take limit (by_final (map snd t)))" n "py_take limit (by_final (map snd t))"]
    by auto
  note fill = this
  have cut: "set (take n (by_final (xs @ ys))) \<subseteq> set (map snd t)"
    if "set xs \<subseteq> set (map snd t)" "set ys \<subseteq> set (map snd t)" for n xs ys
    by (rule order_trans[OF set_take_subset]) (use that in \<open>simp add: by_final_props\<close>)
  have none: "set (missing_fts t P rs [] []) \<subseteq> set (map snd t)" for P rs
    using missing[of P rs "[]" "[]"] by simp
  show ?thesis
    unfolding reserve_top_fts_slots_def Let_def using window cut[OF fill none] by (simp only: split: if_split) simp
qed

definition lone_hit :: "search_row list" where
  "lone_hit = [\<lparr>sr_doc_id = 1, sr_decay = None, sr_similarity = Some (9/10), sr_fields = [(''chunk_text'', PStr ''x'')]\<rparr>]"

definition model_scored :: "rat \<Rightarrow> merged_doc list \<Rightarrow> merged_doc list" where
  "model_scored x ds = map (\<lambda>d. d\<lparr>md_raw_rerank := Some x\<rparr>) ds"

text \<open>The general merge forgets the similarity of every document, so the floor after re-ranking, which is to
  spare a semantic hit of raw score between -4 and -1 when its similarity is at least 0.35, drops it after this
  merge when there was no lexical hit, and spares it after the two-stream merge.
\<close>

theorem multi_merge_forgets_similarity:
  "md_similarity ` set (rrf_merge_multi cfg fts sem extras limit) \<subseteq> {None} \<and>
   post_rerank_floor default_rank_config (model_scored (-2) (rrf_merge_multi default_rank_config [] lone_hit [] 5)) [] 5 = [] \<and>
   map md_doc_id (post_rerank_floor default_rank_config (model_scored (-2) (rrf_merge default_rank_config [] lone_hit 5)) [] 5) = [1]"
proof (intro conjI)
  let ?t = "score_table cfg (map (\<lambda>(k, d). (k, d\<lparr>md_sem_chunk := False\<rparr>)) (merged_table_multi cfg fts sem extras))"
  have "no_similarity ?t"
    using merged_multi_no_similarity[of cfg fts sem extras]
    by (fastforce simp: no_similarity_def score_table_def score_merged_doc_def Let_def)
  then have "md_similarity ` set (map snd ?t) \<subseteq> {None}" by (auto simp: no_similarity_def)
  then show "md_similarity ` set (rrf_merge_multi cfg fts sem extras limit) \<subseteq> {None}"
    unfolding rrf_merge_multi_def Let_def by (rule order_trans[OF image_mono[OF reserve_subset]])
  have "map (\<lambda>d. (md_doc_id d, md_fts_rank d, md_similarity d)) (rrf_merge_multi default_rank_config [] lone_hit [] 5) = [(1, None, None)]"
    by code_simp
  then obtain d where "rrf_merge_multi default_rank_config [] lone_hit [] 5 = [d]" "md_fts_rank d = None" "md_similarity d = None"
    by auto
  then show "post_rerank_floor default_rank_config (model_scored (-2) (rrf_merge_multi default_rank_config [] lone_hit [] 5)) [] 5 = []"
    by (simp add: post_rerank_floor_def model_scored_def floor_drops_def py_take_def)
  have "map (\<lambda>d. (md_doc_id d, md_similarity d)) (rrf_merge default_rank_config [] lone_hit 5) = [(1, Some (9/10))]"
    by code_simp
  then obtain e where "rrf_merge default_rank_config [] lone_hit 5 = [e]" "md_doc_id e = 1" "md_similarity e = Some (9/10)"
    by auto
  then show "map md_doc_id (post_rerank_floor default_rank_config (model_scored (-2) (rrf_merge default_rank_config [] lone_hit 5)) [] 5) = [1]"
    by (simp add: post_rerank_floor_def model_scored_def floor_drops_def default_rank_config_def py_take_def)
qed

end
