(* ===== verification/Afm_Chunking.thy ===== *)
theory Afm_Chunking
  imports Py_Words
begin

text \<open>
  Calling a model operation on a text larger than its context (\<open>afm_chunking.py\<close>).

  The token counter (\<open>tiktoken\<close>) is the parameter \<open>count\<close>.  One call of the model for a fixed operation and time
  limit is \<open>native\<close>, from the payload and the state \<open>'w\<close> of the world to a result and the new state; it does not
  raise.  \<open>budget\<close> is the resolved token budget.  Logging is left out.
\<close>

section \<open>Splitting a text\<close>

definition MIN_CHUNK_TOKENS :: int where "MIN_CHUNK_TOKENS = 200"
definition DEFAULT_CHUNK_TOKENS :: int where "DEFAULT_CHUNK_TOKENS = 2400"
definition DEFAULT_OVERLAP_TOKENS :: int where "DEFAULT_OVERLAP_TOKENS = 300"
definition SENTENCE_SNAP_LOOKAHEAD_WORDS :: nat where "SENTENCE_SNAP_LOOKAHEAD_WORDS = 20"

definition estimate_native_payload_tokens :: "(string \<Rightarrow> nat) \<Rightarrow> pydict \<Rightarrow> int" where
  "estimate_native_payload_tokens count payload = int (count (json_raw (PDict payload)))"

text \<open>\<open>_SENTENCE_END.search\<close>: where the first blank behind a full stop, an exclamation or a question mark begins.\<close>

fun sentence_end_from :: "nat \<Rightarrow> string \<Rightarrow> nat option" where
  "sentence_end_from i (a # b # s) =
    (if a \<in> set ''.!?'' \<and> py_isspace b then Some (Suc i) else sentence_end_from (Suc i) (b # s))"
| "sentence_end_from i _ = None"

definition snap_words :: "string list \<Rightarrow> string list" where
  "snap_words lookahead_words = (let lookahead_text = py_join '' '' lookahead_words in
     case sentence_end_from 0 lookahead_text of
       None \<Rightarrow> []
     | Some start \<Rightarrow> py_split (take (start + 1) lookahead_text))"

text \<open>The loop of \<open>split_text\<close> from the word \<open>start\<close> on.\<close>

definition window_at :: "string list \<Rightarrow> int \<Rightarrow> int \<Rightarrow> string list \<times> int" where
  "window_at words chunk_tokens start =
    (let n = int (length words); e = min (start + chunk_tokens) n;
         extra = (if e < n then snap_words (py_slice e (e + int SENTENCE_SNAP_LOOKAHEAD_WORDS) words) else [])
     in (py_slice start e words @ extra, e + int (length extra)))"

function split_windows :: "string list \<Rightarrow> int \<Rightarrow> int \<Rightarrow> int \<Rightarrow> string list" where
  "split_windows words chunk_tokens overlap_tokens start =
    (if start < int (length words) then
       let (window_words, e) = window_at words chunk_tokens start;
           chunk_text = py_join '' '' window_words;
           here = (if py_strip chunk_text \<noteq> [] then [chunk_text] else [])
       in if int (length words) \<le> e then here
          else here @ split_windows words chunk_tokens overlap_tokens (start + max (chunk_tokens - overlap_tokens) 1)
     else [])"
  by pat_completeness auto
termination
  by (relation "measure (\<lambda>(words, _, _, start). nat (int (length words) - start))") auto

declare split_windows.simps [simp del]

definition split_text :: "(string \<Rightarrow> nat) \<Rightarrow> string \<Rightarrow> int \<Rightarrow> int \<Rightarrow> string list" where
  "split_text count text chunk_tokens overlap_tokens =
    (if py_strip text = [] then [text]
     else if int (count text) \<le> chunk_tokens then [text]
     else let words = py_split text in
       if words = [] then [text]
       else let chunks = split_windows words chunk_tokens overlap_tokens 0
         in if chunks = [] then [text] else chunks)"

section \<open>Packing a list\<close>

fun pack_groups :: "int \<Rightarrow> ('a \<Rightarrow> int) \<Rightarrow> 'a list \<Rightarrow> 'a list \<Rightarrow> int \<Rightarrow> 'a list list" where
  "pack_groups budget cost [] current current_tokens = (if current = [] then [] else [current])"
| "pack_groups budget cost (item # items) current current_tokens =
    (if current \<noteq> [] \<and> current_tokens + cost item > budget
     then current # pack_groups budget cost items [item] (cost item)
     else pack_groups budget cost items (current @ [item]) (current_tokens + cost item))"

definition split_list_by_token_budget :: "(string \<Rightarrow> nat) \<Rightarrow> 'a list \<Rightarrow> int \<Rightarrow> ('a \<Rightarrow> string) \<Rightarrow> 'a list list" where
  "split_list_by_token_budget count items budget_tokens serialize =
    (let groups = pack_groups budget_tokens (\<lambda>item. int (count (serialize item))) items [] 0
     in if groups = [] then [[]] else groups)"

section \<open>Calls\<close>

record native_result =
  nr_ok :: bool
  nr_data :: pyval

type_synonym 'w native = "pydict \<Rightarrow> 'w \<Rightarrow> native_result \<times> 'w"

definition classify_error_kind :: "native_result \<Rightarrow> string" where
  "classify_error_kind r =
    py_lower (py_strip (py_str (py_or (dget (dict_of_val (nr_data r)) ''error_kind'') (PStr []))))"

definition overflowed :: "native_result \<Rightarrow> bool" where
  "overflowed r \<longleftrightarrow> \<not> nr_ok r \<and> classify_error_kind r = ''context_overflow''"

definition effective_overlap_tokens :: "int \<Rightarrow> int \<Rightarrow> int" where
  "effective_overlap_tokens chunk_tokens overlap_tokens = max (min overlap_tokens (chunk_tokens div 4)) 0"

definition text_of_payload :: "pydict \<Rightarrow> string \<Rightarrow> string" where
  "text_of_payload payload field = py_str (py_or (dget payload field) (PStr []))"

text \<open>\<open>_chunk_and_call\<close> and its loop over the pieces; a smaller chunk never goes below the floor.\<close>

definition smaller_chunk :: "int \<Rightarrow> int" where
  "smaller_chunk chunk_tokens = max (chunk_tokens div 2) MIN_CHUNK_TOKENS"

lemma smaller_chunk_less: "MIN_CHUNK_TOKENS < c \<Longrightarrow> smaller_chunk c < c \<and> 0 < c"
  by (auto simp: smaller_chunk_def MIN_CHUNK_TOKENS_def)

function (sequential) chunk_and_call ::
    "(string \<Rightarrow> nat) \<Rightarrow> 'w native \<Rightarrow> string \<Rightarrow> pydict \<Rightarrow> int \<Rightarrow> int \<Rightarrow> 'w \<Rightarrow> native_result list \<times> 'w"
and call_pieces ::
  "(string \<Rightarrow> nat) \<Rightarrow> 'w native \<Rightarrow> string \<Rightarrow> pydict \<Rightarrow> int \<Rightarrow> int \<Rightarrow> string list \<Rightarrow> 'w \<Rightarrow> native_result list \<times> 'w"
where
  "chunk_and_call count native field payload chunk_tokens overlap_tokens w =
    (let text = text_of_payload payload field in
     if py_strip text = [] \<or> chunk_tokens < MIN_CHUNK_TOKENS then
       let (r, w1) = native payload w in ([r], w1)
     else let pieces = split_text count text chunk_tokens (effective_overlap_tokens chunk_tokens overlap_tokens) in
       if length pieces \<le> 1 then
         if chunk_tokens \<le> MIN_CHUNK_TOKENS then let (r, w1) = native payload w in ([r], w1)
         else chunk_and_call count native field payload (smaller_chunk chunk_tokens) overlap_tokens w
       else call_pieces count native field payload chunk_tokens overlap_tokens pieces w)"
| "call_pieces count native field payload chunk_tokens overlap_tokens [] w = ([], w)"
| "call_pieces count native field payload chunk_tokens overlap_tokens (piece # pieces) w =
    (let chunk_payload = AList.update field (PStr piece) payload;
         (r, w1) = native chunk_payload w
     in if overflowed r \<and> chunk_tokens > MIN_CHUNK_TOKENS then
          let (rs, w2) = chunk_and_call count native field chunk_payload (smaller_chunk chunk_tokens) overlap_tokens w1;
              (rest, w3) = call_pieces count native field payload chunk_tokens overlap_tokens pieces w2
          in (rs @ rest, w3)
        else let (rest, w2) = call_pieces count native field payload chunk_tokens overlap_tokens pieces w1
          in (r # rest, w2))"
  by pat_completeness auto

termination
  by (relation "measures [case_sum (\<lambda>(_, _, _, _, c, _, _). nat c) (\<lambda>(_, _, _, _, c, _, _, _). nat c),
      case_sum (\<lambda>_. 1) (\<lambda>_. 0), case_sum (\<lambda>_. 0) (\<lambda>(_, _, _, _, _, _, ps, _). length ps)]")
    (auto simp: smaller_chunk_less)

declare chunk_and_call.simps [simp del]

definition call_native_op_chunked ::
  "(string \<Rightarrow> nat) \<Rightarrow> int \<Rightarrow> 'w native \<Rightarrow> string \<Rightarrow> int option \<Rightarrow> int \<Rightarrow> pydict \<Rightarrow> 'w \<Rightarrow>
   (native_result list \<times> bool) \<times> 'w" where
  "call_native_op_chunked count budget native field chunk_tokens overlap_tokens payload w =
    (let size = (case chunk_tokens of None \<Rightarrow> DEFAULT_CHUNK_TOKENS | Some c \<Rightarrow> c);
         chunk = (\<lambda>w0.
           let base_tokens = estimate_native_payload_tokens count (filter (\<lambda>kv. fst kv \<noteq> field) payload) in
           if base_tokens > budget then let (r, w1) = native payload w0 in (([r], False), w1)
           else let (rs, w1) = chunk_and_call count native field payload
                      (max (min size (budget - base_tokens)) MIN_CHUNK_TOKENS) overlap_tokens w0
                in ((rs, True), w1))
     in if estimate_native_payload_tokens count payload \<le> budget then
          let (r, w1) = native payload w in if \<not> overflowed r then (([r], False), w1) else chunk w1
        else chunk w)"

section \<open>Reduction\<close>

definition usable :: "native_result list \<Rightarrow> native_result list" where
  "usable rs = filter (\<lambda>r. nr_ok r \<and> is_dict (nr_data r)) rs"

text \<open>
  \<open>reduce_via_same_op\<close>; \<open>None\<close> is a reduction that never returns.  The recursion of the source ends at Python's
  recursion limit instead, with an exception.
\<close>

partial_function (option) reduce_via_same_op ::
  "(string \<Rightarrow> nat) \<Rightarrow> int \<Rightarrow> 'w native \<Rightarrow> string \<Rightarrow> (pydict list \<Rightarrow> pydict) \<Rightarrow> native_result list \<Rightarrow> 'w \<Rightarrow>
   (native_result option \<times> 'w) option" where
  "reduce_via_same_op count budget native field build_reduce_payload chunk_results w =
    (let successes_data = map (\<lambda>r. dict_of_val (nr_data r)) (usable chunk_results) in
     if successes_data = [] then Some (None, w)
     else if length successes_data = 1 then Some (find nr_ok chunk_results, w)
     else let ((results, _), w1) = call_native_op_chunked count budget native field None DEFAULT_OVERLAP_TOKENS
                (build_reduce_payload successes_data) w;
              reduced_successes = filter nr_ok results
       in if length reduced_successes = 1 then Some (Some (hd reduced_successes), w1)
          else if length reduced_successes > 1 then
            reduce_via_same_op count budget native field build_reduce_payload reduced_successes w1
          else Some (find nr_ok chunk_results, w1))"

text \<open>\<open>call_native_op_and_reduce\<close>: with a deterministic fold, or with a reduction by the model.\<close>

definition reported :: "native_result option \<Rightarrow> native_result option" where
  "reported result = (case result of None \<Rightarrow> None | Some r \<Rightarrow> if nr_ok r then Some r else None)"

definition call_native_op_and_reduce ::
  "(string \<Rightarrow> nat) \<Rightarrow> int \<Rightarrow> 'w native \<Rightarrow> string \<Rightarrow> (pydict list \<Rightarrow> pydict) \<Rightarrow> (pydict list \<Rightarrow> pydict option) option \<Rightarrow>
   pydict \<Rightarrow> 'w \<Rightarrow> (native_result option \<times> 'w) option" where
  "call_native_op_and_reduce count budget native field build_reduce_payload fold_data payload w =
    (let ((chunk_results, was_chunked), w1) =
           call_native_op_chunked count budget native field None DEFAULT_OVERLAP_TOKENS payload w in
     if \<not> was_chunked then Some (reported (case chunk_results of [] \<Rightarrow> None | r # _ \<Rightarrow> Some r), w1)
     else case fold_data of
       Some f \<Rightarrow>
        (let successes = map (\<lambda>r. dict_of_val (nr_data r)) (usable chunk_results) in
         if successes = [] then Some (None, w1)
         else if length successes = 1 then Some (reported (find nr_ok chunk_results), w1)
         else Some (map_option (\<lambda>d. \<lparr>nr_ok = True, nr_data = PDict d\<rparr>) (f successes), w1))
     | None \<Rightarrow>
        map_option (\<lambda>(result, w2). (reported result, w2))
          (reduce_via_same_op count budget native field build_reduce_payload chunk_results w1))"

end
