(* ===== verification/Chunk_Coverage.thy ===== *)
theory Chunk_Coverage
  imports Afm_Chunking
begin

text \<open>
  What chunked calling guarantees: the pieces of a text cover it, a packed list is a partition within the budget,
  a chunked call shows every word of the text to the model and changes no other field, and a reduction
  returns whenever its rounds shrink; it need not return otherwise.
\<close>

section \<open>Windows\<close>

lemma sentence_end_props:
  "sentence_end_from k s = Some i \<Longrightarrow> k < i \<and> i - k < length s \<and> py_isspace (s ! (i - k))"
proof (induction k s rule: sentence_end_from.induct)
  case (1 k a b s)
  show ?case
  proof (cases "a \<in> set ''.!?'' \<and> py_isspace b")
    case False
    then have "sentence_end_from (Suc k) (b # s) = Some i" using 1(2) by (simp split: if_splits)
    from 1(1)[OF False this] show ?thesis by (auto simp: nth_Cons' Suc_diff_Suc[symmetric])
  qed (use 1(2) in auto)
qed simp_all

lemma snap_prefix:
  assumes "list_all clean_word ws"
  shows "\<exists>k \<le> length ws. snap_words ws = take k ws"
proof (cases "sentence_end_from 0 (py_join '' '' ws)")
  case None
  then show ?thesis by (auto simp: snap_words_def intro: exI[of _ 0])
next
  case (Some i)
  from sentence_end_props[OF this] split_cut[OF assms, of i] show ?thesis by (simp add: snap_words_def Some)
qed

text \<open>The words from \<open>a\<close> to \<open>b\<close>; windows that leave no gap behind the words already \<open>reached\<close>.\<close>

definition words_between :: "string list \<Rightarrow> nat \<times> nat \<Rightarrow> string list" where
  "words_between ws iv = take (snd iv - fst iv) (drop (fst iv) ws)"

fun tiles :: "nat \<Rightarrow> nat \<Rightarrow> nat \<Rightarrow> (nat \<times> nat) list \<Rightarrow> bool" where
  "tiles width reached n [] \<longleftrightarrow> reached = n"
| "tiles width reached n ((a, b) # ivs) \<longleftrightarrow>
     a \<le> reached \<and> a < b \<and> b \<le> n \<and> b - a \<le> width \<and> tiles width (max reached b) n ivs"

lemma window_props:
  assumes "list_all clean_word ws" and "a < length ws" and "1 \<le> c"
  shows "\<exists>b. window_at ws (int c) (int a) = (words_between ws (a, b), int b) \<and> min (a + c) (length ws) \<le> b \<and>
    b \<le> length ws \<and> b - a \<le> c + SENTENCE_SNAP_LOOKAHEAD_WORDS"
proof -
  define e where "e = min (a + c) (length ws)"
  have e: "min (int a + int c) (int (length ws)) = int e" by (simp add: e_def)
  have ae: "a \<le> e" "e \<le> length ws" using assms by (simp_all add: e_def)
  let ?extra = "if e < length ws then snap_words (take SENTENCE_SNAP_LOOKAHEAD_WORDS (drop e ws)) else []"
  have "list_all clean_word (take SENTENCE_SNAP_LOOKAHEAD_WORDS (drop e ws))"
    using assms(1) by (auto simp: list_all_iff dest!: in_set_takeD in_set_dropD)
  then obtain k where k: "k \<le> SENTENCE_SNAP_LOOKAHEAD_WORDS" "k \<le> length ws - e" "?extra = take k (drop e ws)"
  proof (cases "e < length ws")
    case True
    assume "list_all clean_word (take SENTENCE_SNAP_LOOKAHEAD_WORDS (drop e ws))"
    from snap_prefix[OF this] obtain j where "j \<le> length (take SENTENCE_SNAP_LOOKAHEAD_WORDS (drop e ws))"
      "snap_words (take SENTENCE_SNAP_LOOKAHEAD_WORDS (drop e ws)) = take j (take SENTENCE_SNAP_LOOKAHEAD_WORDS (drop e ws))"
      by blast
    then show ?thesis using that[of j] True by (simp add: min_absorb1)
  qed (use that[of 0] in simp)
  have "window_at ws (int c) (int a) = (take (e - a) (drop a ws) @ ?extra, int (e + length ?extra))"
    using ae by (simp add: window_at_def Let_def e py_slice_nat py_slice_ahead)
  also have "\<dots> = (words_between ws (a, e + k), int (e + k))"
    using k ae take_add[of "e - a" k "drop a ws"] by (simp add: words_between_def add.commute min_absorb2)
  finally show ?thesis using k ae by (intro exI[of _ "e + k"]) (auto simp: e_def)
qed

lemma between_words: "a < b \<Longrightarrow> b \<le> length ws \<Longrightarrow> list_all clean_word ws \<Longrightarrow>
  py_split (py_join '' '' (words_between ws (a, b))) = words_between ws (a, b) \<and> words_between ws (a, b) \<noteq> []"
  by (auto simp: words_between_def list_all_iff intro!: split_join dest!: in_set_takeD in_set_dropD)

lemma windows_tile:
  assumes "list_all clean_word ws" and "1 \<le> c" and "0 \<le> overlap" and "a < length ws"
  shows "\<exists>ivs. split_windows ws (int c) overlap (int a) = map (py_join '' '' \<circ> words_between ws) ivs \<and>
    (\<forall>r. a \<le> r \<and> r \<le> length ws \<longrightarrow> tiles (c + SENTENCE_SNAP_LOOKAHEAD_WORDS) r (length ws) ivs)"
  using assms(4)
proof (induction "length ws - a" arbitrary: a rule: less_induct)
  case less
  obtain b where b: "window_at ws (int c) (int a) = (words_between ws (a, b), int b)"
    "min (a + c) (length ws) \<le> b" "b \<le> length ws" "b - a \<le> c + SENTENCE_SNAP_LOOKAHEAD_WORDS"
    using window_props[OF assms(1) less.prems assms(2)] by blast
  have ab: "a < b" using b(2) less.prems assms(2) by simp
  have here: "py_strip (py_join '' '' (words_between ws (a, b))) \<noteq> []"
    using between_words[OF ab b(3) assms(1)] by (simp add: strip_words)
  define s where "s = nat (max (int c - overlap) 1)"
  have step: "int a + max (int c - overlap) 1 = int (a + s)" "1 \<le> s" "s \<le> c"
    using assms(2,3) by (auto simp: s_def)
  show ?case
  proof (cases "length ws \<le> b")
    case True
    then have "split_windows ws (int c) overlap (int a) = [py_join '' '' (words_between ws (a, b))]"
      using less.prems here by (subst split_windows.simps) (simp add: b(1))
    then show ?thesis using ab b True by (intro exI[of _ "[(a, b)]"]) auto
  next
    case False
    then have next_in: "a + s < length ws" "a + s \<le> b" using b(2) step by auto
    have "length ws - (a + s) < length ws - a" using next_in step by simp
    from less.hyps[OF this next_in(1)] obtain ivs where
      ivs: "split_windows ws (int c) overlap (int (a + s)) = map (py_join '' '' \<circ> words_between ws) ivs"
        "\<And>r. a + s \<le> r \<Longrightarrow> r \<le> length ws \<Longrightarrow> tiles (c + SENTENCE_SNAP_LOOKAHEAD_WORDS) r (length ws) ivs"
      by blast
    have "split_windows ws (int c) overlap (int a) =
        py_join '' '' (words_between ws (a, b)) # split_windows ws (int c) overlap (int (a + s))"
      using less.prems here False by (subst split_windows.simps) (simp add: b(1) step(1) Let_def)
    then show ?thesis
      using ivs ab b next_in by (intro exI[of _ "(a, b) # ivs"]) auto
  qed
qed

lemma split_text_windows:
  assumes "1 \<le> chunk_tokens" and "0 \<le> overlap_tokens"
  shows "split_text count text chunk_tokens overlap_tokens = [text] \<or>
    (\<exists>ivs. split_text count text chunk_tokens overlap_tokens = map (py_join '' '' \<circ> words_between (py_split text)) ivs \<and>
      tiles (nat chunk_tokens + 20) 0 (length (py_split text)) ivs)"
proof -
  have "0 < length (py_split text) \<Longrightarrow>
      \<exists>ivs. split_windows (py_split text) chunk_tokens overlap_tokens 0 = map (py_join '' '' \<circ> words_between (py_split text)) ivs \<and>
      tiles (nat chunk_tokens + 20) 0 (length (py_split text)) ivs"
    using windows_tile[OF split_clean[of "text"], of "nat chunk_tokens" overlap_tokens 0] assms
    by (force simp: SENTENCE_SNAP_LOOKAHEAD_WORDS_def)
  then show ?thesis by (auto simp: split_text_def Let_def)
qed

text \<open>The pieces of a split text leave nothing out: either the text stays whole, or the pieces are consecutive
  windows of its words, the first at the first word, the last ending at the last word, none beginning
  behind a gap and none longer than the chunk size and twenty words.\<close>

theorem split_text_covers:
  assumes "1 \<le> chunk_tokens" and "0 \<le> overlap_tokens"
  shows "split_text count text chunk_tokens overlap_tokens = [text] \<or>
    (\<exists>ivs. split_text count text chunk_tokens overlap_tokens = map (py_join '' '' \<circ> words_between (py_split text)) ivs \<and>
      tiles (nat chunk_tokens + 20) 0 (length (py_split text)) ivs)"
  by (rule split_text_windows[OF assms])

lemma split_text_covers_witness:
  "split_text length ''Yes. No way back.'' 2 1 = [''Yes. No'', ''No way'', ''way back.''] \<and>
   (split_text length ''Yes. No way back.'' 2 1 = [''Yes. No way back.''] \<or>
    (\<exists>ivs. split_text length ''Yes. No way back.'' 2 1 = map (py_join '' '' \<circ> words_between (py_split ''Yes. No way back.'')) ivs \<and>
      tiles (nat 2 + 20) 0 (length (py_split ''Yes. No way back.'')) ivs))"
proof
  show "split_text length ''Yes. No way back.'' 2 1 = [''Yes. No'', ''No way'', ''way back.'']" by code_simp
  show "split_text length ''Yes. No way back.'' 2 1 = [''Yes. No way back.''] \<or>
    (\<exists>ivs. split_text length ''Yes. No way back.'' 2 1 = map (py_join '' '' \<circ> words_between (py_split ''Yes. No way back.'')) ivs \<and>
      tiles (nat 2 + 20) 0 (length (py_split ''Yes. No way back.'')) ivs)"
    by (rule split_text_covers) simp_all
qed

text \<open>So every word of the text is a word of a piece.\<close>

lemma tiles_cover:
  "tiles width r n ivs \<Longrightarrow> r \<le> i \<Longrightarrow> i < n \<Longrightarrow> \<exists>(a, b) \<in> set ivs. a \<le> i \<and> i < b"
proof (induction width r n ivs rule: tiles.induct)
  case (2 width r n a b ivs)
  show ?case
  proof (cases "i < b")
    case True
    then show ?thesis using 2(2,3) by auto
  next
    case False
    then show ?thesis using 2 by fastforce
  qed
qed simp

lemma tiles_bounds: "tiles width r n ivs \<Longrightarrow> (a, b) \<in> set ivs \<Longrightarrow> a < b \<and> b \<le> n"
  by (induction width r n ivs rule: tiles.induct) auto

lemma pieces_words:
  assumes "1 \<le> chunk_tokens" and "0 \<le> overlap_tokens"
  shows "set (py_split text) \<subseteq> (\<Union>piece \<in> set (split_text count text chunk_tokens overlap_tokens). set (py_split piece))"
  using split_text_windows[OF assms, of count "text"]
proof
  assume "\<exists>ivs. split_text count text chunk_tokens overlap_tokens = map (py_join '' '' \<circ> words_between (py_split text)) ivs \<and>
      tiles (nat chunk_tokens + 20) 0 (length (py_split text)) ivs"
  then obtain ivs where ivs: "split_text count text chunk_tokens overlap_tokens = map (py_join '' '' \<circ> words_between (py_split text)) ivs"
    "tiles (nat chunk_tokens + 20) 0 (length (py_split text)) ivs" by blast
  show ?thesis
  proof
    fix w assume "w \<in> set (py_split text)"
    then obtain i where i: "i < length (py_split text)" "w = py_split text ! i" by (metis in_set_conv_nth)
    from tiles_cover[OF ivs(2) le0 i(1)] obtain a b where ab: "(a, b) \<in> set ivs" "a \<le> i" "i < b" by blast
    have "a < b" "b \<le> length (py_split text)" using tiles_bounds[OF ivs(2) ab(1)] by auto
    from between_words[OF this split_clean]
    have split: "py_split (py_join '' '' (words_between (py_split text) (a, b))) = words_between (py_split text) (a, b)" by blast
    have "w = words_between (py_split text) (a, b) ! (i - a)" "i - a < length (words_between (py_split text) (a, b))"
      using i ab \<open>b \<le> length (py_split text)\<close> by (auto simp: words_between_def)
    then have "w \<in> set (words_between (py_split text) (a, b))" by simp
    then show "w \<in> (\<Union>piece \<in> set (split_text count text chunk_tokens overlap_tokens). set (py_split piece))"
      using ab(1) split unfolding ivs(1) by force
  qed
qed auto

section \<open>Packed lists\<close>

definition group_cost :: "('a \<Rightarrow> int) \<Rightarrow> 'a list \<Rightarrow> int" where
  "group_cost cost g = sum_list (map cost g)"

lemma group_cost_append [simp]: "group_cost cost (g @ h) = group_cost cost g + group_cost cost h"
  by (simp add: group_cost_def)

lemma pack_concat: "concat (pack_groups budget cost items current n) = current @ items"
  by (induction budget cost items current n rule: pack_groups.induct) auto

lemma pack_nonempty: "[] \<notin> set (pack_groups budget cost items current n)"
  by (induction budget cost items current n rule: pack_groups.induct) auto

lemma pack_fits:
  "group_cost cost current = n \<Longrightarrow> n \<le> budget \<or> length current \<le> 1 \<Longrightarrow> g \<in> set (pack_groups budget cost items current n) \<Longrightarrow>
    group_cost cost g \<le> budget \<or> length g = 1"
proof (induction budget cost items current n rule: pack_groups.induct)
  case (1 budget cost current n)
  then show ?case by (cases "length current = 1") (auto split: if_splits simp: le_Suc_eq)
next
  case (2 budget cost item items current n)
  show ?case
  proof (cases "current \<noteq> [] \<and> n + cost item > budget")
    case True
    then consider "g = current" | "g \<in> set (pack_groups budget cost items [item] (cost item))" using 2(5) by auto
    then show ?thesis
    proof cases
      case 1
      then show ?thesis using 2(3,4) True by (auto simp: le_Suc_eq)
    next
      case 2
      then show ?thesis using "2.IH"(1)[OF True] by (simp add: group_cost_def)
    qed
  next
    case False
    then show ?thesis using "2.IH"(2)[OF False] 2(3-5) by (cases "current = []") (auto simp: group_cost_def)
  qed
qed

text \<open>A group is closed only when the next item does not fit.\<close>

definition closed_late :: "int \<Rightarrow> ('a \<Rightarrow> int) \<Rightarrow> 'a list \<Rightarrow> 'a list \<Rightarrow> bool" where
  "closed_late budget cost g h \<longleftrightarrow> group_cost cost g + cost (hd h) > budget"

lemma pack_hd:
  "current \<noteq> [] \<Longrightarrow> \<exists>g gs. pack_groups budget cost items current n = g # gs \<and> hd g = hd current"
  by (induction budget cost items current n rule: pack_groups.induct) auto

lemma pack_greedy:
  "group_cost cost current = n \<Longrightarrow> successively (closed_late budget cost) (pack_groups budget cost items current n)"
proof (induction budget cost items current n rule: pack_groups.induct)
  case (2 budget cost item items current n)
  show ?case
  proof (cases "current \<noteq> [] \<and> n + cost item > budget")
    case True
    obtain g gs where g: "pack_groups budget cost items [item] (cost item) = g # gs" "hd g = item"
      using pack_hd[of "[item]" budget cost items "cost item"] by auto
    have "successively (closed_late budget cost) (g # gs)"
      using "2.IH"(1)[OF True] by (simp add: group_cost_def g)
    then show ?thesis using True 2(3) g by (simp add: closed_late_def)
  next
    case False
    then show ?thesis using "2.IH"(2)[OF False] 2(3) by (auto simp: group_cost_def)
  qed
qed simp

text \<open>Packing a list into groups neither loses nor reorders an item, every group fits the budget unless it is a
  single item, and a group is closed only when the next item would not fit; no items give one empty group.\<close>

theorem packing_is_partition:
  "concat (split_list_by_token_budget count items budget serialize) = items \<and>
   set (split_list_by_token_budget count items budget serialize) \<subseteq>
     {g. group_cost (\<lambda>x. int (count (serialize x))) g \<le> budget \<or> length g \<le> 1} \<and>
   successively (closed_late budget (\<lambda>x. int (count (serialize x)))) (split_list_by_token_budget count items budget serialize) \<and>
   (if items = [] then split_list_by_token_budget count items budget serialize = [[]]
    else [] \<notin> set (split_list_by_token_budget count items budget serialize))"
proof -
  let ?c = "\<lambda>x. int (count (serialize x))"
  have fits: "set (pack_groups budget ?c items [] 0) \<subseteq> {g. group_cost ?c g \<le> budget \<or> length g \<le> 1}"
    using pack_fits[of ?c "[]" 0 budget _ items] by (fastforce simp: group_cost_def)
  have "pack_groups budget ?c items [] 0 = [] \<longleftrightarrow> items = []"
    by (metis append.left_neutral concat.simps(1) pack_concat pack_groups.simps(1))
  then show ?thesis
    using fits pack_nonempty[of budget ?c items "[]" 0] pack_greedy[of ?c "[]" 0 budget items] pack_concat[of budget ?c items "[]" 0]
    by (auto simp: split_list_by_token_budget_def Let_def group_cost_def)
qed

section \<open>No word is lost\<close>

text \<open>
  The results of a chunked call come from payloads that differ from the given one in the text field only, and
  whose texts together hold every word of the given text.
\<close>

definition same_but_text :: "string \<Rightarrow> pydict \<Rightarrow> pydict \<Rightarrow> bool" where
  "same_but_text field p q \<longleftrightarrow> AList.delete field p = AList.delete field q"

definition answers :: "'w native \<Rightarrow> native_result list \<Rightarrow> pydict list \<Rightarrow> bool" where
  "answers native results payloads \<longleftrightarrow> list_all2 (\<lambda>r p. \<exists>w. r = fst (native p w)) results payloads"

definition whole_text :: "'w native \<Rightarrow> string \<Rightarrow> pydict \<Rightarrow> string list \<Rightarrow> native_result list \<Rightarrow> bool" where
  "whole_text native field payload words results \<longleftrightarrow> (\<exists>payloads. answers native results payloads \<and>
     (\<forall>p \<in> set payloads. same_but_text field p payload) \<and>
     set words \<subseteq> (\<Union>p \<in> set payloads. set (py_split (text_of_payload p field))))"

lemma delete_update_same: "AList.delete k (AList.update k v d) = AList.delete k d"
  by (induction d) auto

lemma whole_single: "whole_text native field payload (py_split (text_of_payload payload field)) [fst (native payload w)]"
  by (auto simp: whole_text_def answers_def same_but_text_def intro!: exI[of _ "[payload]"])

lemma whole_append:
  assumes "whole_text native field p1 ws1 rs1" and "whole_text native field p2 ws2 rs2"
    and "same_but_text field p1 payload" and "same_but_text field p2 payload"
  shows "whole_text native field payload (ws1 @ ws2) (rs1 @ rs2)"
proof -
  obtain ps1 ps2 where "answers native rs1 ps1" "\<forall>p \<in> set ps1. same_but_text field p p1"
    "set ws1 \<subseteq> (\<Union>p \<in> set ps1. set (py_split (text_of_payload p field)))"
    "answers native rs2 ps2" "\<forall>p \<in> set ps2. same_but_text field p p2"
    "set ws2 \<subseteq> (\<Union>p \<in> set ps2. set (py_split (text_of_payload p field)))"
    using assms(1,2) unfolding whole_text_def by blast
  then show ?thesis
    using assms(3,4) unfolding whole_text_def
    by (intro exI[of _ "ps1 @ ps2"]) (auto simp: answers_def same_but_text_def list_all2_appendI)
qed

lemma whole_mono: "whole_text native field payload ws rs \<Longrightarrow> set vs \<subseteq> set ws \<Longrightarrow> whole_text native field payload vs rs"
  unfolding whole_text_def by (meson order_trans)

lemma text_of_update [simp]: "py_split (text_of_payload (AList.update field (PStr piece) payload) field) = py_split piece"
  by (simp add: text_of_payload_def py_or_def)

lemma concat_words: "(\<Union>piece \<in> set pieces. set (py_split piece)) = set (concat (map py_split pieces))"
  by simp

lemma chunk_whole:
  "fst (chunk_and_call count native field payload chunk overlap w) = rs \<Longrightarrow>
     whole_text native field payload (py_split (text_of_payload payload field)) rs"
  "MIN_CHUNK_TOKENS \<le> chunk \<Longrightarrow> fst (call_pieces count native field payload chunk overlap pieces w) = rs \<Longrightarrow>
     whole_text native field payload (concat (map py_split pieces)) rs"
proof (induction count native field payload chunk overlap w and count native field payload chunk overlap pieces w
    arbitrary: rs and rs rule: chunk_and_call_call_pieces.induct)
  case (1 count native field payload chunk overlap w)
  let ?text = "text_of_payload payload field"
  let ?pieces = "split_text count ?text chunk (effective_overlap_tokens chunk overlap)"
  consider "py_strip ?text = [] \<or> chunk < MIN_CHUNK_TOKENS \<or> length ?pieces \<le> 1 \<and> chunk \<le> MIN_CHUNK_TOKENS"
    | "\<not> (py_strip ?text = [] \<or> chunk < MIN_CHUNK_TOKENS)" "length ?pieces \<le> 1" "\<not> chunk \<le> MIN_CHUNK_TOKENS"
    | "\<not> (py_strip ?text = [] \<or> chunk < MIN_CHUNK_TOKENS)" "\<not> length ?pieces \<le> 1" by blast
  then show ?case
  proof cases
    case c: 1
    then have "rs = [fst (native payload w)]"
      using "1.prems" by (subst (asm) chunk_and_call.simps) (auto simp: Let_def split: prod.splits if_splits)
    then show ?thesis by (simp add: whole_single)
  next
    case c: 2
    then have "fst (chunk_and_call count native field payload (smaller_chunk chunk) overlap w) = rs"
      using "1.prems" by (subst (asm) chunk_and_call.simps) (simp add: Let_def)
    then show ?thesis using "1.IH"(1)[OF refl c(1) refl c(2,3)] by blast
  next
    case c: 3
    then have "fst (call_pieces count native field payload chunk overlap ?pieces w) = rs"
      using "1.prems" by (subst (asm) chunk_and_call.simps) (simp add: Let_def)
    moreover have "MIN_CHUNK_TOKENS \<le> chunk" using c(1) by simp
    ultimately have "whole_text native field payload (concat (map py_split ?pieces)) rs"
      using "1.IH"(2)[OF refl c(1) refl c(2)] by blast
    moreover have "1 \<le> chunk" using c(1) by (simp add: MIN_CHUNK_TOKENS_def)
    moreover have "0 \<le> effective_overlap_tokens chunk overlap" by (simp add: effective_overlap_tokens_def)
    ultimately show ?thesis
      using whole_mono pieces_words[of chunk "effective_overlap_tokens chunk overlap" ?text count]
      unfolding concat_words by metis
  qed
next
  case (2 count native field payload chunk overlap w)
  then show ?case by (auto simp: whole_text_def answers_def)
next
  case (3 count native field payload chunk overlap piece pieces w)
  let ?cp = "AList.update field (PStr piece) payload"
  obtain r w1 where r: "native ?cp w = (r, w1)" by (cases "native ?cp w")
  have same: "same_but_text field ?cp payload" "same_but_text field payload payload"
    by (simp_all add: same_but_text_def delete_update_same)
  show ?case
  proof (cases "overflowed r \<and> chunk > MIN_CHUNK_TOKENS")
    case True
    obtain rs1 w2 where c: "chunk_and_call count native field ?cp (smaller_chunk chunk) overlap w1 = (rs1, w2)"
      by (cases "chunk_and_call count native field ?cp (smaller_chunk chunk) overlap w1")
    obtain rest w3 where p: "call_pieces count native field payload chunk overlap pieces w2 = (rest, w3)"
      by (cases "call_pieces count native field payload chunk overlap pieces w2")
    have rs: "rs = rs1 @ rest" using "3.prems"(2) True by (simp add: r c p)
    have "whole_text native field ?cp (py_split piece) rs1"
      using "3.IH"(1)[OF refl r[symmetric] refl True, of rs1] c by simp
    moreover have "whole_text native field payload (concat (map py_split pieces)) rest"
      using "3.IH"(2)[OF refl r[symmetric] refl True c[symmetric] refl "3.prems"(1), of rest] p by simp
    ultimately show ?thesis using whole_append[OF _ _ same] by (simp add: rs)
  next
    case False
    obtain rest w2 where p: "call_pieces count native field payload chunk overlap pieces w1 = (rest, w2)"
      by (cases "call_pieces count native field payload chunk overlap pieces w1")
    have rs: "rs = [r] @ rest" using "3.prems"(2) False by (auto simp: r p)
    have "whole_text native field ?cp (py_split piece) [r]"
      using whole_single[of native field ?cp w] by (simp add: r)
    moreover have "whole_text native field payload (concat (map py_split pieces)) rest"
      using "3.IH"(3)[OF refl r[symmetric] refl False "3.prems"(1), of rest] p by simp
    ultimately have "whole_text native field payload (py_split piece @ concat (map py_split pieces)) ([r] @ rest)"
      by (rule whole_append[OF _ _ same])
    then show ?thesis by (simp add: rs)
  qed
qed

lemma chunked_whole:
  "whole_text native field payload (py_split (text_of_payload payload field))
     (fst (fst (call_native_op_chunked count budget native field chunk_tokens overlap_tokens payload w)))"
  unfolding call_native_op_chunked_def Let_def case_prod_beta
  by (simp add: whole_single chunk_whole(1)[OF refl])

text \<open>C18: A chunked call loses nothing: whatever its budget and whatever the model answers, its results answer payloads
  that are the given one but for the text field, and their texts together hold every word of the given text.\<close>

theorem chunking_loses_nothing:
  "\<exists>payloads. list_all2 (\<lambda>r p. \<exists>w'. r = fst (native p w'))
      (fst (fst (call_native_op_chunked count budget native field chunk_tokens overlap_tokens payload w))) payloads \<and>
    set payloads \<subseteq> {p. AList.delete field p = AList.delete field payload} \<and>
    set (py_split (text_of_payload payload field)) \<subseteq> (\<Union>p \<in> set payloads. set (py_split (text_of_payload p field)))"
  using chunked_whole[of native field payload count budget chunk_tokens overlap_tokens w]
  unfolding whole_text_def answers_def same_but_text_def by blast

section \<open>Reduction\<close>

text \<open>A round of the reduction: the successful results of a call on what at least two partial results give.\<close>

definition reduce_round ::
  "(string \<Rightarrow> nat) \<Rightarrow> int \<Rightarrow> 'w native \<Rightarrow> string \<Rightarrow> (pydict list \<Rightarrow> pydict) \<Rightarrow> pydict list \<Rightarrow> 'w \<Rightarrow> native_result list" where
  "reduce_round count budget native field build parts w = filter nr_ok
     (fst (fst (call_native_op_chunked count budget native field None DEFAULT_OVERLAP_TOKENS (build parts) w)))"

lemma usable_le: "length (usable rs) \<le> length (filter nr_ok rs)"
proof -
  have "usable rs = filter (\<lambda>r. is_dict (nr_data r)) (filter nr_ok rs)" by (simp add: usable_def conj_commute)
  then show ?thesis by (simp only: length_filter_le)
qed

lemma usable_find: "usable rs \<noteq> [] \<Longrightarrow> \<exists>r. find nr_ok rs = Some r"
  by (induction rs) (auto simp: usable_def)

lemma find_ok: "find nr_ok rs = Some r \<Longrightarrow> nr_ok r"
  by (auto simp: find_Some_iff)

lemma reduce_ends:
  assumes "\<And>parts w'. 2 \<le> length parts \<Longrightarrow> length (reduce_round count budget native field build parts w') < length parts"
  shows "\<exists>res w'. reduce_via_same_op count budget native field build rs w = Some (res, w') \<and> (\<forall>r. res = Some r \<longrightarrow> nr_ok r)"
proof (induction "length (usable rs)" arbitrary: rs w rule: less_induct)
  case less
  let ?ds = "map (\<lambda>r. dict_of_val (nr_data r)) (usable rs)"
  consider "usable rs = []" | "length (usable rs) = 1" | "2 \<le> length (usable rs)"
    by (cases "usable rs"; cases "tl (usable rs)") auto
  then show ?case
  proof cases
    case 1
    then show ?thesis by (subst reduce_via_same_op.simps) simp
  next
    case 2
    then have "usable rs \<noteq> []" by auto
    from usable_find[OF this] obtain r where "find nr_ok rs = Some r" by blast
    then show ?thesis using 2 find_ok by (subst reduce_via_same_op.simps) (auto simp: Let_def)
  next
    case 3
    obtain res b w1 where c: "call_native_op_chunked count budget native field None DEFAULT_OVERLAP_TOKENS (build ?ds) w = ((res, b), w1)"
      by (metis surj_pair)
    have round: "reduce_round count budget native field build ?ds w = filter nr_ok res"
      by (simp add: reduce_round_def c)
    have fewer: "length (filter nr_ok res) < length (usable rs)"
      using assms[of ?ds w] 3 by (simp add: round)
    have ne: "?ds \<noteq> []" "length ?ds \<noteq> 1" using 3 by auto
    have unfold: "reduce_via_same_op count budget native field build rs w =
        (if length (filter nr_ok res) = 1 then Some (Some (hd (filter nr_ok res)), w1)
         else if length (filter nr_ok res) > 1 then
           reduce_via_same_op count budget native field build (filter nr_ok res) w1
         else Some (find nr_ok rs, w1))"
      using ne by (subst reduce_via_same_op.simps) (simp add: Let_def c)
    have "length (usable (filter nr_ok res)) < length (usable rs)"
      using usable_le[of "filter nr_ok res"] fewer by simp
    from less.hyps[OF this] obtain res' w' where
      "reduce_via_same_op count budget native field build (filter nr_ok res) w1 = Some (res', w')"
      "\<forall>r. res' = Some r \<longrightarrow> nr_ok r" by blast
    moreover have "length (filter nr_ok res) = 1 \<Longrightarrow> nr_ok (hd (filter nr_ok res))"
      by (cases "filter nr_ok res") (auto dest: filter_eq_ConsD)
    ultimately show ?thesis using find_ok[of rs] by (auto simp: unfold)
  qed
qed

text \<open>C29: A reduction ends, with a successful result or none, whenever each of its rounds gives fewer successful
  results than the partial results it was built from.\<close>

theorem reduction_ends:
  assumes "\<And>parts w'. 2 \<le> length parts \<Longrightarrow> length (reduce_round count budget native field build parts w') < length parts"
  shows "\<exists>res w'. reduce_via_same_op count budget native field build rs w = Some (res, w') \<and> (res = None \<or> nr_ok (the res))"
  using reduce_ends[where count = count and budget = budget and native = native and field = field and build = build, OF assms]
  by (metis option.sel option.exhaust)

text \<open>A model that summarises every chunk in one word, and a payload of the first hundred characters.\<close>

definition brief_native :: "unit native" where
  "brief_native p w = (\<lparr>nr_ok = True, nr_data = PDict [(''s'', PStr ''short'')]\<rparr>, w)"

definition brief_build :: "pydict list \<Rightarrow> pydict" where
  "brief_build parts = [(''text'', PStr ''digest'')]"

lemma reduction_ends_witness:
  "\<exists>res w'. reduce_via_same_op length 3200 brief_native ''text'' brief_build
      (replicate 5 \<lparr>nr_ok = True, nr_data = PDict []\<rparr>) () = Some (res, w') \<and> (res = None \<or> nr_ok (the res))"
proof (rule reduction_ends)
  have small: "estimate_native_payload_tokens length (brief_build parts) = 17" for parts
  proof -
    have "estimate_native_payload_tokens length [(''text'', PStr ''digest'')] = 17" by code_simp
    then show ?thesis by (simp add: brief_build_def)
  qed
  fix parts :: "pydict list" and w' :: unit
  assume "2 \<le> length parts"
  then show "length (reduce_round length 3200 brief_native ''text'' brief_build parts w') < length parts"
    by (simp add: reduce_round_def call_native_op_chunked_def Let_def small brief_native_def overflowed_def)
qed

section \<open>A reduction that does not end\<close>

text \<open>A model that always answers, and a reduction payload that is over the budget for the length of its text alone.\<close>

definition verbose :: "(string \<Rightarrow> nat) \<Rightarrow> int \<Rightarrow> 'w native \<Rightarrow> string \<Rightarrow> (pydict list \<Rightarrow> pydict) \<Rightarrow> bool" where
  "verbose count budget native field build \<longleftrightarrow>
    (\<forall>p w. nr_ok (fst (native p w)) \<and> is_dict (nr_data (fst (native p w)))) \<and>
    (\<forall>parts. 2 \<le> length parts \<longrightarrow>
       budget < estimate_native_payload_tokens count (build parts) \<and>
       estimate_native_payload_tokens count (filter (\<lambda>kv. fst kv \<noteq> field) (build parts)) \<le> budget \<and>
       2400 < count (text_of_payload (build parts) field) \<and>
       2420 < length (py_split (text_of_payload (build parts) field)))"

lemma pieces_two:
  assumes "1 \<le> chunk" and "0 \<le> overlap" and "chunk < int (count s)" and "nat chunk + 20 < length (py_split s)"
  shows "2 \<le> length (split_text count s chunk overlap)"
proof -
  have words: "0 < length (py_split s)" using assms(4) by linarith
  obtain ivs where ivs: "split_windows (py_split s) chunk overlap 0 = map (py_join '' '' \<circ> words_between (py_split s)) ivs"
    "tiles (nat chunk + 20) 0 (length (py_split s)) ivs"
    using windows_tile[OF split_clean[of s], of "nat chunk" overlap 0] assms words
    by (force simp: SENTENCE_SNAP_LOOKAHEAD_WORDS_def)
  have "2 \<le> length ivs"
    using ivs(2) words assms(4) by (cases ivs; cases "tl ivs") (auto split: prod.splits)
  moreover from this have "split_text count s chunk overlap = split_windows (py_split s) chunk overlap 0"
    using ivs(1) words assms(3) by (cases "py_split s = []") (auto simp: split_text_def Let_def strip_words)
  ultimately show ?thesis by (simp add: ivs(1))
qed

lemma pieces_all_ok:
  assumes "\<And>p w. nr_ok (fst (native p w)) \<and> is_dict (nr_data (fst (native p w)))"
  shows "length (usable (fst (call_pieces count native field payload chunk overlap pieces w))) = length pieces"
proof (induction pieces arbitrary: w)
  case (Cons piece pieces)
  obtain r w1 where r: "native (AList.update field (PStr piece) payload) w = (r, w1)"
    by (cases "native (AList.update field (PStr piece) payload) w")
  have "nr_ok r \<and> is_dict (nr_data r)" using assms[of "AList.update field (PStr piece) payload" w] by (simp add: r)
  then show ?case using Cons[of w1] by (auto simp: r overflowed_def usable_def split: prod.splits)
qed (simp add: usable_def)

lemma verbose_round:
  assumes "verbose count budget native field build" and "2 \<le> length parts"
  shows "2 \<le> length (usable (reduce_round count budget native field build parts w))"
proof -
  let ?p = "build parts"
  have ok: "nr_ok (fst (native p w)) \<and> is_dict (nr_data (fst (native p w)))" for p w
    using assms(1) by (auto simp: verbose_def)
  have big: "budget < estimate_native_payload_tokens count ?p"
    "estimate_native_payload_tokens count (filter (\<lambda>kv. fst kv \<noteq> field) ?p) \<le> budget"
    "2400 < count (text_of_payload ?p field)" "2420 < length (py_split (text_of_payload ?p field))"
    using assms unfolding verbose_def by blast+
  let ?base = "estimate_native_payload_tokens count (filter (\<lambda>kv. fst kv \<noteq> field) ?p)"
  define size where "size = max (min DEFAULT_CHUNK_TOKENS (budget - ?base)) MIN_CHUNK_TOKENS"
  have size: "200 \<le> size" "size \<le> 2400" by (auto simp: size_def DEFAULT_CHUNK_TOKENS_def MIN_CHUNK_TOKENS_def)
  let ?pieces = "split_text count (text_of_payload ?p field) size (effective_overlap_tokens size DEFAULT_OVERLAP_TOKENS)"
  have two: "2 \<le> length ?pieces"
    by (rule pieces_two) (use size big in \<open>auto simp: effective_overlap_tokens_def\<close>)
  have "py_strip (text_of_payload ?p field) \<noteq> []" using big(4) by (auto simp: strip_words)
  then have call: "chunk_and_call count native field ?p size DEFAULT_OVERLAP_TOKENS w =
      call_pieces count native field ?p size DEFAULT_OVERLAP_TOKENS ?pieces w"
    using two size by (subst chunk_and_call.simps) (simp add: Let_def MIN_CHUNK_TOKENS_def)
  have "fst (fst (call_native_op_chunked count budget native field None DEFAULT_OVERLAP_TOKENS ?p w)) =
      fst (call_pieces count native field ?p size DEFAULT_OVERLAP_TOKENS ?pieces w)"
    using big(1,2) by (simp add: call_native_op_chunked_def Let_def case_prod_beta size_def[symmetric] call)
  moreover have "usable (filter nr_ok rs) = usable rs" for rs by (simp add: usable_def conj_commute conj_left_commute)
  ultimately show ?thesis using two pieces_all_ok[OF ok] by (simp add: reduce_round_def)
qed

lemma verbose_never_ends:
  assumes "reduce_via_same_op count budget native field build rs w = Some y"
  shows "verbose count budget native field build \<longrightarrow> length (usable rs) < 2"
proof (rule reduce_via_same_op.raw_induct[where P = "\<lambda>count budget native field build rs w y.
    verbose count budget native field build \<longrightarrow> length (usable rs) < 2", OF _ assms])
  fix reduce count budget native field build rs and w :: 'w and y
  assume IH: "\<And>count budget native field build rs w y. reduce count budget native field build rs (w :: 'w) = Some y \<Longrightarrow>
      verbose count budget native field build \<longrightarrow> length (usable rs) < 2"
    and body: "(let successes_data = map (\<lambda>r. dict_of_val (nr_data r)) (usable rs) in
      if successes_data = [] then Some (None, w)
      else if length successes_data = 1 then Some (find nr_ok rs, w)
      else let ((results, _), w1) = call_native_op_chunked count budget native field None DEFAULT_OVERLAP_TOKENS
                 (build successes_data) w;
               reduced_successes = filter nr_ok results
        in if length reduced_successes = 1 then Some (Some (hd reduced_successes), w1)
           else if length reduced_successes > 1 then reduce count budget native field build reduced_successes w1
           else Some (find nr_ok rs, w1)) = Some y"
  show "verbose count budget native field build \<longrightarrow> length (usable rs) < 2"
  proof (rule impI, rule ccontr)
    assume v: "verbose count budget native field build" and "\<not> length (usable rs) < 2"
    then have two: "2 \<le> length (map (\<lambda>r. dict_of_val (nr_data r)) (usable rs))" by simp
    let ?ds = "map (\<lambda>r. dict_of_val (nr_data r)) (usable rs)"
    obtain res b w1 where c: "call_native_op_chunked count budget native field None DEFAULT_OVERLAP_TOKENS (build ?ds) w = ((res, b), w1)"
      by (metis surj_pair)
    have more: "2 \<le> length (usable (filter nr_ok res))"
      using verbose_round[OF v two, of w] by (simp add: reduce_round_def c)
    then have "2 \<le> length (filter nr_ok res)"
      using usable_le[of "filter nr_ok res"] by (simp only: filter_filter conj_absorb)
    moreover have "?ds \<noteq> []" "length ?ds \<noteq> 1" using two by auto
    ultimately have "reduce count budget native field build (filter nr_ok res) w1 = Some y"
      using body by (simp add: Let_def c)
    from IH[OF this] v more show False by simp
  qed
qed

text \<open>C30: A reduction need not end: with a model that always answers and a reduction payload that stays over the budget
  it recurses for ever, whatever at least two partial results it starts from.\<close>

theorem reduction_may_not_end:
  assumes "verbose count budget native field build" and "2 \<le> length (usable rs)"
  shows "reduce_via_same_op count budget native field build rs w = None"
  using verbose_never_ends[of count budget native field build rs w] assms
  by (cases "reduce_via_same_op count budget native field build rs w") auto

lemma json_raw_longer: "length s \<le> length (concat (map json_raw_char s))"
  by (induction s) (auto simp: json_raw_char_def json_char_def Let_def)

definition endless_build :: "pydict list \<Rightarrow> pydict" where
  "endless_build parts = [(''text'', PStr (py_join '' '' (replicate 3000 ''a'')))]"

lemma reduction_may_not_end_witness:
  "reduce_via_same_op length 3200 brief_native ''text'' endless_build
     (replicate 2 \<lparr>nr_ok = True, nr_data = PDict []\<rparr>) () = None"
proof (rule reduction_may_not_end)
  have text_length: "2 * n \<le> length (py_join '' '' (replicate n ''a'')) + 1" for n
  proof (induction n)
    case (Suc n)
    then show ?case by (cases n) auto
  qed simp
  have words: "py_split (py_join '' '' (replicate 3000 ''a'')) = replicate 3000 ''a''"
    by (rule split_join) (simp add: list_all_iff clean_word_def py_isspace_def)
  show "verbose length 3200 brief_native ''text'' endless_build"
    unfolding verbose_def
  proof (intro conjI allI impI)
    fix parts :: "pydict list"
    let ?t = "py_join '' '' (replicate 3000 ''a'')"
    show "3200 < estimate_native_payload_tokens length (endless_build parts)"
      using text_length[of 3000] json_raw_longer[of ?t]
      by (simp add: estimate_native_payload_tokens_def endless_build_def json_raw_str_def)
    show "estimate_native_payload_tokens length (filter (\<lambda>kv. fst kv \<noteq> ''text'') (endless_build parts)) \<le> 3200"
      by (simp add: estimate_native_payload_tokens_def endless_build_def)
    show "2400 < length (text_of_payload (endless_build parts) ''text'')"
      using text_length[of 3000] by (auto simp: text_of_payload_def endless_build_def py_or_def)
    show "2420 < length (py_split (text_of_payload (endless_build parts) ''text''))"
      using words text_length[of 3000] by (auto simp: text_of_payload_def endless_build_def py_or_def)
  qed (simp_all add: brief_native_def)
qed (simp add: usable_def)

section \<open>The answer of an operation\<close>

text \<open>Whatever is split, folded or reduced, an operation that returns gives a successful result or none; it gives one
  when the single call succeeds, and with a fold it always returns.\<close>

theorem operation_answers_ok:
  "(case call_native_op_and_reduce count budget native field build fold_data payload w of
      None \<Rightarrow> fold_data = None
    | Some (res, w') \<Rightarrow> res = None \<or> nr_ok (the res)) \<and>
   (if estimate_native_payload_tokens count payload \<le> budget \<and> nr_ok (fst (native payload w))
    then call_native_op_and_reduce count budget native field build fold_data payload w =
      Some (Some (fst (native payload w)), snd (native payload w)) else True)"
proof -
  obtain rs b w1 where c: "call_native_op_chunked count budget native field None DEFAULT_OVERLAP_TOKENS payload w = ((rs, b), w1)"
    by (metis surj_pair)
  have ok: "reported r = None \<or> nr_ok (the (reported r))" for r
    by (auto simp: reported_def split: option.splits)
  have "case call_native_op_and_reduce count budget native field build fold_data payload w of
      None \<Rightarrow> fold_data = None | Some (res, w') \<Rightarrow> res = None \<or> nr_ok (the res)"
    using ok by (auto simp: call_native_op_and_reduce_def c Let_def map_option_case split: option.splits list.splits)
  then show ?thesis
    by (auto simp: call_native_op_and_reduce_def call_native_op_chunked_def Let_def overflowed_def reported_def
        split: prod.splits)
qed

end
