(* ===== verification/Model_Routing.thy ===== *)
theory Model_Routing
  imports Py_Words
begin

text \<open>
  Which model a request may reach: the provider chain (\<open>model_provider.py\<close>), the mode and the content checks of
  \<open>afm_provider.py\<close>, and the target rules, the providers file and the cloud key of \<open>config.py\<close>.

  What a chat sends out is a list of events, in order.  The native helper, the HTTP client of the bridge, the
  redaction of error texts and the file system are parameters.  \<open>urlparse\<close> is modelled as far as scheme and
  host name; whether a bracketed host is an address is the parameter \<open>re_ip_ok\<close>.  The parsed content of
  \<open>providers.json\<close> is a value, \<open>None\<close> when it cannot be read.
\<close>

section \<open>URLs\<close>

fun split_at :: "char \<Rightarrow> string \<Rightarrow> (string \<times> string) option" where
  "split_at c [] = None"
| "split_at c (d # s) = (if d = c then Some ([], s) else map_option (\<lambda>(a, b). (d # a, b)) (split_at c s))"

text \<open>\<open>s.partition(c)\<close> and \<open>s.rpartition(c)\<close> without the separator; the flag tells whether it was there.\<close>

definition py_partition :: "char \<Rightarrow> string \<Rightarrow> string \<times> bool \<times> string" where
  "py_partition c s = (case split_at c s of None \<Rightarrow> (s, False, []) | Some (a, b) \<Rightarrow> (a, True, b))"

definition after_last :: "char \<Rightarrow> string \<Rightarrow> string" where
  "after_last c s = rev (takeWhile (\<lambda>d. d \<noteq> c) (rev s))"

definition is_ascii_alpha :: "char \<Rightarrow> bool" where
  "is_ascii_alpha c \<longleftrightarrow> (let n = (of_char c :: nat) in 65 \<le> n \<and> n \<le> 90 \<or> 97 \<le> n \<and> n \<le> 122)"

definition is_scheme_char :: "char \<Rightarrow> bool" where
  "is_scheme_char c \<longleftrightarrow> is_ascii_alpha c \<or> (let n = (of_char c :: nat) in 48 \<le> n \<and> n \<le> 57) \<or> c \<in> set ''+-.''"

text \<open>Scheme and host name of \<open>urlparse(url)\<close>; \<open>None\<close> is a \<open>ValueError\<close>.  A missing host is the empty string.\<close>

definition url_host :: "string \<Rightarrow> string" where
  "url_host netloc =
    (let hostinfo = after_last CHR ''@'' netloc;
         (_, have_open_br, bracketed) = py_partition CHR ''['' hostinfo;
         hostname = (if have_open_br then fst (py_partition CHR '']'' bracketed) else fst (py_partition CHR '':'' hostinfo));
         (host, percent, zone) = py_partition CHR ''%'' hostname
     in py_lower host @ (if percent then CHR ''%'' # zone else []))"

definition url_parts :: "(string \<Rightarrow> bool) \<Rightarrow> string \<Rightarrow> (string \<times> string) option" where
  "url_parts ip_ok url0 =
    (let url1 = filter (\<lambda>c. of_char c \<notin> {9, 10, 13 :: nat}) (dropWhile (\<lambda>c. (of_char c :: nat) \<le> 32) url0);
         (scheme, url) = (case split_at CHR '':'' url1 of
             Some (s, rest) \<Rightarrow> if s \<noteq> [] \<and> is_ascii_alpha (hd s) \<and> list_all is_scheme_char s then (py_lower s, rest) else ([], url1)
           | None \<Rightarrow> ([], url1))
     in if starts_with url ''//'' then
          (let netloc = takeWhile (\<lambda>c. c \<notin> set ''/?#'') (drop 2 url) in
           if (CHR ''['' \<in> set netloc) \<noteq> (CHR '']'' \<in> set netloc) then None
           else if CHR ''['' \<in> set netloc \<and> \<not> ip_ok netloc then None
           else Some (scheme, url_host netloc))
        else Some (scheme, []))"

section \<open>Targets\<close>

definition LOOPBACK_HOSTS :: "string list" where
  "LOOPBACK_HOSTS = [''127.0.0.1'', ''localhost'', ''::1'', ''0.0.0.0'']"

definition loopback_host :: "string \<Rightarrow> bool" where
  "loopback_host host \<longleftrightarrow> host \<in> set LOOPBACK_HOSTS \<or> ends_with host ''.localhost''"

type_synonym environ = "string \<Rightarrow> string option"

definition model_allowed_targets :: "environ \<Rightarrow> string list" where
  "model_allowed_targets env = concat (map (\<lambda>key.
     filter (\<lambda>i. i \<noteq> []) (map py_strip (split_on CHR '','' [] (case env key of None \<Rightarrow> [] | Some v \<Rightarrow> v))))
     [''MINNI_AFM_ALLOWED_TARGETS'', ''MINNI_MODEL_ALLOWED_TARGETS''])"

datatype target_decision = TargetAllowed | InvalidUrl | NotAllowlisted | HttpsRequired

definition check_model_target :: "(string \<Rightarrow> bool) \<Rightarrow> environ \<Rightarrow> string \<Rightarrow> target_decision" where
  "check_model_target ip_ok env target_url =
    (if target_url = [] then InvalidUrl
     else case url_parts ip_ok target_url of
       None \<Rightarrow> InvalidUrl
     | Some (scheme, hostname) \<Rightarrow>
        (let host = py_lower hostname in
         if host = [] then InvalidUrl
         else if loopback_host host then TargetAllowed
         else if host \<notin> set (map py_lower (model_allowed_targets env)) then NotAllowlisted
         else if scheme \<noteq> ''https'' then HttpsRequired
         else TargetAllowed))"

definition is_loopback_request_url :: "(string \<Rightarrow> bool) \<Rightarrow> string \<Rightarrow> bool" where
  "is_loopback_request_url ip_ok url =
    (if url = [] then False
     else case url_parts ip_ok url of
       None \<Rightarrow> False
     | Some (_, hostname) \<Rightarrow> (let host = py_lower hostname in host \<noteq> [] \<and> loopback_host host))"

section \<open>The providers file\<close>

record providers_config =
  pc_chain :: "string list"
  pc_operations :: pydict
  pc_providers :: pydict

definition DEFAULT_PROVIDERS_CONFIG :: providers_config where
  "DEFAULT_PROVIDERS_CONFIG = \<lparr>pc_chain = [''afm''],
     pc_operations = [(''retrieval'', PDict [(''localOnly'', PBool True)])], pc_providers = []\<rparr>"

definition load_providers_config :: "pyval option \<Rightarrow> providers_config" where
  "load_providers_config parsed = (case parsed of
     Some (PDict d) \<Rightarrow>
      (let chain = (case dget d ''chain'' of
             PList items \<Rightarrow> concat (map (\<lambda>i. case i of PStr s \<Rightarrow> if s \<noteq> [] then [s] else [] | _ \<Rightarrow> []) items)
           | _ \<Rightarrow> pc_chain DEFAULT_PROVIDERS_CONFIG);
           operations = (case dget d ''operations'' of PDict o1 \<Rightarrow> o1 | _ \<Rightarrow> pc_operations DEFAULT_PROVIDERS_CONFIG);
           providers = (case dget d ''providers'' of PDict p \<Rightarrow> p | _ \<Rightarrow> []);
           providers' = (case dget providers ''cloud'' of
               PDict cloud \<Rightarrow>
                 if has_key cloud ''apiKey''
                 then AList.update ''cloud'' (PDict (AList.update ''enabled'' (PBool False) (AList.delete ''apiKey'' cloud))) providers
                 else providers
             | _ \<Rightarrow> providers)
       in \<lparr>pc_chain = (if chain = [] then [''afm''] else chain), pc_operations = operations, pc_providers = providers'\<rparr>)
   | _ \<Rightarrow> DEFAULT_PROVIDERS_CONFIG)"

text \<open>
  \<open>resolve_cloud_api_key\<close>.  A file is a regular file or not, open to group or others or not, and has a text unless
  it cannot be read; \<open>stat\<close> of a missing file fails.
\<close>

record secret_file =
  sf_regular :: bool
  sf_group_or_others :: bool
  sf_text :: "string option"

record secret_env =
  se_environ :: environ
  se_expanduser :: "string \<Rightarrow> string"
  se_realpath :: "string \<Rightarrow> string"
  se_files :: "string \<Rightarrow> secret_file option"
  se_secrets_dir :: string

datatype cloud_key = NoCloud | CloudKey string | KeyError string

definition resolve_cloud_api_key :: "secret_env \<Rightarrow> pyval \<Rightarrow> cloud_key" where
  "resolve_cloud_api_key se v =
    (let cloud = dict_of_val v in
     if cloud = [] \<or> dget cloud ''enabled'' \<noteq> PBool True then NoCloud
     else if truthy (dget cloud ''apiKeyEnv'') then
       (let name = py_str (dget cloud ''apiKeyEnv'') in
        case se_environ se name of
          Some key \<Rightarrow> if key \<noteq> [] then CloudKey key
            else KeyError (''cloud_key_unavailable: env '' @ name @ '' is not set'')
        | None \<Rightarrow> KeyError (''cloud_key_unavailable: env '' @ name @ '' is not set''))
     else if truthy (dget cloud ''apiKeyFile'') then
       (let resolved = se_realpath se (se_expanduser se (py_str (dget cloud ''apiKeyFile'')));
            root = se_realpath se (se_secrets_dir se) @ ''/''
        in if \<not> starts_with resolved root then KeyError ''cloud_key_denied: apiKeyFile must live under ~/.minni/secrets/''
           else case se_files se resolved of
             None \<Rightarrow> KeyError ''cloud_key_unavailable: apiKeyFile is not readable''
           | Some f \<Rightarrow>
               if \<not> sf_regular f then KeyError ''cloud_key_denied: apiKeyFile must be a regular file''
               else if sf_group_or_others f then
                 KeyError ''cloud_key_denied: apiKeyFile must be mode 0600 (no group/other access)''
               else (case sf_text f of
                   None \<Rightarrow> KeyError ''cloud_key_unavailable: apiKeyFile is not readable''
                 | Some t \<Rightarrow> if py_strip t \<noteq> [] then CloudKey (py_strip t)
                     else KeyError ''cloud_key_unavailable: apiKeyFile is empty''))
     else KeyError ''cloud_key_unavailable: cloud provider enabled without apiKeyEnv or apiKeyFile'')"

section \<open>The AFM provider\<close>

record chat_request =
  cr_payload :: pydict
  cr_operation :: string
  cr_url :: "string option"
  cr_native_operation :: "string option"
  cr_native_payload :: "pydict option"
  cr_mode :: "string option"

record provider_result =
  pr_ok :: bool
  pr_data :: pydict
  pr_provider :: string
  pr_status :: string
  pr_error :: "string option"
  pr_fallback_used :: bool

record native_answer =
  na_ok :: bool
  na_data :: pydict
  na_status :: string
  na_error :: "string option"

datatype model_event = NativeCall string pydict | BridgeCall pydict string | NoteSuccess string string | NoteFailure string

record route_env =
  re_environ :: environ
  re_ip_ok :: "string \<Rightarrow> bool"
  re_native :: "string \<Rightarrow> pydict \<Rightarrow> native_answer"
  re_bridge :: "pydict \<Rightarrow> string \<Rightarrow> string + pyval"
  re_redact :: "string \<Rightarrow> string"

definition DEFAULT_AFM_CHAT_COMPLETIONS_URL :: string where
  "DEFAULT_AFM_CHAT_COMPLETIONS_URL = ''http://127.0.0.1:11437/v1/chat/completions''"

definition resolve_afm_mode :: "environ \<Rightarrow> string option \<Rightarrow> string" where
  "resolve_afm_mode env value =
    (let raw = py_lower (py_strip (case value of
           Some v \<Rightarrow> v
         | None \<Rightarrow> (case env ''MINNI_AFM_PROVIDER_MODE'' of
             Some m \<Rightarrow> m
           | None \<Rightarrow> (case env ''MINNI_AFM_MODE'' of Some m \<Rightarrow> m | None \<Rightarrow> ''bridge''))))
     in if raw \<in> {''off'', ''bridge'', ''native'', ''auto''} then raw else ''bridge'')"

definition chat_completion_content :: "pydict \<Rightarrow> string option" where
  "chat_completion_content data = (case dget data ''choices'' of
     PList (PDict first # _) \<Rightarrow> (case dget first ''message'' of
         PDict message \<Rightarrow> (case dget message ''content'' of PStr s \<Rightarrow> Some s | _ \<Rightarrow> None)
       | _ \<Rightarrow> None)
   | _ \<Rightarrow> None)"

definition native_completion_content :: "pydict \<Rightarrow> string option" where
  "native_completion_content data = (case chat_completion_content data of
     Some (c # s) \<Rightarrow> Some (c # s)
   | _ \<Rightarrow> (case find (\<lambda>v. is_str v \<and> truthy v) (map (dget data) [''answer'', ''content'', ''text'']) of
       Some (PStr s) \<Rightarrow> Some s | _ \<Rightarrow> None))"

definition url_or_default :: "string option \<Rightarrow> string" where
  "url_or_default url = (case url of Some u \<Rightarrow> if u \<noteq> [] then u else DEFAULT_AFM_CHAT_COMPLETIONS_URL
                                   | None \<Rightarrow> DEFAULT_AFM_CHAT_COMPLETIONS_URL)"

definition denied_result :: "string \<Rightarrow> string \<Rightarrow> string \<Rightarrow> provider_result" where
  "denied_result provider status error = \<lparr>pr_ok = False, pr_data = [], pr_provider = provider, pr_status = status,
     pr_error = Some error, pr_fallback_used = False\<rparr>"

text \<open>The bridge leg of \<open>AfmProvider.chat\<close>: the target check, then the call.\<close>

definition bridge_chat :: "route_env \<Rightarrow> string \<Rightarrow> chat_request \<Rightarrow> provider_result \<times> model_event list" where
  "bridge_chat env resolved request =
    (let url = url_or_default (cr_url request) in
     case check_model_target (re_ip_ok env) (re_environ env) url of
       TargetAllowed \<Rightarrow>
        (case re_bridge env (cr_payload request) url of
           Inr data \<Rightarrow>
             (\<lparr>pr_ok = True, pr_data = dict_of_val data, pr_provider = ''bridge'', pr_status = ''ok'', pr_error = None,
               pr_fallback_used = (resolved = ''auto'')\<rparr>,
              BridgeCall (cr_payload request) url #
              (if chat_completion_content (dict_of_val data) \<noteq> None then [NoteSuccess url resolved] else []))
         | Inl e \<Rightarrow>
             (\<lparr>pr_ok = False, pr_data = [], pr_provider = ''bridge'', pr_status = ''bridge_unavailable'', pr_error = Some e,
               pr_fallback_used = (resolved = ''auto'')\<rparr>,
              [BridgeCall (cr_payload request) url, NoteFailure url]))
     | HttpsRequired \<Rightarrow>
        (denied_result ''bridge'' ''target_denied'' ''afm_target_denied: non-loopback model targets require https'', [])
     | _ \<Rightarrow>
        (denied_result ''bridge'' ''target_denied''
           ''afm_target_denied: target is not loopback-only and not explicitly allowlisted by operator config'', []))"

definition native_leg :: "route_env \<Rightarrow> string \<Rightarrow> chat_request \<Rightarrow> native_answer \<times> model_event list" where
  "native_leg env resolved request =
    (let operation = (case cr_native_operation request of Some o1 \<Rightarrow> if o1 \<noteq> [] then o1 else ''chat_completion''
                                                         | None \<Rightarrow> ''chat_completion'');
         payload = (case cr_native_payload request of
             Some p \<Rightarrow> p
           | None \<Rightarrow> if cr_native_operation request = None then [(''payload'', PDict (cr_payload request))] else cr_payload request);
         native = re_native env operation payload;
         url = url_or_default (cr_url request)
     in (native, NativeCall operation payload #
          (if na_ok native \<and> native_completion_content (na_data native) \<noteq> None then [NoteSuccess url resolved]
           else if \<not> na_ok native then [NoteFailure url] else [])))"

definition native_result_of :: "native_answer \<Rightarrow> provider_result" where
  "native_result_of native = \<lparr>pr_ok = na_ok native, pr_data = na_data native, pr_provider = ''native'',
     pr_status = na_status native, pr_error = na_error native, pr_fallback_used = False\<rparr>"

definition afm_chat :: "route_env \<Rightarrow> string option \<Rightarrow> chat_request \<Rightarrow> provider_result \<times> model_event list" where
  "afm_chat env mode request =
    (let resolved = resolve_afm_mode (re_environ env) (if cr_mode request \<noteq> None then cr_mode request else mode) in
     if resolved = ''off'' then (denied_result ''off'' ''off'' ''AFM mode is off'', [])
     else if resolved \<in> {''native'', ''auto''} then
       (let (native, events) = native_leg env resolved request in
        if na_ok native \<or> resolved = ''native'' then (native_result_of native, events)
        else let (r, more) = bridge_chat env resolved request in (r, events @ more))
     else bridge_chat env resolved request)"

definition afm_native_op :: "route_env \<Rightarrow> string option \<Rightarrow> string \<Rightarrow> pydict \<Rightarrow> provider_result \<times> model_event list" where
  "afm_native_op env mode operation payload =
    (let resolved = resolve_afm_mode (re_environ env) mode in
     if resolved \<notin> {''native'', ''auto''} then
       (denied_result (if resolved = ''off'' then resolved else ''bridge'') ''native_unsupported''
          (''native operation '' @ operation @ '' requires native/auto AFM mode''), [])
     else
       let native = re_native env operation payload;
           kind = py_lower (py_strip (py_str (py_or (dget (na_data native) ''error_kind'') (PStr []))))
       in (native_result_of native, NativeCall operation payload #
            (if na_ok native \<and> native_completion_content (na_data native) \<noteq> None
             then [NoteSuccess DEFAULT_AFM_CHAT_COMPLETIONS_URL resolved]
             else if \<not> na_ok native \<and> kind \<notin> {''context_overflow'', ''guardrail''}
             then [NoteFailure DEFAULT_AFM_CHAT_COMPLETIONS_URL] else [])))"

section \<open>The chain\<close>

record chat_provider =
  cp_tier :: "string option"
  cp_supports :: "string \<Rightarrow> bool"
  cp_chat :: "chat_request \<Rightarrow> provider_result \<times> model_event list"
  cp_native_op :: "(string \<Rightarrow> pydict \<Rightarrow> provider_result \<times> model_event list) option"

definition OPERATION_CLASSES :: "string list" where
  "OPERATION_CLASSES = [''retrieval'', ''prepare'', ''extraction'', ''edge_inference'']"

definition afm_provider :: "route_env \<Rightarrow> chat_provider" where
  "afm_provider env = \<lparr>cp_tier = Some ''local'', cp_supports = (\<lambda>operation. operation \<in> set OPERATION_CLASSES),
     cp_chat = afm_chat env None, cp_native_op = Some (afm_native_op env None)\<rparr>"

record provider_chain =
  ch_providers :: "chat_provider list"
  ch_operations :: "(string \<times> bool) list"

definition policy_local_only :: "provider_chain \<Rightarrow> string \<Rightarrow> bool" where
  "policy_local_only chain operation = (case map_of (ch_operations chain) operation of None \<Rightarrow> False | Some b \<Rightarrow> b)"

definition providers_for :: "provider_chain \<Rightarrow> string \<Rightarrow> chat_provider list" where
  "providers_for chain operation =
    (let local_only = (if operation = ''edge_inference'' then True else policy_local_only chain operation)
     in filter (\<lambda>p. cp_supports p operation \<and> \<not> (local_only \<and> cp_tier p \<noteq> Some ''local'')) (ch_providers chain))"

definition requires_loopback :: "provider_chain \<Rightarrow> string \<Rightarrow> bool" where
  "requires_loopback chain operation = (if operation = ''edge_inference'' then True else policy_local_only chain operation)"

definition safe_status_error :: "route_env \<Rightarrow> string option \<Rightarrow> string option" where
  "safe_status_error env e = (case e of None \<Rightarrow> None | Some t \<Rightarrow> if t = [] then None else Some (take 240 (re_redact env t)))"

definition sanitize_chain_result :: "route_env \<Rightarrow> provider_result \<Rightarrow> provider_result" where
  "sanitize_chain_result env r =
    (if pr_ok r \<or> pr_error r = None \<or> pr_error r = Some [] then r
     else if safe_status_error env (pr_error r) = pr_error r then r
     else r\<lparr>pr_error := safe_status_error env (pr_error r)\<rparr>)"

text \<open>The loop of \<open>ProviderChain.chat\<close> over the eligible providers.\<close>

fun try_providers :: "route_env \<Rightarrow> chat_request \<Rightarrow> chat_provider list \<Rightarrow> provider_result \<Rightarrow> provider_result \<times> model_event list" where
  "try_providers env request [] last_result = (sanitize_chain_result env last_result, [])"
| "try_providers env request (p # ps) last_result =
    (let (r, events) = cp_chat p request in
     if pr_ok r then (r, events)
     else let (r', more) = try_providers env request ps r in (r', events @ more))"

definition chain_chat :: "route_env \<Rightarrow> provider_chain \<Rightarrow> chat_request \<Rightarrow> provider_result \<times> model_event list" where
  "chain_chat env chain request =
    (if requires_loopback chain (cr_operation request) \<and>
        \<not> is_loopback_request_url (re_ip_ok env) (url_or_default (cr_url request))
     then (denied_result ''none'' ''target_denied''
             ''afm_target_denied: local-only operation requires a loopback model target'', [])
     else let eligible = providers_for chain (cr_operation request);
              refused = denied_result ''none'' ''no_provider'' (''no provider eligible for operation '' @ cr_operation request)
       in if eligible = [] then (refused, []) else try_providers env request eligible refused)"

definition chain_native_op :: "route_env \<Rightarrow> provider_chain \<Rightarrow> string \<Rightarrow> pydict \<Rightarrow> provider_result \<times> model_event list" where
  "chain_native_op env chain operation payload =
    (case find (\<lambda>p. cp_native_op p \<noteq> None) (ch_providers chain) of
       Some p \<Rightarrow> (let (r, events) = the (cp_native_op p) operation payload in (sanitize_chain_result env r, events))
     | None \<Rightarrow> (denied_result ''none'' ''native_unsupported'' (''no provider supports native operation '' @ operation), []))"

definition configured_policy :: "string \<times> pyval \<Rightarrow> (string \<times> bool) list \<Rightarrow> (string \<times> bool) list" where
  "configured_policy entry operations = (case entry of
     (name, PDict op_cfg) \<Rightarrow>
       if name \<in> set OPERATION_CLASSES then
         AList.update name
           (if name = ''edge_inference'' then True
            else if name = ''retrieval'' then dget op_cfg ''localOnly'' \<noteq> PBool False
            else truthy (dget_or op_cfg ''localOnly'' (PBool False))) operations
       else operations
   | _ \<Rightarrow> operations)"

definition default_provider_chain :: "route_env \<Rightarrow> providers_config option \<Rightarrow> provider_chain" where
  "default_provider_chain env cfg =
    (let base = [(''retrieval'', True), (''edge_inference'', True)];
         operations = (case cfg of None \<Rightarrow> base | Some c \<Rightarrow> fold configured_policy (pc_operations c) base);
         names = (case cfg of None \<Rightarrow> [''afm''] | Some c \<Rightarrow> if pc_chain c = [] then [''afm''] else pc_chain c);
         providers = map (\<lambda>_. afm_provider env) (filter (\<lambda>n. n = ''afm'') names)
     in \<lparr>ch_providers = (if providers = [] then [afm_provider env] else providers), ch_operations = operations\<rparr>)"

section \<open>Workspace ids\<close>

definition normalize_workspace_id :: "string option \<Rightarrow> string" where
  "normalize_workspace_id v = (case v of None \<Rightarrow> [] | Some raw \<Rightarrow>
    (let s = py_strip raw in
     if s = [] then []
     else if starts_with s ''workspace-'' then ''workspace-'' @ py_lower (drop 10 s)
     else let basename = after_last CHR ''/'' (rev (dropWhile (\<lambda>c. c = CHR ''/'') (rev s)))
       in if basename = [] then [] else ''workspace-'' @ py_lower basename))"

end
