(* ===== verification/Learning_Store.thy ===== *)
theory Learning_Store
  imports Principal Py_Words
begin

text \<open>
  The learnings tables of the SQLite store (\<open>learnings\<close>, \<open>documents\<close>, \<open>learning_documents\<close>, \<open>learning_reads\<close>,
  \<open>contradiction_events\<close>, \<open>contradiction_log\<close>, \<open>candidate_packets\<close>, \<open>consolidation_actions\<close> and the index tables), and the operations that keep them in
  step: \<open>durable_projection.py\<close> (near-duplicate search, eviction to the cold archive), \<open>graph_commit.py\<close> (the
  canonical node of a learning, retirement of superseded members) and \<open>afm_review_markers.py\<close> (the fences of
  candidates).

  A table is the list of its rows in key order, the state is \<open>store\<close>.  The schema is the migrated one;
  \<open>st_typed_graph\<close> says whether migration 021 has run and \<open>st_allows_dns\<close> whether migration 015 has.  The
  full-text mirror of learnings, kept by triggers, is left out, and so are the columns that no modelled operation reads
  back (\<open>assertion\<close>, \<open>applies_when\<close>, \<open>evidence_doc_ids\<close>, \<open>confidence\<close>, \<open>source_query\<close>).  The files of the vault and the lines of the
  archive lie outside the database: a rollback does not undo them.

  An operation that hits a constraint of the schema gives \<open>None\<close> for its result.  The digest \<open>sha1\<close>, the
  similarity of two embeddings and the YAML front matter of a text are parameters.
\<close>

section \<open>Rows\<close>

record learning =
  l_id :: int
  l_agent :: string
  l_category :: string
  l_content :: string
  l_created :: rat
  l_status :: "string option"
  l_successor :: "int option"
  l_hash :: "string option"
  l_embedding :: "string option"
  l_contradicts :: "int option"

record document =
  d_id :: int
  d_path :: string
  d_agent :: string
  d_sigil :: string
  d_modified :: rat
  d_page_status :: "string option"
  d_privacy :: "string option"
  d_page_type :: "string option"
  d_layer :: "string option"
  d_superseded_by :: "int option"
  d_kind :: "string option"
  d_uri :: "string option"

record candidate =
  cp_id :: int
  cp_principal :: string
  cp_workspace :: string
  cp_privacy :: "string option"
  cp_requested :: "string option"
  cp_category :: string
  cp_content :: string
  cp_evidence :: string
  cp_derived :: string
  cp_instruction_like :: bool
  cp_status :: string
  cp_proposed_at :: rat
  cp_resolved_at :: "rat option"
  cp_resolved_by :: "string option"
  cp_reason :: "string option"

record review_action =
  ra_id :: int
  ra_type :: string
  ra_claim :: "string option"
  ra_status :: "string option"

record tombstone =
  tb_kind :: string
  tb_id :: int
  tb_agent :: string
  tb_category :: string
  tb_content :: string
  tb_status :: string
  tb_reason :: string
  tb_docs :: "int list"

record learning_read =
  lr_learning :: int
  lr_agent :: string
  lr_at :: rat

record contradiction_event =
  ce_id :: int
  ce_superseded :: int
  ce_new :: int
  ce_agent :: string
  ce_created :: rat

record store =
  st_learnings :: "learning list"
  st_documents :: "document list"
  st_joins :: "(int \<times> int) list"
  st_candidates :: "candidate list"
  st_actions :: "review_action list"
  st_next_learning :: int
  st_next_document :: int
  st_next_candidate :: int
  st_reads :: "learning_read list"
  st_events :: "contradiction_event list"
  st_next_event :: int
  st_detected :: "(int \<times> rat) list"
  st_fts :: "int list"
  st_chunks :: "int list"
  st_links :: "(int \<times> int) list"
  st_files :: "string list"
  st_tombstones :: "tombstone list"
  st_typed_graph :: bool
  st_allows_dns :: bool

text \<open>Undoing a transaction: the tables go back, the disk does not.\<close>

definition rollback :: "store \<Rightarrow> store \<Rightarrow> store" where
  "rollback before after = before\<lparr>st_files := st_files after, st_tombstones := st_tombstones after\<rparr>"

section \<open>Liveness of a learning\<close>

definition ACTIVE_LEARNING_SQL :: "learning \<Rightarrow> bool" where
  "ACTIVE_LEARNING_SQL l \<longleftrightarrow> l_successor l = None
     \<and> (l_status l = None \<or> l_status l \<notin> {Some ''rejected'', Some ''expired'', Some ''superseded''})"

text \<open>\<open>COALESCE(status, 'active') = 'active' AND superseded_by IS NULL\<close>.\<close>

definition recallable :: "learning \<Rightarrow> bool" where
  "recallable l \<longleftrightarrow> l_successor l = None \<and> (l_status l = None \<or> l_status l = Some ''active'')"

definition CLOSED_PROJECTION_STATUSES :: "string list" where
  "CLOSED_PROJECTION_STATUSES = [''draft'', ''expired'', ''rejected'', ''superseded'']"

definition projection_row_closed :: "string option \<Rightarrow> string option \<Rightarrow> bool" where
  "projection_row_closed page_status privacy_level \<longleftrightarrow> privacy_level = Some ''blocked''
     \<or> (case page_status of None \<Rightarrow> [] | Some s \<Rightarrow> s) \<in> set CLOSED_PROJECTION_STATUSES"

definition learning_row :: "store \<Rightarrow> int \<Rightarrow> learning option" where
  "learning_row st lid = find (\<lambda>l. l_id l = lid) (st_learnings st)"

definition document_at :: "store \<Rightarrow> string \<Rightarrow> document option" where
  "document_at st path = find (\<lambda>d. d_path d = path) (st_documents st)"

definition set_document :: "int \<Rightarrow> (document \<Rightarrow> document) \<Rightarrow> store \<Rightarrow> store" where
  "set_document doc_id f st = st\<lparr>st_documents := map (\<lambda>d. if d_id d = doc_id then f d else d) (st_documents st)\<rparr>"

section \<open>Paths and metadata of the durable projection\<close>

text \<open>\<open>os.path.join\<close>.\<close>

definition os_join :: "string \<Rightarrow> string \<Rightarrow> string" where
  "os_join a b = (if starts_with b ''/'' then b else if a = [] \<or> ends_with a ''/'' then a @ b else a @ ''/'' @ b)"

definition durable_doc_path :: "(string \<Rightarrow> string) \<Rightarrow> string \<Rightarrow> string \<Rightarrow> string \<Rightarrow> string" where
  "durable_doc_path sha1 agent_id vault_path content =
    (let digest = take 16 (sha1 (agent_id @ [CHR 0x00] @ content))
     in os_join (os_join vault_path ''_durable'') (agent_id @ ''__'' @ digest @ ''.md''))"

record front_matter =
  fm_sigil :: string
  fm_page_status :: string
  fm_privacy :: string
  fm_layer :: string

record projection_meta =
  pm_sigil :: string
  pm_page_status :: string
  pm_privacy :: string
  pm_page_type :: string
  pm_layer :: string

definition durable_metadata :: "(string \<Rightarrow> front_matter) \<Rightarrow> string \<Rightarrow> projection_meta" where
  "durable_metadata extract content = (let meta = extract content in
     \<lparr>pm_sigil = fm_sigil meta,
      pm_page_status = (if fm_page_status meta = ''candidate'' then ''accepted'' else fm_page_status meta),
      pm_privacy = fm_privacy meta,
      pm_page_type = ''learning'',
      pm_layer = fm_layer meta\<rparr>)"

definition learning_uri :: "int \<Rightarrow> string" where
  "learning_uri lid = ''learning://'' @ int_str lid"

section \<open>Near duplicates\<close>

definition shingle_char :: "char \<Rightarrow> char" where
  "shingle_char c = (let n = (of_char c :: nat) in
     if 97 \<le> n \<and> n \<le> 122 \<or> 48 \<le> n \<and> n \<le> 57 \<or> py_isspace c then c else CHR '' '')"

definition normalize_for_shingles :: "string \<Rightarrow> string" where
  "normalize_for_shingles s = py_join '' '' (py_split (map shingle_char (py_lower s)))"

definition grams :: "'a list \<Rightarrow> 'a list set" where
  "grams xs = set (map (\<lambda>i. take 5 (drop i xs)) [0..<length xs - 4])"

definition jaccard :: "'a set \<Rightarrow> 'a set \<Rightarrow> rat" where
  "jaccard a b = of_nat (card (a \<inter> b)) / of_nat (card (a \<union> b))"

definition five_gram_jaccard :: "string \<Rightarrow> string \<Rightarrow> rat" where
  "five_gram_jaccard text_a text_b =
    (let norm_a = normalize_for_shingles text_a; norm_b = normalize_for_shingles text_b in
     if norm_a = [] \<or> norm_b = [] then 0
     else if norm_a = norm_b then 1
     else
       let words_a = py_split norm_a; words_b = py_split norm_b;
           w = (if 5 \<le> length words_a \<and> 5 \<le> length words_b then [jaccard (grams words_a) (grams words_b)] else []);
           c = (if 5 \<le> length norm_a \<and> 5 \<le> length norm_b then [jaccard (grams norm_a) (grams norm_b)] else [])
       in foldl max 0 (w @ c))"

text \<open>
  The rows of the agent and category, by Jaccard index at least 0.65 or by cosine at least 0.88; \<open>cosine\<close> is
  \<open>_cosine_similarity_blobs\<close>.
\<close>

definition find_near_duplicate_active_learning ::
  "(string option \<Rightarrow> string option \<Rightarrow> rat) \<Rightarrow> store \<Rightarrow> string \<Rightarrow> string \<Rightarrow> string \<Rightarrow> int \<Rightarrow> string option \<Rightarrow> int list" where
  "find_near_duplicate_active_learning cosine st agent_id category content exclude_id embedding =
    (let rows = filter (\<lambda>l. l_agent l = agent_id \<and> l_category l = (if category = [] then ''general'' else category)
            \<and> recallable l \<and> l_id l \<noteq> exclude_id) (st_learnings st);
         target_emb = (case embedding of Some e \<Rightarrow> Some e
            | None \<Rightarrow> (case learning_row st exclude_id of None \<Rightarrow> None | Some l \<Rightarrow> l_embedding l))
     in map l_id (filter (\<lambda>l. 13 / 20 \<le> five_gram_jaccard content (l_content l)
            \<or> target_emb \<noteq> None \<and> 22 / 25 \<le> cosine target_emb (l_embedding l)) rows))"

section \<open>Duplicates by hash\<close>

text \<open>\<open>_normalize\<close> and \<open>content_hash\<close> of the consolidation pass.\<close>

definition normalize_content :: "string \<Rightarrow> string" where
  "normalize_content t = py_join '' '' (py_split (py_lower (py_strip t)))"

definition content_hash :: "(string \<Rightarrow> string) \<Rightarrow> string \<Rightarrow> string" where
  "content_hash sha1 content = sha1 (normalize_content content)"

text \<open>\<open>ORDER BY created_at DESC, learning_id DESC\<close>.\<close>

definition newest_first :: "learning list \<Rightarrow> learning list" where
  "newest_first ls = rev (sort_key (\<lambda>l. l_created l) (sort_key l_id ls))"

definition find_active_learning_by_hash ::
  "(string \<Rightarrow> string) \<Rightarrow> store \<Rightarrow> string \<Rightarrow> string \<Rightarrow> learning option" where
  "find_active_learning_by_hash sha1 st h agent_id =
    (let rows = newest_first (filter (\<lambda>l. l_agent l = agent_id \<and> recallable l) (st_learnings st))
     in case find (\<lambda>l. l_hash l = Some h) rows of
          Some l \<Rightarrow> Some l
        | None \<Rightarrow> find (\<lambda>l. l_hash l = None \<and> content_hash sha1 (l_content l) = h) rows)"

definition has_active_learning_hash :: "(string \<Rightarrow> string) \<Rightarrow> store \<Rightarrow> string \<Rightarrow> string \<Rightarrow> bool" where
  "has_active_learning_hash sha1 st h agent_id \<longleftrightarrow> find_active_learning_by_hash sha1 st h agent_id \<noteq> None"

end
