(* ===== verification/Learning_Graph.thy ===== *)
theory Learning_Graph
  imports Learning_Store
begin

text \<open>
  The writes on the learnings tables: eviction to the cold archive (\<open>durable_projection.py\<close>), the canonical node
  of a learning and the retirement of superseded members (\<open>graph_commit.py\<close>), the fences of candidates
  (\<open>afm_review_markers.py\<close>), and the constraints of the schema as the predicate \<open>store_ok\<close>.
\<close>

section \<open>Eviction\<close>

definition drop_file :: "string \<Rightarrow> store \<Rightarrow> store" where
  "drop_file p st = st\<lparr>st_files := filter (\<lambda>f. f \<noteq> p) (st_files st)\<rparr>"

definition evicted_doc_ids :: "(string \<Rightarrow> string) \<Rightarrow> string \<Rightarrow> int \<Rightarrow> store \<Rightarrow> int list" where
  "evicted_doc_ids sha1 vault lid st =
    (let joined = map snd (filter (\<lambda>j. fst j = lid) (st_joins st));
         named = map d_id (filter (\<lambda>d. d_uri d = Some (learning_uri lid)) (st_documents st));
         placed = (case learning_row st lid of None \<Rightarrow> []
           | Some l \<Rightarrow> if vault = [] then []
               else let agent = (if l_agent l = [] then ''main'' else l_agent l)
                    in map d_id (filter (\<lambda>d. d_path d = durable_doc_path sha1 agent vault (l_content l)) (st_documents st)))
     in sort (remdups (joined @ named @ placed)))"

text \<open>One turn of the loop over the documents: one that another learning still maps to stays.\<close>

definition drop_document :: "store \<Rightarrow> int \<Rightarrow> store" where
  "drop_document st did =
    (let st1 = (case find (\<lambda>d. d_id d = did) (st_documents st) of None \<Rightarrow> st
          | Some d \<Rightarrow> if ''_durable'' \<in> set (path_parts (d_path d)) then drop_file (d_path d) st else st)
     in st1\<lparr>st_fts := filter (\<lambda>x. x \<noteq> did) (st_fts st1),
            st_chunks := filter (\<lambda>x. x \<noteq> did) (st_chunks st1),
            st_links := filter (\<lambda>(s, t). s \<noteq> did \<and> t \<noteq> did) (st_links st1),
            st_documents := filter (\<lambda>d. d_id d \<noteq> did) (st_documents st1),
            st_joins := filter (\<lambda>j. snd j \<noteq> did) (st_joins st1)\<rparr>)"

definition evict_document_step :: "store \<Rightarrow> int \<Rightarrow> store" where
  "evict_document_step st did = (if did \<in> snd ` set (st_joins st) then st else drop_document st did)"

definition learning_tombstone :: "learning option \<Rightarrow> int \<Rightarrow> string \<Rightarrow> int list \<Rightarrow> tombstone" where
  "learning_tombstone row lid reason doc_ids =
    \<lparr>tb_kind = ''learning_tombstone'', tb_id = lid,
     tb_agent = (case row of None \<Rightarrow> [] | Some l \<Rightarrow> l_agent l),
     tb_category = (case row of None \<Rightarrow> ''general'' | Some l \<Rightarrow> if l_category l = [] then ''general'' else l_category l),
     tb_content = (case row of None \<Rightarrow> [] | Some l \<Rightarrow> l_content l),
     tb_status = (case row of None \<Rightarrow> ''active''
        | Some l \<Rightarrow> (case l_status l of None \<Rightarrow> ''active'' | Some s \<Rightarrow> if s = [] then ''active'' else s)),
     tb_reason = reason, tb_docs = doc_ids\<rparr>"

text \<open>
  The rows that pointed at the learning as their successor lose the pointer; a row that still names it in
  \<open>contradicts_id\<close> makes the final \<open>DELETE\<close> fail, after the tombstone and the file.
\<close>

definition forget_learning :: "int \<Rightarrow> store \<Rightarrow> store" where
  "forget_learning lid st = st\<lparr>
     st_learnings := map (\<lambda>l. if l_successor l = Some lid then l\<lparr>l_successor := None\<rparr> else l) (st_learnings st),
     st_joins := filter (\<lambda>j. fst j \<noteq> lid) (st_joins st),
     st_reads := filter (\<lambda>x. lr_learning x \<noteq> lid) (st_reads st)\<rparr>"

text \<open>The file of the projection goes first, then the tombstone is written.\<close>

definition unlink_projection :: "(string \<Rightarrow> string) \<Rightarrow> string \<Rightarrow> int \<Rightarrow> store \<Rightarrow> store" where
  "unlink_projection sha1 vault lid st = (case learning_row st lid of None \<Rightarrow> st
     | Some l \<Rightarrow> if vault = [] then st
         else drop_file (durable_doc_path sha1 (if l_agent l = [] then ''main'' else l_agent l) vault (l_content l)) st)"

definition bury :: "(string \<Rightarrow> string) \<Rightarrow> string \<Rightarrow> int \<Rightarrow> string \<Rightarrow> store \<Rightarrow> store" where
  "bury sha1 vault lid reason st = (let st1 = unlink_projection sha1 vault lid st in
     st1\<lparr>st_tombstones := st_tombstones st1 @
       [learning_tombstone (learning_row st lid) lid reason (evicted_doc_ids sha1 vault lid st)]\<rparr>)"

definition delete_learning :: "int \<Rightarrow> store \<Rightarrow> store" where
  "delete_learning lid st = st\<lparr>st_learnings := filter (\<lambda>l. l_id l \<noteq> lid) (st_learnings st)\<rparr>"

definition evict_learning_to_cold_archive ::
  "(string \<Rightarrow> string) \<Rightarrow> string \<Rightarrow> int \<Rightarrow> string \<Rightarrow> store \<Rightarrow> bool option \<times> store" where
  "evict_learning_to_cold_archive sha1 vault lid reason st =
    (let row = learning_row st lid; doc_ids = evicted_doc_ids sha1 vault lid st
     in if row = None \<and> doc_ids = [] then (Some False, st)
        else
          let st3 = forget_learning lid (bury sha1 vault lid reason st)
          in if row \<noteq> None \<and> (\<exists>l\<in>set (st_learnings st3). l_contradicts l = Some lid \<and> l_id l \<noteq> lid) then (None, st3)
             else (Some True, foldl evict_document_step (delete_learning lid st3) doc_ids))"

definition evict_document_to_cold_archive :: "int \<Rightarrow> string \<Rightarrow> store \<Rightarrow> bool \<times> store" where
  "evict_document_to_cold_archive did reason st = (case find (\<lambda>d. d_id d = did) (st_documents st) of
     None \<Rightarrow> (False, st)
   | Some d \<Rightarrow>
      (let st1 = st\<lparr>st_tombstones := st_tombstones st @
             [\<lparr>tb_kind = ''document_tombstone'', tb_id = did, tb_agent = d_agent d, tb_category = [],
               tb_content = d_path d, tb_status = (case d_page_status d of None \<Rightarrow> [] | Some s \<Rightarrow> s),
               tb_reason = reason, tb_docs = []\<rparr>]\<rparr>
       in (True, st1\<lparr>st_joins := filter (\<lambda>j. snd j \<noteq> did) (st_joins st1),
            st_fts := filter (\<lambda>x. x \<noteq> did) (st_fts st1),
            st_chunks := filter (\<lambda>x. x \<noteq> did) (st_chunks st1),
            st_links := filter (\<lambda>(s, t). s \<noteq> did \<and> t \<noteq> did) (st_links st1),
            st_documents := filter (\<lambda>d. d_id d \<noteq> did) (st_documents st1)\<rparr>)))"

section \<open>The canonical node\<close>

definition members_of :: "store \<Rightarrow> int \<Rightarrow> learning list" where
  "members_of st doc_id = filter (\<lambda>l. (l_id l, doc_id) \<in> set (st_joins st)) (st_learnings st)"

definition max_successor :: "learning list \<Rightarrow> int option" where
  "max_successor ls = (case List.map_filter l_successor ls of [] \<Rightarrow> None | x # xs \<Rightarrow> Some (foldl max x xs))"

definition least_of :: "int list \<Rightarrow> int option" where
  "least_of xs = (case sort xs of [] \<Rightarrow> None | x # _ \<Rightarrow> Some x)"

definition canonical_node_learning_state ::
  "store \<Rightarrow> int \<Rightarrow> bool \<times> bool \<times> string option \<times> int option" where
  "canonical_node_learning_state st doc_id =
    (if \<not> st_typed_graph st then (False, False, None, None)
     else if doc_id \<notin> snd ` set (st_joins st) then (False, False, None, None)
     else
       let ls = members_of st doc_id in
       if \<exists>l\<in>set ls. ACTIVE_LEARNING_SQL l then (True, True, None, None)
       else (case max_successor ls of
            Some s \<Rightarrow> (True, False, Some ''superseded'', least_of (map snd (filter (\<lambda>j. fst j = s) (st_joins st))))
          | None \<Rightarrow>
              if \<exists>l\<in>set ls. l_status l = Some ''expired'' then (True, False, Some ''expired'', None)
              else if ls \<noteq> [] \<and> (\<forall>l\<in>set ls. l_status l = Some ''rejected'') then (True, False, Some ''rejected'', None)
              else (True, False, Some ''superseded'', None)))"

definition reopens :: "store \<Rightarrow> document \<Rightarrow> int \<Rightarrow> string \<Rightarrow> string \<Rightarrow> projection_meta \<Rightarrow> string \<Rightarrow> bool" where
  "reopens st row learning_id agent_id content meta path =
    (if d_page_status row \<noteq> Some ''superseded'' \<or> d_privacy row = Some ''blocked'' then False
     else if projection_row_closed (Some (pm_page_status meta)) (Some (pm_privacy meta)) then False
     else if path \<in> set (st_files st) then False
     else if (learning_id, d_id row) \<in> set (st_joins st) then False
     else (case canonical_node_learning_state st (d_id row) of (mapped, active, status, successor) \<Rightarrow>
        if \<not> mapped \<or> active \<or> (status, successor) \<noteq> (d_page_status row, d_superseded_by row) then False
        else (\<exists>l\<in>set (st_learnings st). l_id l = learning_id \<and> l_agent l = agent_id \<and> l_content l = content
                \<and> ACTIVE_LEARNING_SQL l)))"

definition reconcile_new_active_mapping ::
  "store \<Rightarrow> document \<Rightarrow> int \<Rightarrow> string \<Rightarrow> string \<Rightarrow> projection_meta \<Rightarrow> string \<Rightarrow> store" where
  "reconcile_new_active_mapping st row learning_id agent_id content meta path =
    (if reopens st row learning_id agent_id content meta path
     then set_document (d_id row) (\<lambda>d. d\<lparr>d_page_status := Some ''accepted'', d_superseded_by := None\<rparr>) st
     else st)"

text \<open>\<open>INSERT OR IGNORE INTO learning_documents\<close>; the referenced learning has to exist.\<close>

definition add_join :: "int \<Rightarrow> int \<Rightarrow> store \<Rightarrow> store" where
  "add_join learning_id doc_id st = (if (learning_id, doc_id) \<in> set (st_joins st) then st
     else st\<lparr>st_joins := st_joins st @ [(learning_id, doc_id)]\<rparr>)"

definition joined :: "int \<Rightarrow> int \<Rightarrow> store \<Rightarrow> (int option \<times> store) option" where
  "joined learning_id doc_id st = (if learning_id \<in> l_id ` set (st_learnings st)
     then Some (Some doc_id, add_join learning_id doc_id st) else None)"

definition canonical_document ::
  "store \<Rightarrow> int \<Rightarrow> string \<Rightarrow> projection_meta \<Rightarrow> string \<Rightarrow> rat \<Rightarrow> document" where
  "canonical_document st learning_id agent_id meta path created_at =
    \<lparr>d_id = st_next_document st, d_path = path, d_agent = agent_id, d_sigil = pm_sigil meta,
     d_modified = created_at, d_page_status = Some (pm_page_status meta), d_privacy = Some (pm_privacy meta),
     d_page_type = Some (pm_page_type meta), d_layer = Some (pm_layer meta), d_superseded_by = None,
     d_kind = Some ''learning'', d_uri = Some (learning_uri learning_id)\<rparr>"

definition ensure_canonical_learning_node ::
  "(string \<Rightarrow> string) \<Rightarrow> (string \<Rightarrow> front_matter) \<Rightarrow> store \<Rightarrow> int \<Rightarrow> string \<Rightarrow> string \<Rightarrow> string \<Rightarrow> rat
     \<Rightarrow> (int option \<times> store) option" where
  "ensure_canonical_learning_node sha1 extract st learning_id agent_id content vault_path created_at =
    (if learning_id = 0 \<or> agent_id = [] \<or> content = [] then Some (None, st)
     else if \<not> st_typed_graph st then Some (None, st)
     else
       let path = durable_doc_path sha1 agent_id vault_path content;
           meta = durable_metadata extract content; uri = learning_uri learning_id
       in case document_at st path of
            None \<Rightarrow>
              (if \<exists>d\<in>set (st_documents st). d_uri d = Some uri then None
               else joined learning_id (st_next_document st)
                 (st\<lparr>st_documents := st_documents st @ [canonical_document st learning_id agent_id meta path created_at],
                    st_next_document := st_next_document st + 1\<rparr>))
          | Some row \<Rightarrow>
              if d_agent row \<noteq> agent_id then Some (None, st)
              else if \<exists>d\<in>set (st_documents st). d_id d \<noteq> d_id row \<and> d_uri d = Some uri then None
              else joined learning_id (d_id row)
                (set_document (d_id row) (\<lambda>d. d\<lparr>d_kind := Some ''learning'', d_uri := Some uri\<rparr>)
                   (reconcile_new_active_mapping st row learning_id agent_id content meta path)))"

section \<open>Retirement\<close>

definition supersession_target_state :: "store \<Rightarrow> int \<Rightarrow> (document \<times> (int \<times> string \<times> string option \<times> int option) list) option" where
  "supersession_target_state st doc_id = (case find (\<lambda>d. d_id d = doc_id) (st_documents st) of
     None \<Rightarrow> None
   | Some d \<Rightarrow> Some (d, if st_typed_graph st
       then map (\<lambda>l. (l_id l, l_agent l, l_status l, l_successor l)) (sort_key l_id (members_of st doc_id)) else []))"

definition retire_one :: "int \<Rightarrow> int list \<times> store \<Rightarrow> int \<Rightarrow> int list \<times> store" where
  "retire_one new_learning_id acc lid =
    (let st = snd acc in
     if \<exists>l\<in>set (st_learnings st). l_id l = lid \<and> ACTIVE_LEARNING_SQL l
     then (fst acc @ [lid], st\<lparr>st_learnings := map (\<lambda>l. if l_id l = lid \<and> ACTIVE_LEARNING_SQL l
             then l\<lparr>l_status := Some ''superseded'', l_successor := Some new_learning_id\<rparr> else l) (st_learnings st)\<rparr>)
     else acc)"

definition retire_superseded_members ::
  "int \<Rightarrow> int list \<Rightarrow> int \<Rightarrow> int \<Rightarrow> rat \<Rightarrow> store \<Rightarrow> (int list \<times> bool) \<times> store" where
  "retire_superseded_members doc_id learning_ids new_learning_id new_doc_id now st =
    (case foldl (retire_one new_learning_id) ([], st) learning_ids of (retired, st1) \<Rightarrow>
       if retired \<noteq> [] \<and> \<not> (\<exists>l\<in>set (members_of st1 doc_id). ACTIVE_LEARNING_SQL l)
          \<and> (\<exists>d\<in>set (st_documents st1). d_id d = doc_id \<and> d_page_status d = Some ''accepted'')
       then ((retired, True), set_document doc_id (\<lambda>d. if d_page_status d = Some ''accepted''
               then d\<lparr>d_page_status := Some ''superseded'', d_superseded_by := Some new_doc_id, d_modified := now\<rparr> else d) st1)
       else ((retired, False), st1))"

section \<open>Fences of candidates\<close>

text \<open>\<open>_active\<close>: a marker is in force until it is superseded.\<close>

definition marker_active :: "review_action \<Rightarrow> bool" where
  "marker_active a \<longleftrightarrow> ra_type a = ''afm_review'' \<and> ra_status a \<noteq> Some ''superseded''"

definition supersede_afm_review :: "int \<Rightarrow> store \<Rightarrow> nat \<times> store" where
  "supersede_afm_review candidate_id st =
    (let hit = (\<lambda>a. marker_active a \<and> ra_claim a = Some (int_str candidate_id))
     in (length (filter hit (st_actions st)),
         st\<lparr>st_actions := map (\<lambda>a. if hit a then a\<lparr>ra_status := Some ''superseded''\<rparr> else a) (st_actions st)\<rparr>))"

definition orphaned :: "store \<Rightarrow> review_action \<Rightarrow> bool" where
  "orphaned st a \<longleftrightarrow> marker_active a
     \<and> \<not> (\<exists>c\<in>set (st_candidates st). Some (int_str (cp_id c)) = ra_claim a \<and> cp_status c = ''proposed'')"

definition count_orphaned_afm_review :: "store \<Rightarrow> nat" where
  "count_orphaned_afm_review st = length (filter (orphaned st) (st_actions st))"

definition reconcile_orphaned_afm_review :: "bool \<Rightarrow> store \<Rightarrow> (nat \<times> nat) \<times> store" where
  "reconcile_orphaned_afm_review dry_run st =
    (let orphans = count_orphaned_afm_review st in
     if dry_run then ((orphans, 0), st)
     else if orphans = 0 then ((0, 0), st)
     else ((orphans, orphans), st\<lparr>st_actions :=
        map (\<lambda>a. if orphaned st a then a\<lparr>ra_status := Some ''superseded''\<rparr> else a) (st_actions st)\<rparr>))"

end
