(* ===== verification/Py_Regex.thy ===== *)
theory Py_Regex
  imports Py_Words
begin

text \<open>
  The part of Python's \<open>re\<close> that the modelled code uses: patterns as a datatype, the backtracking matcher with its
  order of preference, \<open>search\<close>, \<open>match\<close>, \<open>finditer\<close> and \<open>sub\<close>.

  A position in a text is the text before it, reversed, and the text behind it.  \<open>runs\<close> lists every way a pattern
  matches at a position, in the order the backtracking engine tries them; the engine takes the first.  Texts are
  Latin-1, as everywhere in the development: \<open>word_class\<close> and \<open>py_isspace\<close> are \<open>\w\<close> and \<open>\s\<close> on that range, and
  \<open>ilit\<close> is a literal under \<open>IGNORECASE\<close>.
\<close>

section \<open>Patterns\<close>

datatype mark = TextStart | TextEnd | Dollar | LineStart | LineEnd | WordEdge

datatype re =
    RSet "char \<Rightarrow> bool"
  | REps
  | RSeq re re
  | RAlt re re
  | RRep re nat "nat option" bool
  | RMark mark
  | RAhead bool re
  | RBehind bool "char \<Rightarrow> bool"
  | RGroup nat re
  | RBack nat

type_synonym position = "string \<times> string \<times> (nat \<times> string) list"

definition word_class :: "char \<Rightarrow> bool" where
  "word_class c \<longleftrightarrow> (let n = (of_char c :: nat) in
     48 \<le> n \<and> n \<le> 57 \<or> 65 \<le> n \<and> n \<le> 90 \<or> n = 95 \<or> 97 \<le> n \<and> n \<le> 122
     \<or> n \<in> {170, 178, 179, 181, 185, 186, 188, 189, 190} \<or> 192 \<le> n \<and> n \<noteq> 215 \<and> n \<noteq> 247)"

definition newline :: char where
  "newline = char_of (10 :: nat)"

definition word_edge :: "string \<Rightarrow> string \<Rightarrow> bool" where
  "word_edge pre rest \<longleftrightarrow>
     (pre \<noteq> [] \<and> word_class (hd pre)) \<noteq> (rest \<noteq> [] \<and> word_class (hd rest))"

fun at_mark :: "mark \<Rightarrow> string \<Rightarrow> string \<Rightarrow> bool" where
  "at_mark TextStart pre rest \<longleftrightarrow> pre = []"
| "at_mark TextEnd pre rest \<longleftrightarrow> rest = []"
| "at_mark Dollar pre rest \<longleftrightarrow> rest = [] \<or> rest = [newline]"
| "at_mark LineStart pre rest \<longleftrightarrow> pre = [] \<or> hd pre = newline"
| "at_mark LineEnd pre rest \<longleftrightarrow> rest = [] \<or> hd rest = newline"
| "at_mark WordEdge pre rest \<longleftrightarrow> word_edge pre rest"

section \<open>The matcher\<close>

text \<open>
  \<open>Dollar\<close> is \<open>$\<close> without \<open>MULTILINE\<close>, \<open>LineStart\<close> and \<open>LineEnd\<close> are \<open>^\<close> and \<open>$\<close> with it.

  Repetition: \<open>fuel\<close> bounds the turns, and a turn beyond the least number must move forward, so \<open>lo\<close> plus the
  length of the rest is always enough.
\<close>

fun repeated :: "(position \<Rightarrow> position list) \<Rightarrow> bool \<Rightarrow> nat \<Rightarrow> nat \<Rightarrow> nat option \<Rightarrow> position \<Rightarrow> position list" where
  "repeated f greedy 0 lo hi p = (if lo = 0 then [p] else [])"
| "repeated f greedy (Suc fuel) lo hi p =
    (let further = (if hi = Some 0 then []
           else concat (map (\<lambda>q. if lo = 0 \<and> length (fst (snd q)) = length (fst (snd p)) then []
                  else repeated f greedy fuel (lo - 1) (map_option (\<lambda>h. h - 1) hi) q) (f p)))
     in if 0 < lo then further else if greedy then further @ [p] else p # further)"

definition captured :: "(nat \<times> string) list \<Rightarrow> nat \<Rightarrow> string option" where
  "captured caps n = map_of caps n"

primrec runs :: "re \<Rightarrow> position \<Rightarrow> position list" where
  "runs (RSet cls) p = (case p of (pre, rest, caps) \<Rightarrow> (case rest of
     [] \<Rightarrow> [] | c # cs \<Rightarrow> if cls c then [(c # pre, cs, caps)] else []))"
| "runs REps p = [p]"
| "runs (RSeq a b) p = concat (map (runs b) (runs a p))"
| "runs (RAlt a b) p = runs a p @ runs b p"
| "runs (RRep r lo hi greedy) p = repeated (runs r) greedy (lo + length (fst (snd p))) lo hi p"
| "runs (RMark m) p = (if at_mark m (fst p) (fst (snd p)) then [p] else [])"
| "runs (RAhead want r) p = (if (runs r p \<noteq> []) = want then [p] else [])"
| "runs (RBehind want cls) p = (if (fst p \<noteq> [] \<and> cls (hd (fst p))) = want then [p] else [])"
| "runs (RGroup n r) p = map (\<lambda>q. (fst q, fst (snd q),
     (n, take (length (fst (snd p)) - length (fst (snd q))) (fst (snd p))) # snd (snd q))) (runs r p)"
| "runs (RBack n) p = (case p of (pre, rest, caps) \<Rightarrow> (case captured caps n of
     None \<Rightarrow> []
   | Some t \<Rightarrow> if starts_with rest t then [(rev t @ pre, drop (length t) rest, caps)] else []))"

section \<open>Searching\<close>

fun search_from :: "re \<Rightarrow> string \<Rightarrow> string \<Rightarrow> bool" where
  "search_from r pre [] = (runs r (pre, [], []) \<noteq> [])"
| "search_from r pre (c # cs) = (runs r (pre, c # cs, []) \<noteq> [] \<or> search_from r (c # pre) cs)"

text \<open>\<open>bool(re.search(r, s))\<close>, \<open>re.match(r, s)\<close> as the captured groups and the text behind the match.\<close>

definition re_search :: "re \<Rightarrow> string \<Rightarrow> bool" where
  "re_search r s \<longleftrightarrow> search_from r [] s"

definition re_match :: "re \<Rightarrow> string \<Rightarrow> (string \<times> (nat \<times> string) list) option" where
  "re_match r s = (case runs r ([], s, []) of [] \<Rightarrow> None | (_, rest, caps) # _ \<Rightarrow> Some (rest, caps))"

text \<open>\<open>re.finditer\<close>: the text cut into its matches and the characters between them.\<close>

datatype piece = Plain char | Hit string "(nat \<times> string) list"

function pieces_from :: "re \<Rightarrow> string \<Rightarrow> string \<Rightarrow> piece list" where
  "pieces_from r pre rest = (case runs r (pre, rest, []) of
     (pre', rest', caps) # _ \<Rightarrow>
       if length rest' < length rest
       then Hit (take (length rest - length rest') rest) caps # pieces_from r pre' rest'
       else Hit [] caps # (case rest of [] \<Rightarrow> [] | c # cs \<Rightarrow> Plain c # pieces_from r (c # pre) cs)
   | [] \<Rightarrow> (case rest of [] \<Rightarrow> [] | c # cs \<Rightarrow> Plain c # pieces_from r (c # pre) cs))"
  by pat_completeness auto
termination
  by (relation "measure (\<lambda>(_, _, rest). length rest)") auto

declare pieces_from.simps [simp del]

definition re_pieces :: "re \<Rightarrow> string \<Rightarrow> piece list" where
  "re_pieces r s = pieces_from r [] s"

fun piece_text :: "piece \<Rightarrow> string" where
  "piece_text (Plain c) = [c]"
| "piece_text (Hit t _) = t"

text \<open>\<open>re.findall\<close> of a pattern without groups, and \<open>re.sub\<close> with a function on the match.\<close>

definition re_findall :: "re \<Rightarrow> string \<Rightarrow> string list" where
  "re_findall r s = concat (map (\<lambda>p. case p of Plain _ \<Rightarrow> [] | Hit t _ \<Rightarrow> [t]) (re_pieces r s))"

definition re_sub :: "re \<Rightarrow> (string \<Rightarrow> (nat \<times> string) list \<Rightarrow> string) \<Rightarrow> string \<Rightarrow> string" where
  "re_sub r f s = concat (map (\<lambda>p. case p of Plain c \<Rightarrow> [c] | Hit t caps \<Rightarrow> f t caps) (re_pieces r s))"

section \<open>Ways to write a pattern\<close>

definition icase :: "(char \<Rightarrow> bool) \<Rightarrow> char \<Rightarrow> bool" where
  "icase cls c \<longleftrightarrow> (let n = (of_char c :: nat) in cls c \<or> cls (py_lower_char c)
     \<or> (97 \<le> n \<and> n \<le> 122 \<or> 224 \<le> n \<and> n \<le> 254 \<and> n \<noteq> 247) \<and> cls (char_of (n - 32)))"

fun rseq :: "re list \<Rightarrow> re" where
  "rseq [] = REps"
| "rseq [r] = r"
| "rseq (r # s # rs) = RSeq r (rseq (s # rs))"

fun ralt :: "re list \<Rightarrow> re" where
  "ralt [] = RAhead False REps"
| "ralt [r] = r"
| "ralt (r # s # rs) = RAlt r (ralt (s # rs))"

definition lit :: "string \<Rightarrow> re" where
  "lit s = rseq (map (\<lambda>c. RSet (\<lambda>d. d = c)) s)"

definition ilit :: "string \<Rightarrow> re" where
  "ilit s = rseq (map (\<lambda>c. RSet (icase (\<lambda>d. d = c))) s)"

definition opt :: "re \<Rightarrow> re" where "opt r = RRep r 0 (Some 1) True"
definition star :: "re \<Rightarrow> re" where "star r = RRep r 0 None True"
definition plus :: "re \<Rightarrow> re" where "plus r = RRep r 1 None True"
definition lazy :: "re \<Rightarrow> re" where "lazy r = RRep r 0 None False"
definition times :: "nat \<Rightarrow> nat option \<Rightarrow> re \<Rightarrow> re" where "times lo hi r = RRep r lo hi True"

definition one_of :: "string \<Rightarrow> char \<Rightarrow> bool" where "one_of s c \<longleftrightarrow> c \<in> set s"
definition none_of :: "string \<Rightarrow> char \<Rightarrow> bool" where "none_of s c \<longleftrightarrow> c \<notin> set s"
definition between_chars :: "char \<Rightarrow> char \<Rightarrow> char \<Rightarrow> bool" where
  "between_chars a b c \<longleftrightarrow> (of_char a :: nat) \<le> of_char c \<and> (of_char c :: nat) \<le> of_char b"

definition digit_class :: "char \<Rightarrow> bool" where "digit_class = between_chars CHR ''0'' CHR ''9''"
definition lower_class :: "char \<Rightarrow> bool" where "lower_class = between_chars CHR ''a'' CHR ''z''"
definition upper_class :: "char \<Rightarrow> bool" where "upper_class = between_chars CHR ''A'' CHR ''Z''"
definition any_class :: "(char \<Rightarrow> bool) list \<Rightarrow> char \<Rightarrow> bool" where "any_class ps c \<longleftrightarrow> list_ex (\<lambda>p. p c) ps"

definition edge :: re where "edge = RMark WordEdge"
definition spaces :: re where "spaces = plus (RSet py_isspace)"
definition spaces0 :: re where "spaces0 = star (RSet py_isspace)"
definition digits :: re where "digits = plus (RSet digit_class)"
definition any_but_newline :: re where "any_but_newline = RSet (none_of [newline])"
definition any_char :: re where "any_char = RSet (\<lambda>_. True)"

text \<open>The classes on the bits of a character, for evaluation.\<close>

lemma isspace_bits [code]: "py_isspace (Char b0 b1 b2 b3 b4 b5 b6 b7) \<longleftrightarrow>
    \<not> b6 \<and> (\<not> b7 \<and> \<not> b5 \<and> \<not> b4 \<and> b3 \<and> (\<not> b2 \<and> (b0 \<or> b1) \<or> b2 \<and> \<not> b1)
      \<or> \<not> b7 \<and> \<not> b5 \<and> b4 \<and> b3 \<and> b2 \<or> b5 \<and> \<not> b4 \<and> \<not> b3 \<and> \<not> b2 \<and> \<not> b1 \<and> \<not> b0
      \<or> b7 \<and> \<not> b5 \<and> \<not> b4 \<and> \<not> b3 \<and> b2 \<and> \<not> b1 \<and> b0)"
  by (cases b0; cases b1; cases b2; cases b3; cases b4; cases b5; cases b6; cases b7) (simp_all add: py_isspace_def)

lemma word_class_bits [code]: "word_class (Char b0 b1 b2 b3 b4 b5 b6 b7) \<longleftrightarrow>
    (if b7 then (if b6 then \<not> (b4 \<and> b2 \<and> b1 \<and> b0 \<and> \<not> b3)
                 else b5 \<and> (b3 \<and> b1 \<and> \<not> b0 \<and> \<not> b2 \<or> b4 \<and> (\<not> b3 \<and> (b1 \<and> \<not> b2 \<or> b0 \<and> b2 \<and> \<not> b1 )
                   \<or> \<not> b2 \<and> b3 \<and> b0 \<and> \<not> b1 \<or> b3 \<and> b2 \<and> \<not> (b1 \<and> b0))))
     else if b6 then (if b4 then \<not> b3 \<or> \<not> b2 \<and> (\<not> b1 \<or> \<not> b0) \<or> \<not> b5 \<and> b2 \<and> b1 \<and> b0 else b0 \<or> b1 \<or> b2 \<or> b3)
     else b5 \<and> b4 \<and> (\<not> b3 \<or> \<not> b2 \<and> \<not> b1))"
  by (cases b0; cases b1; cases b2; cases b3; cases b4; cases b5; cases b6; cases b7) (simp_all add: word_class_def)

lemma icase_bits [code]: "icase cls (Char b0 b1 b2 b3 b4 b5 b6 b7) \<longleftrightarrow>
    cls (Char b0 b1 b2 b3 b4 b5 b6 b7)
    \<or> b6 \<and> (if b7 then \<not> (b4 \<and> b2 \<and> b1 \<and> b0)
          else if b4 then \<not> b3 \<or> \<not> b2 \<and> (\<not> b1 \<or> \<not> b0) else b0 \<or> b1 \<or> b2 \<or> b3)
      \<and> cls (Char b0 b1 b2 b3 b4 (\<not> b5) b6 b7)"
  by (cases b0; cases b1; cases b2; cases b3; cases b4; cases b5; cases b6; cases b7)
    (simp_all add: icase_def py_lower_char_def char_of_def bit_iff_odd)

text \<open>Alternatives of words, and a word with an optional plural.\<close>

definition words :: "string list \<Rightarrow> re" where "words ws = ralt (map ilit ws)"
definition plurals :: "string list \<Rightarrow> re" where "plurals ws = ralt (map (\<lambda>w. RSeq (ilit w) (opt (ilit ''s''))) ws)"

section \<open>Facts about the matcher\<close>

text \<open>A match moves forward in the same text.\<close>

definition forward :: "position \<Rightarrow> position \<Rightarrow> bool" where
  "forward p q \<longleftrightarrow> rev (fst q) @ fst (snd q) = rev (fst p) @ fst (snd p) \<and> length (fst (snd q)) \<le> length (fst (snd p))"

lemma forward_refl [simp]: "forward p p"
  by (simp add: forward_def)

lemma forward_trans: "forward p q \<Longrightarrow> forward q r \<Longrightarrow> forward p r"
  by (auto simp: forward_def)

lemma repeated_forward:
  assumes "\<And>p q. q \<in> set (f p) \<Longrightarrow> forward p q" and "q \<in> set (repeated f g fuel lo hi p)"
  shows "forward p q"
  using assms(2)
proof (induction fuel arbitrary: lo hi p)
  case 0
  then show ?case by (simp split: if_splits)
next
  case (Suc fuel)
  then have "q = p \<or> (\<exists>q1\<in>set (f p). q \<in> set (repeated f g fuel (lo - 1) (map_option (\<lambda>h. h - 1) hi) q1))"
    by (auto simp: Let_def split: if_splits)
  then show ?case using Suc.IH assms(1) forward_trans by (metis forward_refl)
qed

lemma runs_forward: "q \<in> set (runs r p) \<Longrightarrow> forward p q"
proof (induction r arbitrary: p q)
  case (RSet cls)
  then show ?case by (auto simp: forward_def split: prod.splits list.splits if_splits)
next
  case (RSeq a b)
  then obtain q1 where "q1 \<in> set (runs a p)" "q \<in> set (runs b q1)" by auto
  then show ?case using RSeq.IH forward_trans by blast
next
  case (RRep r lo hi g)
  then show ?case using repeated_forward[of "runs r"] by auto
next
  case (RGroup n r)
  then obtain q1 where "q1 \<in> set (runs r p)" "fst q = fst q1" "fst (snd q) = fst (snd q1)" by auto
  then show ?case using RGroup.IH by (simp add: forward_def)
next
  case (RBack n)
  then show ?case by (auto simp: forward_def starts_with_def split: prod.splits option.splits if_splits)
      (metis append_take_drop_id)
qed (auto split: if_splits)

text \<open>The pieces make up the text.\<close>

lemma pieces_cover: "concat (map piece_text (pieces_from r pre rest)) = rest"
proof (induction "length rest" arbitrary: pre rest rule: less_induct)
  case less
  have step: "concat (map piece_text (case rest of [] \<Rightarrow> [] | c # cs \<Rightarrow> Plain c # pieces_from r (c # pre) cs)) = rest"
    using less by (cases rest) simp_all
  show ?case
  proof (cases "runs r (pre, rest, [])")
    case Nil
    then show ?thesis using step by (simp add: pieces_from.simps[of r pre rest])
  next
    case (Cons q qs)
    obtain pre' rest' caps where q: "q = (pre', rest', caps)" by (cases q) auto
    have fw: "rev pre' @ rest' = rev pre @ rest" "length rest' \<le> length rest"
      using runs_forward[of q r "(pre, rest, [])"] Cons q by (auto simp: forward_def)
    show ?thesis
    proof (cases "length rest' < length rest")
      case True
      have "length pre' = length pre + (length rest - length rest')"
        using arg_cong[OF fw(1), of length] fw(2) by simp
      moreover have "rest' = drop (length pre') (rev pre @ rest)" by (simp flip: fw(1))
      ultimately have "rest' = drop (length rest - length rest') rest" by simp
      then have "take (length rest - length rest') rest @ rest' = rest" by (metis append_take_drop_id)
      then show ?thesis using less[OF True] Cons q True by (simp add: pieces_from.simps[of r pre rest])
    next
      case False
      then show ?thesis using step Cons q by (simp add: pieces_from.simps[of r pre rest])
    qed
  qed
qed

text \<open>A greedy run of a character class takes as much as it can.\<close>

lemma star_set:
  "length rest \<le> fuel \<Longrightarrow> \<exists>qs. repeated (runs (RSet cls)) True fuel 0 None (pre, rest, caps) =
    (rev (takeWhile cls rest) @ pre, dropWhile cls rest, caps) # qs"
proof (induction fuel arbitrary: pre rest)
  case (Suc fuel)
  then show ?case
  proof (cases rest)
    case (Cons c cs)
    then show ?thesis using Suc.IH[of cs "c # pre"] Suc.prems by auto
  qed simp
qed simp

lemma plus_set:
  "runs (plus (RSet cls)) (pre, rest, caps) = [] \<longleftrightarrow> rest = [] \<or> \<not> cls (hd rest)"
  "rest \<noteq> [] \<Longrightarrow> cls (hd rest) \<Longrightarrow> \<exists>qs. runs (plus (RSet cls)) (pre, rest, caps) =
     (rev (takeWhile cls rest) @ pre, dropWhile cls rest, caps) # qs"
proof -
  have step: "runs (plus (RSet cls)) (pre, c # cs, caps) = repeated (runs (RSet cls)) True (length (c # cs)) 0 None (c # pre, cs, caps)"
    if "cls c" for c cs using that by (simp add: plus_def)
  show "rest \<noteq> [] \<Longrightarrow> cls (hd rest) \<Longrightarrow> \<exists>qs. runs (plus (RSet cls)) (pre, rest, caps) =
     (rev (takeWhile cls rest) @ pre, dropWhile cls rest, caps) # qs"
    using step star_set[of "tl rest" "length rest" cls "hd rest # pre" caps] by (cases rest) auto
  then show "runs (plus (RSet cls)) (pre, rest, caps) = [] \<longleftrightarrow> rest = [] \<or> \<not> cls (hd rest)"
    by (cases rest) (auto simp: plus_def)
qed

lemma runs_lit: "runs (lit s) (pre, rest, caps) = (if starts_with rest s then [(rev s @ pre, drop (length s) rest, caps)] else [])"
proof (induction s arbitrary: pre rest)
  case Nil
  then show ?case by (simp add: lit_def starts_with_def)
next
  case (Cons c s)
  show ?case
  proof (cases s)
    case Nil
    then show ?thesis by (cases rest) (auto simp: lit_def starts_with_def)
  next
    case (Cons d ds)
    then have "runs (lit (c # s)) (pre, rest, caps) = (case rest of [] \<Rightarrow> []
        | x # xs \<Rightarrow> if x = c then runs (lit s) (c # pre, xs, caps) else [])"
      by (simp add: lit_def split: list.splits)
    then show ?thesis using Cons.IH by (cases rest) (auto simp: starts_with_def)
  qed
qed

text \<open>A search succeeds exactly when a match is among the pieces.\<close>

lemma search_nowhere: "\<not> search_from r pre rest \<Longrightarrow> pieces_from r pre rest = map Plain rest"
  by (induction r pre rest rule: search_from.induct) (simp_all add: pieces_from.simps)

lemma sub_nowhere: "\<not> re_search r s \<Longrightarrow> re_sub r f s = s"
  by (simp add: re_search_def re_sub_def re_pieces_def search_nowhere comp_def)

end
