(* ===== verification/Text_Safety.thy ===== *)
theory Text_Safety
  imports Py_Regex Handoff_Packets
begin

text \<open>
  The two filters every text passes on its way into or out of the store: the detector of instruction-like text
  (\<open>safety.py\<close>) and the redaction of secrets and local paths (\<open>minnid_runtime/redaction.py\<close>).  The patterns are
  those of the source, each written in the combinators of \<open>Py_Regex\<close>.
\<close>

section \<open>Instruction-like text\<close>

definition directive_targets :: re where
  "directive_targets = words [''previous'', ''prior'', ''above'', ''earlier'', ''your'', ''all'']"

definition opt_all :: re where
  "opt_all = opt (RSeq (ilit ''all'') spaces)"

text \<open>The instruction openers: \<open>ignore\<close> ends at a word edge and knows two more nouns and the plural of one.\<close>

definition ignore_pattern :: re where
  "ignore_pattern = rseq [edge, ilit ''ignore'', spaces, opt_all, directive_targets, spaces,
     ralt [plurals [''instruction'', ''directive''], words [''prompt'', ''context''],
           plurals [''rule'', ''guideline'', ''constraint'']], edge]"

definition opener_pattern :: "string \<Rightarrow> re" where
  "opener_pattern verb = rseq [edge, ilit verb, spaces, opt_all, directive_targets, spaces,
     ralt [plurals [''instruction'', ''directive''], words [''prompt'', ''context''], plurals [''rule'']]]"

definition phrase :: "string list \<Rightarrow> re" where
  "phrase ws = (case ws of [] \<Rightarrow> REps | w # rest \<Rightarrow> rseq (ilit w # concat (map (\<lambda>v. [spaces, ilit v]) rest)))"

definition role_pattern :: re where
  "role_pattern = rseq [edge, words [''pretend'', ''imagine'', ''act'', ''behave''], spaces,
     ralt [phrase [''you'', ''are''], phrase [''as'', ''if'', ''you'', ''are''], phrase [''that'', ''you'', ''are'']], edge]"

definition you_are_now_pattern :: re where
  "you_are_now_pattern = rseq [edge, phrase [''you'', ''are'', ''now''], spaces, words [''a'', ''an''], edge]"

definition new_persona_pattern :: re where
  "new_persona_pattern = rseq [edge, ilit ''new'', spaces,
     ralt [words [''persona'', ''identity'', ''role'', ''character''], phrase [''system'', ''prompt'']], edge]"

definition override_pattern :: re where
  "override_pattern = rseq [edge, ilit ''override'', spaces, opt (words [''your'', ''the'', ''all'']), spaces0,
     ralt [plurals [''instruction'', ''directive'', ''rule''], ilit ''system''], edge]"

definition system_prompt_pattern :: re where
  "system_prompt_pattern = rseq [edge, phrase [''system'', ''prompt''], edge]"

definition imperative_pattern :: re where
  "imperative_pattern = rseq [edge,
     ralt [phrase [''you'', ''must''], phrase [''you'', ''shall''], phrase [''you'', ''will''],
           phrase [''you'', ''need'', ''to''], phrase [''you'', ''are'', ''required'', ''to'']], spaces,
     words [''always'', ''never'', ''not'', ''only'', ''immediately'', ''now'', ''instead''], edge]"

definition disobey_pattern :: re where
  "disobey_pattern = rseq [edge, ralt [phrase [''do'', ''not''], ilit (''don'' @ [CHR 0x27] @ ''t''), ilit ''never''], spaces,
     ralt [ilit ''follow'', ilit ''obey'', phrase [''comply'', ''with''], phrase [''adhere'', ''to'']], spaces,
     words [''your'', ''the'', ''any'', ''these'', ''those''], spaces,
     plurals [''instruction'', ''rule'', ''guideline'', ''directive''], edge]"

definition from_now_on_pattern :: re where
  "from_now_on_pattern = rseq [edge, phrase [''from'', ''now'', ''on''], edge, star any_char, edge,
     words [''you'', ''your'', ''always'', ''never''], edge]"

definition disable_safety_pattern :: re where
  "disable_safety_pattern = rseq [edge,
     ralt [ilit ''disable'', phrase [''turn'', ''off''], words [''remove'', ''bypass'', ''circumvent'']], spaces,
     opt (RSeq (ilit ''your'') spaces),
     ralt [ilit ''safety'', phrase [''safety'', ''filter''], phrase [''content'', ''filter''],
           plurals [''restriction'', ''guardrail'', ''limit'']], edge]"

definition question_hijack_pattern :: re where
  "question_hijack_pattern = rseq [edge, words [''ignore'', ''disregard'', ''skip''], spaces,
     opt (ralt [RSeq (ilit ''the'') spaces, RSeq (ilit ''this'') spaces]),
     opt (rseq [ilit ''user'', opt (lit [CHR 0x27]), opt (ilit ''s''), spaces]),
     opt (RSeq (plus (RSet word_class)) spaces),
     words [''question'', ''request'', ''task'', ''query''], edge]"

definition ignore_user_pattern :: re where
  "ignore_user_pattern = rseq [edge, words [''ignore'', ''disregard''], spaces, phrase [''the'', ''user''], edge]"

definition instead_pattern :: re where
  "instead_pattern = rseq [edge, ilit ''instead'', spaces,
     words [''output'', ''say'', ''respond'', ''answer'', ''reply'', ''recommend'', ''select'', ''approve''], edge]"

definition PATTERNS :: "re list" where
  "PATTERNS =
    [ignore_pattern, opener_pattern ''disregard'', opener_pattern ''forget'', role_pattern, you_are_now_pattern,
     new_persona_pattern, override_pattern, system_prompt_pattern, imperative_pattern, disobey_pattern,
     rseq [edge, lit ''DAN'', edge], rseq [edge, ilit ''jailbreak'', edge],
     rseq [edge, ilit ''dev'', opt (ilit ''eloper''), spaces, ilit ''mode'', edge],
     from_now_on_pattern, disable_safety_pattern, question_hijack_pattern, ignore_user_pattern, instead_pattern]"

definition is_instruction_like :: "string \<Rightarrow> bool" where
  "is_instruction_like text \<longleftrightarrow> text \<noteq> [] \<and> list_ex (\<lambda>p. re_search p text) PATTERNS"

definition instruction_like_score :: "string \<Rightarrow> nat" where
  "instruction_like_score text = (if text = [] then 0 else length (filter (\<lambda>p. re_search p text) PATTERNS))"

section \<open>Redaction\<close>

definition dquote :: string where "dquote = [CHR 0x22]"
definition squote :: string where "squote = [CHR 0x27]"

definition key_words :: re where
  "key_words = ralt [rseq [ilit ''api'', opt (RSet (one_of ''_-'')), ilit ''key''], ilit ''password'', ilit ''secret'',
     ilit ''credential'', rseq [ilit ''private'', opt (RSet (one_of ''_ -'')), ilit ''key'']]"

definition token_words :: re where
  "token_words = ralt [ilit ''bearer'', rseq [ilit ''access'', opt (RSet (one_of ''_-'')), ilit ''token''],
     rseq [ilit ''refresh'', opt (RSet (one_of ''_-'')), ilit ''token''], ilit ''token'']"

text \<open>A label, a colon or equals sign and an unquoted value; and the JSON form with its quotes.\<close>

definition assignment_pattern :: "re \<Rightarrow> re" where
  "assignment_pattern label = rseq [edge, RGroup 1 label, edge, spaces0, RSet (one_of '':=''), spaces0,
     RGroup 2 (plus (RSet (\<lambda>c. \<not> py_isspace c \<and> c \<notin> set ('',;<>'' @ dquote @ squote))))]"

definition json_pattern :: "re \<Rightarrow> re" where
  "json_pattern label = rseq [RGroup 1 (opt (lit dquote)), RGroup 2 label, RBack 1, spaces0, lit '':'', spaces0,
     lit dquote, RGroup 3 (plus (RSet (none_of dquote))), lit dquote]"

definition private_key_pattern :: re where
  "private_key_pattern = (let names = star (RSet (icase (any_class [upper_class, one_of '' '']))) in
     rseq [ilit ''-----BEGIN '', names, ilit ''PRIVATE KEY-----'', lazy any_char,
           ilit ''-----END '', names, ilit ''PRIVATE KEY-----''])"

definition SECRET_PATTERNS :: "re list" where
  "SECRET_PATTERNS = [assignment_pattern key_words, assignment_pattern token_words,
     json_pattern key_words, json_pattern token_words, private_key_pattern]"

definition alnum_class :: "char \<Rightarrow> bool" where
  "alnum_class = any_class [upper_class, lower_class, digit_class]"

definition BARE_TOKEN_PATTERNS :: "re list" where
  "BARE_TOKEN_PATTERNS =
    [rseq [edge, lit ''sk-'', times 16 None (RSet (any_class [alnum_class, one_of ''_-''])), edge],
     rseq [edge, lit ''gh'', RSet (one_of ''pousr''), lit ''_'', times 20 None (RSet (any_class [alnum_class, one_of ''_''])), edge],
     rseq [edge, lit ''github_pat_'', times 20 None (RSet (any_class [alnum_class, one_of ''_''])), edge],
     rseq [edge, lit ''AKIA'', times 16 (Some 16) (RSet (any_class [digit_class, upper_class])), edge],
     rseq [edge, lit ''xox'', RSet (one_of ''baprs''), lit ''-'', times 10 None (RSet (any_class [alnum_class, one_of ''-''])), edge]]"

definition path_class :: "char \<Rightarrow> bool" where
  "path_class c \<longleftrightarrow> c \<notin> set ('' <>'' @ map char_of [10, 13, 9, 34, 39 :: nat])"

definition LOCAL_ROOTS :: "string list" where
  "LOCAL_ROOTS = [''/Users/'', ''/Volumes/'', ''/private/'', ''/home/'']"

definition LOCAL_PATH_PATTERN :: re where
  "LOCAL_PATH_PATTERN =
     rseq [RBehind False word_class, ralt (map (\<lambda>base. RSeq (lit base) (plus (RSet path_class))) LOCAL_ROOTS)]"

text \<open>\<open>_secret_sub\<close>: \<open>lastindex\<close> is the group closed last.\<close>

definition secret_sub :: "string \<Rightarrow> (nat \<times> string) list \<Rightarrow> string" where
  "secret_sub t caps =
    (let lastindex = (case caps of [] \<Rightarrow> 0 | (n, _) # _ \<Rightarrow> n);
         group = (\<lambda>n. case captured caps n of None \<Rightarrow> [] | Some v \<Rightarrow> v)
     in if 3 \<le> lastindex then group 2 @ ''=[REDACTED]''
        else if 2 \<le> lastindex then group 1 @ ''=[REDACTED]'' else ''[REDACTED]'')"

definition redact_with :: "(string \<Rightarrow> (nat \<times> string) list \<Rightarrow> string) \<Rightarrow> string \<times> bool \<Rightarrow> re \<Rightarrow> string \<times> bool" where
  "redact_with f acc r = (if re_search r (fst acc) then (re_sub r f (fst acc), True) else acc)"

definition redact_text :: "string \<Rightarrow> string \<times> bool" where
  "redact_text text =
    (let secrets = foldl (redact_with secret_sub) (text, False) SECRET_PATTERNS;
         tokens = foldl (redact_with (\<lambda>_ _. ''[REDACTED]'')) secrets BARE_TOKEN_PATTERNS
     in redact_with (\<lambda>_ _. ''[REDACTED_PATH]'') tokens LOCAL_PATH_PATTERN)"

end
