(* ===== verification/Candidate_Governance.thy ===== *)
theory Candidate_Governance
  imports Learning_Graph Rpc_Dispatch Text_Safety
begin

text \<open>
  Human governance of memory, \<open>minnid_runtime/governance.py\<close>: who may resolve a staged candidate, what
  accepting it does to the store, and what is listed.

  \<open>gov_env\<close> holds what the handlers take from elsewhere: the environment variable
  \<open>MINNI_RESOLVE_OPERATORS\<close>, the vault and the write-back switch of the configuration, the digest, the front matter
  reader, the cosine, the embedder (\<open>None\<close> when it is missing or fails), \<open>json.loads\<close>, the reading of ISO dates, the
  environment variable of the provenance gate and whether the hash column could be ensured.  The work after the commit (purge of a stale projection, indexing, archiving of the
  inbox file) is a list of \<open>effect\<close>s in the order they are asked for; \<open>ge_indexed\<close> says whether indexing succeeds.
\<close>

record gov_env =
  ge_operators :: string
  ge_vault :: string
  ge_writeback :: bool
  ge_sha1 :: "string \<Rightarrow> string"
  ge_extract :: "string \<Rightarrow> front_matter"
  ge_cosine :: "string option \<Rightarrow> string option \<Rightarrow> rat"
  ge_indexed :: bool
  ge_embed :: "string \<Rightarrow> string option"
  ge_loads :: "string \<Rightarrow> pyval option"
  ge_from_iso :: "string \<Rightarrow> rat option"
  ge_gate_since :: pyval
  ge_hash_column :: bool

datatype effect = PurgeDurable string string | IndexDurable string string int | ArchiveInbox int | NotifyStaged | WriteToDisk int

section \<open>Principal families\<close>

definition VAULT_SLUG_TO_AGENT_ID :: "(string \<times> string) list" where
  "VAULT_SLUG_TO_AGENT_ID =
    [(''claudecode'', ''claude-code''), (''claude-science'', ''claude-science''), (''codex'', ''codex''),
     (''cursor'', ''cursor''), (''gemini'', ''gemini''), (''agy'', ''gemini''), (''antigravity'', ''gemini''),
     (''kilocode'', ''kilocode''), (''grok-build'', ''grok-build''), (''grok-beta'', ''grok-build''),
     (''grok'', ''grok-build''), (''xai'', ''grok-build''), (''devin'', ''devin'')]"

definition canonical_principal :: "string \<Rightarrow> string" where
  "canonical_principal raw = (case map_of VAULT_SLUG_TO_AGENT_ID raw of None \<Rightarrow> raw | Some a \<Rightarrow> a)"

definition principal_family :: "string \<Rightarrow> string list" where
  "principal_family raw = (let canon = canonical_principal raw in
     sort (remdups ([raw, canon] @ map fst (filter (\<lambda>sa. snd sa = canon) VAULT_SLUG_TO_AGENT_ID))))"

definition quoted :: "string \<Rightarrow> string" where
  "quoted s = [CHR 0x27] @ s @ [CHR 0x27]"

section \<open>Authority\<close>

definition ACCEPT_FLAGGED_CAPABILITY :: string where
  "ACCEPT_FLAGGED_CAPABILITY = ''accept_flagged''"

definition explicitly_allowed_operator :: "gov_env \<Rightarrow> effective_principal \<Rightarrow> bool" where
  "explicitly_allowed_operator g p =
    (let caps = ep_capabilities p in
     if PStr ''resolve_candidate'' \<in> set caps \<or> PStr ''govern'' \<in> set caps then True
     else if ep_agent_id p = ''operator'' then True
     else ep_agent_id p \<in> set (filter (\<lambda>a. a \<noteq> []) (map py_strip (split_on CHR '','' [] (ge_operators g)))))"

definition explicitly_allowed_accept_flagged :: "effective_principal \<Rightarrow> bool" where
  "explicitly_allowed_accept_flagged p \<longleftrightarrow> PStr ACCEPT_FLAGGED_CAPABILITY \<in> set (ep_capabilities p)"

definition may_govern :: "gov_env \<Rightarrow> effective_principal \<Rightarrow> string \<Rightarrow> bool" where
  "may_govern g p owner \<longleftrightarrow>
     canonical_principal owner = canonical_principal (ep_agent_id p) \<or> explicitly_allowed_operator g p"

section \<open>The decision\<close>

definition UNIMPLEMENTED_DECISIONS :: "string list" where
  "UNIMPLEMENTED_DECISIONS = [''mark_sensitive'', ''mark_temporary'', ''mark_project_scoped'']"

definition STATUS_MAP :: "(string \<times> string) list" where
  "STATUS_MAP =
    [(''accept'', ''accepted''), (''learn'', ''accepted''), (''reject'', ''rejected''), (''redact'', ''redacted''),
     (''do_not_store'', ''do_not_store''), (''log_only'', ''log_only''), (''merge'', ''merged''),
     (''supersede'', ''superseded'')]"

definition decision_of :: "pydict \<Rightarrow> string" where
  "decision_of params = py_lower (py_strip (py_str (py_or (dget params ''decision'') (PStr []))))"

definition reason_of :: "pydict \<Rightarrow> string" where
  "reason_of params = take 500 (py_str (py_or (py_or (dget params ''reason'') (dget params ''resolution_reason'')) (PStr [])))"

definition allowed_text :: string where
  "allowed_text = py_repr (PList (map PStr (sort (map fst STATUS_MAP))))"

section \<open>Categories\<close>

definition CATEGORIES :: "string list" where
  "CATEGORIES = [''pattern'', ''fix'', ''decision'', ''preference'', ''fact'', ''procedure'', ''architecture'',
     ''codebase'', ''scar'', ''gotcha'', ''general'']"

definition accepted_category :: "candidate \<Rightarrow> pydict \<Rightarrow> string" where
  "accepted_category row params =
    (let raw_cat = py_lower (py_strip (py_str (py_or (py_or (PStr (cp_category row)) (dget params ''category'')) (PStr ''general''))))
     in if raw_cat \<in> set CATEGORIES then raw_cat else ''general'')"

section \<open>What an acceptance replaces\<close>

definition MAX_SUPERSEDE_IDS :: nat where
  "MAX_SUPERSEDE_IDS = 64"

definition supersede_id :: "pyval \<Rightarrow> int option" where
  "supersede_id v = (case v of PInt i \<Rightarrow> Some i | PStr s \<Rightarrow> int_text s | _ \<Rightarrow> None)"

fun collect_supersedes ::
  "gov_env \<Rightarrow> effective_principal \<Rightarrow> string \<Rightarrow> pyval \<Rightarrow> store \<Rightarrow> int list \<Rightarrow> pyval list \<Rightarrow> pyval + int list" where
  "collect_supersedes g p author request_id st acc [] = Inr acc"
| "collect_supersedes g p author request_id st acc (sid # rest) = (case supersede_id sid of
     None \<Rightarrow> Inl (make_error (-32602) ''supersede_ids must be a list of integers'' request_id)
   | Some i \<Rightarrow> (case learning_row st i of
       None \<Rightarrow> Inl (make_error (-32001) (''learning_not_found: '' @ int_str i) request_id)
     | Some l \<Rightarrow>
         if canonical_principal (l_agent l) \<noteq> canonical_principal author \<and> \<not> explicitly_allowed_operator g p
         then Inl (make_error (-32004) (''principal_mismatch: learning #'' @ int_str i @ '' is owned by '' @
                quoted (l_agent l) @ ''; caller principal '' @ quoted (ep_agent_id p) @
                '' may only supersede its own learnings (cross-principal supersession requires an explicitly allowed operator)'')
                request_id)
         else collect_supersedes g p author request_id st (if i \<in> set acc then acc else acc @ [i]) rest))"

definition explicit_supersedes ::
  "gov_env \<Rightarrow> effective_principal \<Rightarrow> string \<Rightarrow> pyval \<Rightarrow> pydict \<Rightarrow> store \<Rightarrow> pyval + int list" where
  "explicit_supersedes g p author request_id params st =
    (let raw_sup = (if has_key params ''supersede_ids'' then dget params ''supersede_ids'' else dget params ''supersedes'')
     in case raw_sup of
          PNone \<Rightarrow> Inr []
        | PInt i \<Rightarrow> collect_supersedes g p author request_id st [] [PInt i]
        | PList xs \<Rightarrow>
            if MAX_SUPERSEDE_IDS < length xs
            then Inl (make_error (-32602) (''supersede_ids exceeds maximum batch size ('' @ int_str (int MAX_SUPERSEDE_IDS) @ '')'') request_id)
            else collect_supersedes g p author request_id st [] xs
        | _ \<Rightarrow> Inl (make_error (-32602) ''supersede_ids must be a list of integers'' request_id))"

definition mark_superseded :: "int \<Rightarrow> store \<Rightarrow> store" where
  "mark_superseded lid st = st\<lparr>st_learnings :=
     map (\<lambda>l. if l_id l = lid then l\<lparr>l_status := Some ''superseded''\<rparr> else l) (st_learnings st)\<rparr>"

lemma find_by_hash_active:
  assumes "find_active_learning_by_hash sha1 st h a = Some l"
  shows "l \<in> set (st_learnings st)" "recallable l" "l_agent l = a"
proof -
  have "l \<in> set (newest_first (filter (\<lambda>l. l_agent l = a \<and> recallable l) (st_learnings st)))"
    using assms by (auto simp: find_active_learning_by_hash_def Let_def find_Some_iff split: option.splits)
  then show "l \<in> set (st_learnings st)" "recallable l" "l_agent l = a" by (auto simp: newest_first_def)
qed

lemma superseded_not_recallable [simp]: "\<not> recallable (l\<lparr>l_status := Some ''superseded''\<rparr>)"
  by (simp add: recallable_def)

lemma mark_superseded_le:
  "length (filter recallable (map (\<lambda>k. if l_id k = i then k\<lparr>l_status := Some ''superseded''\<rparr> else k) ls))
    \<le> length (filter recallable ls)"
  by (induction ls) (auto simp del: filter_map)

lemma mark_superseded_fewer:
  assumes "l \<in> set ls" and "recallable l"
  shows "length (filter recallable (map (\<lambda>k. if l_id k = l_id l then k\<lparr>l_status := Some ''superseded''\<rparr> else k) ls))
    < length (filter recallable ls)"
  using assms
proof (induction ls)
  case (Cons k ls)
  then show ?case using mark_superseded_le[of "l_id l" ls] by (auto simp del: filter_map)
qed simp

function absorb_hash_duplicates ::
  "(string \<Rightarrow> string) \<Rightarrow> string \<Rightarrow> string \<Rightarrow> int list \<Rightarrow> store \<Rightarrow> int list \<times> store" where
  "absorb_hash_duplicates sha1 h author existing st = (case find_active_learning_by_hash sha1 st h author of
     None \<Rightarrow> (existing, st)
   | Some l \<Rightarrow> if l_id l \<in> set existing then (existing, st)
       else absorb_hash_duplicates sha1 h author (existing @ [l_id l]) (mark_superseded (l_id l) st))"
  by pat_completeness auto
termination
  by (relation "measure (\<lambda>(_, _, _, _, st). length (filter recallable (st_learnings st)))")
    (auto simp: mark_superseded_def simp del: filter_map length_filter_map
      intro!: mark_superseded_fewer dest: find_by_hash_active)

declare absorb_hash_duplicates.simps [simp del]

definition new_learning :: "store \<Rightarrow> string \<Rightarrow> string \<Rightarrow> string \<Rightarrow> rat \<Rightarrow> string option \<Rightarrow> string \<Rightarrow> learning" where
  "new_learning st author category content now embedding h =
    \<lparr>l_id = st_next_learning st, l_agent = author, l_category = category, l_content = content, l_created = now,
     l_status = Some ''active'', l_successor = None, l_hash = Some h, l_embedding = embedding, l_contradicts = None\<rparr>"

definition insert_learning :: "learning \<Rightarrow> store \<Rightarrow> store" where
  "insert_learning l st = st\<lparr>st_learnings := st_learnings st @ [l], st_next_learning := st_next_learning st + 1\<rparr>"

text \<open>One turn over the replaced learnings; \<open>None\<close> is the failed \<open>DELETE\<close>.\<close>

definition replace_learning ::
  "gov_env \<Rightarrow> string \<Rightarrow> int \<Rightarrow> int \<Rightarrow> store \<Rightarrow> (string \<times> string) option \<times> store" where
  "replace_learning g author lid ex_lid st =
    (let doc = (case learning_row st ex_lid of
           None \<Rightarrow> (author, ''learning:'' @ int_str ex_lid) | Some l \<Rightarrow> (l_agent l, l_content l))
     in if ge_writeback g
        then (case evict_learning_to_cold_archive (ge_sha1 g) (ge_vault g) ex_lid (''superseded_by:'' @ int_str lid) st of
                (None, st') \<Rightarrow> (None, st') | (Some _, st') \<Rightarrow> (Some doc, st'))
        else (Some doc, st\<lparr>st_learnings := map (\<lambda>l. if l_id l = ex_lid
                then l\<lparr>l_successor := Some lid, l_status := Some ''superseded''\<rparr> else l) (st_learnings st)\<rparr>))"

fun replace_learnings ::
  "gov_env \<Rightarrow> string \<Rightarrow> int \<Rightarrow> int list \<Rightarrow> store \<Rightarrow> (string \<times> string) list option \<times> store" where
  "replace_learnings g author lid [] st = (Some [], st)"
| "replace_learnings g author lid (ex_lid # rest) st =
    (if ex_lid = lid then replace_learnings g author lid rest st
     else (case replace_learning g author lid ex_lid st of
        (None, st') \<Rightarrow> (None, st')
      | (Some doc, st') \<Rightarrow> (case replace_learnings g author lid rest st' of
          (None, st'') \<Rightarrow> (None, st'') | (Some docs, st'') \<Rightarrow> (Some (doc # docs), st''))))"

section \<open>Resolution\<close>

text \<open>
  How the body of \<open>with db.transaction()\<close> ends: by \<open>ResolveRejected\<close> or a database error (rolled back), by a
  plain \<open>return\<close> (committed), or by running through, with the new status, the learning written, its author and the
  documents to purge.
\<close>

datatype txn_end =
    Raised pyval store
  | Failed store
  | Returned pyval store
  | Finished string "int option" string "(string \<times> string) list" store

definition accept_into_store ::
  "gov_env \<Rightarrow> effective_principal \<Rightarrow> candidate \<Rightarrow> pydict \<Rightarrow> pyval \<Rightarrow> rat \<Rightarrow> store \<Rightarrow> txn_end" where
  "accept_into_store g p row params request_id now st =
    (let author = (if cp_principal row = [] then ep_agent_id p else cp_principal row);
         content = cp_content row; cat = accepted_category row params; h = content_hash (ge_sha1 g) content
     in case explicit_supersedes g p author request_id params st of
          Inl err \<Rightarrow> Raised err st
        | Inr explicit \<Rightarrow>
            (case absorb_hash_duplicates (ge_sha1 g) h author explicit st of (existing, st1) \<Rightarrow>
              (let l = new_learning st1 author cat content now None h; st2 = insert_learning l st1
               in case ensure_canonical_learning_node (ge_sha1 g) (ge_extract g) st2 (l_id l) author content (ge_vault g) now of
                    None \<Rightarrow> Failed st2
                  | Some (_, st3) \<Rightarrow>
                      (let near = find_near_duplicate_active_learning (ge_cosine g) st3 author cat content (l_id l) None
                       in case replace_learnings g author (l_id l) (existing @ filter (\<lambda>i. i \<notin> set existing) near) st3 of
                            (None, st4) \<Rightarrow> Failed st4
                          | (Some docs, st4) \<Rightarrow> Finished ''accepted'' (Some (l_id l)) author docs st4))))"

definition set_candidate :: "int \<Rightarrow> (candidate \<Rightarrow> candidate) \<Rightarrow> store \<Rightarrow> store" where
  "set_candidate cid f st = st\<lparr>st_candidates := map (\<lambda>c. if cp_id c = cid then f c else c) (st_candidates st)\<rparr>"

definition apply_accepted_candidate_effects :: "int \<Rightarrow> store \<Rightarrow> store" where
  "apply_accepted_candidate_effects cid st = snd (supersede_afm_review cid st)"

text \<open>The update of the candidate row, with the fallback for a schema before migration 015.\<close>

definition settle_candidate ::
  "effective_principal \<Rightarrow> int \<Rightarrow> string \<Rightarrow> string \<Rightarrow> rat \<Rightarrow> store \<Rightarrow> string \<times> store" where
  "settle_candidate p cid new_status reason now st =
    (let legacy = (new_status \<in> {''do_not_store'', ''log_only''} \<and> \<not> st_allows_dns st);
         status = (if legacy then ''rejected'' else new_status);
         why = (if legacy then reason @ '' [intended_status='' @ new_status @ ''; schema pre-015]'' else reason)
     in (status, apply_accepted_candidate_effects cid
          (set_candidate cid (\<lambda>c. c\<lparr>cp_status := status, cp_resolved_at := Some now,
             cp_resolved_by := Some (ep_agent_id p), cp_reason := Some why\<rparr>) st)))"

text \<open>The flag of an instruction-like text, stored when the detector finds it now.\<close>

definition instruction_flagged :: "candidate \<Rightarrow> bool" where
  "instruction_flagged row \<longleftrightarrow> cp_instruction_like row \<or> is_instruction_like (cp_content row)"

definition flag_candidate :: "int \<Rightarrow> candidate \<Rightarrow> store \<Rightarrow> store" where
  "flag_candidate cid row st = (if instruction_flagged row \<and> \<not> cp_instruction_like row
     then set_candidate cid (\<lambda>c. c\<lparr>cp_instruction_like := True\<rparr>) st else st)"

definition resolve_in_transaction ::
  "gov_env \<Rightarrow> effective_principal \<Rightarrow> pydict \<Rightarrow> pyval \<Rightarrow> int \<Rightarrow> string \<Rightarrow> string \<Rightarrow> rat \<Rightarrow> store \<Rightarrow> txn_end" where
  "resolve_in_transaction g p params request_id cid new_status reason now st =
    (case find (\<lambda>c. cp_id c = cid) (st_candidates st) of
       None \<Rightarrow> Raised (make_error (-32001) (''candidate_not_found: '' @ int_str cid) request_id) st
     | Some row \<Rightarrow>
        if \<not> may_govern g p (cp_principal row)
        then Raised (make_error (-32004) (''principal_mismatch: candidate #'' @ int_str cid @ '' is owned by '' @
               quoted (cp_principal row) @ ''; caller principal '' @ quoted (ep_agent_id p) @
               '' may only resolve its own candidates (cross-principal resolution requires an explicitly allowed operator: '' @
               quoted ''operator'' @ '', a literal resolve_candidate/govern capability, or MINNI_RESOLVE_OPERATORS)'') request_id) st
        else if cp_status row \<noteq> ''proposed''
        then Raised (make_error (-32009) (''already_resolved: candidate #'' @ int_str cid @ '' is '' @ quoted (cp_status row) @
               '' (resolved_by='' @ py_repr (case cp_resolved_by row of None \<Rightarrow> PNone | Some b \<Rightarrow> PStr b) @
               ''); resolution is terminal and cannot be repeated'') request_id) st
        else
          let st1 = flag_candidate cid row st
          in if new_status = ''accepted'' \<and> instruction_flagged row \<and> \<not> explicitly_allowed_accept_flagged p
             then Returned (make_error (-32004) (''accept_flagged_required: candidate is instruction_like; accepting it requires literal '' @
                    quoted ''accept_flagged'' @ '' capability'') request_id) st1
             else if new_status = ''accepted'' \<and> \<not> is_operator_principal p \<and> \<not> explicitly_allowed_operator g p
             then Raised (make_error (-32004) (''operator_only: accepting candidate #'' @ int_str cid @
                    '' into a durable learning requires an operator/govern principal (caller '' @ quoted (ep_agent_id p) @
                    '' owns the candidate but may only reject/redact it, not self-approve it into durable memory)'') request_id) st1
             else (case (if new_status = ''accepted'' then accept_into_store g p row params request_id now st1
                         else Finished new_status None (if cp_principal row = [] then ep_agent_id p else cp_principal row) [] st1) of
                 Finished status lid author docs st2 \<Rightarrow>
                   (case settle_candidate p cid status reason now st2 of
                      (final, st3) \<Rightarrow> Finished final lid author docs st3)
               | stop \<Rightarrow> stop))"

text \<open>The work after the commit.\<close>

definition settle_accepted_candidate :: "gov_env \<Rightarrow> int \<Rightarrow> string \<Rightarrow> string \<Rightarrow> int \<Rightarrow> bool \<times> effect list" where
  "settle_accepted_candidate g cid agent_id content lid =
     (ge_indexed g, [IndexDurable agent_id content lid, ArchiveInbox cid])"

definition resolved_reply :: "pyval \<Rightarrow> int \<Rightarrow> string \<Rightarrow> int option \<Rightarrow> string \<Rightarrow> bool \<Rightarrow> pyval" where
  "resolved_reply request_id cid status lid agent indexed_ok = make_response (PDict (
     [(''status'', PStr ''resolved''), (''candidate_id'', PInt cid), (''new_status'', PStr status),
      (''learning_id'', case lid of None \<Rightarrow> PNone | Some i \<Rightarrow> PInt i), (''principal'', PStr agent)] @
      (if indexed_ok then [] else [(''indexed'', PBool False)]))) request_id"

definition resolve_effects ::
  "gov_env \<Rightarrow> int \<Rightarrow> string \<Rightarrow> int option \<Rightarrow> string \<Rightarrow> (string \<times> string) list \<Rightarrow> bool \<times> effect list" where
  "resolve_effects g cid content lid author docs =
    (let purges = map (\<lambda>(a, c). PurgeDurable a c) (filter (\<lambda>(_, c). c \<noteq> []) docs)
     in case lid of
          None \<Rightarrow> (True, purges @ [ArchiveInbox cid])
        | Some i \<Rightarrow> (case settle_accepted_candidate g cid author content i of (ok, es) \<Rightarrow> (ok, purges @ es)))"

definition agent_id_text :: "string \<Rightarrow> string" where
  "agent_id_text a = (if a = [] then ''agent_id must be a non-empty string, got '' @ repr_str a
     else ''invalid agent_id '' @ repr_str a @ '': must match ^[a-z0-9][a-z0-9._-]{0,63}$ (lowercase alphanumeric/dots/underscores/hyphens, max 64 chars)'')"

text \<open>
  The handler once the principal is known: the checks of the parameters, the transaction, the work after it.  The
  text of a database error is left out of the reply.
\<close>

definition resolve_stamped ::
  "gov_env \<Rightarrow> effective_principal \<Rightarrow> pydict \<Rightarrow> pyval \<Rightarrow> rat \<Rightarrow> store \<Rightarrow> (pyval \<times> effect list) \<times> store" where
  "resolve_stamped g p params request_id now st =
     (if \<not> isl (validate_agent_id (ep_agent_id p)) then
       (let cid_value = dget params ''candidate_id'' in
        if cid_value = PNone then ((make_error (-32602) ''candidate_id is required'' request_id, []), st)
        else case py_int cid_value of
          None \<Rightarrow> ((make_error (-32602) ''candidate_id must be integer'' request_id, []), st)
        | Some cid \<Rightarrow>
           (let decision = decision_of params in
            if decision \<in> set UNIMPLEMENTED_DECISIONS
            then ((make_error (-32602) (''decision '' @ quoted decision @ '' is not yet implemented: it previously mapped to a plain accept with no privacy/expiry/scope enforcement (see issue #123); decision must be one of '' @ allowed_text) request_id, []), st)
            else case map_of STATUS_MAP decision of
              None \<Rightarrow> ((make_error (-32602) (''decision must be one of '' @ allowed_text) request_id, []), st)
            | Some new_status \<Rightarrow>
               (case resolve_in_transaction g p params request_id cid new_status (reason_of params) now st of
                  Raised err st' \<Rightarrow> ((err, []), rollback st st')
                | Failed st' \<Rightarrow> ((fst (redact_value redact_text (make_error (-32000) ''resolve_candidate error: constraint failed'' request_id)), []), rollback st st')
                | Returned reply st' \<Rightarrow> ((reply, []), st')
                | Finished status lid author docs st' \<Rightarrow>
                   (case resolve_effects g cid (case find (\<lambda>c. cp_id c = cid) (st_candidates st) of None \<Rightarrow> [] | Some row \<Rightarrow> cp_content row)
                           lid author docs of
                      (indexed_ok, es) \<Rightarrow>
                        ((resolved_reply request_id cid status lid (ep_agent_id p) indexed_ok, es), st')))))
      else ((make_error (-32602) (agent_id_text (ep_agent_id p)) request_id, []), st))"

definition resolve_candidate ::
  "gov_env \<Rightarrow> handler_identity \<Rightarrow> pydict \<Rightarrow> pyval \<Rightarrow> rat \<Rightarrow> store
     \<Rightarrow> principal_error + (pyval \<times> effect list) \<times> store" where
  "resolve_candidate g ident params request_id now st = (case ident of
     IdentityRaise e \<Rightarrow> Inl e
   | Refused err \<Rightarrow> Inr ((err, []), st)
   | Stamped p \<Rightarrow> Inr (resolve_stamped g p params request_id now st))"

section \<open>Listing\<close>

record listing =
  ls_rows :: "candidate list"
  ls_status :: string
  ls_count :: nat
  ls_total :: nat
  ls_limit :: nat
  ls_has_more :: bool

definition status_filter :: "pydict \<Rightarrow> string" where
  "status_filter params = (case dget params ''status'' of
     PStr s \<Rightarrow> (if py_strip s = [] then ''proposed'' else py_strip s)
   | PNone \<Rightarrow> ''proposed''
   | v \<Rightarrow> (if py_strip (py_str v) = [] then ''proposed'' else py_strip (py_str v)))"

text \<open>\<open>ORDER BY proposed_at DESC LIMIT n\<close> over rows in key order.\<close>

definition newest_candidates :: "candidate list \<Rightarrow> candidate list" where
  "newest_candidates cs = sort_key (\<lambda>c. - cp_proposed_at c) cs"

text \<open>
  An infinite \<open>limit\<close> raises an \<open>OverflowError\<close>, which the handler does not catch.  The decoding of a row's JSON
  fields, its review columns and its redaction are left out.
\<close>

datatype list_end = ListRaises | ListError pyval | Listed listing

definition list_candidates :: "effective_principal \<Rightarrow> pydict \<Rightarrow> pyval \<Rightarrow> store \<Rightarrow> list_end" where
  "list_candidates p params request_id st = (let raw_limit = dget_or params ''limit'' (PInt 100) in
     case py_int raw_limit of
     None \<Rightarrow> (case raw_limit of
         PFloat PosInf _ \<Rightarrow> ListRaises
       | PFloat NegInf _ \<Rightarrow> ListRaises
       | _ \<Rightarrow> ListError (make_error (-32602) ''limit must be an integer'' request_id))
   | Some n \<Rightarrow>
      (let limit = nat (min (max n 1) 500); status_f = status_filter params;
           explicit_agent = py_strip (py_str (py_or (dget params ''agent_id'') (PStr []))) \<noteq> [];
           wide = (is_operator_principal p \<and> \<not> explicit_agent);
           hits = newest_candidates (filter (\<lambda>c. cp_status c = status_f
             \<and> (wide \<or> cp_principal c \<in> set (principal_family (ep_agent_id p)))) (st_candidates st));
           probe = take (limit + 1) hits; has_more = limit < length probe; rows = take limit probe
       in Listed \<lparr>ls_rows = rows, ls_status = status_f, ls_count = length rows,
               ls_total = (if has_more then length rows + 1 else length rows), ls_limit = limit, ls_has_more = has_more\<rparr>))"

end
