(* ===== verification/Store_Conformity.thy ===== *)
theory Store_Conformity
  imports Learning_Graph
begin

text \<open>
  The constraints of the schema as a predicate on \<open>store\<close>, table by table, and that the operations of
  \<open>Learning_Graph\<close> keep them; what eviction does to the learnings it leaves; the aggregate lifecycle of the
  documents that several learnings share.
\<close>

section \<open>Conformity\<close>

definition learnings_ok :: "learning list \<Rightarrow> int \<Rightarrow> bool" where
  "learnings_ok ls n \<longleftrightarrow> 0 < n \<and> distinct (map l_id ls) \<and> (\<forall>l\<in>set ls. 0 < l_id l \<and> l_id l < n
     \<and> set_option (l_successor l) \<subseteq> l_id ` set ls \<and> set_option (l_contradicts l) \<subseteq> l_id ` set ls)"

definition documents_ok :: "document list \<Rightarrow> int \<Rightarrow> bool" where
  "documents_ok ds n \<longleftrightarrow> distinct (map d_id ds) \<and> inj_on d_path (set ds) \<and> (\<forall>d\<in>set ds. d_id d < n)
     \<and> (\<forall>d\<in>set ds. \<forall>e\<in>set ds. \<forall>u. d_uri d = Some u \<and> d_uri e = Some u \<longrightarrow> d = e)"

definition joins_ok :: "(int \<times> int) list \<Rightarrow> int set \<Rightarrow> int set \<Rightarrow> bool" where
  "joins_ok js lids dids \<longleftrightarrow> distinct js \<and> fst ` set js \<subseteq> lids \<and> snd ` set js \<subseteq> dids"

definition candidates_ok :: "candidate list \<Rightarrow> int \<Rightarrow> bool" where
  "candidates_ok cs n \<longleftrightarrow> distinct (map cp_id cs) \<and> (\<forall>c\<in>set cs. cp_id c < n)"

definition store_ok :: "store \<Rightarrow> bool" where
  "store_ok st \<longleftrightarrow> learnings_ok (st_learnings st) (st_next_learning st) \<and> documents_ok (st_documents st) (st_next_document st)
     \<and> joins_ok (st_joins st) (l_id ` set (st_learnings st)) (d_id ` set (st_documents st))
     \<and> candidates_ok (st_candidates st) (st_next_candidate st)"

named_theorems store_simps "the tables an operation leaves alone"

lemma documents_ok_filter: "documents_ok ds n \<Longrightarrow> documents_ok (filter P ds) n"
  unfolding documents_ok_def by (auto simp: distinct_map_filter inj_on_def)

lemma joins_ok_filter: "joins_ok js a b \<Longrightarrow> joins_ok (filter P js) a b"
  by (auto simp: joins_ok_def)

lemma joins_ok_mono: "joins_ok js a b \<Longrightarrow> a \<subseteq> a' \<Longrightarrow> b \<subseteq> b' \<Longrightarrow> joins_ok js a' b'"
  by (auto simp: joins_ok_def)

lemma documents_ok_mono: "documents_ok ds n \<Longrightarrow> n \<le> m \<Longrightarrow> documents_ok ds m"
  by (force simp: documents_ok_def)

text \<open>A rewrite of one row that keeps its key and path.\<close>

lemma map_keeps_keys:
  assumes "\<And>x. k (f x) = k x"
  shows "k ` set (map f xs) = k ` set xs" "map k (map f xs) = map k xs"
  using assms by (auto simp: image_image)

section \<open>Eviction keeps the store well formed\<close>

lemma drop_file_tables [store_simps]:
  "st_learnings (drop_file p st) = st_learnings st" "st_documents (drop_file p st) = st_documents st"
  "st_joins (drop_file p st) = st_joins st" "st_candidates (drop_file p st) = st_candidates st"
  "st_next_learning (drop_file p st) = st_next_learning st" "st_next_document (drop_file p st) = st_next_document st"
  "st_next_candidate (drop_file p st) = st_next_candidate st" "st_actions (drop_file p st) = st_actions st"
  "st_tombstones (drop_file p st) = st_tombstones st" "st_allows_dns (drop_file p st) = st_allows_dns st"
  "st_typed_graph (drop_file p st) = st_typed_graph st"
  by (simp_all add: drop_file_def)

lemma document_step_tables [store_simps]:
  "st_learnings (evict_document_step st did) = st_learnings st"
  "st_candidates (evict_document_step st did) = st_candidates st"
  "st_next_learning (evict_document_step st did) = st_next_learning st"
  "st_next_document (evict_document_step st did) = st_next_document st"
  "st_next_candidate (evict_document_step st did) = st_next_candidate st"
  "st_actions (evict_document_step st did) = st_actions st"
  "st_allows_dns (evict_document_step st did) = st_allows_dns st"
  "st_typed_graph (evict_document_step st did) = st_typed_graph st"
  by (simp_all add: evict_document_step_def drop_document_def Let_def store_simps split: option.splits)

lemma document_steps_tables [store_simps]:
  "st_learnings (foldl evict_document_step st ds) = st_learnings st"
  "st_candidates (foldl evict_document_step st ds) = st_candidates st"
  "st_next_learning (foldl evict_document_step st ds) = st_next_learning st"
  "st_next_document (foldl evict_document_step st ds) = st_next_document st"
  "st_next_candidate (foldl evict_document_step st ds) = st_next_candidate st"
  "st_actions (foldl evict_document_step st ds) = st_actions st"
  "st_allows_dns (foldl evict_document_step st ds) = st_allows_dns st"
  "st_typed_graph (foldl evict_document_step st ds) = st_typed_graph st"
  by (induction ds arbitrary: st) (simp_all add: store_simps)

lemma document_step_joins [store_simps]: "st_joins (evict_document_step st did) = st_joins st"
proof -
  have "filter (\<lambda>j. snd j \<noteq> did) js = js" if "did \<notin> snd ` set js" for js :: "(int \<times> int) list"
    using that by (auto simp: filter_id_conv)
  then show ?thesis
    by (auto simp: evict_document_step_def drop_document_def Let_def store_simps split: option.splits)
qed

lemma document_steps_joins [store_simps]: "st_joins (foldl evict_document_step st ds) = st_joins st"
  by (induction ds arbitrary: st) (simp_all add: store_simps)

lemma document_step_documents:
  "st_documents (evict_document_step st did) =
     filter (\<lambda>d. d_id d \<noteq> did \<or> did \<in> snd ` set (st_joins st)) (st_documents st)"
  by (auto simp: evict_document_step_def drop_document_def Let_def store_simps filter_id_conv split: option.splits)

lemma document_steps_documents:
  "st_documents (foldl evict_document_step st ds) =
     filter (\<lambda>d. d_id d \<notin> set ds \<or> d_id d \<in> snd ` set (st_joins st)) (st_documents st)"
  by (induction ds arbitrary: st) (auto simp: document_step_documents store_simps intro!: filter_cong)

lemma document_steps_ok:
  assumes "joins_ok (st_joins st) lids (d_id ` set (st_documents st))"
  shows "joins_ok (st_joins st) lids (d_id ` set (st_documents (foldl evict_document_step st ds)))"
proof -
  have "d \<in> d_id ` set (st_documents (foldl evict_document_step st ds))" if "d \<in> snd ` set (st_joins st)" for d
  proof -
    obtain x where "x \<in> set (st_documents st)" "d = d_id x" using assms \<open>d \<in> _\<close> by (auto simp: joins_ok_def)
    then show ?thesis using that by (simp add: document_steps_documents)
  qed
  then show ?thesis using assms unfolding joins_ok_def by blast
qed

text \<open>The learnings that remain.\<close>

definition unpoint :: "int \<Rightarrow> learning \<Rightarrow> learning" where
  "unpoint lid l = (if l_successor l = Some lid then l\<lparr>l_successor := None\<rparr> else l)"

lemma unpoint_simps [simp]:
  "l_id (unpoint lid l) = l_id l" "l_contradicts (unpoint lid l) = l_contradicts l" "l_agent (unpoint lid l) = l_agent l"
  "l_content (unpoint lid l) = l_content l" "l_status (unpoint lid l) = l_status l" "l_hash (unpoint lid l) = l_hash l"
  "l_category (unpoint lid l) = l_category l"
  "l_successor (unpoint lid l) = (if l_successor l = Some lid then None else l_successor l)"
  by (simp_all add: unpoint_def)

lemma bury_tables [store_simps]:
  "st_learnings (bury sha1 v lid r st) = st_learnings st" "st_documents (bury sha1 v lid r st) = st_documents st"
  "st_joins (bury sha1 v lid r st) = st_joins st" "st_candidates (bury sha1 v lid r st) = st_candidates st"
  "st_next_learning (bury sha1 v lid r st) = st_next_learning st"
  "st_next_document (bury sha1 v lid r st) = st_next_document st"
  "st_next_candidate (bury sha1 v lid r st) = st_next_candidate st" "st_actions (bury sha1 v lid r st) = st_actions st"
  "st_allows_dns (bury sha1 v lid r st) = st_allows_dns st" "st_typed_graph (bury sha1 v lid r st) = st_typed_graph st"
  by (simp_all add: bury_def unlink_projection_def store_simps Let_def split: option.splits)

lemma forget_tables [store_simps]:
  "st_learnings (forget_learning lid st) = map (unpoint lid) (st_learnings st)"
  "st_joins (forget_learning lid st) = filter (\<lambda>j. fst j \<noteq> lid) (st_joins st)"
  "st_documents (forget_learning lid st) = st_documents st" "st_candidates (forget_learning lid st) = st_candidates st"
  "st_next_learning (forget_learning lid st) = st_next_learning st"
  "st_next_document (forget_learning lid st) = st_next_document st"
  "st_next_candidate (forget_learning lid st) = st_next_candidate st" "st_actions (forget_learning lid st) = st_actions st"
  "st_allows_dns (forget_learning lid st) = st_allows_dns st" "st_typed_graph (forget_learning lid st) = st_typed_graph st"
  by (simp_all add: forget_learning_def unpoint_def[abs_def])

lemma delete_tables [store_simps]:
  "st_learnings (delete_learning lid st) = filter (\<lambda>l. l_id l \<noteq> lid) (st_learnings st)"
  "st_joins (delete_learning lid st) = st_joins st" "st_documents (delete_learning lid st) = st_documents st"
  "st_candidates (delete_learning lid st) = st_candidates st"
  "st_next_learning (delete_learning lid st) = st_next_learning st"
  "st_next_document (delete_learning lid st) = st_next_document st"
  "st_next_candidate (delete_learning lid st) = st_next_candidate st" "st_actions (delete_learning lid st) = st_actions st"
  "st_allows_dns (delete_learning lid st) = st_allows_dns st" "st_typed_graph (delete_learning lid st) = st_typed_graph st"
  by (simp_all add: delete_learning_def)

definition survivors :: "int \<Rightarrow> learning list \<Rightarrow> learning list" where
  "survivors lid ls = map (unpoint lid) (filter (\<lambda>l. l_id l \<noteq> lid) ls)"

lemma filter_unpoint: "filter (\<lambda>l. l_id l \<noteq> lid) (map (unpoint lid) ls) = survivors lid ls"
  by (induction ls) (simp_all add: survivors_def)

lemma survivors_ids: "l_id ` set (survivors lid ls) = l_id ` set ls - {lid}"
  by (auto simp: survivors_def image_image)

lemma survivors_absent:
  assumes "lid \<notin> l_id ` set ls" and "\<And>l. l \<in> set ls \<Longrightarrow> l_successor l \<noteq> Some lid"
  shows "survivors lid ls = ls"
proof -
  have "filter (\<lambda>l. l_id l \<noteq> lid) ls = ls" using assms(1) by (auto simp: filter_id_conv)
  then show ?thesis using assms(2) by (simp add: survivors_def unpoint_def map_idI)
qed

lemma survivors_ok:
  assumes ok: "learnings_ok ls n" and c: "\<And>l. l \<in> set ls \<Longrightarrow> l_contradicts l = Some lid \<Longrightarrow> l_id l = lid"
  shows "learnings_ok (survivors lid ls) n"
proof -
  have "distinct (map l_id (survivors lid ls))"
    using ok by (simp add: learnings_ok_def survivors_def distinct_map_filter comp_def)
  moreover have "set_option (l_successor (unpoint lid l)) \<subseteq> l_id ` set ls - {lid}" if "l \<in> set ls" for l
    using ok that by (auto simp: learnings_ok_def)
  moreover have "set_option (l_contradicts l) \<subseteq> l_id ` set ls - {lid}" if "l \<in> set ls" "l_id l \<noteq> lid" for l
    using ok that c[OF that(1)] by (auto simp: learnings_ok_def)
  ultimately show ?thesis
    using ok unfolding learnings_ok_def survivors_ids by (auto simp: survivors_def)
qed

text \<open>The two ways an eviction goes through.\<close>

lemma evict_cases:
  assumes "evict_learning_to_cold_archive sha1 vault lid reason st = (Some b, st')"
  obtains (absent) "learning_row st lid = None" "st' = st"
  | (evicted) "st' = foldl evict_document_step (delete_learning lid (forget_learning lid (bury sha1 vault lid reason st)))
        (evicted_doc_ids sha1 vault lid st)"
      "learning_row st lid = None \<or> \<not> (\<exists>l\<in>set (st_learnings st). l_contradicts l = Some lid \<and> l_id l \<noteq> lid)"
  using assms by (auto simp: evict_learning_to_cold_archive_def Let_def store_simps split: if_splits)

lemma absent_learning:
  assumes ok: "store_ok st" and none: "learning_row st lid = None"
  shows "survivors lid (st_learnings st) = st_learnings st" "filter (\<lambda>j. fst j \<noteq> lid) (st_joins st) = st_joins st"
    "l \<in> set (st_learnings st) \<Longrightarrow> l_contradicts l \<noteq> Some lid"
proof -
  have no: "lid \<notin> l_id ` set (st_learnings st)" using none by (auto simp: learning_row_def find_None_iff)
  have refs: "l_successor l \<noteq> Some lid" "l_contradicts l \<noteq> Some lid" if "l \<in> set (st_learnings st)" for l
  proof -
    have "set_option (l_successor l) \<subseteq> l_id ` set (st_learnings st)" "set_option (l_contradicts l) \<subseteq> l_id ` set (st_learnings st)"
      using ok that by (simp_all add: store_ok_def learnings_ok_def)
    then show "l_successor l \<noteq> Some lid" "l_contradicts l \<noteq> Some lid" using no by auto
  qed
  then show "l \<in> set (st_learnings st) \<Longrightarrow> l_contradicts l \<noteq> Some lid" by blast
  show "survivors lid (st_learnings st) = st_learnings st" using no refs(1) by (rule survivors_absent)
  have "fst j \<noteq> lid" if "j \<in> set (st_joins st)" for j using ok no that by (auto simp: store_ok_def joins_ok_def)
  then show "filter (\<lambda>j. fst j \<noteq> lid) (st_joins st) = st_joins st" by (simp add: filter_id_conv)
qed

lemma evicted_tables:
  assumes ok: "store_ok st" and res: "evict_learning_to_cold_archive sha1 vault lid reason st = (Some b, st')"
  shows "st_learnings st' = survivors lid (st_learnings st)"
    and "st_joins st' = filter (\<lambda>j. fst j \<noteq> lid) (st_joins st)"
    and "\<exists>P. st_documents st' = filter P (st_documents st)"
    and "st_candidates st' = st_candidates st" "st_next_learning st' = st_next_learning st"
      "st_next_document st' = st_next_document st" "st_next_candidate st' = st_next_candidate st"
      "st_actions st' = st_actions st" "st_allows_dns st' = st_allows_dns st" "st_typed_graph st' = st_typed_graph st"
    and "snd ` set (st_joins st') \<subseteq> d_id ` set (st_documents st')"
    and "l \<in> set (st_learnings st) \<Longrightarrow> l_contradicts l = Some lid \<Longrightarrow> l_id l = lid"
proof -
  have same: "\<exists>P. xs = filter P xs" for xs :: "document list" by (rule exI[of _ "\<lambda>_. True"]) simp
  have joined: "snd ` set (filter P (st_joins st)) \<subseteq> d_id ` set (st_documents st)" for P
    using ok by (auto simp: store_ok_def joins_ok_def)
  note docs = document_steps_ok[unfolded joins_ok_def, of _ UNIV]
  have "st_learnings st' = survivors lid (st_learnings st) \<and> st_joins st' = filter (\<lambda>j. fst j \<noteq> lid) (st_joins st)
    \<and> (\<exists>P. st_documents st' = filter P (st_documents st)) \<and> st_candidates st' = st_candidates st
    \<and> st_next_learning st' = st_next_learning st \<and> st_next_document st' = st_next_document st
    \<and> st_next_candidate st' = st_next_candidate st \<and> st_actions st' = st_actions st \<and> st_allows_dns st' = st_allows_dns st
    \<and> st_typed_graph st' = st_typed_graph st \<and> snd ` set (st_joins st') \<subseteq> d_id ` set (st_documents st')"
    using res
  proof (cases rule: evict_cases)
    case absent
    then show ?thesis using absent_learning(1,2)[OF ok absent(1)] same joined[of "\<lambda>_. True"] by simp
  next
    case evicted
    have "snd ` set (filter (\<lambda>j. fst j \<noteq> lid) (st_joins st)) \<subseteq> d_id ` set (filter
      (\<lambda>d. d_id d \<notin> set ds \<or> d_id d \<in> snd ` set (filter (\<lambda>j. fst j \<noteq> lid) (st_joins st))) (st_documents st))" for ds
      using joined[of "\<lambda>j. fst j \<noteq> lid"] by (fastforce simp: image_iff)
    then show ?thesis unfolding evicted(1)
      by (simp add: store_simps document_steps_documents filter_unpoint) blast
  qed
  then show "st_learnings st' = survivors lid (st_learnings st)"
    and "st_joins st' = filter (\<lambda>j. fst j \<noteq> lid) (st_joins st)"
    and "\<exists>P. st_documents st' = filter P (st_documents st)"
    and "st_candidates st' = st_candidates st" "st_next_learning st' = st_next_learning st"
      "st_next_document st' = st_next_document st" "st_next_candidate st' = st_next_candidate st"
      "st_actions st' = st_actions st" "st_allows_dns st' = st_allows_dns st" "st_typed_graph st' = st_typed_graph st"
    and "snd ` set (st_joins st') \<subseteq> d_id ` set (st_documents st')" by blast+
  show "l \<in> set (st_learnings st) \<Longrightarrow> l_contradicts l = Some lid \<Longrightarrow> l_id l = lid"
    using res by (cases rule: evict_cases) (auto dest: absent_learning(3)[OF ok])
qed

lemma evict_keeps_ok:
  assumes ok: "store_ok st" and res: "evict_learning_to_cold_archive sha1 vault lid reason st = (Some b, st')"
  shows "store_ok st'"
proof -
  note t = evicted_tables[OF ok res]
  obtain P where docs: "st_documents st' = filter P (st_documents st)" using t(3) by blast
  have "learnings_ok (st_learnings st') (st_next_learning st')"
    unfolding t(1,5) using ok by (intro survivors_ok t(12)) (simp_all add: store_ok_def)
  moreover have "joins_ok (st_joins st') (l_id ` set (st_learnings st')) (d_id ` set (st_documents st'))"
    using ok t(11) unfolding joins_ok_def t(1,2) survivors_ids by (auto simp: store_ok_def joins_ok_def)
  ultimately show ?thesis using ok by (simp add: store_ok_def t(4-7) docs documents_ok_filter)
qed

end
