(* ===== verification/Learning_Lifecycle.thy ===== *)
theory Learning_Lifecycle
  imports Store_Conformity
begin

text \<open>
  What the writes on the learnings tables promise: the canonical node of a learning is found or made and joined,
  never taken from another agent and never reopened unless its members had closed it; retirement closes a shared
  document only with its last active member; eviction keeps the schema's constraints, but gives back to recall what
  the evicted learning had replaced.
\<close>

section \<open>Rewriting one document\<close>

lemma set_document_tables [store_simps]:
  "st_learnings (set_document i f st) = st_learnings st" "st_joins (set_document i f st) = st_joins st"
  "st_candidates (set_document i f st) = st_candidates st" "st_next_learning (set_document i f st) = st_next_learning st"
  "st_next_document (set_document i f st) = st_next_document st"
  "st_next_candidate (set_document i f st) = st_next_candidate st" "st_actions (set_document i f st) = st_actions st"
  "st_allows_dns (set_document i f st) = st_allows_dns st" "st_typed_graph (set_document i f st) = st_typed_graph st"
  "st_files (set_document i f st) = st_files st" "st_tombstones (set_document i f st) = st_tombstones st"
  "st_documents (set_document i f st) = map (\<lambda>d. if d_id d = i then f d else d) (st_documents st)"
  by (simp_all add: set_document_def)

lemma rewrite_documents_ok:
  assumes ok: "documents_ok ds n" and id: "\<And>d. d_id (f d) = d_id d" and path: "\<And>d. d_path (f d) = d_path d"
    and uri: "\<And>d e u. d \<in> set ds \<Longrightarrow> e \<in> set ds \<Longrightarrow> d_id d = i \<Longrightarrow> d_id e \<noteq> i \<Longrightarrow> d_uri (f d) = Some u \<Longrightarrow> d_uri e \<noteq> Some u"
  shows "documents_ok (map (\<lambda>d. if d_id d = i then f d else d) ds) n"
proof -
  define g where "g = (\<lambda>d. if d_id d = i then f d else d)"
  have gid: "d_id (g d) = d_id d" "d_path (g d) = d_path d" for d using id path by (simp_all add: g_def)
  have one: "d = e" if "d \<in> set ds" "e \<in> set ds" "d_id d = d_id e" for d e
    using ok that by (auto simp: documents_ok_def distinct_map inj_on_def)
  have eq: "d = e" if "d \<in> set ds" "e \<in> set ds" "d_uri (g d) = Some u" "d_uri (g e) = Some u" for d e u
    using that ok uri[of d e u] uri[of e d u] one[of d e] by (auto simp: g_def documents_ok_def split: if_splits)
  have path_one: "d = e" if "d \<in> set ds" "e \<in> set ds" "d_path d = d_path e" for d e
    using ok that by (auto simp: documents_ok_def inj_on_def)
  have "distinct (map d_id (map g ds))" using ok gid by (simp add: documents_ok_def comp_def)
  moreover have "inj_on d_path (set (map g ds))" using path_one gid by (auto simp: inj_on_def)
  ultimately have "documents_ok (map g ds) n"
    using ok eq gid unfolding documents_ok_def by (auto simp del: map_map)
  then show ?thesis by (simp add: g_def)
qed

section \<open>The canonical node\<close>

lemma reconcile_tables [store_simps]:
  "st_learnings (reconcile_new_active_mapping st row l a c m p) = st_learnings st"
  "st_joins (reconcile_new_active_mapping st row l a c m p) = st_joins st"
  "st_candidates (reconcile_new_active_mapping st row l a c m p) = st_candidates st"
  "st_next_learning (reconcile_new_active_mapping st row l a c m p) = st_next_learning st"
  "st_next_document (reconcile_new_active_mapping st row l a c m p) = st_next_document st"
  "st_next_candidate (reconcile_new_active_mapping st row l a c m p) = st_next_candidate st"
  "st_actions (reconcile_new_active_mapping st row l a c m p) = st_actions st"
  "st_allows_dns (reconcile_new_active_mapping st row l a c m p) = st_allows_dns st"
  "st_typed_graph (reconcile_new_active_mapping st row l a c m p) = st_typed_graph st"
  "st_files (reconcile_new_active_mapping st row l a c m p) = st_files st"
  "st_tombstones (reconcile_new_active_mapping st row l a c m p) = st_tombstones st"
  by (simp_all add: reconcile_new_active_mapping_def store_simps)

lemma add_join_tables [store_simps]:
  "st_learnings (add_join l d st) = st_learnings st" "st_documents (add_join l d st) = st_documents st"
  "st_candidates (add_join l d st) = st_candidates st" "st_next_learning (add_join l d st) = st_next_learning st"
  "st_next_document (add_join l d st) = st_next_document st" "st_next_candidate (add_join l d st) = st_next_candidate st"
  "st_actions (add_join l d st) = st_actions st" "st_allows_dns (add_join l d st) = st_allows_dns st"
  "st_typed_graph (add_join l d st) = st_typed_graph st" "st_files (add_join l d st) = st_files st"
  "st_tombstones (add_join l d st) = st_tombstones st"
  "set (st_joins (add_join l d st)) = insert (l, d) (set (st_joins st))"
  by (auto simp: add_join_def)

lemma add_join_ok: "joins_ok (st_joins st) a b \<Longrightarrow> l \<in> a \<Longrightarrow> d \<in> b \<Longrightarrow> joins_ok (st_joins (add_join l d st)) a b"
  by (auto simp: joins_ok_def add_join_def)

text \<open>The ways the search for a node ends.\<close>

lemma ensure_cases:
  assumes "ensure_canonical_learning_node sha1 extract st lid agent content vault now = Some (r, st')"
  obtains (skipped) "r = None" "st' = st"
  | (made) "document_at st (durable_doc_path sha1 agent vault content) = None" "lid \<in> l_id ` set (st_learnings st)"
      "r = Some (st_next_document st)" "\<forall>d\<in>set (st_documents st). d_uri d \<noteq> Some (learning_uri lid)"
      "st' = add_join lid (st_next_document st) (st\<lparr>st_documents := st_documents st @
         [canonical_document st lid agent (durable_metadata extract content) (durable_doc_path sha1 agent vault content) now],
         st_next_document := st_next_document st + 1\<rparr>)"
  | (reused) row where "document_at st (durable_doc_path sha1 agent vault content) = Some row" "d_agent row = agent"
      "lid \<in> l_id ` set (st_learnings st)" "r = Some (d_id row)"
      "\<forall>d\<in>set (st_documents st). d_id d = d_id row \<or> d_uri d \<noteq> Some (learning_uri lid)"
      "st' = add_join lid (d_id row) (set_document (d_id row) (\<lambda>d. d\<lparr>d_kind := Some ''learning'', d_uri := Some (learning_uri lid)\<rparr>)
         (reconcile_new_active_mapping st row lid agent content (durable_metadata extract content)
            (durable_doc_path sha1 agent vault content)))"
proof (cases "lid = 0 \<or> agent = [] \<or> content = [] \<or> \<not> st_typed_graph st")
  case True
  then have "Some (r, st') = Some (None, st)"
    using assms unfolding ensure_canonical_learning_node_def by (simp only: simp_thms if_True split: if_splits)
  then show thesis using skipped by simp
next
  case False
  define path where "path = durable_doc_path sha1 agent vault content"
  note run = assms[unfolded ensure_canonical_learning_node_def Let_def joined_def, folded path_def]
  show thesis
  proof (cases "document_at st path")
    case None
    then show thesis using run False made by (simp add: path_def split: if_splits)
  next
    case (Some row)
    show thesis
    proof (cases "d_agent row = agent")
      case True
      then show thesis using run False Some reused[of row] by (auto simp: path_def store_simps split: if_splits)
    next
      case False
      then show thesis using run \<open>\<not> (lid = 0 \<or> _)\<close> Some skipped by (simp split: if_splits)
    qed
  qed
qed

lemma ensure_tables:
  assumes "ensure_canonical_learning_node sha1 extract st lid agent content vault now = Some (r, st')"
  shows "st_learnings st' = st_learnings st" "st_candidates st' = st_candidates st"
    "st_next_learning st' = st_next_learning st" "st_next_candidate st' = st_next_candidate st"
    "st_actions st' = st_actions st" "st_allows_dns st' = st_allows_dns st" "st_typed_graph st' = st_typed_graph st"
    "st_files st' = st_files st" "st_tombstones st' = st_tombstones st"
  using assms by (cases rule: ensure_cases; simp add: store_simps)+

lemma document_at_row: "document_at st p = Some row \<Longrightarrow> row \<in> set (st_documents st) \<and> d_path row = p"
  by (auto simp: document_at_def find_Some_iff)

lemma document_at_none: "document_at st p = None \<Longrightarrow> d \<in> set (st_documents st) \<Longrightarrow> d_path d \<noteq> p"
  by (auto simp: document_at_def find_None_iff)

lemma reconcile_documents:
  "st_documents (reconcile_new_active_mapping st row l a c m p) =
     (if reopens st row l a c m p
      then map (\<lambda>d. if d_id d = d_id row then d\<lparr>d_page_status := Some ''accepted'', d_superseded_by := None\<rparr> else d) (st_documents st)
      else st_documents st)"
  by (simp add: reconcile_new_active_mapping_def store_simps)

lemma reconcile_others:
  "e \<in> set (st_documents (reconcile_new_active_mapping st row l a c m p)) \<Longrightarrow> d_id e \<noteq> d_id row \<Longrightarrow> e \<in> set (st_documents st)"
  by (auto simp: reconcile_documents split: if_splits)

lemma reconcile_documents_ok:
  "documents_ok (st_documents st) n \<Longrightarrow> documents_ok (st_documents (reconcile_new_active_mapping st row l a c m p)) n"
  unfolding reconcile_documents by (auto intro!: rewrite_documents_ok) (auto simp: documents_ok_def)

lemma rewritten_ids: "(\<And>d. d_id (f d) = d_id d) \<Longrightarrow>
    d_id ` set (map (\<lambda>d. if d_id d = i then f d else d) ds) = d_id ` set ds"
  by (rule map_keeps_keys(1)) simp

lemma reconcile_ids:
  "d_id ` set (st_documents (reconcile_new_active_mapping st row l a c m p)) = d_id ` set (st_documents st)"
  unfolding reconcile_documents by (simp only: split: if_split) (intro conjI impI rewritten_ids refl, simp)

lemma made_documents_ok:
  assumes ok: "documents_ok ds n" and "d_id d = n" and "\<And>e. e \<in> set ds \<Longrightarrow> d_path e \<noteq> d_path d"
    and "\<And>e u. e \<in> set ds \<Longrightarrow> d_uri d = Some u \<Longrightarrow> d_uri e \<noteq> Some u"
  shows "documents_ok (ds @ [d]) (n + 1)"
proof -
  have "n \<notin> d_id ` set ds" using ok by (auto simp: documents_ok_def)
  moreover have "inj_on d_path (set (ds @ [d]))" using ok assms(3) unfolding documents_ok_def inj_on_def by force
  moreover have "\<forall>x\<in>set (ds @ [d]). d_id x < n + 1" using ok assms(2) unfolding documents_ok_def by force
  moreover have "\<forall>x\<in>set (ds @ [d]). \<forall>y\<in>set (ds @ [d]). \<forall>u. d_uri x = Some u \<and> d_uri y = Some u \<longrightarrow> x = y"
    using ok assms(4) unfolding documents_ok_def by force
  ultimately show ?thesis using ok assms(2) unfolding documents_ok_def by simp
qed

lemma ensure_keeps_ok:
  assumes ok: "store_ok st" and res: "ensure_canonical_learning_node sha1 extract st lid agent content vault now = Some (r, st')"
  shows "store_ok st'"
  using res
proof (cases rule: ensure_cases)
  case skipped
  then show ?thesis using ok by simp
next
  case made
  let ?d = "canonical_document st lid agent (durable_metadata extract content) (durable_doc_path sha1 agent vault content) now"
  have docs: "documents_ok (st_documents st @ [?d]) (st_next_document st + 1)"
    using ok document_at_none[OF made(1)] made(4)
    by (intro made_documents_ok) (auto simp: store_ok_def canonical_document_def)
  have "joins_ok (st_joins st') (l_id ` set (st_learnings st)) (d_id ` set (st_documents st @ [?d]))"
    unfolding made(5) using ok made(2)
    by (intro add_join_ok) (auto simp: store_ok_def canonical_document_def joins_ok_def)
  then show ?thesis using ok docs by (simp add: store_ok_def made(5) store_simps)
next
  case (reused row)
  note row = document_at_row[OF reused(1)]
  let ?m = "reconcile_new_active_mapping st row lid agent content (durable_metadata extract content)
    (durable_doc_path sha1 agent vault content)"
  let ?f = "\<lambda>d. d\<lparr>d_kind := Some ''learning'', d_uri := Some (learning_uri lid)\<rparr>"
  have docs: "documents_ok (map (\<lambda>d. if d_id d = d_id row then ?f d else d) (st_documents ?m)) (st_next_document st)"
    using ok reused(5) reconcile_others by (intro rewrite_documents_ok reconcile_documents_ok) (auto simp: store_ok_def)
  have ids: "d_id ` set (map (\<lambda>d. if d_id d = d_id row then ?f d else d) (st_documents ?m)) = d_id ` set (st_documents st)"
    using rewritten_ids[of ?f "d_id row" "st_documents ?m"] reconcile_ids by simp
  have "joins_ok (st_joins st') (l_id ` set (st_learnings st)) (d_id ` set (st_documents st))"
    unfolding reused(6) using ok reused(3) row by (intro add_join_ok) (auto simp: store_ok_def store_simps)
  then show ?thesis using ok docs ids by (simp add: store_ok_def reused(6) store_simps)
qed

lemma row_unique:
  assumes "documents_ok ds n" "d \<in> set ds" "e \<in> set ds" "d_id d = d_id e"
  shows "d = e"
  using assms by (auto simp: documents_ok_def distinct_map inj_on_def)

lemma find_path:
  assumes "documents_ok (st_documents st) n" "d \<in> set (st_documents st)"
  shows "document_at st (d_path d) = Some d"
proof (cases "document_at st (d_path d)")
  case None
  then show ?thesis using document_at_none[OF None assms(2)] by simp
next
  case (Some e)
  then show ?thesis using document_at_row[OF Some] assms by (auto simp: documents_ok_def inj_on_def)
qed

text \<open>A node that was found or made is the one at the path, and carries the learning.\<close>

lemma ensured_document:
  assumes ok: "store_ok st"
    and res: "ensure_canonical_learning_node sha1 extract st lid agent content vault now = Some (Some doc, st')"
  shows "\<exists>d\<in>set (st_documents st'). d_id d = doc \<and> d_path d = durable_doc_path sha1 agent vault content
      \<and> d_agent d = agent \<and> d_kind d = Some ''learning'' \<and> d_uri d = Some (learning_uri lid)"
    and "(lid, doc) \<in> set (st_joins st')" and "lid \<in> l_id ` set (st_learnings st')"
  using res
proof (atomize(full), cases rule: ensure_cases)
  case made
  then show "(\<exists>d\<in>set (st_documents st'). d_id d = doc \<and> d_path d = durable_doc_path sha1 agent vault content
      \<and> d_agent d = agent \<and> d_kind d = Some ''learning'' \<and> d_uri d = Some (learning_uri lid))
      \<and> (lid, doc) \<in> set (st_joins st') \<and> lid \<in> l_id ` set (st_learnings st')"
    by (simp add: store_simps canonical_document_def)
next
  case (reused row)
  note row = document_at_row[OF reused(1)]
  let ?m = "reconcile_new_active_mapping st row lid agent content (durable_metadata extract content)
    (durable_doc_path sha1 agent vault content)"
  obtain e where e: "e \<in> set (st_documents ?m)" "d_id e = d_id row" "d_path e = d_path row" "d_agent e = d_agent row"
    using row by (cases "reopens st row lid agent content (durable_metadata extract content) (durable_doc_path sha1 agent vault content)")
      (force simp: reconcile_documents)+
  then have "e\<lparr>d_kind := Some ''learning'', d_uri := Some (learning_uri lid)\<rparr> \<in> set (st_documents st')"
    unfolding reused(6) store_simps by (force simp: image_iff)
  then show "(\<exists>d\<in>set (st_documents st'). d_id d = doc \<and> d_path d = durable_doc_path sha1 agent vault content
      \<and> d_agent d = agent \<and> d_kind d = Some ''learning'' \<and> d_uri d = Some (learning_uri lid))
      \<and> (lid, doc) \<in> set (st_joins st') \<and> lid \<in> l_id ` set (st_learnings st')"
    using e row reused(2-4) by (auto simp: reused(6) store_simps intro!: bexI[of _ "e\<lparr>d_kind := Some ''learning'', d_uri := Some (learning_uri lid)\<rparr>"])
qed simp

lemma ensure_again:
  assumes ok: "store_ok st"
    and res: "ensure_canonical_learning_node sha1 extract st lid agent content vault now = Some (Some doc, st')"
  shows "ensure_canonical_learning_node sha1 extract st' lid agent content vault now' = Some (Some doc, st')"
proof -
  have ok': "documents_ok (st_documents st') (st_next_document st')"
    using ensure_keeps_ok[OF ok res] by (simp add: store_ok_def)
  obtain d where d: "d \<in> set (st_documents st')" "d_id d = doc" "d_path d = durable_doc_path sha1 agent vault content"
    "d_agent d = agent" "d_kind d = Some ''learning''" "d_uri d = Some (learning_uri lid)"
    using ensured_document(1)[OF ok res] by blast
  note joined = ensured_document(2,3)[OF ok res]
  have guard: "\<not> (lid = 0 \<or> agent = [] \<or> content = [])" "st_typed_graph st'"
    using res ensure_tables(7)[OF res] by (auto simp: ensure_canonical_learning_node_def split: if_splits)
  have at: "document_at st' (durable_doc_path sha1 agent vault content) = Some d" using find_path[OF ok' d(1)] d(3) by simp
  have only: "\<not> (\<exists>e\<in>set (st_documents st'). d_id e \<noteq> d_id d \<and> d_uri e = Some (learning_uri lid))"
    using ok' d(1,6) unfolding documents_ok_def by blast
  have shut: "\<not> reopens st' d lid agent content m p" for m p using joined(1) d(2) by (simp add: reopens_def)
  have same: "map (\<lambda>e. if d_id e = d_id d then e\<lparr>d_kind := Some ''learning'', d_uri := Some (learning_uri lid)\<rparr> else e)
    (st_documents st') = st_documents st'"
    using row_unique[OF ok' _ d(1)] d(5,6) by (intro map_idI) (auto, metis document.surjective document.update_convs(11,12))
  show ?thesis
    using guard at only shut same d(2,4) joined
    by (simp add: ensure_canonical_learning_node_def Let_def joined_def reconcile_new_active_mapping_def set_document_def add_join_def)
qed

text \<open>When a learning gets a canonical node, the node is the one document at the path of its author and text, is
  owned by the author, is marked as the learning's and is joined to it; asking again finds the same node and changes
  nothing.
\<close>

theorem canonical_node_found_again:
  assumes "store_ok st"
    and "ensure_canonical_learning_node sha1 extract st lid agent content vault now = Some (Some doc, st')"
  shows "(lid, doc) \<in> set (st_joins st')
    \<and> (\<exists>d\<in>set (st_documents st'). d_id d = doc \<and> d_path d = durable_doc_path sha1 agent vault content
      \<and> d_agent d = agent \<and> d_kind d = Some ''learning'' \<and> d_uri d = Some (learning_uri lid))
    \<and> ensure_canonical_learning_node sha1 extract st' lid agent content vault now' = Some (Some doc, st')"
  using ensured_document[OF assms] ensure_again[OF assms] by blast

section \<open>What a new mapping may reopen\<close>

lemma reopens_closed_by_members:
  assumes "reopens st row lid agent content meta path"
  shows "d_page_status row = Some ''superseded''" "d_privacy row \<noteq> Some ''blocked''" "path \<notin> set (st_files st)"
    "\<not> projection_row_closed (Some (pm_page_status meta)) (Some (pm_privacy meta))"
    "\<forall>l\<in>set (members_of st (d_id row)). \<not> ACTIVE_LEARNING_SQL l"
    "\<exists>l\<in>set (st_learnings st). l_id l = lid \<and> l_agent l = agent \<and> l_content l = content \<and> ACTIVE_LEARNING_SQL l"
  using assms unfolding reopens_def canonical_node_learning_state_def Let_def
  by (auto split: if_splits option.splits)

lemma ensured_rows:
  assumes ok: "store_ok st"
    and res: "ensure_canonical_learning_node sha1 extract st lid agent content vault now = Some (r, st')"
    and d: "d \<in> set (st_documents st)" and d': "d' \<in> set (st_documents st')" and id: "d_id d' = d_id d"
  shows "d_agent d' = d_agent d \<and> d_path d' = d_path d \<and> d_privacy d' = d_privacy d
    \<and> ((d_page_status d' = d_page_status d \<and> d_superseded_by d' = d_superseded_by d)
       \<or> (d_page_status d' = Some ''accepted'' \<and> reopens st d lid agent content (durable_metadata extract content) (d_path d)))"
  using res
proof (cases rule: ensure_cases)
  case skipped
  then show ?thesis using row_unique[of _ _ d' d] ok d d' id by (auto simp: store_ok_def)
next
  case made
  have "d_id d < st_next_document st" using ok d by (auto simp: store_ok_def documents_ok_def)
  then have "d' \<in> set (st_documents st)" using d' id by (auto simp: made(5) store_simps canonical_document_def)
  then show ?thesis using row_unique[of _ _ d' d] ok d id by (auto simp: store_ok_def)
next
  case (reused row)
  note row = document_at_row[OF reused(1)]
  have "documents_ok (st_documents st) (st_next_document st)" using ok by (simp add: store_ok_def)
  note one = row_unique[OF this]
  obtain e where e: "e \<in> set (st_documents st)" "d_id d' = d_id e"
    "d_agent d' = d_agent e \<and> d_path d' = d_path e \<and> d_privacy d' = d_privacy e"
    "(d_page_status d' = d_page_status e \<and> d_superseded_by d' = d_superseded_by e)
     \<or> (d_page_status d' = Some ''accepted'' \<and> d_id e = d_id row
        \<and> reopens st row lid agent content (durable_metadata extract content) (durable_doc_path sha1 agent vault content))"
    using d' unfolding reused(6) store_simps reconcile_documents by (auto split: if_splits)
  have "e = d" using one[OF e(1) d] e(2) id by simp
  then show ?thesis using e one[OF d conjunct1[OF row]] row by auto
qed

text \<open>C26: Mapping a new learning onto a document that exists never changes the document's owner, path or privacy, and
  changes its lifecycle in one case only: a superseded document that is not blocked and has no file of its own, none
  of whose members was active, is accepted again for a learning that is active and has the document's text.
\<close>

theorem canonical_node_keeps_authority:
  assumes "store_ok st"
    and "ensure_canonical_learning_node sha1 extract st lid agent content vault now = Some (r, st')"
    and "d \<in> set (st_documents st)" and "d' \<in> set (st_documents st')" and "d_id d' = d_id d"
  shows "d_agent d' = d_agent d \<and> d_path d' = d_path d \<and> d_privacy d' = d_privacy d
    \<and> (d_page_status d' = d_page_status d \<or> (d_page_status d = Some ''superseded'' \<and> d_privacy d \<noteq> Some ''blocked''
        \<and> d_path d \<notin> set (st_files st) \<and> d_page_status d' = Some ''accepted''
        \<and> filter ACTIVE_LEARNING_SQL (members_of st (d_id d)) = []
        \<and> (\<exists>l\<in>set (st_learnings st). l_id l = lid \<and> l_agent l = agent \<and> l_content l = content \<and> ACTIVE_LEARNING_SQL l)))"
  using ensured_rows[OF assms] reopens_closed_by_members[of st d lid agent content _ "d_path d"]
  by (auto simp: filter_empty_conv)

section \<open>Retirement\<close>

text \<open>The statements of the loop, as one update of the table.\<close>

definition retired_row :: "int \<Rightarrow> int list \<Rightarrow> learning \<Rightarrow> learning" where
  "retired_row new lids l = (if l_id l \<in> set lids \<and> ACTIVE_LEARNING_SQL l
     then l\<lparr>l_status := Some ''superseded'', l_successor := Some new\<rparr> else l)"

lemma retired_not_active [simp]: "\<not> ACTIVE_LEARNING_SQL (l\<lparr>l_status := s, l_successor := Some new\<rparr>)"
  by (simp add: ACTIVE_LEARNING_SQL_def)

lemma retired_row_id [simp]: "l_id (retired_row new lids l) = l_id l"
  by (simp add: retired_row_def)

lemma retired_row_twice: "retired_row new lids' (retired_row new lids l) = retired_row new (lids @ lids') l"
  by (auto simp: retired_row_def)

lemma retire_one_learnings: "snd (retire_one new acc lid) = (snd acc)\<lparr>st_learnings := map (retired_row new [lid]) (st_learnings (snd acc))\<rparr>"
proof (cases "\<exists>l\<in>set (st_learnings (snd acc)). l_id l = lid \<and> ACTIVE_LEARNING_SQL l")
  case True
  then show ?thesis by (simp add: retire_one_def Let_def retired_row_def[abs_def])
next
  case False
  then have "map (retired_row new [lid]) (st_learnings (snd acc)) = st_learnings (snd acc)"
    by (intro map_idI) (auto simp: retired_row_def)
  then show ?thesis using False by (auto simp: retire_one_def Let_def)
qed

lemma retire_all_learnings:
  "snd (foldl (retire_one new) acc lids) = (snd acc)\<lparr>st_learnings := map (retired_row new lids) (st_learnings (snd acc))\<rparr>"
proof (induction lids arbitrary: acc)
  case Nil
  have "retired_row new [] = (\<lambda>l. l)" by (rule ext) (simp add: retired_row_def)
  then show ?case by simp
next
  case (Cons lid lids)
  then show ?case by (simp add: retire_one_learnings retired_row_twice)
qed

lemma retire_all_ids:
  "set (fst (foldl (retire_one new) acc lids)) = set (fst acc) \<union>
     {l_id l | l. l \<in> set (st_learnings (snd acc)) \<and> l_id l \<in> set lids \<and> ACTIVE_LEARNING_SQL l}"
proof (induction lids arbitrary: acc)
  case (Cons lid lids)
  have step: "set (fst (retire_one new acc lid)) = set (fst acc) \<union>
      {l_id l | l. l \<in> set (st_learnings (snd acc)) \<and> l_id l = lid \<and> ACTIVE_LEARNING_SQL l}"
    by (auto simp: retire_one_def Let_def)
  have "{l_id l | l. l \<in> set (st_learnings (snd (retire_one new acc lid))) \<and> l_id l \<in> set lids \<and> ACTIVE_LEARNING_SQL l}
      = {l_id l | l. l \<in> set (st_learnings (snd acc)) \<and> l_id l \<in> set lids \<and> l_id l \<noteq> lid \<and> ACTIVE_LEARNING_SQL l}"
    by (auto simp: retire_one_learnings retired_row_def image_iff split: if_splits)
  then show ?case using Cons.IH[of "retire_one new acc lid"] step by auto
qed simp

definition retirement :: "int \<Rightarrow> int list \<Rightarrow> int \<Rightarrow> int \<Rightarrow> rat \<Rightarrow> store \<Rightarrow> int list \<Rightarrow> bool \<Rightarrow> store \<Rightarrow> bool" where
  "retirement doc lids new new_doc now st retired flipped st' \<longleftrightarrow>
     set retired = {l_id l | l. l \<in> set (st_learnings st) \<and> l_id l \<in> set lids \<and> ACTIVE_LEARNING_SQL l}
     \<and> st_learnings st' = map (retired_row new lids) (st_learnings st)
     \<and> flipped = (retired \<noteq> [] \<and> filter ACTIVE_LEARNING_SQL (members_of st' doc) = []
         \<and> (\<exists>d\<in>set (st_documents st). d_id d = doc \<and> d_page_status d = Some ''accepted''))
     \<and> st_documents st' = (if flipped then map (\<lambda>d. if d_id d = doc \<and> d_page_status d = Some ''accepted''
           then d\<lparr>d_page_status := Some ''superseded'', d_superseded_by := Some new_doc, d_modified := now\<rparr> else d) (st_documents st)
         else st_documents st)"

lemma retire_meets_spec:
  assumes res: "retire_superseded_members doc lids new new_doc now st = ((retired, flipped), st')"
  shows "retirement doc lids new new_doc now st retired flipped st'"
proof -
  obtain st1 where st1: "foldl (retire_one new) ([], st) lids = (retired, st1)"
    using res by (auto simp: retire_superseded_members_def split: prod.splits if_splits)
  have l1: "st1 = st\<lparr>st_learnings := map (retired_row new lids) (st_learnings st)\<rparr>"
    using retire_all_learnings[of new "([], st)" lids] st1 by simp
  have ids: "set retired = {l_id l | l. l \<in> set (st_learnings st) \<and> l_id l \<in> set lids \<and> ACTIVE_LEARNING_SQL l}"
    using retire_all_ids[of new "([], st)" lids] st1 by simp
  have if_if: "(\<lambda>d. if d_id d = doc then if P d then f d else d else d) = (\<lambda>d. if d_id d = doc \<and> P d then f d else d)"
    for P and f :: "document \<Rightarrow> document" by auto
  show ?thesis
    using res ids st1 unfolding retire_superseded_members_def retirement_def
    by (auto simp: l1 members_of_def filter_empty_conv set_document_def if_if split: if_splits)
qed

lemma retire_settled:
  assumes "retire_superseded_members doc lids new new_doc now st = ((retired, flipped), st')"
  shows "retire_superseded_members doc lids new' new_doc' now' st' = (([], False), st')"
proof -
  have rows: "\<not> ACTIVE_LEARNING_SQL l" if "l \<in> set (st_learnings st')" "l_id l \<in> set lids" for l
    using retire_meets_spec[OF assms] that by (auto simp: retirement_def retired_row_def split: if_splits)
  have "foldl (retire_one new') (acc, st') is = (acc, st')" if "set is \<subseteq> set lids" for acc "is"
    using that rows by (induction "is") (auto simp: retire_one_def Let_def)
  then show ?thesis by (simp add: retire_superseded_members_def)
qed

text \<open>C25: The statements of a retirement amount to one update: exactly the listed learnings that were active become
  superseded by the new one; the shared document is closed if and only if something was retired, none of its members
  is active afterwards and it was accepted; no other document changes; and a repeated retirement does nothing.
\<close>

theorem retirement_follows_members:
  assumes "retire_superseded_members doc lids new new_doc now st = ((retired, flipped), st')"
  shows "set retired = {l_id l | l. l \<in> set (st_learnings st) \<and> l_id l \<in> set lids \<and> ACTIVE_LEARNING_SQL l}
    \<and> st_learnings st' = map (retired_row new lids) (st_learnings st)
    \<and> flipped = (retired \<noteq> [] \<and> filter ACTIVE_LEARNING_SQL (members_of st' doc) = []
        \<and> (\<exists>d\<in>set (st_documents st). d_id d = doc \<and> d_page_status d = Some ''accepted''))
    \<and> st_documents st' = (if flipped then map (\<lambda>d. if d_id d = doc \<and> d_page_status d = Some ''accepted''
          then d\<lparr>d_page_status := Some ''superseded'', d_superseded_by := Some new_doc, d_modified := now\<rparr> else d) (st_documents st)
        else st_documents st)
    \<and> retire_superseded_members doc lids new' new_doc' now' st' = (([], False), st')"
  using retire_meets_spec[OF assms] retire_settled[OF assms] unfolding retirement_def by blast

section \<open>What eviction gives back\<close>

text \<open>Evicting a learning clears the successor of every learning that it had superseded: one whose status is still
  active, which is how a forced learn and the coordinator leave the learning they supersede, is active again and back
  in recall.
\<close>

theorem eviction_revives_superseded:
  assumes "store_ok st" and "evict_learning_to_cold_archive sha1 vault lid reason st = (Some b, st')"
    and "old \<in> set (st_learnings st)" and "l_id old \<noteq> lid" and "l_successor old = Some lid" and "l_status old = Some ''active''"
  shows "\<not> recallable old \<and> old\<lparr>l_successor := None\<rparr> \<in> set (st_learnings st') \<and> recallable (old\<lparr>l_successor := None\<rparr>)"
proof -
  have "old\<lparr>l_successor := None\<rparr> \<in> set (survivors lid (st_learnings st))"
    using assms(3-5) by (auto simp: survivors_def unpoint_def intro!: image_eqI[of _ _ old])
  then show ?thesis using evicted_tables(1)[OF assms(1,2)] assms(5,6) by (simp add: recallable_def)
qed

text \<open>A learning that another learning contradicts cannot be evicted: the delete breaks the reference of
  \<open>contradicts_id\<close>, which eviction does not clear, and the transaction is rolled back; yet by then the tombstone is in
  the archive and the file of the projection is gone, although the learning lives on.
\<close>

theorem contradicted_learning_is_not_evicted:
  assumes "row \<in> set (st_learnings st)" and "l_id row = lid" and "store_ok st" and "vault \<noteq> []" and "l_agent row \<noteq> []"
    and "other \<in> set (st_learnings st)" and "l_contradicts other = Some lid" and "l_id other \<noteq> lid"
  shows "\<exists>st'. evict_learning_to_cold_archive sha1 vault lid reason st = (None, st')
    \<and> row \<in> set (st_learnings (rollback st st'))
    \<and> durable_doc_path sha1 (l_agent row) vault (l_content row) \<notin> set (st_files (rollback st st'))
    \<and> (\<exists>t. st_tombstones (rollback st st') = st_tombstones st @ [t] \<and> tb_id t = lid \<and> tb_content t = l_content row)"
proof -
  have "learning_row st lid = Some row"
  proof (cases "learning_row st lid")
    case None
    then show ?thesis using assms(1,2) by (auto simp: learning_row_def find_None_iff)
  next
    case (Some r)
    then have "r \<in> set (st_learnings st)" "l_id r = lid" by (auto simp: learning_row_def find_Some_iff)
    then have "r = row" using assms(1-3) by (auto simp: store_ok_def learnings_ok_def distinct_map inj_on_def)
    then show ?thesis using Some by simp
  qed
  then have row: "learning_row st lid = Some row" .
  let ?st3 = "forget_learning lid (bury sha1 vault lid reason st)"
  have "unpoint lid other \<in> set (st_learnings ?st3)" "l_contradicts (unpoint lid other) = Some lid"
    "l_id (unpoint lid other) \<noteq> lid" using assms(6-8) by (simp_all add: store_simps)
  then have "evict_learning_to_cold_archive sha1 vault lid reason st = (None, ?st3)"
    unfolding evict_learning_to_cold_archive_def Let_def row by (auto intro: bexI[of _ "unpoint lid other"])
  moreover have "st_files ?st3 = filter (\<lambda>f. f \<noteq> durable_doc_path sha1 (l_agent row) vault (l_content row)) (st_files st)"
    using assms(4,5) by (simp add: forget_learning_def bury_def unlink_projection_def drop_file_def row Let_def)
  moreover have "st_tombstones ?st3 = st_tombstones st @ [learning_tombstone (Some row) lid reason (evicted_doc_ids sha1 vault lid st)]"
    using assms(4,5) by (simp add: forget_learning_def bury_def unlink_projection_def drop_file_def row Let_def)
  ultimately show ?thesis using assms(1) by (simp add: rollback_def learning_tombstone_def)
qed

section \<open>The properties on a small store\<close>

definition sample_learning :: "int \<Rightarrow> string \<Rightarrow> int option \<Rightarrow> int option \<Rightarrow> learning" where
  "sample_learning i content successor contradicts = \<lparr>l_id = i, l_agent = ''codex'', l_category = ''fix'', l_content = content,
     l_created = of_int i, l_status = Some ''active'', l_successor = successor, l_hash = Some content, l_embedding = None,
     l_contradicts = contradicts\<rparr>"

definition sample_store :: "learning list \<Rightarrow> int \<Rightarrow> store" where
  "sample_store ls n = \<lparr>st_learnings = ls, st_documents = [], st_joins = [], st_candidates = [], st_actions = [],
     st_next_learning = n, st_next_document = 1, st_next_candidate = 1, st_reads = [], st_events = [], st_next_event = 1, st_detected = [], st_fts = [], st_chunks = [], st_links = [],
     st_files = [], st_tombstones = [], st_typed_graph = True, st_allows_dns = True\<rparr>"

definition sample_meta :: "string \<Rightarrow> front_matter" where
  "sample_meta c = \<lparr>fm_sigil = ''*'', fm_page_status = ''candidate'', fm_privacy = ''safe'', fm_layer = ''knowledge''\<rparr>"

definition one_learning :: store where
  "one_learning = sample_store [sample_learning 1 ''use rebase'' None None] 2"

definition one_node :: "(int option \<times> store) option" where
  "one_node = ensure_canonical_learning_node (\<lambda>s. s) sample_meta one_learning 1 ''codex'' ''use rebase'' ''/v'' 5"

lemma sample_store_ok:
  assumes "learnings_ok ls n"
  shows "store_ok (sample_store ls n)"
  using assms by (simp add: store_ok_def sample_store_def documents_ok_def joins_ok_def candidates_ok_def)

lemma one_learning_ok: "store_ok one_learning"
  unfolding one_learning_def by (rule sample_store_ok) (simp add: learnings_ok_def sample_learning_def)

lemma one_node_made: "one_node = Some (Some 1, snd (the one_node))"
proof -
  have "one_node \<noteq> None \<and> fst (the one_node) = Some 1" by code_simp
  then show ?thesis by (metis option.collapse prod.collapse)
qed

lemma canonical_node_found_again_witness:
  "(1, 1) \<in> set (st_joins (snd (the one_node)))
    \<and> ensure_canonical_learning_node (\<lambda>s. s) sample_meta (snd (the one_node)) 1 ''codex'' ''use rebase'' ''/v'' 6
        = Some (Some 1, snd (the one_node))"
  using canonical_node_found_again[OF one_learning_ok one_node_made[unfolded one_node_def], folded one_node_def] by blast

text \<open>A second learning of the same text meets the node of the first.\<close>

definition shared_store :: store where
  "shared_store = (snd (the one_node))\<lparr>st_learnings := [sample_learning 1 ''use rebase'' None None, sample_learning 2 ''use rebase'' None None],
     st_next_learning := 3\<rparr>"

definition shared_node :: "(int option \<times> store) option" where
  "shared_node = ensure_canonical_learning_node (\<lambda>s. s) sample_meta shared_store 2 ''codex'' ''use rebase'' ''/v'' 7"

lemma shared_store_ok: "store_ok shared_store"
proof -
  have "store_ok (snd (the one_node))"
    by (rule ensure_keeps_ok[OF one_learning_ok one_node_made[unfolded one_node_def], folded one_node_def])
  moreover have "st_learnings (snd (the one_node)) = [sample_learning 1 ''use rebase'' None None]" by code_simp
  ultimately show ?thesis
    by (auto simp: store_ok_def shared_store_def learnings_ok_def sample_learning_def joins_ok_def)
qed

lemma canonical_node_keeps_authority_witness:
  "d_privacy (hd (st_documents (snd (the shared_node)))) = d_privacy (hd (st_documents shared_store))"
proof -
  have some: "shared_node = Some (fst (the shared_node), snd (the shared_node))"
  proof -
    have "shared_node \<noteq> None" by code_simp
    then show ?thesis by auto
  qed
  have docs: "st_documents shared_store \<noteq> []" "st_documents (snd (the shared_node)) \<noteq> []"
    "d_id (hd (st_documents (snd (the shared_node)))) = d_id (hd (st_documents shared_store))" by code_simp+
  show ?thesis
    using canonical_node_keeps_authority[OF shared_store_ok some[unfolded shared_node_def], folded shared_node_def,
      OF hd_in_set[OF docs(1)] hd_in_set[OF docs(2)] docs(3)] by blast
qed

lemma retirement_follows_members_witness:
  "st_learnings (snd (retire_superseded_members 1 [1, 2] 3 2 8 (snd (the shared_node))))
    = map (retired_row 3 [1, 2]) (st_learnings (snd (the shared_node)))"
proof -
  let ?r = "retire_superseded_members 1 [1, 2] 3 2 8 (snd (the shared_node))"
  have "?r = ((fst (fst ?r), snd (fst ?r)), snd ?r)" by simp
  from retirement_follows_members[OF this] show ?thesis by blast
qed

definition revival_store :: store where
  "revival_store = sample_store [sample_learning 1 ''use merge'' (Some 2) None, sample_learning 2 ''use rebase'' None None] 3"

lemma eviction_revives_superseded_witness:
  "sample_learning 1 ''use merge'' None None
    \<in> set (st_learnings (snd (evict_learning_to_cold_archive (\<lambda>s. s) ''/v'' 2 ''superseded_by:3'' revival_store)))"
proof -
  let ?e = "evict_learning_to_cold_archive (\<lambda>s. s) ''/v'' 2 ''superseded_by:3'' revival_store"
  have ok: "store_ok revival_store"
    unfolding revival_store_def by (rule sample_store_ok) (simp add: learnings_ok_def sample_learning_def)
  have "fst ?e \<noteq> None" by code_simp
  then have run: "?e = (Some (the (fst ?e)), snd ?e)" by (metis option.collapse prod.collapse)
  have "sample_learning 1 ''use merge'' (Some 2) None \<in> set (st_learnings revival_store)"
    by (simp add: revival_store_def sample_store_def)
  from eviction_revives_superseded[OF ok run this] show ?thesis by (simp add: sample_learning_def)
qed

definition dispute_store :: store where
  "dispute_store = sample_store [sample_learning 1 ''use rebase'' None None, sample_learning 2 ''never rebase'' None (Some 1)] 3"

lemma contradicted_learning_is_not_evicted_witness:
  "\<exists>st'. evict_learning_to_cold_archive (\<lambda>s. s) ''/v'' 1 ''superseded_by:3'' dispute_store = (None, st')
    \<and> sample_learning 1 ''use rebase'' None None \<in> set (st_learnings (rollback dispute_store st'))
    \<and> (\<exists>t. st_tombstones (rollback dispute_store st') = st_tombstones dispute_store @ [t] \<and> tb_id t = 1)"
proof -
  have ok: "store_ok dispute_store"
    unfolding dispute_store_def by (rule sample_store_ok) (simp add: learnings_ok_def sample_learning_def)
  have "sample_learning 1 ''use rebase'' None None \<in> set (st_learnings dispute_store)"
    "l_id (sample_learning 1 ''use rebase'' None None) = 1" "''/v'' \<noteq> []" "l_agent (sample_learning 1 ''use rebase'' None None) \<noteq> []"
    "sample_learning 2 ''never rebase'' None (Some 1) \<in> set (st_learnings dispute_store)"
    "l_contradicts (sample_learning 2 ''never rebase'' None (Some 1)) = Some 1"
    "l_id (sample_learning 2 ''never rebase'' None (Some 1)) \<noteq> 1"
    by (simp_all add: dispute_store_def sample_store_def sample_learning_def)
  from contradicted_learning_is_not_evicted[OF this(1,2) ok this(3-7), of "\<lambda>s. s" "''superseded_by:3''"] show ?thesis by blast
qed

end
