(* ===== verification/Governance_Safety.thy ===== *)
theory Governance_Safety
  imports Candidate_Governance Learning_Lifecycle
begin

text \<open>
  What resolving a candidate promises: it is terminal, open to the owner's family or an explicit operator, durable
  only under operator authority, leaves the store alone when it refuses, keeps the schema's constraints, and leaves
  one recallable learning per author and text.
\<close>

section \<open>The ways a resolution ends\<close>

lemma set_candidate_tables [store_simps]:
  "st_learnings (set_candidate i f st) = st_learnings st" "st_joins (set_candidate i f st) = st_joins st"
  "st_documents (set_candidate i f st) = st_documents st" "st_next_learning (set_candidate i f st) = st_next_learning st"
  "st_next_document (set_candidate i f st) = st_next_document st"
  "st_next_candidate (set_candidate i f st) = st_next_candidate st" "st_actions (set_candidate i f st) = st_actions st"
  "st_allows_dns (set_candidate i f st) = st_allows_dns st" "st_typed_graph (set_candidate i f st) = st_typed_graph st"
  "st_files (set_candidate i f st) = st_files st" "st_tombstones (set_candidate i f st) = st_tombstones st"
  "st_candidates (set_candidate i f st) = map (\<lambda>c. if cp_id c = i then f c else c) (st_candidates st)"
  by (simp_all add: set_candidate_def)

lemma flag_candidate_tables [store_simps]:
  "st_learnings (flag_candidate i r st) = st_learnings st" "st_joins (flag_candidate i r st) = st_joins st"
  "st_documents (flag_candidate i r st) = st_documents st" "st_next_learning (flag_candidate i r st) = st_next_learning st"
  "st_next_document (flag_candidate i r st) = st_next_document st"
  "st_next_candidate (flag_candidate i r st) = st_next_candidate st" "st_actions (flag_candidate i r st) = st_actions st"
  "st_allows_dns (flag_candidate i r st) = st_allows_dns st" "st_typed_graph (flag_candidate i r st) = st_typed_graph st"
  "st_files (flag_candidate i r st) = st_files st" "st_tombstones (flag_candidate i r st) = st_tombstones st"
  by (simp_all add: flag_candidate_def store_simps)

lemma rollback_same: "st_files s = st_files st \<Longrightarrow> st_tombstones s = st_tombstones st \<Longrightarrow> rollback st s = st"
  by (simp add: rollback_def)

lemma collect_supersedes_error:
  "collect_supersedes g p author i st acc xs = Inl err \<Longrightarrow> \<exists>c m. err = make_error c m i"
  by (induction xs arbitrary: acc) (auto split: option.splits if_splits)

lemma explicit_supersedes_error:
  "explicit_supersedes g p author i params st = Inl err \<Longrightarrow> \<exists>c m. err = make_error c m i"
  by (auto simp: explicit_supersedes_def Let_def simp del: collect_supersedes.simps dest: collect_supersedes_error
      split: pyval.splits if_splits)

lemma accept_raised: "accept_into_store g p row params i now st = Raised err s \<Longrightarrow> s = st \<and> (\<exists>c m. err = make_error c m i)"
  by (auto simp: accept_into_store_def Let_def dest: explicit_supersedes_error
      split: sum.splits prod.splits option.splits)

lemma accept_not_returned: "accept_into_store g p row params i now st \<noteq> Returned r s"
  by (auto simp: accept_into_store_def Let_def split: sum.splits prod.splits option.splits)

definition accepted_or_noted ::
  "gov_env \<Rightarrow> effective_principal \<Rightarrow> candidate \<Rightarrow> pydict \<Rightarrow> pyval \<Rightarrow> rat \<Rightarrow> string \<Rightarrow> store \<Rightarrow> txn_end" where
  "accepted_or_noted g p row params i now status st = (if status = ''accepted'' then accept_into_store g p row params i now st
     else Finished status None (if cp_principal row = [] then ep_agent_id p else cp_principal row) [] st)"

text \<open>What the checks before a write have established.\<close>

definition may_resolve :: "gov_env \<Rightarrow> effective_principal \<Rightarrow> candidate \<Rightarrow> string \<Rightarrow> bool" where
  "may_resolve g p row status \<longleftrightarrow> may_govern g p (cp_principal row) \<and> cp_status row = ''proposed''
     \<and> (status = ''accepted'' \<longrightarrow> (instruction_flagged row \<longrightarrow> explicitly_allowed_accept_flagged p)
          \<and> (is_operator_principal p \<or> explicitly_allowed_operator g p))"

lemma txn_cases:
  obtains (raised) err s where "resolve_in_transaction g p params i cid status reason now st = Raised err s"
      "rollback st s = st" "\<exists>c m. err = make_error c m i"
  | (failed) s where "resolve_in_transaction g p params i cid status reason now st = Failed s"
  | (withheld) row c m where "resolve_in_transaction g p params i cid status reason now st =
        Returned (make_error c m i) (flag_candidate cid row st)"
      "find (\<lambda>c. cp_id c = cid) (st_candidates st) = Some row" "may_govern g p (cp_principal row)" "cp_status row = ''proposed''"
      "status = ''accepted''" "instruction_flagged row" "\<not> explicitly_allowed_accept_flagged p"
  | (settled) row s lid author docs st2 final st3 where
      "resolve_in_transaction g p params i cid status reason now st = Finished final lid author docs st3"
      "find (\<lambda>c. cp_id c = cid) (st_candidates st) = Some row" "may_resolve g p row status"
      "accepted_or_noted g p row params i now status (flag_candidate cid row st) = Finished s lid author docs st2"
      "settle_candidate p cid s reason now st2 = (final, st3)"
proof (cases "find (\<lambda>c. cp_id c = cid) (st_candidates st)")
  case None
  then show thesis by (intro raised) (auto simp: resolve_in_transaction_def rollback_same)
next
  case (Some row)
  note run = resolve_in_transaction_def[of g p params i cid status reason now st, unfolded Some Let_def option.case]
  let ?st1 = "flag_candidate cid row st"
  show thesis
  proof (cases "may_govern g p (cp_principal row) \<and> cp_status row = ''proposed''")
    case False
    then show thesis
      by (cases "may_govern g p (cp_principal row)"; intro raised) (auto simp: run rollback_same)
  next
    case True
    show thesis
    proof (cases "status = ''accepted'' \<and> instruction_flagged row \<and> \<not> explicitly_allowed_accept_flagged p")
      case flagged: True
      have "\<exists>c m. resolve_in_transaction g p params i cid status reason now st = Returned (make_error c m i) ?st1"
        unfolding run using True flagged by auto
      then show thesis using withheld[OF _ Some] True flagged by blast
    next
      case free: False
      show thesis
      proof (cases "status = ''accepted'' \<and> \<not> is_operator_principal p \<and> \<not> explicitly_allowed_operator g p")
        case denied: True
        have "\<exists>c m. resolve_in_transaction g p params i cid status reason now st = Raised (make_error c m i) ?st1"
          unfolding run using True free denied by auto
        moreover have "rollback st ?st1 = st" by (simp add: rollback_same store_simps)
        ultimately show thesis using raised by blast
      next
        case False
        have ok: "may_resolve g p row status" using True free False by (auto simp: may_resolve_def)
        have step: "resolve_in_transaction g p params i cid status reason now st =
          (case accepted_or_noted g p row params i now status ?st1 of
             Finished s lid author docs st2 \<Rightarrow>
               (case settle_candidate p cid s reason now st2 of (final, st3) \<Rightarrow> Finished final lid author docs st3)
           | stop \<Rightarrow> stop)"
          unfolding run accepted_or_noted_def using True free False by auto
        show thesis
        proof (cases "accepted_or_noted g p row params i now status ?st1")
          case (Raised err s)
          then have "s = ?st1 \<and> (\<exists>c m. err = make_error c m i)"
            using accept_raised by (auto simp: accepted_or_noted_def split: if_splits)
          then show thesis by (intro raised) (auto simp: step Raised rollback_same store_simps)
        next
          case (Failed s)
          then show thesis by (intro failed) (simp add: step)
        next
          case (Returned r s)
          then show thesis using accept_not_returned by (auto simp: accepted_or_noted_def split: if_splits)
        next
          case (Finished s lid author docs st2)
          obtain final st3 where "settle_candidate p cid s reason now st2 = (final, st3)" by fastforce
          then show thesis using settled[OF _ Some ok Finished] by (simp add: step Finished)
        qed
      qed
    qed
  qed
qed

lemma resolve_cases:
  assumes "resolve_stamped g p params i now st = ((reply, es), st')"
  obtains (refused) c m where "st' = st" "es = []" "reply = make_error c m i"
  | (failed) s where "st' = rollback st s" "es = []"
      "reply = fst (redact_value redact_text (make_error (-32000) ''resolve_candidate error: constraint failed'' i))"
  | (withheld) cid row c m where "st' = flag_candidate cid row st" "es = []" "reply = make_error c m i"
      "find (\<lambda>c. cp_id c = cid) (st_candidates st) = Some row" "may_govern g p (cp_principal row)" "cp_status row = ''proposed''"
      "map_of STATUS_MAP (decision_of params) = Some ''accepted''" "instruction_flagged row" "\<not> explicitly_allowed_accept_flagged p" "py_int (dget params ''candidate_id'') = Some cid"
  | (settled) cid row status s lid author docs st2 final ok where
      "py_int (dget params ''candidate_id'') = Some cid"
      "find (\<lambda>c. cp_id c = cid) (st_candidates st) = Some row" "map_of STATUS_MAP (decision_of params) = Some status"
      "may_resolve g p row status"
      "accepted_or_noted g p row params i now status (flag_candidate cid row st) = Finished s lid author docs st2"
      "settle_candidate p cid s (reason_of params) now st2 = (final, st')"
      "reply = resolved_reply i cid final lid (ep_agent_id p) ok" "(ok, es) = resolve_effects g cid (cp_content row) lid author docs"
proof (cases "isl (validate_agent_id (ep_agent_id p)) \<or> dget params ''candidate_id'' = PNone
    \<or> py_int (dget params ''candidate_id'') = None \<or> decision_of params \<in> set UNIMPLEMENTED_DECISIONS
    \<or> map_of STATUS_MAP (decision_of params) = None")
  case True
  then show thesis using assms refused
    by (auto simp: resolve_stamped_def Let_def split: if_splits option.splits)
next
  case False
  then obtain cid status where cid: "py_int (dget params ''candidate_id'') = Some cid"
    and status: "map_of STATUS_MAP (decision_of params) = Some status" by auto
  note run = assms[unfolded resolve_stamped_def Let_def]
  show thesis
  proof (cases rule: txn_cases[of g p params i cid status "reason_of params" now st])
    case (raised err s)
    then show thesis using run False cid status refused by auto
  next
    case (failed s)
    then show thesis using run False cid status that(2) by auto
  next
    case (withheld row c m)
    then show thesis using run False cid status that(3)[of cid row c m] by auto
  next
    case (settled row s lid author docs st2 final st3)
    obtain ok es' where eff: "resolve_effects g cid (cp_content row) lid author docs = (ok, es')" by fastforce
    have "st' = st3" "reply = resolved_reply i cid final lid (ep_agent_id p) ok" "es = es'"
      using run False cid status settled(1,2) eff by auto
    then show thesis using settled eff status cid that(4)[of cid row status s lid author docs st2 final ok] by auto
  qed
qed

section \<open>What an acceptance does to the tables\<close>

lemma mark_superseded_tables [store_simps]:
  "st_joins (mark_superseded i st) = st_joins st" "st_documents (mark_superseded i st) = st_documents st"
  "st_candidates (mark_superseded i st) = st_candidates st" "st_next_learning (mark_superseded i st) = st_next_learning st"
  "st_next_document (mark_superseded i st) = st_next_document st"
  "st_next_candidate (mark_superseded i st) = st_next_candidate st" "st_actions (mark_superseded i st) = st_actions st"
  "st_allows_dns (mark_superseded i st) = st_allows_dns st"
  by (simp_all add: mark_superseded_def)

definition superseded_rows :: "int set \<Rightarrow> learning \<Rightarrow> learning" where
  "superseded_rows is l = (if l_id l \<in> is then l\<lparr>l_status := Some ''superseded''\<rparr> else l)"

lemma superseded_rows_simps [simp]:
  "l_id (superseded_rows is l) = l_id l" "l_successor (superseded_rows is l) = l_successor l"
  "l_contradicts (superseded_rows is l) = l_contradicts l" "l_agent (superseded_rows is l) = l_agent l"
  "l_hash (superseded_rows is l) = l_hash l" "l_content (superseded_rows is l) = l_content l"
  "recallable (superseded_rows is l) \<longleftrightarrow> recallable l \<and> l_id l \<notin> is"
  by (simp_all add: superseded_rows_def recallable_def)

lemma mark_superseded_rows: "mark_superseded i st = st\<lparr>st_learnings := map (superseded_rows {i}) (st_learnings st)\<rparr>"
  by (simp add: mark_superseded_def superseded_rows_def[abs_def])

lemma superseded_rows_twice: "superseded_rows js (superseded_rows is l) = superseded_rows (is \<union> js) l"
  by (simp add: superseded_rows_def)

text \<open>The loop over the duplicates: it marks some learnings, and stops when none is left or at one named by the caller.\<close>

lemma absorb_result:
  assumes "absorb_hash_duplicates sha1 h a ex st = (ids, st')"
  shows "\<exists>more. ids = ex @ more \<and> st' = st\<lparr>st_learnings := map (superseded_rows (set more)) (st_learnings st)\<rparr>
    \<and> (\<forall>l. find_active_learning_by_hash sha1 st' h a = Some l \<longrightarrow> l_id l \<in> set ex)"
  using assms
proof (induction sha1 h a ex st rule: absorb_hash_duplicates.induct)
  case (1 sha1 h a ex st)
  show ?case
  proof (cases "find_active_learning_by_hash sha1 st h a")
    case None
    then have "ids = ex" "st' = st" using "1.prems" by (simp_all add: absorb_hash_duplicates.simps[of sha1 h a ex st])
    then show ?thesis using None by (intro exI[of _ "[]"]) (simp add: superseded_rows_def)
  next
    case (Some l)
    show ?thesis
    proof (cases "l_id l \<in> set ex")
      case True
      then have "ids = ex" "st' = st" using "1.prems" Some by (simp_all add: absorb_hash_duplicates.simps[of sha1 h a ex st])
      then show ?thesis using Some True by (intro exI[of _ "[]"]) (simp add: superseded_rows_def)
    next
      case False
      have run: "absorb_hash_duplicates sha1 h a (ex @ [l_id l]) (mark_superseded (l_id l) st) = (ids, st')"
        using "1.prems" Some False by (simp add: absorb_hash_duplicates.simps[of sha1 h a ex st])
      from "1.IH"[OF Some False this] obtain more where m: "ids = (ex @ [l_id l]) @ more"
        "st' = (mark_superseded (l_id l) st)\<lparr>st_learnings := map (superseded_rows (set more)) (st_learnings (mark_superseded (l_id l) st))\<rparr>"
        "\<And>k. find_active_learning_by_hash sha1 st' h a = Some k \<Longrightarrow> l_id k \<in> set (ex @ [l_id l])" by blast
      have rows: "st_learnings st' = map (superseded_rows (set (l_id l # more))) (st_learnings st)"
        by (simp add: m(2) mark_superseded_rows superseded_rows_twice)
      have "l_id k \<in> set ex" if "find_active_learning_by_hash sha1 st' h a = Some k" for k
        using find_by_hash_active(1,2)[OF that] m(3)[OF that] unfolding rows by auto
      then show ?thesis using m(1) rows
        by (intro exI[of _ "l_id l # more"]) (simp add: m(2) mark_superseded_rows superseded_rows_twice)
    qed
  qed
qed

lemma superseded_rows_ok: "learnings_ok ls n \<Longrightarrow> learnings_ok (map (superseded_rows is) ls) n"
  by (simp add: learnings_ok_def image_image comp_def)

lemma insert_learning_ok:
  assumes "learnings_ok ls n" "l_id l = n" "l_successor l = None" "l_contradicts l = None"
  shows "learnings_ok (ls @ [l]) (n + 1)"
  using assms unfolding learnings_ok_def by fastforce

lemma learning_row_some: "learning_row st i = Some l \<Longrightarrow> l \<in> set (st_learnings st) \<and> l_id l = i"
  by (auto simp: learning_row_def find_Some_iff)

text \<open>One replaced learning.\<close>

definition succeeded_row :: "int \<Rightarrow> int \<Rightarrow> learning \<Rightarrow> learning" where
  "succeeded_row lid ex l = (if l_id l = ex then l\<lparr>l_successor := Some lid, l_status := Some ''superseded''\<rparr> else l)"

lemma succeeded_row_simps [simp]:
  "l_id (succeeded_row lid ex l) = l_id l" "l_contradicts (succeeded_row lid ex l) = l_contradicts l"
  "l_successor (succeeded_row lid ex l) = (if l_id l = ex then Some lid else l_successor l)"
  "l_status (succeeded_row lid ex l) = (if l_id l = ex then Some ''superseded'' else l_status l)"
  by (simp_all add: succeeded_row_def)

definition replaced_rows :: "gov_env \<Rightarrow> int \<Rightarrow> int \<Rightarrow> learning list \<Rightarrow> learning list" where
  "replaced_rows g lid ex ls = (if ge_writeback g then survivors ex ls else map (succeeded_row lid ex) ls)"

lemma replace_learning_result:
  assumes ok: "store_ok st" and lid: "lid \<in> l_id ` set (st_learnings st)"
    and res: "replace_learning g a lid ex st = (Some doc, st')"
  shows "store_ok st'" "st_learnings st' = replaced_rows g lid ex (st_learnings st)"
    "st_candidates st' = st_candidates st" "st_actions st' = st_actions st" "st_next_learning st' = st_next_learning st"
    "st_allows_dns st' = st_allows_dns st"
proof -
  have "store_ok st' \<and> st_learnings st' = replaced_rows g lid ex (st_learnings st) \<and> st_candidates st' = st_candidates st
    \<and> st_actions st' = st_actions st \<and> st_next_learning st' = st_next_learning st \<and> st_allows_dns st' = st_allows_dns st"
  proof (cases "ge_writeback g")
    case True
    then obtain b where ev: "evict_learning_to_cold_archive (ge_sha1 g) (ge_vault g) ex (''superseded_by:'' @ int_str lid) st = (Some b, st')"
      using res by (auto simp: replace_learning_def Let_def split: prod.splits option.splits)
    then show ?thesis using evict_keeps_ok[OF ok ev] evicted_tables[OF ok ev] True by (simp add: replaced_rows_def)
  next
    case False
    then have st': "st' = st\<lparr>st_learnings := replaced_rows g lid ex (st_learnings st)\<rparr>"
      using res by (simp add: replace_learning_def Let_def replaced_rows_def succeeded_row_def[abs_def])
    have ids: "l_id ` set (replaced_rows g lid ex (st_learnings st)) = l_id ` set (st_learnings st)"
      "map l_id (replaced_rows g lid ex (st_learnings st)) = map l_id (st_learnings st)"
      unfolding replaced_rows_def using False by (simp_all add: image_image)
    have "learnings_ok (replaced_rows g lid ex (st_learnings st)) (st_next_learning st)"
      using ok lid unfolding learnings_ok_def store_ok_def ids by (auto simp: replaced_rows_def False)
    then show ?thesis using ok ids by (simp add: st' store_ok_def)
  qed
  then show "store_ok st'" "st_learnings st' = replaced_rows g lid ex (st_learnings st)"
    "st_candidates st' = st_candidates st" "st_actions st' = st_actions st" "st_next_learning st' = st_next_learning st"
    "st_allows_dns st' = st_allows_dns st" by blast+
qed

lemma replaced_rows_keep: "lid \<in> l_id ` set ls \<Longrightarrow> ex \<noteq> lid \<Longrightarrow> lid \<in> l_id ` set (replaced_rows g lid ex ls)"
  by (auto simp: replaced_rows_def survivors_ids image_image)

definition tidy_rows :: "learning list \<Rightarrow> bool" where
  "tidy_rows ls \<longleftrightarrow> (\<forall>l\<in>set ls. l_successor l \<noteq> None \<longrightarrow> l_status l \<notin> {None, Some ''active''})"

lemma unpoint_recallable: "l_successor l \<noteq> None \<longrightarrow> l_status l \<notin> {None, Some ''active''} \<Longrightarrow> recallable (unpoint i l) = recallable l"
  by (auto simp: recallable_def)

lemma replaced_rows_tidy: "tidy_rows ls \<Longrightarrow> tidy_rows (replaced_rows g lid ex ls)"
  by (auto simp: tidy_rows_def replaced_rows_def survivors_def)

text \<open>With no successor left on an active row, replacing one learning recalls nothing new.\<close>

lemma replaced_rows_recallable:
  assumes "tidy_rows ls"
  shows "filter recallable (replaced_rows g lid ex ls) = filter (\<lambda>l. l_id l \<noteq> ex) (filter recallable ls)"
  using assms
proof (induction ls)
  case (Cons l ls)
  have "tidy_rows ls" using Cons.prems by (simp add: tidy_rows_def)
  note ih = Cons.IH[OF this]
  have l: "l_successor l \<noteq> None \<longrightarrow> l_status l \<notin> {None, Some ''active''}" using Cons.prems by (simp add: tidy_rows_def)
  show ?case
  proof (cases "ge_writeback g")
    case True
    have "recallable l \<Longrightarrow> unpoint ex l = l" by (simp add: unpoint_def recallable_def)
    then show ?thesis using ih unpoint_recallable[OF l, of ex] True by (simp add: replaced_rows_def survivors_def)
  next
    case False
    then show ?thesis using ih by (auto simp: replaced_rows_def recallable_def succeeded_row_def simp del: filter_map)
  qed
qed (simp add: replaced_rows_def survivors_def)

lemma replace_learnings_result:
  assumes "store_ok st" and "lid \<in> l_id ` set (st_learnings st)" and "replace_learnings g a lid ids st = (Some docs, st')"
  shows "store_ok st' \<and> lid \<in> l_id ` set (st_learnings st') \<and> st_candidates st' = st_candidates st \<and> st_actions st' = st_actions st
    \<and> st_allows_dns st' = st_allows_dns st
    \<and> (tidy_rows (st_learnings st) \<longrightarrow> filter recallable (st_learnings st') =
         filter (\<lambda>l. l_id l = lid \<or> l_id l \<notin> set ids) (filter recallable (st_learnings st)))"
  using assms
proof (induction ids arbitrary: st docs)
  case (Cons ex ids)
  show ?case
  proof (cases "ex = lid")
    case True
    then show ?thesis using Cons by (auto intro!: filter_cong)
  next
    case False
    then obtain doc st1 docs1 where one: "replace_learning g a lid ex st = (Some doc, st1)"
      and rest: "replace_learnings g a lid ids st1 = (Some docs1, st')"
      using Cons.prems(3) by (auto split: prod.splits option.splits)
    note r = replace_learning_result[OF Cons.prems(1,2) one]
    have keep: "lid \<in> l_id ` set (st_learnings st1)" unfolding r(2) using Cons.prems(2) False by (rule replaced_rows_keep)
    have ih: "store_ok st' \<and> lid \<in> l_id ` set (st_learnings st') \<and> st_candidates st' = st_candidates st1 \<and> st_actions st' = st_actions st1
      \<and> st_allows_dns st' = st_allows_dns st1
      \<and> (tidy_rows (st_learnings st1) \<longrightarrow> filter recallable (st_learnings st') =
         filter (\<lambda>l. l_id l = lid \<or> l_id l \<notin> set ids) (filter recallable (st_learnings st1)))"
      using Cons.IH[OF r(1) keep rest] .
    have "filter recallable (st_learnings st') =
         filter (\<lambda>l. l_id l = lid \<or> l_id l \<notin> set (ex # ids)) (filter recallable (st_learnings st))"
      if tidy: "tidy_rows (st_learnings st)"
    proof -
      have "tidy_rows (st_learnings st1)" unfolding r(2) using tidy by (rule replaced_rows_tidy)
      then have "filter recallable (st_learnings st') = filter (\<lambda>l. l_id l = lid \<or> l_id l \<notin> set ids)
          (filter (\<lambda>l. l_id l \<noteq> ex) (filter recallable (st_learnings st)))"
        using ih replaced_rows_recallable[OF tidy, of g lid ex] r(2) by simp
      also have "\<dots> = filter (\<lambda>l. l_id l = lid \<or> l_id l \<notin> set (ex # ids)) (filter recallable (st_learnings st))"
        using False by (auto intro!: filter_cong simp: filter_filter)
      finally show ?thesis .
    qed
    then show ?thesis using ih r by simp
  qed
qed (simp add: filter_id_conv)

text \<open>The recallable learnings of an author with a given text.\<close>

definition same_text :: "(string \<Rightarrow> string) \<Rightarrow> string \<Rightarrow> string \<Rightarrow> learning \<Rightarrow> bool" where
  "same_text sha1 h a l \<longleftrightarrow> l_agent l = a \<and> recallable l
     \<and> (l_hash l = Some h \<or> l_hash l = None \<and> content_hash sha1 (l_content l) = h)"

lemma no_hash_duplicate:
  assumes "find_active_learning_by_hash sha1 st h a = None"
  shows "filter (same_text sha1 h a) (st_learnings st) = []"
proof -
  let ?rows = "newest_first (filter (\<lambda>l. l_agent l = a \<and> recallable l) (st_learnings st))"
  have rows: "set ?rows = {l \<in> set (st_learnings st). l_agent l = a \<and> recallable l}" by (auto simp: newest_first_def)
  have none: "find (\<lambda>l. l_hash l = Some h) ?rows = None" "find (\<lambda>l. l_hash l = None \<and> content_hash sha1 (l_content l) = h) ?rows = None"
    using assms by (auto simp: find_active_learning_by_hash_def Let_def split: option.splits)
  have "\<not> same_text sha1 h a l" if "l \<in> set (st_learnings st)" for l
    using none rows that unfolding find_None_iff same_text_def by auto
  then show ?thesis by (simp add: filter_empty_conv)
qed

definition author_of :: "effective_principal \<Rightarrow> candidate \<Rightarrow> string" where
  "author_of p row = (if cp_principal row = [] then ep_agent_id p else cp_principal row)"

lemma accept_steps:
  assumes "accept_into_store g p row params i now st = Finished s lid author docs st'"
  obtains ex ids st1 l r st3 near where
    "explicit_supersedes g p (author_of p row) i params st = Inr ex"
    "absorb_hash_duplicates (ge_sha1 g) (content_hash (ge_sha1 g) (cp_content row)) (author_of p row) ex st = (ids, st1)"
    "l = new_learning st1 (author_of p row) (accepted_category row params) (cp_content row) now None (content_hash (ge_sha1 g) (cp_content row))"
    "ensure_canonical_learning_node (ge_sha1 g) (ge_extract g) (insert_learning l st1) (l_id l) (author_of p row) (cp_content row) (ge_vault g) now = Some (r, st3)"
    "replace_learnings g (author_of p row) (l_id l) near st3 = (Some docs, st')"
    "s = ''accepted''" "lid = Some (l_id l)" "author = author_of p row"
proof -
  note run = assms[unfolded accept_into_store_def Let_def author_of_def[symmetric]]
  obtain ex where ex: "explicit_supersedes g p (author_of p row) i params st = Inr ex"
    using run by (cases "explicit_supersedes g p (author_of p row) i params st") simp_all
  obtain ids st1 where ab: "absorb_hash_duplicates (ge_sha1 g) (content_hash (ge_sha1 g) (cp_content row)) (author_of p row) ex st = (ids, st1)"
    by fastforce
  define l where "l = new_learning st1 (author_of p row) (accepted_category row params) (cp_content row) now None
    (content_hash (ge_sha1 g) (cp_content row))"
  note run1 = run[unfolded ex ab sum.case prod.case l_def[symmetric]]
  obtain r st3 where en: "ensure_canonical_learning_node (ge_sha1 g) (ge_extract g) (insert_learning l st1) (l_id l)
      (author_of p row) (cp_content row) (ge_vault g) now = Some (r, st3)"
    using run1 by (cases "ensure_canonical_learning_node (ge_sha1 g) (ge_extract g) (insert_learning l st1) (l_id l)
      (author_of p row) (cp_content row) (ge_vault g) now") auto
  define near where "near = ids @ filter (\<lambda>i. i \<notin> set ids) (find_near_duplicate_active_learning (ge_cosine g) st3
    (author_of p row) (accepted_category row params) (cp_content row) (l_id l) None)"
  note run2 = run1[unfolded en option.case prod.case near_def[symmetric]]
  obtain ds st4 where re: "replace_learnings g (author_of p row) (l_id l) near st3 = (ds, st4)" by fastforce
  from run2[unfolded re prod.case] have "ds = Some docs" "st4 = st'" "s = ''accepted''" "lid = Some (l_id l)" "author = author_of p row"
    by (cases ds; simp)+
  then show thesis using that[OF ex ab l_def en] re by blast
qed

lemma accept_result:
  assumes ok: "store_ok st" and acc: "accept_into_store g p row params i now st = Finished s lid author docs st'"
  shows "s = ''accepted'' \<and> author = author_of p row \<and> store_ok st' \<and> st_candidates st' = st_candidates st
    \<and> st_actions st' = st_actions st \<and> st_allows_dns st' = st_allows_dns st"
    and "tidy_rows (st_learnings st) \<Longrightarrow> explicit_supersedes g p (author_of p row) i params st = Inr [] \<Longrightarrow>
      \<exists>l. lid = Some (l_id l) \<and> l_content l = cp_content row \<and> l_agent l = author_of p row \<and> l_created l = now
        \<and> filter (same_text (ge_sha1 g) (content_hash (ge_sha1 g) (cp_content row)) (author_of p row)) (st_learnings st') = [l]"
proof -
  let ?h = "content_hash (ge_sha1 g) (cp_content row)"
  obtain ex ids st1 l r st3 near where ex: "explicit_supersedes g p (author_of p row) i params st = Inr ex"
    and ab: "absorb_hash_duplicates (ge_sha1 g) ?h (author_of p row) ex st = (ids, st1)"
    and l: "l = new_learning st1 (author_of p row) (accepted_category row params) (cp_content row) now None ?h"
    and en: "ensure_canonical_learning_node (ge_sha1 g) (ge_extract g) (insert_learning l st1) (l_id l) (author_of p row) (cp_content row) (ge_vault g) now = Some (r, st3)"
    and re: "replace_learnings g (author_of p row) (l_id l) near st3 = (Some docs, st')"
    and fin: "s = ''accepted''" "lid = Some (l_id l)" "author = author_of p row"
    using accept_steps[OF acc] by blast
  obtain more where st1: "st1 = st\<lparr>st_learnings := map (superseded_rows (set more)) (st_learnings st)\<rparr>"
    and rest: "\<And>k. find_active_learning_by_hash (ge_sha1 g) st1 ?h (author_of p row) = Some k \<Longrightarrow> l_id k \<in> set ex"
    using absorb_result[OF ab] by blast
  have ids1: "l_id ` set (st_learnings st1) = l_id ` set (st_learnings st)" by (simp add: st1 image_image)
  have lrow: "l_id l = st_next_learning st1" "l_successor l = None" "l_contradicts l = None" "l_agent l = author_of p row"
    "l_content l = cp_content row" "l_created l = now" "l_hash l = Some ?h" "recallable l"
    by (simp_all add: l new_learning_def recallable_def)
  have ok1: "store_ok st1" using ok superseded_rows_ok ids1 by (simp add: store_ok_def st1 image_image)
  have ok2: "store_ok (insert_learning l st1)"
    using ok1 insert_learning_ok[of "st_learnings st1" "st_next_learning st1" l] lrow(1-3)
    by (auto simp: store_ok_def insert_learning_def elim: joins_ok_mono)
  have ok3: "store_ok st3" using ensure_keeps_ok[OF ok2 en] .
  have l3: "st_learnings st3 = st_learnings st1 @ [l]" using ensure_tables(1)[OF en] by (simp add: insert_learning_def)
  have in3: "l_id l \<in> l_id ` set (st_learnings st3)" by (simp add: l3)
  note rr = replace_learnings_result[OF ok3 in3 re]
  show "s = ''accepted'' \<and> author = author_of p row \<and> store_ok st' \<and> st_candidates st' = st_candidates st
    \<and> st_actions st' = st_actions st \<and> st_allows_dns st' = st_allows_dns st"
    using rr fin ensure_tables[OF en] by (simp add: insert_learning_def st1)
  assume tidy: "tidy_rows (st_learnings st)" and "explicit_supersedes g p (author_of p row) i params st = Inr []"
  then have "ex = []" using ex by simp
  then have "find_active_learning_by_hash (ge_sha1 g) st1 ?h (author_of p row) = None"
    using rest by (cases "find_active_learning_by_hash (ge_sha1 g) st1 ?h (author_of p row)") auto
  note none = no_hash_duplicate[OF this]
  have tidy3: "tidy_rows (st_learnings st3)"
    using tidy by (auto simp: tidy_rows_def l3 st1 superseded_rows_def lrow(2))
  let ?P = "same_text (ge_sha1 g) ?h (author_of p row)"
  have rec: "filter ?P xs = filter ?P (filter recallable xs)" for xs by (auto simp: same_text_def intro!: filter_cong)
  have "filter ?P (st_learnings st') = filter ?P (filter (\<lambda>k. l_id k = l_id l \<or> l_id k \<notin> set near) (filter recallable (st_learnings st3)))"
    using rr tidy3 rec[of "st_learnings st'"] by simp
  also have "\<dots> = filter (\<lambda>k. l_id k = l_id l \<or> l_id k \<notin> set near) (filter ?P (st_learnings st3))"
    by (subst (2) rec) (auto intro!: filter_cong)
  also have "\<dots> = [l]" using none lrow by (simp add: l3 same_text_def)
  finally show "\<exists>l. lid = Some (l_id l) \<and> l_content l = cp_content row \<and> l_agent l = author_of p row \<and> l_created l = now
        \<and> filter ?P (st_learnings st') = [l]" using fin(2) lrow by blast
qed

section \<open>The properties of a resolution\<close>

lemma settle_candidate_tables:
  assumes "settle_candidate p cid s reason now st = (final, st')"
  shows "st_learnings st' = st_learnings st" "st_documents st' = st_documents st" "st_joins st' = st_joins st"
    "st_next_learning st' = st_next_learning st" "st_next_document st' = st_next_document st"
    "st_next_candidate st' = st_next_candidate st" "st_allows_dns st' = st_allows_dns st"
    "st_actions st' = st_actions (snd (supersede_afm_review cid st))"
    "\<exists>why. st_candidates st' = map (\<lambda>c. if cp_id c = cid then c\<lparr>cp_status := final, cp_resolved_at := Some now,
       cp_resolved_by := Some (ep_agent_id p), cp_reason := Some why\<rparr> else c) (st_candidates st)"
    "final = (if s \<in> {''do_not_store'', ''log_only''} \<and> \<not> st_allows_dns st then ''rejected'' else s)"
  using assms by (auto simp: settle_candidate_def Let_def apply_accepted_candidate_effects_def supersede_afm_review_def
      store_simps split: if_splits)

lemma accepted_or_noted_result:
  assumes ok: "store_ok st" and fin: "accepted_or_noted g p row params i now status st = Finished s lid author docs st'"
  shows "s = status \<and> store_ok st' \<and> st_candidates st' = st_candidates st \<and> st_actions st' = st_actions st
    \<and> st_allows_dns st' = st_allows_dns st \<and> (status \<noteq> ''accepted'' \<longrightarrow> st' = st)"
  using accept_result(1)[OF ok, of g p row params i now s lid author docs st'] fin ok
  by (auto simp: accepted_or_noted_def split: if_splits)

lemma candidates_ok_map: "(\<And>c. cp_id (f c) = cp_id c) \<Longrightarrow> candidates_ok cs n \<Longrightarrow>
    candidates_ok (map (\<lambda>c. if cp_id c = i then f c else c) cs) n"
  unfolding candidates_ok_def by (auto simp: distinct_map inj_on_def split: if_splits)

lemma flag_keeps_ok: "store_ok st \<Longrightarrow> store_ok (flag_candidate cid row st)"
  by (auto simp: store_ok_def flag_candidate_def store_simps intro!: candidates_ok_map)

lemma resolve_keeps_ok:
  assumes ok: "store_ok st" and res: "resolve_stamped g p params i now st = ((reply, es), st')"
  shows "store_ok st'"
  using res
proof (cases rule: resolve_cases)
  case (refused c m)
  then show ?thesis using ok by simp
next
  case (failed s)
  then show ?thesis using ok by (simp add: rollback_def store_ok_def)
next
  case (withheld cid row c m)
  then show ?thesis using flag_keeps_ok[OF ok] by simp
next
  case (settled cid row status s lid author docs st2 final okx)
  note r = accepted_or_noted_result[OF flag_keeps_ok[OF ok] settled(5)]
  note t = settle_candidate_tables[OF settled(6)]
  obtain why where "st_candidates st' = map (\<lambda>c. if cp_id c = cid then c\<lparr>cp_status := final, cp_resolved_at := Some now,
       cp_resolved_by := Some (ep_agent_id p), cp_reason := Some why\<rparr> else c) (st_candidates st2)" using t(9) by blast
  then show ?thesis using r t(1-6) by (auto simp: store_ok_def intro!: candidates_ok_map)
qed

text \<open>Handling requests one after the other.\<close>

type_synonym request = "effective_principal \<times> pydict \<times> pyval \<times> rat"

fun resolve_all :: "gov_env \<Rightarrow> request list \<Rightarrow> store \<Rightarrow> store" where
  "resolve_all g [] st = st"
| "resolve_all g ((p, params, i, now) # rs) st = resolve_all g rs (snd (resolve_stamped g p params i now st))"

lemma resolve_all_ok: "store_ok st \<Longrightarrow> store_ok (resolve_all g rs st)"
proof (induction g rs st rule: resolve_all.induct)
  case (2 g p params i now rs st)
  obtain reply es st' where "resolve_stamped g p params i now st = ((reply, es), st')" by (metis surj_pair)
  then show ?case using 2 resolve_keeps_ok by simp
qed simp

lemma found_candidate:
  assumes "candidates_ok cs n" "find (\<lambda>c. cp_id c = cid) cs = Some row" "c \<in> set cs" "cp_id c = cid"
  shows "c = row"
  using assms by (auto simp: candidates_ok_def find_Some_iff distinct_map inj_on_def)

lemma resolved_row_stays:
  assumes ok: "store_ok st" and c: "c \<in> set (st_candidates st)" and closed: "cp_status c \<noteq> ''proposed''"
    and res: "resolve_stamped g p params i now st = ((reply, es), st')"
  shows "c \<in> set (st_candidates st') \<and> (py_int (dget params ''candidate_id'') = Some (cp_id c) \<longrightarrow> es = [] \<and> rollback st st' = st')"
proof -
  have cok: "candidates_ok (st_candidates st) (st_next_candidate st)" using ok by (simp add: store_ok_def)
  have other: "cp_id c \<noteq> cid" if "find (\<lambda>c. cp_id c = cid) (st_candidates st) = Some row" "cp_status row = ''proposed''" for row cid
    using found_candidate[OF cok that(1) c] that(2) closed by auto
  have rest: "x \<in> set xs \<Longrightarrow> cp_id x \<noteq> j \<Longrightarrow> x \<in> set (map (\<lambda>c. if cp_id c = j then f c else c) xs)" for x :: candidate and xs :: "candidate list" and j f
    by (force simp: image_iff)
  show ?thesis
    using res
  proof (cases rule: resolve_cases)
    case (refused cc m)
    then show ?thesis using c by (simp add: rollback_same)
  next
    case (failed s)
    then show ?thesis using c by (simp add: rollback_def)
  next
    case (withheld cid row cc m)
    then show ?thesis using c other[OF withheld(4,6)] rest by (simp add: withheld(1) flag_candidate_def store_simps)
  next
    case (settled cid row status s lid author docs st2 final okx)
    have open_row: "cp_status row = ''proposed''" using settled(4) by (simp add: may_resolve_def)
    have "c \<in> set (st_candidates (flag_candidate cid row st))"
      using c other[OF settled(2) open_row] rest by (simp add: flag_candidate_def store_simps)
    then have "c \<in> set (st_candidates st2)"
      using accepted_or_noted_result[OF flag_keeps_ok[OF ok] settled(5)] by simp
    then show ?thesis using settle_candidate_tables(9)[OF settled(6)] other[OF settled(2) open_row] rest settled(1) by auto
  qed
qed

end
