(* ===== verification/Governance_Properties.thy ===== *)
theory Governance_Properties
  imports Governance_Safety
begin

text \<open>
  The properties of candidate resolution, of eviction and of the canonical nodes at the level of the handlers, each
  with a witness on a small store.
\<close>

section \<open>Resolution is terminal\<close>

lemma resolved_rows_stay:
  "store_ok st \<Longrightarrow> c \<in> set (st_candidates st) \<Longrightarrow> cp_status c \<noteq> ''proposed'' \<Longrightarrow> c \<in> set (st_candidates (resolve_all g rs st))"
proof (induction g rs st rule: resolve_all.induct)
  case (2 g p params i now rs st)
  obtain reply es st' where "resolve_stamped g p params i now st = ((reply, es), st')" by (metis surj_pair)
  then show ?case using 2 resolve_keeps_ok resolved_row_stays by simp
qed simp

text \<open>C3: Resolution is terminal: once a candidate has left the proposed state, its row stays as it is through any
  sequence of resolutions by anyone, and a further request for it asks for no effect and changes no table.
\<close>

theorem resolution_is_terminal:
  assumes "store_ok st" and "c \<in> set (st_candidates st)" and "cp_status c \<noteq> ''proposed''"
    and "py_int (dget params ''candidate_id'') = Some (cp_id c)"
    and "resolve_stamped g p params i now (resolve_all g rs st) = ((reply, es), st')"
  shows "c \<in> set (st_candidates (resolve_all g rs st)) \<and> c \<in> set (st_candidates st') \<and> es = []
    \<and> rollback (resolve_all g rs st) st' = st'"
proof -
  note c = resolved_rows_stay[OF assms(1-3), of g rs]
  show ?thesis using resolved_row_stays[OF resolve_all_ok[OF assms(1)] c assms(3,5)] c assms(4) by simp
qed

section \<open>Who may resolve, and who may make memory durable\<close>



section \<open>Refusals\<close>

definition unflagged :: "candidate \<Rightarrow> candidate" where
  "unflagged c = c\<lparr>cp_instruction_like := False\<rparr>"

text \<open>C28: A request that asks for no effect has left the learnings, the documents, their joins and the review fences as
  they were, and of the candidates nothing but the flag of an instruction-like text.
\<close>

theorem refusal_changes_nothing:
  assumes "resolve_stamped g p params i now st = ((reply, []), st')"
  shows "st_learnings st' = st_learnings st \<and> st_documents st' = st_documents st \<and> st_joins st' = st_joins st
    \<and> st_actions st' = st_actions st \<and> map unflagged (st_candidates st') = map unflagged (st_candidates st)"
  using assms
proof (cases rule: resolve_cases)
  case (refused c m)
  then show ?thesis by simp
next
  case (failed s)
  then show ?thesis by (simp add: rollback_def)
next
  case (withheld cid row c m)
  then show ?thesis by (simp add: store_simps flag_candidate_def unflagged_def)
next
  case (settled cid row status s lid author docs st2 final ok)
  then show ?thesis by (auto simp: resolve_effects_def settle_accepted_candidate_def Let_def split: option.splits)
qed

section \<open>What a resolution leaves\<close>

lemma flag_candidate_ids: "cp_id ` set (st_candidates (flag_candidate cid row st)) = cp_id ` set (st_candidates st)"
proof (cases "instruction_flagged row \<and> \<not> cp_instruction_like row")
  case True
  then show ?thesis by (simp add: flag_candidate_def store_simps del: set_map) (subst map_keeps_keys(1), simp_all)
qed (auto simp: flag_candidate_def)

lemma fences_released: "filter (\<lambda>a. marker_active a \<and> ra_claim a = Some (int_str cid)) (st_actions (snd (supersede_afm_review cid st))) = []"
  by (auto simp: supersede_afm_review_def Let_def filter_empty_conv marker_active_def)

text \<open>A request that asks for an effect has settled the candidate it names: every row of that id carries the status
  of the decision (or rejected, where the schema does not know it yet), the caller as the resolver and the time, and
  no review fence for it stays active.
\<close>

theorem resolution_settles_candidate:
  assumes "store_ok st" and "resolve_stamped g p params i now st = ((reply, e # es), st')"
  shows "\<exists>cid status. py_int (dget params ''candidate_id'') = Some cid \<and> map_of STATUS_MAP (decision_of params) = Some status
    \<and> filter (\<lambda>a. marker_active a \<and> ra_claim a = Some (int_str cid)) (st_actions st') = []
    \<and> cid \<in> cp_id ` set (st_candidates st')
    \<and> (\<forall>c\<in>set (st_candidates st'). cp_id c = cid \<longrightarrow> cp_resolved_by c = Some (ep_agent_id p) \<and> cp_resolved_at c = Some now
        \<and> cp_status c = (if status \<in> {''do_not_store'', ''log_only''} \<and> \<not> st_allows_dns st then ''rejected'' else status))"
  using assms(2)
proof (cases rule: resolve_cases)
  case (settled cid row status s lid author docs st2 final ok)
  note r = accepted_or_noted_result[OF flag_keeps_ok[OF assms(1)] settled(5)]
  note t = settle_candidate_tables[OF settled(6)]
  obtain why where rows: "st_candidates st' = map (\<lambda>c. if cp_id c = cid then c\<lparr>cp_status := final, cp_resolved_at := Some now,
       cp_resolved_by := Some (ep_agent_id p), cp_reason := Some why\<rparr> else c) (st_candidates (flag_candidate cid row st))"
    using t(9) r by auto
  have "row \<in> set (st_candidates st)" "cp_id row = cid" using settled(2) by (auto simp: find_Some_iff)
  moreover have "cp_id ` set (st_candidates st') = cp_id ` set (st_candidates st)"
    unfolding rows by (subst map_keeps_keys(1)) (simp_all add: flag_candidate_ids)
  ultimately have "cid \<in> cp_id ` set (st_candidates st')" by blast
  moreover have final: "final = (if status \<in> {''do_not_store'', ''log_only''} \<and> \<not> st_allows_dns st then ''rejected'' else status)"
    using t(10) r by (simp add: store_simps)
  have "\<forall>c\<in>set (st_candidates st'). cp_id c = cid \<longrightarrow> cp_resolved_by c = Some (ep_agent_id p) \<and> cp_resolved_at c = Some now
      \<and> cp_status c = final"
  proof (intro ballI impI)
    fix c assume "c \<in> set (st_candidates st')" and cid: "cp_id c = cid"
    then obtain x where x: "c = (if cp_id x = cid then x\<lparr>cp_status := final, cp_resolved_at := Some now,
       cp_resolved_by := Some (ep_agent_id p), cp_reason := Some why\<rparr> else x)" unfolding rows set_map by blast
    show "cp_resolved_by c = Some (ep_agent_id p) \<and> cp_resolved_at c = Some now \<and> cp_status c = final"
      using cid by (cases "cp_id x = cid") (simp_all add: x)
  qed
  moreover have "filter (\<lambda>a. marker_active a \<and> ra_claim a = Some (int_str cid)) (st_actions st') = []"
    unfolding t(8) by (rule fences_released)
  ultimately show ?thesis using settled(1,3) unfolding final by blast
qed (use assms in simp_all)

text \<open>C9: When the transaction of an acceptance commits, no learning was named for supersession and no active learning
  has a successor, then the author has exactly one recallable learning of that text, the new one, with the
  candidate's content and the time of the decision.
\<close>

theorem acceptance_leaves_one_learning:
  assumes "store_ok st" and "tidy_rows (st_learnings st)" and "\<not> has_key params ''supersede_ids''" and "\<not> has_key params ''supersedes''"
    and "find (\<lambda>c. cp_id c = cid) (st_candidates st) = Some row"
    and "resolve_in_transaction g p params i cid ''accepted'' reason now st = Finished final lid author docs st'"
  shows "\<exists>l. lid = Some (l_id l) \<and> author = author_of p row \<and> l_content l = cp_content row \<and> l_agent l = author \<and> l_created l = now
    \<and> filter (same_text (ge_sha1 g) (content_hash (ge_sha1 g) (cp_content row)) author) (st_learnings st') = [l]"
proof -
  have none: "explicit_supersedes g p a i params s = Inr []" for a s
    using assms(3,4) by (auto simp: explicit_supersedes_def Let_def has_key_def dget_def)
  have ok: "store_ok (flag_candidate cid row st)" using flag_keeps_ok[OF assms(1)] .
  show ?thesis
  proof (cases rule: txn_cases[of g p params i cid "''accepted''" reason now st])
    case (settled row' s lid' author' docs' st2 final' st3)
    have same: "row' = row" "lid' = lid" "author' = author" "st3 = st'" using settled(1,2) assms(5,6) by auto
    have acc: "accept_into_store g p row params i now (flag_candidate cid row st) = Finished s lid author docs' st2"
      using settled(4) by (simp add: accepted_or_noted_def same)
    have tidy: "tidy_rows (st_learnings (flag_candidate cid row st))" using assms(2) by (simp add: store_simps)
    show ?thesis using accept_result(1)[OF ok acc] accept_result(2)[OF ok acc tidy none]
        settle_candidate_tables(1)[OF settled(5)] by (auto simp: same)
  qed (use assms(6) in auto)
qed

text \<open>C10: Every sequence of resolutions keeps the store well formed: keys unique and below their counters, paths and memory
  names unique, and no join, successor or contradiction that points at a missing row.
\<close>

theorem resolutions_keep_store_ok:
  assumes "store_ok st"
  shows "store_ok (resolve_all g rs st)"
  using assms by (rule resolve_all_ok)

section \<open>Listing\<close>

text \<open>A listing never has more rows than its limit, which is between 1 and 500; every row has the status asked for,
  and it belongs to the caller's principal family unless the caller is an operator who names no agent; and
  \<open>has_more\<close> says exactly whether a matching row was left out.
\<close>

theorem listing_stays_in_family:
  assumes "list_candidates p params i st = Listed page"
  shows "ls_count page = length (ls_rows page) \<and> ls_count page \<le> ls_limit page \<and> 1 \<le> ls_limit page \<and> ls_limit page \<le> 500
    \<and> (\<forall>c\<in>set (ls_rows page). cp_status c = status_filter params \<and> c \<in> set (st_candidates st)
        \<and> (cp_principal c \<in> set (principal_family (ep_agent_id p)) \<or> is_operator_principal p
             \<and> py_strip (py_str (py_or (dget params ''agent_id'') (PStr []))) = []))
    \<and> (ls_has_more page = (ls_limit page < length (filter (\<lambda>c. cp_status c = status_filter params
        \<and> (is_operator_principal p \<and> py_strip (py_str (py_or (dget params ''agent_id'') (PStr []))) = []
           \<or> cp_principal c \<in> set (principal_family (ep_agent_id p)))) (st_candidates st))))"
proof -
  obtain n where n: "py_int (dget_or params ''limit'' (PInt 100)) = Some n"
    using assms by (auto simp: list_candidates_def Let_def split: option.splits pyval.splits pyfloat.splits)
  let ?limit = "nat (min (max n 1) 500)"
  let ?P = "\<lambda>c. cp_status c = status_filter params
        \<and> (is_operator_principal p \<and> py_strip (py_str (py_or (dget params ''agent_id'') (PStr []))) = []
           \<or> cp_principal c \<in> set (principal_family (ep_agent_id p)))"
  let ?hits = "newest_candidates (filter ?P (st_candidates st))"
  have page: "ls_rows page = take ?limit ?hits" "ls_limit page = ?limit" "ls_count page = length (take ?limit ?hits)"
    "ls_has_more page = (?limit < length (take (?limit + 1) ?hits))"
    using assms n by (auto simp: list_candidates_def Let_def min_def)
  have hits: "set ?hits = {c \<in> set (st_candidates st). ?P c}" "length ?hits = length (filter ?P (st_candidates st))"
    by (auto simp: newest_candidates_def)
  have lim: "1 \<le> ?limit" "?limit \<le> 500" by auto
  have rows: "?P c \<and> c \<in> set (st_candidates st)" if "c \<in> set (ls_rows page)" for c
    using that hits(1) by (auto simp: page dest: in_set_takeD)
  have more: "ls_has_more page = (?limit < length (filter ?P (st_candidates st)))"
    unfolding page(4) length_take hits(2) by linarith
  have "ls_count page = length (ls_rows page)" "ls_count page \<le> ls_limit page" by (simp_all add: page)
  then show ?thesis using rows lim more unfolding page(2) by blast
qed

section \<open>The properties on a small store\<close>

definition sample_gov :: gov_env where
  "sample_gov = \<lparr>ge_operators = [], ge_vault = ''/v'', ge_writeback = True, ge_sha1 = (\<lambda>s. s), ge_extract = sample_meta, ge_cosine = (\<lambda>_ _. 0), ge_indexed = True, ge_embed = (\<lambda>s. Some s),
     ge_loads = (\<lambda>_. None), ge_from_iso = (\<lambda>_. None), ge_gate_since = PNone, ge_hash_column = True\<rparr>"

definition sample_operator :: effective_principal where
  "sample_operator = \<lparr>ep_agent_id = ''codex'', ep_workspace_id = ''default'', ep_session_id = PNone, ep_transport = ''uds'',
     ep_capabilities = [PStr ''*''], ep_vault_roots = [], ep_auto_accept_own = False, ep_deny_reason = None\<rparr>"

definition sample_candidate :: "int \<Rightarrow> string \<Rightarrow> candidate" where
  "sample_candidate i status = \<lparr>cp_id = i, cp_principal = ''codex'', cp_workspace = ''default'', cp_privacy = Some ''review'',
     cp_requested = Some ''safe'', cp_category = ''fix'', cp_content = ''use rebase'', cp_evidence = ''[]'', cp_derived = ''{}'',
     cp_instruction_like = False, cp_status = status, cp_proposed_at = of_int i, cp_resolved_at = None, cp_resolved_by = None,
     cp_reason = None\<rparr>"

definition governed_store :: store where
  "governed_store = one_learning\<lparr>st_candidates := [sample_candidate 1 ''proposed'', sample_candidate 2 ''rejected''],
     st_actions := [\<lparr>ra_id = 1, ra_type = ''afm_review'', ra_claim = Some ''1'', ra_status = Some ''pending''\<rparr>],
     st_next_candidate := 3\<rparr>"

definition accept_params :: "int \<Rightarrow> pydict" where
  "accept_params i = [(''candidate_id'', PInt i), (''decision'', PStr ''accept'')]"

definition first_acceptance :: "request list" where
  "first_acceptance = [(sample_operator, accept_params 1, PInt 9, 5)]"

lemma governed_store_ok: "store_ok governed_store"
  using one_learning_ok by (simp add: store_ok_def governed_store_def candidates_ok_def sample_candidate_def)

lemma resolution_is_terminal_witness:
  "sample_candidate 2 ''rejected'' \<in> set (st_candidates (resolve_all sample_gov first_acceptance governed_store))
    \<and> snd (fst (resolve_stamped sample_gov sample_operator (accept_params 2) (PInt 9) 6
        (resolve_all sample_gov first_acceptance governed_store))) = []"
proof -
  let ?r = "resolve_stamped sample_gov sample_operator (accept_params 2) (PInt 9) 6
        (resolve_all sample_gov first_acceptance governed_store)"
  have c: "sample_candidate 2 ''rejected'' \<in> set (st_candidates governed_store)" "cp_status (sample_candidate 2 ''rejected'') \<noteq> ''proposed''"
    "py_int (dget (accept_params 2) ''candidate_id'') = Some (cp_id (sample_candidate 2 ''rejected''))"
    by (simp_all add: governed_store_def sample_candidate_def accept_params_def dget_def)
  have "?r = ((fst (fst ?r), snd (fst ?r)), snd ?r)" by simp
  from resolution_is_terminal[OF governed_store_ok c this] show ?thesis by blast
qed


lemma refusal_changes_nothing_witness:
  "st_learnings (snd (resolve_stamped sample_gov sample_operator (accept_params 2) (PInt 9) 5 governed_store)) = st_learnings governed_store"
proof -
  let ?r = "resolve_stamped sample_gov sample_operator (accept_params 2) (PInt 9) 5 governed_store"
  have "snd (fst ?r) = []" by code_simp
  then have "?r = ((fst (fst ?r), []), snd ?r)" by (metis prod.collapse)
  from refusal_changes_nothing[OF this] show ?thesis by blast
qed

lemma resolution_settles_candidate_witness:
  "\<exists>cid. py_int (dget (accept_params 1) ''candidate_id'') = Some cid
    \<and> filter (\<lambda>a. marker_active a \<and> ra_claim a = Some (int_str cid))
        (st_actions (snd (resolve_stamped sample_gov sample_operator (accept_params 1) (PInt 9) 5 governed_store))) = []"
proof -
  let ?r = "resolve_stamped sample_gov sample_operator (accept_params 1) (PInt 9) 5 governed_store"
  have "snd (fst ?r) \<noteq> []" by code_simp
  then have "?r = ((fst (fst ?r), hd (snd (fst ?r)) # tl (snd (fst ?r))), snd ?r)" by (metis list.collapse prod.collapse)
  from resolution_settles_candidate[OF governed_store_ok this] show ?thesis by blast
qed

lemma acceptance_leaves_one_learning_witness:
  "\<exists>final lid author docs st' l.
    resolve_in_transaction sample_gov sample_operator (accept_params 1) (PInt 9) 1 ''accepted'' [] 5 governed_store
      = Finished final lid author docs st' \<and> l_content l = ''use rebase''
    \<and> filter (same_text (\<lambda>s. s) (content_hash (\<lambda>s. s) ''use rebase'') author) (st_learnings st') = [l]"
proof -
  let ?t = "resolve_in_transaction sample_gov sample_operator (accept_params 1) (PInt 9) 1 ''accepted'' [] 5 governed_store"
  have "(case ?t of Finished _ _ _ _ _ \<Rightarrow> True | _ \<Rightarrow> False) = True" by code_simp
  then obtain final lid author docs st' where run: "?t = Finished final lid author docs st'"
    by (cases ?t) simp_all
  have tidy: "tidy_rows (st_learnings governed_store)"
    by (simp add: tidy_rows_def governed_store_def one_learning_def sample_store_def sample_learning_def)
  have keys: "\<not> has_key (accept_params 1) ''supersede_ids''" "\<not> has_key (accept_params 1) ''supersedes''"
    by (simp_all add: has_key_def accept_params_def)
  have row: "find (\<lambda>c. cp_id c = 1) (st_candidates governed_store) = Some (sample_candidate 1 ''proposed'')"
    by (simp add: governed_store_def sample_candidate_def)
  from acceptance_leaves_one_learning[OF governed_store_ok tidy keys row run] run show ?thesis
    by (simp add: sample_gov_def sample_candidate_def) blast
qed

lemma resolutions_keep_store_ok_witness: "store_ok (resolve_all sample_gov first_acceptance governed_store)"
  by (rule resolutions_keep_store_ok[OF governed_store_ok])

text \<open>Two learnings of one text in two categories; the newer one is named for supersession.\<close>

definition twin_store :: store where
  "twin_store = governed_store\<lparr>st_learnings := [(sample_learning 1 ''use rebase'' None None)\<lparr>l_category := ''scar''\<rparr>,
     sample_learning 2 ''use rebase'' None None], st_next_learning := 3\<rparr>"

text \<open>Naming a learning for supersession can leave a duplicate in recall: the search for duplicates ends at the first
  one that the caller has named, so that here, where the newer of two learnings of the accepted text is named, the
  older one, of another category, stays recallable beside the new learning; without the name it does not.
\<close>

theorem named_duplicate_hides_the_rest:
  "map l_id (filter (same_text (\<lambda>s. s) (content_hash (\<lambda>s. s) ''use rebase'') ''codex'') (st_learnings
      (snd (resolve_stamped sample_gov sample_operator ((''supersede_ids'', PList [PInt 2]) # accept_params 1) (PInt 9) 5 twin_store)))) = [1, 3]
   \<and> map l_id (filter (same_text (\<lambda>s. s) (content_hash (\<lambda>s. s) ''use rebase'') ''codex'') (st_learnings
      (snd (resolve_stamped sample_gov sample_operator (accept_params 1) (PInt 9) 5 twin_store)))) = [3]"
  by (intro conjI) code_simp+

lemma listing_stays_in_family_witness:
  "\<exists>page. list_candidates sample_operator [(''limit'', PInt 7)] (PInt 9) governed_store = Listed page
    \<and> ls_count page \<le> 500 \<and> ls_count page \<le> ls_limit page"
proof -
  obtain page where run: "list_candidates sample_operator [(''limit'', PInt 7)] (PInt 9) governed_store = Listed page"
    by (simp add: list_candidates_def dget_or_def Let_def)
  from listing_stays_in_family[OF this] have "ls_count page \<le> ls_limit page \<and> ls_limit page \<le> 500" by blast
  then show ?thesis using run by auto
qed

end
