(* ===== verification/Harness_Envelopes.thy ===== *)
theory Harness_Envelopes
  imports Py_Regex "HOL-Library.Sublist"
begin

text \<open>
  The text rules that tell what a person typed from what the host injected: \<open>afm_passes/harness_envelopes.py\<close>.
  Complete blocks are removed anywhere in the text, then the start of the rest is compared with the skip rules and
  unwrapped by the wrapper rules, at most four times.

  The source counts UTF-16 units; a Latin-1 text has one unit per character, so the two conversions are the identity
  here and are left out.
\<close>

section \<open>Rules\<close>

definition TRIM_CHARS :: string where
  "TRIM_CHARS = '' '' @ map char_of [9, 13, 10, 12, 11 :: nat]"

record skip_rule =
  sk_rule :: string
  sk_prefix :: string
  sk_subkind :: string

datatype wrapper_form = TagPair string | LeadLine string | Header string

record wrapper_rule =
  wr_rule :: string
  wr_form :: wrapper_form
  wr_subkind :: string

definition BLOCK_TAGS :: "(string \<times> string) list" where
  "BLOCK_TAGS = [(''block.system_reminder'', ''system-reminder'')]"

definition SKIP_RULES :: "skip_rule list" where
  "SKIP_RULES =
    [\<lparr>sk_rule = ''skip.task_notification'', sk_prefix = ''<task-notification'', sk_subkind = ''task_notification''\<rparr>,
     \<lparr>sk_rule = ''skip.side_sessions_event'', sk_prefix = ''<side-sessions-event>'', sk_subkind = ''side_sessions_event''\<rparr>,
     \<lparr>sk_rule = ''skip.ci_monitor_event'', sk_prefix = ''<ci-monitor-event>'', sk_subkind = ''ci_monitor_event''\<rparr>,
     \<lparr>sk_rule = ''skip.command_name'', sk_prefix = ''<command-name>'', sk_subkind = ''slash_command''\<rparr>,
     \<lparr>sk_rule = ''skip.command_message'', sk_prefix = ''<command-message>'', sk_subkind = ''slash_command''\<rparr>,
     \<lparr>sk_rule = ''skip.local_command_stdout'', sk_prefix = ''<local-command-stdout>'', sk_subkind = ''local_command_output''\<rparr>,
     \<lparr>sk_rule = ''skip.local_command_caveat'', sk_prefix = ''<local-command-caveat>'', sk_subkind = ''local_command_output''\<rparr>,
     \<lparr>sk_rule = ''skip.bash_input'', sk_prefix = ''<bash-input>'', sk_subkind = ''human_shell''\<rparr>]"

definition WRAPPER_RULES :: "wrapper_rule list" where
  "WRAPPER_RULES =
    [\<lparr>wr_rule = ''wrap.cross_session_message'', wr_form = TagPair ''cross-session-message'', wr_subkind = ''cross_session_message''\<rparr>,
     \<lparr>wr_rule = ''wrap.another_session_lead'', wr_form = LeadLine ''Another Claude session sent a message'',
      wr_subkind = ''cross_session_lead''\<rparr>,
     \<lparr>wr_rule = ''wrap.workflow_harness_header'', wr_form = Header ''[Workflow harness'', wr_subkind = ''workflow_harness''\<rparr>,
     \<lparr>wr_rule = ''wrap.artifact_comment_header'', wr_form = Header ''[Artifact comment'', wr_subkind = ''artifact_comment''\<rparr>]"

definition MAX_WRAPPER_DEPTH :: nat where "MAX_WRAPPER_DEPTH = 4"
definition MAX_OPEN_TAG_CHARS :: nat where "MAX_OPEN_TAG_CHARS = 512"
definition MAX_BLOCK_OPEN_TAG_CHARS :: nat where "MAX_BLOCK_OPEN_TAG_CHARS = 256"
definition MAX_HEADER_CHARS :: nat where "MAX_HEADER_CHARS = 256"

definition rule_ids :: "string list" where
  "rule_ids = map fst BLOCK_TAGS @ map sk_rule SKIP_RULES @ map wr_rule WRAPPER_RULES"

section \<open>Blocks\<close>

definition block_tag_pattern :: "string \<Rightarrow> re" where
  "block_tag_pattern tag = rseq [lit ''<'', RGroup 1 (opt (lit ''/'')), lit tag,
     RAhead True (RSet (one_of ('' >'' @ map char_of [9, 13, 10 :: nat]))),
     times 0 (Some MAX_BLOCK_OPEN_TAG_CHARS) (RSet (none_of ''>'')), lit ''>'']"

text \<open>
  The loop over the tags: \<open>bs_out\<close> is what has been kept, \<open>bs_since\<close> the text behind the last removed block and
  \<open>bs_lead\<close> the part of it before the open block.
\<close>

record block_scan =
  bs_depth :: nat
  bs_out :: string
  bs_since :: string
  bs_lead :: string
  bs_stripped :: bool

definition block_step :: "block_scan \<Rightarrow> piece \<Rightarrow> block_scan" where
  "block_step s p = (case p of
     Plain c \<Rightarrow> s\<lparr>bs_since := bs_since s @ [c]\<rparr>
   | Hit t caps \<Rightarrow>
      (let closing = (captured caps 1 = Some ''/''); more = s\<lparr>bs_since := bs_since s @ t\<rparr>
       in if bs_depth s = 0 then (if closing then more else more\<lparr>bs_depth := 1, bs_lead := bs_since s\<rparr>)
          else if closing then
            (if bs_depth s = 1 then s\<lparr>bs_depth := 0, bs_out := bs_out s @ bs_lead s, bs_since := [], bs_stripped := True\<rparr>
             else more\<lparr>bs_depth := bs_depth s - 1\<rparr>)
          else more\<lparr>bs_depth := bs_depth s + 1\<rparr>))"

definition strip_block_tag :: "string \<Rightarrow> string \<Rightarrow> string \<times> bool" where
  "strip_block_tag text tag =
    (let s = foldl block_step \<lparr>bs_depth = 0, bs_out = [], bs_since = [], bs_lead = [], bs_stripped = False\<rparr>
               (re_pieces (block_tag_pattern tag) text)
     in (bs_out s @ bs_since s, bs_stripped s))"

text \<open>\<open>s.strip(TRIM_CHARS)\<close>.\<close>

definition trim :: "string \<Rightarrow> string" where
  "trim s = rev (dropWhile (one_of TRIM_CHARS) (rev (dropWhile (one_of TRIM_CHARS) s)))"

definition strip_blocks_detailed :: "string \<Rightarrow> string \<times> string list" where
  "strip_blocks_detailed text =
    (case foldl (\<lambda>(current, fired) (rule, tag). case strip_block_tag current tag of (t, hit) \<Rightarrow>
            (t, if hit then fired @ [rule] else fired)) (text, []) BLOCK_TAGS
     of (current, fired) \<Rightarrow> (trim current, fired))"

definition strip_harness_blocks :: "string \<Rightarrow> string" where
  "strip_harness_blocks text = fst (strip_blocks_detailed text)"

section \<open>Wrappers\<close>

definition unwrap_tag_pair :: "string \<Rightarrow> string \<Rightarrow> string option" where
  "unwrap_tag_pair tag text =
    (let open_tag = ''<'' @ tag in
     if \<not> starts_with text open_tag then None
     else
       let behind = drop (length open_tag) text;
           open_end = (case behind of [] \<Rightarrow> None
             | c # _ \<Rightarrow> if c = CHR ''>'' then Some (length open_tag + 1)
                 else if one_of TRIM_CHARS c then (case py_find behind ''>'' 0 of None \<Rightarrow> None
                   | Some gt \<Rightarrow> if MAX_OPEN_TAG_CHARS < gt then None else Some (length open_tag + gt + 1))
                 else None)
       in (case open_end of None \<Rightarrow> None
           | Some e \<Rightarrow>
              (let body = drop e text; close_tag = ''</'' @ tag @ ''>''
               in case py_find body close_tag 0 of None \<Rightarrow> Some body
                  | Some i \<Rightarrow> Some (take i body @ drop (i + length close_tag) body))))"

definition unwrap_lead_line :: "string \<Rightarrow> string \<Rightarrow> string option" where
  "unwrap_lead_line lead text = (if \<not> starts_with text lead then None
     else Some (case py_find text [newline] 0 of None \<Rightarrow> [] | Some i \<Rightarrow> drop (i + 1) text))"

definition unwrap_header :: "string \<Rightarrow> string \<Rightarrow> string option" where
  "unwrap_header lead text = (if \<not> starts_with text lead then None
     else (case py_find (drop (length lead) text) '']'' 0 of
        None \<Rightarrow> None
      | Some i \<Rightarrow>
          if (case py_find text [newline] 0 of None \<Rightarrow> False | Some j \<Rightarrow> j < length lead + i) then None
          else if MAX_HEADER_CHARS < i then None else Some (drop (length lead + i + 1) text)))"

definition unwrap :: "wrapper_rule \<Rightarrow> string \<Rightarrow> string option" where
  "unwrap rule text = (case wr_form rule of
     TagPair tag \<Rightarrow> unwrap_tag_pair tag text
   | LeadLine lead \<Rightarrow> unwrap_lead_line lead text
   | Header lead \<Rightarrow> unwrap_header lead text)"

fun first_unwrap :: "wrapper_rule list \<Rightarrow> string \<Rightarrow> (wrapper_rule \<times> string) option" where
  "first_unwrap [] text = None"
| "first_unwrap (rule # rules) text = (case unwrap rule text of
     Some body \<Rightarrow> Some (rule, body) | None \<Rightarrow> first_unwrap rules text)"

fun unwrap_passes :: "nat \<Rightarrow> wrapper_rule option \<Rightarrow> string \<Rightarrow> wrapper_rule option \<times> string" where
  "unwrap_passes 0 outermost current = (outermost, current)"
| "unwrap_passes (Suc n) outermost current = (case first_unwrap WRAPPER_RULES current of
     None \<Rightarrow> (outermost, current)
   | Some (rule, body) \<Rightarrow> unwrap_passes n (Some (case outermost of None \<Rightarrow> rule | Some r \<Rightarrow> r)) (trim body))"

section \<open>Classification\<close>

record envelope =
  en_kind :: string
  en_subkind :: string
  en_body :: string
  en_rule :: "string option"
  en_suspicious :: bool

definition suspicious_prefix :: "string \<Rightarrow> bool" where
  "suspicious_prefix s \<longleftrightarrow> re_match (ralt [rseq [lit ''<'', RSet (any_class [upper_class, lower_class])],
     rseq [lit ''['', RSet upper_class]]) s \<noteq> None"

definition classify_prompt_envelope :: "string \<Rightarrow> envelope" where
  "classify_prompt_envelope text =
    (case strip_blocks_detailed text of (stripped, fired) \<Rightarrow>
      (let block_rule = (case fired of [] \<Rightarrow> None | r # _ \<Rightarrow> Some r) in
       if stripped = [] then
         \<lparr>en_kind = ''human'', en_subkind = ''empty'', en_body = [], en_rule = block_rule, en_suspicious = False\<rparr>
       else case find (\<lambda>r. starts_with stripped (sk_prefix r)) SKIP_RULES of
         Some r \<Rightarrow> \<lparr>en_kind = ''skip'', en_subkind = sk_subkind r, en_body = stripped, en_rule = Some (sk_rule r),
                    en_suspicious = False\<rparr>
       | None \<Rightarrow> (case unwrap_passes MAX_WRAPPER_DEPTH None stripped of
            (Some r, body) \<Rightarrow> \<lparr>en_kind = ''wrapped'', en_subkind = wr_subkind r, en_body = body,
               en_rule = Some (wr_rule r), en_suspicious = False\<rparr>
          | (None, _) \<Rightarrow> \<lparr>en_kind = ''human'', en_subkind = ''typed'', en_body = stripped, en_rule = block_rule,
               en_suspicious = suspicious_prefix stripped\<rparr>)))"

end
