(* ===== verification/Durability.thy ===== *)
theory Durability
  imports Harness_Envelopes
begin

text \<open>
  The durability predicate of learnings and vault notes, \<open>durability.py\<close>: noise, durable or ordinary, with the rule
  that decided.

  An item is a Python dictionary.  \<open>from_iso\<close> is \<open>datetime.fromisoformat\<close> followed by \<open>timestamp\<close>; \<open>gate_env\<close> is the
  environment variable \<open>MINNI_PROVENANCE_GATE_SINCE\<close>.  A float is the rational it denotes.
\<close>

section \<open>Categories\<close>

definition CATEGORY_SYNONYMS :: "(string \<times> string) list" where
  "CATEGORY_SYNONYMS =
    [(''decision'', ''decision''), (''adr'', ''decision''), (''fix'', ''fix''), (''bugfix'', ''fix''), (''scar'', ''fix''),
     (''procedure'', ''procedure''), (''architecture'', ''architecture''), (''preference'', ''preference'')]"

definition DURABLE_CATEGORIES :: "string list" where
  "DURABLE_CATEGORIES = [''decision'', ''fix'', ''procedure'', ''architecture'']"

definition DURABILITY_RULE_IDS :: "string list" where
  "DURABILITY_RULE_IDS =
    [''noise.envelope_skip'', ''noise.envelope_wrapped'', ''noise.envelope_system_reminder'', ''noise.compaction_source'',
     ''noise.compaction_path'', ''noise.plan_journal'', ''noise.plan_complete'', ''noise.plan_candidate_resolved'',
     ''durable.category'', ''durable.content_prefix'', ''durable.content_section'', ''durable.preference_post_gate'',
     ''ordinary.default'']"

definition normalize_category :: "pyval \<Rightarrow> string" where
  "normalize_category raw = (case raw of
     PStr s \<Rightarrow> (let cleaned = py_lower (py_strip s) in
       case map_of CATEGORY_SYNONYMS cleaned of None \<Rightarrow> cleaned | Some c \<Rightarrow> c)
   | _ \<Rightarrow> [])"

section \<open>Front matter\<close>

definition blanks :: re where
  "blanks = star (RSet (one_of ('' '' @ [char_of (9 :: nat)])))"

definition line_break :: re where
  "line_break = rseq [opt (lit [char_of (13 :: nat)]), lit [newline]]"

definition FRONTMATTER_BLOCK_RE :: re where
  "FRONTMATTER_BLOCK_RE = rseq [lit ''---'', blanks, line_break, opt (rseq [RGroup 1 (lazy any_char), line_break]),
     lit ''---'', blanks, ralt [line_break, RMark TextEnd]]"

definition FRONTMATTER_KV_RE :: re where
  "FRONTMATTER_KV_RE = rseq [RGroup 1 (plus (RSet (any_class [upper_class, lower_class, digit_class, one_of ''_-'']))),
     blanks, lit '':'', blanks, RGroup 2 (lazy any_but_newline), blanks, RMark Dollar]"

definition FRONTMATTER_STRIP_RE :: re where
  "FRONTMATTER_STRIP_RE = rseq [RMark TextStart, lit ''---'', blanks, line_break, opt (rseq [lazy any_char, line_break]),
     lit ''---'', blanks, opt line_break]"

definition LEADING_H1_RE :: re where
  "LEADING_H1_RE = rseq [RMark TextStart, lit ''#'', plus (RSet (one_of ('' '' @ [char_of (9 :: nat)]))),
     star (RSet (none_of (map char_of [13, 10 :: nat]))), ralt [line_break, RMark TextEnd]]"

definition unquote :: "string \<Rightarrow> string" where
  "unquote val = (if 2 \<le> length val \<and> hd val = List.last val \<and> hd val \<in> {CHR 0x22, CHR 0x27}
     then butlast (tl val) else val)"

definition frontmatter_line :: "(string \<times> string) list \<Rightarrow> string \<Rightarrow> (string \<times> string) list" where
  "frontmatter_line acc line = (case re_match FRONTMATTER_KV_RE line of
     None \<Rightarrow> acc
   | Some (_, caps) \<Rightarrow>
      (let group = (\<lambda>n. case captured caps n of None \<Rightarrow> [] | Some t \<Rightarrow> t);
           key = py_lower (py_strip (group 1)); val = unquote (py_strip (group 2))
       in if key \<noteq> [] \<and> val \<noteq> [] \<and> map_of acc key = None then acc @ [(key, val)] else acc))"

definition parse_scalar_frontmatter :: "string \<Rightarrow> (string \<times> string) list" where
  "parse_scalar_frontmatter text = (case re_match FRONTMATTER_BLOCK_RE text of
     None \<Rightarrow> []
   | Some (_, caps) \<Rightarrow> (case captured caps 1 of None \<Rightarrow> []
       | Some body \<Rightarrow> if body = [] then [] else foldl frontmatter_line [] (py_splitlines body)))"

definition strip_frontmatter_and_h1 :: "string \<Rightarrow> string" where
  "strip_frontmatter_and_h1 text =
     py_lstrip (re_sub LEADING_H1_RE (\<lambda>_ _. []) (py_lstrip (re_sub FRONTMATTER_STRIP_RE (\<lambda>_ _. []) text)))"

section \<open>The content test\<close>

definition CONTENT_TEST_PREFIXES :: "string list" where
  "CONTENT_TEST_PREFIXES = [''Decision:'', ''Fix:'', ''Root cause:'', ''Resolution:'', ''Invariant:'', ''Never '', ''Always '']"

definition CONTENT_SECTION_RE :: re where
  "CONTENT_SECTION_RE = rseq [RMark LineStart, lit ''##'', spaces, ralt [lit ''Resolution'', lit ''Fix''], edge]"

definition match_content_test_rule :: "string \<Rightarrow> string option" where
  "match_content_test_rule text = (if py_strip text = [] then None
     else let body = strip_frontmatter_and_h1 text in
       if list_ex (starts_with body) CONTENT_TEST_PREFIXES then Some ''durable.content_prefix''
       else if re_search CONTENT_SECTION_RE body then Some ''durable.content_section'' else None)"

section \<open>Fields of an item\<close>

definition normalize_path :: "string \<Rightarrow> string" where
  "normalize_path raw =
    (let cleaned = py_strip (map (\<lambda>c. if c = CHR 0x5C then CHR ''/'' else c) raw);
         inner = (if starts_with cleaned ''[['' \<and> ends_with cleaned '']]''
                  then py_strip (py_slice 2 (int (length cleaned) - 2) cleaned) else cleaned)
     in dropWhile (\<lambda>c. c = CHR ''/'') inner)"

definition text_of :: "pyval \<Rightarrow> string" where
  "text_of v = (case v of PStr s \<Rightarrow> s | _ \<Rightarrow> py_str v)"

fun first_non_empty :: "pyval list \<Rightarrow> string" where
  "first_non_empty [] = []"
| "first_non_empty (v # vs) = (if v = PNone \<or> text_of v = [] then first_non_empty vs else text_of v)"

fun first_trimmed :: "pyval list \<Rightarrow> string" where
  "first_trimmed [] = []"
| "first_trimmed (v # vs) = (if v = PNone \<or> py_strip (text_of v) = [] then first_trimmed vs else py_strip (text_of v))"

definition fm_value :: "(string \<times> string) list \<Rightarrow> string \<Rightarrow> pyval" where
  "fm_value fm k = (case map_of fm k of None \<Rightarrow> PNone | Some s \<Rightarrow> PStr s)"

text \<open>Numbers in text: \<open>float\<close> of a decimal.\<close>

definition NUMERIC_STR_RE :: re where
  "NUMERIC_STR_RE = rseq [opt (RSet (one_of ''-+'')), RGroup 1 digits, opt (rseq [lit ''.'', RGroup 2 digits]), RMark Dollar]"

definition digits_nat :: "string \<Rightarrow> nat" where
  "digits_nat s = foldl (\<lambda>n c. 10 * n + (of_char c - 48)) 0 s"

definition decimal_value :: "string \<Rightarrow> rat option" where
  "decimal_value s = (case re_match NUMERIC_STR_RE s of
     None \<Rightarrow> None
   | Some (_, caps) \<Rightarrow>
      (let group = (\<lambda>n. case captured caps n of None \<Rightarrow> [] | Some t \<Rightarrow> t);
           value = of_nat (digits_nat (group 1 @ group 2)) / 10 ^ length (group 2)
       in Some (if starts_with s ''-'' then - value else value)))"

definition parse_ts :: "(string \<Rightarrow> rat option) \<Rightarrow> pyval \<Rightarrow> rat option" where
  "parse_ts from_iso v = (case v of
     PInt i \<Rightarrow> Some (of_int i)
   | PFloat (Fin r) _ \<Rightarrow> Some r
   | PStr raw \<Rightarrow>
      (let s = py_strip raw in
       if s = [] then None
       else case decimal_value s of
         Some r \<Rightarrow> Some r
       | None \<Rightarrow> from_iso (if List.last s = CHR ''Z'' \<or> List.last s = CHR ''z'' then butlast s @ ''+00:00'' else s))
   | _ \<Rightarrow> None)"

section \<open>Noise\<close>

definition noise_probe :: "string \<Rightarrow> string option" where
  "noise_probe probe =
    (if py_strip probe = [] then None
     else
       let env = classify_prompt_envelope probe in
       if en_kind env = ''skip'' then Some ''noise.envelope_skip''
       else if en_kind env = ''wrapped'' then Some ''noise.envelope_wrapped''
       else if en_kind env = ''human'' \<and> en_subkind env = ''empty'' \<and> en_rule env = Some ''block.system_reminder''
       then Some ''noise.envelope_system_reminder''
       else if starts_with (py_lstrip probe) ''<system-reminder'' \<and> \<not> py_in ''</system-reminder>'' probe
       then Some ''noise.envelope_system_reminder''
       else None)"

definition envelope_noise :: "string \<Rightarrow> string option" where
  "envelope_noise content =
    (if py_strip content = [] then None
     else case noise_probe content of Some r \<Rightarrow> Some r | None \<Rightarrow> noise_probe (strip_frontmatter_and_h1 content))"

definition some_dirs :: re where
  "some_dirs = ralt [RMark TextStart, rseq [star any_but_newline, lit ''/'']]"

definition not_slash :: "char \<Rightarrow> bool" where "not_slash = none_of ''/''"

definition COMPACTION_PATH_RE :: re where
  "COMPACTION_PATH_RE = rseq [some_dirs, lit ''wiki/sessions/'', star (RSet not_slash), lit ''-compact-'', star (RSet not_slash), RMark Dollar]"

definition PLAN_JOURNAL_PATH_RE :: re where
  "PLAN_JOURNAL_PATH_RE = rseq [some_dirs, lit ''wiki/artifacts/plan-'', star (RSet not_slash), lit ''.log'', opt (lit ''.md''), RMark Dollar]"

definition PLAN_NOTE_PATH_RE :: re where
  "PLAN_NOTE_PATH_RE = rseq [some_dirs, lit ''wiki/artifacts/plan-'', plus (RSet not_slash), lit ''.md'', RMark Dollar]"

definition CHECKBOX_OPEN_RE :: re where
  "CHECKBOX_OPEN_RE = (let blank = RSet (one_of ('' '' @ [char_of (9 :: nat)])) in
     rseq [RMark LineStart, star blank, lit ''-'', star blank, lit ''['', blank, lit '']'', plus blank])"

definition CHECKBOX_DONE_RE :: re where
  "CHECKBOX_DONE_RE = (let blank = RSet (one_of ('' '' @ [char_of (9 :: nat)])) in
     rseq [RMark LineStart, star blank, lit ''-'', star blank, lit ''['', RSet (one_of ''xX''), lit '']'', plus blank])"

definition matches_start :: "re \<Rightarrow> string \<Rightarrow> bool" where
  "matches_start r s \<longleftrightarrow> re_match r s \<noteq> None"

definition plan_noise :: "string \<Rightarrow> string \<Rightarrow> pyval \<Rightarrow> string option" where
  "plan_noise status content all_slices_resolved =
    (if status = ''complete'' then Some ''noise.plan_complete''
     else if status = ''candidate'' then
       (if all_slices_resolved = PBool True then Some ''noise.plan_candidate_resolved''
        else if re_findall CHECKBOX_DONE_RE content \<noteq> [] \<and> re_findall CHECKBOX_OPEN_RE content = []
        then Some ''noise.plan_candidate_resolved'' else None)
     else None)"

definition noise_rule ::
  "string \<Rightarrow> string \<Rightarrow> string list \<Rightarrow> string \<Rightarrow> string \<Rightarrow> pyval \<Rightarrow> string option" where
  "noise_rule content source paths note_type status all_slices_resolved =
    (case envelope_noise content of
       Some r \<Rightarrow> Some r
     | None \<Rightarrow>
        if starts_with source ''compact_distillation'' \<or> py_in ''compact_distillation:'' content then Some ''noise.compaction_source''
        else if list_ex (matches_start COMPACTION_PATH_RE) paths then Some ''noise.compaction_path''
        else if list_ex (matches_start PLAN_JOURNAL_PATH_RE) paths then Some ''noise.plan_journal''
        else if (note_type = ''plan'' \<or> list_ex (\<lambda>p. matches_start PLAN_NOTE_PATH_RE p \<and> \<not> ends_with p ''.log.md'') paths)
                \<and> status \<noteq> ''accepted''
        then plan_noise status content all_slices_resolved else None)"

section \<open>Classification\<close>

definition first_present :: "pyval list \<Rightarrow> pyval" where
  "first_present vs = (case find (\<lambda>v. v \<noteq> PNone \<and> v \<noteq> PStr []) vs of None \<Rightarrow> PNone | Some v \<Rightarrow> v)"

definition preference_post_gate ::
  "(string \<Rightarrow> rat option) \<Rightarrow> pyval \<Rightarrow> pydict \<Rightarrow> (string \<times> string) list \<Rightarrow> bool" where
  "preference_post_gate from_iso gate_since item fm =
    (let origin = py_lower (first_trimmed [dget item ''origin'', dget item ''origin_kind'', fm_value fm ''origin'', fm_value fm ''origin_kind''])
     in origin = ''human'' \<and> gate_since \<noteq> PNone
        \<and> (case (parse_ts from_iso gate_since, parse_ts from_iso (first_present [dget item ''created_at'', dget item ''created'',
                   fm_value fm ''created_at'', fm_value fm ''created''])) of
             (Some gate_ts, Some created_ts) \<Rightarrow> gate_ts \<le> created_ts
           | _ \<Rightarrow> False))"

definition raw_category_of :: "pydict \<Rightarrow> (string \<times> string) list \<Rightarrow> pyval" where
  "raw_category_of item fm = (let item_cat = dget item ''category'' in case item_cat of
     PStr s \<Rightarrow> if py_strip s \<noteq> [] then item_cat else if s = [] then fm_value fm ''category'' else item_cat
   | PNone \<Rightarrow> fm_value fm ''category''
   | _ \<Rightarrow> item_cat)"

definition classify_durability ::
  "(string \<Rightarrow> rat option) \<Rightarrow> pyval \<Rightarrow> pyval \<Rightarrow> bool \<Rightarrow> pyval \<Rightarrow> string \<times> string" where
  "classify_durability from_iso gate_env provenance_gate_since content_test_enabled item_value = (case item_value of
     PDict item \<Rightarrow>
      (let content = first_non_empty [dget item ''content'', dget item ''body'', dget item ''text''];
           fm = (if starts_with content ''---'' then parse_scalar_frontmatter content else []);
           rel_path = normalize_path (first_trimmed [dget item ''path'', dget item ''rel_path'', dget item ''note'']);
           source = first_trimmed [dget item ''source'', fm_value fm ''source''];
           status = py_lower (first_trimmed [dget item ''status'', dget item ''review_state'', dget item ''page_status'', fm_value fm ''status'']);
           note_type = py_lower (first_trimmed [dget item ''type'', dget item ''page_type'', fm_value fm ''type'']);
           paths = filter (\<lambda>p. p \<noteq> []) [rel_path, normalize_path source]
       in case noise_rule content source paths note_type status (dget item ''all_slices_resolved'') of
            Some r \<Rightarrow> (''noise'', r)
          | None \<Rightarrow>
             (let norm_cat = normalize_category (raw_category_of item fm) in
              if norm_cat \<in> set DURABLE_CATEGORIES then (''durable'', ''durable.category'')
              else case (if content_test_enabled then match_content_test_rule content else None) of
                Some r \<Rightarrow> (''durable'', r)
              | None \<Rightarrow>
                 if norm_cat = ''preference''
                    \<and> preference_post_gate from_iso (if provenance_gate_since \<noteq> PNone then provenance_gate_since else gate_env) item fm
                 then (''durable'', ''durable.preference_post_gate'')
                 else (''ordinary'', ''ordinary.default'')))
   | _ \<Rightarrow> (''ordinary'', ''ordinary.default''))"

definition durability_of :: "(string \<Rightarrow> rat option) \<Rightarrow> pyval \<Rightarrow> pydict \<Rightarrow> string" where
  "durability_of from_iso gate_env item = fst (classify_durability from_iso gate_env PNone True (PDict item))"

end
