(* ===== verification/Quality_Gate.thy ===== *)
theory Quality_Gate
  imports Durability
begin

text \<open>
  What keeps a text out of durable memory when nobody looks: the structural quality gate and the boot filter of
  \<open>afm_passes/consolidation.py\<close>, the audit-echo grammar of \<open>afm_passes/inbox_ingest.py\<close> and the promotion gate of
  \<open>minnid_runtime/governance.py\<close>.  The dashes beyond Latin-1 that two patterns allow cannot occur in a text here.
\<close>

section \<open>Audit echoes\<close>

definition IDENT_CLASS :: "char \<Rightarrow> bool" where
  "IDENT_CLASS = icase (any_class [lower_class, digit_class, one_of ''_''])"

definition AUDIT_TOOL :: re where
  "AUDIT_TOOL = rseq [words [''hook'', ''minni'', ''sovereign'', ''agent'', ''afm'', ''handoff'', ''team''], lit ''_'', plus (RSet IDENT_CLASS)]"

definition AUDIT_TOOL_KNOWN :: re where
  "AUDIT_TOOL_KNOWN = ralt [rseq [words [''hook'', ''minni'', ''sovereign''], lit ''_'', plus (RSet IDENT_CLASS)],
     words [''afm_loop'', ''agent_ping'', ''handoff_sent'', ''handoff_received'']]"

definition blank1 :: re where
  "blank1 = RSet (one_of ('' '' @ [char_of (9 :: nat)]))"

definition AUDIT_HEADER_LINE :: re where
  "AUDIT_HEADER_LINE = rseq [lit ''##'', plus blank1, lit ''['', times 4 (Some 64) (RSet (none_of ('']'' @ [newline]))), lit '']'',
     plus blank1, AUDIT_TOOL, star blank1, lit ''|'']"

definition AUDIT_BARE_LINE :: re where
  "AUDIT_BARE_LINE =
    (let alnum = plus (RSet (icase (any_class [lower_class, digit_class]))) in
     rseq [RMark LineStart, star blank1, star (rseq [RSet (one_of ''>*-+''), star blank1]), AUDIT_TOOL_KNOWN, star blank1,
       lit ''|'', RAhead False (rseq [star blank1, alnum, lit ''_'', alnum]), star (RSet (none_of (''|'' @ [newline]))), RMark LineEnd])"

definition is_audit_echo :: "string \<Rightarrow> bool" where
  "is_audit_echo text \<longleftrightarrow> re_search AUDIT_HEADER_LINE text \<or> re_search AUDIT_BARE_LINE text"

section \<open>Structure of a text\<close>

definition SAFE_PRIVACY :: "string list" where
  "SAFE_PRIVACY = [''safe'', ''public'', ''low'']"

definition MIN_CONTENT_LEN :: nat where
  "MIN_CONTENT_LEN = 12"

definition is_judge_eligible :: "string option \<Rightarrow> string option \<Rightarrow> bool" where
  "is_judge_eligible privacy_level requested_privacy =
    (let clean = (\<lambda>v. case v of None \<Rightarrow> [] | Some s \<Rightarrow> py_lower (py_strip s))
     in clean privacy_level = ''review'' \<and> clean requested_privacy \<in> set SAFE_PRIVACY)"

definition RAW_PROMPT_ECHO_RE :: re where
  "RAW_PROMPT_ECHO_RE =
    (let pair = (\<lambda>a b. rseq [ilit a, spaces, ilit b]) in
     rseq [RMark TextStart, spaces0, ralt [pair ''executed'' ''prompt'', pair ''user'' ''prompt'', pair ''raw'' ''prompt'',
       pair ''system'' ''prompt'', pair ''prompt'' ''transcript''], spaces0, lit '':''])"

definition RAW_TEST_OUTPUT_RE :: re where
  "RAW_TEST_OUTPUT_RE =
    (let dots = star any_but_newline; secs = plus (RSet (any_class [digit_class, one_of ''.''])) in
     ralt [
       rseq [RMark LineStart, spaces0, plus (lit ''=''), spaces0, digits, spaces,
         words [''passed'', ''failed'', ''skipped'', ''error'', ''errors'', ''deselected''], edge, dots, plus (lit ''=''), spaces0, RMark LineEnd],
       rseq [RMark LineStart, spaces0,
         ralt [rseq [ilit ''ran'', spaces, digits, spaces, ilit ''test'', opt (ilit ''s''), spaces, ilit ''in'', spaces, secs, ilit ''s''],
               rseq [ilit ''test'', spaces, ilit ''suite'', opt (ilit ''s''), lit '':'', spaces, digits, spaces, ilit ''passed'',
                     opt (rseq [edge, dots])],
               rseq [digits, spaces, ilit ''passed'', star (rseq [lit '','', spaces, digits, spaces, plus (RSet word_class)]),
                     spaces, ilit ''in'', spaces, secs, ilit ''s'']],
         spaces0, RMark LineEnd]])"

definition compaction_line :: re where
  "compaction_line = rseq [RMark LineStart, spaces0, ilit ''compaction summary'', spaces0, lit ''-'']"

definition created_line :: re where
  "created_line = (let d = (\<lambda>n. times n (Some n) (RSet digit_class)) in
     rseq [ilit ''test failure recovered after edit:'', spaces0, ilit ''created at:'', spaces0, d 4, lit ''-'', d 2, lit ''-'', d 2])"

definition BOOT_CHATTER_LEAK_RE :: re where
  "BOOT_CHATTER_LEAK_RE = ralt [compaction_line, created_line]"

definition is_low_signal_boot_learning :: "string \<Rightarrow> bool" where
  "is_low_signal_boot_learning content \<longleftrightarrow> py_strip content = []
     \<or> re_search RAW_PROMPT_ECHO_RE content \<or> re_search RAW_TEST_OUTPUT_RE content \<or> re_search BOOT_CHATTER_LEAK_RE content
     \<or> is_audit_echo content"

text \<open>\<open>str.isalpha\<close> and \<open>str.isalnum\<close> of a character.\<close>

definition py_isalpha :: "char \<Rightarrow> bool" where
  "py_isalpha c \<longleftrightarrow> (let n = (of_char c :: nat) in
     65 \<le> n \<and> n \<le> 90 \<or> 97 \<le> n \<and> n \<le> 122 \<or> n \<in> {170, 181, 186} \<or> 192 \<le> n \<and> n \<noteq> 215 \<and> n \<noteq> 247)"

definition py_isalnum :: "char \<Rightarrow> bool" where
  "py_isalnum c \<longleftrightarrow> word_class c \<and> c \<noteq> CHR ''_''"

definition quality_blockers :: "string \<Rightarrow> string list" where
  "quality_blockers content =
    (let text = py_strip content;
         alnum_chars = remdups (map py_lower_char (filter py_isalnum text));
         found = re_findall (plus (RSet (any_class [upper_class, lower_class, digit_class, one_of [CHR 0x27]]))) text;
         letters = length (filter py_isalpha text)
     in (if 8000 < length text then [''oversized blob''] else [])
        @ (if re_search RAW_PROMPT_ECHO_RE text then [''raw prompt echo''] else [])
        @ (if re_search RAW_TEST_OUTPUT_RE text then [''raw test output telemetry''] else [])
        @ (if 10 < length text \<and> length alnum_chars \<le> 2 then [''low character diversity (filler)''] else [])
        @ (if length (remdups (map py_lower found)) < 2 then [''too few distinct words''] else [])
        @ (if 20 < length text \<and> 5 * letters < 2 * length text then [''low alphabetic ratio''] else []))"

section \<open>The promotion gate\<close>

definition HARVEST_SOURCES :: "string list" where
  "HARVEST_SOURCES = [''jev_harvest'', ''stop_candidates'', ''compact_distillation'', ''session_distillation'', ''hook'',
     ''auto_harvest'', ''harvest'', ''subagent_harvest'', ''session_harvest'', ''stop_harvest'']"

definition SPRINT_CHATTER_RE :: re where
  "SPRINT_CHATTER_RE =
    (let word = RSet (icase (any_class [lower_class, digit_class, one_of ''_.-'']));
         letter = RSet (icase lower_class); alnum = plus (RSet (icase (any_class [lower_class, digit_class])));
         hex = RSet (icase (any_class [digit_class, between_chars CHR ''a'' CHR ''f'']))
     in ralt [
       rseq [edge, words [''pushed'', ''committed'', ''merged'', ''landed''], spaces,
         ralt [rseq [ilit ''commit'', spaces], rseq [ilit ''sha'', spaces],
               rseq [ilit ''pr'', spaces, opt (lit ''#''), digits, edge], rseq [times 7 (Some 40) hex, edge]]],
       rseq [edge, digits, spaces0, lit ''/'', spaces0, digits, spaces,
         opt (rseq [ilit ''test'', opt (ilit ''s''), spaces]), words [''passed'', ''green''], edge],
       rseq [edge, digits, spaces, opt (rseq [ilit ''test'', opt (ilit ''s''), spaces]), ilit ''passed,'', spaces0, lit ''0'',
         spaces, ilit ''failed'', edge],
       rseq [edge, words [''phase'', ''slice'', ''wave'', ''workstream'', ''sprint''], spaces,
         ralt [rseq [digits, star word], rseq [letter, digits, star word], rseq [alnum, RSet (one_of ''-_''), plus word]],
         spaces, opt (ralt [rseq [ilit ''is'', spaces], rseq [ilit ''are'', spaces]]),
         words [''complete'', ''completed'', ''done'', ''green'', ''passed'', ''status'', ''shipped'', ''landed''], edge],
       compaction_line, created_line,
       rseq [edge, ilit ''GIT_BYPASS'', spaces0, lit ''='', spaces0, lit ''1'', edge,
         RAhead False (rseq [star (RSet (none_of [newline])),
           ralt [ilit ''byte-identical'', rseq [ilit ''never'', spaces, ilit ''bypass'']]])]])"

definition STRONG_INVARIANT_MARKER_RE :: re where
  "STRONG_INVARIANT_MARKER_RE = (let pair = (\<lambda>a b. rseq [ilit a, spaces, ilit b]) in
     rseq [edge, ralt [ilit ''invariant'', ilit ''contract'', pair ''must'' ''never'', pair ''never'' ''run'', pair ''root'' ''cause'',
       pair ''operator'' ''rule'',
       rseq [ilit ''never'', spaces, words [''merge'', ''push'', ''commit'', ''bypass'', ''loosen'', ''skip'', ''delete'']]], edge])"

definition WEAK_INVARIANT_MARKER_RE :: re where
  "WEAK_INVARIANT_MARKER_RE = rseq [edge, rseq [ilit ''only'', spaces,
     words [''legitimate'', ''valid'', ''allowed'', ''permitted'', ''safe''], spaces, words [''with'', ''when'', ''if'', ''after'']], edge]"

definition EPHEMERAL_TIME_OR_STATUS_RE :: re where
  "EPHEMERAL_TIME_OR_STATUS_RE =
    (let near = any_class [one_of ''-'', word_class]; d = (\<lambda>lo hi. times lo (Some hi) (RSet digit_class)) in
     ralt [rseq [edge, ralt [ilit ''today'', ilit ''tonight'', rseq [ilit ''this'', spaces, ilit ''week''],
             rseq [ilit ''before'', spaces, ilit ''release'']], edge],
           rseq [RBehind False near, ilit ''now'', RAhead False (RSet near)],
           rseq [edge, d 1 2, opt (rseq [lit '':'', d 2 2]), spaces0, words [''am'', ''pm''], edge]])"

definition optional_text :: "string option \<Rightarrow> pyval" where
  "optional_text v = (case v of None \<Rightarrow> PNone | Some s \<Rightarrow> PStr s)"

definition harvested :: "string \<Rightarrow> string \<Rightarrow> bool" where
  "harvested src orig \<longleftrightarrow>
     (src \<noteq> [] \<and> (src \<in> set HARVEST_SOURCES \<or> py_in ''harvest'' src \<or> list_ex (starts_with src) HARVEST_SOURCES))
     \<or> (orig \<noteq> [] \<and> (orig \<in> set HARVEST_SOURCES \<or> py_in ''harvest'' orig))"

definition has_invariant :: "string \<Rightarrow> bool" where
  "has_invariant content \<longleftrightarrow> re_search STRONG_INVARIANT_MARKER_RE content
     \<or> re_search WEAK_INVARIANT_MARKER_RE content \<and> \<not> re_search EPHEMERAL_TIME_OR_STATUS_RE content"

definition non_durable_promotion_blocker ::
  "(string \<Rightarrow> rat option) \<Rightarrow> pyval \<Rightarrow> string \<Rightarrow> string \<Rightarrow> string option \<Rightarrow> string option \<Rightarrow> string option" where
  "non_durable_promotion_blocker from_iso gate_env content category source origin =
    (let clean = (\<lambda>v. case v of None \<Rightarrow> [] | Some s \<Rightarrow> py_lower (py_strip s));
         cat = py_lower (py_strip (if category = [] then ''general'' else category));
         orig = clean origin
     in if re_search SPRINT_CHATTER_RE content then Some ''non_durable:noise''
        else
          let dur = durability_of from_iso gate_env [(''category'', PStr cat), (''content'', PStr content),
                 (''source'', optional_text source), (''origin'', optional_text origin)]
          in if dur = ''noise'' then Some ''non_durable:noise''
             else
               let blocked = Some (''non_durable:'' @ (if dur \<noteq> ''durable'' then dur else ''ordinary''));
                   invariant = has_invariant content
               in if cat = ''preference'' \<and> \<not> invariant then blocked
                  else if harvested (clean source) orig then (if dur \<noteq> ''durable'' \<or> \<not> invariant then blocked else None)
                  else if orig = ''agent'' \<and> dur \<noteq> ''durable'' \<and> \<not> (dur = ''ordinary'' \<and> invariant)
                  then Some (''non_durable:'' @ dur) else None)"

text \<open>The reasons to withhold an unattended acceptance; none means eligible.\<close>

definition auto_accept_blockers ::
  "(string \<Rightarrow> rat option) \<Rightarrow> pyval \<Rightarrow> string \<Rightarrow> bool \<Rightarrow> string \<Rightarrow> string \<Rightarrow> string option \<Rightarrow> string option \<Rightarrow> string list" where
  "auto_accept_blockers from_iso gate_env content instruction_like requested_privacy category source origin =
     (if instruction_like then [''instruction_like''] else [])
     @ (if length (py_strip content) < MIN_CONTENT_LEN then [''below minimum content length''] else [])
     @ (if py_lower (py_strip requested_privacy) \<notin> set SAFE_PRIVACY then [''privacy='' @ requested_privacy] else [])
     @ quality_blockers content
     @ (case non_durable_promotion_blocker from_iso gate_env content category source origin of None \<Rightarrow> [] | Some r \<Rightarrow> [r])"

end
