(* ===== verification/Candidate_Staging.thy ===== *)
theory Candidate_Staging
  imports Candidate_Governance Quality_Gate
begin

text \<open>
  The staging of a candidate, \<open>stage_candidate\<close> of \<open>minnid_runtime/governance.py\<close>: a learn becomes a proposal for
  review, unless the operator has opted its principal in and nothing speaks against the text, in which case the
  proposal is accepted in the transaction that stages it.

  The schema is the migrated one, so the row carries its category and the privacy asked for.  \<open>StageRaises\<close> is an
  exception the handler does not catch.  Errors of the database other than a violated constraint are left out.
\<close>

definition AUTO_ACCEPT_PARAM_KEYS :: "string list" where
  "AUTO_ACCEPT_PARAM_KEYS = [''auto_accept_own'', ''learn.auto_accept_own'']"

definition MAX_PENDING_CANDIDATES_PER_PRINCIPAL :: nat where
  "MAX_PENDING_CANDIDATES_PER_PRINCIPAL = 2000"

definition reject_wire_supplied_auto_accept :: "pydict \<Rightarrow> pyval \<Rightarrow> pyval option" where
  "reject_wire_supplied_auto_accept params request_id =
    (case find (has_key params) AUTO_ACCEPT_PARAM_KEYS of
       None \<Rightarrow> None
     | Some key \<Rightarrow> Some (make_error (-32004) (''operator_only: '' @ quoted key @
         '' is operator configuration and cannot be supplied by a caller; set auto_accept_own in '' @
         ''principals/<id>.json (filesystem/console only)'') request_id))"

definition pending_of :: "string \<Rightarrow> store \<Rightarrow> nat" where
  "pending_of agent st = length (filter (\<lambda>c. cp_principal c = agent \<and> cp_status c = ''proposed'') (st_candidates st))"

section \<open>The fields of the proposal\<close>

text \<open>A value bound to a column of type \<open>TEXT\<close>; \<open>None\<close> is a value SQLite does not take.\<close>

definition text_column :: "pyval \<Rightarrow> string option option" where
  "text_column v = (case v of
     PNone \<Rightarrow> Some None
   | PStr s \<Rightarrow> Some (Some s)
   | PInt i \<Rightarrow> Some (Some (int_str i))
   | PBool b \<Rightarrow> Some (Some (if b then ''1'' else ''0''))
   | PFloat f t \<Rightarrow> Some (Some t)
   | _ \<Rightarrow> None)"

definition lineage_base :: "gov_env \<Rightarrow> pyval \<Rightarrow> pydict" where
  "lineage_base g raw = (case raw of
     PDict d \<Rightarrow> d
   | PStr s \<Rightarrow> if py_strip s = [] then []
       else (case ge_loads g s of Some (PDict d) \<Rightarrow> d | _ \<Rightarrow> [(''raw'', PStr s)])
   | _ \<Rightarrow> [])"

text \<open>\<open>source\<close> and \<open>origin\<close>: the parameter, else the field of a \<open>derived_from\<close> that came as a dictionary.\<close>

definition declared :: "pydict \<Rightarrow> string \<Rightarrow> pyval" where
  "declared params field = (if dget params field = PNone
     then (case dget params ''derived_from'' of PDict d \<Rightarrow> dget d field | _ \<Rightarrow> PNone) else dget params field)"

definition add_declared :: "string \<Rightarrow> pyval \<Rightarrow> pydict \<Rightarrow> pydict" where
  "add_declared field v d = (if v \<noteq> PNone \<and> \<not> has_key d field then AList.update field (PStr (py_str v)) d else d)"

definition drop_inbox_claim :: "pydict \<Rightarrow> pydict" where
  "drop_inbox_claim d = AList.delete ''inbox_file''
    (if py_lower (py_strip (py_str (py_or (dget d ''source'') (PStr [])))) = ''inbox'' then AList.delete ''source'' d else d)"

definition staged_lineage :: "gov_env \<Rightarrow> pydict \<Rightarrow> pydict" where
  "staged_lineage g params = drop_inbox_claim
    (add_declared ''origin'' (declared params ''origin'')
      (add_declared ''source'' (declared params ''source'') (lineage_base g (dget params ''derived_from''))))"

definition staged_category :: "pydict \<Rightarrow> string" where
  "staged_category params =
    (let raw_category = py_lower (py_strip (py_str (py_or (dget params ''category'') (PStr ''general''))));
         norm_category = normalize_category (PStr raw_category)
     in if raw_category \<in> set CATEGORIES then raw_category
        else if norm_category \<in> set CATEGORIES then norm_category else ''general'')"

definition requested_privacy :: "gov_env \<Rightarrow> pydict \<Rightarrow> string \<Rightarrow> string" where
  "requested_privacy g params content =
    (let raw = (if has_key params ''privacy_level'' then dget params ''privacy_level''
                else PStr (fm_privacy (ge_extract g content)))
     in case raw of
          PNone \<Rightarrow> ''safe''
        | PStr s \<Rightarrow> if py_strip s = [] then ''safe'' else py_strip s
        | v \<Rightarrow> py_strip (py_str v))"

definition optional_str :: "pyval \<Rightarrow> string option" where
  "optional_str v = (if v = PNone then None else Some (py_str v))"

definition staged_flag :: "pydict \<Rightarrow> string \<Rightarrow> bool" where
  "staged_flag params content \<longleftrightarrow> truthy (dget params ''instruction_like'') \<or> is_instruction_like content"

definition withheld_reasons :: "gov_env \<Rightarrow> pydict \<Rightarrow> string \<Rightarrow> string list" where
  "withheld_reasons g params content = auto_accept_blockers (ge_from_iso g) (ge_gate_since g) content
     (staged_flag params content) (requested_privacy g params content) (staged_category params)
     (optional_str (declared params ''source'')) (optional_str (declared params ''origin''))"

text \<open>The row; \<open>None\<close> when a value cannot be bound.\<close>

definition staged_row ::
  "gov_env \<Rightarrow> effective_principal \<Rightarrow> pydict \<Rightarrow> string \<Rightarrow> rat \<Rightarrow> store \<Rightarrow> candidate option" where
  "staged_row g p params content now st =
    (case (text_column (py_or (dget params ''workspace_id'') (PStr ''default'')), text_column (dget params ''layer'')) of
       (Some (Some ws), Some _) \<Rightarrow> Some
        \<lparr>cp_id = st_next_candidate st, cp_principal = ep_agent_id p, cp_workspace = ws,
         cp_privacy = Some (if explicitly_allowed_operator g p then requested_privacy g params content else ''review''),
         cp_requested = Some (requested_privacy g params content), cp_category = staged_category params, cp_content = content,
         cp_evidence = json_default (py_or (py_or (dget params ''evidence_refs'') (dget params ''evidence_doc_ids'')) (PList [])),
         cp_derived = json_default (PDict (staged_lineage g params)), cp_instruction_like = staged_flag params content,
         cp_status = ''proposed'', cp_proposed_at = now, cp_resolved_at = None, cp_resolved_by = None, cp_reason = None\<rparr>
     | _ \<Rightarrow> None)"

definition insert_candidate :: "candidate \<Rightarrow> store \<Rightarrow> store" where
  "insert_candidate c st = st\<lparr>st_candidates := st_candidates st @ [c], st_next_candidate := st_next_candidate st + 1\<rparr>"

section \<open>The transaction\<close>

text \<open>The near duplicates of the new learning go to the cold archive; \<open>None\<close> is the failed \<open>DELETE\<close>.\<close>

fun evict_duplicates :: "gov_env \<Rightarrow> string \<Rightarrow> int \<Rightarrow> int list \<Rightarrow> store \<Rightarrow> effect list option \<times> store" where
  "evict_duplicates g author lid [] st = (Some [], st)"
| "evict_duplicates g author lid (dup # rest) st =
    (let doc = (case learning_row st dup of
           None \<Rightarrow> PurgeDurable author (''learning:'' @ int_str dup) | Some l \<Rightarrow> PurgeDurable (l_agent l) (l_content l))
     in case evict_learning_to_cold_archive (ge_sha1 g) (ge_vault g) dup (''superseded_near_duplicate_by:'' @ int_str lid) st of
          (None, st') \<Rightarrow> (None, st')
        | (Some _, st') \<Rightarrow> (case evict_duplicates g author lid rest st' of
            (None, st'') \<Rightarrow> (None, st'') | (Some docs, st'') \<Rightarrow> (Some (doc # docs), st'')))"

definition auto_resolver :: "effective_principal \<Rightarrow> string" where
  "auto_resolver p = ''auto_accept_own('' @ ep_agent_id p @ '')''"

definition AUTO_ACCEPT_REASON :: string where
  "AUTO_ACCEPT_REASON = ''auto_accept_own: operator-enabled auto-acceptance of the principal's own candidate (#290)''"

datatype durable_end = CanonicalFailed | EvictionFailed store | DurablyWritten int "effect list" store

definition accept_staged ::
  "gov_env \<Rightarrow> effective_principal \<Rightarrow> candidate \<Rightarrow> string \<Rightarrow> string \<Rightarrow> rat \<Rightarrow> store \<Rightarrow> durable_end" where
  "accept_staged g p row h embedding now st =
    (let author = ep_agent_id p; content = cp_content row;
         l = new_learning st author (cp_category row) content now (Some embedding) h; st1 = insert_learning l st
     in case ensure_canonical_learning_node (ge_sha1 g) (ge_extract g) st1 (l_id l) author content (ge_vault g) now of
          None \<Rightarrow> CanonicalFailed
        | Some (_, st2) \<Rightarrow>
           (case evict_duplicates g author (l_id l)
                  (find_near_duplicate_active_learning (ge_cosine g) st2 author (cp_category row) content (l_id l) (Some embedding)) st2 of
              (None, st3) \<Rightarrow> EvictionFailed st3
            | (Some purges, st3) \<Rightarrow> DurablyWritten (l_id l) purges
                (apply_accepted_candidate_effects (cp_id row)
                  (set_candidate (cp_id row) (\<lambda>c. c\<lparr>cp_status := ''accepted'', cp_resolved_at := Some now,
                     cp_resolved_by := Some (auto_resolver p), cp_reason := Some AUTO_ACCEPT_REASON\<rparr>) st3))))"

text \<open>What the durable write needs, prepared outside the transaction: the hash and the embedding.\<close>

definition prepared :: "gov_env \<Rightarrow> string \<Rightarrow> (string \<times> string) option" where
  "prepared g content = (if \<not> ge_hash_column g then None
     else map_option (\<lambda>e. (content_hash (ge_sha1 g) content, e)) (ge_embed g content))"

datatype stage_outcome =
    Proposed int "string list" store
  | AutoAccepted int int "effect list" store
  | StageFailed store

text \<open>
  A failed canonical write rolls the transaction back and stages the proposal in a second one; a failed eviction is
  not caught and loses the proposal.
\<close>

definition stage_row ::
  "gov_env \<Rightarrow> effective_principal \<Rightarrow> candidate \<Rightarrow> string list \<Rightarrow> rat \<Rightarrow> store \<Rightarrow> stage_outcome" where
  "stage_row g p row withheld now st =
    (let staged = insert_candidate row st;
         wanted = (ep_auto_accept_own p \<and> withheld = [])
     in if \<not> wanted then Proposed (cp_id row) withheld staged
        else case prepared g (cp_content row) of
          None \<Rightarrow> Proposed (cp_id row) (withheld @ [''durable-write preparation failed'']) staged
        | Some (h, e) \<Rightarrow>
           (if has_active_learning_hash (ge_sha1 g) staged h (ep_agent_id p)
            then Proposed (cp_id row) [''duplicate of an existing learning''] staged
            else case accept_staged g p row h e now staged of
              CanonicalFailed \<Rightarrow> Proposed (cp_id row) (withheld @ [''canonical commit failed'']) staged
            | EvictionFailed st' \<Rightarrow> StageFailed (rollback st st')
            | DurablyWritten lid purges st' \<Rightarrow> AutoAccepted (cp_id row) lid purges st'))"

section \<open>The handler\<close>

datatype stage_end = StageRaises | StageReply pyval "effect list" store

definition stage_reply ::
  "effective_principal \<Rightarrow> pyval \<Rightarrow> pyval \<Rightarrow> candidate \<Rightarrow> int option \<Rightarrow> bool \<Rightarrow> string list \<Rightarrow> pyval" where
  "stage_reply p request_id ws row lid indexed_ok withheld = make_response (PDict (
     [(''status'', PStr (if lid \<noteq> None then ''accepted'' else ''proposed'')), (''candidate_id'', PInt (cp_id row)),
      (''principal'', PStr (ep_agent_id p)), (''workspace_id'', ws),
      (''privacy_level'', PStr (case cp_privacy row of None \<Rightarrow> [] | Some s \<Rightarrow> s)), (''category'', PStr (cp_category row))] @
     (case lid of
        Some i \<Rightarrow> [(''learning_id'', PInt i), (''resolved_by'', PStr (auto_resolver p))] @
          (if indexed_ok then [] else [(''indexed'', PBool False)])
      | None \<Rightarrow> if withheld \<noteq> [] \<and> ep_auto_accept_own p
          then [(''auto_accept_withheld'', PList (map PStr withheld))] else []))) request_id"

definition stage_stamped ::
  "gov_env \<Rightarrow> effective_principal \<Rightarrow> pydict \<Rightarrow> pyval \<Rightarrow> rat \<Rightarrow> store \<Rightarrow> stage_end" where
  "stage_stamped g p params request_id now st =
    (let pending_count = pending_of (ep_agent_id p) st in
     if MAX_PENDING_CANDIDATES_PER_PRINCIPAL \<le> pending_count
     then StageReply (make_error (-32005) (''Backpressure: pending candidate queue limit reached ('' @ int_str (int pending_count) @
            '' >= '' @ int_str (int MAX_PENDING_CANDIDATES_PER_PRINCIPAL) @ '') for principal '' @ ep_agent_id p) request_id) [] st
     else case py_or (py_or (dget params ''content'') (dget params ''text'')) (PStr []) of
       PStr raw \<Rightarrow>
        (let content = cut_at 200000 (py_strip raw) in
         if content = [] then StageReply (make_error (-32602) ''content is required'' request_id) [] st
         else case staged_row g p params content now st of
           None \<Rightarrow> StageReply (make_error (-32000) ''stage_candidate error: unsupported type'' request_id) [] st
         | Some row \<Rightarrow>
            (let ws = py_or (dget params ''workspace_id'') (PStr ''default'') in
             case stage_row g p row (withheld_reasons g params content) now st of
               Proposed cid withheld st' \<Rightarrow>
                 StageReply (stage_reply p request_id ws row None True withheld) [NotifyStaged] st'
             | StageFailed st' \<Rightarrow>
                 StageReply (make_error (-32000) ''stage_candidate error: constraint failed'' request_id) [] st'
             | AutoAccepted cid lid purges st' \<Rightarrow>
                 (case settle_accepted_candidate g cid (ep_agent_id p) content lid of (indexed_ok, es) \<Rightarrow>
                    StageReply (stage_reply p request_id ws row (Some lid) indexed_ok []) (purges @ es) st')))
     | _ \<Rightarrow> StageRaises)"

definition stage_candidate ::
  "gov_env \<Rightarrow> handler_identity \<Rightarrow> pydict \<Rightarrow> pyval \<Rightarrow> rat \<Rightarrow> store \<Rightarrow> principal_error + stage_end" where
  "stage_candidate g ident params request_id now st =
    (case reject_wire_supplied_auto_accept params request_id of
       Some refusal \<Rightarrow> Inr (StageReply refusal [] st)
     | None \<Rightarrow> (case ident of
         IdentityRaise e \<Rightarrow> Inl e
       | Refused err \<Rightarrow> Inr (StageReply err [] st)
       | Stamped p \<Rightarrow> Inr (stage_stamped g p params request_id now st)))"

end
