(* ===== verification/Learn_Handlers.thy ===== *)
theory Learn_Handlers
  imports Candidate_Staging Request_Deadline
begin

text \<open>
  The handlers that write learnings directly, \<open>handle_learn\<close>, \<open>handle_resolve_contradiction\<close> and
  \<open>handle_subscribe_contradictions\<close> of \<open>minnid_runtime/governance.py\<close>, with \<open>detect_contradictions\<close> and
  \<open>add_derived_from_edges\<close> of \<open>writeback.py\<close>.

  \<open>detector\<close> holds the normalised dot product of two embeddings (\<open>None\<close> for a vector without a direction or a row
  that cannot be read) and the configured threshold.  A content that is neither a text nor absent is outside the
  model (\<open>LearnOutside\<close>).  A database error other than a violated constraint is left out; the text of an error is the
  handler's, without the exception's.
\<close>

definition MAX_LEARN_CHARS :: int where "MAX_LEARN_CHARS = 64 * 1024"
definition MAX_LEARN_FIELD_CHARS :: int where "MAX_LEARN_FIELD_CHARS = 4 * 1024"

section \<open>Contradictions\<close>

record detector =
  dt_dot :: "string \<Rightarrow> string \<Rightarrow> rat option"
  dt_threshold :: rat

definition is_hit :: "piece \<Rightarrow> bool" where
  "is_hit p = (case p of Plain _ \<Rightarrow> False | Hit _ _ \<Rightarrow> True)"

definition extract_assertion :: "string \<Rightarrow> string" where
  "extract_assertion raw =
    (let content = py_strip raw; ps = re_pieces (rseq [RSet (one_of ''.!?''), RSet py_isspace]) content
     in if length content \<le> 120 then content
        else if list_ex is_hit ps then py_strip (take (length (takeWhile (\<lambda>p. \<not> is_hit p) ps) + 1) content)
        else py_strip (take 120 content))"

record contradiction =
  cd_id :: int
  cd_content :: string
  cd_score :: rat
  cd_agent :: string
  cd_created :: rat

definition contradiction_of :: "detector \<Rightarrow> string \<Rightarrow> learning \<Rightarrow> contradiction option" where
  "contradiction_of dt query l = (case l_embedding l of
     None \<Rightarrow> None
   | Some e \<Rightarrow> (case dt_dot dt query e of
       None \<Rightarrow> None
     | Some sim \<Rightarrow> if dt_threshold dt < sim
         then Some \<lparr>cd_id = l_id l, cd_content = l_content l, cd_score = round4 sim, cd_agent = l_agent l, cd_created = l_created l\<rparr>
         else None))"

definition detect_contradictions ::
  "gov_env \<Rightarrow> detector \<Rightarrow> pyval \<Rightarrow> string \<Rightarrow> rat \<Rightarrow> store \<Rightarrow> contradiction list \<times> store" where
  "detect_contradictions g dt content_or_assertion agent_id now st =
    (case (case content_or_assertion of PStr t \<Rightarrow> ge_embed g t | _ \<Rightarrow> None) of
       None \<Rightarrow> ([], st)
     | Some query \<Rightarrow>
        (let rows = filter (\<lambda>l. ACTIVE_LEARNING_SQL l \<and> l_embedding l \<noteq> None
               \<and> (agent_id = [] \<or> l_agent l = agent_id)) (st_learnings st);
             candidates = sort_key (\<lambda>c. - cd_score c) (List.map_filter (contradiction_of dt query) rows)
         in (candidates, st\<lparr>st_detected := st_detected st @ map (\<lambda>c. (cd_id c, now)) candidates\<rparr>)))"

section \<open>Evidence edges\<close>

definition add_link :: "int \<Rightarrow> store \<Rightarrow> int \<Rightarrow> store" where
  "add_link source st target = (if (source, target) \<in> set (st_links st) then st
     else st\<lparr>st_links := st_links st @ [(source, target)]\<rparr>)"

definition alias_document :: "store \<Rightarrow> int \<Rightarrow> string \<Rightarrow> rat \<Rightarrow> document" where
  "alias_document st learning_id agent_id now =
    \<lparr>d_id = st_next_document st, d_path = learning_uri learning_id, d_agent = ''learning:'' @ agent_id, d_sigil = ''L'',
     d_modified = now, d_page_status = Some ''accepted'', d_privacy = Some ''safe'', d_page_type = Some ''learning'',
     d_layer = None, d_superseded_by = None, d_kind = None, d_uri = None\<rparr>"

definition insert_derived_edges :: "int \<Rightarrow> string \<Rightarrow> int list \<Rightarrow> rat \<Rightarrow> int option \<Rightarrow> store \<Rightarrow> int \<times> store" where
  "insert_derived_edges learning_id agent_id valid_ids now canonical_doc_id st =
    (case (case canonical_doc_id of
             Some d \<Rightarrow> (d, st)
           | None \<Rightarrow> (case document_at st (learning_uri learning_id) of
               Some row \<Rightarrow> (d_id row, st)
             | None \<Rightarrow> (st_next_document st, st\<lparr>st_documents := st_documents st @ [alias_document st learning_id agent_id now],
                  st_next_document := st_next_document st + 1\<rparr>))) of
       (learning_doc_id, st1) \<Rightarrow>
         (learning_doc_id, foldl (add_link learning_doc_id) st1
            (filter (\<lambda>i. i \<in> set valid_ids) (map d_id (st_documents st1)))))"

definition add_derived_from_edges ::
  "int \<Rightarrow> string \<Rightarrow> pyval \<Rightarrow> rat \<Rightarrow> int option \<Rightarrow> store \<Rightarrow> store option" where
  "add_derived_from_edges learning_id agent_id evidence_doc_ids now canonical_doc_id st =
    (if \<not> truthy evidence_doc_ids then Some st
     else case iterated evidence_doc_ids of
       None \<Rightarrow> None
     | Some items \<Rightarrow> (let valid_ids = unique (List.map_filter py_int items) in
         if valid_ids = [] then Some st
         else Some (snd (insert_derived_edges learning_id agent_id valid_ids now canonical_doc_id st))))"

section \<open>The forced write\<close>

text \<open>An integer for a column with a foreign key: the key, or \<open>None\<close> when no row can match.\<close>

definition key_column :: "pyval \<Rightarrow> int option" where
  "key_column v = (case v of PFloat (Fin r) _ \<Rightarrow> if r = of_int \<lfloor>r\<rfloor> then Some \<lfloor>r\<rfloor> else None | _ \<Rightarrow> py_int v)"

text \<open>Lists and objects cannot be bound to a column.\<close>

definition bindable :: "pyval \<Rightarrow> bool" where
  "bindable v \<longleftrightarrow> \<not> is_list v \<and> \<not> is_dict v"

definition succeed :: "pyval \<Rightarrow> int \<Rightarrow> store \<Rightarrow> store" where
  "succeed supersedes lid st = st\<lparr>st_learnings := map (\<lambda>l. if Some (l_id l) = key_column supersedes
     then l\<lparr>l_successor := Some lid\<rparr> else l) (st_learnings st)\<rparr>"

datatype forced_end =
    ForcedFailed store
  | ForcedDuplicate int string store
  | ForcedWritten int "effect list" store

definition backfill_hash :: "gov_env \<Rightarrow> int \<Rightarrow> string \<Rightarrow> store \<Rightarrow> store" where
  "backfill_hash g lid h st = (if ge_hash_column g
     then st\<lparr>st_learnings := map (\<lambda>l. if l_id l = lid \<and> l_hash l = None then l\<lparr>l_hash := Some h\<rparr> else l) (st_learnings st)\<rparr> else st)"

definition forced_row ::
  "gov_env \<Rightarrow> string \<Rightarrow> string \<Rightarrow> string \<Rightarrow> int option \<Rightarrow> rat \<Rightarrow> store \<Rightarrow> learning" where
  "forced_row g agent_id category content contradicts now st =
    (new_learning st agent_id category content now (ge_embed g content) [])
      \<lparr>l_hash := (if ge_hash_column g then Some (content_hash (ge_sha1 g) content) else None), l_contradicts := contradicts\<rparr>"

definition forced_insert ::
  "gov_env \<Rightarrow> string \<Rightarrow> string \<Rightarrow> string \<Rightarrow> pydict \<Rightarrow> rat \<Rightarrow> store \<Rightarrow> forced_end" where
  "forced_insert g agent_id category content params now st =
    (let supersedes = dget params ''supersedes''; contradicts_id = dget params ''contradicts_id'';
         named = (if contradicts_id = PNone then Some None else map_option Some (key_column contradicts_id))
     in case named of
          None \<Rightarrow> ForcedFailed st
        | Some contradicts \<Rightarrow>
           (let l = forced_row g agent_id category content contradicts now st;
                st1 = insert_learning l st;
                st2 = (if truthy supersedes then succeed supersedes (l_id l) st1 else st1)
            in if \<not> list_all (\<lambda>k. bindable (dget params k)) [''assertion'', ''applies_when'', ''source_query'', ''confidence'']
                  \<or> \<not> set_option contradicts \<subseteq> l_id ` set (st_learnings st1) \<or> \<not> bindable supersedes \<and> truthy supersedes
               then ForcedFailed st
               else case ensure_canonical_learning_node (ge_sha1 g) (ge_extract g) st2 (l_id l) agent_id content (ge_vault g) now of
                 None \<Rightarrow> ForcedFailed st2
               | Some (canonical, st3) \<Rightarrow>
                  (case add_derived_from_edges (l_id l) agent_id (dget params ''evidence_doc_ids'') now canonical st3 of
                     None \<Rightarrow> ForcedFailed st3
                   | Some st4 \<Rightarrow>
                      (let near = find_near_duplicate_active_learning (ge_cosine g) st4 agent_id category content (l_id l) (l_embedding l)
                       in if truthy supersedes \<and> near \<noteq> [] \<and> py_int supersedes = None then ForcedFailed st4
                          else case evict_duplicates g agent_id (l_id l)
                                 (filter (\<lambda>d. \<not> (truthy supersedes \<and> Some d = py_int supersedes)) near) st4 of
                            (None, st5) \<Rightarrow> ForcedFailed st5
                          | (Some purges, st5) \<Rightarrow> ForcedWritten (l_id l) purges st5))))"

definition forced_learn ::
  "gov_env \<Rightarrow> string \<Rightarrow> string \<Rightarrow> string \<Rightarrow> pydict \<Rightarrow> rat \<Rightarrow> store \<Rightarrow> forced_end" where
  "forced_learn g agent_id raw_category content params now st =
    (let category = (if raw_category \<in> set CATEGORIES then raw_category else ''general'');
         h = content_hash (ge_sha1 g) content;
         existing = (if \<not> truthy (dget params ''supersedes'') \<and> dget params ''contradicts_id'' = PNone
                     then find_active_learning_by_hash (ge_sha1 g) st h agent_id else None)
     in case existing of
          Some l \<Rightarrow> ForcedDuplicate (l_id l) (if l_category l = [] then category else l_category l) (backfill_hash g (l_id l) h st)
        | None \<Rightarrow> forced_insert g agent_id category content params now st)"

section \<open>Learn\<close>

datatype learn_end =
    LearnRaises
  | LearnOutside
  | LearnReply pyval "effect list" store
  | LearnContradicted "contradiction list" store

definition oversized_field :: "pydict \<Rightarrow> string option" where
  "oversized_field params = find (\<lambda>f. is_str (dget params f) \<and> MAX_LEARN_FIELD_CHARS < int (length (str_of_val (dget params f))))
     [''title'', ''summary'']"

definition learned_reply :: "pyval \<Rightarrow> int \<Rightarrow> string \<Rightarrow> string \<Rightarrow> (string \<times> pyval) list \<Rightarrow> pyval" where
  "learned_reply request_id lid agent_id category extra = make_response (PDict (
     [(''status'', PStr ''ok''), (''learning_id'', PInt lid), (''agent_id'', PStr agent_id), (''category'', PStr category)] @ extra)) request_id"

definition of_stage :: "stage_end \<Rightarrow> learn_end" where
  "of_stage e = (case e of StageRaises \<Rightarrow> LearnRaises | StageReply reply es st \<Rightarrow> LearnReply reply es st)"

definition learn_text ::
  "gov_env \<Rightarrow> detector \<Rightarrow> effective_principal \<Rightarrow> pydict \<Rightarrow> pyval \<Rightarrow> rat \<Rightarrow> string \<Rightarrow> store \<Rightarrow> learn_end" where
  "learn_text g dt p params request_id now content st =
    (let agent_id = ep_agent_id p; force = truthy (dget params ''force'');
         raw_category = py_lower (py_strip (py_str (py_or (dget params ''category'') (PStr ''general''))));
         (candidates, st1) = (if \<not> force \<and> dget params ''contradicts_id'' = PNone
            then detect_contradictions g dt (py_or (dget params ''assertion'') (PStr (extract_assertion content))) agent_id now st
            else ([], st))
     in if candidates \<noteq> [] then LearnContradicted candidates st1
        else if \<not> force then of_stage (stage_stamped g p params request_id now st1)
        else if \<not> is_operator_principal p
        then LearnReply (make_error (-32004) (''operator_only: force=true durable learn requires operator principal '' @
               ''(principals/*.json capabilities or trusted name)'') request_id) [] st1
        else case forced_learn g agent_id raw_category content params now st1 of
          ForcedFailed st2 \<Rightarrow> LearnReply (make_error (-32000) ''Learn error: constraint failed'' request_id) [] (rollback st1 st2)
        | ForcedDuplicate lid cat st2 \<Rightarrow>
            LearnReply (learned_reply request_id lid agent_id cat [(''deduplicated'', PBool True)]) [] st2
        | ForcedWritten lid purges st2 \<Rightarrow>
            LearnReply (learned_reply request_id lid agent_id (if raw_category \<in> set CATEGORIES then raw_category else ''general'')
                (if ge_indexed g then [] else [(''indexed'', PBool False)]))
              (purges @ (if ge_writeback g then [WriteToDisk lid] else []) @ [IndexDurable agent_id content lid]) st2)"

definition learn_stamped ::
  "gov_env \<Rightarrow> detector \<Rightarrow> effective_principal \<Rightarrow> pydict \<Rightarrow> pyval \<Rightarrow> rat \<Rightarrow> string \<Rightarrow> store \<Rightarrow> learn_end" where
  "learn_stamped g dt p params request_id now content st =
    (if isl (validate_agent_id (ep_agent_id p))
     then LearnReply (make_error (-32602) (agent_id_text (ep_agent_id p)) request_id) [] st
     else learn_text g dt p params request_id now content st)"

definition handle_learn ::
  "gov_env \<Rightarrow> detector \<Rightarrow> handler_identity \<Rightarrow> pydict \<Rightarrow> pyval \<Rightarrow> rat \<Rightarrow> store \<Rightarrow> principal_error + learn_end" where
  "handle_learn g dt ident params request_id now st =
    (case reject_wire_supplied_auto_accept params request_id of
       Some refusal \<Rightarrow> Inr (LearnReply refusal [] st)
     | None \<Rightarrow>
        if \<not> truthy (dget_or params ''content'' (PStr [])) then Inr (LearnReply (make_error (-32602) ''content is required'' request_id) [] st)
        else case dget params ''content'' of
          PStr content \<Rightarrow>
            if MAX_LEARN_CHARS < int (length content)
            then Inr (LearnReply (make_error (-32602) (''learn content exceeds '' @ int_str MAX_LEARN_CHARS @ '' chars'') request_id) [] st)
            else (case oversized_field params of
              Some f \<Rightarrow> Inr (LearnReply (make_error (-32602) (''learn '' @ f @ '' exceeds '' @ int_str MAX_LEARN_FIELD_CHARS @ '' chars'')
                 request_id) [] st)
            | None \<Rightarrow> (case ident of
                IdentityRaise e \<Rightarrow> Inl e
              | Refused err \<Rightarrow> Inr (LearnReply err [] st)
              | Stamped p \<Rightarrow> Inr (learn_stamped g dt p params request_id now content st)))
        | _ \<Rightarrow> Inr LearnOutside)"

section \<open>Resolving a contradiction\<close>

definition id_list :: "pyval \<Rightarrow> int list option" where
  "id_list v = (case v of
     PList xs \<Rightarrow> if list_all (\<lambda>x. case x of PInt _ \<Rightarrow> True | _ \<Rightarrow> False) xs then Some (map int_of_val xs) else None
   | _ \<Rightarrow> None)"

text \<open>The checks of ownership, in the order of the list; the first failure is raised.\<close>

fun check_superseded ::
  "gov_env \<Rightarrow> effective_principal \<Rightarrow> pyval \<Rightarrow> store \<Rightarrow> int list \<Rightarrow> pyval + (string \<times> string) list" where
  "check_superseded g p request_id st [] = Inr []"
| "check_superseded g p request_id st (sid # sids) = (case learning_row st sid of
     None \<Rightarrow> Inl (make_error (-32001) (''learning_not_found: '' @ int_str sid) request_id)
   | Some l \<Rightarrow>
      if l_agent l \<noteq> ep_agent_id p \<and> \<not> explicitly_allowed_operator g p
      then Inl (make_error (-32004) (''principal_mismatch: learning #'' @ int_str sid @ '' is owned by '' @ quoted (l_agent l) @
             ''; caller principal '' @ quoted (ep_agent_id p) @ '' may only supersede its own learnings '' @
             ''(cross-principal supersession requires an explicitly allowed operator)'') request_id)
      else (case check_superseded g p request_id st sids of
          Inl err \<Rightarrow> Inl err | Inr docs \<Rightarrow> Inr ((l_agent l, l_content l) # docs)))"

definition supersede_with :: "int \<Rightarrow> string \<Rightarrow> rat \<Rightarrow> store \<Rightarrow> int \<Rightarrow> store" where
  "supersede_with new_lid agent_id now st sid = st\<lparr>
     st_learnings := map (\<lambda>l. if l_id l = sid then l\<lparr>l_successor := Some new_lid, l_status := Some ''superseded''\<rparr> else l) (st_learnings st),
     st_events := st_events st @ [\<lparr>ce_id = st_next_event st, ce_superseded = sid, ce_new = new_lid, ce_agent = agent_id, ce_created = now\<rparr>],
     st_next_event := st_next_event st + 1\<rparr>"

definition correct_memory ::
  "gov_env \<Rightarrow> effective_principal \<Rightarrow> pydict \<Rightarrow> pyval \<Rightarrow> string \<Rightarrow> int list \<Rightarrow> rat \<Rightarrow> store \<Rightarrow> learn_end" where
  "correct_memory g p params request_id new_content ids now st =
    (let raw_category = py_lower (py_strip (py_str (py_or (dget params ''category'') (PStr ''general''))));
         category = (if raw_category \<in> set CATEGORIES then raw_category else ''general'')
     in case check_superseded g p request_id st ids of
          Inl err \<Rightarrow> LearnReply err [] st
        | Inr docs \<Rightarrow>
            if \<not> list_all (\<lambda>k. bindable (dget params k)) [''assertion'', ''applies_when'', ''confidence'']
            then LearnReply (make_error (-32000) ''Resolve contradiction error: unsupported type'' request_id) [] st
            else
              (let l = forced_row g (ep_agent_id p) category new_content None now st;
                   st1 = foldl (supersede_with (l_id l) (ep_agent_id p) now) (insert_learning l st) ids
               in LearnReply (make_response (PDict [(''status'', PStr ''ok''), (''new_learning_id'', PInt (l_id l)),
                      (''superseded'', PList (map PInt ids))]) request_id)
                    (map (\<lambda>(a, c). PurgeDurable a c) (filter (\<lambda>(_, c). c \<noteq> []) docs)
                       @ (if ge_writeback g then [WriteToDisk (l_id l)] else [])) st1))"

definition resolve_contradiction_stamped ::
  "gov_env \<Rightarrow> effective_principal \<Rightarrow> pydict \<Rightarrow> pyval \<Rightarrow> string \<Rightarrow> int list \<Rightarrow> rat \<Rightarrow> store \<Rightarrow> learn_end" where
  "resolve_contradiction_stamped g p params request_id new_content supersede_ids now st =
    (let refuse = (\<lambda>code m. LearnReply (make_error code m request_id) [] st); ids = unique supersede_ids in
     if isl (validate_agent_id (ep_agent_id p)) then refuse (-32602) (agent_id_text (ep_agent_id p))
     else if MAX_LEARN_CHARS < int (length new_content)
     then refuse (-32602) (''new_content exceeds '' @ int_str MAX_LEARN_CHARS @ '' chars'')
     else if is_instruction_like new_content \<and> \<not> explicitly_allowed_accept_flagged p
     then refuse (-32004) (''accept_flagged_required: new_content is instruction_like; writing it as a durable learning '' @
            ''requires the literal '' @ quoted ''accept_flagged'' @ '' capability'')
     else if MAX_SUPERSEDE_IDS < length ids
     then refuse (-32602) (''supersede_ids exceeds '' @ int_str (int MAX_SUPERSEDE_IDS) @ '' entries'')
     else correct_memory g p params request_id new_content ids now st)"

definition handle_resolve_contradiction ::
  "gov_env \<Rightarrow> handler_identity \<Rightarrow> pydict \<Rightarrow> pyval \<Rightarrow> rat \<Rightarrow> store \<Rightarrow> principal_error + learn_end" where
  "handle_resolve_contradiction g ident params request_id now st =
    (let refuse = (\<lambda>m. Inr (LearnReply (make_error (-32602) m request_id) [] st));
         raw_ids = dget_or params ''supersede_ids'' (PList []) in
     if \<not> truthy (dget_or params ''new_content'' (PStr [])) then refuse ''new_content is required''
     else if \<not> is_list raw_ids then refuse ''supersede_ids must be a list''
     else case id_list raw_ids of
       None \<Rightarrow> refuse ''supersede_ids must be a list of integers''
     | Some supersede_ids \<Rightarrow>
        if supersede_ids = [] then refuse ''supersede_ids must be a non-empty list of integers''
        else (case ident of
            IdentityRaise e \<Rightarrow> Inl e
          | Refused err \<Rightarrow> Inr (LearnReply err [] st)
          | Stamped p \<Rightarrow> (case dget params ''new_content'' of
              PStr new_content \<Rightarrow> Inr (resolve_contradiction_stamped g p params request_id new_content supersede_ids now st)
            | _ \<Rightarrow> Inr LearnOutside)))"

section \<open>Subscribing to contradictions\<close>

text \<open>
  \<open>float(v)\<close>, with \<open>from_text\<close> for a text; \<open>None\<close> is the exception that the handler catches.  The overflow of an
  integer is not caught (\<open>SubscribeRaises\<close>).
\<close>

definition py_float :: "(string \<Rightarrow> pyfloat option) \<Rightarrow> pyval \<Rightarrow> pyfloat option" where
  "py_float from_text v = (case v of
     PInt i \<Rightarrow> Some (Fin (of_int i))
   | PBool b \<Rightarrow> Some (Fin (if b then 1 else 0))
   | PFloat f _ \<Rightarrow> Some f
   | PStr s \<Rightarrow> from_text s
   | _ \<Rightarrow> None)"

definition float_overflows :: "pyval \<Rightarrow> bool" where
  "float_overflows v = (case v of PInt i \<Rightarrow> int_overflows i | _ \<Rightarrow> False)"

definition finite_or :: "'a \<Rightarrow> (rat \<Rightarrow> 'a) \<Rightarrow> pyfloat \<Rightarrow> 'a" where
  "finite_or dflt f x = (case x of Fin r \<Rightarrow> f r | _ \<Rightarrow> dflt)"

record subscription =
  sb_events :: "contradiction_event list"
  sb_event_count :: nat
  sb_reads :: nat
  sb_window_days :: rat
  sb_read_hours :: "rat option"
  sb_since :: rat
  sb_event_since :: rat

datatype subscribe_end = SubscribeRaises | SubscribeError pyval | Subscribed string subscription

definition reads_of :: "string \<Rightarrow> store \<Rightarrow> learning_read list" where
  "reads_of agent_id st = filter (\<lambda>r. lr_agent r = agent_id) (st_reads st)"

text \<open>The join with the reads, without repetitions, in the order of time and then of the event ids.\<close>

definition events_for :: "string \<Rightarrow> rat \<Rightarrow> rat option \<Rightarrow> store \<Rightarrow> contradiction_event list" where
  "events_for agent_id event_since read_since st =
    sort_key ce_created (sort_key ce_id (filter (\<lambda>e. event_since \<le> ce_created e
      \<and> list_ex (\<lambda>r. lr_learning r = ce_superseded e \<and> (case read_since of None \<Rightarrow> True | Some t \<Rightarrow> t \<le> lr_at r)) (reads_of agent_id st))
      (st_events st)))"

definition subscribe_window ::
  "string \<Rightarrow> rat \<Rightarrow> rat option \<Rightarrow> rat \<Rightarrow> rat \<Rightarrow> store \<Rightarrow> subscription" where
  "subscribe_window agent_id since_ts read_window_hours event_window_days now st =
    (let event_since = max since_ts (now - event_window_days * 86400);
         read_since = map_option (\<lambda>h. now - h * 3600) read_window_hours;
         mine = reads_of agent_id st
     in \<lparr>sb_events = events_for agent_id event_since read_since st,
         sb_event_count = length (filter (\<lambda>e. event_since \<le> ce_created e
           \<and> ce_superseded e \<in> lr_learning ` set mine) (st_events st)),
         sb_reads = length mine, sb_window_days = event_window_days, sb_read_hours = read_window_hours,
         sb_since = since_ts, sb_event_since = event_since\<rparr>)"

definition subscribe_stamped ::
  "(string \<Rightarrow> pyfloat option) \<Rightarrow> effective_principal \<Rightarrow> pydict \<Rightarrow> pyval \<Rightarrow> rat \<Rightarrow> store \<Rightarrow> subscribe_end" where
  "subscribe_stamped from_text p params request_id now st =
    (let fail = (\<lambda>m. SubscribeError (make_error (-32602) m request_id)) in
     if ep_agent_id p = [] then fail ''agent_id is required''
     else if float_overflows (dget params ''since_ts'') then SubscribeRaises
     else case py_float from_text (py_or (dget_or params ''since_ts'' (PInt 0)) (PInt 0)) of
       None \<Rightarrow> fail ''since_ts must be a number''
     | Some since \<Rightarrow>
        if float_overflows (dget params ''read_window_hours'') then SubscribeRaises
        else (case (if dget params ''read_window_hours'' = PNone then Some None
               else map_option Some (py_float from_text (dget params ''read_window_hours''))) of
           None \<Rightarrow> fail ''read_window_hours must be a number''
         | Some hours \<Rightarrow>
            if float_overflows (dget params ''event_window_days'') then SubscribeRaises
            else (case (if dget params ''event_window_days'' = PNone then Some (Fin 30)
                   else py_float from_text (dget params ''event_window_days'')) of
               None \<Rightarrow> fail ''event_window_days must be a number''
             | Some days \<Rightarrow> Subscribed (ep_agent_id p) (subscribe_window (ep_agent_id p)
                 (min (finite_or 0 id since) (now + 60))
                 (Option.bind hours (finite_or None (\<lambda>h. Some (min (max h 0) 8760))))
                 (min (max (finite_or 30 id days) 0) 365) now st))))"

definition handle_subscribe_contradictions ::
  "(string \<Rightarrow> pyfloat option) \<Rightarrow> handler_identity \<Rightarrow> pydict \<Rightarrow> pyval \<Rightarrow> rat \<Rightarrow> store
     \<Rightarrow> principal_error + subscribe_end" where
  "handle_subscribe_contradictions from_text ident params request_id now st = (case ident of
     IdentityRaise e \<Rightarrow> Inl e
   | Refused err \<Rightarrow> Inr (SubscribeError err)
   | Stamped p \<Rightarrow> Inr (subscribe_stamped from_text p params request_id now st))"

end
