(* ===== verification/Staging_Safety.thy ===== *)
theory Staging_Safety
  imports Candidate_Staging Governance_Safety
begin

text \<open>
  What staging promises: one row per accepted request and none otherwise, durable memory without a person only under
  the operator's switch and past every blocker, no forged claim in the row, a bounded queue, and a store that keeps
  the constraints of its schema.
\<close>

section \<open>The ways a staging ends\<close>

lemma stage_row_cases:
  obtains (queued) w where "stage_row g p row withheld now st = Proposed (cp_id row) w (insert_candidate row st)"
  | (failed) s where "stage_row g p row withheld now st = StageFailed (rollback st s)"
      "ep_auto_accept_own p" "withheld = []"
  | (written) h e lid purges s where "stage_row g p row withheld now st = AutoAccepted (cp_id row) lid purges s"
      "ep_auto_accept_own p" "withheld = []" "prepared g (cp_content row) = Some (h, e)"
      "\<not> has_active_learning_hash (ge_sha1 g) (insert_candidate row st) h (ep_agent_id p)"
      "accept_staged g p row h e now (insert_candidate row st) = DurablyWritten lid purges s"
proof (cases "ep_auto_accept_own p \<and> withheld = []")
  case False
  then show thesis by (intro queued[of withheld]) (auto simp: stage_row_def Let_def)
next
  case wanted: True
  show thesis
  proof (cases "prepared g (cp_content row)")
    case None
    then show thesis using wanted by (intro queued) (simp add: stage_row_def Let_def)
  next
    case (Some he)
    obtain h e where he: "he = (h, e)" by fastforce
    show thesis
    proof (cases "has_active_learning_hash (ge_sha1 g) (insert_candidate row st) h (ep_agent_id p)")
      case True
      then show thesis using wanted Some he by (intro queued) (simp add: stage_row_def Let_def)
    next
      case False
      then show thesis using wanted Some he queued failed written
        by (cases "accept_staged g p row h e now (insert_candidate row st)") (simp_all add: stage_row_def Let_def)
    qed
  qed
qed

text \<open>The text of a request as it is stored.\<close>

definition staged_text :: "pydict \<Rightarrow> string" where
  "staged_text params = (case py_or (py_or (dget params ''content'') (dget params ''text'')) (PStr []) of
     PStr raw \<Rightarrow> cut_at 200000 (py_strip raw) | _ \<Rightarrow> [])"

lemma stage_cases:
  assumes "stage_stamped g p params i now st = StageReply reply es st'"
  obtains (refused) c m where "reply = make_error c m i" "es = []" "st' = st"
  | (failed) s row where "reply = make_error (-32000) ''stage_candidate error: constraint failed'' i" "es = []" "st' = rollback st s"
      "staged_row g p params (staged_text params) now st = Some row"
      "stage_row g p row (withheld_reasons g params (staged_text params)) now st = StageFailed (rollback st s)"
  | (queued) row where "staged_row g p params (staged_text params) now st = Some row" "es = [NotifyStaged]"
      "st' = insert_candidate row st" "pending_of (ep_agent_id p) st < MAX_PENDING_CANDIDATES_PER_PRINCIPAL"
  | (written) row h e lid purges where "staged_row g p params (staged_text params) now st = Some row"
      "ep_auto_accept_own p" "withheld_reasons g params (staged_text params) = []"
      "prepared g (cp_content row) = Some (h, e)"
      "accept_staged g p row h e now (insert_candidate row st) = DurablyWritten lid purges st'"
      "es = purges @ [IndexDurable (ep_agent_id p) (staged_text params) lid, ArchiveInbox (cp_id row)]"
      "pending_of (ep_agent_id p) st < MAX_PENDING_CANDIDATES_PER_PRINCIPAL"
proof (cases "MAX_PENDING_CANDIDATES_PER_PRINCIPAL \<le> pending_of (ep_agent_id p) st")
  case True
  then show thesis using assms refused by (auto simp: stage_stamped_def Let_def)
next
  case room: False
  note run = assms[unfolded stage_stamped_def Let_def]
  show thesis
  proof (cases "py_or (py_or (dget params ''content'') (dget params ''text'')) (PStr [])")
    case (PStr raw)
    have stored: "staged_text params = cut_at 200000 (py_strip raw)" by (simp add: staged_text_def PStr)
    show thesis
    proof (cases "staged_text params = [] \<or> staged_row g p params (staged_text params) now st = None")
      case True
      then show thesis using run room PStr refused unfolding stored by (auto split: if_splits)
    next
      case False
      then obtain row where row: "staged_row g p params (staged_text params) now st = Some row" by blast
      show thesis
      proof (cases rule: stage_row_cases[of g p row "withheld_reasons g params (staged_text params)" now st])
        case (queued w)
        then show thesis using run room PStr False row that(3)[of row] unfolding stored by auto
      next
        case (failed s)
        then show thesis using run room PStr False row that(2)[of s row] unfolding stored by auto
      next
        case (written h e lid purges s)
        then show thesis using run room PStr False row that(4)[of row h e lid purges] unfolding stored
          by (auto simp: settle_accepted_candidate_def)
      qed
    qed
  qed (use run room in auto)
qed

section \<open>The durable write\<close>

lemma evict_duplicates_result:
  assumes "store_ok st" and "evict_duplicates g a lid ids st = (Some purges, st')" and "lid \<notin> set ids"
    and "l \<in> set (st_learnings st)" "l_id l = lid" "l_successor l = None"
  shows "store_ok st' \<and> l \<in> set (st_learnings st') \<and> st_candidates st' = st_candidates st \<and> st_actions st' = st_actions st
    \<and> st_next_candidate st' = st_next_candidate st \<and> (\<forall>e\<in>set purges. \<exists>x y. e = PurgeDurable x y)
    \<and> l_id ` set (st_learnings st') = l_id ` set (st_learnings st) - set ids"
  using assms
proof (induction ids arbitrary: st purges)
  case (Cons dup ids)
  obtain b st1 more where ev: "evict_learning_to_cold_archive (ge_sha1 g) (ge_vault g) dup
      (''superseded_near_duplicate_by:'' @ int_str lid) st = (Some b, st1)"
    and rest: "evict_duplicates g a lid ids st1 = (Some more, st')"
    and purges: "\<exists>x y. purges = PurgeDurable x y # more"
    using Cons.prems(2) by (auto simp: Let_def split: prod.splits option.splits)
  note t = evicted_tables[OF Cons.prems(1) ev]
  have "unpoint dup l = l" using Cons.prems(6) by (simp add: unpoint_def)
  then have "l \<in> set (st_learnings st1)" unfolding t(1) survivors_def using Cons.prems(3-5) by force
  moreover have "lid \<notin> set ids" using Cons.prems(3) by simp
  ultimately show ?case
    using Cons.IH[OF evict_keeps_ok[OF Cons.prems(1) ev] rest] Cons.prems(5,6) t purges
    by (auto simp: survivors_ids)
qed simp

lemma insert_candidate_ok:
  "store_ok st \<Longrightarrow> cp_id c = st_next_candidate st \<Longrightarrow> store_ok (insert_candidate c st)"
  by (auto simp: store_ok_def candidates_ok_def insert_candidate_def)

lemma near_excludes: "lid \<notin> set (find_near_duplicate_active_learning cosine st a cat content lid e)"
  by (auto simp: find_near_duplicate_active_learning_def Let_def)

definition accepted_form :: "effective_principal \<Rightarrow> rat \<Rightarrow> candidate \<Rightarrow> candidate" where
  "accepted_form p now c = c\<lparr>cp_status := ''accepted'', cp_resolved_at := Some now,
     cp_resolved_by := Some (auto_resolver p), cp_reason := Some AUTO_ACCEPT_REASON\<rparr>"

lemma accept_staged_result:
  assumes ok: "store_ok st" and acc: "accept_staged g p row h e now st = DurablyWritten lid purges st'"
  shows "store_ok st'"
    and "st_candidates st' = map (\<lambda>c. if cp_id c = cp_id row then accepted_form p now c else c) (st_candidates st)"
    and "new_learning st (ep_agent_id p) (cp_category row) (cp_content row) now (Some e) h \<in> set (st_learnings st')"
    and "lid = st_next_learning st" "\<forall>x\<in>set purges. \<exists>a b. x = PurgeDurable a b"
    and "st_next_candidate st' = st_next_candidate st"
proof -
  define l where "l = new_learning st (ep_agent_id p) (cp_category row) (cp_content row) now (Some e) h"
  have lrow: "l_id l = st_next_learning st" "l_successor l = None" "l_contradicts l = None" by (simp_all add: l_def new_learning_def)
  note run = acc[unfolded accept_staged_def Let_def l_def[symmetric]]
  obtain r st2 where en: "ensure_canonical_learning_node (ge_sha1 g) (ge_extract g) (insert_learning l st) (l_id l)
      (ep_agent_id p) (cp_content row) (ge_vault g) now = Some (r, st2)"
    using run by (auto split: option.splits)
  obtain st3 where ev: "evict_duplicates g (ep_agent_id p) (l_id l) (find_near_duplicate_active_learning (ge_cosine g) st2
      (ep_agent_id p) (cp_category row) (cp_content row) (l_id l) (Some e)) st2 = (Some purges, st3)"
    and st': "st' = apply_accepted_candidate_effects (cp_id row) (set_candidate (cp_id row) (\<lambda>c. c\<lparr>cp_status := ''accepted'',
        cp_resolved_at := Some now, cp_resolved_by := Some (auto_resolver p), cp_reason := Some AUTO_ACCEPT_REASON\<rparr>) st3)"
    and lid: "lid = l_id l"
    using run en by (auto split: prod.splits option.splits)
  have ok1: "store_ok (insert_learning l st)"
    using ok insert_learning_ok[of "st_learnings st" "st_next_learning st" l] lrow
    by (auto simp: store_ok_def insert_learning_def elim: joins_ok_mono)
  note t = ensure_tables[OF en]
  have "l \<in> set (st_learnings st2)" by (simp add: t insert_learning_def)
  note er = evict_duplicates_result[OF ensure_keeps_ok[OF ok1 en] ev near_excludes this refl lrow(2)]
  have cands: "st_candidates st3 = st_candidates st" "st_next_candidate st3 = st_next_candidate st"
    using er t by (simp_all add: insert_learning_def)
  have eff: "st_candidates (apply_accepted_candidate_effects i s) = st_candidates s"
    "st_learnings (apply_accepted_candidate_effects i s) = st_learnings s"
    "st_next_candidate (apply_accepted_candidate_effects i s) = st_next_candidate s"
    "store_ok (apply_accepted_candidate_effects i s) = store_ok s" for i s
    by (simp_all add: apply_accepted_candidate_effects_def supersede_afm_review_def Let_def store_ok_def)
  show "st_candidates st' = map (\<lambda>c. if cp_id c = cp_id row then accepted_form p now c else c) (st_candidates st)"
    by (simp add: st' eff cands store_simps accepted_form_def)
  show "store_ok st'" unfolding st' eff using er
    by (auto simp: store_ok_def set_candidate_def intro!: candidates_ok_map)
  show "new_learning st (ep_agent_id p) (cp_category row) (cp_content row) now (Some e) h \<in> set (st_learnings st')"
    using er by (simp add: st' eff store_simps l_def)
  show "lid = st_next_learning st" by (simp add: lid lrow)
  show "\<forall>x\<in>set purges. \<exists>a b. x = PurgeDurable a b" using er by blast
  show "st_next_candidate st' = st_next_candidate st" by (simp add: st' eff cands store_simps)
qed

end
