(* ===== verification/Staging_Properties.thy ===== *)
theory Staging_Properties
  imports Staging_Safety Governance_Properties
begin

text \<open>
  The properties of staging: authority and quality of an unattended acceptance, the one row of a request, its honest
  claims, the bound on the queue, the constraints of the schema, and two gaps.
\<close>

section \<open>What a row says\<close>

lemma staged_row_fields:
  assumes "staged_row g p params content now st = Some row"
  shows "cp_id row = st_next_candidate st" "cp_principal row = ep_agent_id p" "cp_content row = content"
    "cp_status row = ''proposed''" "cp_requested row = Some (requested_privacy g params content)"
    "cp_instruction_like row = staged_flag params content" "cp_category row = staged_category params"
    "cp_privacy row = Some (if explicitly_allowed_operator g p then requested_privacy g params content else ''review'')"
    "cp_derived row = json_default (PDict (staged_lineage g params))" "cp_proposed_at row = now"
  using assms by (auto simp: staged_row_def split: option.splits)

lemma accepted_form_simps [simp]:
  "cp_id (accepted_form p now c) = cp_id c" "cp_principal (accepted_form p now c) = cp_principal c"
  "cp_content (accepted_form p now c) = cp_content c" "cp_requested (accepted_form p now c) = cp_requested c"
  "cp_privacy (accepted_form p now c) = cp_privacy c" "cp_derived (accepted_form p now c) = cp_derived c"
  "cp_instruction_like (accepted_form p now c) = cp_instruction_like c" "cp_status (accepted_form p now c) = ''accepted''"
  "cp_category (accepted_form p now c) = cp_category c" "cp_resolved_by (accepted_form p now c) = Some (auto_resolver p)"
  by (simp_all add: accepted_form_def)

lemma accepted_rows:
  assumes "store_ok st" and "cp_id row = st_next_candidate st"
    and "accept_staged g p row h e now (insert_candidate row st) = DurablyWritten lid purges st'"
  shows "st_candidates st' = st_candidates st @ [accepted_form p now row]"
proof -
  have fresh: "cp_id c \<noteq> cp_id row" if "c \<in> set (st_candidates st)" for c
    using that assms(1,2) unfolding store_ok_def candidates_ok_def by fastforce
  have "map (\<lambda>c. if cp_id c = cp_id row then accepted_form p now c else c) (st_candidates st) = st_candidates st"
    using fresh by (intro map_idI) simp
  then show ?thesis
    using accept_staged_result(2)[OF insert_candidate_ok[OF assms(1,2)] assms(3)] by (simp add: insert_candidate_def)
qed

text \<open>What a successful or failed staging leaves behind.\<close>

lemma stage_rows:
  assumes ok: "store_ok st" and run: "stage_stamped g p params i now st = StageReply reply es st'"
  shows "if es = [] then st_candidates st' = st_candidates st \<and> st_learnings st' = st_learnings st
    else \<exists>row. staged_row g p params (staged_text params) now st = Some row
      \<and> pending_of (ep_agent_id p) st < MAX_PENDING_CANDIDATES_PER_PRINCIPAL
      \<and> (st_candidates st' = st_candidates st @ [row] \<and> st_learnings st' = st_learnings st
         \<or> st_candidates st' = st_candidates st @ [accepted_form p now row] \<and> ep_auto_accept_own p
           \<and> withheld_reasons g params (staged_text params) = []
           \<and> (\<exists>l\<in>set (st_learnings st'). l_id l = st_next_learning st \<and> l_agent l = ep_agent_id p
                \<and> l_content l = staged_text params \<and> l_status l = Some ''active''))"
  using run
proof (cases rule: stage_cases)
  case refused
  then show ?thesis by simp
next
  case (failed s row)
  then show ?thesis by (simp add: rollback_def)
next
  case (queued row)
  then show ?thesis by (auto simp: insert_candidate_def)
next
  case (written row h e lid purges)
  note f = staged_row_fields[OF written(1)]
  let ?l = "new_learning (insert_candidate row st) (ep_agent_id p) (cp_category row) (cp_content row) now (Some e) h"
  have "?l \<in> set (st_learnings st')"
    using accept_staged_result(3)[OF insert_candidate_ok[OF ok f(1)] written(5)] .
  moreover have "l_id ?l = st_next_learning st" "l_agent ?l = ep_agent_id p" "l_content ?l = staged_text params"
    "l_status ?l = Some ''active''" by (simp_all add: new_learning_def insert_candidate_def f)
  ultimately show ?thesis using written(1-3,6,7) accepted_rows[OF ok f(1) written(5)] by auto
qed

section \<open>The properties\<close>

lemma no_blockers:
  assumes "withheld_reasons g params content = []"
  shows "\<not> staged_flag params content" "MIN_CONTENT_LEN \<le> length (py_strip content)"
    "py_lower (py_strip (requested_privacy g params content)) \<in> set SAFE_PRIVACY" "quality_blockers content = []"
    "non_durable_promotion_blocker (ge_from_iso g) (ge_gate_since g) content (staged_category params)
       (optional_str (declared params ''source'')) (optional_str (declared params ''origin'')) = None"
  using assms by (auto simp: withheld_reasons_def auto_accept_blockers_def split: if_splits option.splits)

text \<open>C11: A learn becomes durable memory without a person only where the operator has switched that on for the very
  principal, and only for a text that is not instruction-like, is long enough, declares a safe privacy, passes the
  quality gate and the durability gate; its row then names the automatic resolver.\<close>

theorem unattended_acceptance_is_earned:
  assumes "store_ok st" and "stage_stamped g p params i now st = StageReply reply es st'"
    and "st_learnings st' \<noteq> st_learnings st"
  shows "ep_auto_accept_own p \<and> (\<exists>c. st_candidates st' = st_candidates st @ [c] \<and> cp_status c = ''accepted''
    \<and> cp_principal c = ep_agent_id p \<and> cp_resolved_by c = Some (auto_resolver p)
    \<and> \<not> is_instruction_like (cp_content c) \<and> MIN_CONTENT_LEN \<le> length (py_strip (cp_content c))
    \<and> py_lower (py_strip (requested_privacy g params (cp_content c))) \<in> set SAFE_PRIVACY
    \<and> quality_blockers (cp_content c) = []
    \<and> non_durable_promotion_blocker (ge_from_iso g) (ge_gate_since g) (cp_content c) (cp_category c)
         (optional_str (declared params ''source'')) (optional_str (declared params ''origin'')) = None)"
proof -
  obtain row where row: "staged_row g p params (staged_text params) now st = Some row"
    and acc: "st_candidates st' = st_candidates st @ [accepted_form p now row]" "ep_auto_accept_own p"
      "withheld_reasons g params (staged_text params) = []"
    using stage_rows[OF assms(1,2)] assms(3) by (auto split: if_splits)
  note f = staged_row_fields[OF row]
  show ?thesis using acc no_blockers[OF acc(3)] f by (intro conjI exI[of _ "accepted_form p now row"]) (simp_all add: staged_flag_def)
qed

text \<open>A staging adds exactly one row to the candidates, the caller's, proposed or accepted, or it adds none and then
  changes no candidate and no learning either; the rows already there stay as they are.\<close>

theorem staging_adds_one_row:
  assumes "store_ok st" and "stage_stamped g p params i now st = StageReply reply es st'"
  shows "if es = [] then st_candidates st' = st_candidates st \<and> st_learnings st' = st_learnings st
    else \<exists>c. st_candidates st' = st_candidates st @ [c] \<and> cp_id c = st_next_candidate st \<and> cp_principal c = ep_agent_id p
      \<and> cp_content c = staged_text params \<and> cp_status c \<in> {''proposed'', ''accepted''}"
proof (cases "es = []")
  case False
  then obtain row where row: "staged_row g p params (staged_text params) now st = Some row"
    and cs: "st_candidates st' = st_candidates st @ [row] \<or> st_candidates st' = st_candidates st @ [accepted_form p now row]"
    using stage_rows[OF assms] by auto
  note f = staged_row_fields[OF row]
  from cs show ?thesis using False f by (elim disjE) simp_all
qed (use stage_rows[OF assms] in auto)

lemma has_key_delete: "has_key (AList.delete k d) k' \<longleftrightarrow> k \<noteq> k' \<and> has_key d k'"
  by (simp add: has_key_def delete_conv')

lemma dget_delete_key: "dget (AList.delete k d) k' = (if k = k' then PNone else dget d k')"
  by (simp add: dget_def delete_conv')

text \<open>C14: A row cannot claim what only the daemon may say: without operator rights its privacy is \<open>review\<close>, whatever was
  asked for, and its lineage neither names an inbox file nor the inbox as its source.\<close>

theorem staged_claims_are_clamped:
  assumes "staged_row g p params content now st = Some row"
  shows "(explicitly_allowed_operator g p \<or> cp_privacy row = Some ''review'')
    \<and> (\<exists>d. cp_derived row = json_default (PDict d) \<and> \<not> has_key d ''inbox_file''
         \<and> py_lower (py_strip (py_str (py_or (dget d ''source'') (PStr [])))) \<noteq> ''inbox'')"
proof -
  have "\<not> has_key (staged_lineage g params) ''inbox_file''" by (simp add: staged_lineage_def drop_inbox_claim_def has_key_delete)
  moreover have "py_lower (py_strip (py_str (py_or (dget (staged_lineage g params) ''source'') (PStr [])))) \<noteq> ''inbox''"
    by (auto simp: staged_lineage_def drop_inbox_claim_def dget_delete_key py_or_def py_lower_def)
  ultimately show ?thesis using staged_row_fields[OF assms] by (auto simp del: json_default.simps)
qed

text \<open>A run of stagings.\<close>

definition stage_step :: "gov_env \<Rightarrow> store \<Rightarrow> effective_principal \<times> pydict \<times> pyval \<times> rat \<Rightarrow> store" where
  "stage_step g st req = (case req of (p, params, i, now) \<Rightarrow>
     (case stage_stamped g p params i now st of StageRaises \<Rightarrow> st | StageReply _ _ st' \<Rightarrow> st'))"

lemma stage_keeps_ok:
  assumes ok: "store_ok st" and run: "stage_stamped g p params i now st = StageReply reply es st'"
  shows "store_ok st'"
  using run
proof (cases rule: stage_cases)
  case (failed s row)
  then show ?thesis using ok by (simp add: rollback_def store_ok_def)
next
  case (queued row)
  then show ?thesis using insert_candidate_ok[OF ok staged_row_fields(1)[OF queued(1)]] by simp
next
  case (written row h e lid purges)
  then show ?thesis using accept_staged_result(1) insert_candidate_ok[OF ok staged_row_fields(1)[OF written(1)]] by blast
qed (use ok in simp)

lemma stage_steps_ok: "store_ok st \<Longrightarrow> store_ok (foldl (stage_step g) st reqs)"
proof (induction reqs arbitrary: st)
  case (Cons r rs)
  have "store_ok (stage_step g st r)" using Cons.prems stage_keeps_ok by (auto simp: stage_step_def split: prod.splits stage_end.splits)
  then show ?case using Cons.IH by simp
qed simp




text \<open>A request that carries the operator's switch itself, under either name, is refused for everybody, and the
  store stays as it is.\<close>

theorem wire_switch_refused:
  assumes "k \<in> set AUTO_ACCEPT_PARAM_KEYS" and "has_key params k"
  shows "\<exists>m. stage_candidate g ident params i now st = Inr (StageReply (make_error (-32004) m i) [] st)"
proof -
  obtain key where "find (has_key params) AUTO_ACCEPT_PARAM_KEYS = Some key"
    using assms by (metis find_None_iff option.exhaust)
  then show ?thesis by (auto simp: stage_candidate_def reject_wire_supplied_auto_accept_def)
qed

text \<open>A lineage sent as JSON text is stored exactly like the same lineage sent as an object, but its source and origin
  do not reach the durability gate: the reasons to withhold are those of a text without any provenance, so that a
  harvested text passes where the object form is held back.\<close>

theorem text_lineage_escapes_gate:
  assumes "dget params ''source'' = PNone" "dget params ''origin'' = PNone" and "dget params ''derived_from'' = PStr s"
    and "py_strip s \<noteq> []" and "ge_loads g s = Some (PDict d)"
  shows "staged_lineage g params = staged_lineage g (AList.update ''derived_from'' (PDict d) params)
    \<and> withheld_reasons g params content = auto_accept_blockers (ge_from_iso g) (ge_gate_since g) content
        (staged_flag params content) (requested_privacy g params content) (staged_category params) None None"
proof -
  have keep: "add_declared f (dget d f) e = e" if "has_key e f = has_key d f" for f e
    using that by (auto simp: add_declared_def has_key_def dget_def split: option.splits)
  have "declared params f = PNone" if "f \<in> {''source'', ''origin''}" for f
    using assms(1-3) that by (auto simp: declared_def)
  moreover have "declared (AList.update ''derived_from'' (PDict d) params) f = dget d f" if "f \<in> {''source'', ''origin''}" for f
    using assms(1,2) that by (auto simp: declared_def)
  ultimately show ?thesis using assms(3-5) keep[of d "''source''"] keep[of d "''origin''"]
    by (simp add: staged_lineage_def lineage_base_def withheld_reasons_def optional_str_def add_declared_def)
qed

section \<open>The properties on a small store\<close>

definition sample_author :: effective_principal where
  "sample_author = \<lparr>ep_agent_id = ''codex'', ep_workspace_id = ''default'', ep_session_id = PNone, ep_transport = ''uds'',
     ep_capabilities = [], ep_vault_roots = [], ep_auto_accept_own = True, ep_deny_reason = None\<rparr>"

definition learn_params :: pydict where
  "learn_params = [(''content'', PStr ''Never push to main''), (''category'', PStr ''fix'')]"

definition first_stage :: stage_end where
  "first_stage = stage_stamped sample_gov sample_author learn_params (PInt 9) 5 governed_store"

fun stage_store :: "stage_end \<Rightarrow> store option" where
  "stage_store StageRaises = None"
| "stage_store (StageReply reply es st) = Some st"

fun stage_effects :: "stage_end \<Rightarrow> effect list" where
  "stage_effects StageRaises = []"
| "stage_effects (StageReply reply es st) = es"

lemma first_stage_runs:
  "map_option (\<lambda>st. (map l_id (st_learnings st), map cp_status (st_candidates st))) (stage_store first_stage)
    = Some ([1, 2], [''proposed'', ''rejected'', ''accepted''])"
  "stage_effects first_stage = [IndexDurable ''codex'' ''Never push to main'' 2, ArchiveInbox 3]"
  by code_simp+

lemma first_stage_reply:
  obtains reply es st' where "stage_stamped sample_gov sample_author learn_params (PInt 9) 5 governed_store = StageReply reply es st'"
    "map l_id (st_learnings st') = [1, 2]" "es \<noteq> []"
  using first_stage_runs unfolding first_stage_def
  by (cases "stage_stamped sample_gov sample_author learn_params (PInt 9) 5 governed_store") auto

lemma unattended_acceptance_is_earned_witness:
  "ep_auto_accept_own sample_author \<and> (\<exists>reply es st' c.
    stage_stamped sample_gov sample_author learn_params (PInt 9) 5 governed_store = StageReply reply es st'
    \<and> st_candidates st' = st_candidates governed_store @ [c] \<and> cp_status c = ''accepted'')"
proof -
  obtain reply es st' where run: "stage_stamped sample_gov sample_author learn_params (PInt 9) 5 governed_store = StageReply reply es st'"
    "map l_id (st_learnings st') = [1, 2]" by (rule first_stage_reply)
  have "map l_id (st_learnings governed_store) = [1]" by code_simp
  then have "st_learnings st' \<noteq> st_learnings governed_store" using run(2) by auto
  from unattended_acceptance_is_earned[OF governed_store_ok run(1) this] run(1) show ?thesis by blast
qed

lemma staging_adds_one_row_witness:
  "\<exists>reply es st' c. stage_stamped sample_gov sample_author learn_params (PInt 9) 5 governed_store = StageReply reply es st'
    \<and> st_candidates st' = st_candidates governed_store @ [c] \<and> cp_principal c = ''codex''"
proof -
  obtain reply es st' where run: "stage_stamped sample_gov sample_author learn_params (PInt 9) 5 governed_store = StageReply reply es st'"
    "es \<noteq> []" by (rule first_stage_reply)
  from staging_adds_one_row[OF governed_store_ok run(1)] run show ?thesis by (auto simp: sample_author_def)
qed

lemma staged_claims_are_clamped_witness:
  "\<exists>row. staged_row sample_gov sample_author
      [(''derived_from'', PDict [(''source'', PStr ''inbox''), (''inbox_file'', PStr ''a.json'')])] ''text'' 5 governed_store = Some row
    \<and> cp_privacy row = Some ''review''"
proof -
  let ?r = "staged_row sample_gov sample_author
      [(''derived_from'', PDict [(''source'', PStr ''inbox''), (''inbox_file'', PStr ''a.json'')])] ''text'' 5 governed_store"
  have "?r \<noteq> None" "\<not> explicitly_allowed_operator sample_gov sample_author" by code_simp+
  then obtain row where "?r = Some row" by blast
  from staged_claims_are_clamped[OF this] this \<open>\<not> explicitly_allowed_operator sample_gov sample_author\<close>
  show ?thesis by blast
qed


lemma wire_switch_refused_witness:
  "\<exists>m. stage_candidate sample_gov (Stamped sample_operator) [(''auto_accept_own'', PBool True)] (PInt 9) 5 governed_store
    = Inr (StageReply (make_error (-32004) m (PInt 9)) [] governed_store)"
  by (rule wire_switch_refused[of "''auto_accept_own''"]) (simp_all add: AUTO_ACCEPT_PARAM_KEYS_def has_key_def)

text \<open>Harvested prose, once with its lineage as text and once as an object.\<close>

definition harvest_lineage :: pydict where
  "harvest_lineage = [(''source'', PStr ''harvest'')]"

definition loading_gov :: gov_env where
  "loading_gov = sample_gov\<lparr>ge_loads := (\<lambda>_. Some (PDict harvest_lineage))\<rparr>"

lemma text_lineage_escapes_gate_witness:
  "staged_lineage loading_gov [(''derived_from'', PStr ''{}'')]
      = staged_lineage loading_gov [(''derived_from'', PDict harvest_lineage)]
    \<and> withheld_reasons loading_gov [(''derived_from'', PStr ''{}'')] ''blue is a colour'' = []
    \<and> withheld_reasons loading_gov [(''derived_from'', PDict harvest_lineage)] ''blue is a colour'' = [''non_durable:ordinary'']"
proof -
  have blank: "py_strip ''{}'' \<noteq> []" by code_simp
  have "staged_lineage loading_gov [(''derived_from'', PStr ''{}'')]
      = staged_lineage loading_gov (AList.update ''derived_from'' (PDict harvest_lineage) [(''derived_from'', PStr ''{}'')])"
    using text_lineage_escapes_gate[of "[(''derived_from'', PStr ''{}'')]" "''{}''" loading_gov harvest_lineage] blank
    by (simp add: loading_gov_def)
  moreover have "withheld_reasons loading_gov [(''derived_from'', PStr ''{}'')] ''blue is a colour'' = []" by code_simp
  moreover have "withheld_reasons loading_gov [(''derived_from'', PDict harvest_lineage)] ''blue is a colour'' = [''non_durable:ordinary'']"
    by code_simp
  ultimately show ?thesis by simp
qed

end
