(* ===== verification/Learn_Properties.thy ===== *)
theory Learn_Properties
  imports Learn_Handlers Staging_Properties
begin

text \<open>
  What the direct writers promise: forced learning is for operators, contradictions shown to a caller are its own,
  superseding needs ownership and leaves one event per replaced learning, subscribers hear only of what they have
  read, and the schema's constraints hold throughout.
\<close>

section \<open>The forced write keeps the constraints\<close>





lemma forced_row_fields:
  "l_id (forced_row g a cat content c now st) = st_next_learning st" "l_agent (forced_row g a cat content c now st) = a"
  "l_content (forced_row g a cat content c now st) = content" "l_successor (forced_row g a cat content c now st) = None"
  "l_contradicts (forced_row g a cat content c now st) = c" "l_status (forced_row g a cat content c now st) = Some ''active''"
  by (simp_all add: forced_row_def new_learning_def)

lemma insert_row_ok:
  assumes "store_ok st" "l_id l = st_next_learning st" "l_successor l = None"
    "set_option (l_contradicts l) \<subseteq> l_id ` set (st_learnings st) \<union> {l_id l}"
  shows "store_ok (insert_learning l st)"
proof -
  have "learnings_ok (st_learnings st @ [l]) (st_next_learning st + 1)"
    using assms unfolding store_ok_def learnings_ok_def by fastforce
  then show ?thesis using assms(1) by (auto simp: store_ok_def insert_learning_def elim: joins_ok_mono)
qed




lemma kept_by_filter: "y \<in> set (List.map_filter f xs) \<Longrightarrow> \<exists>x\<in>set xs. f x = Some y"
  by (induction xs) (auto simp: List.map_filter_simps split: option.splits)

lemma detected_tables:
  assumes "detect_contradictions g dt v a now st = (cs, st')"
  shows "st' = st\<lparr>st_detected := st_detected st @ map (\<lambda>c. (cd_id c, now)) cs\<rparr>"
  using assms by (auto simp: detect_contradictions_def Let_def split: option.splits)


section \<open>The ways a learn ends\<close>

lemma learn_cases:
  assumes "learn_stamped g dt p params i now content st = e"
  obtains (refused) c m d where "e = LearnReply (make_error c m i) [] (st\<lparr>st_detected := st_detected st @ d\<rparr>)"
  | (contradicted) cs where "e = LearnContradicted cs (st\<lparr>st_detected := st_detected st @ map (\<lambda>c. (cd_id c, now)) cs\<rparr>)"
      "cs \<noteq> []" "detect_contradictions g dt (py_or (dget params ''assertion'') (PStr (extract_assertion content))) (ep_agent_id p) now st
        = (cs, st\<lparr>st_detected := st_detected st @ map (\<lambda>c. (cd_id c, now)) cs\<rparr>)" "\<not> isl (validate_agent_id (ep_agent_id p))"
  | (staged) "\<not> truthy (dget params ''force'')" "e = of_stage (stage_stamped g p params i now st)"
  | (forced) f where "truthy (dget params ''force'')" "is_operator_principal p"
      "f = forced_learn g (ep_agent_id p) (py_lower (py_strip (py_str (py_or (dget params ''category'') (PStr ''general''))))) content params now st"
      "case f of ForcedFailed st2 \<Rightarrow> e = LearnReply (make_error (-32000) ''Learn error: constraint failed'' i) [] (rollback st st2)
         | ForcedDuplicate lid cat st2 \<Rightarrow> (\<exists>reply. e = LearnReply reply [] st2)
         | ForcedWritten lid purges st2 \<Rightarrow> (\<exists>reply es. e = LearnReply reply es st2)"
proof (cases "isl (validate_agent_id (ep_agent_id p))")
  case True
  then show thesis using assms refused[of _ _ "[]"] by (auto simp: learn_stamped_def)
next
  case False
  note run = assms[unfolded learn_stamped_def learn_text_def Let_def, simplified False if_False]
  let ?gate = "\<not> truthy (dget params ''force'') \<and> dget params ''contradicts_id'' = PNone"
  let ?v = "py_or (dget params ''assertion'') (PStr (extract_assertion content))"
  obtain cs st1 where found: "(if ?gate then detect_contradictions g dt ?v (ep_agent_id p) now st else ([], st)) = (cs, st1)"
    by fastforce
  have st1: "st1 = st\<lparr>st_detected := st_detected st @ map (\<lambda>c. (cd_id c, now)) cs\<rparr>"
    using found detected_tables[of g dt ?v "ep_agent_id p" now st cs st1] by (auto split: if_splits)
  show thesis
  proof (cases "cs = []")
    case some: False
    then have "?gate" using found by (auto split: if_splits)
    then show thesis using run found st1 False some that(2)[of cs] by auto
  next
    case none: True
    then have same: "st1 = st" using st1 by simp
    note run1 = run[unfolded found prod.case none same]
    show thesis
    proof (cases "truthy (dget params ''force'')")
      case False
      then show thesis using run1 staged by simp
    next
      case True
      show thesis
      proof (cases "is_operator_principal p")
        case False
        then show thesis using run1 True refused[of _ _ "[]"] by auto
      next
        case op: True
        then show thesis using run1 True by (intro forced[OF True op refl]) (auto split: forced_end.splits)
      qed
    qed
  qed
qed


section \<open>The properties of learning\<close>

lemma forced_duplicate_rows:
  "forced_learn g a cat content params now st = ForcedDuplicate lid c st' \<Longrightarrow> st' = backfill_hash g lid (content_hash (ge_sha1 g) content) st"
  by (auto simp: forced_learn_def forced_insert_def Let_def split: option.splits if_splits prod.splits)

lemma backfill_ids: "map l_content (st_learnings (backfill_hash g lid h st)) = map l_content (st_learnings st)"
  by (simp add: backfill_hash_def comp_def if_distrib cong: if_cong)


text \<open>C16: What a learn shows of contradicting memories is the caller's own: each is a live learning of its principal with an
  embedding more similar than the threshold, best first.  Memory and candidates are left alone, but every one shown
  is recorded in the log of contradictions, although the handler's documentation says that nothing is written.\<close>

theorem contradictions_stay_private:
  assumes "learn_stamped g dt p params i now content st = LearnContradicted cs st'"
  shows "cs \<noteq> [] \<and> sorted (map (\<lambda>c. - cd_score c) cs)
    \<and> (\<forall>c\<in>set cs. \<exists>l\<in>set (st_learnings st). cd_id c = l_id l \<and> cd_content c = l_content l \<and> l_agent l = ep_agent_id p
         \<and> ACTIVE_LEARNING_SQL l)
    \<and> st' = st\<lparr>st_detected := st_detected st @ map (\<lambda>c. (cd_id c, now)) cs\<rparr>"
  using assms
proof (cases rule: learn_cases)
  case (contradicted cs')
  then have cs: "cs' = cs" "st' = st\<lparr>st_detected := st_detected st @ map (\<lambda>c. (cd_id c, now)) cs\<rparr>" by simp_all
  have agent: "ep_agent_id p \<noteq> []" using contradicted(4) by (auto simp: validate_agent_id_def)
  obtain query where found: "cs = sort_key (\<lambda>c. - cd_score c) (List.map_filter (contradiction_of dt query)
      (filter (\<lambda>l. ACTIVE_LEARNING_SQL l \<and> l_embedding l \<noteq> None \<and> (ep_agent_id p = [] \<or> l_agent l = ep_agent_id p)) (st_learnings st)))"
    using contradicted(2,3) cs(1) by (auto simp: detect_contradictions_def Let_def split: option.splits)
  have "\<exists>l\<in>set (st_learnings st). cd_id c = l_id l \<and> cd_content c = l_content l \<and> l_agent l = ep_agent_id p \<and> ACTIVE_LEARNING_SQL l"
    if "c \<in> set cs" for c
  proof -
    from that obtain l where l: "l \<in> set (st_learnings st)" "ACTIVE_LEARNING_SQL l" "l_agent l = ep_agent_id p"
      "contradiction_of dt query l = Some c"
      using agent unfolding found set_sort by (auto dest!: kept_by_filter)
    then have "cd_id c = l_id l" "cd_content c = l_content l"
      by (auto simp: contradiction_of_def split: option.splits if_splits)
    then show ?thesis using l by blast
  qed
  then show ?thesis using contradicted(2) cs by (simp add: found)
next
  case staged
  then show ?thesis by (auto simp: of_stage_def split: stage_end.splits)
next
  case (forced f)
  then show ?thesis by (auto split: forced_end.splits)
qed simp

definition STAGE_KEYS :: "string set" where
  "STAGE_KEYS = {''content'', ''text'', ''workspace_id'', ''layer'', ''evidence_refs'', ''evidence_doc_ids'', ''derived_from'', ''source'',
     ''origin'', ''category'', ''privacy_level'', ''instruction_like''}"

lemma stage_ignores_key:
  assumes "k \<notin> STAGE_KEYS"
  shows "stage_stamped g p (AList.delete k params) i now st = stage_stamped g p params i now st"
proof -
  let ?d = "AList.delete k params"
  have get: "dget ?d k' = dget params k'" "has_key ?d k' = has_key params k'" if "k' \<in> STAGE_KEYS" for k'
    using that assms by (auto simp: dget_delete_key has_key_delete)
  note same = get[unfolded STAGE_KEYS_def]
  have keys: "dget ?d ''content'' = dget params ''content''" "dget ?d ''text'' = dget params ''text''" "dget ?d ''workspace_id'' = dget params ''workspace_id''" "dget ?d ''layer'' = dget params ''layer''" 
    "dget ?d ''evidence_refs'' = dget params ''evidence_refs''" "dget ?d ''evidence_doc_ids'' = dget params ''evidence_doc_ids''" "dget ?d ''derived_from'' = dget params ''derived_from''" "dget ?d ''source'' = dget params ''source''" 
    "dget ?d ''origin'' = dget params ''origin''" "dget ?d ''category'' = dget params ''category''" "dget ?d ''privacy_level'' = dget params ''privacy_level''" "dget ?d ''instruction_like'' = dget params ''instruction_like''"
    "has_key ?d ''privacy_level'' = has_key params ''privacy_level''"
    by (simp_all add: same)
  have parts: "declared ?d ''source'' = declared params ''source''" "declared ?d ''origin'' = declared params ''origin''"
    "staged_category ?d = staged_category params" "requested_privacy g ?d c = requested_privacy g params c"
    "staged_flag ?d c = staged_flag params c" for c
    unfolding declared_def staged_category_def requested_privacy_def staged_flag_def keys by (rule refl)+
  have lineage: "staged_lineage g ?d = staged_lineage g params" unfolding staged_lineage_def parts keys by (rule refl)
  have row: "staged_row g p ?d c now st = staged_row g p params c now st" for c
    unfolding staged_row_def parts keys lineage by (rule refl)
  have reasons: "withheld_reasons g ?d c = withheld_reasons g params c" for c unfolding withheld_reasons_def parts by (rule refl)
  show ?thesis unfolding stage_stamped_def row keys reasons by (rule refl)
qed

text \<open>Without force, naming the contradicted learning only switches the detection off: the request is staged exactly
  as if it had not named any, so the contradiction is recorded nowhere.\<close>

theorem contradicts_id_is_dropped:
  assumes "\<not> truthy (dget params ''force'')" and "dget params ''contradicts_id'' \<noteq> PNone"
    and "\<not> isl (validate_agent_id (ep_agent_id p))"
  shows "learn_stamped g dt p params i now content st = of_stage (stage_stamped g p (AList.delete ''contradicts_id'' params) i now st)"
  using assms by (simp add: learn_stamped_def learn_text_def stage_ignores_key STAGE_KEYS_def)

section \<open>Corrections\<close>

lemma check_superseded_ok:
  "check_superseded g p i st ids = Inr docs \<Longrightarrow> sid \<in> set ids \<Longrightarrow>
    \<exists>l\<in>set (st_learnings st). l_id l = sid \<and> (l_agent l = ep_agent_id p \<or> explicitly_allowed_operator g p)"
proof (induction ids arbitrary: docs)
  case (Cons a ids)
  then show ?case using learning_row_some[of st a] by (auto split: option.splits if_splits sum.splits)
qed simp

lemma check_superseded_error: "check_superseded g p i st ids = Inl err \<Longrightarrow> \<exists>c m. err = make_error c m i"
  by (induction ids) (auto split: option.splits if_splits sum.splits)

definition corrected_row :: "int \<Rightarrow> int set \<Rightarrow> learning \<Rightarrow> learning" where
  "corrected_row lid ids l = (if l_id l \<in> ids then l\<lparr>l_successor := Some lid, l_status := Some ''superseded''\<rparr> else l)"

lemma corrected_twice: "corrected_row lid js (corrected_row lid is l) = corrected_row lid (is \<union> js) l"
  by (simp add: corrected_row_def)

lemma supersede_all:
  "\<exists>evs n. foldl (supersede_with lid a now) st ids = st\<lparr>st_learnings := map (corrected_row lid (set ids)) (st_learnings st),
     st_events := st_events st @ evs, st_next_event := n\<rparr>
    \<and> map ce_superseded evs = ids \<and> (\<forall>e\<in>set evs. ce_new e = lid \<and> ce_agent e = a \<and> ce_created e = now)"
proof (induction ids arbitrary: st)
  case Nil
  have "map (corrected_row lid {}) ls = ls" for ls by (simp add: corrected_row_def[abs_def])
  then show ?case by (intro exI[of _ "[]"] exI[of _ "st_next_event st"]) simp
next
  case (Cons sid ids)
  let ?e = "\<lparr>ce_id = st_next_event st, ce_superseded = sid, ce_new = lid, ce_agent = a, ce_created = now\<rparr>"
  have step: "supersede_with lid a now st sid = st\<lparr>st_learnings := map (corrected_row lid {sid}) (st_learnings st),
     st_events := st_events st @ [?e], st_next_event := st_next_event st + 1\<rparr>"
    by (simp add: supersede_with_def corrected_row_def[abs_def])
  obtain evs n where "foldl (supersede_with lid a now) (supersede_with lid a now st sid) ids
      = (supersede_with lid a now st sid)\<lparr>st_learnings := map (corrected_row lid (set ids)) (st_learnings (supersede_with lid a now st sid)),
          st_events := st_events (supersede_with lid a now st sid) @ evs, st_next_event := n\<rparr>"
    "map ce_superseded evs = ids" "\<forall>e\<in>set evs. ce_new e = lid \<and> ce_agent e = a \<and> ce_created e = now"
    using Cons by blast
  then show ?case by (intro exI[of _ "?e # evs"] exI[of _ n]) (simp add: step corrected_twice comp_def)
qed

lemma corrected_ok:
  assumes "store_ok st" and "lid \<in> l_id ` set (st_learnings st)"
  shows "store_ok (st\<lparr>st_learnings := map (corrected_row lid is) (st_learnings st), st_events := evs, st_next_event := n\<rparr>)"
proof -
  have img: "l_id ` set (map (corrected_row lid is) (st_learnings st)) = l_id ` set (st_learnings st)"
    "map l_id (map (corrected_row lid is) (st_learnings st)) = map l_id (st_learnings st)"
    by (rule map_keeps_keys, simp add: corrected_row_def)+
  have "learnings_ok (map (corrected_row lid is) (st_learnings st)) (st_next_learning st)"
    using assms unfolding store_ok_def learnings_ok_def img by (auto simp: corrected_row_def)
  then show ?thesis using assms(1) img by (simp add: store_ok_def del: set_map map_map)
qed

lemma correction_cases:
  assumes "resolve_contradiction_stamped g p params i new_content sids now st = e"
  obtains (refused) c m where "e = LearnReply (make_error c m i) [] st"
  | (written) reply es docs cat where "e = LearnReply reply es (foldl (supersede_with (st_next_learning st) (ep_agent_id p) now)
        (insert_learning (forced_row g (ep_agent_id p) cat new_content None now st) st) (unique sids))"
      "check_superseded g p i st (unique sids) = Inr docs" "length (unique sids) \<le> MAX_SUPERSEDE_IDS"
      "is_instruction_like new_content \<longrightarrow> explicitly_allowed_accept_flagged p"
proof (cases "isl (validate_agent_id (ep_agent_id p)) \<or> MAX_LEARN_CHARS < int (length new_content)
    \<or> is_instruction_like new_content \<and> \<not> explicitly_allowed_accept_flagged p \<or> MAX_SUPERSEDE_IDS < length (unique sids)")
  case True
  then show thesis using assms refused by (auto simp: resolve_contradiction_stamped_def Let_def split: if_splits)
next
  case False
  then have run: "correct_memory g p params i new_content (unique sids) now st = e"
    using assms by (auto simp: resolve_contradiction_stamped_def Let_def)
  show thesis
  proof (cases "check_superseded g p i st (unique sids)")
    case (Inl err)
    then show thesis using run refused check_superseded_error[OF Inl] by (auto simp: correct_memory_def Let_def)
  next
    case (Inr docs)
    show thesis
    proof (cases "list_all (\<lambda>k. bindable (dget params k)) [''assertion'', ''applies_when'', ''confidence'']")
      case False
      then show thesis using run Inr refused unfolding correct_memory_def Let_def Inr sum.case by auto
    next
      case True
      then show thesis using run False Inr written
        unfolding correct_memory_def Let_def Inr sum.case by (auto simp: forced_row_fields)
    qed
  qed
qed

text \<open>C12: A correction is all or nothing.  Either it is refused and nothing has changed, or every named learning, the
  caller's own unless an operator asks, is superseded by the one new learning, with exactly one event for each in the
  order of the request; all other learnings stay as they were, and a text that reads like an instruction has needed
  the literal capability.\<close>

theorem corrections_are_atomic:
  assumes ok: "store_ok st" and run: "resolve_contradiction_stamped g p params i new_content sids now st = LearnReply reply es st'"
  shows "st' = st \<or>
    (\<exists>l evs. st_learnings st' = map (corrected_row (l_id l) (set sids)) (st_learnings st) @ [l]
      \<and> l_agent l = ep_agent_id p \<and> l_content l = new_content \<and> recallable l
      \<and> st_events st' = st_events st @ evs \<and> map ce_superseded evs = unique sids
      \<and> (\<forall>e\<in>set evs. ce_new e = l_id l \<and> ce_agent e = ep_agent_id p)
      \<and> (\<forall>sid\<in>set sids. \<exists>k\<in>set (st_learnings st). l_id k = sid \<and> (l_agent k = ep_agent_id p \<or> explicitly_allowed_operator g p))
      \<and> (is_instruction_like new_content \<longrightarrow> explicitly_allowed_accept_flagged p) \<and> store_ok st')"
  using run
proof (cases rule: correction_cases)
  case (refused c m)
  then show ?thesis by simp
next
  case (written reply' es' docs cat)
  define l where "l = forced_row g (ep_agent_id p) cat new_content None now st"
  have lrow: "l_id l = st_next_learning st" "l_agent l = ep_agent_id p" "l_content l = new_content" "recallable l"
    "l_successor l = None" "l_contradicts l = None"
    by (simp_all add: l_def forced_row_fields recallable_def)
  obtain evs n where all: "foldl (supersede_with (l_id l) (ep_agent_id p) now) (insert_learning l st) (unique sids)
      = (insert_learning l st)\<lparr>st_learnings := map (corrected_row (l_id l) (set (unique sids))) (st_learnings (insert_learning l st)),
          st_events := st_events (insert_learning l st) @ evs, st_next_event := n\<rparr>"
    and evs: "map ce_superseded evs = unique sids" "\<forall>e\<in>set evs. ce_new e = l_id l \<and> ce_agent e = ep_agent_id p \<and> ce_created e = now"
    using supersede_all by blast
  have st': "st' = (insert_learning l st)\<lparr>st_learnings := map (corrected_row (l_id l) (set (unique sids))) (st_learnings (insert_learning l st)),
          st_events := st_events (insert_learning l st) @ evs, st_next_event := n\<rparr>"
    using written(1) all by (simp add: l_def forced_row_fields)
  have owned: "\<exists>k\<in>set (st_learnings st). l_id k = sid \<and> (l_agent k = ep_agent_id p \<or> explicitly_allowed_operator g p)"
    if "sid \<in> set sids" for sid
    using check_superseded_ok[OF written(2)] that by simp
  have "l_id l \<notin> set sids"
  proof
    assume "l_id l \<in> set sids"
    then obtain k where "k \<in> set (st_learnings st)" "l_id k = st_next_learning st" using owned lrow(1) by metis
    then show False using ok unfolding store_ok_def learnings_ok_def by fastforce
  qed
  then have new: "corrected_row (l_id l) (set sids) l = l" by (simp add: corrected_row_def)
  have "store_ok (insert_learning l st)" using lrow by (intro insert_row_ok ok) simp_all
  then have "store_ok st'" unfolding st' by (intro corrected_ok) (simp_all add: insert_learning_def)
  moreover have "st_learnings st' = map (corrected_row (l_id l) (set sids)) (st_learnings st) @ [l]"
    "st_events st' = st_events st @ evs" by (simp_all add: st' insert_learning_def new)
  ultimately show ?thesis using lrow evs owned written(4) by (intro disjI2 exI[of _ l] exI[of _ evs]) blast
qed

section \<open>Subscriptions\<close>

lemma filter_length_mono: "(\<And>x. x \<in> set xs \<Longrightarrow> P x \<Longrightarrow> Q x) \<Longrightarrow> length (filter P xs) \<le> length (filter Q xs)"
  by (induction xs) (auto simp: le_SucI)

text \<open>C38: A subscriber hears only of learnings it has read itself: every event in the answer supersedes a learning among the
  reads of its own agent, lies in the window, which never reaches back more than 365 days, and they come in the order
  of time; the counts beside them are of its own reads too.\<close>

theorem subscribers_hear_what_they_read:
  assumes "subscribe_stamped from_text p params i now st = Subscribed a s"
  shows "a = ep_agent_id p \<and> now - 365 * 86400 \<le> sb_event_since s
    \<and> set (sb_events s) \<subseteq> set (st_events st) \<and> sorted (map ce_created (sb_events s))
    \<and> (\<forall>e\<in>set (sb_events s). sb_event_since s \<le> ce_created e
         \<and> (\<exists>r\<in>set (st_reads st). lr_agent r = a \<and> lr_learning r = ce_superseded e))
    \<and> length (sb_events s) \<le> sb_event_count s"
proof -
  obtain since hours d where a: "a = ep_agent_id p" and s': "s = subscribe_window a since hours (min (max d 0) 365) now st"
    using assms by (auto simp: subscribe_stamped_def Let_def split: if_splits option.splits)
  define days where "days = min (max d 0) 365"
  have days: "days \<le> 365" and s: "s = subscribe_window a since hours days now st" by (simp_all add: s' days_def)
  define t where "t = max since (now - days * 86400)"
  define h where "h = map_option (\<lambda>h. now - h * 3600) hours"
  have fields: "sb_events s = events_for a t h st" "sb_event_since s = t" "sb_event_count s = length (filter (\<lambda>e. t \<le> ce_created e
      \<and> ce_superseded e \<in> lr_learning ` set (reads_of a st)) (st_events st))"
    by (simp_all add: s subscribe_window_def Let_def t_def h_def)
  have "now - 365 * 86400 \<le> t" using days by (auto simp: t_def max_def)
  moreover have "set (events_for a t h st) \<subseteq> set (st_events st)" "sorted (map ce_created (events_for a t h st))"
    "e \<in> set (events_for a t h st) \<Longrightarrow> t \<le> ce_created e \<and> (\<exists>r\<in>set (st_reads st). lr_agent r = a \<and> lr_learning r = ce_superseded e)"
    for t h e by (auto simp: events_for_def reads_of_def list_ex_iff)
  moreover have "length (events_for a t h st) \<le> length (filter (\<lambda>e. t \<le> ce_created e
      \<and> ce_superseded e \<in> lr_learning ` set (reads_of a st)) (st_events st))" for t h
    unfolding events_for_def length_sort
    by (rule filter_length_mono) (auto simp: list_ex_iff intro: image_eqI[OF sym])
  ultimately show ?thesis using a unfolding fields by blast
qed

section \<open>The properties on a small store\<close>


definition near_detector :: detector where
  "near_detector = \<lparr>dt_dot = (\<lambda>_ _. Some 1), dt_threshold = 1 / 2\<rparr>"


definition embedded_store :: store where
  "embedded_store = governed_store\<lparr>st_learnings := [(sample_learning 1 ''use rebase'' None None)\<lparr>l_embedding := Some ''e''\<rparr>]\<rparr>"

fun learn_store :: "learn_end \<Rightarrow> store option" where
  "learn_store (LearnReply reply es st) = Some st"
| "learn_store (LearnContradicted cs st) = Some st"
| "learn_store _ = None"

fun learn_reply :: "learn_end \<Rightarrow> bool" where
  "learn_reply (LearnReply reply es st) = True"
| "learn_reply _ = False"

lemma reply_of_learn:
  assumes "learn_reply e"
  obtains reply es st where "e = LearnReply reply es st" "learn_store e = Some st"
  using assms by (cases e) auto


lemma contradictions_stay_private_witness:
  "\<exists>cs st'. learn_stamped sample_gov near_detector sample_operator learn_params (PInt 9) 5 ''Never push to main'' embedded_store
      = LearnContradicted cs st' \<and> cs \<noteq> [] \<and> st_learnings st' = st_learnings embedded_store"
proof -
  let ?e = "learn_stamped sample_gov near_detector sample_operator learn_params (PInt 9) 5 ''Never push to main'' embedded_store"
  have "\<not> learn_reply ?e" "learn_store ?e \<noteq> None" by code_simp+
  then obtain cs st' where e: "?e = LearnContradicted cs st'" by (cases ?e) auto
  from contradictions_stay_private[OF this] show ?thesis using e by auto
qed

lemma contradicts_id_is_dropped_witness:
  "learn_stamped sample_gov near_detector sample_operator ((''contradicts_id'', PInt 1) # learn_params) (PInt 9) 5 ''Never push to main'' embedded_store
    = of_stage (stage_stamped sample_gov sample_operator learn_params (PInt 9) 5 embedded_store)"
proof -
  let ?p = "(''contradicts_id'', PInt 1) # learn_params"
  have "\<not> truthy (dget ?p ''force'')" "dget ?p ''contradicts_id'' \<noteq> PNone" "\<not> isl (validate_agent_id (ep_agent_id sample_operator))"
    "AList.delete ''contradicts_id'' ?p = learn_params" by code_simp+
  then show ?thesis using contradicts_id_is_dropped[of ?p sample_operator] by simp
qed

lemma corrections_are_atomic_witness:
  "\<exists>reply es st'. resolve_contradiction_stamped sample_gov sample_operator learn_params (PInt 9) ''rebase first'' [1, 1] 5 governed_store
      = LearnReply reply es st' \<and> map ce_superseded (st_events st') = [1] \<and> store_ok st'"
proof -
  let ?e = "resolve_contradiction_stamped sample_gov sample_operator learn_params (PInt 9) ''rebase first'' [1, 1] 5 governed_store"
  have run: "learn_reply ?e" and rows: "map_option (\<lambda>st. map l_id (st_learnings st)) (learn_store ?e)
      \<noteq> Some (map l_id (st_learnings governed_store))" and one: "unique [1, 1] = [1::int]" "st_events governed_store = []" by code_simp+
  obtain reply es st' where e: "?e = LearnReply reply es st'" "learn_store ?e = Some st'" using reply_of_learn[OF run] .
  have "st' \<noteq> governed_store" using rows e(2) by auto
  with corrections_are_atomic[OF governed_store_ok e(1)] e(1) one show ?thesis by auto
qed

lemma subscribers_hear_what_they_read_witness:
  "\<exists>s. subscribe_stamped (\<lambda>_. None) sample_operator [] (PInt 9) 9
      (governed_store\<lparr>st_reads := [\<lparr>lr_learning = 1, lr_agent = ''codex'', lr_at = 3\<rparr>, \<lparr>lr_learning = 4, lr_agent = ''x'', lr_at = 3\<rparr>],
         st_events := [\<lparr>ce_id = 1, ce_superseded = 1, ce_new = 5, ce_agent = ''x'', ce_created = 6\<rparr>,
            \<lparr>ce_id = 2, ce_superseded = 4, ce_new = 5, ce_agent = ''x'', ce_created = 6\<rparr>]\<rparr>) = Subscribed ''codex'' s
    \<and> length (sb_events s) \<le> sb_event_count s \<and> sorted (map ce_created (sb_events s))"
proof -
  let ?st = "governed_store\<lparr>st_reads := [\<lparr>lr_learning = 1, lr_agent = ''codex'', lr_at = 3\<rparr>, \<lparr>lr_learning = 4, lr_agent = ''x'', lr_at = 3\<rparr>],
         st_events := [\<lparr>ce_id = 1, ce_superseded = 1, ce_new = 5, ce_agent = ''x'', ce_created = 6\<rparr>,
            \<lparr>ce_id = 2, ce_superseded = 4, ce_new = 5, ce_agent = ''x'', ce_created = 6\<rparr>]\<rparr>"
  obtain s where s: "subscribe_stamped (\<lambda>_. None) sample_operator [] (PInt 9) 9 ?st = Subscribed ''codex'' s"
    by (simp add: subscribe_stamped_def sample_operator_def dget_def dget_or_def py_or_def py_float_def float_overflows_def Let_def)
  from subscribers_hear_what_they_read[OF this] s show ?thesis by blast
qed

end
