(* ===== verification/Row_Pass.thy ===== *)
theory Row_Pass
  imports Main
begin

text \<open>
  Loops over rows whose body can raise: \<open>pass\<close> runs a step over a list and stops at the first exception (\<open>None\<close>).
  The locale \<open>row_pass\<close> is the contract of such a step, an invariant it keeps on the rows in question; the facts
  about whole passes are proved here once.
\<close>

fun pass :: "('r \<Rightarrow> 's \<Rightarrow> 's option) \<Rightarrow> 'r list \<Rightarrow> 's \<Rightarrow> 's option" where
  "pass step [] s = Some s"
| "pass step (r # rs) s = (case step r s of None \<Rightarrow> None | Some s' \<Rightarrow> pass step rs s')"

lemma pass_append: "pass step (rs @ qs) s = Option.bind (pass step rs s) (pass step qs)"
  by (induction rs arbitrary: s) (auto split: option.splits)

lemma pass_total: "pass (\<lambda>r s. Some (f r s)) rs s = Some (fold f rs s)"
  by (induction rs arbitrary: s) simp_all

lemma pass_cong:
  "(\<And>r s. r \<in> set rs \<Longrightarrow> step r s = step' r s) \<Longrightarrow> pass step rs s = pass step' rs s"
  by (induction rs arbitrary: s) (auto split: option.splits)

locale row_pass =
  fixes step :: "'r \<Rightarrow> 's \<Rightarrow> 's option"
    and row_ok :: "'r \<Rightarrow> bool"
    and inv :: "'s \<Rightarrow> bool"
  assumes keeps: "row_ok r \<Longrightarrow> inv s \<Longrightarrow> step r s = Some s' \<Longrightarrow> inv s'"
begin

lemma pass_keeps:
  "list_all row_ok rs \<Longrightarrow> inv s \<Longrightarrow> pass step rs s = Some s' \<Longrightarrow> inv s'"
proof (induction rs arbitrary: s)
  case (Cons r rs)
  then show ?case using keeps by (auto split: option.splits)
qed simp

lemma pass_takes:
  assumes "list_all row_ok rs" and "inv s" and "pass step rs s = Some s'" and "r \<in> set rs"
  shows "\<exists>t t'. inv t \<and> step r t = Some t' \<and> inv t'"
  using assms
proof (induction rs arbitrary: s)
  case (Cons q rs)
  then obtain t where t: "step q s = Some t" "pass step rs t = Some s'" by (auto split: option.splits)
  moreover have "inv t" using Cons.prems(1,2) keeps[OF _ _ t(1)] by simp
  ultimately show ?case using Cons by auto
qed simp

end

end
