(* ===== verification/Use_Ledger.thy ===== *)
theory Use_Ledger
  imports Py_Regex Row_Pass
begin

text \<open>
  The use ledger of \<open>decay.py\<close>: JSON lines in several formats say which memories were shown to an agent and which it
  used; \<open>aggregate_use_ledger\<close> counts them per key, and two look-ups find the counts of a learning and of a document.

  A ledger file is its stem, which is the session of lines that name none, and its text (\<open>None\<close> when it cannot be
  read).  The search for the files and \<open>json.loads\<close> are parameters.  Only the number of sessions matters, so a set of
  sessions is a list without repetitions.  \<open>None\<close> is an exception, which none of these functions catches.
\<close>

definition DEMOTE_MIN_SURFACES :: int where "DEMOTE_MIN_SURFACES = 15"
definition DEMOTE_MIN_SESSIONS :: nat where "DEMOTE_MIN_SESSIONS = 5"
definition EVICT_MIN_SURFACES :: int where "EVICT_MIN_SURFACES = 25"
definition EVICT_MIN_SESSIONS :: nat where "EVICT_MIN_SESSIONS = 8"

section \<open>Counts\<close>

record ledger_stats =
  us_surfaces :: int
  us_uses :: int
  us_sessions :: "string list"

type_synonym ledger = "(string \<times> ledger_stats) list"

definition no_use :: ledger_stats where
  "no_use = \<lparr>us_surfaces = 0, us_uses = 0, us_sessions = []\<rparr>"

definition should_evict :: "ledger_stats \<Rightarrow> bool" where
  "should_evict u \<longleftrightarrow> us_uses u = 0 \<and> EVICT_MIN_SURFACES \<le> us_surfaces u \<and> EVICT_MIN_SESSIONS \<le> length (us_sessions u)"

definition should_demote :: "ledger_stats \<Rightarrow> bool" where
  "should_demote u \<longleftrightarrow> us_uses u = 0 \<and> DEMOTE_MIN_SURFACES \<le> us_surfaces u \<and> DEMOTE_MIN_SESSIONS \<le> length (us_sessions u)
     \<and> \<not> should_evict u"

definition stats_of :: "ledger \<Rightarrow> string \<Rightarrow> ledger_stats" where
  "stats_of m k = (case map_of m k of None \<Rightarrow> no_use | Some u \<Rightarrow> u)"

definition touch :: "(ledger_stats \<Rightarrow> ledger_stats) \<Rightarrow> string \<Rightarrow> ledger \<Rightarrow> ledger" where
  "touch f k m = AList.update k (f (stats_of m k)) m"

definition touch_all :: "(ledger_stats \<Rightarrow> ledger_stats) \<Rightarrow> string list \<Rightarrow> ledger \<Rightarrow> ledger" where
  "touch_all f ks m = fold (touch f) ks m"

definition in_session :: "string \<Rightarrow> ledger_stats \<Rightarrow> ledger_stats" where
  "in_session sid u = u\<lparr>us_sessions := List.insert sid (us_sessions u)\<rparr>"

definition surfaced :: "int \<Rightarrow> string \<Rightarrow> ledger_stats \<Rightarrow> ledger_stats" where
  "surfaced n sid u = in_session sid (u\<lparr>us_surfaces := us_surfaces u + n\<rparr>)"

definition used :: "int \<Rightarrow> string \<Rightarrow> ledger_stats \<Rightarrow> ledger_stats" where
  "used n sid u = in_session sid (u\<lparr>us_uses := us_uses u + n\<rparr>)"

section \<open>Keys\<close>

text \<open>\<open>os.path.basename\<close> and \<open>str.isdigit\<close> of a Latin-1 text.\<close>

definition py_basename :: "string \<Rightarrow> string" where
  "py_basename s = rev (takeWhile (\<lambda>c. c \<noteq> CHR ''/'') (rev s))"

definition py_isdigit :: "string \<Rightarrow> bool" where
  "py_isdigit s \<longleftrightarrow> s \<noteq> [] \<and> list_all (\<lambda>c. digit_class c \<or> (of_char c :: nat) \<in> {178, 179, 185}) s"

definition item_text_keys :: "string \<Rightarrow> string list" where
  "item_text_keys raw = (let s = py_strip raw in
     if s = [] then []
     else unique ([s]
       @ (if starts_with s ''learn:'' then [''learning:'' @ drop 6 s, drop 6 s]
          else if starts_with s ''learning:'' then [''learn:'' @ drop 9 s, drop 9 s]
          else if starts_with s ''doc:'' then [''doc:'' @ List.last (split_on CHR '':'' [] s), List.last (split_on CHR '':'' [] s)]
          else if py_isdigit s then [''learning:'' @ s, ''learn:'' @ s, ''doc:'' @ s] else [])
       @ (if CHR ''/'' \<in> set s \<or> ends_with s ''.md'' then [py_basename s] else [])))"

definition ITEM_FIELDS :: "string list" where
  "ITEM_FIELDS = [''id'', ''item_id'', ''learning_id'', ''doc_id'', ''path'']"

lemma size_dget: "size (dget d k) < Suc (size_list (size_prod (\<lambda>_. 0) size) d)"
proof (cases "map_of d k")
  case (Some v)
  then have "(k, v) \<in> set d" by (rule map_of_SomeD)
  then show ?thesis using Some size_dict_mem[of "(k, v)" d] by (simp add: dget_def)
qed (simp add: dget_def)

function expand_item_keys :: "pyval \<Rightarrow> string list" where
  "expand_item_keys PNone = []"
| "expand_item_keys (PDict d) = unique (concat (map (\<lambda>f. expand_item_keys (dget d f)) ITEM_FIELDS))"
| "expand_item_keys (PBool b) = item_text_keys (py_str (PBool b))"
| "expand_item_keys (PInt i) = item_text_keys (int_str i)"
| "expand_item_keys (PFloat f t) = item_text_keys (py_str (PFloat f t))"
| "expand_item_keys (PStr s) = item_text_keys s"
| "expand_item_keys (PList xs) = item_text_keys (py_str (PList xs))"
  by pat_completeness auto
termination
  by (relation "measure size") (auto simp: size_dget)

section \<open>The lines of a ledger\<close>

definition either :: "pydict \<Rightarrow> string list \<Rightarrow> pyval \<Rightarrow> pyval" where
  "either e ks dflt = foldr (\<lambda>k v. py_or (dget e k) v) ks dflt"

definition session_of :: "string \<Rightarrow> pydict \<Rightarrow> string" where
  "session_of stem e = py_str (either e [''session_key'', ''session_id'', ''sessionId'', ''sessionKey'', ''session''] (PStr stem))"

definition kind_of :: "pydict \<Rightarrow> string" where
  "kind_of e = py_lower (py_strip (py_str (either e [''kind'', ''event'', ''type'', ''action''] (PStr []))))"

definition was_used :: "pydict \<Rightarrow> bool" where
  "was_used e \<longleftrightarrow> py_lower (py_strip (py_str (py_or (dget e ''outcome'') (PStr []))))
       \<in> set [''used'', ''cited'', ''cited_handle'', ''applied'', ''opened'']
     \<or> (is_list (dget e ''credits'') \<and> list_of_val (dget e ''credits'') \<noteq> [])"

definition exposed :: "string \<Rightarrow> bool \<Rightarrow> ledger_stats \<Rightarrow> ledger_stats" where
  "exposed sid hit u = (let v = surfaced 1 sid u in if hit then v\<lparr>us_uses := us_uses v + 1\<rparr> else v)"

definition touch_items :: "(ledger_stats \<Rightarrow> ledger_stats) \<Rightarrow> pyval \<Rightarrow> ledger \<Rightarrow> ledger option" where
  "touch_items f v m = map_option (\<lambda>items. fold (\<lambda>i. touch_all f (expand_item_keys i)) items m) (iterated (py_or v (PList [])))"

definition touch_verdict :: "string \<Rightarrow> pyval \<Rightarrow> ledger \<Rightarrow> ledger" where
  "touch_verdict sid v m = (case v of
     PDict d \<Rightarrow> if truthy (dget d ''used'') then touch_all (used 1 sid) (expand_item_keys v) m else m
   | _ \<Rightarrow> m)"

text \<open>The keys of a line that is in none of the formats above.\<close>

definition plain_keys :: "pydict \<Rightarrow> string list" where
  "plain_keys e =
    (let lid = dget e ''learning_id''; did = dget e ''doc_id''; item = py_or (dget e ''item_id'') (dget e ''id'') in
     unique ((if lid = PNone then [] else [''learning:'' @ py_str lid, ''learn:'' @ py_str lid, py_str lid])
       @ (if did = PNone then [] else [''doc:'' @ py_str did, py_str did])
       @ expand_item_keys item
       @ (if truthy (dget e ''path'') then expand_item_keys (dget e ''path'') else [])))"

definition listed_sessions :: "string \<Rightarrow> string \<Rightarrow> pyval \<Rightarrow> string list" where
  "listed_sessions stem sid v = (case v of
     PList xs \<Rightarrow> map py_str xs
   | PInt n \<Rightarrow> if 0 < n then map (\<lambda>i. stem @ '':'' @ int_str i) [0..n - 1] else [sid]
   | PBool True \<Rightarrow> [stem @ '':0'']
   | _ \<Rightarrow> [sid])"

definition amount :: "pyval \<Rightarrow> int" where
  "amount v = (case v of PInt n \<Rightarrow> n | _ \<Rightarrow> 1)"

definition plain_change :: "string \<Rightarrow> string \<Rightarrow> string \<Rightarrow> pydict \<Rightarrow> (ledger_stats \<Rightarrow> ledger_stats) option" where
  "plain_change stem sid kind e =
    (if has_key e ''surfaces'' \<or> has_key e ''uses''
     then (case (py_int (py_or (dget e ''surfaces'') (PInt 0)), py_int (py_or (dget e ''uses'') (PInt 0))) of
             (Some s, Some u) \<Rightarrow> Some (\<lambda>x. fold in_session (listed_sessions stem sid (dget e ''sessions''))
                 (x\<lparr>us_surfaces := us_surfaces x + s, us_uses := us_uses x + u\<rparr>))
           | _ \<Rightarrow> None)
     else if kind \<in> {''surfaced'', ''surface'', ''shown'', ''recalled''}
     then map_option (\<lambda>n. surfaced n sid) (py_int (py_or (dget e ''count'') (PInt 1)))
     else if kind \<in> {''used'', ''use'', ''referenced'', ''cited'', ''applied''}
     then map_option (\<lambda>n. used n sid) (py_int (py_or (dget e ''count'') (PInt 1)))
     else Some (\<lambda>x. let y = (if truthy (dget e ''surfaced'') then surfaced (amount (dget e ''surfaced'')) sid x else x)
            in if truthy (dget e ''used'') then used (amount (dget e ''used'')) sid y else y))"

definition ledger_entry :: "string \<Rightarrow> pydict \<Rightarrow> ledger \<Rightarrow> ledger option" where
  "ledger_entry stem e m =
    (let sid = session_of stem e; kind = kind_of e in
     if kind = ''exposure'' \<and> truthy (dget e ''mkey'')
     then Some (touch_all (exposed sid (was_used e)) (expand_item_keys (dget e ''mkey'')) m)
     else if kind = ''exposure'' \<or> is_list (dget e ''surfaced'') \<or> is_list (dget e ''used'')
     then Option.bind (touch_items (surfaced 1 sid) (dget e ''surfaced'') m) (touch_items (used 1 sid) (dget e ''used''))
     else if is_list (dget e ''items'') then touch_items (surfaced 1 sid) (dget e ''items'') m
     else if is_list (dget e ''verdicts'') then Some (fold (touch_verdict sid) (list_of_val (dget e ''verdicts'')) m)
     else if plain_keys e = [] then Some m
     else map_option (\<lambda>f. touch_all f (plain_keys e) m) (plain_change stem sid kind e))"

definition ledger_line :: "(string \<Rightarrow> pyval option) \<Rightarrow> string \<Rightarrow> string \<Rightarrow> ledger \<Rightarrow> ledger option" where
  "ledger_line loads stem raw m = (if py_strip raw = [] then Some m
     else case loads (py_strip raw) of Some (PDict e) \<Rightarrow> ledger_entry stem e m | _ \<Rightarrow> Some m)"

definition ledger_file :: "(string \<Rightarrow> pyval option) \<Rightarrow> string \<times> string option \<Rightarrow> ledger \<Rightarrow> ledger option" where
  "ledger_file loads file m = (case file of
     (stem, None) \<Rightarrow> Some m | (stem, Some txt) \<Rightarrow> pass (ledger_line loads stem) (py_splitlines txt) m)"

definition aggregate_use_ledger :: "(string \<Rightarrow> pyval option) \<Rightarrow> (string \<times> string option) list \<Rightarrow> ledger option" where
  "aggregate_use_ledger loads files = pass (ledger_file loads) files []"

section \<open>Look-ups\<close>

definition first_known :: "ledger \<Rightarrow> string list \<Rightarrow> ledger_stats option" where
  "first_known m ks = Option.bind (find (\<lambda>k. map_of m k \<noteq> None) ks) (map_of m)"

definition learning_keys :: "int \<Rightarrow> string list" where
  "learning_keys lid = [''learning:'' @ int_str lid, ''learn:'' @ int_str lid, int_str lid]"

definition document_keys :: "int \<Rightarrow> string list" where
  "document_keys did = [''doc:'' @ int_str did, int_str did]"

definition lookup_learning_ledger_stats :: "ledger \<Rightarrow> int \<Rightarrow> int option \<Rightarrow> string \<Rightarrow> ledger_stats option" where
  "lookup_learning_ledger_stats m lid did path = first_known m
    (learning_keys lid
     @ (case did of None \<Rightarrow> [] | Some i \<Rightarrow> document_keys i)
     @ (if path = [] then [] else [path, py_basename path]))"

text \<open>The leading number of a file name, \<open>_DURABLE_FILENAME_LID_RE\<close>.\<close>

definition filename_lid :: "string \<Rightarrow> string option" where
  "filename_lid base = (case re_match (rseq [RGroup 1 digits, lit ''-'']) base of
     None \<Rightarrow> None | Some (_, caps) \<Rightarrow> captured caps 1)"

definition lookup_document_ledger_stats :: "ledger \<Rightarrow> int \<Rightarrow> string \<Rightarrow> int option \<Rightarrow> ledger_stats option" where
  "lookup_document_ledger_stats m did path lid = first_known m
    (document_keys did
     @ (case lid of None \<Rightarrow> [] | Some i \<Rightarrow> learning_keys i)
     @ (if path = [] then []
        else [path, py_basename path] @ (case filename_lid (py_basename path) of
          None \<Rightarrow> [] | Some n \<Rightarrow> [''learning:'' @ n, ''learn:'' @ n, n])))"

end
