(* ===== verification/Epoch_Times.thy ===== *)
theory Epoch_Times
  imports Py_Words Request_Deadline
begin

text \<open>
  Stored times (\<open>timestamps.py\<close>): a value of any type becomes a float epoch or is refused, and every value refused on
  the read path is counted, so that a bad row is skipped but stays visible.

  \<open>float(text)\<close> and \<open>datetime.fromisoformat\<close>, with a time without zone read as UTC, are parameters.  The outer
  \<open>None\<close> is the \<open>OverflowError\<close> of an integer beyond the range of a float.  Bytes are outside the model.
\<close>

record time_reader =
  tm_float :: "string \<Rightarrow> pyfloat option"
  tm_iso :: "string \<Rightarrow> rat option"

definition finite_only :: "pyfloat \<Rightarrow> rat option" where
  "finite_only f = (case f of Fin r \<Rightarrow> Some r | _ \<Rightarrow> None)"

definition zulu :: "string \<Rightarrow> string" where
  "zulu s = concat (map (\<lambda>c. if c = CHR ''Z'' then ''+00:00'' else [c]) s)"

definition parse_epoch :: "time_reader \<Rightarrow> pyval \<Rightarrow> rat option option" where
  "parse_epoch tm v = (case v of
     PInt i \<Rightarrow> if int_overflows i then None else Some (Some (of_int i))
   | PFloat f _ \<Rightarrow> Some (finite_only f)
   | PStr s \<Rightarrow> Some (if py_strip s = [] then None
       else case tm_float tm (py_strip s) of
         Some f \<Rightarrow> finite_only f
       | None \<Rightarrow> tm_iso tm (zulu (py_strip s)))
   | _ \<Rightarrow> Some None)"

text \<open>The write path.  A number goes through as it is; everything else is parsed or replaced by the default.\<close>

definition coerce_epoch :: "time_reader \<Rightarrow> pyval \<Rightarrow> rat option \<Rightarrow> rat option option" where
  "coerce_epoch tm v dflt = (if v = PNone then Some None
     else map_option (\<lambda>parsed. if parsed = None then dflt else parsed) (parse_epoch tm v))"

section \<open>Skipped values\<close>

definition MAX_EXAMPLES :: nat where "MAX_EXAMPLES = 10"

record malformed =
  mf_counts :: "(string \<times> nat) list"
  mf_examples :: "(string \<times> (pyval \<times> string) list) list"

definition no_malformed :: malformed where
  "no_malformed = \<lparr>mf_counts = [], mf_examples = []\<rparr>"

definition count_of :: "malformed \<Rightarrow> string \<Rightarrow> nat" where
  "count_of m k = (case map_of (mf_counts m) k of None \<Rightarrow> 0 | Some n \<Rightarrow> n)"

definition examples_of :: "malformed \<Rightarrow> string \<Rightarrow> (pyval \<times> string) list" where
  "examples_of m k = (case map_of (mf_examples m) k of None \<Rightarrow> [] | Some es \<Rightarrow> es)"

definition record_malformed :: "string \<Rightarrow> string \<Rightarrow> pyval \<Rightarrow> pyval \<Rightarrow> malformed \<Rightarrow> malformed" where
  "record_malformed source field doc_id v m =
    (let key = source @ ''.'' @ field; seen = examples_of m key in
     \<lparr>mf_counts = AList.update key (count_of m key + 1) (mf_counts m),
      mf_examples = AList.update key (if length seen < MAX_EXAMPLES then seen @ [(doc_id, cut_at 120 (py_repr v))] else seen) (mf_examples m)\<rparr>)"

definition parse_epoch_or_report ::
  "time_reader \<Rightarrow> string \<Rightarrow> string \<Rightarrow> pyval \<Rightarrow> pyval \<Rightarrow> malformed \<Rightarrow> (rat option \<times> malformed) option" where
  "parse_epoch_or_report tm source field doc_id v m = (if v = PNone then Some (None, m)
     else map_option (\<lambda>parsed. (parsed, if parsed = None then record_malformed source field doc_id v m else m)) (parse_epoch tm v))"

definition malformed_total :: "malformed \<Rightarrow> nat" where
  "malformed_total m = sum_list (map snd (mf_counts m))"

definition malformed_ok :: "malformed \<Rightarrow> bool" where
  "malformed_ok m \<longleftrightarrow> distinct (map fst (mf_counts m)) \<and> list_all (\<lambda>(k, es). length es \<le> MAX_EXAMPLES) (mf_examples m)"

definition stored_malformed_timestamp_count :: "pyval list list \<Rightarrow> nat" where
  "stored_malformed_timestamp_count rows = length (filter (list_ex (\<lambda>v. case v of
     PNone \<Rightarrow> False | PInt _ \<Rightarrow> False | PFloat _ _ \<Rightarrow> False | _ \<Rightarrow> True)) rows)"

section \<open>Every skip is counted\<close>

lemma sum_update:
  "distinct (map fst xs) \<Longrightarrow> sum_list (map snd (AList.update k (n + 1) xs)) + (case map_of xs k of None \<Rightarrow> 0 | Some c \<Rightarrow> c)
     = sum_list (map snd xs) + (n + 1 :: nat)"
proof (induction xs)
  case (Cons x xs)
  then show ?case by (cases x) (auto split: option.splits)
qed simp

lemma record_total: "malformed_ok m \<Longrightarrow> malformed_total (record_malformed source field d v m) = malformed_total m + 1"
  using sum_update[of "mf_counts m" "source @ ''.'' @ field" "count_of m (source @ ''.'' @ field)"]
  by (simp add: malformed_ok_def malformed_total_def record_malformed_def Let_def count_of_def split: option.splits)

lemma record_ok: "malformed_ok m \<Longrightarrow> malformed_ok (record_malformed source field d v m)"
proof -
  assume ok: "malformed_ok m"
  have few: "length (examples_of m k) \<le> MAX_EXAMPLES" for k
    using ok by (auto simp: malformed_ok_def examples_of_def list_all_iff split: option.splits dest!: map_of_SomeD)
  have upd: "list_all (\<lambda>(k, es). length es \<le> n) (AList.update k es xs)"
    if "length es \<le> n" "list_all (\<lambda>(k, es). length es \<le> n) xs" for n k and es :: "(pyval \<times> string) list" and xs
    using that by (induction xs) (auto split: if_splits)
  show ?thesis using ok few by (auto simp: malformed_ok_def record_malformed_def Let_def distinct_update intro!: upd)
qed

text \<open>Reading never alters a stored time and counts exactly what it could not read.\<close>

lemma report_counts:
  assumes "malformed_ok m" and "parse_epoch_or_report tm source field d v m = Some (t, m')"
  shows "malformed_ok m' \<and> malformed_total m' = malformed_total m + (if v \<noteq> PNone \<and> t = None then 1 else 0)"
  using assms record_ok record_total by (auto simp: parse_epoch_or_report_def split: if_splits)

lemma coerced_is_readable:
  assumes "coerce_epoch tm v dflt = Some (Some t)"
  shows "parse_epoch tm (PFloat (Fin t) txt) = Some (Some t)"
  by (simp add: parse_epoch_def finite_only_def)

end
