(* ===== verification/Memory_Decay.thy ===== *)
theory Memory_Decay
  imports Learning_Graph Use_Ledger Epoch_Times
begin

text \<open>
  The daily decay pass, \<open>MemoryDecay.run_decay\<close> of \<open>decay.py\<close>: every document gets a score from its age, its
  accesses and its kind; the use ledger demotes and evicts what is shown often and never used.

  \<open>store\<close> holds the tables; the columns only this pass reads are functions of the row's key beside it: of a
  document its times, accesses, score and protection, of a learning its confidence and protection.  The column
  \<open>pinned\<close> is not part of the migrated schema, where it reads as false.  \<open>math.pow(0.5, x)\<close> is a parameter,
  \<open>None\<close> its \<open>OverflowError\<close>.  A pass that raises rolls the tables back (\<open>Aborted\<close>).
\<close>

section \<open>State\<close>

record doc_columns =
  dc_indexed :: pyval
  dc_accessed :: pyval
  dc_count :: int
  dc_score :: "rat option"
  dc_whole :: bool
  dc_pinned :: bool

record decay_db =
  db_store :: store
  db_doc :: "int \<Rightarrow> doc_columns"
  db_confidence :: "int \<Rightarrow> rat option"
  db_pinned :: "int \<Rightarrow> bool"

record decay_env =
  de_half_life_days :: rat
  de_min_score :: rat
  de_correction_types :: "string list"
  de_grace_days :: rat
  de_floor :: rat
  de_pow_half :: "rat \<Rightarrow> rat option"
  de_time :: time_reader
  de_sha1 :: "string \<Rightarrow> string"
  de_vault :: string

record decay_stats =
  ds_updated :: nat
  ds_reinforced :: nat
  ds_bad_indexed :: nat
  ds_bad_accessed :: nat
  ds_demoted :: nat
  ds_evicted :: nat
  ds_evicted_learnings :: nat
  ds_penalized_learnings :: nat
  ds_evicted_documents :: nat
  ds_penalized_documents :: nat

definition zero_stats :: decay_stats where
  "zero_stats = \<lparr>ds_updated = 0, ds_reinforced = 0, ds_bad_indexed = 0, ds_bad_accessed = 0, ds_demoted = 0, ds_evicted = 0,
     ds_evicted_learnings = 0, ds_penalized_learnings = 0, ds_evicted_documents = 0, ds_penalized_documents = 0\<rparr>"

text \<open>The variables of the loops: the database, the counters, what is gone already and the skipped times.\<close>

record decay_run =
  dr_db :: decay_db
  dr_stats :: decay_stats
  dr_gone_docs :: "int list"
  dr_gone_learnings :: "int list"
  dr_skips :: malformed

definition EVICT_REASON :: string where "EVICT_REASON = ''use_ledger_unreferenced_25_8''"

section \<open>The score of a document\<close>

definition access_boost :: "int \<Rightarrow> rat" where
  "access_boost n = min (of_int n / 20) (1 / 2)"

definition decayed_score :: "decay_env \<Rightarrow> rat \<Rightarrow> int \<Rightarrow> rat option" where
  "decayed_score env age count =
    (let half_life = de_half_life_days env * 86400 in
     map_option (\<lambda>raw. max (de_min_score env) (min 1 (raw + access_boost count)))
       (if 0 < half_life then de_pow_half env (age / half_life) else Some 1))"

definition correction_score :: "decay_env \<Rightarrow> rat \<Rightarrow> rat \<Rightarrow> string option \<Rightarrow> rat \<Rightarrow> rat" where
  "correction_score env now indexed_at page_type s =
    (if py_lower (case page_type of None \<Rightarrow> [] | Some t \<Rightarrow> t) \<notin> set (de_correction_types env) then s
     else if now - indexed_at \<le> de_grace_days env * 86400 then 1 else max s (de_floor env))"

definition DEMOTE_MULTIPLIER :: rat where "DEMOTE_MULTIPLIER = 1 / 2"

definition demoted_score :: "ledger_stats option \<Rightarrow> rat \<Rightarrow> rat" where
  "demoted_score u s = (case u of Some x \<Rightarrow> if should_demote x then round4 (s * DEMOTE_MULTIPLIER) else s | None \<Rightarrow> s)"

text \<open>\<open>row["decay_score"] or 1.0\<close>.\<close>

definition old_score :: "doc_columns \<Rightarrow> rat" where
  "old_score d = (case dc_score d of None \<Rightarrow> 1 | Some s \<Rightarrow> if s = 0 then 1 else s)"

definition set_score :: "int \<Rightarrow> rat \<Rightarrow> decay_db \<Rightarrow> decay_db" where
  "set_score did s db = db\<lparr>db_doc := (db_doc db)(did := (db_doc db did)\<lparr>dc_score := Some s\<rparr>)\<rparr>"

definition demotes :: "ledger_stats option \<Rightarrow> bool" where
  "demotes u \<longleftrightarrow> (case u of None \<Rightarrow> False | Some x \<Rightarrow> should_demote x)"

definition rescore ::
  "decay_env \<Rightarrow> rat \<Rightarrow> document \<Rightarrow> doc_columns \<Rightarrow> ledger_stats option \<Rightarrow> decay_run \<Rightarrow> decay_run option" where
  "rescore env now row cols u run =
    (case parse_epoch_or_report (de_time env) ''decay.run_decay'' ''indexed_at'' (PInt (d_id row)) (dc_indexed cols) (dr_skips run) of
       None \<Rightarrow> None
     | Some (indexed, skips1) \<Rightarrow>
       (case parse_epoch_or_report (de_time env) ''decay.run_decay'' ''last_accessed'' (PInt (d_id row)) (dc_accessed cols) skips1 of
          None \<Rightarrow> None
        | Some (accessed, skips2) \<Rightarrow>
           (let indexed_at = (case indexed of None \<Rightarrow> now | Some t \<Rightarrow> t);
                reference_time = (case accessed of None \<Rightarrow> indexed_at | Some t \<Rightarrow> if t = 0 then indexed_at else t)
            in case decayed_score env (now - reference_time) (dc_count cols) of
                 None \<Rightarrow> None
               | Some fresh \<Rightarrow>
                  (let new_score = demoted_score u (correction_score env now indexed_at (d_page_type row) fresh);
                       change = 1 / 1000 < \<bar>new_score - old_score cols\<bar>;
                       s = dr_stats run
                   in Some (run\<lparr>
                        dr_db := (if change then set_score (d_id row) (round4 new_score) (dr_db run) else dr_db run),
                        dr_skips := skips2,
                        dr_stats := s\<lparr>
                          ds_bad_indexed := ds_bad_indexed s + (if dc_indexed cols \<noteq> PNone \<and> indexed = None then 1 else 0),
                          ds_bad_accessed := ds_bad_accessed s + (if dc_accessed cols \<noteq> PNone \<and> accessed = None then 1 else 0),
                          ds_demoted := ds_demoted s + (if demotes u then 1 else 0),
                          ds_penalized_documents := ds_penalized_documents s + (if demotes u then 1 else 0),
                          ds_updated := ds_updated s + (if change then 1 else 0),
                          ds_reinforced := ds_reinforced s + (if change \<and> 0 < access_boost (dc_count cols) then 1 else 0)\<rparr>\<rparr>)))))"

section \<open>Eviction by the ledger\<close>

text \<open>The documents an eviction of the learning takes with it: those no other learning maps to.\<close>

definition evicted_with :: "decay_env \<Rightarrow> int \<Rightarrow> store \<Rightarrow> int list" where
  "evicted_with env lid st = filter (\<lambda>did. did \<notin> snd ` set (filter (\<lambda>j. fst j \<noteq> lid) (st_joins st)))
     (evicted_doc_ids (de_sha1 env) (de_vault env) lid st)"

definition count_eviction :: "bool \<Rightarrow> decay_stats \<Rightarrow> decay_stats" where
  "count_eviction learning s = (if learning
     then s\<lparr>ds_evicted := ds_evicted s + 1, ds_evicted_learnings := ds_evicted_learnings s + 1\<rparr>
     else s\<lparr>ds_evicted := ds_evicted s + 1, ds_evicted_documents := ds_evicted_documents s + 1\<rparr>)"

definition evict_learning_row :: "decay_env \<Rightarrow> int \<Rightarrow> decay_run \<Rightarrow> decay_run option" where
  "evict_learning_row env lid run =
    (let st = db_store (dr_db run) in
     case evict_learning_to_cold_archive (de_sha1 env) (de_vault env) lid EVICT_REASON st of
       (None, _) \<Rightarrow> None
     | (Some _, st') \<Rightarrow> Some (run\<lparr>dr_db := (dr_db run)\<lparr>db_store := st'\<rparr>,
          dr_gone_docs := dr_gone_docs run @ evicted_with env lid st,
          dr_gone_learnings := dr_gone_learnings run @ [lid], dr_stats := count_eviction True (dr_stats run)\<rparr>))"

definition evict_document_row :: "int \<Rightarrow> decay_run \<Rightarrow> decay_run" where
  "evict_document_row did run = run\<lparr>
     dr_db := (dr_db run)\<lparr>db_store := snd (evict_document_to_cold_archive did EVICT_REASON (db_store (dr_db run)))\<rparr>,
     dr_gone_docs := dr_gone_docs run @ [did], dr_stats := count_eviction False (dr_stats run)\<rparr>"

text \<open>\<open>doc_to_learning\<close>: of several learnings of a document the last row counts.\<close>

definition linked_learning :: "(int \<times> int) list \<Rightarrow> int \<Rightarrow> int option" where
  "linked_learning joins did = map_option fst (find (\<lambda>j. snd j = did) (rev joins))"

definition is_identity :: "document \<Rightarrow> doc_columns \<Rightarrow> bool" where
  "is_identity row cols \<longleftrightarrow> dc_whole cols \<or> starts_with (d_agent row) ''identity:''"

definition ledger_of_document :: "ledger \<Rightarrow> document \<Rightarrow> doc_columns \<Rightarrow> int option \<Rightarrow> ledger_stats option" where
  "ledger_of_document m row cols lid = (if is_identity row cols \<or> dc_pinned cols then None
     else lookup_document_ledger_stats m (d_id row) (d_path row) lid)"

definition decay_document ::
  "decay_env \<Rightarrow> ledger \<Rightarrow> rat \<Rightarrow> (int \<times> int) list \<Rightarrow> document \<times> doc_columns \<Rightarrow> decay_run \<Rightarrow> decay_run option" where
  "decay_document env m now joins rc run = (case rc of (row, cols) \<Rightarrow>
    (if d_id row \<in> set (dr_gone_docs run) then Some run
     else
       let lid = linked_learning joins (d_id row); u = ledger_of_document m row cols lid in
       case u of
         Some x \<Rightarrow>
           if should_evict x
           then (case lid of Some l \<Rightarrow> evict_learning_row env l run | None \<Rightarrow> Some (evict_document_row (d_id row) run))
           else rescore env now row cols u run
       | None \<Rightarrow> rescore env now row cols u run))"

section \<open>Learnings\<close>

definition decay_learning :: "decay_env \<Rightarrow> ledger \<Rightarrow> int \<times> rat option \<times> bool \<Rightarrow> decay_run \<Rightarrow> decay_run option" where
  "decay_learning env m rc run = (case rc of (lid, confidence, pinned) \<Rightarrow>
    (if lid \<in> set (dr_gone_learnings run) \<or> pinned then Some run
     else case lookup_learning_ledger_stats m lid None [] of
       None \<Rightarrow> Some run
     | Some x \<Rightarrow>
        if should_evict x
        then map_option (\<lambda>r. r\<lparr>dr_gone_docs := dr_gone_docs run\<rparr>) (evict_learning_row env lid run)
        else if should_demote x \<and> 1 / 2 < (case confidence of None \<Rightarrow> 1 | Some c \<Rightarrow> c)
        then (let s = dr_stats run in Some (run\<lparr>
          dr_db := (dr_db run)\<lparr>db_confidence := (db_confidence (dr_db run))
            (lid := Some (round4 ((case confidence of None \<Rightarrow> 1 | Some c \<Rightarrow> c) * DEMOTE_MULTIPLIER)))\<rparr>,
          dr_stats := s\<lparr>ds_demoted := ds_demoted s + 1, ds_penalized_learnings := ds_penalized_learnings s + 1\<rparr>\<rparr>))
        else Some run))"

definition active_learning_rows :: "decay_db \<Rightarrow> (int \<times> rat option \<times> bool) list" where
  "active_learning_rows db = map (\<lambda>l. (l_id l, db_confidence db (l_id l), db_pinned db (l_id l)))
     (filter (\<lambda>l. (case l_status l of None \<Rightarrow> True | Some s \<Rightarrow> s = ''active'') \<and> l_successor l = None) (st_learnings (db_store db)))"

section \<open>The pass\<close>

datatype decay_end = Aborted | Decayed decay_stats decay_db malformed

definition decay_rows :: "decay_db \<Rightarrow> (document \<times> doc_columns) list" where
  "decay_rows db = map (\<lambda>d. (d, db_doc db (d_id d))) (st_documents (db_store db))"

definition start_run :: "decay_db \<Rightarrow> malformed \<Rightarrow> decay_run" where
  "start_run db skips = \<lparr>dr_db = db, dr_stats = zero_stats, dr_gone_docs = [], dr_gone_learnings = [], dr_skips = skips\<rparr>"

definition decay_tables :: "decay_env \<Rightarrow> ledger \<Rightarrow> rat \<Rightarrow> decay_db \<Rightarrow> malformed \<Rightarrow> decay_run option" where
  "decay_tables env m now db skips =
    Option.bind (pass (decay_document env m now (st_joins (db_store db))) (decay_rows db) (start_run db skips))
      (\<lambda>run. if m = [] then Some run else pass (decay_learning env m) (active_learning_rows (dr_db run)) run)"

definition run_decay ::
  "decay_env \<Rightarrow> (string \<Rightarrow> pyval option) \<Rightarrow> (string \<times> string option) list \<Rightarrow> rat \<Rightarrow> decay_db \<Rightarrow> malformed \<Rightarrow> decay_end" where
  "run_decay env loads files now db skips = (case aggregate_use_ledger loads files of
     None \<Rightarrow> Aborted
   | Some m \<Rightarrow> (case decay_tables env m now db skips of
        None \<Rightarrow> Aborted
      | Some run \<Rightarrow> Decayed (dr_stats run) (dr_db run) (dr_skips run)))"

end
