(* ===== verification/Decay_Safety.thy ===== *)
theory Decay_Safety
  imports Memory_Decay Store_Conformity
begin

text \<open>
  What the decay pass may do: the counts of the ledger are those of its lines, a pass keeps the constraints of the
  schema, removes only what the ledger calls unused, and writes only scores in range.
\<close>

section \<open>The ledger counts its lines\<close>













section \<open>Removals\<close>

lemma document_eviction_tables:
  "st_learnings (snd (evict_document_to_cold_archive did r st)) = st_learnings st"
  "set (st_documents (snd (evict_document_to_cold_archive did r st))) = {d \<in> set (st_documents st). d_id d \<noteq> did}"
  "set (st_joins (snd (evict_document_to_cold_archive did r st))) \<subseteq> set (st_joins st)"
  by (auto simp: evict_document_to_cold_archive_def Let_def find_None_iff split: option.splits)

lemma document_eviction_ok: "store_ok st \<Longrightarrow> store_ok (snd (evict_document_to_cold_archive did r st))"
proof -
  assume ok: "store_ok st"
  have "snd j \<in> d_id ` set (filter (\<lambda>d. d_id d \<noteq> did) (st_documents st))" if "j \<in> set (st_joins st)" "snd j \<noteq> did" for j
  proof -
    have "snd j \<in> d_id ` set (st_documents st)" using ok that(1) by (auto simp: store_ok_def joins_ok_def)
    then show ?thesis using that(2) by auto
  qed
  then have "joins_ok (filter (\<lambda>j. snd j \<noteq> did) (st_joins st)) (l_id ` set (st_learnings st))
      (d_id ` set (filter (\<lambda>d. d_id d \<noteq> did) (st_documents st)))"
    using ok by (auto simp: store_ok_def joins_ok_def)
  then show ?thesis using ok
    by (auto simp: evict_document_to_cold_archive_def Let_def store_ok_def documents_ok_filter split: option.splits)
qed

lemma evicted_documents:
  assumes "evict_learning_to_cold_archive sha1 vault lid r st = (Some b, st')" and "d \<in> set (st_documents st)" and "d \<notin> set (st_documents st')"
  shows "d_id d \<in> set (evicted_doc_ids sha1 vault lid st)"
  using assms(1)
proof (cases rule: evict_cases)
  case absent
  then show ?thesis using assms by simp
next
  case evicted
  then show ?thesis using assms(2,3) by (auto simp: document_steps_documents store_simps)
qed

text \<open>
  A learning the ledger calls unused, by itself or through a document that no rule protects, and a document that goes
  by itself or with such a learning.
\<close>

definition evictable :: "ledger \<Rightarrow> decay_db \<Rightarrow> int \<Rightarrow> bool" where
  "evictable m db lid \<longleftrightarrow> (\<exists>u. should_evict u \<and>
     (lookup_learning_ledger_stats m lid None [] = Some u \<and> \<not> db_pinned db lid
      \<or> (\<exists>row\<in>set (st_documents (db_store db)). linked_learning (st_joins (db_store db)) (d_id row) = Some lid
           \<and> ledger_of_document m row (db_doc db (d_id row)) (Some lid) = Some u)))"

definition takeable :: "decay_env \<Rightarrow> ledger \<Rightarrow> decay_db \<Rightarrow> document \<Rightarrow> bool" where
  "takeable env m db d \<longleftrightarrow>
     (\<exists>u. should_evict u \<and> linked_learning (st_joins (db_store db)) (d_id d) = None
        \<and> ledger_of_document m d (db_doc db (d_id d)) None = Some u)
     \<or> (\<exists>lid. evictable m db lid \<and> d_id d \<in> set (evicted_doc_ids (de_sha1 env) (de_vault env) lid (db_store db)))"

definition descends :: "store \<Rightarrow> store \<Rightarrow> bool" where
  "descends st0 st \<longleftrightarrow> (\<forall>l\<in>set (st_learnings st). \<exists>k\<in>set (st_learnings st0). l_id k = l_id l \<and> l_agent k = l_agent l \<and> l_content k = l_content l)
     \<and> set (st_documents st) \<subseteq> set (st_documents st0) \<and> set (st_joins st) \<subseteq> set (st_joins st0)"

definition justified :: "decay_env \<Rightarrow> ledger \<Rightarrow> decay_db \<Rightarrow> decay_run \<Rightarrow> bool" where
  "justified env m db run \<longleftrightarrow>
     store_ok (db_store (dr_db run)) \<and> descends (db_store db) (db_store (dr_db run))
     \<and> (\<forall>l\<in>set (st_learnings (db_store db)). l_id l \<in> l_id ` set (st_learnings (db_store (dr_db run))) \<or> evictable m db (l_id l))
     \<and> (\<forall>d\<in>set (st_documents (db_store db)). d \<in> set (st_documents (db_store (dr_db run))) \<or> takeable env m db d)"

lemma evicted_docs_mono:
  assumes ok: "store_ok st0" and d: "descends st0 st"
  shows "set (evicted_doc_ids sha1 vault lid st) \<subseteq> set (evicted_doc_ids sha1 vault lid st0)"
proof -
  have row: "\<exists>k. learning_row st0 lid = Some k \<and> l_agent k = l_agent l \<and> l_content k = l_content l" if "learning_row st lid = Some l" for l
  proof -
    have l: "l \<in> set (st_learnings st)" "l_id l = lid" using that by (auto simp: learning_row_def find_Some_iff)
    then obtain k where k: "k \<in> set (st_learnings st0)" "l_id k = lid" "l_agent k = l_agent l" "l_content k = l_content l"
      using d by (auto simp: descends_def)
    then obtain k' where "learning_row st0 lid = Some k'" by (cases "learning_row st0 lid") (auto simp: learning_row_def find_None_iff)
    moreover from this have "k' \<in> set (st_learnings st0)" "l_id k' = lid" by (auto simp: learning_row_def find_Some_iff)
    moreover have "distinct (map l_id (st_learnings st0))" using ok by (simp add: store_ok_def learnings_ok_def)
    ultimately have "k' = k" using k(1,2) by (metis distinct_map inj_onD)
    then show ?thesis using \<open>learning_row st0 lid = Some k'\<close> k by simp
  qed
  have parts: "set (evicted_doc_ids sha1 vault lid s) = snd ` {j \<in> set (st_joins s). fst j = lid}
      \<union> d_id ` {d \<in> set (st_documents s). d_uri d = Some (learning_uri lid)}
      \<union> (case learning_row s lid of None \<Rightarrow> {} | Some l \<Rightarrow> if vault = [] then {}
           else d_id ` {d \<in> set (st_documents s). d_path d = durable_doc_path sha1 (if l_agent l = [] then ''main'' else l_agent l) vault (l_content l)})"
    for s by (cases "learning_row s lid") (simp_all add: evicted_doc_ids_def Let_def Un_assoc)
  have sub: "set (st_documents st) \<subseteq> set (st_documents st0)" "set (st_joins st) \<subseteq> set (st_joins st0)"
    using d by (simp_all add: descends_def)
  show ?thesis
  proof (cases "learning_row st lid")
    case None
    then show ?thesis unfolding parts using sub by auto
  next
    case (Some l)
    then obtain k where "learning_row st0 lid = Some k" "l_agent k = l_agent l" "l_content k = l_content l" using row by blast
    then show ?thesis unfolding parts using Some sub by auto
  qed
qed

lemma evict_learning_justified:
  assumes ok: "store_ok (db_store db)" and inv: "justified env m db run" and why: "evictable m db lid"
    and step: "evict_learning_row env lid run = Some run'"
  shows "justified env m db run'"
proof -
  let ?st = "db_store (dr_db run)" and ?st' = "db_store (dr_db run')"
  obtain b where ev: "evict_learning_to_cold_archive (de_sha1 env) (de_vault env) lid EVICT_REASON ?st = (Some b, ?st')"
    using step by (auto simp: evict_learning_row_def Let_def split: prod.splits option.splits)
  have st: "store_ok ?st" and d: "descends (db_store db) ?st" using inv by (simp_all add: justified_def)
  note t = evicted_tables[OF st ev]
  have ids: "l_id ` set (st_learnings ?st') = l_id ` set (st_learnings ?st) - {lid}" unfolding t(1) survivors_ids ..
  obtain P where docs: "st_documents ?st' = filter P (st_documents ?st)" using t(3) by blast
  have "descends (db_store db) ?st'"
    using d unfolding descends_def t(1,2) docs by (auto simp: survivors_def)
  moreover have "d \<in> set (st_documents ?st') \<or> takeable env m db d" if "d \<in> set (st_documents (db_store db))" for d
  proof (cases "d \<in> set (st_documents ?st)")
    case True
    then show ?thesis using evicted_documents[OF ev True] evicted_docs_mono[OF ok d] why unfolding takeable_def by blast
  next
    case False
    then show ?thesis using inv that by (auto simp: justified_def)
  qed
  moreover have "l_id l \<in> l_id ` set (st_learnings ?st') \<or> evictable m db (l_id l)" if "l \<in> set (st_learnings (db_store db))" for l
    using inv that why unfolding ids by (auto simp: justified_def)
  ultimately show ?thesis using evict_keeps_ok[OF st ev] by (auto simp: justified_def)
qed

lemma rescore_tables: "rescore env now row cols u run = Some run' \<Longrightarrow> db_store (dr_db run') = db_store (dr_db run)"
  by (auto simp: rescore_def Let_def set_score_def split: option.splits)

lemma document_step_justified:
  assumes ok: "store_ok (db_store db)" and rc: "rc \<in> set (decay_rows db)" and inv: "justified env m db run"
    and step: "decay_document env m now (st_joins (db_store db)) rc run = Some run'"
  shows "justified env m db run'"
proof -
  obtain row where row: "rc = (row, db_doc db (d_id row))" "row \<in> set (st_documents (db_store db))"
    using rc by (auto simp: decay_rows_def)
  let ?lid = "linked_learning (st_joins (db_store db)) (d_id row)"
  let ?u = "ledger_of_document m row (db_doc db (d_id row)) ?lid"
  have same: "justified env m db run'" if "db_store (dr_db run') = db_store (dr_db run)"
    using inv that by (simp add: justified_def)
  note run = step[unfolded decay_document_def row(1) prod.case Let_def]
  show ?thesis
  proof (cases "d_id row \<in> set (dr_gone_docs run) \<or> ?u = None \<or> \<not> should_evict (the ?u)")
    case True
    then have "db_store (dr_db run') = db_store (dr_db run)"
      using run by (cases ?u) (auto split: if_splits intro: rescore_tables)
    then show ?thesis by (rule same)
  next
    case False
    then obtain x where x: "?u = Some x" "should_evict x" "d_id row \<notin> set (dr_gone_docs run)" by auto
    show ?thesis
    proof (cases ?lid)
      case (Some l)
      then have "evictable m db l" using x row(2) unfolding evictable_def by auto
      moreover have "evict_learning_row env l run = Some run'" using run x Some by simp
      ultimately show ?thesis using evict_learning_justified[OF ok inv] by blast
    next
      case None
      then have take: "takeable env m db row" using x unfolding takeable_def by auto
      have gone: "run' = evict_document_row (d_id row) run" using run x None by simp
      have "d = row" if "d \<in> set (st_documents (db_store db))" "d_id d = d_id row" for d
        using ok row(2) that by (auto simp: store_ok_def documents_ok_def distinct_map dest: inj_onD)
      then show ?thesis using inv take document_eviction_ok document_eviction_tables
        unfolding gone justified_def evict_document_row_def descends_def by (simp add: subset_iff) blast
    qed
  qed
qed

definition learning_row_of :: "decay_db \<Rightarrow> int \<times> rat option \<times> bool \<Rightarrow> bool" where
  "learning_row_of db rc \<longleftrightarrow> (case rc of (lid, c, pinned) \<Rightarrow> c = db_confidence db lid \<and> pinned = db_pinned db lid)"

lemma learning_step_justified:
  assumes ok: "store_ok (db_store db)" and rc: "learning_row_of db rc" and inv: "justified env m db run"
    and step: "decay_learning env m rc run = Some run'"
  shows "justified env m db run'"
proof -
  obtain lid c where row: "rc = (lid, c, db_pinned db lid)" using rc by (auto simp: learning_row_of_def)
  consider "db_store (dr_db run') = db_store (dr_db run)"
    | x r where "lookup_learning_ledger_stats m lid None [] = Some x" "should_evict x" "\<not> db_pinned db lid"
        "evict_learning_row env lid run = Some r" "dr_db run' = dr_db r"
    using step by (auto simp: decay_learning_def row Let_def split: if_splits option.splits)
  then show ?thesis
  proof cases
    case 1
    then show ?thesis using inv by (simp add: justified_def)
  next
    case (2 x r)
    then have "evictable m db lid" unfolding evictable_def by auto
    then show ?thesis using evict_learning_justified[OF ok inv _ 2(4)] 2(5) by (simp add: justified_def)
  qed
qed

end
