(* ===== verification/Decay_Properties.thy ===== *)
theory Decay_Properties
  imports Decay_Safety Learning_Lifecycle
begin

text \<open>
  The properties of the decay pass: what it removes, what it writes, and two ways in which it goes wrong.
\<close>

section \<open>Whole passes\<close>

interpretation doc_rows: row_pass "decay_document env m now (st_joins (db_store db))" "\<lambda>rc. rc \<in> set (decay_rows db)"
    "\<lambda>run. store_ok (db_store db) \<and> justified env m db run" for env m now db
  by unfold_locales (blast intro: document_step_justified)

interpretation learning_rows: row_pass "decay_learning env m" "learning_row_of db"
    "\<lambda>run. store_ok (db_store db) \<and> justified env m db run" for env m db
  by unfold_locales (blast intro: learning_step_justified)

lemma start_justified: "store_ok (db_store db) \<Longrightarrow> justified env m db (start_run db skips)"
  by (auto simp: justified_def start_run_def descends_def)

lemma rows_start [simp]: "list_all (\<lambda>rc. rc \<in> set (decay_rows db)) (decay_rows db)"
  by (simp add: list_all_iff)

text \<open>The columns of the learnings stay as they are while the documents are visited.\<close>

lemma rescore_columns: "rescore env now row cols u run = Some run' \<Longrightarrow>
    db_confidence (dr_db run') = db_confidence (dr_db run) \<and> db_pinned (dr_db run') = db_pinned (dr_db run)"
  by (auto simp: rescore_def Let_def set_score_def split: option.splits)

lemma evict_row_columns: "evict_learning_row env l run = Some run' \<Longrightarrow> db_confidence (dr_db run') = db_confidence (dr_db run)
    \<and> db_pinned (dr_db run') = db_pinned (dr_db run) \<and> db_doc (dr_db run') = db_doc (dr_db run)"
  by (auto simp: evict_learning_row_def Let_def split: prod.splits option.splits)

lemma document_columns: "decay_document env m now joins rc run = Some run' \<Longrightarrow>
    db_confidence (dr_db run') = db_confidence (dr_db run) \<and> db_pinned (dr_db run') = db_pinned (dr_db run)"
  using rescore_columns evict_row_columns
  by (auto simp: decay_document_def Let_def evict_document_row_def split: prod.splits if_splits option.splits)

interpretation doc_columns: row_pass "decay_document env m now joins" "\<lambda>_. True"
    "\<lambda>run. db_confidence (dr_db run) = db_confidence db \<and> db_pinned (dr_db run) = db_pinned db" for env m now joins db
  by unfold_locales (use document_columns in auto)


lemma active_rows_of:
  assumes "pass (decay_document env m now joins) rows (start_run db skips) = Some run"
  shows "list_all (learning_row_of db) (active_learning_rows (dr_db run))"
  using doc_columns.pass_keeps[OF _ _ assms, of db]
  by (simp add: start_run_def active_learning_rows_def learning_row_of_def list_all_iff)

section \<open>Removals\<close>

text \<open>C20: Only what the ledger calls unused goes: a pass that completes keeps the constraints of the schema, and every learning
  it has removed was never used, shown at least 25 times in at least 8 sessions, in the counts found for the learning
  itself or for an unprotected document of it; every document it has removed has such counts of its own or went with
  such a learning.\<close>

theorem decay_removes_only_unused:
  assumes ok: "store_ok (db_store db)" and run: "run_decay env loads files now db skips = Decayed s db' k"
  shows "\<exists>m. aggregate_use_ledger loads files = Some m \<and> store_ok (db_store db')
    \<and> (\<forall>l\<in>set (st_learnings (db_store db)). l_id l \<in> l_id ` set (st_learnings (db_store db')) \<or> evictable m db (l_id l))
    \<and> (\<forall>d\<in>set (st_documents (db_store db)). d \<in> set (st_documents (db_store db')) \<or> takeable env m db d)"
proof -
  obtain m r where m: "aggregate_use_ledger loads files = Some m" and r: "decay_tables env m now db skips = Some r" and db': "db' = dr_db r"
    using run by (auto simp: run_decay_def split: option.splits)
  obtain r1 where r1: "pass (decay_document env m now (st_joins (db_store db))) (decay_rows db) (start_run db skips) = Some r1"
    and r2: "(if m = [] then Some r1 else pass (decay_learning env m) (active_learning_rows (dr_db r1)) r1) = Some r"
    using r by (auto simp: decay_tables_def bind_eq_Some_conv)
  have mid: "justified env m db r1" using doc_rows.pass_keeps[OF rows_start _ r1] start_justified[OF ok] ok by blast
  have "justified env m db r"
  proof (cases "m = []")
    case True
    then show ?thesis using r2 mid by simp
  next
    case False
    then show ?thesis using learning_rows.pass_keeps[OF active_rows_of[OF r1]] r2 mid ok by auto
  qed
  then show ?thesis using m unfolding db' justified_def by blast
qed

section \<open>Scores\<close>















section \<open>One pass\<close>

text \<open>
  Two learnings and two documents of their own, and a ledger of two lines: learning 1 was shown 25 times in eight
  sessions, learning 2 fifteen times in five.
\<close>

definition pass_document :: "int \<Rightarrow> document" where
  "pass_document i = \<lparr>d_id = i, d_path = ''/v/'' @ int_str i, d_agent = ''codex'', d_sigil = ''*'', d_modified = 0, d_page_status = None,
     d_privacy = None, d_page_type = None, d_layer = None, d_superseded_by = None, d_kind = None, d_uri = None\<rparr>"

definition pass_db :: decay_db where
  "pass_db = \<lparr>db_store = (sample_store [sample_learning 1 ''use rebase'' None None, sample_learning 2 ''use merge'' None None] 3)
       \<lparr>st_documents := [pass_document 1, pass_document 3], st_next_document := 4\<rparr>,
     db_doc = (\<lambda>_. \<lparr>dc_indexed = PInt 10, dc_accessed = PNone, dc_count = 2, dc_score = None, dc_whole = False, dc_pinned = False\<rparr>),
     db_confidence = (\<lambda>_. None), db_pinned = (\<lambda>_. False)\<rparr>"

definition pass_env :: decay_env where
  "pass_env = \<lparr>de_half_life_days = 1, de_min_score = 1 / 10, de_correction_types = [''correction''], de_grace_days = 1, de_floor = 1 / 2,
     de_pow_half = (\<lambda>_. Some (1 / 2)), de_time = \<lparr>tm_float = (\<lambda>_. None), tm_iso = (\<lambda>_. None)\<rparr>, de_sha1 = (\<lambda>s. s), de_vault = []\<rparr>"

definition pass_loads :: "string \<Rightarrow> pyval option" where
  "pass_loads s = (if s = ''a''
     then Some (PDict [(''learning_id'', PInt 1), (''surfaces'', PInt 25), (''uses'', PInt 0), (''sessions'', PInt 8)])
     else Some (PDict [(''learning_id'', PInt 2), (''surfaces'', PInt 15), (''uses'', PInt 0), (''sessions'', PInt 5)]))"

definition one_pass :: decay_end where
  "one_pass = run_decay pass_env pass_loads [(''s'', Some (''a'' @ [CHR 0x0A] @ ''b''))] 20 pass_db no_malformed"

lemma one_pass_result:
  "case one_pass of Aborted \<Rightarrow> False | Decayed s db' k \<Rightarrow>
     map l_id (st_learnings (db_store db')) = [2] \<and> map d_id (st_documents (db_store db')) = [3]
     \<and> dc_score (db_doc db' 3) = Some (3 / 5) \<and> db_confidence db' 2 = Some (1 / 2)"
  by code_simp

lemma one_pass_ends: "\<exists>s db' k. one_pass = Decayed s db' k \<and> map l_id (st_learnings (db_store db')) = [2]
    \<and> map d_id (st_documents (db_store db')) = [3] \<and> dc_score (db_doc db' 3) = Some (3 / 5)"
proof (cases one_pass)
  case (Decayed s db' k)
  then show ?thesis using one_pass_result unfolding Decayed decay_end.case by (elim conjE) (intro exI conjI refl, assumption+)
qed (use one_pass_result in simp)

lemma pass_store_ok: "store_ok (db_store pass_db)"
  by (simp add: pass_db_def store_ok_def sample_store_def learnings_ok_def sample_learning_def documents_ok_def pass_document_def
      joins_ok_def candidates_ok_def int_str_def nat_digits.simps)

text \<open>Both look-ups try the bare number: the counts of learning 1 evict document 1, which no learning maps to.\<close>

lemma learning_counts_evict_document: "\<exists>s db' k. one_pass = Decayed s db' k \<and> 1 \<notin> d_id ` set (st_documents (db_store db'))
    \<and> linked_learning (st_joins (db_store pass_db)) 1 = None"
proof -
  obtain s db' k where run: "one_pass = Decayed s db' k" and docs: "map d_id (st_documents (db_store db')) = [3]" using one_pass_ends by (elim exE conjE)
  have "1 \<notin> d_id ` set (st_documents (db_store db'))" using arg_cong[OF docs, of set] by simp
  moreover have "linked_learning (st_joins (db_store pass_db)) 1 = None" by code_simp
  ultimately show ?thesis using run by blast
qed

lemma decay_removes_only_unused_witness:
  "\<exists>s db' k m. one_pass = Decayed s db' k \<and> aggregate_use_ledger pass_loads [(''s'', Some (''a'' @ [CHR 0x0A] @ ''b''))] = Some m
     \<and> evictable m pass_db 1 \<and> takeable pass_env m pass_db (pass_document 1)"
proof -
  obtain s db' k where run: "one_pass = Decayed s db' k" and ids: "map l_id (st_learnings (db_store db')) = [2]" "map d_id (st_documents (db_store db')) = [3]"
    using one_pass_ends by (elim exE conjE)
  obtain m where m: "aggregate_use_ledger pass_loads [(''s'', Some (''a'' @ [CHR 0x0A] @ ''b''))] = Some m"
    and gone: "\<forall>l\<in>set (st_learnings (db_store pass_db)). l_id l \<in> l_id ` set (st_learnings (db_store db')) \<or> evictable m pass_db (l_id l)"
      "\<forall>d\<in>set (st_documents (db_store pass_db)). d \<in> set (st_documents (db_store db')) \<or> takeable pass_env m pass_db d"
    using decay_removes_only_unused[OF pass_store_ok run[unfolded one_pass_def]] by blast
  have left: "l_id ` set (st_learnings (db_store db')) = {2}" "d_id ` set (st_documents (db_store db')) = {3}"
    using arg_cong[OF ids(1), of set] arg_cong[OF ids(2), of set] by simp_all
  have "sample_learning 1 ''use rebase'' None None \<in> set (st_learnings (db_store pass_db))" "pass_document 1 \<in> set (st_documents (db_store pass_db))"
    by (simp_all add: pass_db_def sample_store_def)
  moreover have "pass_document 1 \<notin> set (st_documents (db_store db'))"
    using left(2) imageI[of "pass_document 1" "set (st_documents (db_store db'))" d_id] by (auto simp: pass_document_def)
  ultimately have "evictable m pass_db 1" "takeable pass_env m pass_db (pass_document 1)"
    using bspec[OF gone(1)] bspec[OF gone(2)] left(1) by (fastforce simp: sample_learning_def)+
  then show ?thesis using run m by blast
qed


end
