(* ===== verification/Confidence.thy ===== *)
theory Confidence
  imports Py_Words "HOL-Library.Sublist"
begin

text \<open>
  Calibrated confidence (\<open>scoring.py\<close>): the blend of the retrieval signals, the rolling window of past blends in the
  table \<open>score_distribution\<close> and the percentile rank in it.

  The table is the list of its rows in the order of their ids.  \<open>sigmoid\<close> is \<open>1 / (1 + exp (-x))\<close> in floats, \<open>None\<close>
  its \<open>OverflowError\<close>.  A call of the database answers, fails with an ordinary exception or meets the deadline of the
  request, which alone is raised (\<open>None\<close>).
\<close>

definition WINDOW_SIZE :: nat where "WINDOW_SIZE = 1000"
definition ACTIVATION_THRESHOLD :: nat where "ACTIVATION_THRESHOLD = 10"

datatype db_call = Answers | Fails | Expires

record score_row =
  sr_raw :: rat
  sr_kind :: string

definition combined :: "score_row list \<Rightarrow> rat list" where
  "combined rows = map sr_raw (filter (\<lambda>r. sr_kind r = ''combined'') rows)"

text \<open>\<open>ORDER BY id DESC LIMIT n\<close>.\<close>

definition newest :: "nat \<Rightarrow> 'a list \<Rightarrow> 'a list" where
  "newest n xs = drop (length xs - n) xs"

definition window :: "score_row list \<Rightarrow> rat list" where
  "window rows = newest WINDOW_SIZE (combined rows)"

section \<open>The blend\<close>

definition raw_confidence :: "(rat \<Rightarrow> rat option) \<Rightarrow> rat option \<Rightarrow> rat option \<Rightarrow> rat option \<Rightarrow> rat" where
  "raw_confidence sigmoid rrf_score cross_encoder_score decay_factor =
    (let rrf = (case rrf_score of None \<Rightarrow> 0 | Some r \<Rightarrow> r);
         decay = (case decay_factor of None \<Rightarrow> 1 | Some d \<Rightarrow> d);
         raw = (case Option.bind cross_encoder_score sigmoid of
           Some ce \<Rightarrow> 6 / 10 * ce + 4 / 10 * min 1 (rrf * 20)
         | None \<Rightarrow> min 1 (rrf * 61))
     in raw * max 0 (min 1 decay))"

section \<open>Calibration\<close>

definition rank_in :: "rat list \<Rightarrow> rat \<Rightarrow> rat" where
  "rank_in w raw = (if length w < ACTIVATION_THRESHOLD then raw
     else of_nat (length (filter (\<lambda>x. x \<le> raw) w)) / of_nat (length w))"

definition calibrate :: "db_call \<Rightarrow> score_row list \<Rightarrow> rat \<Rightarrow> rat option" where
  "calibrate c rows raw = (case c of Answers \<Rightarrow> Some (rank_in (window rows) raw) | Fails \<Rightarrow> Some raw | Expires \<Rightarrow> None)"

definition clamped :: "rat \<Rightarrow> rat" where
  "clamped x = round4 (max 0 (min 1 x))"

definition calibrated_confidence :: "db_call \<Rightarrow> score_row list \<Rightarrow> rat \<Rightarrow> rat option" where
  "calibrated_confidence c rows raw = map_option clamped (calibrate c rows raw)"

text \<open>Insertion and pruning are one transaction.\<close>

definition prune :: "string \<Rightarrow> nat \<Rightarrow> score_row list \<Rightarrow> score_row list" where
  "prune kind n rows = (let old = length (filter (\<lambda>r. sr_kind r = kind) rows) - n
     in map snd (filter (\<lambda>(i, r). sr_kind r = kind \<longrightarrow> old \<le> length (filter (\<lambda>r. sr_kind r = kind) (take i rows)))
          (enumerate 0 rows)))"

definition record_score :: "db_call \<Rightarrow> rat \<Rightarrow> string \<Rightarrow> score_row list \<Rightarrow> score_row list option" where
  "record_score c raw_score kind rows = (case c of
     Answers \<Rightarrow> Some (prune kind (2 * WINDOW_SIZE) (rows @ [\<lparr>sr_raw = raw_score, sr_kind = kind\<rparr>]))
   | Fails \<Rightarrow> Some rows
   | Expires \<Rightarrow> None)"

text \<open>Without a database the blend is only clamped; with one it may be recorded first and is then calibrated.\<close>

definition compute_confidence ::
  "(rat \<Rightarrow> rat option) \<Rightarrow> rat option \<Rightarrow> rat option \<Rightarrow> rat option \<Rightarrow> (db_call \<times> db_call \<times> score_row list) option \<Rightarrow> bool
     \<Rightarrow> (rat \<times> score_row list) option" where
  "compute_confidence sigmoid rrf_score cross_encoder_score decay_factor db record_it =
    (let raw = raw_confidence sigmoid rrf_score cross_encoder_score decay_factor in
     case db of
       None \<Rightarrow> Some (clamped raw, [])
     | Some (writes, reads, rows) \<Rightarrow>
        Option.bind (if record_it then record_score writes raw ''combined'' rows else Some rows)
          (\<lambda>rows1. map_option (\<lambda>x. (clamped x, rows1)) (calibrate reads rows1 raw)))"

record calibration =
  ca_window_rows :: nat
  ca_active :: bool
  ca_basis :: string
  ca_samples_until_active :: nat

definition calibration_status :: "score_row list \<Rightarrow> calibration" where
  "calibration_status rows = (let n = length (window rows); active = (ACTIVATION_THRESHOLD \<le> n) in
     \<lparr>ca_window_rows = n, ca_active = active, ca_basis = (if active then ''percentile_rank'' else ''raw_blend''),
      ca_samples_until_active = ACTIVATION_THRESHOLD - n\<rparr>)"

section \<open>The rank is monotone\<close>

lemma filter_le_mono: "x \<le> y \<Longrightarrow> length (filter (\<lambda>z. z \<le> x) w) \<le> length (filter (\<lambda>z. z \<le> (y :: rat)) w)"
  by (induction w) auto

lemma rank_mono: "x \<le> y \<Longrightarrow> rank_in w x \<le> rank_in w y"
  by (simp add: rank_in_def divide_right_mono filter_le_mono)

lemma clamped_mono: "x \<le> y \<Longrightarrow> clamped x \<le> clamped y"
  unfolding clamped_def by (intro round4_mono max.mono min.mono order_refl)

lemma clamped_range: "0 \<le> clamped x" "clamped x \<le> 1"
  using round4_mono[of 0 "max 0 (min 1 x)"] round4_mono[of "max 0 (min 1 x)" 1] by (simp_all add: clamped_def)

section \<open>Pruning keeps the newest rows\<close>

lemma prune_other: "filter (\<lambda>r. sr_kind r = k) (prune kind n rows) =
   (if k = kind then newest n (filter (\<lambda>r. sr_kind r = k) rows) else filter (\<lambda>r. sr_kind r = k) rows)"
proof -
  define old where "old = length (filter (\<lambda>r. sr_kind r = kind) rows) - n"
  have "filter (\<lambda>r. sr_kind r = k) (map snd (filter (\<lambda>(i, r). sr_kind r = kind \<longrightarrow> old \<le> length (filter (\<lambda>r. sr_kind r = kind) (take i rows)))
      (enumerate 0 rows)))
    = (if k = kind then drop old (filter (\<lambda>r. sr_kind r = k) rows) else filter (\<lambda>r. sr_kind r = k) rows)" for old
  proof (induction rows rule: rev_induct)
    case (snoc r rows)
    have "filter (\<lambda>(i, r'). sr_kind r' = kind \<longrightarrow> old \<le> length (filter (\<lambda>r. sr_kind r = kind) (take i (rows @ [r])))) (enumerate 0 rows)
      = filter (\<lambda>(i, r'). sr_kind r' = kind \<longrightarrow> old \<le> length (filter (\<lambda>r. sr_kind r = kind) (take i rows))) (enumerate 0 rows)"
      by (rule filter_cong) (auto simp: in_set_enumerate_eq)
    then show ?case using snoc by (auto simp: enumerate_append_eq)
  qed simp
  then show ?thesis by (simp add: prune_def newest_def Let_def)
qed

lemma newest_append:
  assumes "m \<le> n + length ys"
  shows "newest m (newest n xs @ ys) = newest m (xs @ ys)"
proof (cases "length xs \<le> n")
  case False
  then have cut: "newest n xs @ ys = drop (length xs - n) (xs @ ys)" by (simp add: newest_def)
  have "length (drop (length xs - n) (xs @ ys)) - m + (length xs - n) = length (xs @ ys) - m" using False assms by simp
  then show ?thesis unfolding cut unfolding newest_def drop_drop by (rule arg_cong)
qed (simp add: newest_def)

lemma newest_newest: "m \<le> n \<Longrightarrow> newest m (newest n xs) = newest m xs"
  using newest_append[of m n "[]" xs] by (simp only: append_Nil2 list.size add_0_right)

lemma newest_map: "newest n (map f xs) = map f (newest n xs)"
  by (simp add: newest_def drop_map)

lemma newest_length: "length (newest n xs) \<le> n"
  by (simp add: newest_def)

lemma combined_prune: "combined (prune kind n rows) = (if kind = ''combined'' then newest n (combined rows) else combined rows)"
  unfolding combined_def prune_other by (simp only: newest_map if_distrib[of "map sr_raw"] eq_commute[of kind])

text \<open>A run of recordings, and the same without pruning.\<close>

definition recorded :: "(db_call \<times> rat \<times> string) list \<Rightarrow> score_row list \<Rightarrow> score_row list" where
  "recorded = fold (\<lambda>(c, raw, kind) rows. case record_score c raw kind rows of None \<Rightarrow> rows | Some rows' \<Rightarrow> rows')"

definition history :: "(db_call \<times> rat \<times> string) list \<Rightarrow> score_row list \<Rightarrow> score_row list" where
  "history calls rows = rows @ map (\<lambda>(c, raw, kind). \<lparr>sr_raw = raw, sr_kind = kind\<rparr>) (filter (\<lambda>(c, _). c = Answers) calls)"

lemma recorded_keeps_newest:
  assumes "newest (2 * WINDOW_SIZE) (combined rows) = newest (2 * WINDOW_SIZE) (combined rows')"
  shows "newest (2 * WINDOW_SIZE) (combined (recorded calls rows)) = newest (2 * WINDOW_SIZE) (combined (history calls rows'))"
  using assms
proof (induction calls arbitrary: rows rows')
  case (Cons call calls)
  obtain c raw kind where call: "call = (c, raw, kind)" by (cases call)
  let ?x = "\<lparr>sr_raw = raw, sr_kind = kind\<rparr>"
  have next_row: "newest (2 * WINDOW_SIZE) (combined (prune kind (2 * WINDOW_SIZE) (rows @ [?x])))
      = newest (2 * WINDOW_SIZE) (combined (rows' @ [?x]))"
  proof (cases "kind = ''combined''")
    case True
    have "newest (2 * WINDOW_SIZE) (combined rows @ [raw]) = newest (2 * WINDOW_SIZE) (combined rows' @ [raw])"
      using newest_append[of "2 * WINDOW_SIZE" "2 * WINDOW_SIZE" "[raw]"] Cons.prems by (metis le_add1)
    then show ?thesis using True by (simp add: combined_prune newest_newest) (simp add: combined_def)
  next
    case False
    then show ?thesis using Cons.prems by (simp add: combined_prune) (simp add: combined_def)
  qed
  show ?case
  proof (cases "c = Answers")
    case True
    have "recorded (call # calls) rows = recorded calls (prune kind (2 * WINDOW_SIZE) (rows @ [?x]))"
      "history (call # calls) rows' = history calls (rows' @ [?x])"
      using True by (simp_all add: call recorded_def record_score_def history_def)
    then show ?thesis using Cons.IH[OF next_row] by simp
  next
    case False
    then have "recorded (call # calls) rows = recorded calls rows" "history (call # calls) rows' = history calls rows'"
      by (cases c; simp add: call recorded_def record_score_def history_def)+
    then show ?thesis using Cons by simp
  qed
qed (simp add: recorded_def history_def)

section \<open>The properties\<close>

text \<open>C21: The bounded table loses nothing a calibration reads: after any sequence of recordings, of any kinds and with any
  failures of the database, every calibrated confidence is what the full history of recordings would give, although at
  most two thousand scores of a kind are kept once one of them is recorded.\<close>

theorem pruning_is_invisible:
  "calibrated_confidence c (recorded calls rows) raw = calibrated_confidence c (history calls rows) raw
    \<and> length (combined (prune ''combined'' (2 * WINDOW_SIZE) rows)) \<le> 2 * WINDOW_SIZE"
proof -
  have "newest WINDOW_SIZE (combined (recorded calls rows)) = newest WINDOW_SIZE (combined (history calls rows))"
    using arg_cong[OF recorded_keeps_newest[OF refl], of "newest WINDOW_SIZE" calls rows] by (simp add: newest_newest)
  then show ?thesis
    by (simp add: calibrated_confidence_def calibrate_def window_def combined_prune newest_length split: db_call.split)
qed

text \<open>A confidence lies between 0 and 1, and a stronger blend never gets a smaller one from the same window.\<close>

theorem confidence_is_monotone:
  assumes "x \<le> y" and "calibrated_confidence c rows x = Some u" and "calibrated_confidence c rows y = Some v"
  shows "0 \<le> u \<and> u \<le> v \<and> v \<le> 1"
proof -
  obtain a b where "calibrate c rows x = Some a" "u = clamped a" "calibrate c rows y = Some b" "v = clamped b"
    using assms(2,3) by (auto simp: calibrated_confidence_def)
  moreover from this have "a \<le> b" using assms(1) rank_mono[OF assms(1)] by (auto simp: calibrate_def split: db_call.splits)
  ultimately show ?thesis using clamped_mono clamped_range by simp
qed

lemma confidence_is_monotone_witness:
  "\<exists>u v. calibrated_confidence Answers (replicate 9 \<lparr>sr_raw = 1 / 4, sr_kind = ''combined''\<rparr> @ [\<lparr>sr_raw = 3 / 4, sr_kind = ''combined''\<rparr>]) (1 / 2) = Some u
     \<and> calibrated_confidence Answers (replicate 9 \<lparr>sr_raw = 1 / 4, sr_kind = ''combined''\<rparr> @ [\<lparr>sr_raw = 3 / 4, sr_kind = ''combined''\<rparr>]) 1 = Some v
     \<and> 0 \<le> u \<and> u \<le> v \<and> v \<le> 1"
proof -
  let ?c = "\<lambda>x. calibrated_confidence Answers (replicate 9 \<lparr>sr_raw = 1 / 4, sr_kind = ''combined''\<rparr> @ [\<lparr>sr_raw = 3 / 4, sr_kind = ''combined''\<rparr>]) x"
  obtain u v where "?c (1 / 2) = Some u" "?c 1 = Some v" by (simp add: calibrated_confidence_def calibrate_def)
  with confidence_is_monotone[of "1 / 2" 1, OF _ this] show ?thesis by simp
qed

text \<open>The report on the calibration says what a calibration does.\<close>

lemma status_is_honest:
  "ca_active (calibration_status rows) \<longleftrightarrow> ca_samples_until_active (calibration_status rows) = 0"
  "\<not> ca_active (calibration_status rows) \<Longrightarrow> calibrate Answers rows raw = Some raw"
  by (auto simp: calibration_status_def calibrate_def rank_in_def Let_def)

end
