(* ===== verification/Spec2Isabelle.thy ===== *)
theory Spec2Isabelle
  imports Trace_Ring Relay_Delivery Handoff_Protocol Candidate_Privacy Trie_Recall Afm_Scheduler
    Expansion_Answer Merge_Agreement Rerank_Equivalence Chunk_Coverage Model_Targets Governance_Properties
    Redaction_Safety Learn_Properties Decay_Properties Confidence
begin

text \<open>
  A model of the core of Minni, a local memory daemon shared by several coding agents, with the
  theorems that make it correct.  All paths are under \<open>src/src/minni/\<close>.

  \<^bold>\<open>The program.\<close>  The daemon (\<open>minnid.py\<close>) answers JSON-RPC requests of agents on a local socket.  Every
  request passes a gate that resolves who is calling (\<open>minnid_runtime/provenance.py\<close>, \<open>principal.py\<close>),
  checks the capability of the method and runs a handler (\<open>minnid_runtime/dispatch.py\<close>).  Handlers read
  and write documents in per-agent vaults; each document shown to a caller first passes
  \<open>can_read_document\<close>.  Agents hand work to each other with handoffs
  (\<open>minnid_runtime/handoff.py\<close>): a lease row in SQLite and JSON packets in the vaults' inbox and outbox
  directories.  A second channel, the thread relay (\<open>thread_relay.py\<close>), delivers plan-journal events to
  subscribers with a cursor per subscriber and plan.  Two caches support retrieval: rerank scores
  (\<open>rerank_cache.py\<close>) and retrieval traces (\<open>trace.py\<close>).  When a learning is committed, a shortlist of
  related learnings is prepared for the edge classifier (\<open>graph_candidates.py\<close>).  A search fuses a lexical
  and a semantic ranking and re-ranks the result with a cross-encoder (\<open>semantic_rerank.py\<close>,
  \<open>fts_search.py\<close>); the links of the typed memory graph lead from its hits to further learnings
  (\<open>graph_expansion.py\<close>).  All of it runs under a request budget (\<open>request_deadline.py\<close>).  Fast recall answers from
  an in-memory token index (\<open>trie_index.py\<close>) that is loaded from the database, in full or from the last id
  seen.  When the daemon is idle, a scheduler (\<open>afm_scheduler.py\<close>) runs the maintenance passes.

  What agents propose to remember is staged as a candidate; \<open>minnid_runtime/governance.py\<close> resolves it, and only
  an acceptance writes a durable learning: a person's, or an unattended one where the operator has opted a
  principal in and neither the injection detector (\<open>safety.py\<close>) nor the quality and durability gates
  (\<open>afm_passes/consolidation.py\<close>, \<open>durability.py\<close>, \<open>afm_passes/harness_envelopes.py\<close>) object.  A learn first looks for
  contradicting memories (\<open>writeback.py\<close>); operators may force it, and a correction replaces memories at once and
  tells the agents that have read them.  Packets and answers pass a redaction (\<open>minnid_runtime/redaction.py\<close>).  The acceptance finds duplicates, evicts what it replaces to a cold
  archive (\<open>durable_projection.py\<close>), joins the learning to its canonical document (\<open>graph_commit.py\<close>) and releases
  the review fence of the candidate (\<open>afm_review_markers.py\<close>).  Passes that ask a language model cut their text
  into windows that fit its input (\<open>afm_chunking.py\<close>), and reach the model through a chain of providers with a
  policy on where a request may go (\<open>model_provider.py\<close>, \<open>config.py\<close>, \<open>afm_provider.py\<close>).

  A daily pass (\<open>decay.py\<close>) gives every document a score from its age, accesses and kind, and demotes or evicts what
  the use ledger shows often and used never; it reads stored times through \<open>timestamps.py\<close>, which skips and counts bad
  ones.  The confidence shown with a hit is a rank in a window of past scores (\<open>scoring.py\<close>).

  \<^bold>\<open>Theories.\<close>
    \<^item> \<open>Py_Values\<close>: Python values, truth, dictionaries in insertion order, string methods, \<open>str\<close>, \<open>repr\<close> and
      JSON text.  \<open>Ordered_Dict\<close>: \<open>OrderedDict\<close> and the contract of an eviction loop (locale \<open>eviction\<close>).
    \<^item> \<open>Principal\<close> (\<open>principal.py\<close>, two tables of \<open>tools/author_principals.py\<close>): principal files, aliases and
      learning scope, \<open>stamp_effective_principal\<close>, vault roots, \<open>can_read_document\<close>.  \<open>Identity_Gate\<close>: its
      theorems, and the locale \<open>read_gate\<close> (what a surface may rely on), interpreted on the real gate.
    \<^item> \<open>Rpc_Dispatch\<close> (\<open>rpc.py\<close>, \<open>provenance.py\<close>, \<open>dispatch.py\<close>, the tables of \<open>minnid.py\<close>): \<open>gate\<close> decides between
      a reply and a handler call, \<open>dispatch_request\<close> runs it, \<open>handler_principal\<close> and \<open>guard_vault_root\<close> are
      what handlers use.
    \<^item> \<open>Handoff_Packets\<close> (pure part of \<open>handoff.py\<close>), \<open>Handoff_Leases\<close> (its state and five handlers, the archive
      move of \<open>afm_passes/inbox_archive.py\<close>), \<open>Handoff_Protocol\<close> (theorems; locale \<open>settling\<close>, interpreted on
      lease rows and on packets).
    \<^item> \<open>Graph_Candidates\<close> (\<open>graph_candidates.py\<close>, \<open>truncate_to_tokens\<close> of \<open>edge_inference.py\<close>) and
      \<open>Candidate_Privacy\<close> (theorems).
    \<^item> \<open>Thread_Relay\<close> (\<open>thread_relay.py\<close>) and \<open>Relay_Delivery\<close> (theorems; locale \<open>delivery_cursor\<close>, interpreted on
      the SQLite table and on the JSON store).
    \<^item> \<open>Rerank_Cache\<close> (\<open>rerank_cache.py\<close>) and \<open>Trace_Ring\<close> (\<open>trace.py\<close>), each with its theorems and its
      interpretations of \<open>eviction\<close>.
    \<^item> \<open>Request_Deadline\<close> (\<open>request_deadline.py\<close>, \<open>request_operation\<close> of \<open>db.py\<close>), with its theorem.
      \<open>Graph_Expansion\<close> (\<open>graph_expansion.py\<close>) runs under it: every clock reading and database call of a run
      can end it.  \<open>Expansion_Safety\<close> shows what one seed may contribute, \<open>Expansion_Answer\<close> the theorems.
    \<^item> \<open>Rank_Fusion\<close> (the merges and the re-ranking of \<open>semantic_rerank.py\<close>, the reserved slots of
      \<open>fts_search.py\<close>); \<open>Rank_Order\<close> (order and slots; locale \<open>rank_stream\<close>, interpreted on the three ways of
      taking a row in), \<open>Merge_Agreement\<close> (the two merges agree), \<open>Rerank_Equivalence\<close> (the cache is
      transparent; the score adjustments).
    \<^item> \<open>Trie_Index\<close> (\<open>trie_index.py\<close>, the agent filter of \<open>fts_search.py\<close>) and \<open>Trie_Recall\<close> (theorems);
      \<open>Afm_Scheduler\<close> (\<open>afm_scheduler.py\<close> without its thread) with its theorems.
    \<^item> \<open>Py_Words\<close>: words, slices, integers in text, compact JSON.  \<open>Afm_Chunking\<close> (\<open>afm_chunking.py\<close>) and
      \<open>Chunk_Coverage\<close> (theorems); \<open>Model_Routing\<close> (\<open>model_provider.py\<close>, the routing parts of \<open>config.py\<close> and
      \<open>afm_provider.py\<close>) and \<open>Model_Targets\<close> (theorems).
    \<^item> \<open>Learning_Store\<close> (the tables, near duplicates and hashes), \<open>Learning_Graph\<close> (eviction, canonical nodes,
      retirement, fences), \<open>Store_Conformity\<close> (the schema as a predicate, kept by eviction), \<open>Learning_Lifecycle\<close>
      (theorems on nodes, retirement and eviction).  \<open>Candidate_Governance\<close> (\<open>resolve_candidate\<close>,
      \<open>list_candidates\<close> and who may call them), \<open>Governance_Safety\<close> (the ways a resolution ends and what an
      acceptance does to the tables), \<open>Governance_Properties\<close> (theorems).
    \<^item> \<open>Py_Regex\<close>: the regular expressions of the program as a data type with a backtracking matcher in Python's
      order of choices.  \<open>Text_Safety\<close> (\<open>safety.py\<close>, \<open>redaction.py\<close>) and \<open>Redaction_Safety\<close> (theorems);
      \<open>Harness_Envelopes\<close>, \<open>Durability\<close>, \<open>Quality_Gate\<close>: the gates of the unattended acceptance.
    \<^item> \<open>Candidate_Staging\<close> (\<open>stage_candidate\<close>), \<open>Staging_Safety\<close> (the ways a staging ends), \<open>Staging_Properties\<close>
      (theorems); \<open>Learn_Handlers\<close> (\<open>handle_learn\<close>, \<open>handle_resolve_contradiction\<close>,
      \<open>handle_subscribe_contradictions\<close>, \<open>detect_contradictions\<close> and the evidence edges of \<open>writeback.py\<close>) and
      \<open>Learn_Properties\<close> (theorems).
    \<^item> \<open>Row_Pass\<close>: loops over rows that an exception ends (locale \<open>row_pass\<close>).  \<open>Use_Ledger\<close> (the ledger of
      \<open>decay.py\<close>), \<open>Epoch_Times\<close> (\<open>timestamps.py\<close>), \<open>Memory_Decay\<close> (\<open>MemoryDecay.run_decay\<close>: \<open>decay_document\<close> and
      \<open>decay_learning\<close> are the bodies of its two loops), \<open>Decay_Safety\<close> (counts of the ledger, what a step may remove),
      \<open>Decay_Properties\<close> (theorems; \<open>row_pass\<close> interpreted on both loops).  \<open>Confidence\<close>: the whole of
      \<open>scoring.py\<close> with its theorems.

  \<^bold>\<open>How state and operations correspond.\<close>  An object's fields are a record (\<open>rerank_cache\<close>, \<open>trace_ring\<close>,
  \<open>relay_store\<close>, \<open>handoff_state\<close>, \<open>trie\<close>, \<open>scheduler\<close>, \<open>store\<close>); a method is a function from the arguments and the state to the result
  and the new state.  A lock makes a method one step, so an interleaving of callers is a list of
  operations, and the invariants are stated for every such list.  SQLite tables are association lists
  keyed by the primary key, or in \<open>store\<close> lists of rows; a transaction that raises gives back the tables but not the
  files; a database call that can fail takes a flag, and an input or output error of
  a delivery strikes at a chosen step.  Raised exceptions are \<open>Inl\<close> values.  Clock readings, uuids, the
  environment, path resolution, digests, the tokenizer, the embedder, \<open>json.loads\<close> and the timestamp
  parser are parameters.

  \<^bold>\<open>What the theorems show.\<close>  Identity: a caller is stamped with the id it names or refused, operator rights
  exist only where the operator wrote them, reserved ids are powerless on the wire, and the read gate
  confines callers to their vault roots and to shared pages of others.  Gate: a handler works with an
  identity that holds the method's capability, also under a spoofed stamp.  Handoffs: only the recipient
  on record settles a lease, settling is final on both channels, the pending list is exact, waits end,
  audit entries cannot be forged; and two defects: a lease can be taken over by resending its id, and a
  late failure denies a delivery that happened.  Shortlist: no text is read without authorization, the
  bounds hold, excerpts match their hashes.  Relay: cursors never move back, the two stores agree, every
  event is offered exactly once past the cursor.  Caches: least-recently-used order, bounds, owner
  isolation, no stale score after an invalidation; and one defect of the trace ring.  Token index: a search
  shows only loaded documents that pass its filters, in falling order of score, and a full load makes each
  document findable by the words of its header; and a defect: indexing a document raises the mark of the
  incremental load past documents not loaded yet.  Expansion: every neighbor is a readable open learning earned over stored links, paging loses no edge, and
  an expansion cut short answers with a prefix of the whole work.  Ranking: the fused score is the exact
  reciprocal-rank sum, the best lexical hits keep their slots, the two merges agree and the score cache never
  changes an answer; and two defects: the adjustments are not monotone at zero, and the general merge loses
  the similarity the floor after re-ranking needs.  Scheduler: a pass starts only when it is due and the daemon is idle,
  the most overdue one first, and two runs of a pass are at least its interval apart.  Governance: a
  resolution is terminal, needs the owner or an explicit operator, writes memory only under operator authority,
  changes nothing when it refuses, keeps the schema's constraints, releases the fences and leaves one recallable
  learning per author and text; and three defects: naming a duplicate hides the others from the search, evicting a
  learning revives what it had superseded, and a contradicted learning cannot be evicted.  Staging: a learn becomes
  durable unattended only under the operator's switch and past every gate, a row cannot claim a privacy or an
  origin that is not its own, and the queue of a principal is bounded; a lineage sent as text escapes the durability
  gate.  Learning: force is for operators, contradictions shown are the caller's own, a correction is all or nothing
  and leaves one event per memory it replaces, and subscribers hear only of what they have read.  Redaction: no
  local path is left behind; an article hides an instruction from the detector, a quoted secret from the redaction.
  Nodes: an existing
  document keeps its owner, path and privacy and is reopened only when its members had closed it; a shared
  document closes with its last active member.  Model calls: cutting a text loses no word, a request goes only to
  its own permitted target, local operations stay on the loopback interface, a cloud key is never in the providers
  file; and a defect: the reduction of partial results need not end.  Decay: the ledger counts its lines, a pass
  removes only what the ledger calls unused and keeps the schema, its scores stay in range, and every unreadable time is
  counted; a learning's counts are also found for the document of the same number.  Confidence: pruning the window
  loses nothing a calibration reads, and the rank is monotone.

  \<^bold>\<open>Bounds and termination.\<close>  Loops over lists are structural recursion.  The eviction loops are \<open>while\<close>
  loops, shown to end in \<open>Ordered_Dict\<close>.  A wait is a list of polls, and \<open>await_ends\<close> shows that it ends
  once the clock reaches the deadline.  The page walk of an expansion ends because each page moves the cursor
  past one more row of the store.  The search for duplicates ends because each turn takes a learning out of
  recall; a regular expression tries finitely many ways because a repetition stops at an empty round, and the
  pieces of a text get shorter; the recursive cutting of a text ends because the window shrinks to a floor.  The reduction by the model
  (\<open>reduce_via_same_op\<close>) is a partial function whose value \<open>None\<close> is a reduction that never returns:
  \<open>reduction_ends\<close> and \<open>reduction_may_not_end\<close> say when it does and when not.  No fuel is used.

  \<^bold>\<open>Limits.\<close>  Strings are Latin-1; three characters outside it (a dash and two ellipses) are replaced or
  parameters, and the two dashes of one pattern are left out.  Floats are the rationals they denote with their printed text.  Not modelled:
  vector and full-text retrieval, the transports of model calls, the SQL migrations, the log of episodic events, the AFM
  passes, the commit coordinator, the wire installer, the
  TypeScript plugin, evaluation and benchmarks; file modes, logging and the socket framing; of
  the decay pass the search for ledger files, the loop over all vault indexes and its report.  The column \<open>pinned\<close> of
  that pass is in no migration and reads as false; the power function, the sigmoid, the float parser and the ISO date
  parser are parameters, and an aborted pass is modelled as the tables rolled back, without the files and counters it
  leaves.
\<close>

end
